(* ===== verification/Prelude.thy ===== *)
theory Prelude
  imports Complex_Main
begin

text \<open>
  Shared vocabulary of the development: how the values of the TypeScript backend are
  represented, the few functions of the JavaScript standard library the modelled code
  calls, and the arithmetic lemmas the component theories share.

  \<^item> A JavaScript number that the code keeps integral (milliseconds, micro-coins,
    sequence numbers) is an \<open>int\<close>. Doubles are exact on integers below \<open>2 ^ 53\<close>; the
    theorem \<open>TickRefinement.tick_arith_safe\<close> bounds the products of the hot path below it.
    \<open>Math.floor (a / b)\<close> on such integers is \<open>a div b\<close>: the quotient of two integers
    below \<open>2 ^ 53\<close> that is not an integer is further from the next integer than half a
    unit in the last place.
  \<^item> A fractional number (a share, a display amount) is a \<open>rat\<close>.
  \<^item> A property that may be undefined or null is an \<open>option\<close>; \<open>Number(x) || 0\<close> on it is
    \<open>num0\<close>.
  \<^item> A string is a list of code units below 256; \<open>process.env\<close> is a partial function.
\<close>

named_theorems js_simps \<open>unfolding rules of the JavaScript library functions\<close>
named_theorems env_simps \<open>unfolding rules of the environment readers\<close>

type_synonym env = "string \<Rightarrow> string option"
type_synonym micros = int
type_synonym millis = int

section \<open>Numbers\<close>

definition COIN_MICROS :: int where
  "COIN_MICROS = 1000000"

definition js_round :: "rat \<Rightarrow> int" where
  "js_round x = \<lfloor>x + 1 / 2\<rfloor>"

definition num0 :: "int option \<Rightarrow> int" where
  "num0 x = (case x of None \<Rightarrow> 0 | Some n \<Rightarrow> n)"

definition nvl :: "'a option \<Rightarrow> 'a \<Rightarrow> 'a" where
  "nvl x d = (case x of None \<Rightarrow> d | Some v \<Rightarrow> v)"

definition or_else :: "int option \<Rightarrow> int \<Rightarrow> int" where
  "or_else x d = (case x of None \<Rightarrow> d | Some n \<Rightarrow> if n = 0 then d else n)"

definition clamp :: "int \<Rightarrow> int \<Rightarrow> int \<Rightarrow> int" where
  "clamp lo hi n = min hi (max lo n)"

definition js_finite :: "int \<Rightarrow> bool" where
  "js_finite n \<longleftrightarrow> \<bar>n\<bar> < 2 ^ 1024 - 2 ^ 970"

section \<open>Strings\<close>

definition js_is_space :: "char \<Rightarrow> bool" where
  "js_is_space c \<longleftrightarrow> of_char c \<in> {9, 10, 11, 12, 13, 32, 160 :: nat}"

definition js_is_digit :: "char \<Rightarrow> bool" where
  "js_is_digit c \<longleftrightarrow> 48 \<le> (of_char c :: nat) \<and> (of_char c :: nat) \<le> 57"

definition js_trim :: "string \<Rightarrow> string" where
  "js_trim s = rev (dropWhile js_is_space (rev (dropWhile js_is_space s)))"

definition digits_value :: "string \<Rightarrow> int" where
  "digits_value ds = foldl (\<lambda>a c. a * 10 + (of_char c - 48)) 0 ds"

definition js_parse_int :: "string \<Rightarrow> int option" where
  "js_parse_int s =
     (let t = dropWhile js_is_space s;
          neg = (case t of [] \<Rightarrow> False | c # _ \<Rightarrow> c = CHR ''-'');
          u = (case t of [] \<Rightarrow> [] | c # cs \<Rightarrow> if c = CHR ''-'' \<or> c = CHR ''+'' then cs else t);
          ds = takeWhile js_is_digit u
      in if ds = [] then None
         else Some (if neg then - digits_value ds else digits_value ds))"

definition js_to_lower_char :: "char \<Rightarrow> char" where
  "js_to_lower_char c =
     (if 65 \<le> (of_char c :: nat) \<and> (of_char c :: nat) \<le> 90 then char_of (of_char c + 32 :: nat) else c)"

definition js_to_lower :: "string \<Rightarrow> string" where
  "js_to_lower s = map js_to_lower_char s"

definition starts_with :: "string \<Rightarrow> string \<Rightarrow> bool" where
  "starts_with s p \<longleftrightarrow> take (length p) s = p"

definition ends_with :: "string \<Rightarrow> string \<Rightarrow> bool" where
  "ends_with s p \<longleftrightarrow> length p \<le> length s \<and> drop (length s - length p) s = p"

definition js_includes :: "string \<Rightarrow> string \<Rightarrow> bool" where
  "js_includes s p \<longleftrightarrow> list_ex (\<lambda>i. starts_with (drop i s) p) [0..<length s + 1]"

lemmas js_number_defs [js_simps] = num0_def nvl_def or_else_def clamp_def
lemmas js_string_defs [js_simps] =
  js_is_space_def js_is_digit_def js_trim_def digits_value_def js_parse_int_def

section \<open>Arithmetic facts the components share\<close>

lemma COIN_MICROS_pos [simp]: "0 < COIN_MICROS" "COIN_MICROS \<noteq> 0" "0 \<le> COIN_MICROS"
  by (simp_all add: COIN_MICROS_def)

lemma num0_simps [simp]: "num0 None = 0" "num0 (Some n) = n"
  by (simp_all add: num0_def)

lemma nvl_simps [simp]: "nvl None d = d" "nvl (Some v) d = v"
  by (simp_all add: nvl_def)

lemma clamp_bounds: "lo \<le> hi \<Longrightarrow> lo \<le> clamp lo hi n \<and> clamp lo hi n \<le> hi"
  by (simp add: clamp_def)

lemma clamp_id: "lo \<le> n \<Longrightarrow> n \<le> hi \<Longrightarrow> clamp lo hi n = n"
  by (simp add: clamp_def)

lemma js_round_of_int [simp]: "js_round (of_int n) = n"
  by (simp add: js_round_def floor_unique)

lemma js_round_numeral [simp]: "js_round (numeral n) = numeral n"
  using js_round_of_int [of "numeral n"] by simp

lemma js_round_mono: "x \<le> y \<Longrightarrow> js_round x \<le> js_round y"
  by (simp add: js_round_def floor_mono)

lemma js_round_le_of_int: "x \<le> of_int n \<Longrightarrow> js_round x \<le> n"
  using js_round_mono [of x "of_int n"] by simp

lemma js_round_nonneg: "0 \<le> x \<Longrightarrow> 0 \<le> js_round x"
  using js_round_mono [of 0 x] js_round_of_int [of 0] by simp

lemma int_div_nonneg [intro]: "0 \<le> a \<Longrightarrow> 0 < b \<Longrightarrow> 0 \<le> (a :: int) div b"
  by (simp add: pos_imp_zdiv_nonneg_iff)

lemma div_mult_le_self: "0 < b \<Longrightarrow> (a div b) * b \<le> (a :: int)"
  by (simp add: minus_mod_eq_div_mult [symmetric])

lemma less_div_mult_add: "0 < b \<Longrightarrow> (a :: int) < (a div b + 1) * b"
  by (metis distrib_right div_mult_mod_eq mult_1 add_less_cancel_left pos_mod_bound)

lemma div_add_div_le: "0 < c \<Longrightarrow> a div c + b div c \<le> ((a :: int) + b) div c"
  by (metis add_mono div_mult_le_self distrib_right zdiv_mono1
      nonzero_mult_div_cancel_right less_irrefl)

end
