(* ===== verification/EnvConfig.thy ===== *)
theory EnvConfig
  imports Prelude
begin

text \<open>
  Environment readers of \<open>src/modules/billing/billing.constants.ts\<close>,
  \<open>src/config/free-call.config.ts\<close>, \<open>src/config/pricing.config.ts\<close> and
  \<open>src/modules/billing/billing-phase-flags.ts\<close>. A reader is a function of the process
  environment. Two shapes occur: \<open>readEnvInt\<close> falls back on a missing, empty or
  non-numeric variable and clamps what it read; \<open>envIntOr\<close> (the idiom
  \<open>parseInt(process.env.X || 'd', 10) || d\<close>) also falls back on zero.

  The locale \<open>bounded_reader\<close> is the contract the billing code relies on: whatever the
  environment holds, the value lies between the two bounds and is one of fallback and
  clamped input. It is interpreted for every reader the billing cycle uses.
\<close>

section \<open>The two reading idioms\<close>

definition readEnvInt :: "env \<Rightarrow> string \<Rightarrow> int \<Rightarrow> int \<Rightarrow> int \<Rightarrow> int" where
  "readEnvInt env name fallback lo hi =
     (case env name of
        None \<Rightarrow> fallback
      | Some raw \<Rightarrow>
          if raw = [] then fallback
          else (case js_parse_int raw of
                  None \<Rightarrow> fallback
                | Some n \<Rightarrow> if js_finite n then min hi (max lo n) else fallback))"

definition env_parse :: "env \<Rightarrow> string \<Rightarrow> int \<Rightarrow> int option" where
  "env_parse env name dflt =
     (case env name of
        None \<Rightarrow> Some dflt
      | Some raw \<Rightarrow> if raw = [] then Some dflt else js_parse_int raw)"

definition envIntOr :: "env \<Rightarrow> string \<Rightarrow> int \<Rightarrow> int \<Rightarrow> int \<Rightarrow> int" where
  "envIntOr env name dflt lo hi = min hi (max lo (or_else (env_parse env name dflt) dflt))"

section \<open>Billing cycle\<close>

definition readBillingProcessIntervalMs :: "env \<Rightarrow> int" where
  "readBillingProcessIntervalMs env = readEnvInt env ''BILLING_PROCESS_INTERVAL_MS'' 1000 200 5000"

definition readMaxBillingDeltaMs :: "env \<Rightarrow> int" where
  "readMaxBillingDeltaMs env = readEnvInt env ''MAX_BILLING_DELTA_MS'' 5000 500 60000"

definition MIN_BILLING_DELTA_MS :: int where
  "MIN_BILLING_DELTA_MS = 50"

definition BILLING_CYCLE_LOCK_HEARTBEAT_MS :: int where
  "BILLING_CYCLE_LOCK_HEARTBEAT_MS = 500"

definition readBillingCycleLockTtlMs :: "env \<Rightarrow> int" where
  "readBillingCycleLockTtlMs env =
     readEnvInt env ''BILLING_CYCLE_LOCK_TTL_MS'' 3500 (BILLING_CYCLE_LOCK_HEARTBEAT_MS * 2) 10000"

definition BILLING_SESSION_SCHEMA_VERSION :: int where
  "BILLING_SESSION_SCHEMA_VERSION = 4"

definition getBillingEmitIntervalMs :: "env \<Rightarrow> int" where
  "getBillingEmitIntervalMs env = readEnvInt env ''BILLING_EMIT_INTERVAL_MS'' 1000 250 5000"

definition getBillingRedisBackpressureMs :: "env \<Rightarrow> int" where
  "getBillingRedisBackpressureMs env = readEnvInt env ''BILLING_REDIS_BACKPRESSURE_MS'' 250 50 5000"

definition getBillingChainHealStallMs :: "env \<Rightarrow> int" where
  "getBillingChainHealStallMs env =
     readEnvInt env ''BILLING_WATCHDOG_CHAIN_HEAL_STALL_MS'' 7000 1500 120000"

definition getBillingCycleLockDeferMs :: "env \<Rightarrow> int" where
  "getBillingCycleLockDeferMs env = readEnvInt env ''BILLING_CYCLE_LOCK_DEFER_MS'' 150 50 2000"

definition getBillingEmitKeepaliveMs :: "env \<Rightarrow> int" where
  "getBillingEmitKeepaliveMs env = readEnvInt env ''BILLING_EMIT_KEEPALIVE_MS'' 2500 1000 30000"

section \<open>Backpressure thresholds\<close>

definition getBackpressureMildEventLoopLagMs :: "env \<Rightarrow> int" where
  "getBackpressureMildEventLoopLagMs env = readEnvInt env ''BILLING_BP_MILD_EVENT_LOOP_LAG_MS'' 50 10 10000"

definition getBackpressureSustainedEventLoopLagMs :: "env \<Rightarrow> int" where
  "getBackpressureSustainedEventLoopLagMs env =
     readEnvInt env ''BILLING_BP_SUSTAINED_EVENT_LOOP_LAG_MS'' 100 20 20000"

definition getBackpressureSevereEventLoopLagMs :: "env \<Rightarrow> int" where
  "getBackpressureSevereEventLoopLagMs env =
     readEnvInt env ''BILLING_BP_SEVERE_EVENT_LOOP_LAG_MS'' 200 50 60000"

definition getBackpressureMildRedisWriteMs :: "env \<Rightarrow> int" where
  "getBackpressureMildRedisWriteMs env = readEnvInt env ''BILLING_BP_MILD_REDIS_WRITE_MS'' 250 50 20000"

definition getBackpressureSustainedRedisWriteMs :: "env \<Rightarrow> int" where
  "getBackpressureSustainedRedisWriteMs env =
     readEnvInt env ''BILLING_BP_SUSTAINED_REDIS_WRITE_MS'' 400 100 30000"

definition getBackpressureSevereRedisWriteMs :: "env \<Rightarrow> int" where
  "getBackpressureSevereRedisWriteMs env =
     readEnvInt env ''BILLING_BP_SEVERE_REDIS_WRITE_MS'' 750 200 60000"

definition getBackpressureMildQueueLagMs :: "env \<Rightarrow> int" where
  "getBackpressureMildQueueLagMs env = readEnvInt env ''BILLING_BP_MILD_QUEUE_LAG_MS'' 1500 100 120000"

definition getBackpressureSustainedQueueLagMs :: "env \<Rightarrow> int" where
  "getBackpressureSustainedQueueLagMs env =
     readEnvInt env ''BILLING_BP_SUSTAINED_QUEUE_LAG_MS'' 4000 200 180000"

definition getBackpressureSevereQueueLagMs :: "env \<Rightarrow> int" where
  "getBackpressureSevereQueueLagMs env =
     readEnvInt env ''BILLING_BP_SEVERE_QUEUE_LAG_MS'' 10000 500 300000"

definition getBackpressureMildTickDriftMs :: "env \<Rightarrow> int" where
  "getBackpressureMildTickDriftMs env = readEnvInt env ''BILLING_BP_MILD_TICK_DRIFT_MS'' 100 20 20000"

definition getBackpressureSustainedTickDriftMs :: "env \<Rightarrow> int" where
  "getBackpressureSustainedTickDriftMs env =
     readEnvInt env ''BILLING_BP_SUSTAINED_TICK_DRIFT_MS'' 300 50 30000"

definition getBackpressureSevereTickDriftMs :: "env \<Rightarrow> int" where
  "getBackpressureSevereTickDriftMs env =
     readEnvInt env ''BILLING_BP_SEVERE_TICK_DRIFT_MS'' 1200 100 120000"

definition getBackpressureSustainedSampleWindow :: "env \<Rightarrow> int" where
  "getBackpressureSustainedSampleWindow env = readEnvInt env ''BILLING_BP_SUSTAINED_SAMPLE_WINDOW'' 8 2 200"

definition getBackpressureStage2EmitIntervalMs :: "env \<Rightarrow> int" where
  "getBackpressureStage2EmitIntervalMs env =
     readEnvInt env ''BILLING_BP_STAGE2_EMIT_INTERVAL_MS'' 2000 500 30000"

definition getAdmissionBlockSevereSamples :: "env \<Rightarrow> int" where
  "getAdmissionBlockSevereSamples env = readEnvInt env ''BILLING_ADMISSION_BLOCK_SEVERE_SAMPLES'' 2 1 10"

definition isFailedSettlementAutoRecoveryEnabled :: "env \<Rightarrow> bool" where
  "isFailedSettlementAutoRecoveryEnabled env \<longleftrightarrow>
     env ''BILLING_FAILED_SETTLEMENT_AUTO_RECOVERY_ENABLED'' \<noteq> Some ''false''"

section \<open>Checkpoints\<close>

definition getBillingCheckpointIntervalMs :: "env \<Rightarrow> int" where
  "getBillingCheckpointIntervalMs env =
     (case env ''BILLING_CHECKPOINT_INTERVAL_MS'' of
        None \<Rightarrow> 15000
      | Some raw \<Rightarrow>
          if raw = [] then 15000
          else (case js_parse_int raw of
                  None \<Rightarrow> 15000
                | Some n \<Rightarrow>
                    if \<not> js_finite n \<or> n < 0 then 15000 else min 300000 (max 10000 n)))"

definition getBillingCheckpointEverySequences :: "env \<Rightarrow> int" where
  "getBillingCheckpointEverySequences env =
     (case env ''BILLING_CHECKPOINT_EVERY_SEQUENCES'' of
        None \<Rightarrow> 5
      | Some raw \<Rightarrow>
          if raw = [] then 5
          else (case js_parse_int raw of
                  None \<Rightarrow> 5
                | Some n \<Rightarrow> if \<not> js_finite n \<or> n < 1 then 5 else min 100 n))"

definition getBillingCheckpointMinDeltaMicros :: "env \<Rightarrow> int" where
  "getBillingCheckpointMinDeltaMicros env =
     (case env ''BILLING_CHECKPOINT_MIN_DELTA_MICROS'' of
        None \<Rightarrow> 1000000
      | Some raw \<Rightarrow>
          if raw = [] then 1000000
          else (case js_parse_int raw of
                  None \<Rightarrow> 1000000
                | Some n \<Rightarrow> if \<not> js_finite n \<or> n < 0 then 1000000 else n))"

section \<open>Settlement orchestration and phase flags\<close>

definition BILLING_MAX_SETTLING_MS :: "env \<Rightarrow> int" where
  "BILLING_MAX_SETTLING_MS env = envIntOr env ''BILLING_MAX_SETTLING_MS'' 180000 30000 600000"

definition BILLING_SETTLEMENT_POLL_MS :: "env \<Rightarrow> int" where
  "BILLING_SETTLEMENT_POLL_MS env = envIntOr env ''BILLING_SETTLEMENT_POLL_MS'' 25000 1000 60000"

definition BILLING_SETTLEMENT_PENDING_MAX_MS :: "env \<Rightarrow> int" where
  "BILLING_SETTLEMENT_PENDING_MAX_MS env =
     envIntOr env ''BILLING_SETTLEMENT_PENDING_MAX_MS'' 300000 60000 600000"

definition BILLING_SETTLEMENT_RETRY_MAX_ATTEMPTS :: "env \<Rightarrow> int" where
  "BILLING_SETTLEMENT_RETRY_MAX_ATTEMPTS env =
     envIntOr env ''BILLING_SETTLEMENT_RETRY_MAX_ATTEMPTS'' 8 1 20"

definition isUnifiedBillingFinalizerEnabled :: "env \<Rightarrow> bool" where
  "isUnifiedBillingFinalizerEnabled env \<longleftrightarrow> env ''BILLING_UNIFIED_FINALIZER_ENABLED'' \<noteq> Some ''false''"

definition isDurableCallSessionEnabled :: "env \<Rightarrow> bool" where
  "isDurableCallSessionEnabled env \<longleftrightarrow> env ''DURABLE_CALL_SESSION_ENABLED'' = Some ''true''"

definition isBillingOwnershipV2Enabled :: "env \<Rightarrow> bool" where
  "isBillingOwnershipV2Enabled env \<longleftrightarrow> env ''BILLING_OWNERSHIP_V2_ENABLED'' = Some ''true''"

definition isIncrementalBillingPersistEnabled :: "env \<Rightarrow> bool" where
  "isIncrementalBillingPersistEnabled env \<longleftrightarrow> env ''INCREMENTAL_BILLING_PERSIST_ENABLED'' = Some ''true''"

definition CALL_SESSION_MIRROR_INTERVAL_MS :: "env \<Rightarrow> int" where
  "CALL_SESSION_MIRROR_INTERVAL_MS env = envIntOr env ''CALL_SESSION_MIRROR_INTERVAL_MS'' 5000 1000 60000"

definition CALL_SESSION_LEASE_TTL_MS :: "env \<Rightarrow> int" where
  "CALL_SESSION_LEASE_TTL_MS env = envIntOr env ''CALL_SESSION_LEASE_TTL_MS'' 15000 5000 120000"

definition BILLING_LEDGER_GAP_TOLERANCE_MS :: "env \<Rightarrow> int" where
  "BILLING_LEDGER_GAP_TOLERANCE_MS env = envIntOr env ''BILLING_LEDGER_GAP_TOLERANCE_MS'' 2000 0 10000"

section \<open>Welcome call and pricing limits\<close>

definition parseBooleanEnv :: "string option \<Rightarrow> bool \<Rightarrow> bool" where
  "parseBooleanEnv raw dflt =
     (case raw of
        None \<Rightarrow> dflt
      | Some s \<Rightarrow>
          if js_trim s = [] then dflt
          else (let normalized = js_to_lower (js_trim s)
                in if normalized = ''true'' \<or> normalized = ''1'' \<or> normalized = ''yes'' then True
                   else if normalized = ''false'' \<or> normalized = ''0'' \<or> normalized = ''no'' then False
                   else dflt))"

definition isFreeCallEnabled :: "env \<Rightarrow> bool" where
  "isFreeCallEnabled env = parseBooleanEnv (env ''FREE_CALL_ENABLED'') True"

definition FREE_CALL_DURATION_OPTIONS :: "int list" where
  "FREE_CALL_DURATION_OPTIONS = [15, 30, 45]"

definition getFreeCallDurationSeconds :: "env \<Rightarrow> int" where
  "getFreeCallDurationSeconds env =
     (case js_parse_int (nvl (env ''FREE_CALL_DURATION_SECONDS'') []) of
        None \<Rightarrow> 30
      | Some parsed \<Rightarrow> if parsed \<in> set FREE_CALL_DURATION_OPTIONS then parsed else 30)"

definition getWelcomeIntroCallCreditsGrant :: "env \<Rightarrow> int" where
  "getWelcomeIntroCallCreditsGrant env =
     (if isFreeCallEnabled env then getFreeCallDurationSeconds env else 0)"

datatype config_error =
    FreeCallDurationInvalid
  | CreatorShareOutOfRange
  | MinCoinsNegative
  | MaxCallDurationTooShort
  | CreatorCallDurationTooShort
  | UserCallDurationTooShort
  | DurationWarningNegative

definition validateFreeCallConfig :: "env \<Rightarrow> config_error + unit" where
  "validateFreeCallConfig env =
     (case env ''FREE_CALL_DURATION_SECONDS'' of
        None \<Rightarrow> Inr ()
      | Some raw \<Rightarrow>
          if js_trim raw \<noteq> [] \<and>
             (case js_parse_int raw of None \<Rightarrow> True | Some n \<Rightarrow> n \<notin> set FREE_CALL_DURATION_OPTIONS)
          then Inl FreeCallDurationInvalid else Inr ())"

record pricing_config =
  CREATOR_SHARE_PERCENTAGE :: rat
  MIN_COINS_TO_CALL :: int
  MAX_CALL_DURATION_SECONDS :: int
  DEFAULT_CREATOR_CALL_DURATION_SECONDS :: int
  DEFAULT_USER_CALL_DURATION_SECONDS :: int
  CALL_DURATION_WARNING_SECONDS :: int

definition default_pricing :: pricing_config where
  "default_pricing =
     \<lparr> CREATOR_SHARE_PERCENTAGE = 1 / 4, MIN_COINS_TO_CALL = 450,
       MAX_CALL_DURATION_SECONDS = 3600, DEFAULT_CREATOR_CALL_DURATION_SECONDS = 1800,
       DEFAULT_USER_CALL_DURATION_SECONDS = 3600, CALL_DURATION_WARNING_SECONDS = 300 \<rparr>"

definition validatePricingConfig :: "env \<Rightarrow> pricing_config \<Rightarrow> config_error + unit" where
  "validatePricingConfig env c =
     (if CREATOR_SHARE_PERCENTAGE c < 0 \<or> CREATOR_SHARE_PERCENTAGE c > 1
      then Inl CreatorShareOutOfRange
      else if MIN_COINS_TO_CALL c < 0 then Inl MinCoinsNegative
      else (case validateFreeCallConfig env of
              Inl e \<Rightarrow> Inl e
            | Inr _ \<Rightarrow>
                if MAX_CALL_DURATION_SECONDS c < 60 then Inl MaxCallDurationTooShort
                else if DEFAULT_CREATOR_CALL_DURATION_SECONDS c < 60
                then Inl CreatorCallDurationTooShort
                else if DEFAULT_USER_CALL_DURATION_SECONDS c < 60
                then Inl UserCallDurationTooShort
                else if CALL_DURATION_WARNING_SECONDS c < 0 then Inl DurationWarningNegative
                else Inr ()))"

section \<open>The contract of a bounded reader\<close>

locale bounded_reader =
  fixes read :: "env \<Rightarrow> int" and fallback lo hi :: int
  assumes ordered: "0 < lo" "lo \<le> fallback" "fallback \<le> hi"
    and in_range: "lo \<le> read env" "read env \<le> hi"
    and unset: "read Map.empty = fallback"
begin

lemma positive: "0 < read env"
  using ordered(1) in_range(1) [of env] by linarith

lemma unset_in_range: "lo \<le> read Map.empty \<and> read Map.empty \<le> hi"
  using ordered by (simp add: unset)

end

lemma readEnvInt_range:
  "lo \<le> fallback \<Longrightarrow> fallback \<le> hi \<Longrightarrow>
   lo \<le> readEnvInt env name fallback lo hi \<and> readEnvInt env name fallback lo hi \<le> hi"
  by (auto simp: readEnvInt_def split: option.splits)

lemma readEnvInt_unset: "env name = None \<Longrightarrow> readEnvInt env name fallback lo hi = fallback"
  by (simp add: readEnvInt_def)

lemma envIntOr_range:
  "lo \<le> dflt \<Longrightarrow> dflt \<le> hi \<Longrightarrow>
   lo \<le> envIntOr env name dflt lo hi \<and> envIntOr env name dflt lo hi \<le> hi"
  by (auto simp: envIntOr_def)

lemma bounded_reader_readEnvInt:
  "0 < lo \<Longrightarrow> lo \<le> fallback \<Longrightarrow> fallback \<le> hi \<Longrightarrow>
   bounded_reader (\<lambda>env. readEnvInt env name fallback lo hi) fallback lo hi"
  by unfold_locales (auto simp: readEnvInt_unset dest: readEnvInt_range)

lemma bounded_reader_envIntOr:
  "0 < lo \<Longrightarrow> lo \<le> dflt \<Longrightarrow> dflt \<le> hi \<Longrightarrow>
   bounded_reader (\<lambda>env. envIntOr env name dflt lo hi) dflt lo hi"
  by unfold_locales
    (use envIntOr_range [of lo dflt hi] in \<open>auto simp: envIntOr_def env_parse_def or_else_def\<close>)

interpretation process_interval: bounded_reader readBillingProcessIntervalMs 1000 200 5000
  unfolding readBillingProcessIntervalMs_def by (rule bounded_reader_readEnvInt) simp_all

interpretation max_delta: bounded_reader readMaxBillingDeltaMs 5000 500 60000
  unfolding readMaxBillingDeltaMs_def by (rule bounded_reader_readEnvInt) simp_all

interpretation cycle_lock_ttl: bounded_reader readBillingCycleLockTtlMs 3500 1000 10000
  unfolding readBillingCycleLockTtlMs_def BILLING_CYCLE_LOCK_HEARTBEAT_MS_def
  using bounded_reader_readEnvInt [of 1000 3500 10000 "''BILLING_CYCLE_LOCK_TTL_MS''"] by simp

interpretation emit_interval: bounded_reader getBillingEmitIntervalMs 1000 250 5000
  unfolding getBillingEmitIntervalMs_def by (rule bounded_reader_readEnvInt) simp_all

interpretation chain_heal_stall: bounded_reader getBillingChainHealStallMs 7000 1500 120000
  unfolding getBillingChainHealStallMs_def by (rule bounded_reader_readEnvInt) simp_all

interpretation sustained_window: bounded_reader getBackpressureSustainedSampleWindow 8 2 200
  unfolding getBackpressureSustainedSampleWindow_def by (rule bounded_reader_readEnvInt) simp_all

interpretation admission_samples: bounded_reader getAdmissionBlockSevereSamples 2 1 10
  unfolding getAdmissionBlockSevereSamples_def by (rule bounded_reader_readEnvInt) simp_all

interpretation max_settling: bounded_reader BILLING_MAX_SETTLING_MS 180000 30000 600000
  unfolding BILLING_MAX_SETTLING_MS_def by (rule bounded_reader_envIntOr) simp_all

lemma getFreeCallDurationSeconds_options:
  "getFreeCallDurationSeconds env \<in> {15, 30, 45}"
  by (auto simp: getFreeCallDurationSeconds_def FREE_CALL_DURATION_OPTIONS_def split: option.splits)

lemma validatePricingConfig_Inr:
  "validatePricingConfig env c = Inr () \<Longrightarrow>
     0 \<le> CREATOR_SHARE_PERCENTAGE c \<and> CREATOR_SHARE_PERCENTAGE c \<le> 1 \<and>
     60 \<le> MAX_CALL_DURATION_SECONDS c \<and> 0 \<le> MIN_COINS_TO_CALL c"
  by (auto simp: validatePricingConfig_def split: if_splits sum.splits)

lemma validatePricingConfig_default: "validatePricingConfig Map.empty default_pricing = Inr ()"
  by (simp add: validatePricingConfig_def validateFreeCallConfig_def default_pricing_def)

end
