(* ===== verification/Money.thy ===== *)
theory Money
  imports EnvConfig
begin

text \<open>
  Coin arithmetic: micro-coin conversions and per-second rates of
  \<open>src/modules/billing/billing.constants.ts\<close>, the pricing snapshot and its Redis cache of
  \<open>src/modules/video/pricing.service.ts\<close>, the price tiers of
  \<open>src/config/creator-price.config.ts\<close> and \<open>host-price.config.ts\<close>, the split of creator
  earnings (\<open>creator-earnings-split.ts\<close>) and the staff cuts (\<open>staff-revenue-share.ts\<close>).

  The locale \<open>rate_card\<close> is the interface between pricing and the billing cycle: a positive
  user rate and a creator rate between zero and it. It is interpreted on the rates that
  \<open>buildSnapshotFromPricePerMinute\<close> computes for the price tiers.
\<close>

section \<open>Micro-coins\<close>

definition coinsWholeToMicros :: "int \<Rightarrow> micros" where
  "coinsWholeToMicros coinsWhole = js_round (of_int (coinsWhole * COIN_MICROS))"

definition microsToWholeCoinsFloor :: "micros \<Rightarrow> int" where
  "microsToWholeCoinsFloor micros = (if micros \<le> 0 then 0 else micros div COIN_MICROS)"

definition microsToSettlementCoins :: "micros \<Rightarrow> int" where
  "microsToSettlementCoins micros =
     (if micros \<le> 0 then 0 else js_round (of_int micros / of_int COIN_MICROS))"

definition microsToUserDebitWholeCoins :: "micros \<Rightarrow> int" where
  "microsToUserDebitWholeCoins micros =
     (if micros \<le> 0 then 0 else \<lceil>of_int micros / (of_int COIN_MICROS :: rat)\<rceil>)"

definition microsToCreatorCreditWholeCoins :: "micros \<Rightarrow> int" where
  "microsToCreatorCreditWholeCoins micros = microsToWholeCoinsFloor micros"

definition pricePerMinuteToUserMicrosPerSecond :: "rat \<Rightarrow> micros" where
  "pricePerMinuteToUserMicrosPerSecond pricePerMinute =
     js_round (pricePerMinute * of_int COIN_MICROS) div 60"

definition pricePerMinuteToCreatorMicrosPerSecond :: "rat \<Rightarrow> rat \<Rightarrow> micros" where
  "pricePerMinuteToCreatorMicrosPerSecond pricePerMinute creatorShare =
     js_round (pricePerMinute * creatorShare * of_int COIN_MICROS) div 60"

section \<open>Price tiers\<close>

definition ALLOWED_CREATOR_PRICES :: "int list" where
  "ALLOWED_CREATOR_PRICES = [1800, 2700, 3600]"

definition isAllowedCreatorPrice :: "int \<Rightarrow> bool" where
  "isAllowedCreatorPrice n \<longleftrightarrow> n \<in> set ALLOWED_CREATOR_PRICES"

definition validateCreatorPriceForApi :: "int \<Rightarrow> string + int" where
  "validateCreatorPriceForApi price =
     (if \<not> isAllowedCreatorPrice price
      then Inl ''Price must be one of: 1800, 2700, 3600 (coins per minute)''
      else Inr price)"

definition getSystemDefaultHostPriceForNewHosts :: "env \<Rightarrow> int" where
  "getSystemDefaultHostPriceForNewHosts env =
     (case map_option js_trim (env ''SYSTEM_DEFAULT_HOST_PRICE_COINS_PER_MIN'') of
        None \<Rightarrow> 1800
      | Some raw \<Rightarrow>
          if raw = [] then 1800
          else (case js_parse_int raw of
                  None \<Rightarrow> 1800
                | Some n \<Rightarrow>
                    (case validateCreatorPriceForApi n of Inr p \<Rightarrow> p | Inl _ \<Rightarrow> 1800)))"

section \<open>Pricing snapshots and their cache\<close>

record pricing_snapshot =
  snap_pricePerMinute :: rat
  snap_pricePerSecond :: rat
  snap_creatorEarningsPerSecond :: rat
  snap_creatorShareAtCallTime :: rat
  snap_pricePerSecondMicros :: micros
  snap_creatorEarningsPerSecondMicros :: micros

definition buildSnapshotFromPricePerMinute :: "rat \<Rightarrow> rat \<Rightarrow> pricing_snapshot" where
  "buildSnapshotFromPricePerMinute share pricePerMinute =
     (let pps = pricePerMinuteToUserMicrosPerSecond pricePerMinute;
          ceps = pricePerMinuteToCreatorMicrosPerSecond pricePerMinute share
      in \<lparr> snap_pricePerMinute = pricePerMinute,
           snap_pricePerSecond = of_int pps / of_int COIN_MICROS,
           snap_creatorEarningsPerSecond = of_int ceps / of_int COIN_MICROS,
           snap_creatorShareAtCallTime = share,
           snap_pricePerSecondMicros = pps,
           snap_creatorEarningsPerSecondMicros = ceps \<rparr>)"

text \<open>
  The creator collection gives the price of a creator; the cache maps a creator id to the
  cached entry, \<open>None\<close> inside for an entry that does not parse.
\<close>

record pricing_state =
  creator_price :: "string \<Rightarrow> rat option"
  snap_cache :: "string \<Rightarrow> pricing_snapshot option option"

datatype pricing_error = CreatorNotFound string

definition snapshotForCreator ::
  "rat \<Rightarrow> pricing_state \<Rightarrow> string \<Rightarrow> pricing_error + pricing_snapshot" where
  "snapshotForCreator share st cid =
     (case creator_price st cid of
        None \<Rightarrow> Inl (CreatorNotFound cid)
      | Some p \<Rightarrow> Inr (buildSnapshotFromPricePerMinute share p))"

definition warmSnapshotCache :: "bool \<Rightarrow> string \<Rightarrow> pricing_snapshot \<Rightarrow> pricing_state \<Rightarrow> pricing_state" where
  "warmSnapshotCache redis_ok cid snap st =
     (if redis_ok then st\<lparr>snap_cache := (snap_cache st)(cid \<mapsto> Some snap)\<rparr> else st)"

definition snapshotForCreatorCached ::
  "rat \<Rightarrow> bool \<Rightarrow> string \<Rightarrow> pricing_state \<Rightarrow> (pricing_error + pricing_snapshot) \<times> pricing_state" where
  "snapshotForCreatorCached share redis_ok cid st =
     (case snap_cache st cid of
        Some (Some snap) \<Rightarrow> (Inr snap, st)
      | _ \<Rightarrow>
          (case creator_price st cid of
             None \<Rightarrow> (Inl (CreatorNotFound cid), st)
           | Some p \<Rightarrow>
               (let snap = buildSnapshotFromPricePerMinute share p
                in (Inr snap,
                    if redis_ok then st\<lparr>snap_cache := (snap_cache st)(cid \<mapsto> Some snap)\<rparr> else st))))"

definition invalidateCreatorPricingCache :: "bool \<Rightarrow> string \<Rightarrow> pricing_state \<Rightarrow> pricing_state" where
  "invalidateCreatorPricingCache redis_ok cid st =
     (if redis_ok then st\<lparr>snap_cache := (snap_cache st)(cid := None)\<rparr> else st)"

section \<open>Splitting earnings\<close>

definition splitCreatorEarningsByDebit :: "rat \<Rightarrow> micros \<Rightarrow> micros \<Rightarrow> int \<times> int" where
  "splitCreatorEarningsByDebit totalEarnedCreator introDeductedMicros walletDeductedMicros =
     (let total = max 0 \<lfloor>totalEarnedCreator\<rfloor>;
          intro = max 0 introDeductedMicros;
          wallet = max 0 walletDeductedMicros;
          debit = intro + wallet
      in if total \<le> 0 then (0, 0)
         else if debit \<le> 0 \<or> wallet \<ge> debit then (total, 0)
         else if wallet \<le> 0 then (0, total)
         else (let paid = js_round (of_int total * (of_int wallet / of_int debit))
               in (paid, total - paid)))"

definition computeStaffCutsFromHostEarnings :: "int \<Rightarrow> int \<Rightarrow> int \<Rightarrow> bool \<Rightarrow> int \<times> int" where
  "computeStaffCutsFromHostEarnings totalEarnedCreator bdBps agencyBps hasBd =
     (let bdCut = (if hasBd then (totalEarnedCreator * bdBps) div 10000 else 0);
          agencyCut = (totalEarnedCreator * agencyBps) div 10000
      in (bdCut, agencyCut))"

definition round3 :: "rat \<Rightarrow> rat" where
  "round3 n = of_int (js_round (n * 1000)) / 1000"

definition computeRevenueSplitDisplayPercents :: "rat \<Rightarrow> rat \<Rightarrow> rat \<Rightarrow> (string \<times> rat) list" where
  "computeRevenueSplitDisplayPercents hostSharePct bdBps agencyBps =
     (let bd = hostSharePct * bdBps / 10000;
          agency = hostSharePct * agencyBps / 10000;
          platform = max 0 (100 - hostSharePct - bd - agency)
      in [(''host'', round3 hostSharePct), (''bd'', round3 bd),
          (''agency'', round3 agency), (''platform'', round3 platform)])"

definition computeIndependentHostDisplayPercents :: "rat \<Rightarrow> (string \<times> rat) list" where
  "computeIndependentHostDisplayPercents hostSharePct =
     [(''host'', hostSharePct), (''platform'', max 0 (100 - hostSharePct))]"

section \<open>The rate card contract\<close>

locale rate_card =
  fixes pps ceps :: micros
  assumes pps_pos: "0 < pps" and ceps_nonneg: "0 \<le> ceps" and ceps_le: "ceps \<le> pps"
begin

text \<open>
  What one charge of \<open>d\<close> micro-coins buys and earns: \<open>d * 1000 div pps\<close> milliseconds, for
  which the creator gets the creator rate. The creator part never exceeds the creator's
  fraction of the charge, hence never the charge itself.
\<close>

lemma covered_nonneg: "0 \<le> d \<Longrightarrow> 0 \<le> d * 1000 div pps"
  using pps_pos by (simp add: pos_imp_zdiv_nonneg_iff)

lemma covered_cost_le: "(d * 1000 div pps) * pps \<le> d * 1000"
  using pps_pos by (rule div_mult_le_self)

lemma earn_share_le:
  assumes "0 \<le> d"
  shows "((d * 1000 div pps) * ceps div 1000) * pps \<le> d * ceps"
proof -
  let ?t = "d * 1000 div pps"
  have "(?t * ceps div 1000) * 1000 \<le> ?t * ceps"
    by (rule div_mult_le_self) simp
  then have "(?t * ceps div 1000) * 1000 * pps \<le> ?t * ceps * pps"
    using pps_pos by (simp add: mult_right_mono)
  also have "\<dots> = (?t * pps) * ceps" by simp
  also have "\<dots> \<le> d * 1000 * ceps"
    using covered_cost_le ceps_nonneg by (rule mult_right_mono)
  finally show ?thesis by simp
qed

lemma earn_nonneg: "0 \<le> d \<Longrightarrow> 0 \<le> (d * 1000 div pps) * ceps div 1000"
  using covered_nonneg ceps_nonneg pps_pos by (intro int_div_nonneg mult_nonneg_nonneg) simp_all

lemma earn_le_charge:
  assumes "0 \<le> d"
  shows "(d * 1000 div pps) * ceps div 1000 \<le> d"
proof -
  have "((d * 1000 div pps) * ceps div 1000) * pps \<le> d * ceps"
    using assms by (rule earn_share_le)
  also have "\<dots> \<le> d * pps" using ceps_le assms by (rule mult_left_mono)
  finally show ?thesis using pps_pos by simp
qed

lemma covered_le_delta: "d \<le> ms * pps div 1000 \<Longrightarrow> d * 1000 div pps \<le> ms"
proof -
  assume "d \<le> ms * pps div 1000"
  then have "d * 1000 \<le> (ms * pps div 1000) * 1000" by simp
  also have "\<dots> \<le> ms * pps" by (rule div_mult_le_self) simp
  finally have "d * 1000 div pps \<le> ms * pps div pps" using pps_pos by (rule zdiv_mono1)
  then show ?thesis using pps_pos by simp
qed

end

text \<open>A card whose user rate is a whole number of micro-coins per millisecond never drifts.\<close>

locale exact_rate_card = rate_card +
  assumes per_ms: "1000 dvd pps"
begin

lemma covered_exact: "(ms * pps div 1000) * 1000 div pps = ms"
proof -
  have "(ms * pps div 1000) * 1000 = ms * pps" using per_ms by (simp add: dvd_div_mult_self)
  then show ?thesis using pps_pos by simp
qed

end

section \<open>Facts about the rates\<close>

lemma user_rate_of_int:
  "pricePerMinuteToUserMicrosPerSecond (of_int p) = p * COIN_MICROS div 60"
  by (simp add: pricePerMinuteToUserMicrosPerSecond_def flip: of_int_mult)

lemma creator_rate_nonneg:
  "0 \<le> p \<Longrightarrow> 0 \<le> share \<Longrightarrow> 0 \<le> pricePerMinuteToCreatorMicrosPerSecond p share"
  by (simp add: pricePerMinuteToCreatorMicrosPerSecond_def js_round_nonneg pos_imp_zdiv_nonneg_iff)

lemma creator_rate_le_user_rate:
  assumes "0 \<le> p" and "share \<le> 1"
  shows "pricePerMinuteToCreatorMicrosPerSecond p share \<le> pricePerMinuteToUserMicrosPerSecond p"
proof -
  have "p * share \<le> p" using mult_left_mono [OF assms(2,1)] by simp
  then have "p * share * of_int COIN_MICROS \<le> p * of_int COIN_MICROS"
    by (rule mult_right_mono) simp
  then have "js_round (p * share * of_int COIN_MICROS) \<le> js_round (p * of_int COIN_MICROS)"
    by (rule js_round_mono)
  then show ?thesis
    unfolding pricePerMinuteToCreatorMicrosPerSecond_def pricePerMinuteToUserMicrosPerSecond_def
    by (rule zdiv_mono1) simp
qed

lemma tier_user_rates:
  "pricePerMinuteToUserMicrosPerSecond 1800 = 30000000"
  "pricePerMinuteToUserMicrosPerSecond 2700 = 45000000"
  "pricePerMinuteToUserMicrosPerSecond 3600 = 60000000"
  using user_rate_of_int [of 1800] user_rate_of_int [of 2700] user_rate_of_int [of 3600]
  by (simp_all add: COIN_MICROS_def)

lemma allowed_price_cases:
  assumes "isAllowedCreatorPrice p"
  obtains "p = 1800" | "p = 2700" | "p = 3600"
  using assms by (auto simp: isAllowedCreatorPrice_def ALLOWED_CREATOR_PRICES_def)

lemma allowed_price_exact_card:
  assumes "isAllowedCreatorPrice p" and "0 \<le> share" and "share \<le> 1"
  shows "exact_rate_card (pricePerMinuteToUserMicrosPerSecond (of_int p))
           (pricePerMinuteToCreatorMicrosPerSecond (of_int p) share)"
proof -
  have p: "0 \<le> (of_int p :: rat)" and pos: "0 < pricePerMinuteToUserMicrosPerSecond (of_int p)"
    and dvd: "1000 dvd pricePerMinuteToUserMicrosPerSecond (of_int p)"
    using assms(1) by (cases rule: allowed_price_cases; simp add: tier_user_rates)+
  show ?thesis
    by unfold_locales
      (use p pos dvd assms in \<open>auto intro: creator_rate_nonneg creator_rate_le_user_rate\<close>)
qed

interpretation base_tier: exact_rate_card
  "pricePerMinuteToUserMicrosPerSecond (of_int 1800)"
  "pricePerMinuteToCreatorMicrosPerSecond (of_int 1800) (CREATOR_SHARE_PERCENTAGE default_pricing)"
  by (rule allowed_price_exact_card)
    (simp_all add: isAllowedCreatorPrice_def ALLOWED_CREATOR_PRICES_def default_pricing_def)

section \<open>Rounding at settlement\<close>

lemma userDebit_bounds:
  assumes "0 < m"
  shows "m \<le> microsToUserDebitWholeCoins m * COIN_MICROS"
    and "(microsToUserDebitWholeCoins m - 1) * COIN_MICROS < m"
proof -
  let ?q = "of_int m / (of_int COIN_MICROS :: rat)"
  have d: "microsToUserDebitWholeCoins m = \<lceil>?q\<rceil>" using assms by (simp add: microsToUserDebitWholeCoins_def)
  have c: "0 < (of_int COIN_MICROS :: rat)" by simp
  have "of_int m \<le> (of_int (\<lceil>?q\<rceil> * COIN_MICROS) :: rat)"
    using pos_divide_le_eq [OF c, THEN iffD1, OF le_of_int_ceiling [of ?q]] by simp
  then show "m \<le> microsToUserDebitWholeCoins m * COIN_MICROS" by (simp only: d of_int_le_iff)
  have "of_int \<lceil>?q\<rceil> - 1 < ?q" by linarith
  then have "(of_int ((\<lceil>?q\<rceil> - 1) * COIN_MICROS) :: rat) < of_int m"
    by (simp add: COIN_MICROS_def less_divide_eq)
  then show "(microsToUserDebitWholeCoins m - 1) * COIN_MICROS < m" by (simp only: d of_int_less_iff)
qed

lemma creatorCredit_bounds:
  "0 \<le> m \<Longrightarrow> microsToCreatorCreditWholeCoins m * COIN_MICROS \<le> m"
  "0 \<le> m \<Longrightarrow> m < (microsToCreatorCreditWholeCoins m + 1) * COIN_MICROS"
  by (auto simp: microsToCreatorCreditWholeCoins_def microsToWholeCoinsFloor_def
      intro: div_mult_le_self less_div_mult_add)

lemma creatorCredit_nonneg: "0 \<le> microsToCreatorCreditWholeCoins m"
  by (simp add: microsToCreatorCreditWholeCoins_def microsToWholeCoinsFloor_def
      pos_imp_zdiv_nonneg_iff)

lemma userDebit_nonneg: "0 \<le> microsToUserDebitWholeCoins m"
proof (cases "0 < m")
  case True
  then have "0 < microsToUserDebitWholeCoins m * COIN_MICROS" using userDebit_bounds(1) by force
  then show ?thesis by (simp add: zero_less_mult_iff COIN_MICROS_def)
qed (simp add: microsToUserDebitWholeCoins_def)

lemma credit_le_debit:
  assumes "e \<le> d"
  shows "microsToCreatorCreditWholeCoins e \<le> microsToUserDebitWholeCoins d"
proof (cases "0 < e")
  case True
  then have "microsToCreatorCreditWholeCoins e * COIN_MICROS \<le> microsToUserDebitWholeCoins d * COIN_MICROS"
    using creatorCredit_bounds(1) [of e] userDebit_bounds(1) [of d] assms by linarith
  then show ?thesis by simp
next
  case False
  then have "microsToCreatorCreditWholeCoins e = 0"
    by (simp add: microsToCreatorCreditWholeCoins_def microsToWholeCoinsFloor_def)
  then show ?thesis using userDebit_nonneg by simp
qed

lemma split_total:
  "fst (splitCreatorEarningsByDebit t i w) + snd (splitCreatorEarningsByDebit t i w) = max 0 \<lfloor>t\<rfloor>"
  by (simp add: splitCreatorEarningsByDebit_def Let_def)

lemma split_paid_le_total:
  assumes "0 < t" and "0 < w" and "w < (d :: int)"
  shows "0 \<le> js_round (of_int t * (of_int w / of_int d))"
    and "js_round (of_int t * (of_int w / of_int d)) \<le> t"
proof -
  have q: "0 \<le> (of_int w / of_int d :: rat)" "of_int w / of_int d \<le> (1 :: rat)"
    using assms by simp_all
  show "0 \<le> js_round (of_int t * (of_int w / of_int d))"
    using assms q by (intro js_round_nonneg mult_nonneg_nonneg) simp_all
  show "js_round (of_int t * (of_int w / of_int d)) \<le> t"
    using assms mult_left_mono [OF q(2), of "of_int t"] by (intro js_round_le_of_int) simp
qed

lemma split_nonneg:
  "0 \<le> fst (splitCreatorEarningsByDebit t i w) \<and> 0 \<le> snd (splitCreatorEarningsByDebit t i w)"
  using split_paid_le_total [of "\<lfloor>t\<rfloor>" w "max 0 i + w"]
  by (auto simp: splitCreatorEarningsByDebit_def Let_def max_def)

lemma staffCuts_le:
  assumes "0 \<le> t" and "0 \<le> bd" and "0 \<le> ag" and "bd + ag \<le> 10000"
  shows "fst (computeStaffCutsFromHostEarnings t bd ag h)
           + snd (computeStaffCutsFromHostEarnings t bd ag h) \<le> t"
proof -
  have "t * (bd + ag) \<le> t * 10000" using assms by (simp add: mult_left_mono)
  then have "(t * bd + t * ag) div 10000 \<le> t"
    using zdiv_mono1 [of "t * bd + t * ag" "t * 10000" 10000] by (simp add: distrib_left)
  then have "t * bd div 10000 + t * ag div 10000 \<le> t"
    using div_add_div_le [of 10000 "t * bd" "t * ag"] by linarith
  moreover have "0 \<le> t * bd div 10000" using assms by (intro int_div_nonneg) simp_all
  ultimately show ?thesis by (auto simp: computeStaffCutsFromHostEarnings_def Let_def)
qed

section \<open>The pricing cache\<close>

text \<open>
  The cache is coherent when every entry that parses is the snapshot of the creator's current
  price. Reads and warm-ups with the right snapshot keep it so, and with a coherent cache a
  cached read answers exactly as an uncached one.
\<close>

definition cache_coherent :: "rat \<Rightarrow> pricing_state \<Rightarrow> bool" where
  "cache_coherent share st \<longleftrightarrow>
     (\<forall>cid snap. snap_cache st cid = Some (Some snap) \<longrightarrow>
        map_option (buildSnapshotFromPricePerMinute share) (creator_price st cid) = Some snap)"

lemma snapshotForCreatorCached_coherent:
  "cache_coherent share st \<Longrightarrow>
   cache_coherent share (snd (snapshotForCreatorCached share ok cid st))"
  by (auto simp: cache_coherent_def snapshotForCreatorCached_def Let_def split: option.splits)

lemma snapshotForCreatorCached_eq:
  "cache_coherent share st \<Longrightarrow>
   fst (snapshotForCreatorCached share ok cid st) = snapshotForCreator share st cid"
  by (fastforce simp: cache_coherent_def snapshotForCreatorCached_def snapshotForCreator_def Let_def
      split: option.splits)

end
