(* ===== verification/Lifecycle.thy ===== *)
theory Lifecycle
  imports Prelude
begin

text \<open>
  The two state machines of a call: the billing lifecycle
  (\<open>src/modules/billing/billing-lifecycle.machine.ts\<close>, with the audit collection and the
  predicates of \<open>billing-active-call.service.ts\<close> and \<open>billing-backpressure.ts\<close> on it) and the
  business status of the \<open>Call\<close> document (\<open>src/modules/video/call-state.service.ts\<close>).

  The locale \<open>transition_table\<close> is the contract of a guarded machine: a request moves to the
  target when the table lists it and is ignored otherwise. The billing machine satisfies it
  and inherits the facts about terminal states and runs; the call status machine does not
  (it logs a disallowed transition and applies it).
\<close>

section \<open>Billing lifecycle\<close>

datatype BillingLifecycleState =
    INIT | STARTING | ACTIVE | ENDING | SETTLING | SETTLED | FAILED | RECOVERING
  | FAILED_RECOVERY_SETTLEMENT

record transition_request =
  tr_callId :: string
  tr_from :: BillingLifecycleState
  tr_to :: BillingLifecycleState
  tr_source :: string
  tr_reason :: string

record transition_result =
  tr_next :: BillingLifecycleState
  tr_changed :: bool
  tr_valid :: bool

fun ALLOWED_TRANSITIONS :: "BillingLifecycleState \<Rightarrow> BillingLifecycleState list" where
  "ALLOWED_TRANSITIONS INIT = [STARTING, ACTIVE, FAILED]"
| "ALLOWED_TRANSITIONS STARTING = [ACTIVE, ENDING, FAILED, RECOVERING]"
| "ALLOWED_TRANSITIONS ACTIVE = [ENDING, RECOVERING, SETTLING, FAILED, FAILED_RECOVERY_SETTLEMENT]"
| "ALLOWED_TRANSITIONS RECOVERING = [ACTIVE, ENDING, SETTLING, FAILED, FAILED_RECOVERY_SETTLEMENT]"
| "ALLOWED_TRANSITIONS ENDING = [SETTLING, SETTLED, FAILED, FAILED_RECOVERY_SETTLEMENT]"
| "ALLOWED_TRANSITIONS SETTLING = [SETTLED, FAILED, FAILED_RECOVERY_SETTLEMENT]"
| "ALLOWED_TRANSITIONS SETTLED = []"
| "ALLOWED_TRANSITIONS FAILED = [SETTLING, FAILED_RECOVERY_SETTLEMENT]"
| "ALLOWED_TRANSITIONS FAILED_RECOVERY_SETTLEMENT = []"

definition transitionBillingState :: "transition_request \<Rightarrow> transition_result" where
  "transitionBillingState req =
     (if tr_from req = tr_to req
      then \<lparr> tr_next = tr_from req, tr_changed = False, tr_valid = True \<rparr>
      else if tr_to req \<in> set (ALLOWED_TRANSITIONS (tr_from req))
      then \<lparr> tr_next = tr_to req, tr_changed = True, tr_valid = True \<rparr>
      else \<lparr> tr_next = tr_from req, tr_changed = False, tr_valid = False \<rparr>)"

text \<open>The metrics a request records, in order.\<close>

definition transitionMetrics :: "transition_request \<Rightarrow> string list" where
  "transitionMetrics req =
     (if tr_from req = tr_to req then []
      else if tr_to req \<in> set (ALLOWED_TRANSITIONS (tr_from req)) then [''billing_lifecycle_transition'']
      else (let isConvergenceContention =
                  starts_with (tr_reason req) ''checkpoint_'' \<and>
                  (tr_from req = SETTLING \<or> tr_from req = SETTLED \<or>
                   tr_from req = FAILED_RECOVERY_SETTLEMENT)
            in (if isConvergenceContention then [''billing_lifecycle_convergence_contention''] else [])
               @ [''billing_lifecycle_invalid_transition'']))"

text \<open>
  The audited variant appends a row to the transition collection for a valid change. Whether
  the insert succeeds is the database's answer; a failure is logged and the result stands.
\<close>

record transition_audit =
  au_callId :: string
  au_previousState :: BillingLifecycleState
  au_nextState :: BillingLifecycleState
  au_reason :: string
  au_source :: string
  au_timestamp :: millis

definition transitionBillingStateWithAudit ::
  "bool \<Rightarrow> millis \<Rightarrow> transition_request \<Rightarrow> transition_audit list
   \<Rightarrow> transition_result \<times> transition_audit list" where
  "transitionBillingStateWithAudit insert_ok now req audit =
     (let transitioned = transitionBillingState req
      in if \<not> (tr_changed transitioned \<and> tr_valid transitioned) then (transitioned, audit)
         else if insert_ok
         then (transitioned,
               audit @ [\<lparr> au_callId = tr_callId req, au_previousState = tr_from req,
                          au_nextState = tr_next transitioned, au_reason = tr_reason req,
                          au_source = tr_source req, au_timestamp = now \<rparr>])
         else (transitioned, audit))"

definition isNonTerminalLifecycle :: "BillingLifecycleState option \<Rightarrow> bool" where
  "isNonTerminalLifecycle lifecycleState =
     (let lifecycle = nvl lifecycleState ACTIVE in lifecycle \<noteq> SETTLED \<and> lifecycle \<noteq> FAILED)"

definition isLiveBillingLifecycle :: "BillingLifecycleState option \<Rightarrow> bool" where
  "isLiveBillingLifecycle lifecycleState =
     (let lifecycle = nvl lifecycleState ACTIVE in lifecycle = ACTIVE \<or> lifecycle = STARTING)"

section \<open>Call status\<close>

datatype CallStatus = Ringing | Accepted | Rejected | Missed | Cancelled | Ended

datatype CallLifecycleStage =
    Stage_requested | Stage_ringing | Stage_accepted | Stage_in_session | Stage_ended
  | Stage_failed | Stage_timeout

fun CALL_STATUS_TO_LIFECYCLE_STAGE :: "CallStatus \<Rightarrow> CallLifecycleStage" where
  "CALL_STATUS_TO_LIFECYCLE_STAGE Ringing = Stage_ringing"
| "CALL_STATUS_TO_LIFECYCLE_STAGE Accepted = Stage_in_session"
| "CALL_STATUS_TO_LIFECYCLE_STAGE Ended = Stage_ended"
| "CALL_STATUS_TO_LIFECYCLE_STAGE Rejected = Stage_failed"
| "CALL_STATUS_TO_LIFECYCLE_STAGE Missed = Stage_timeout"
| "CALL_STATUS_TO_LIFECYCLE_STAGE Cancelled = Stage_failed"

fun CALL_ALLOWED_TRANSITIONS :: "CallStatus \<Rightarrow> CallStatus list" where
  "CALL_ALLOWED_TRANSITIONS Ringing = [Accepted, Rejected, Missed, Cancelled, Ended]"
| "CALL_ALLOWED_TRANSITIONS Accepted = [Ended, Cancelled, Missed]"
| "CALL_ALLOWED_TRANSITIONS Rejected = []"
| "CALL_ALLOWED_TRANSITIONS Missed = []"
| "CALL_ALLOWED_TRANSITIONS Cancelled = []"
| "CALL_ALLOWED_TRANSITIONS Ended = []"

definition isAllowedTransition :: "CallStatus \<Rightarrow> CallStatus \<Rightarrow> bool" where
  "isAllowedTransition from to \<longleftrightarrow> to \<in> set (CALL_ALLOWED_TRANSITIONS from)"

record call_doc =
  call_callId :: string
  call_status :: CallStatus
  call_acceptedAt :: "millis option"
  call_startedAt :: "millis option"
  call_endedAt :: "millis option"
  call_durationSeconds :: "int option"
  call_isSettled :: bool

definition set_if_unset :: "millis \<Rightarrow> millis option \<Rightarrow> millis option" where
  "set_if_unset now t = (case t of None \<Rightarrow> Some now | Some v \<Rightarrow> Some v)"

definition transitionCallStatus :: "millis \<Rightarrow> CallStatus \<Rightarrow> call_doc \<Rightarrow> call_doc" where
  "transitionCallStatus now nextStatus call =
     (if call_status call = nextStatus then call
      else (let call' =
              (case nextStatus of
                 Ringing \<Rightarrow> call
               | Accepted \<Rightarrow> call\<lparr>call_acceptedAt := set_if_unset now (call_acceptedAt call)\<rparr>
               | Ended \<Rightarrow>
                   (let c = call\<lparr>call_endedAt := set_if_unset now (call_endedAt call)\<rparr>
                    in case (call_startedAt c, call_endedAt c) of
                         (Some s, Some e) \<Rightarrow> c\<lparr>call_durationSeconds := Some ((e - s) div 1000)\<rparr>
                       | _ \<Rightarrow> c)
               | Rejected \<Rightarrow> call\<lparr>call_endedAt := set_if_unset now (call_endedAt call)\<rparr>
               | Missed \<Rightarrow> call\<lparr>call_endedAt := set_if_unset now (call_endedAt call)\<rparr>
               | Cancelled \<Rightarrow> call\<lparr>call_endedAt := set_if_unset now (call_endedAt call)\<rparr>)
            in call'\<lparr>call_status := nextStatus\<rparr>))"

definition transitionCallStatusById ::
  "millis \<Rightarrow> string \<Rightarrow> CallStatus \<Rightarrow> (string \<rightharpoonup> call_doc) \<Rightarrow> (string \<rightharpoonup> call_doc)" where
  "transitionCallStatusById now callId nextStatus calls =
     (case calls callId of
        None \<Rightarrow> calls
      | Some call \<Rightarrow> calls(callId \<mapsto> transitionCallStatus now nextStatus call))"

section \<open>The contract of a guarded machine\<close>

locale transition_table =
  fixes table :: "'s \<Rightarrow> 's list" and step :: "'s \<Rightarrow> 's \<Rightarrow> 's"
  assumes step_guarded: "step s t = (if t \<in> set (table s) then t else s)"
begin

lemma terminal_absorbs: "table s = [] \<Longrightarrow> foldl step s ts = s"
  by (induction ts) (simp_all add: step_guarded)

lemma closed_set_kept:
  assumes closed: "\<And>s t. s \<in> A \<Longrightarrow> t \<in> set (table s) \<Longrightarrow> t \<in> A"
  shows "s \<in> A \<Longrightarrow> foldl step s ts \<in> A"
proof (induction ts arbitrary: s)
  case Nil
  then show ?case by simp
next
  case (Cons t ts)
  have "step s t \<in> A" using closed Cons.prems by (simp add: step_guarded)
  then show ?case using Cons.IH by simp
qed

lemma run_is_path: "(s, foldl step s ts) \<in> {(a, b). b \<in> set (table a)}\<^sup>*"
proof (induction ts arbitrary: s)
  case Nil
  then show ?case by simp
next
  case (Cons t ts)
  have "(s, step s t) \<in> {(a, b). b \<in> set (table a)}\<^sup>*" by (auto simp: step_guarded)
  then show ?case using Cons.IH [of "step s t"] by (auto intro: rtrancl_trans)
qed

end

definition billing_request :: "BillingLifecycleState \<Rightarrow> BillingLifecycleState \<Rightarrow> transition_request" where
  "billing_request s t = \<lparr> tr_callId = [], tr_from = s, tr_to = t, tr_source = [], tr_reason = [] \<rparr>"

definition billing_step :: "BillingLifecycleState \<Rightarrow> BillingLifecycleState \<Rightarrow> BillingLifecycleState" where
  "billing_step s t = tr_next (transitionBillingState (billing_request s t))"

lemma ALLOWED_TRANSITIONS_irrefl: "s \<notin> set (ALLOWED_TRANSITIONS s)"
  by (cases s) simp_all

interpretation billing_machine: transition_table ALLOWED_TRANSITIONS billing_step
  by unfold_locales
    (simp add: billing_step_def billing_request_def transitionBillingState_def
      ALLOWED_TRANSITIONS_irrefl)

text \<open>The next state depends on the two states of the request only.\<close>

lemma transition_next: "tr_next (transitionBillingState req) = billing_step (tr_from req) (tr_to req)"
  by (simp add: billing_step_def billing_request_def transitionBillingState_def)

lemma transition_audit_next [simp]:
  "tr_next (fst (transitionBillingStateWithAudit ok now req audit)) =
   billing_step (tr_from req) (tr_to req)"
  by (simp add: transitionBillingStateWithAudit_def Let_def transition_next)

lemma billing_step_cases:
  "billing_step s t = (if t \<in> set (ALLOWED_TRANSITIONS s) then t else s)"
  by (rule billing_machine.step_guarded)

section \<open>Billing never resumes\<close>

definition billing_closed :: "BillingLifecycleState set" where
  "billing_closed = {ENDING, SETTLING, SETTLED, FAILED, FAILED_RECOVERY_SETTLEMENT}"

lemma billing_closed_step:
  "s \<in> billing_closed \<Longrightarrow> t \<in> set (ALLOWED_TRANSITIONS s) \<Longrightarrow> t \<in> billing_closed"
  by (cases s) (auto simp: billing_closed_def)

text \<open>
  Once a call has left billing (it is ending, settling, settled or failed), no sequence of
  transition requests, whatever their targets, brings it back to a state in which it is billed.
\<close>

theorem billing_never_resumes:
  "s \<in> billing_closed \<Longrightarrow> foldl billing_step s ts \<notin> {INIT, STARTING, ACTIVE, RECOVERING}"
  using billing_machine.closed_set_kept [of billing_closed s ts] billing_closed_step
  by (auto simp: billing_closed_def)

theorem billing_never_resumes_witness:
  "ENDING \<in> billing_closed \<and> foldl billing_step ENDING [ACTIVE, SETTLING, RECOVERING, SETTLED, ACTIVE] = SETTLED
   \<and> SETTLED \<notin> {INIT, STARTING, ACTIVE, RECOVERING}"
proof -
  have h: "ENDING \<in> billing_closed" by (simp add: billing_closed_def)
  have run: "foldl billing_step ENDING [ACTIVE, SETTLING, RECOVERING, SETTLED, ACTIVE] = SETTLED"
    by (simp add: billing_step_cases)
  show ?thesis
    using h run billing_never_resumes [OF h, of "[ACTIVE, SETTLING, RECOVERING, SETTLED, ACTIVE]"] by simp
qed

text \<open>
  The two final states absorb every request: after settlement, or after a failed recovery
  settlement, no sequence of requests changes the state, and every request is reported as
  unchanged.
\<close>

theorem final_states_absorb:
  "foldl billing_step SETTLED ts = SETTLED \<and>
   foldl billing_step FAILED_RECOVERY_SETTLEMENT ts = FAILED_RECOVERY_SETTLEMENT \<and>
   (tr_from req = SETTLED \<or> tr_from req = FAILED_RECOVERY_SETTLEMENT \<longrightarrow>
      \<not> tr_changed (transitionBillingState req))"
proof (intro conjI impI)
  show "foldl billing_step SETTLED ts = SETTLED"
    by (rule billing_machine.terminal_absorbs) simp
  show "foldl billing_step FAILED_RECOVERY_SETTLEMENT ts = FAILED_RECOVERY_SETTLEMENT"
    by (rule billing_machine.terminal_absorbs) simp
  show "\<not> tr_changed (transitionBillingState req)"
    if "tr_from req = SETTLED \<or> tr_from req = FAILED_RECOVERY_SETTLEMENT"
    using that by (auto simp: transitionBillingState_def)
qed

theorem final_states_absorb_witness:
  "foldl billing_step SETTLED [ACTIVE, FAILED] = SETTLED \<and>
   \<not> tr_changed (transitionBillingState (billing_request SETTLED FAILED))"
  using final_states_absorb [of "[ACTIVE, FAILED]" "billing_request SETTLED FAILED"]
  by (simp add: billing_request_def)

section \<open>Call status facts\<close>

text \<open>
  Ending a call fixes its times: the end time is set the first time and kept afterwards,
  and the duration is the whole seconds between start and end, however often the call is ended
  again.
\<close>

theorem call_end_times_fixed:
  assumes "call_status c \<noteq> Ended" and "call_startedAt c = Some s"
  shows "call_endedAt (transitionCallStatus now Ended c) = Some (nvl (call_endedAt c) now) \<and>
    call_durationSeconds (transitionCallStatus now Ended c) = Some ((nvl (call_endedAt c) now - s) div 1000) \<and>
    transitionCallStatus later Ended (transitionCallStatus now Ended c) = transitionCallStatus now Ended c"
proof (cases "call_endedAt c")
  case None
  with assms show ?thesis by (simp add: transitionCallStatus_def set_if_unset_def Let_def)
next
  case (Some e)
  with assms show ?thesis by (simp add: transitionCallStatus_def set_if_unset_def Let_def)
qed

definition sample_call :: call_doc where
  "sample_call = \<lparr> call_callId = ''c'', call_status = Accepted, call_acceptedAt = Some 1000,
     call_startedAt = Some 2000, call_endedAt = None, call_durationSeconds = None, call_isSettled = False \<rparr>"

theorem call_end_times_fixed_witness:
  "call_durationSeconds (transitionCallStatus 62999 Ended sample_call) = Some 60"
  using call_end_times_fixed [of sample_call 2000 62999] by (simp add: sample_call_def)

text \<open>
  The table of allowed call transitions is advisory: whatever the current status, including
  the statuses whose list of successors is empty, a request leaves the document in the requested
  status.
\<close>

theorem call_status_table_not_enforced:
  "call_status (transitionCallStatus now t c) = t"
  by (cases t) (auto simp: transitionCallStatus_def Let_def split: option.splits)

end
