(* ===== verification/Session.thy ===== *)
theory Session
  imports Money Lifecycle
begin

text \<open>
  The billing session of a call as \<open>src/modules/billing/billing.service.ts\<close> keeps it
  (\<open>CallSession\<close>): its record, the normalisation of version 4 fields, the migration of older
  sessions, and the reconstruction from a Mongo checkpoint
  (\<open>billing-checkpoint.service.ts\<close>). Optional properties of the interface are options.

  A stored session is what \<open>JSON.parse\<close> of the Redis value gives: an object with the fields of
  version 2 or later, an object of the first version (per-second rates as fractional coins),
  or text that does not parse.
\<close>

section \<open>Records\<close>

record call_session =
  schemaVersion :: int
  billingVersion :: "int option"
  initialIntroMicros :: "micros option"
  initialWalletMicros :: "micros option"
  billingPricePerSecondMicros :: "micros option"
  introPromoActive :: "bool option"
  introPromoSessionId :: "string option"
  totalIntroDeductedMicros :: "micros option"
  totalWalletDeductedMicros :: "micros option"
  callId :: string
  userFirebaseUid :: string
  creatorFirebaseUid :: string
  userMongoId :: string
  creatorMongoId :: string
  pricePerMinute :: rat
  pricePerSecondMicros :: micros
  creatorEarningsPerSecondMicros :: micros
  creatorShareAtCallTime :: rat
  startTime :: millis
  lastProcessedAt :: millis
  version :: int
  billingSequence :: int
  lifecycleState :: "BillingLifecycleState option"
  totalDeductedMicros :: micros
  totalEarnedMicros :: micros
  elapsedSeconds :: int
  effectiveDurationLimitSeconds :: int
  lastCheckpointAtMs :: "millis option"
  lastCheckpointDeductedMicros :: "micros option"
  lastCheckpointEarnedMicros :: "micros option"
  lastEmitAtMs :: "millis option"
  lastHealthyTickAt :: "millis option"
  lastSocketEmitAt :: "millis option"
  lastSequenceAdvanceAt :: "millis option"
  expectedNextTickAtMs :: "millis option"
  instanceId :: "string option"
  runtimeEpoch :: "int option"
  leaderLock :: "string option"

abbreviation lifecycle :: "call_session \<Rightarrow> BillingLifecycleState" where
  "lifecycle s \<equiv> nvl (lifecycleState s) INIT"

record v1_session =
  v1_pricePerSecond :: "rat option"
  v1_creatorEarningsPerSecond :: "rat option"
  v1_elapsedSeconds :: "rat option"
  v1_startTime :: "int option"
  v1_callId :: string
  v1_userFirebaseUid :: string
  v1_creatorFirebaseUid :: string
  v1_userMongoId :: string
  v1_creatorMongoId :: string
  v1_pricePerMinute :: "rat option"
  v1_creatorShareAtCallTime :: "rat option"
  v1_version :: "rat option"
  v1_billingSequence :: "rat option"
  v1_lifecycleState :: "BillingLifecycleState option"
  v1_effectiveDurationLimitSeconds :: "int option"
  v1_lastCheckpointAtMs :: "int option"
  v1_lastCheckpointDeductedMicros :: "int option"
  v1_lastCheckpointEarnedMicros :: "int option"
  v1_lastHealthyTickAt :: "int option"
  v1_lastSocketEmitAt :: "int option"
  v1_lastSequenceAdvanceAt :: "int option"
  v1_instanceId :: "string option"
  v1_runtimeEpoch :: "int option"
  v1_leaderLock :: "string option"

datatype stored_session = Typed call_session | Legacy v1_session | Unparsable

record billing_checkpoint =
  cp_userMongoId :: string
  cp_creatorMongoId :: string
  cp_userFirebaseUid :: "string option"
  cp_creatorFirebaseUid :: "string option"
  cp_startTimeMs :: "millis option"
  cp_lastProcessedAtMs :: "millis option"
  cp_remainingUserBalanceMicros :: "micros option"
  cp_pricePerSecondMicros :: "micros option"
  cp_creatorEarningsPerSecondMicros :: "micros option"
  cp_totalDeductedMicros :: micros
  cp_totalEarnedMicros :: micros
  cp_billingSequence :: int
  cp_lifecycleState :: "BillingLifecycleState option"
  cp_schemaVersion :: "int option"
  cp_version :: "int option"
  cp_status :: "string option"

section \<open>Normalisation\<close>

definition normalizeV4SessionFields :: "call_session \<Rightarrow> call_session" where
  "normalizeV4SessionFields session =
     (let s = session\<lparr>
            billingVersion := Some (nvl (billingVersion session) 1),
            introPromoActive := Some (nvl (introPromoActive session) False),
            introPromoSessionId := Some (nvl (introPromoSessionId session) (callId session)),
            initialIntroMicros := Some (nvl (initialIntroMicros session) 0),
            initialWalletMicros := Some (nvl (initialWalletMicros session) 0),
            billingPricePerSecondMicros :=
              Some (nvl (billingPricePerSecondMicros session) (pricePerSecondMicros session)),
            totalIntroDeductedMicros := Some (nvl (totalIntroDeductedMicros session) 0),
            totalWalletDeductedMicros := Some (nvl (totalWalletDeductedMicros session) 0),
            billingSequence := max 0 (billingSequence session),
            lifecycleState := Some (nvl (lifecycleState session) INIT)\<rparr>
      in s\<lparr>lifecycleState :=
             (if lifecycleState s = Some INIT \<and> elapsedSeconds s > 0
              then Some (tr_next (transitionBillingState
                 \<lparr> tr_callId = callId s, tr_from = INIT, tr_to = ACTIVE,
                   tr_source = ''billing.normalizeV4SessionFields'',
                   tr_reason = ''legacy_elapsed_seconds_backfill'' \<rparr>))
              else lifecycleState s)\<rparr>)"

definition rat0 :: "rat option \<Rightarrow> rat" where
  "rat0 x = (case x of None \<Rightarrow> 0 | Some r \<Rightarrow> r)"

definition nonempty :: "string option \<Rightarrow> string option" where
  "nonempty s = (case s of None \<Rightarrow> None | Some t \<Rightarrow> if t = [] then None else Some t)"

definition nonzero :: "int option \<Rightarrow> int option" where
  "nonzero x = (case x of None \<Rightarrow> None | Some n \<Rightarrow> if n = 0 then None else Some n)"

text \<open>
  The balance keys of a call hold decimal text written by \<open>String(n)\<close> and read back with
  \<open>parseInt\<close>; the model keeps the integer (\<open>Ownership.parse_show_int\<close> is the round trip).
  \<open>parse_micros\<close> is \<open>Math.max(0, parseInt(String(raw ?? '0'), 10) || 0)\<close>.
\<close>

definition parse_micros :: "int option \<Rightarrow> micros" where
  "parse_micros raw = max 0 (num0 raw)"

definition LEGACY_EARNINGS_MICRO_FACTOR :: int where
  "LEGACY_EARNINGS_MICRO_FACTOR = 10000"

definition migrate_v1 :: "pricing_config \<Rightarrow> millis \<Rightarrow> v1_session \<Rightarrow> int option \<Rightarrow> call_session \<times> micros" where
  "migrate_v1 cfg now raw earningsRaw =
     (let ppsMicros = max 0 (js_round (rat0 (v1_pricePerSecond raw) * of_int COIN_MICROS));
          cepsMicros = max 0 (js_round (rat0 (v1_creatorEarningsPerSecond raw) * of_int COIN_MICROS));
          elapsed = max 0 \<lfloor>rat0 (v1_elapsedSeconds raw)\<rfloor>;
          start = or_else (v1_startTime raw) now;
          eRaw = num0 earningsRaw;
          earnings = max 0 (js_round (of_int (eRaw * COIN_MICROS) / of_int LEGACY_EARNINGS_MICRO_FACTOR))
      in (normalizeV4SessionFields
           \<lparr> schemaVersion = BILLING_SESSION_SCHEMA_VERSION,
             billingVersion = None, initialIntroMicros = None, initialWalletMicros = None,
             billingPricePerSecondMicros = None, introPromoActive = None, introPromoSessionId = None,
             totalIntroDeductedMicros = None, totalWalletDeductedMicros = None,
             callId = v1_callId raw,
             userFirebaseUid = v1_userFirebaseUid raw, creatorFirebaseUid = v1_creatorFirebaseUid raw,
             userMongoId = v1_userMongoId raw, creatorMongoId = v1_creatorMongoId raw,
             pricePerMinute = rat0 (v1_pricePerMinute raw),
             pricePerSecondMicros = ppsMicros, creatorEarningsPerSecondMicros = cepsMicros,
             creatorShareAtCallTime = rat0 (v1_creatorShareAtCallTime raw),
             startTime = start, lastProcessedAt = start + elapsed * 1000,
             version = max 1 \<lfloor>if rat0 (v1_version raw) = 0 then 1 else rat0 (v1_version raw)\<rfloor>,
             billingSequence = max 0 \<lfloor>rat0 (v1_billingSequence raw)\<rfloor>,
             lifecycleState = Some (nvl (v1_lifecycleState raw) ACTIVE),
             totalDeductedMicros = elapsed * ppsMicros, totalEarnedMicros = earnings,
             elapsedSeconds = elapsed,
             effectiveDurationLimitSeconds =
               or_else (v1_effectiveDurationLimitSeconds raw) (MAX_CALL_DURATION_SECONDS cfg),
             lastCheckpointAtMs = Some (num0 (v1_lastCheckpointAtMs raw)),
             lastCheckpointDeductedMicros = v1_lastCheckpointDeductedMicros raw,
             lastCheckpointEarnedMicros = v1_lastCheckpointEarnedMicros raw,
             lastEmitAtMs = None,
             lastHealthyTickAt = Some (num0 (v1_lastHealthyTickAt raw)),
             lastSocketEmitAt = Some (num0 (v1_lastSocketEmitAt raw)),
             lastSequenceAdvanceAt = Some (num0 (v1_lastSequenceAdvanceAt raw)),
             expectedNextTickAtMs = None,
             instanceId = nonempty (v1_instanceId raw),
             runtimeEpoch = nonzero (v1_runtimeEpoch raw),
             leaderLock = nonempty (v1_leaderLock raw) \<rparr>,
          earnings))"

text \<open>A stored object of the first version that carries the later fields: the old ones are absent.\<close>

definition v1_of_typed :: "call_session \<Rightarrow> v1_session" where
  "v1_of_typed s =
     \<lparr> v1_pricePerSecond = None, v1_creatorEarningsPerSecond = None, v1_elapsedSeconds = Some (of_int (elapsedSeconds s)),
       v1_startTime = Some (startTime s), v1_callId = callId s, v1_userFirebaseUid = userFirebaseUid s,
       v1_creatorFirebaseUid = creatorFirebaseUid s, v1_userMongoId = userMongoId s,
       v1_creatorMongoId = creatorMongoId s, v1_pricePerMinute = Some (pricePerMinute s),
       v1_creatorShareAtCallTime = Some (creatorShareAtCallTime s), v1_version = Some (of_int (version s)),
       v1_billingSequence = Some (of_int (billingSequence s)), v1_lifecycleState = lifecycleState s,
       v1_effectiveDurationLimitSeconds = Some (effectiveDurationLimitSeconds s),
       v1_lastCheckpointAtMs = lastCheckpointAtMs s, v1_lastCheckpointDeductedMicros = lastCheckpointDeductedMicros s,
       v1_lastCheckpointEarnedMicros = lastCheckpointEarnedMicros s, v1_lastHealthyTickAt = lastHealthyTickAt s,
       v1_lastSocketEmitAt = lastSocketEmitAt s, v1_lastSequenceAdvanceAt = lastSequenceAdvanceAt s,
       v1_instanceId = instanceId s, v1_runtimeEpoch = runtimeEpoch s, v1_leaderLock = leaderLock s \<rparr>"

definition migrateSession ::
  "pricing_config \<Rightarrow> millis \<Rightarrow> stored_session \<Rightarrow> int option \<Rightarrow> (call_session \<times> micros) option" where
  "migrateSession cfg now raw earningsRaw =
     (case raw of
        Unparsable \<Rightarrow> None
      | Typed s \<Rightarrow>
          if schemaVersion s < 2 then Some (migrate_v1 cfg now (v1_of_typed s) earningsRaw)
          else Some (normalizeV4SessionFields
                  (if schemaVersion s \<ge> BILLING_SESSION_SCHEMA_VERSION then s
                   else s\<lparr>schemaVersion := BILLING_SESSION_SCHEMA_VERSION\<rparr>),
                parse_micros earningsRaw)
      | Legacy v \<Rightarrow> Some (migrate_v1 cfg now v earningsRaw))"

section \<open>Reconstruction from a checkpoint\<close>

definition checkpoint_rates ::
  "rat \<Rightarrow> bool \<Rightarrow> pricing_state \<Rightarrow> billing_checkpoint \<Rightarrow> (micros \<times> micros) \<times> pricing_state" where
  "checkpoint_rates share cache_ok prices cp =
     (let pps = max 0 (num0 (cp_pricePerSecondMicros cp));
          ceps = max 0 (num0 (cp_creatorEarningsPerSecondMicros cp))
      in if pps \<le> 0 \<and> cp_creatorMongoId cp \<noteq> []
         then (case snapshotForCreatorCached share cache_ok (cp_creatorMongoId cp) prices of
                 (Inl _, prices') \<Rightarrow> ((pps, ceps), prices')
               | (Inr snap, prices') \<Rightarrow>
                   if snap_pricePerSecondMicros snap > 0
                   then ((snap_pricePerSecondMicros snap, snap_creatorEarningsPerSecondMicros snap), prices')
                   else ((pps, ceps), prices'))
         else ((pps, ceps), prices))"

definition buildSessionFromCheckpoint ::
  "pricing_config \<Rightarrow> int \<Rightarrow> string \<Rightarrow> bool \<Rightarrow> pricing_state \<Rightarrow> millis
   \<Rightarrow> billing_checkpoint \<Rightarrow> string \<Rightarrow> (call_session \<times> micros \<times> micros) option \<times> pricing_state" where
  "buildSessionFromCheckpoint cfg interval inst cache_ok prices now cp cid =
     (if cp_userMongoId cp = [] \<or> cp_creatorMongoId cp = [] \<or>
         nvl (cp_userFirebaseUid cp) [] = [] \<or> nvl (cp_creatorFirebaseUid cp) [] = []
      then (None, prices)
      else (let start = or_else (cp_startTimeMs cp) now;
                lastProcessed = or_else (cp_lastProcessedAtMs cp) start;
                ((pps, ceps), prices') = checkpoint_rates (CREATOR_SHARE_PERCENTAGE cfg) cache_ok prices cp;
                ded = max 0 (cp_totalDeductedMicros cp);
                earned = max 0 (cp_totalEarnedMicros cp);
                remaining = max 0 (num0 (cp_remainingUserBalanceMicros cp))
            in (Some (normalizeV4SessionFields
                 \<lparr> schemaVersion = BILLING_SESSION_SCHEMA_VERSION,
                   billingVersion = None, initialIntroMicros = None, initialWalletMicros = None,
                   billingPricePerSecondMicros = None, introPromoActive = None,
                   introPromoSessionId = None, totalIntroDeductedMicros = None,
                   totalWalletDeductedMicros = None,
                   callId = cid,
                   userFirebaseUid = nvl (cp_userFirebaseUid cp) [],
                   creatorFirebaseUid = nvl (cp_creatorFirebaseUid cp) [],
                   userMongoId = cp_userMongoId cp, creatorMongoId = cp_creatorMongoId cp,
                   pricePerMinute =
                     (if pps > 0 then of_int (js_round (of_int (pps * 60) / of_int COIN_MICROS)) else 0),
                   pricePerSecondMicros = pps, creatorEarningsPerSecondMicros = ceps,
                   creatorShareAtCallTime = 0,
                   startTime = start, lastProcessedAt = lastProcessed,
                   version = max 1 (or_else (cp_version cp) 1),
                   billingSequence = max 0 (cp_billingSequence cp),
                   lifecycleState = Some (nvl (cp_lifecycleState cp) RECOVERING),
                   totalDeductedMicros = ded, totalEarnedMicros = earned,
                   elapsedSeconds = (if pps > 0 then ded div pps else 0),
                   effectiveDurationLimitSeconds = MAX_CALL_DURATION_SECONDS cfg,
                   lastCheckpointAtMs = None, lastCheckpointDeductedMicros = None,
                   lastCheckpointEarnedMicros = None, lastEmitAtMs = None,
                   lastHealthyTickAt = Some lastProcessed,
                   lastSocketEmitAt = Some lastProcessed,
                   lastSequenceAdvanceAt = Some lastProcessed,
                   expectedNextTickAtMs = Some (lastProcessed + interval),
                   instanceId = Some inst,
                   runtimeEpoch = Some (max 1 (or_else (cp_version cp) 1)),
                   leaderLock = Some (''runtime:'' @ cid) \<rparr>,
               remaining, earned), prices')))"

section \<open>Checkpoint writes\<close>

text \<open>
  (The checkpoint collection has no \<open>lastCheckpointAtMs\<close> field, so the last socket emit of a
  reconstructed session is its last processed time.)

  \<open>upsertBillingCheckpoint\<close> writes the totals only; on a missing row Mongo inserts one with the
  remaining fields absent. \<open>upsertBillingCheckpointSnapshot\<close> writes the whole cursor and
  increments the version. Each catches a database failure (\<open>db_ok\<close> false) and changes nothing.
\<close>

definition empty_checkpoint :: billing_checkpoint where
  "empty_checkpoint =
     \<lparr> cp_userMongoId = [], cp_creatorMongoId = [], cp_userFirebaseUid = None,
       cp_creatorFirebaseUid = None, cp_startTimeMs = None, cp_lastProcessedAtMs = None,
       cp_remainingUserBalanceMicros = None, cp_pricePerSecondMicros = None,
       cp_creatorEarningsPerSecondMicros = None, cp_totalDeductedMicros = 0,
       cp_totalEarnedMicros = 0, cp_billingSequence = 0, cp_lifecycleState = None,
       cp_schemaVersion = None, cp_version = None, cp_status = None \<rparr>"

definition upsertBillingCheckpoint ::
  "bool \<Rightarrow> call_session \<Rightarrow> billing_checkpoint option \<Rightarrow> billing_checkpoint option" where
  "upsertBillingCheckpoint db_ok s cp =
     (if db_ok
      then Some ((nvl cp empty_checkpoint)\<lparr>
             cp_userMongoId := userMongoId s, cp_creatorMongoId := creatorMongoId s,
             cp_totalDeductedMicros := totalDeductedMicros s,
             cp_totalEarnedMicros := totalEarnedMicros s,
             cp_billingSequence := max 0 (billingSequence s),
             cp_lifecycleState := Some (nvl (lifecycleState s) ACTIVE)\<rparr>)
      else cp)"

definition checkpoint_cursor :: "call_session \<Rightarrow> micros \<Rightarrow> billing_checkpoint \<Rightarrow> billing_checkpoint" where
  "checkpoint_cursor s balance cp =
     cp\<lparr> cp_userMongoId := userMongoId s, cp_creatorMongoId := creatorMongoId s,
         cp_userFirebaseUid := Some (userFirebaseUid s),
         cp_creatorFirebaseUid := Some (creatorFirebaseUid s),
         cp_startTimeMs := Some (startTime s), cp_lastProcessedAtMs := Some (lastProcessedAt s),
         cp_remainingUserBalanceMicros := Some balance,
         cp_pricePerSecondMicros := Some (pricePerSecondMicros s),
         cp_creatorEarningsPerSecondMicros := Some (creatorEarningsPerSecondMicros s),
         cp_totalDeductedMicros := totalDeductedMicros s,
         cp_totalEarnedMicros := totalEarnedMicros s,
         cp_billingSequence := max 0 (billingSequence s),
         cp_lifecycleState := lifecycleState s,
         cp_schemaVersion := Some BILLING_SESSION_SCHEMA_VERSION,
         cp_status := Some ''active'' \<rparr>"

definition upsertBillingCheckpointSnapshot ::
  "bool \<Rightarrow> call_session \<Rightarrow> micros \<Rightarrow> billing_checkpoint option \<Rightarrow> billing_checkpoint option" where
  "upsertBillingCheckpointSnapshot db_ok s balance cp =
     (if db_ok
      then (let old = nvl cp empty_checkpoint
            in Some ((checkpoint_cursor s balance old)\<lparr>cp_version := Some (num0 (cp_version old) + 1)\<rparr>))
      else cp)"

section \<open>Classification of sessions\<close>

definition needsFullSessionBootstrap :: "call_session \<Rightarrow> bool" where
  "needsFullSessionBootstrap s \<longleftrightarrow>
     version s \<le> 0 \<or> js_trim (userMongoId s) = [] \<or> js_trim (creatorMongoId s) = []"

definition isBootstrappingSession :: "call_session \<Rightarrow> bool" where
  "isBootstrappingSession s \<longleftrightarrow>
     needsFullSessionBootstrap s \<or> nvl (billingPricePerSecondMicros s) (pricePerSecondMicros s) \<le> 0"

definition sessionPricePerSecondMicros :: "call_session \<Rightarrow> micros" where
  "sessionPricePerSecondMicros s =
     max 0 (nvl (billingPricePerSecondMicros s) (pricePerSecondMicros s))"

section \<open>Lemmas\<close>

lemma normalize_fields [simp]:
  "callId (normalizeV4SessionFields s) = callId s"
  "userFirebaseUid (normalizeV4SessionFields s) = userFirebaseUid s"
  "creatorFirebaseUid (normalizeV4SessionFields s) = creatorFirebaseUid s"
  "userMongoId (normalizeV4SessionFields s) = userMongoId s"
  "creatorMongoId (normalizeV4SessionFields s) = creatorMongoId s"
  "pricePerSecondMicros (normalizeV4SessionFields s) = pricePerSecondMicros s"
  "creatorEarningsPerSecondMicros (normalizeV4SessionFields s) = creatorEarningsPerSecondMicros s"
  "lastProcessedAt (normalizeV4SessionFields s) = lastProcessedAt s"
  "startTime (normalizeV4SessionFields s) = startTime s"
  "totalDeductedMicros (normalizeV4SessionFields s) = totalDeductedMicros s"
  "totalEarnedMicros (normalizeV4SessionFields s) = totalEarnedMicros s"
  "elapsedSeconds (normalizeV4SessionFields s) = elapsedSeconds s"
  "version (normalizeV4SessionFields s) = version s"
  "schemaVersion (normalizeV4SessionFields s) = schemaVersion s"
  "effectiveDurationLimitSeconds (normalizeV4SessionFields s) = effectiveDurationLimitSeconds s"
  "billingSequence (normalizeV4SessionFields s) = max 0 (billingSequence s)"
  "billingPricePerSecondMicros (normalizeV4SessionFields s) =
     Some (nvl (billingPricePerSecondMicros s) (pricePerSecondMicros s))"
  "introPromoActive (normalizeV4SessionFields s) = Some (nvl (introPromoActive s) False)"
  "totalIntroDeductedMicros (normalizeV4SessionFields s) = Some (nvl (totalIntroDeductedMicros s) 0)"
  "totalWalletDeductedMicros (normalizeV4SessionFields s) = Some (nvl (totalWalletDeductedMicros s) 0)"
  "runtimeEpoch (normalizeV4SessionFields s) = runtimeEpoch s"
  "leaderLock (normalizeV4SessionFields s) = leaderLock s"
  "instanceId (normalizeV4SessionFields s) = instanceId s"
  by (simp_all add: normalizeV4SessionFields_def Let_def)

lemma normalize_lifecycle:
  "lifecycleState (normalizeV4SessionFields s) =
     Some (if lifecycle s = INIT \<and> elapsedSeconds s > 0 then ACTIVE else lifecycle s)"
  by (simp add: normalizeV4SessionFields_def Let_def transition_next billing_step_cases)

lemma normalize_idem: "normalizeV4SessionFields (normalizeV4SessionFields s) = normalizeV4SessionFields s"
  by (simp add: normalizeV4SessionFields_def Let_def transition_next billing_step_cases)

lemma parse_micros_nonneg [simp]: "0 \<le> parse_micros raw"
  by (simp add: parse_micros_def)

section \<open>An example session\<close>

text \<open>A running call at the base tier, used by the witnesses.\<close>

definition demo_session :: call_session where
  "demo_session =
     \<lparr> schemaVersion = 4, billingVersion = Some 1, initialIntroMicros = Some 0,
       initialWalletMicros = Some 900000000, billingPricePerSecondMicros = Some 30000000,
       introPromoActive = Some False, introPromoSessionId = Some ''c1'',
       totalIntroDeductedMicros = Some 0, totalWalletDeductedMicros = Some 0,
       callId = ''c1'', userFirebaseUid = ''u1'', creatorFirebaseUid = ''k1'',
       userMongoId = ''mu'', creatorMongoId = ''mk'', pricePerMinute = 1800,
       pricePerSecondMicros = 30000000, creatorEarningsPerSecondMicros = 7500000,
       creatorShareAtCallTime = 1 / 4, startTime = 1000000, lastProcessedAt = 1000000,
       version = 1, billingSequence = 0, lifecycleState = Some ACTIVE,
       totalDeductedMicros = 0, totalEarnedMicros = 0, elapsedSeconds = 0,
       effectiveDurationLimitSeconds = 1800, lastCheckpointAtMs = None,
       lastCheckpointDeductedMicros = None, lastCheckpointEarnedMicros = None,
       lastEmitAtMs = None, lastHealthyTickAt = None, lastSocketEmitAt = None,
       lastSequenceAdvanceAt = None, expectedNextTickAtMs = None,
       instanceId = None, runtimeEpoch = Some 1, leaderLock = None \<rparr>"

end
