(* ===== verification/Locks.thy ===== *)
theory Locks
  imports Prelude
begin

text \<open>
  The locks the backend keeps in Redis. The state is the key space, a partial map from keys to
  values; \<open>SET key value NX\<close> is an update guarded by the absence of the key, and the release
  scripts (Lua, in the TypeScript sources) delete the key only when it still holds the token.
  Expiry of a key is the environment's step. Modelled: \<open>src/utils/distributed-lock.ts\<close>, the
  billing cycle lock of \<open>src/modules/billing/billing.service.ts\<close>, the mark-ended lease of
  \<open>billing-termination.state.ts\<close> and the settlement claim of
  \<open>billing-settlement-trigger.guards.ts\<close>.

  The locale \<open>token_lock\<close> is the contract of a lock with owner tokens; it is interpreted on the
  distributed lock and on the billing cycle lock.
\<close>

type_synonym keyspace = "string \<Rightarrow> string option"

section \<open>Distributed lock\<close>

definition acquireDistributedLock :: "string \<Rightarrow> string \<Rightarrow> keyspace \<Rightarrow> bool \<times> keyspace" where
  "acquireDistributedLock key token kv =
     (if kv key = None then (True, kv(key \<mapsto> token)) else (False, kv))"

definition releaseDistributedLock :: "string \<Rightarrow> string \<Rightarrow> keyspace \<Rightarrow> keyspace" where
  "releaseDistributedLock key token kv =
     (if kv key = Some token then kv(key := None) else kv)"

text \<open>The heartbeat refreshes the time to live with \<open>XX\<close>: it writes only an existing key.\<close>

definition heartbeatDistributedLock :: "string \<Rightarrow> string \<Rightarrow> keyspace \<Rightarrow> bool \<times> keyspace" where
  "heartbeatDistributedLock key token kv =
     (if kv key \<noteq> None then (True, kv(key \<mapsto> token)) else (False, kv))"

text \<open>
  \<open>withDistributedLock\<close> runs the task between acquire and release; the task sees the key space
  with the lock held, may fail, and the release runs in either case.
\<close>

definition withDistributedLock ::
  "string \<Rightarrow> string \<Rightarrow> (keyspace \<Rightarrow> ('e + unit) \<times> keyspace) \<Rightarrow> keyspace
   \<Rightarrow> ('e + bool) \<times> keyspace" where
  "withDistributedLock key token task kv =
     (case acquireDistributedLock key token kv of
        (False, kv') \<Rightarrow> (Inr False, kv')
      | (True, kv') \<Rightarrow>
          (case task kv' of
             (Inl e, kv'') \<Rightarrow> (Inl e, releaseDistributedLock key token kv'')
           | (Inr _, kv'') \<Rightarrow> (Inr True, releaseDistributedLock key token kv'')))"

section \<open>Billing cycle lock\<close>

definition billingCycleLockKey :: "string \<Rightarrow> string" where
  "billingCycleLockKey cid = ''billing:cycle_lock:'' @ cid"

definition acquireBillingCycleLock :: "string \<Rightarrow> string \<Rightarrow> keyspace \<Rightarrow> bool \<times> keyspace" where
  "acquireBillingCycleLock cid lockToken kv =
     (if kv (billingCycleLockKey cid) = None
      then (True, kv(billingCycleLockKey cid \<mapsto> lockToken)) else (False, kv))"

definition releaseBillingCycleLock :: "string \<Rightarrow> string \<Rightarrow> keyspace \<Rightarrow> keyspace" where
  "releaseBillingCycleLock lockKey token kv =
     (if kv lockKey = Some token then kv(lockKey := None) else kv)"

section \<open>Mark-ended lease and settlement claim\<close>

definition markEndedLeaseKey :: "string \<Rightarrow> string" where
  "markEndedLeaseKey cid = ''billing:mark_ended_lease:'' @ cid"

definition callEndedMarkerKey :: "string \<Rightarrow> string" where
  "callEndedMarkerKey cid = ''call:ended:'' @ cid"

definition tryAcquireMarkEndedLease :: "string \<Rightarrow> keyspace \<Rightarrow> bool \<times> keyspace" where
  "tryAcquireMarkEndedLease cid kv =
     (if kv (markEndedLeaseKey cid) = None
      then (True, kv(markEndedLeaseKey cid \<mapsto> ''1'')) else (False, kv))"

definition releaseMarkEndedLease :: "string \<Rightarrow> keyspace \<Rightarrow> keyspace" where
  "releaseMarkEndedLease cid kv = kv(markEndedLeaseKey cid := None)"

definition hasCallEndedMarker :: "string \<Rightarrow> keyspace \<Rightarrow> bool" where
  "hasCallEndedMarker cid kv \<longleftrightarrow> kv (callEndedMarkerKey cid) \<noteq> None"

definition setCallEndedMarker :: "string \<Rightarrow> keyspace \<Rightarrow> keyspace" where
  "setCallEndedMarker cid kv = kv(callEndedMarkerKey cid \<mapsto> ''1'')"

definition readMarkEndedLeaseTtlSeconds :: "env \<Rightarrow> int" where
  "readMarkEndedLeaseTtlSeconds env =
     (case (case env ''BILLING_MARK_ENDED_LEASE_TTL_SECONDS'' of
              None \<Rightarrow> Some 120 | Some raw \<Rightarrow> if raw = [] then Some 120 else js_parse_int raw) of
        None \<Rightarrow> 120
      | Some n \<Rightarrow> if \<not> js_finite n \<or> n \<le> 0 then 120 else min 600 (max 30 n))"

definition billingSettlementRequestedKey :: "string \<Rightarrow> string" where
  "billingSettlementRequestedKey cid = ''billing:settlement:requested:'' @ cid"

definition finalizeInflightKey :: "string \<Rightarrow> string" where
  "finalizeInflightKey cid = ''billing:finalize:inflight:'' @ cid"

definition tryClaimSettlementRequested :: "string \<Rightarrow> keyspace \<Rightarrow> bool \<times> keyspace" where
  "tryClaimSettlementRequested cid kv =
     (if kv (billingSettlementRequestedKey cid) = None
      then (True, kv(billingSettlementRequestedKey cid \<mapsto> ''1'')) else (False, kv))"

definition isSettlementAlreadyTriggered :: "(string \<Rightarrow> string option) \<Rightarrow> string \<Rightarrow> keyspace \<Rightarrow> bool" where
  "isSettlementAlreadyTriggered call_settlement_status cid kv \<longleftrightarrow>
     kv (finalizeInflightKey cid) \<noteq> None \<or>
     kv (''call:finalize:lock:'' @ cid) \<noteq> None \<or>
     kv (''call:finalize:done:'' @ cid) \<noteq> None \<or>
     kv (billingSettlementRequestedKey cid) \<noteq> None \<or>
     call_settlement_status cid = Some ''settling''"

section \<open>The contract of a token lock\<close>

datatype 't lock_event = Acquire 't | Release 't

primrec lock_apply :: "('t \<Rightarrow> 's \<Rightarrow> bool \<times> 's) \<Rightarrow> ('t \<Rightarrow> 's \<Rightarrow> 's) \<Rightarrow> 't lock_event \<Rightarrow> 's \<Rightarrow> 's" where
  "lock_apply acq rel (Acquire t) s = snd (acq t s)"
| "lock_apply acq rel (Release t) s = rel t s"

locale token_lock =
  fixes acquire :: "'t \<Rightarrow> 's \<Rightarrow> bool \<times> 's"
    and release :: "'t \<Rightarrow> 's \<Rightarrow> 's"
    and holder :: "'s \<Rightarrow> 't option"
  assumes acquire_free: "holder s = None \<Longrightarrow> fst (acquire t s) \<and> holder (snd (acquire t s)) = Some t"
    and acquire_held: "holder s \<noteq> None \<Longrightarrow> \<not> fst (acquire t s) \<and> snd (acquire t s) = s"
    and release_own: "holder s = Some t \<Longrightarrow> holder (release t s) = None"
    and release_other: "holder s \<noteq> Some t \<Longrightarrow> release t s = s"
begin

abbreviation apply_event :: "'t lock_event \<Rightarrow> 's \<Rightarrow> 's" where
  "apply_event \<equiv> lock_apply acquire release"

lemma held_until_released:
  "holder s = Some t \<Longrightarrow> Release t \<notin> set es \<Longrightarrow> holder (fold apply_event es s) = Some t"
proof (induction es arbitrary: s)
  case Nil
  then show ?case by simp
next
  case (Cons e es)
  have "holder (apply_event e s) = Some t"
  proof (cases e)
    case (Acquire u)
    then show ?thesis using Cons.prems(1) acquire_held [of s u] by simp
  next
    case (Release u)
    then have "u \<noteq> t" using Cons.prems(2) by auto
    then show ?thesis using Release Cons.prems(1) release_other [of s u] by simp
  qed
  then show ?case using Cons.IH Cons.prems(2) by simp
qed

lemma no_second_owner:
  assumes "holder s = None" and "Release t \<notin> set es"
  shows "\<not> fst (acquire u (fold apply_event es (snd (acquire t s))))"
proof -
  have "holder (fold apply_event es (snd (acquire t s))) = Some t"
    using acquire_free [OF assms(1), of t] assms(2) by (intro held_until_released) simp_all
  then show ?thesis using acquire_held [of "fold apply_event es (snd (acquire t s))" u] by simp
qed

lemma release_then_acquire:
  "holder s = Some t \<Longrightarrow> fst (acquire u (release t s))"
  using release_own acquire_free by blast

end

interpretation dist_lock: token_lock
  "acquireDistributedLock key" "releaseDistributedLock key" "\<lambda>kv. kv key" for key
  by unfold_locales (auto simp: acquireDistributedLock_def releaseDistributedLock_def)

interpretation cycle_lock: token_lock
  "acquireBillingCycleLock cid" "releaseBillingCycleLock (billingCycleLockKey cid)"
  "\<lambda>kv. kv (billingCycleLockKey cid)" for cid
  by unfold_locales (auto simp: acquireBillingCycleLock_def releaseBillingCycleLock_def)

section \<open>Properties\<close>

text \<open>
  While a worker holds the cycle lock of a call, no other worker can enter the cycle: after
  any sequence of acquire and release attempts by anyone, in which the holder's own token is not
  released, an acquire attempt fails.
\<close>

theorem cycle_lock_exclusive:
  assumes "kv (billingCycleLockKey cid) = None"
    and "Release t \<notin> set es"
  shows "\<not> fst (acquireBillingCycleLock cid u
            (fold (lock_apply (acquireBillingCycleLock cid) (releaseBillingCycleLock (billingCycleLockKey cid))) es (snd (acquireBillingCycleLock cid t kv))))"
  using assms by (rule cycle_lock.no_second_owner)

theorem cycle_lock_exclusive_witness:
  "\<not> fst (acquireBillingCycleLock ''c1'' ''w2''
        (fold (lock_apply (acquireBillingCycleLock ''c1'') (releaseBillingCycleLock (billingCycleLockKey ''c1''))) [Acquire ''w2'', Release ''w2'']
          (snd (acquireBillingCycleLock ''c1'' ''w1'' Map.empty))))"
  by (rule cycle_lock_exclusive) simp_all

text \<open>
  A task under the distributed lock runs at most once among contenders and always gives the
  lock back: when the lock is held by another token nothing runs and nothing changes, and when it
  is free the task runs on the key space with the lock, and afterwards, error or not, the lock is
  free again (unless the task itself handed the key to another token).
\<close>

theorem withDistributedLock_runs_once:
  "(kv key \<noteq> None \<longrightarrow> withDistributedLock key token task kv = (Inr False, kv)) \<and>
   (kv key = None \<longrightarrow>
      snd (withDistributedLock key token task kv) =
        releaseDistributedLock key token (snd (task (kv(key \<mapsto> token)))) \<and>
      (snd (task (kv(key \<mapsto> token))) key = Some token \<longrightarrow>
         snd (withDistributedLock key token task kv) key = None))"
  by (auto simp: withDistributedLock_def acquireDistributedLock_def releaseDistributedLock_def
      split: prod.splits sum.splits bool.splits)

theorem withDistributedLock_runs_once_witness:
  "snd (withDistributedLock ''k'' ''t'' (\<lambda>kv. (Inl ''boom'', kv)) Map.empty) ''k'' = None \<and>
   withDistributedLock ''k'' ''t'' (\<lambda>kv. (Inl ''boom'', kv)) [''k'' \<mapsto> ''u''] = (Inr False, [''k'' \<mapsto> ''u''])"
  using withDistributedLock_runs_once [of Map.empty "''k''" "''t''" "\<lambda>kv. (Inl ''boom'', kv)"]
    withDistributedLock_runs_once [of "[''k'' \<mapsto> ''u'']" "''k''" "''t''" "\<lambda>kv. (Inl ''boom'', kv)"]
  by (simp add: releaseDistributedLock_def)

lemma claim_once:
  "fst (tryClaimSettlementRequested cid kv) \<Longrightarrow>
   \<not> fst (tryClaimSettlementRequested cid (snd (tryClaimSettlementRequested cid kv)))"
  by (auto simp: tryClaimSettlementRequested_def split: if_splits)

lemma claimed_is_triggered:
  "isSettlementAlreadyTriggered st cid (snd (tryClaimSettlementRequested cid kv))"
  by (simp add: isSettlementAlreadyTriggered_def tryClaimSettlementRequested_def)

end
