(* ===== verification/CallSlots.thy ===== *)
theory CallSlots
  imports Session Locks "HOL-Library.List_Lexorder" "HOL-Library.Char_ord"
begin

text \<open>
  Active-call slots and the pair lock: one billed call per participant. Modelled from
  \<open>src/modules/billing/billing.service.ts\<close> (reservation script, orphan clean-up, release,
  stale pair lock) and \<open>src/modules/availability/creator-active-call-slot.service.ts\<close>
  (liveness of a slot, clearing at call end, reconciliation sweep).

  The state is the Redis key space and the stored sessions by call id. A Lua script runs
  atomically, so it is one update. Redis answering is part of the model; a command that fails
  where the code catches the failure leaves the key as it was, which is the state the next
  invocation starts from.
\<close>

section \<open>Keys and state\<close>

definition activeCallByUserKey :: "string \<Rightarrow> string" where
  "activeCallByUserKey uid = ''active:call:user:'' @ uid"

definition callpairKey :: "string \<Rightarrow> string \<Rightarrow> string" where
  "callpairKey uid1 uid2 =
     (if uid1 \<le> uid2 then ''callpair:'' @ uid1 @ '':'' @ uid2 else ''callpair:'' @ uid2 @ '':'' @ uid1)"

record slot_state =
  kv :: keyspace
  sessions :: "string \<Rightarrow> stored_session option"

definition stored_lifecycle :: "stored_session \<Rightarrow> BillingLifecycleState option" where
  "stored_lifecycle r =
     (case r of Typed s \<Rightarrow> lifecycleState s | Legacy v \<Rightarrow> v1_lifecycleState v | Unparsable \<Rightarrow> None)"

definition stored_startTime :: "stored_session \<Rightarrow> int option" where
  "stored_startTime r =
     (case r of Typed s \<Rightarrow> Some (startTime s) | Legacy v \<Rightarrow> v1_startTime v | Unparsable \<Rightarrow> None)"

definition starting_age :: "millis \<Rightarrow> stored_session \<Rightarrow> millis" where
  "starting_age now r =
     (case stored_startTime r of None \<Rightarrow> 0 | Some t \<Rightarrow> if t > 0 then max 0 (now - t) else 0)"

section \<open>Reservation\<close>

datatype reserve_result = ReserveOk | ReserveConflict

definition tryReserveActiveCallSlots ::
  "string \<Rightarrow> string \<Rightarrow> string \<Rightarrow> 'a slot_state_scheme \<Rightarrow> reserve_result \<times> 'a slot_state_scheme" where
  "tryReserveActiveCallSlots cid userUid creatorUid st =
     (let userKey = activeCallByUserKey userUid;
          creatorKey = activeCallByUserKey creatorUid
      in if kv st userKey \<noteq> None \<and> kv st userKey \<noteq> Some cid then (ReserveConflict, st)
         else if kv st creatorKey \<noteq> None \<and> kv st creatorKey \<noteq> Some cid then (ReserveConflict, st)
         else (ReserveOk, st\<lparr>kv := (kv st)(userKey \<mapsto> cid, creatorKey \<mapsto> cid)\<rparr>))"

text \<open>Why a slot or a pair lock that refers to a stored session may be cleared.\<close>

datatype stale_reason = MissingSession | TerminalLifecycle | StaleStarting

definition stale_slot_reason :: "millis \<Rightarrow> stored_session option \<Rightarrow> stale_reason option" where
  "stale_slot_reason now raw =
     (case raw of
        None \<Rightarrow> Some MissingSession
      | Some Unparsable \<Rightarrow> None
      | Some r \<Rightarrow>
          if stored_lifecycle r = Some SETTLED \<or> stored_lifecycle r = Some FAILED
          then Some TerminalLifecycle
          else if stored_lifecycle r = Some STARTING \<and> starting_age now r > 120000
          then Some StaleStarting
          else None)"

definition clear_orphan_slot :: "millis \<Rightarrow> string \<Rightarrow> 'a slot_state_scheme \<Rightarrow> 'a slot_state_scheme" where
  "clear_orphan_slot now roomUid st =
     (case kv st (activeCallByUserKey roomUid) of
        None \<Rightarrow> st
      | Some v \<Rightarrow>
          (case stale_slot_reason now (sessions st v) of
             None \<Rightarrow> st
           | Some _ \<Rightarrow> st\<lparr>kv := (kv st)(activeCallByUserKey roomUid := None)\<rparr>))"

definition tryClearOrphanActiveCallSlots :: "millis \<Rightarrow> string \<Rightarrow> string \<Rightarrow> 'a slot_state_scheme \<Rightarrow> 'a slot_state_scheme" where
  "tryClearOrphanActiveCallSlots now userUid creatorUid st =
     clear_orphan_slot now creatorUid (clear_orphan_slot now userUid st)"

definition tryReserveActiveCallSlotsWithOrphanRetry ::
  "millis \<Rightarrow> string \<Rightarrow> string \<Rightarrow> string \<Rightarrow> 'a slot_state_scheme \<Rightarrow> reserve_result \<times> 'a slot_state_scheme" where
  "tryReserveActiveCallSlotsWithOrphanRetry now cid userUid creatorUid st =
     (case tryReserveActiveCallSlots cid userUid creatorUid st of
        (ReserveOk, st') \<Rightarrow> (ReserveOk, st')
      | (ReserveConflict, st') \<Rightarrow>
          tryReserveActiveCallSlots cid userUid creatorUid
            (tryClearOrphanActiveCallSlots now userUid creatorUid st'))"

section \<open>Release and persistence\<close>

definition releaseActiveCallSlotsIfOurs :: "string \<Rightarrow> string \<Rightarrow> string \<Rightarrow> 'a slot_state_scheme \<Rightarrow> 'a slot_state_scheme" where
  "releaseActiveCallSlotsIfOurs cid userUid creatorUid st =
     (let userKey = activeCallByUserKey userUid; creatorKey = activeCallByUserKey creatorUid;
          u = kv st userKey; c = kv st creatorKey;
          k1 = (if u = Some cid then (kv st)(userKey := None) else kv st);
          k2 = (if c = Some cid then k1(creatorKey := None) else k1)
      in st\<lparr>kv := k2\<rparr>)"

definition releaseActiveCallSlotsIfTerminal :: "call_session \<Rightarrow> 'a slot_state_scheme \<Rightarrow> 'a slot_state_scheme" where
  "releaseActiveCallSlotsIfTerminal s st =
     (if lifecycleState s \<noteq> Some SETTLED \<and> lifecycleState s \<noteq> Some FAILED then st
      else releaseActiveCallSlotsIfOurs (callId s) (userFirebaseUid s) (creatorFirebaseUid s) st)"

definition persistCallSession :: "string \<Rightarrow> call_session \<Rightarrow> 'a slot_state_scheme \<Rightarrow> 'a slot_state_scheme" where
  "persistCallSession cid s st =
     releaseActiveCallSlotsIfTerminal s (st\<lparr>sessions := (sessions st)(cid \<mapsto> Typed s)\<rparr>)"

definition RELEASE_CALLPAIR_IF_MATCH :: "string \<Rightarrow> string \<Rightarrow> keyspace \<Rightarrow> keyspace" where
  "RELEASE_CALLPAIR_IF_MATCH pairKey cid k = (if k pairKey = Some cid then k(pairKey := None) else k)"

record clear_pair_result =
  cpr_cleared :: bool
  cpr_staleCallId :: "string option"
  cpr_reason :: "stale_reason option"

definition release_pair :: "string \<Rightarrow> string \<Rightarrow> keyspace \<Rightarrow> keyspace" where
  "release_pair pairKey existingCallId k =
     (let k' = RELEASE_CALLPAIR_IF_MATCH pairKey existingCallId k
      in if k' pairKey \<noteq> None then k'(pairKey := None) else k')"

definition tryClearStaleCallpairLock ::
  "millis \<Rightarrow> string \<Rightarrow> string \<Rightarrow> 'a slot_state_scheme \<Rightarrow> clear_pair_result \<times> 'a slot_state_scheme" where
  "tryClearStaleCallpairLock now userUid creatorUid st =
     (let pairKey = callpairKey userUid creatorUid
      in case kv st pairKey of
           None \<Rightarrow> (\<lparr> cpr_cleared = False, cpr_staleCallId = None, cpr_reason = None \<rparr>, st)
         | Some existingCallId \<Rightarrow>
             (case stale_slot_reason now (sessions st existingCallId) of
                Some r \<Rightarrow>
                  (\<lparr> cpr_cleared = True, cpr_staleCallId = Some existingCallId, cpr_reason = Some r \<rparr>,
                   st\<lparr>kv := release_pair pairKey existingCallId (kv st)\<rparr>)
              | None \<Rightarrow>
                  (\<lparr> cpr_cleared = False, cpr_staleCallId = Some existingCallId, cpr_reason = None \<rparr>, st)))"

section \<open>Liveness of a creator's slot\<close>

text \<open>
  \<open>isCreatorActiveCallSlotLive\<close> reads the end markers, the terminal tombstone, the session, the
  \<open>Call\<close> document and the remaining time to live of the slot. Those readings are its arguments
  (a session that does not parse is \<open>Unparsable\<close>; \<open>call_lookup\<close> is \<open>Inl\<close> when the database
  query throws).
\<close>

definition ACTIVE_CALL_SLOT_TTL_SECONDS :: int where
  "ACTIVE_CALL_SLOT_TTL_SECONDS = 7200"

definition RINGING_SLOT_GRACE_SECONDS :: "env \<Rightarrow> int" where
  "RINGING_SLOT_GRACE_SECONDS env = envIntOr env ''RINGING_SLOT_GRACE_SECONDS'' 120 30 300"

definition PRESENCE_SLOT_SWEEP_MIN_AGE_SECONDS :: "env \<Rightarrow> int" where
  "PRESENCE_SLOT_SWEEP_MIN_AGE_SECONDS env =
     min (ACTIVE_CALL_SLOT_TTL_SECONDS - 60)
       (max (RINGING_SLOT_GRACE_SECONDS env + 30)
            (or_else (env_parse env ''PRESENCE_SLOT_SWEEP_MIN_AGE_SECONDS''
                        (RINGING_SLOT_GRACE_SECONDS env + 60))
               (RINGING_SLOT_GRACE_SECONDS env + 60)))"

definition computeSlotAgeSecondsFromTtl :: "int \<Rightarrow> int option" where
  "computeSlotAgeSecondsFromTtl ttl =
     (if ttl \<le> 0 then None else Some (max 0 (ACTIVE_CALL_SLOT_TTL_SECONDS - ttl)))"

datatype slot_context = DefaultContext | ReconciliationSweep

record slot_view =
  sv_ending :: bool
  sv_pendingEnd :: bool
  sv_terminal :: bool
  sv_session :: "stored_session option"
  sv_call :: "unit + call_doc option"
  sv_ttl :: int
  sv_precall :: bool

definition stored_parties :: "stored_session \<Rightarrow> string \<times> string" where
  "stored_parties r =
     (case r of
        Typed s \<Rightarrow> (userFirebaseUid s, creatorFirebaseUid s)
      | Legacy v \<Rightarrow> (v1_userFirebaseUid v, v1_creatorFirebaseUid v)
      | Unparsable \<Rightarrow> ([], []))"

definition isCreatorActiveCallSlotLive :: "env \<Rightarrow> slot_context \<Rightarrow> string \<Rightarrow> slot_view \<Rightarrow> bool" where
  "isCreatorActiveCallSlotLive env ctx uid v =
     (if sv_ending v \<or> sv_pendingEnd v then False
      else if sv_terminal v then False
      else (case sv_session v of
              Some Unparsable \<Rightarrow> False
            | Some r \<Rightarrow>
                (let (payer, creator) = stored_parties r
                 in if \<not> ((creator \<noteq> [] \<and> creator = uid) \<or> (payer \<noteq> [] \<and> payer = uid)) then False
                    else (let lc = nvl (stored_lifecycle r) ACTIVE in lc \<noteq> SETTLED \<and> lc \<noteq> FAILED))
            | None \<Rightarrow>
                (case sv_call v of
                   Inl _ \<Rightarrow> True
                 | Inr None \<Rightarrow>
                     if ctx = ReconciliationSweep then False
                     else if sv_precall v then True
                     else sv_ttl v > 0 \<and>
                          sv_ttl v \<ge> ACTIVE_CALL_SLOT_TTL_SECONDS - RINGING_SLOT_GRACE_SECONDS env
                 | Inr (Some call) \<Rightarrow>
                     if call_status call = Ringing \<or> call_status call = Accepted then True
                     else \<not> call_isSettled call)))"

datatype clear_reason =
  NoSlot | Forced | EndingCallMatch | SlotNotLive | SlotStillLive | WithinSweepGrace | SweepOrphan

record clear_slot_result =
  csr_hadSlot :: bool
  csr_slotCallId :: "string option"
  csr_cleared :: bool
  csr_reason :: clear_reason

definition clearCreatorActiveCallSlotIfStale ::
  "env \<Rightarrow> (string \<Rightarrow> slot_view) \<Rightarrow> string \<Rightarrow> string option \<Rightarrow> bool \<Rightarrow> keyspace
   \<Rightarrow> clear_slot_result \<times> keyspace" where
  "clearCreatorActiveCallSlotIfStale env view uid endingCallId force k =
     (let key = activeCallByUserKey uid
      in case k key of
           None \<Rightarrow> (\<lparr> csr_hadSlot = False, csr_slotCallId = None, csr_cleared = False, csr_reason = NoSlot \<rparr>, k)
         | Some slotCallId \<Rightarrow>
             if force
             then (\<lparr> csr_hadSlot = True, csr_slotCallId = Some slotCallId, csr_cleared = True,
                     csr_reason = Forced \<rparr>, k(key := None))
             else if endingCallId = Some slotCallId
             then (\<lparr> csr_hadSlot = True, csr_slotCallId = Some slotCallId, csr_cleared = True,
                     csr_reason = EndingCallMatch \<rparr>, k(key := None))
             else if \<not> isCreatorActiveCallSlotLive env DefaultContext uid (view slotCallId)
             then (\<lparr> csr_hadSlot = True, csr_slotCallId = Some slotCallId, csr_cleared = True,
                     csr_reason = SlotNotLive \<rparr>, k(key := None))
             else (\<lparr> csr_hadSlot = True, csr_slotCallId = Some slotCallId, csr_cleared = False,
                     csr_reason = SlotStillLive \<rparr>, k))"

definition clearActiveCallSlotForReconciliationSweep ::
  "env \<Rightarrow> (string \<Rightarrow> slot_view) \<Rightarrow> int \<Rightarrow> string \<Rightarrow> keyspace \<Rightarrow> (clear_slot_result \<times> int option) \<times> keyspace" where
  "clearActiveCallSlotForReconciliationSweep env view ttl uid k =
     (let key = activeCallByUserKey uid
      in case k key of
           None \<Rightarrow>
             ((\<lparr> csr_hadSlot = False, csr_slotCallId = None, csr_cleared = False, csr_reason = NoSlot \<rparr>, None), k)
         | Some slotCallId \<Rightarrow>
             (let age = computeSlotAgeSecondsFromTtl ttl
              in if age = None \<or> the age < PRESENCE_SLOT_SWEEP_MIN_AGE_SECONDS env
                 then ((\<lparr> csr_hadSlot = True, csr_slotCallId = Some slotCallId, csr_cleared = False,
                          csr_reason = WithinSweepGrace \<rparr>, age), k)
                 else if isCreatorActiveCallSlotLive env ReconciliationSweep uid (view slotCallId)
                 then ((\<lparr> csr_hadSlot = True, csr_slotCallId = Some slotCallId, csr_cleared = False,
                          csr_reason = SlotStillLive \<rparr>, age), k)
                 else ((\<lparr> csr_hadSlot = True, csr_slotCallId = Some slotCallId, csr_cleared = True,
                          csr_reason = SweepOrphan \<rparr>, age), k(key := None))))"

section \<open>Lemmas\<close>

lemma activeCallByUserKey_inj [simp]: "activeCallByUserKey u = activeCallByUserKey v \<longleftrightarrow> u = v"
  by (simp add: activeCallByUserKey_def)

lemma callpairKey_sym: "callpairKey u v = callpairKey v u"
  by (auto simp: callpairKey_def)

text \<open>A live slot is one the orphan clean-up does not touch.\<close>

definition slot_protected :: "millis \<Rightarrow> string \<Rightarrow> string \<Rightarrow> 'a slot_state_scheme \<Rightarrow> bool" where
  "slot_protected now uid cid st \<longleftrightarrow>
     kv st (activeCallByUserKey uid) = Some cid \<and> stale_slot_reason now (sessions st cid) = None"

lemma clear_orphan_keeps_protected:
  "slot_protected now uid cid st \<Longrightarrow> slot_protected now uid cid (clear_orphan_slot now other st)"
  by (auto simp: slot_protected_def clear_orphan_slot_def split: option.splits)

lemma reserve_conflict_protected:
  assumes "slot_protected now uid cid st" and "cid \<noteq> cid'" and "uid = userUid \<or> uid = creatorUid"
  shows "tryReserveActiveCallSlots cid' userUid creatorUid st = (ReserveConflict, st)"
  using assms by (auto simp: slot_protected_def tryReserveActiveCallSlots_def Let_def)

lemma reserve_ok_slots:
  "tryReserveActiveCallSlots cid u c st = (ReserveOk, st') \<Longrightarrow>
   kv st' (activeCallByUserKey u) = Some cid \<and> kv st' (activeCallByUserKey c) = Some cid \<and>
   sessions st' = sessions st"
  by (auto simp: tryReserveActiveCallSlots_def Let_def split: if_splits)

lemma clear_orphan_slot_kv:
  "kv (clear_orphan_slot now other st) (activeCallByUserKey uid) =
     (case kv st (activeCallByUserKey uid) of
        None \<Rightarrow> None
      | Some v \<Rightarrow> if other = uid \<and> stale_slot_reason now (sessions st v) \<noteq> None then None else Some v)"
  by (auto simp: clear_orphan_slot_def split: option.splits)

lemma clear_orphan_slot_sessions [simp]: "sessions (clear_orphan_slot now other st) = sessions st"
  by (simp add: clear_orphan_slot_def split: option.splits)

lemma reserve_conflict_state:
  "tryReserveActiveCallSlots cid u c st = (ReserveConflict, st') \<Longrightarrow> st' = st"
  by (auto simp: tryReserveActiveCallSlots_def Let_def split: if_splits)

definition slot_available :: "millis \<Rightarrow> string \<Rightarrow> string \<Rightarrow> 'a slot_state_scheme \<Rightarrow> bool" where
  "slot_available now cid uid st \<longleftrightarrow>
     (case kv st (activeCallByUserKey uid) of
        None \<Rightarrow> True
      | Some v \<Rightarrow> v = cid \<or> stale_slot_reason now (sessions st v) \<noteq> None)"

lemma available_after_clear:
  assumes "slot_available now cid u st" and "slot_available now cid c st"
  shows "\<exists>st'. tryReserveActiveCallSlots cid u c (tryClearOrphanActiveCallSlots now u c st) = (ReserveOk, st')"
  using assms
  by (auto simp: tryReserveActiveCallSlots_def Let_def tryClearOrphanActiveCallSlots_def
      clear_orphan_slot_kv slot_available_def split: option.splits)

definition demo_slots :: slot_state where
  "demo_slots = \<lparr> kv = [activeCallByUserKey ''u1'' \<mapsto> ''c1'', activeCallByUserKey ''k1'' \<mapsto> ''c1''],
                  sessions = [''c1'' \<mapsto> Typed demo_session] \<rparr>"

lemma demo_slots_protected: "slot_protected 5000000 ''u1'' ''c1'' demo_slots"
  by (simp add: slot_protected_def demo_slots_def stale_slot_reason_def stored_lifecycle_def
      demo_session_def)

section \<open>Properties\<close>

text \<open>
  C28. No double booking: while a participant's slot refers to a call whose session is stored,
  parses, and is neither settled, failed nor stuck in STARTING for over two minutes, a start of
  any other call with that participant (as payer or as creator) gets a conflict, and the slot
  still refers to the first call afterwards, even though the code clears orphans and tries again.
\<close>

theorem no_double_booking:
  assumes "slot_protected now uid cid st" and "cid \<noteq> cid'" and "uid = userUid \<or> uid = creatorUid"
  shows "fst (tryReserveActiveCallSlotsWithOrphanRetry now cid' userUid creatorUid st) = ReserveConflict \<and>
    kv (snd (tryReserveActiveCallSlotsWithOrphanRetry now cid' userUid creatorUid st))
      (activeCallByUserKey uid) = Some cid"
proof -
  let ?st' = "tryClearOrphanActiveCallSlots now userUid creatorUid st"
  have "slot_protected now uid cid ?st'"
    unfolding tryClearOrphanActiveCallSlots_def
    by (intro clear_orphan_keeps_protected assms(1))
  moreover from this have "tryReserveActiveCallSlots cid' userUid creatorUid ?st' = (ReserveConflict, ?st')"
    using assms(2,3) by (rule reserve_conflict_protected)
  moreover have "tryReserveActiveCallSlots cid' userUid creatorUid st = (ReserveConflict, st)"
    using assms by (rule reserve_conflict_protected)
  ultimately show ?thesis
    by (simp add: tryReserveActiveCallSlotsWithOrphanRetry_def slot_protected_def)
qed

theorem no_double_booking_witness:
  "fst (tryReserveActiveCallSlotsWithOrphanRetry 5000000 ''c2'' ''u1'' ''k9'' demo_slots) = ReserveConflict"
  using no_double_booking [OF demo_slots_protected, of "''c2''" "''u1''" "''k9''"] by simp

text \<open>
  A start is not blocked by leftovers: when every occupied slot of the two participants refers
  to the new call itself or to a call whose session is missing, terminal or stale, the reservation
  succeeds and both slots refer to the new call.
\<close>

theorem orphan_slots_do_not_block:
  assumes "slot_available now cid userUid st" and "slot_available now cid creatorUid st"
  shows "\<exists>st'. tryReserveActiveCallSlotsWithOrphanRetry now cid userUid creatorUid st = (ReserveOk, st') \<and>
    kv st' (activeCallByUserKey userUid) = Some cid \<and> kv st' (activeCallByUserKey creatorUid) = Some cid"
proof (cases "tryReserveActiveCallSlots cid userUid creatorUid st")
  case (Pair r st1)
  show ?thesis
  proof (cases r)
    case ReserveOk
    then show ?thesis using Pair reserve_ok_slots [of cid userUid creatorUid st st1]
      by (simp add: tryReserveActiveCallSlotsWithOrphanRetry_def)
  next
    case ReserveConflict
    then have "st1 = st" using Pair reserve_conflict_state by blast
    then show ?thesis
      using Pair ReserveConflict available_after_clear [OF assms] reserve_ok_slots
      by (fastforce simp: tryReserveActiveCallSlotsWithOrphanRetry_def)
  qed
qed

theorem orphan_slots_do_not_block_witness:
  "\<exists>st'. tryReserveActiveCallSlotsWithOrphanRetry 5000000 ''c2'' ''u1'' ''k9''
      (demo_slots\<lparr>sessions := Map.empty\<rparr>) = (ReserveOk, st') \<and>
    kv st' (activeCallByUserKey ''u1'') = Some ''c2'' \<and> kv st' (activeCallByUserKey ''k9'') = Some ''c2''"
  by (rule orphan_slots_do_not_block)
    (simp_all add: slot_available_def demo_slots_def stale_slot_reason_def)

end
