(* ===== verification/Ownership.thy ===== *)
theory Ownership
  imports CallSlots
begin

text \<open>
  Which worker may bill a call: the runtime owner lock of
  \<open>src/modules/billing/billing.service.ts\<close> and the instance ids of
  \<open>billing-instance-id.ts\<close>. The lock value is the text \<open>instance:epoch\<close>; it is printed here and
  parsed back as the code does.

  A worker issues several Redis commands in a row, and other workers may write between two of
  them. The record \<open>interference\<close> holds what they do to the key space at each such point.
\<close>

section \<open>Texts\<close>

definition digit_char :: "nat \<Rightarrow> char" where
  "digit_char d = char_of (48 + d)"

fun show_nat :: "nat \<Rightarrow> string" where
  "show_nat n = (if n < 10 then [digit_char n] else show_nat (n div 10) @ [digit_char (n mod 10)])"

declare show_nat.simps [simp del]

definition show_int :: "int \<Rightarrow> string" where
  "show_int i = (if i < 0 then ''-'' @ show_nat (nat (- i)) else show_nat (nat i))"

definition last_index_of :: "char \<Rightarrow> string \<Rightarrow> nat option" where
  "last_index_of c s =
     (if c \<in> set s then Some (length s - 1 - length (takeWhile (\<lambda>x. x \<noteq> c) (rev s))) else None)"

definition parseRuntimeOwnerLockValue :: "string \<Rightarrow> (string \<times> int) option" where
  "parseRuntimeOwnerLockValue lockValue =
     (let trimmed = js_trim lockValue
      in if trimmed = [] then None
         else (case last_index_of CHR '':'' trimmed of
                 None \<Rightarrow> None
               | Some lastColon \<Rightarrow>
                   if lastColon = 0 then None
                   else (case js_parse_int (drop (lastColon + 1) trimmed) of
                           None \<Rightarrow> None
                         | Some epoch \<Rightarrow>
                             if \<not> js_finite epoch \<or> epoch < 1 then None
                             else Some (take lastColon trimmed, epoch))))"

definition getBillingInstanceId :: "env \<Rightarrow> string \<Rightarrow> int \<Rightarrow> string" where
  "getBillingInstanceId env hostname pid =
     (let configured = js_trim (nvl (env ''BILLING_INSTANCE_ID'') [])
      in if configured \<noteq> [] then configured else hostname @ '':'' @ show_int pid)"

definition billingInstanceIdsMatch :: "string \<Rightarrow> string \<Rightarrow> bool" where
  "billingInstanceIdsMatch stored worker =
     (let a = js_trim stored; b = js_trim worker
      in if a = [] \<or> b = [] then False
         else if a = b then True
         else if CHR '':'' \<notin> set a then b = a \<or> ends_with b ('':'' @ a)
         else if CHR '':'' \<notin> set b then a = b \<or> ends_with a ('':'' @ b)
         else False)"

section \<open>Ownership\<close>

definition billingSequenceStallMs :: "call_session \<Rightarrow> millis \<Rightarrow> millis" where
  "billingSequenceStallMs s nowMs =
     (let lastAdvance = max (num0 (lastSequenceAdvanceAt s)) (num0 (lastHealthyTickAt s))
      in if lastAdvance > 0 then max 0 (nowMs - lastAdvance)
         else if startTime s > 0 then max 0 (nowMs - startTime s)
         else 0)"

record interference =
  before_claim :: "keyspace \<Rightarrow> keyspace"
  before_reread :: "keyspace \<Rightarrow> keyspace"
  before_takeover :: "keyspace \<Rightarrow> keyspace"

definition quiet :: interference where
  "quiet = \<lparr> before_claim = id, before_reread = id, before_takeover = id \<rparr>"

definition ownerLockKey :: "call_session \<Rightarrow> string \<Rightarrow> string" where
  "ownerLockKey s cid =
     (case leaderLock s of
        None \<Rightarrow> ''billing:runtime:owner:'' @ cid
      | Some l \<Rightarrow> if l = [] then ''billing:runtime:owner:'' @ cid else l)"

definition ownerValue :: "string \<Rightarrow> int \<Rightarrow> string" where
  "ownerValue inst epoch = inst @ '':'' @ show_int epoch"

definition own_session :: "string \<Rightarrow> int \<Rightarrow> string \<Rightarrow> call_session \<Rightarrow> call_session" where
  "own_session inst epoch key s =
     s\<lparr>instanceId := Some inst, runtimeEpoch := Some epoch, leaderLock := Some key\<rparr>"

text \<open>The part after the second read of the lock: keep, take over, or reject.\<close>

definition resolve_current_owner ::
  "env \<Rightarrow> string \<Rightarrow> interference \<Rightarrow> call_session \<Rightarrow> string \<Rightarrow> millis \<Rightarrow> string \<Rightarrow> keyspace
   \<Rightarrow> bool \<times> call_session \<times> keyspace" where
  "resolve_current_owner env inst g s cid nowMs current k =
     (let key = ownerLockKey s cid;
          epoch = max 1 (or_else (runtimeEpoch s) 1);
          own = ownerValue inst epoch
      in if current \<noteq> own
         then (let stallMs = billingSequenceStallMs s nowMs;
                   parsedOwner = parseRuntimeOwnerLockValue current;
                   mismatch = (case parsedOwner of
                                 None \<Rightarrow> False | Some (i, _) \<Rightarrow> \<not> billingInstanceIdsMatch i inst)
               in if stallMs > getBillingChainHealStallMs env \<or> (mismatch \<and> stallMs > 0)
                  then (let nextEpoch = max epoch ((case parsedOwner of None \<Rightarrow> epoch | Some (_, e) \<Rightarrow> e) + 1);
                            s' = s\<lparr>runtimeEpoch := Some nextEpoch\<rparr>;
                            k' = before_takeover g (k(key := None))
                        in if k' key = None
                           then (True, own_session inst nextEpoch key s',
                                 k'(key \<mapsto> ownerValue inst nextEpoch))
                           else (False, s', k'))
                  else (False, s, k))
         else (True, own_session inst epoch key s, k(key \<mapsto> own)))"

definition ensureRuntimeOwnership ::
  "env \<Rightarrow> string \<Rightarrow> bool \<Rightarrow> interference \<Rightarrow> call_session \<Rightarrow> string \<Rightarrow> millis \<Rightarrow> keyspace
   \<Rightarrow> bool \<times> call_session \<times> keyspace" where
  "ensureRuntimeOwnership env inst shuttingDown g s cid nowMs k =
     (if shuttingDown then (False, s, k)
      else (let key = ownerLockKey s cid;
                epoch = max 1 (or_else (runtimeEpoch s) 1);
                own = ownerValue inst epoch;
                k1 = before_claim g k;
                claimed = (k key = None \<and> k1 key = None);
                k2 = before_reread g k1
            in if claimed then (True, own_session inst epoch key s, k1(key \<mapsto> own))
               else (case k2 key of
                       None \<Rightarrow> (False, s, k2)
                     | Some current \<Rightarrow> resolve_current_owner env inst g s cid nowMs current k2)))"

definition reclaimStaleRuntimeOwnershipOnStartup ::
  "string \<Rightarrow> interference \<Rightarrow> string \<Rightarrow> call_session \<Rightarrow> slot_state \<Rightarrow> bool \<times> call_session \<times> slot_state" where
  "reclaimStaleRuntimeOwnershipOnStartup inst g cid s st =
     (let key = ownerLockKey s cid
      in case kv st key of
           None \<Rightarrow> (False, s, st)
         | Some current \<Rightarrow>
             (let parsed = parseRuntimeOwnerLockValue current
              in if (case parsed of None \<Rightarrow> False | Some (i, _) \<Rightarrow> billingInstanceIdsMatch i inst)
                 then (False, s, st)
                 else (let nextEpoch = max (max 1 (or_else (runtimeEpoch s) 1))
                                           ((case parsed of None \<Rightarrow> 0 | Some (_, e) \<Rightarrow> e) + 1);
                           s' = own_session inst nextEpoch key s;
                           k' = before_takeover g ((kv st)(key := None))
                       in if k' key \<noteq> None then (False, s', st\<lparr>kv := k'\<rparr>)
                          else (True, s',
                                st\<lparr>kv := k'(key \<mapsto> ownerValue inst nextEpoch),
                                   sessions := (if sessions st cid = None then sessions st
                                                else (sessions st)(cid \<mapsto> Typed s'))\<rparr>))))"

section \<open>Printing and parsing\<close>

lemma of_char_digit_char: "d < 10 \<Longrightarrow> of_char (digit_char d) = 48 + d"
  by (simp add: digit_char_def)

lemma of_char_digit_char_int: "d < 10 \<Longrightarrow> (of_char (digit_char d) :: int) = 48 + int d"
  using arg_cong [OF of_char_digit_char, of d int] by (simp add: of_nat_of_char)

lemma digit_char_is_digit: "d < 10 \<Longrightarrow> js_is_digit (digit_char d)"
  by (simp add: js_is_digit_def of_char_digit_char)

lemma show_nat_digits: "\<forall>c \<in> set (show_nat n). js_is_digit c"
proof (induction n rule: show_nat.induct)
  case (1 n)
  then show ?case by (cases "n < 10") (auto simp: show_nat.simps [of n] digit_char_is_digit)
qed

lemma show_nat_nonempty: "show_nat n \<noteq> []"
  by (simp add: show_nat.simps [of n])

lemma digits_value_snoc: "digits_value (ds @ [c]) = digits_value ds * 10 + (of_char c - 48)"
  by (simp add: digits_value_def)

lemma digits_value_show_nat: "digits_value (show_nat n) = int n"
proof (induction n rule: show_nat.induct)
  case (1 n)
  show ?case
  proof (cases "n < 10")
    case True
    then show ?thesis by (simp add: show_nat.simps [of n] digits_value_def of_char_digit_char_int)
  next
    case False
    then have "digits_value (show_nat n) = int (n div 10) * 10 + int (n mod 10)"
      using "1.IH" by (simp add: show_nat.simps [of n] digits_value_snoc of_char_digit_char_int)
    then show ?thesis by (simp add: zdiv_int zmod_int)
  qed
qed

lemma digit_not_space: "js_is_digit c \<Longrightarrow> \<not> js_is_space c"
  by (auto simp: js_is_digit_def js_is_space_def)

lemma digit_not_sign: "js_is_digit c \<Longrightarrow> c \<noteq> CHR ''-'' \<and> c \<noteq> CHR ''+'' \<and> c \<noteq> CHR '':''"
  by (auto simp: js_is_digit_def)

lemma parse_show_nat: "js_parse_int (show_nat n) = Some (int n)"
proof -
  obtain c cs where s: "show_nat n = c # cs" using show_nat_nonempty by (cases "show_nat n") auto
  have c: "js_is_digit c" and all: "\<forall>x \<in> set (c # cs). js_is_digit x"
    using show_nat_digits [of n] s by auto
  have "dropWhile js_is_space (show_nat n) = show_nat n" using s c digit_not_space by simp
  moreover have "takeWhile js_is_digit (show_nat n) = show_nat n" using s all by simp
  moreover have "c \<noteq> CHR ''-''" "c \<noteq> CHR ''+''" using digit_not_sign [OF c] by simp_all
  ultimately show ?thesis
    unfolding js_parse_int_def Let_def using s digits_value_show_nat [of n] by simp
qed

lemma parse_show_int: "0 \<le> i \<Longrightarrow> js_parse_int (show_int i) = Some i"
  by (simp add: show_int_def parse_show_nat)

lemma last_index_of_append:
  "c \<notin> set b \<Longrightarrow> last_index_of c (a @ c # b) = Some (length a)"
proof -
  assume b: "c \<notin> set b"
  have "takeWhile (\<lambda>x. x \<noteq> c) (rev b @ c # rev a) = rev b"
    using b by (subst takeWhile_append2) auto
  then show ?thesis by (simp add: last_index_of_def)
qed

lemma show_int_no_colon: "0 \<le> i \<Longrightarrow> CHR '':'' \<notin> set (show_int i)"
  using show_nat_digits [of "nat i"] digit_not_sign by (auto simp: show_int_def)

lemma dropWhile_no_space: "xs \<noteq> [] \<Longrightarrow> \<not> js_is_space (hd xs) \<Longrightarrow> dropWhile js_is_space xs = xs"
  by (cases xs) simp_all

lemma trim_ownerValue:
  assumes "inst \<noteq> []" and "\<not> js_is_space (hd inst)" and "0 \<le> e"
  shows "js_trim (ownerValue inst e) = ownerValue inst e"
proof -
  let ?v = "ownerValue inst e"
  have 1: "dropWhile js_is_space ?v = ?v"
    using assms by (intro dropWhile_no_space) (simp_all add: ownerValue_def)
  have "last (show_int e) \<in> set (show_int e)" using assms show_nat_nonempty by (simp add: show_int_def)
  then have "\<not> js_is_space (last (show_int e))"
    using show_nat_digits [of "nat e"] digit_not_space assms(3) by (auto simp: show_int_def)
  then have "\<not> js_is_space (hd (rev ?v))"
    using assms(3) show_nat_nonempty by (simp add: ownerValue_def hd_rev show_int_def)
  then have "dropWhile js_is_space (rev ?v) = rev ?v"
    using assms(1) by (intro dropWhile_no_space) (simp_all add: ownerValue_def)
  then show ?thesis using 1 by (simp add: js_trim_def)
qed

section \<open>Properties\<close>

text \<open>
  The owner lock text round-trips: what a worker writes, any worker reads back as exactly that
  instance id (colons in it included, as in \<open>hostname:pid\<close>) and that epoch.
\<close>

theorem ownerValue_roundtrip:
  assumes "inst \<noteq> []" and "\<not> js_is_space (hd inst)" and "1 \<le> e" and "js_finite e"
  shows "parseRuntimeOwnerLockValue (ownerValue inst e) = Some (inst, e)"
proof -
  have t: "js_trim (ownerValue inst e) = ownerValue inst e"
    using assms by (intro trim_ownerValue) simp_all
  have l: "last_index_of CHR '':'' (ownerValue inst e) = Some (length inst)"
    using last_index_of_append [OF show_int_no_colon, of e inst] assms by (simp add: ownerValue_def)
  show ?thesis
    using assms parse_show_int [of e]
    by (simp add: parseRuntimeOwnerLockValue_def t l Let_def) (simp add: ownerValue_def)
qed

theorem ownerValue_roundtrip_witness:
  "parseRuntimeOwnerLockValue (ownerValue ''host:77'' 3) = Some (''host:77'', 3)"
  by (rule ownerValue_roundtrip) (simp_all add: js_is_space_def js_finite_def)

lemma resolve_current_owner_true:
  "resolve_current_owner env inst g s cid nowMs current k = (True, s', k') \<Longrightarrow>
   \<exists>e \<ge> 1. runtimeEpoch s' = Some e \<and> k' (ownerLockKey s cid) = Some (ownerValue inst e) \<and>
     instanceId s' = Some inst"
  by (auto simp: resolve_current_owner_def Let_def own_session_def split: if_splits)

text \<open>
  Whatever other workers write between the commands, a worker that is told it owns the call
  has, at that moment, its own instance id and the epoch it records in the session in the lock;
  and during shutdown it is never told so.
\<close>

theorem ownership_granted_holds_lock:
  assumes "ensureRuntimeOwnership env inst shuttingDown g s cid nowMs k = (True, s', k')"
  shows "\<not> shuttingDown \<and>
    (\<exists>e \<ge> 1. runtimeEpoch s' = Some e \<and> instanceId s' = Some inst \<and>
       k' (ownerLockKey s cid) = Some (ownerValue inst e))"
  using assms resolve_current_owner_true
  by (fastforce simp: ensureRuntimeOwnership_def Let_def own_session_def split: if_splits option.splits)

theorem ownership_granted_holds_lock_witness:
  "\<exists>e \<ge> 1. snd (snd (ensureRuntimeOwnership Map.empty ''w'' False quiet demo_session ''c1'' 1005000 Map.empty))
      (ownerLockKey demo_session ''c1'') = Some (ownerValue ''w'' e)"
proof -
  have "ensureRuntimeOwnership Map.empty ''w'' False quiet demo_session ''c1'' 1005000 Map.empty =
      (True, own_session ''w'' 1 (ownerLockKey demo_session ''c1'') demo_session,
       [ownerLockKey demo_session ''c1'' \<mapsto> ownerValue ''w'' 1])"
    by (simp add: ensureRuntimeOwnership_def quiet_def Let_def or_else_def demo_session_def)
  from ownership_granted_holds_lock [OF this] this show ?thesis by auto
qed

text \<open>
  A takeover needs a stall: as long as the call advanced within the chain-heal window and the
  lock belongs to the same instance id, or the call has not stalled at all, a worker with another
  lock value is refused and neither the lock nor the session changes.
\<close>

theorem fresh_owner_not_displaced:
  assumes "k (ownerLockKey s cid) = Some current"
    and "current \<noteq> ownerValue inst (max 1 (or_else (runtimeEpoch s) 1))"
    and "billingSequenceStallMs s nowMs = 0 \<or>
         (billingSequenceStallMs s nowMs \<le> getBillingChainHealStallMs env \<and>
          (\<exists>i e. parseRuntimeOwnerLockValue current = Some (i, e) \<and> billingInstanceIdsMatch i inst))"
  shows "ensureRuntimeOwnership env inst False quiet s cid nowMs k = (False, s, k)"
proof -
  have pos: "0 < getBillingChainHealStallMs env" by (rule chain_heal_stall.positive)
  let ?p = "parseRuntimeOwnerLockValue current"
  have "\<not> (billingSequenceStallMs s nowMs > getBillingChainHealStallMs env \<or>
      ((case ?p of None \<Rightarrow> False | Some (i, _) \<Rightarrow> \<not> billingInstanceIdsMatch i inst) \<and> billingSequenceStallMs s nowMs > 0))"
    using assms(3) pos by auto
  with assms(2) have r: "resolve_current_owner env inst quiet s cid nowMs current k = (False, s, k)"
    unfolding resolve_current_owner_def Let_def by (simp only: if_False if_True simp_thms)
  show ?thesis
    unfolding ensureRuntimeOwnership_def Let_def by (simp add: assms(1) quiet_def r [unfolded quiet_def])
qed

theorem fresh_owner_not_displaced_witness:
  "ensureRuntimeOwnership Map.empty ''w'' False quiet (demo_session\<lparr>lastSequenceAdvanceAt := Some 1005000\<rparr>)
     ''c1'' 1005000 [''billing:runtime:owner:c1'' \<mapsto> ''other:1:4''] =
   (False, demo_session\<lparr>lastSequenceAdvanceAt := Some 1005000\<rparr>, [''billing:runtime:owner:c1'' \<mapsto> ''other:1:4''])"
proof -
  let ?s = "demo_session\<lparr>lastSequenceAdvanceAt := Some 1005000\<rparr>"
  let ?k = "[''billing:runtime:owner:c1'' \<mapsto> ''other:1:4'']"
  have 1: "?k (ownerLockKey ?s ''c1'') = Some ''other:1:4''" by (simp add: ownerLockKey_def demo_session_def)
  have 2: "''other:1:4'' \<noteq> ownerValue ''w'' (max 1 (or_else (runtimeEpoch ?s) 1))"
    by (simp add: ownerValue_def)
  have 3: "billingSequenceStallMs ?s 1005000 = 0"
    by (simp add: billingSequenceStallMs_def demo_session_def Let_def)
  show ?thesis
    using fresh_owner_not_displaced [of ?k ?s "''c1''" "''other:1:4''" "''w''" 1005000 Map.empty] 1 2 3 by blast
qed

end
