(* ===== verification/Resilience.thy ===== *)
theory Resilience
  imports EnvConfig
begin

text \<open>
  Protection against failing dependencies: \<open>retryWithBackoff\<close> (\<open>src/utils/retry.ts\<close>), the
  circuit breaker of the Stream clients (\<open>src/utils/circuit-breaker.ts\<close>) and the staged
  backpressure of the billing workers (\<open>src/modules/billing/billing-backpressure.ts\<close>).

  The protected call is an argument: a function of the attempt number (or of the state it works
  on) that returns an error or a value. \<open>Date.now()\<close> is an argument of every operation.
\<close>

section \<open>Retry with exponential backoff\<close>

record retry_options =
  maxRetries :: nat
  initialDelay :: int
  maxDelay :: int
  backoffMultiplier :: int

definition DEFAULT_OPTIONS :: retry_options where
  "DEFAULT_OPTIONS = \<lparr> maxRetries = 3, initialDelay = 1000, maxDelay = 30000, backoffMultiplier = 2 \<rparr>"

definition backoff_delay :: "retry_options \<Rightarrow> nat \<Rightarrow> int" where
  "backoff_delay opts attempt = min (initialDelay opts * backoffMultiplier opts ^ attempt) (maxDelay opts)"

text \<open>
  \<open>retry_from left attempt\<close> is the loop with \<open>left\<close> retries still allowed; it returns the
  outcome, the state after the last call, and the delays slept.
\<close>

fun retry_from ::
  "retry_options \<Rightarrow> ('e \<Rightarrow> bool) \<Rightarrow> (nat \<Rightarrow> 's \<Rightarrow> ('e + 'a) \<times> 's) \<Rightarrow> nat \<Rightarrow> nat \<Rightarrow> 's
   \<Rightarrow> ('e + 'a) \<times> 's \<times> int list" where
  "retry_from opts retryable fn left attempt s =
     (case fn attempt s of
        (Inr v, s') \<Rightarrow> (Inr v, s', [])
      | (Inl e, s') \<Rightarrow>
          if \<not> retryable e then (Inl e, s', [])
          else (case left of
                  0 \<Rightarrow> (Inl e, s', [])
                | Suc left' \<Rightarrow>
                    (case retry_from opts retryable fn left' (Suc attempt) s' of
                       (r, s'', ds) \<Rightarrow> (r, s'', backoff_delay opts attempt # ds))))"

declare retry_from.simps [simp del]

definition retryWithBackoff ::
  "retry_options \<Rightarrow> ('e \<Rightarrow> bool) \<Rightarrow> (nat \<Rightarrow> 's \<Rightarrow> ('e + 'a) \<times> 's) \<Rightarrow> 's \<Rightarrow> ('e + 'a) \<times> 's \<times> int list" where
  "retryWithBackoff opts retryable fn s = retry_from opts retryable fn (maxRetries opts) 0 s"

section \<open>Circuit breaker\<close>

datatype breaker_mode = Closed | Open | HalfOpen

record breaker_options =
  failureThreshold :: int
  resetTimeout :: millis
  monitoringWindow :: millis

record breaker =
  failures :: int
  lastFailureTime :: millis
  mode :: breaker_mode
  nextAttempt :: millis

definition breaker_new :: breaker where
  "breaker_new = \<lparr> failures = 0, lastFailureTime = 0, mode = Closed, nextAttempt = 0 \<rparr>"

definition streamVideoOptions :: breaker_options where
  "streamVideoOptions = \<lparr> failureThreshold = 5, resetTimeout = 60000, monitoringWindow = 60000 \<rparr>"

definition updateState :: "breaker_options \<Rightarrow> millis \<Rightarrow> breaker \<Rightarrow> breaker" where
  "updateState o' now b =
     (let b1 = (if now - lastFailureTime b > monitoringWindow o' \<and> failures b > 0
                then b\<lparr>failures := 0\<rparr> else b)
      in if mode b1 = Open \<and> now \<ge> nextAttempt b1 then b1\<lparr>mode := HalfOpen\<rparr> else b1)"

definition onSuccess :: "breaker \<Rightarrow> breaker" where
  "onSuccess b = (if mode b = HalfOpen then b\<lparr>mode := Closed, failures := 0\<rparr> else b\<lparr>failures := 0\<rparr>)"

definition onFailure :: "breaker_options \<Rightarrow> millis \<Rightarrow> breaker \<Rightarrow> breaker" where
  "onFailure o' now b =
     (let b1 = b\<lparr>failures := failures b + 1, lastFailureTime := now\<rparr>
      in if failures b1 \<ge> failureThreshold o' \<and> mode b1 \<noteq> Open
         then b1\<lparr>mode := Open, nextAttempt := now + resetTimeout o'\<rparr> else b1)"

datatype 'e breaker_error = CircuitOpen int | CallFailed 'e

text \<open>
  \<open>breaker_execute\<close> is \<open>execute\<close>: \<open>now\<close> is the time it is entered, \<open>later\<close> the time the call
  finishes; the call is made only when the breaker lets it through.
\<close>

definition breaker_execute ::
  "breaker_options \<Rightarrow> millis \<Rightarrow> millis \<Rightarrow> ('e + 'a) \<Rightarrow> breaker \<Rightarrow> ('e breaker_error + 'a) \<times> breaker" where
  "breaker_execute o' now later outcome b =
     (let b1 = updateState o' now b
      in if mode b1 = Open \<and> now < nextAttempt b1
         then (Inl (CircuitOpen \<lceil>of_int (nextAttempt b1 - now) / (1000 :: rat)\<rceil>), b1)
         else (let b2 = (if mode b1 = Open then b1\<lparr>mode := HalfOpen\<rparr> else b1)
               in case outcome of
                    Inr v \<Rightarrow> (Inr v, onSuccess b2)
                  | Inl e \<Rightarrow> (Inl (CallFailed e), onFailure o' later b2)))"

definition breaker_getState :: "breaker_options \<Rightarrow> millis \<Rightarrow> breaker \<Rightarrow> breaker" where
  "breaker_getState o' now b = updateState o' now b"

definition breaker_reset :: "breaker \<Rightarrow> breaker" where
  "breaker_reset b = breaker_new"

section \<open>Backpressure\<close>

record signals =
  redisWriteMs :: "int option"
  queueLagMs :: "int option"
  tickDriftMs :: "int option"

record backpressure =
  stage :: int
  sustainedSignals :: int
  consecutiveSevereSamples :: int
  admissionBlocked :: bool
  lastUpdatedAtMs :: millis

definition backpressure_init :: backpressure where
  "backpressure_init = \<lparr> stage = 0, sustainedSignals = 0, consecutiveSevereSamples = 0,
     admissionBlocked = False, lastUpdatedAtMs = 0 \<rparr>"

definition isAtOrAbove :: "int option \<Rightarrow> int \<Rightarrow> bool" where
  "isAtOrAbove value threshold = (case value of None \<Rightarrow> False | Some v \<Rightarrow> v \<ge> threshold)"

definition computeSevere :: "env \<Rightarrow> int option \<Rightarrow> signals \<Rightarrow> bool" where
  "computeSevere env eventLoopLagMs sg \<longleftrightarrow>
     isAtOrAbove eventLoopLagMs (getBackpressureSevereEventLoopLagMs env) \<or>
     isAtOrAbove (redisWriteMs sg) (getBackpressureSevereRedisWriteMs env) \<or>
     isAtOrAbove (queueLagMs sg) (getBackpressureSevereQueueLagMs env) \<or>
     isAtOrAbove (tickDriftMs sg) (getBackpressureSevereTickDriftMs env)"

definition computeSustained :: "env \<Rightarrow> int option \<Rightarrow> signals \<Rightarrow> bool" where
  "computeSustained env eventLoopLagMs sg \<longleftrightarrow>
     isAtOrAbove eventLoopLagMs (getBackpressureSustainedEventLoopLagMs env) \<or>
     isAtOrAbove (redisWriteMs sg) (getBackpressureSustainedRedisWriteMs env) \<or>
     isAtOrAbove (queueLagMs sg) (getBackpressureSustainedQueueLagMs env) \<or>
     isAtOrAbove (tickDriftMs sg) (getBackpressureSustainedTickDriftMs env)"

definition computeMild :: "env \<Rightarrow> int option \<Rightarrow> signals \<Rightarrow> bool" where
  "computeMild env eventLoopLagMs sg \<longleftrightarrow>
     isAtOrAbove eventLoopLagMs (getBackpressureMildEventLoopLagMs env) \<or>
     isAtOrAbove (redisWriteMs sg) (getBackpressureMildRedisWriteMs env) \<or>
     isAtOrAbove (queueLagMs sg) (getBackpressureMildQueueLagMs env) \<or>
     isAtOrAbove (tickDriftMs sg) (getBackpressureMildTickDriftMs env)"

definition updateBackpressureStage ::
  "env \<Rightarrow> int option \<Rightarrow> millis \<Rightarrow> signals \<Rightarrow> backpressure \<Rightarrow> int \<times> backpressure" where
  "updateBackpressureStage env eventLoopLagMs now sg st =
     (let severe = computeSevere env eventLoopLagMs sg;
          sustained = computeSustained env eventLoopLagMs sg;
          mild = computeMild env eventLoopLagMs sg;
          st1 = st\<lparr>consecutiveSevereSamples := (if severe then consecutiveSevereSamples st + 1 else 0),
                   sustainedSignals := (if sustained then sustainedSignals st + 1 else 0)\<rparr>;
          nextStage = (if severe then 3
                       else if sustainedSignals st1 \<ge> getBackpressureSustainedSampleWindow env then 2
                       else if mild then 1 else 0);
          st2 = (if nextStage \<noteq> stage st1 then st1\<lparr>stage := nextStage, lastUpdatedAtMs := now\<rparr> else st1);
          nextAdmissionBlocked =
            (stage st2 \<ge> 3 \<and> consecutiveSevereSamples st2 \<ge> getAdmissionBlockSevereSamples env);
          st3 = (if nextAdmissionBlocked \<noteq> admissionBlocked st2
                 then st2\<lparr>admissionBlocked := nextAdmissionBlocked\<rparr> else st2)
      in (stage st3, st3))"

definition getBillingBackpressureStage :: "backpressure \<Rightarrow> int" where
  "getBillingBackpressureStage st = stage st"

definition isNewCallAdmissionBlocked :: "backpressure \<Rightarrow> bool" where
  "isNewCallAdmissionBlocked st = admissionBlocked st"

definition getEmitIntervalForStage :: "env \<Rightarrow> int \<Rightarrow> backpressure \<Rightarrow> int" where
  "getEmitIntervalForStage env normalEmitIntervalMs st =
     (if stage st \<ge> 2 then max normalEmitIntervalMs (getBackpressureStage2EmitIntervalMs env)
      else normalEmitIntervalMs)"

definition resetBackpressureStateForTests :: "backpressure \<Rightarrow> backpressure" where
  "resetBackpressureStateForTests st = backpressure_init"

section \<open>Retry facts\<close>

lemma retry_from_cases:
  assumes "\<And>v s'. fn attempt s = (Inr v, s') \<Longrightarrow> P (Inr v, s', [])"
    and "\<And>e s'. fn attempt s = (Inl e, s') \<Longrightarrow> P (Inl e, s', [])"
    and "\<And>e s' k r s'' ds. fn attempt s = (Inl e, s') \<Longrightarrow> retryable e \<Longrightarrow> left = Suc k \<Longrightarrow>
      retry_from opts retryable fn k (Suc attempt) s' = (r, s'', ds) \<Longrightarrow>
      P (r, s'', backoff_delay opts attempt # ds)"
  shows "P (retry_from opts retryable fn left attempt s)"
proof -
  obtain x s' where fn: "fn attempt s = (x, s')" by (cases "fn attempt s")
  show ?thesis
  proof (cases x)
    case (Inl e)
    show ?thesis
    proof (cases "retryable e \<and> left \<noteq> 0")
      case False
      then show ?thesis
        using assms(2) fn Inl by (subst retry_from.simps) (auto split: nat.splits)
    next
      case True
      then obtain k where k: "left = Suc k" by (cases left) auto
      obtain r s'' ds where "retry_from opts retryable fn k (Suc attempt) s' = (r, s'', ds)"
        by (cases "retry_from opts retryable fn k (Suc attempt) s'") auto
      then show ?thesis
        using assms(3) fn Inl True k by (subst retry_from.simps) auto
    qed
  next
    case (Inr v)
    then show ?thesis using assms(1) fn by (subst retry_from.simps) auto
  qed
qed

lemma retry_from_delays:
  "length (snd (snd (retry_from opts retryable fn left attempt s))) \<le> left"
proof (induction left arbitrary: attempt s)
  case 0
  show ?case by (rule retry_from_cases) simp_all
next
  case (Suc left)
  show ?case
  proof (rule retry_from_cases)
    fix e s' k r s'' ds
    assume "Suc left = Suc k" "retry_from opts retryable fn k (Suc attempt) s' = (r, s'', ds)"
    then show "length (snd (snd (r, s'', backoff_delay opts attempt # ds))) \<le> Suc left"
      using Suc.IH [of "Suc attempt" s'] by simp
  qed simp_all
qed

lemma retry_from_delay_bound:
  "\<forall>d \<in> set (snd (snd (retry_from opts retryable fn left attempt s))). d \<le> maxDelay opts"
proof (induction left arbitrary: attempt s)
  case 0
  show ?case by (rule retry_from_cases) simp_all
next
  case (Suc left)
  show ?case
  proof (rule retry_from_cases)
    fix e s' k r s'' ds
    assume "Suc left = Suc k" "retry_from opts retryable fn k (Suc attempt) s' = (r, s'', ds)"
    then show "\<forall>d \<in> set (snd (snd (r, s'', backoff_delay opts attempt # ds))). d \<le> maxDelay opts"
      using Suc.IH [of "Suc attempt" s'] by (simp add: backoff_delay_def)
  qed simp_all
qed

text \<open>What every attempt keeps, from the state it starts on to the one it leaves, the loop keeps.\<close>

lemma retry_from_state:
  assumes step: "\<And>a s. R s (snd (fn a s))" and trans: "\<And>x y z. R x y \<Longrightarrow> R y z \<Longrightarrow> R x z"
  shows "R s (fst (snd (retry_from opts retryable fn left attempt s)))"
proof (induction left arbitrary: attempt s)
  case 0
  show ?case by (rule retry_from_cases) (use step [of s attempt] in simp_all)
next
  case (Suc left)
  show ?case
  proof (rule retry_from_cases)
    fix e s' k r s'' ds
    assume a: "fn attempt s = (Inl e, s')" "Suc left = Suc k"
      "retry_from opts retryable fn k (Suc attempt) s' = (r, s'', ds)"
    then have "R s' s''" using Suc.IH [of s' "Suc attempt"] by simp
    then show "R s (fst (snd (r, s'', backoff_delay opts attempt # ds)))"
      using step [of s attempt] trans a(1) by (metis fst_conv snd_conv)
  qed (use step [of s attempt] in simp_all)
qed

text \<open>With a stateless call, the first success within the allowed attempts is returned.\<close>

lemma retry_from_first_success:
  assumes "\<And>i. i < n \<Longrightarrow> \<exists>e. fn (attempt + i) = Inl e \<and> retryable e" and "fn (attempt + n) = Inr v" and "n \<le> left"
  shows "fst (retry_from opts retryable (\<lambda>a s. (fn a, s)) left attempt s) = Inr v"
  using assms
proof (induction n arbitrary: attempt left)
  case 0
  then show ?case by (subst retry_from.simps) simp
next
  case (Suc n)
  obtain e where e: "fn attempt = Inl e" "retryable e" using Suc.prems(1) [of 0] by auto
  obtain left' where left: "left = Suc left'" using Suc.prems(3) by (cases left) auto
  have "\<And>i. i < n \<Longrightarrow> \<exists>e. fn (Suc attempt + i) = Inl e \<and> retryable e"
    using Suc.prems(1) [of "Suc i" for i] by simp
  moreover have "fn (Suc attempt + n) = Inr v" using Suc.prems(2) by simp
  ultimately have "fst (retry_from opts retryable (\<lambda>a s. (fn a, s)) left' (Suc attempt) s) = Inr v"
    using Suc.prems(3) left by (intro Suc.IH) auto
  then show ?case
    by (subst retry_from.simps) (use e left in \<open>auto split: prod.splits\<close>)
qed

text \<open>
  A retried call that fails transiently fewer than the allowed number of times and then
  succeeds returns that success; at most \<open>maxRetries\<close> delays are slept, none longer than
  \<open>maxDelay\<close>.
\<close>

theorem retry_returns_success:
  assumes "n \<le> maxRetries opts" and "\<forall>i<n. \<exists>e. fn i = Inl e \<and> retryable e" and "fn n = Inr v"
  shows "fst (retryWithBackoff opts retryable (\<lambda>a s. (fn a, s)) s) = Inr v \<and>
    length (snd (snd (retryWithBackoff opts retryable (\<lambda>a s. (fn a, s)) s))) \<le> maxRetries opts \<and>
    (\<forall>d \<in> set (snd (snd (retryWithBackoff opts retryable (\<lambda>a s. (fn a, s)) s))). d \<le> maxDelay opts)"
  using assms retry_from_first_success [of n fn 0 retryable v "maxRetries opts" opts s]
    retry_from_delays [of opts retryable "\<lambda>a s. (fn a, s)" "maxRetries opts" 0 s]
    retry_from_delay_bound [of opts retryable "\<lambda>a s. (fn a, s)" "maxRetries opts" 0 s]
  unfolding retryWithBackoff_def by simp

theorem retry_returns_success_witness:
  "fst (retryWithBackoff DEFAULT_OPTIONS (\<lambda>e. e = ''ETIMEDOUT'')
     (\<lambda>a s. ((if a < 2 then Inl ''ETIMEDOUT'' else Inr (7 :: int)), s)) ()) = Inr 7"
  using retry_returns_success [of 2 DEFAULT_OPTIONS
      "\<lambda>a. if a < 2 then Inl ''ETIMEDOUT'' else Inr (7 :: int)" "\<lambda>e. e = ''ETIMEDOUT''" 7 "()"]
  by (simp add: DEFAULT_OPTIONS_def)

section \<open>Circuit breaker facts\<close>

definition breaker_wf :: "breaker_options \<Rightarrow> breaker \<Rightarrow> bool" where
  "breaker_wf o' b \<longleftrightarrow> 0 \<le> failures b \<and> (mode b = Closed \<longrightarrow> failures b < failureThreshold o')"

lemma breaker_new_wf: "0 < failureThreshold o' \<Longrightarrow> breaker_wf o' breaker_new"
  by (simp add: breaker_wf_def breaker_new_def)

lemma updateState_wf: "0 < failureThreshold o' \<Longrightarrow> breaker_wf o' b \<Longrightarrow> breaker_wf o' (updateState o' now b)"
  by (auto simp: breaker_wf_def updateState_def Let_def)

lemma onSuccess_wf: "0 < failureThreshold o' \<Longrightarrow> breaker_wf o' b \<Longrightarrow> breaker_wf o' (onSuccess b)"
  by (auto simp: breaker_wf_def onSuccess_def)

lemma onFailure_wf: "breaker_wf o' b \<Longrightarrow> breaker_wf o' (onFailure o' now b)"
  by (auto simp: breaker_wf_def onFailure_def Let_def)

text \<open>
  The breaker invariant: a closed breaker has recorded fewer failures than its threshold.
  Every execution keeps it, whatever the call does, and while the breaker is open and its retry
  time has not come, the call is refused and neither counted nor made.
\<close>

theorem breaker_execute_invariant:
  assumes "0 < failureThreshold o'" and "breaker_wf o' b"
  shows "breaker_wf o' (snd (breaker_execute o' now later outcome b)) \<and>
    (mode b = Open \<and> now < nextAttempt b \<longrightarrow>
       (\<exists>n. fst (breaker_execute o' now later outcome b) = Inl (CircuitOpen n)) \<and>
       mode (snd (breaker_execute o' now later outcome b)) = Open \<and>
       failures (snd (breaker_execute o' now later outcome b)) \<le> failures b)"
proof (intro conjI impI)
  have u: "breaker_wf o' (updateState o' now b)" by (rule updateState_wf [OF assms])
  then have h: "breaker_wf o' ((updateState o' now b)\<lparr>mode := HalfOpen\<rparr>)" by (simp add: breaker_wf_def)
  show "breaker_wf o' (snd (breaker_execute o' now later outcome b))"
    using u h assms(1) by (auto simp: breaker_execute_def Let_def onSuccess_wf onFailure_wf split: sum.splits)
next
  assume "mode b = Open \<and> now < nextAttempt b"
  then have "mode (updateState o' now b) = Open \<and> now < nextAttempt (updateState o' now b) \<and>
      failures (updateState o' now b) \<le> failures b"
    using assms(2) by (auto simp: updateState_def Let_def breaker_wf_def)
  then show "\<exists>n. fst (breaker_execute o' now later outcome b) = Inl (CircuitOpen n)"
    "mode (snd (breaker_execute o' now later outcome b)) = Open"
    "failures (snd (breaker_execute o' now later outcome b)) \<le> failures b"
    by (auto simp: breaker_execute_def Let_def)
qed

theorem breaker_execute_invariant_witness:
  "breaker_wf streamVideoOptions
     (snd (breaker_execute streamVideoOptions 5 6 (Inl ''down'' :: string + unit) breaker_new))"
  using breaker_execute_invariant [of streamVideoOptions breaker_new 5 6 "Inl ''down'' :: string + unit"]
    breaker_new_wf [of streamVideoOptions]
  by (simp add: streamVideoOptions_def)

text \<open>
  The probe after the reset timeout does not re-open the Stream breakers: with equal reset
  timeout and monitoring window, a call made later than the retry time starts from a cleared failure
  count, so a failing probe leaves the breaker half-open with one failure and the next call goes
  through as well.
\<close>

theorem failed_probe_does_not_reopen:
  assumes "resetTimeout o' = monitoringWindow o'" and "1 < failureThreshold o'"
    and "mode b = Open" and "nextAttempt b = lastFailureTime b + resetTimeout o'"
    and "nextAttempt b < now" and "now \<le> later" and "later - now \<le> monitoringWindow o'"
  shows "let b' = snd (breaker_execute o' now later (Inl e :: 'e + 'v) b)
         in mode b' = HalfOpen \<and> failures b' \<le> 1 \<and>
            fst (breaker_execute o' later later2 (Inr v :: 'e + 'v) b') = Inr v"
proof -
  let ?b1 = "updateState o' now b"
  have 1: "mode ?b1 = HalfOpen" "failures ?b1 \<le> 0 \<or> failures ?b1 = 0"
    using assms by (auto simp: updateState_def Let_def)
  then have 2: "mode (onFailure o' later ?b1) = HalfOpen" "failures (onFailure o' later ?b1) \<le> 1"
    using assms(2) by (auto simp: onFailure_def Let_def)
  have 3: "snd (breaker_execute o' now later (Inl e :: 'e + 'v) b) = onFailure o' later ?b1"
    using 1 by (simp add: breaker_execute_def Let_def)
  have "mode (updateState o' later (onFailure o' later ?b1)) = HalfOpen"
    using 2(1) by (simp add: updateState_def Let_def)
  then have "fst (breaker_execute o' later later2 (Inr v :: 'e + 'v) (onFailure o' later ?b1)) = Inr v"
    by (simp add: breaker_execute_def Let_def)
  with 2 3 show ?thesis by (simp only: Let_def simp_thms)
qed

theorem failed_probe_does_not_reopen_witness:
  "mode (snd (breaker_execute streamVideoOptions 200000 200100 (Inl ''down'' :: string + unit)
     \<lparr> failures = 5, lastFailureTime = 100000, mode = Open, nextAttempt = 160000 \<rparr>)) = HalfOpen"
  using failed_probe_does_not_reopen [of streamVideoOptions
      "\<lparr> failures = 5, lastFailureTime = 100000, mode = Open, nextAttempt = 160000 \<rparr>"
      200000 200100 "''down''" 200200 "()"]
  by (simp add: streamVideoOptions_def Let_def)

section \<open>Backpressure facts\<close>

definition backpressure_wf :: "env \<Rightarrow> backpressure \<Rightarrow> bool" where
  "backpressure_wf env st \<longleftrightarrow>
     stage st \<in> {0, 1, 2, 3} \<and> 0 \<le> consecutiveSevereSamples st \<and> 0 \<le> sustainedSignals st \<and>
     (0 < consecutiveSevereSamples st \<longleftrightarrow> stage st = 3) \<and>
     (admissionBlocked st \<longleftrightarrow>
        stage st = 3 \<and> getAdmissionBlockSevereSamples env \<le> consecutiveSevereSamples st)"

lemma backpressure_init_wf: "backpressure_wf env backpressure_init"
  by (simp add: backpressure_wf_def backpressure_init_def)

lemma updateBackpressureStage_fields:
  "consecutiveSevereSamples (snd (updateBackpressureStage env lag now sg st)) =
     (if computeSevere env lag sg then consecutiveSevereSamples st + 1 else 0)"
  "sustainedSignals (snd (updateBackpressureStage env lag now sg st)) =
     (if computeSustained env lag sg then sustainedSignals st + 1 else 0)"
  "stage (snd (updateBackpressureStage env lag now sg st)) =
     (if computeSevere env lag sg then 3
      else if (if computeSustained env lag sg then sustainedSignals st + 1 else 0)
                \<ge> getBackpressureSustainedSampleWindow env then 2
      else if computeMild env lag sg then 1 else 0)"
  "admissionBlocked (snd (updateBackpressureStage env lag now sg st)) \<longleftrightarrow>
     stage (snd (updateBackpressureStage env lag now sg st)) \<ge> 3 \<and>
     consecutiveSevereSamples (snd (updateBackpressureStage env lag now sg st))
       \<ge> getAdmissionBlockSevereSamples env"
  by (simp_all add: updateBackpressureStage_def Let_def)

lemma updateBackpressureStage_wf:
  assumes "backpressure_wf env st"
  shows "backpressure_wf env (snd (updateBackpressureStage env lag now sg st))"
  using assms
  by (auto simp: backpressure_wf_def updateBackpressureStage_fields)

text \<open>
  Admission control has hysteresis only upwards: from the initial state and after any sequence
  of samples, new calls are blocked exactly when the worker is in stage 3 and the configured number
  of consecutive severe samples has been seen; one sample that is not severe unblocks at once.
\<close>

theorem admission_block_exact:
  "let st = fold (\<lambda>(lag, now, sg) st. snd (updateBackpressureStage env lag now sg st)) samples backpressure_init
   in backpressure_wf env st \<and>
      (\<not> computeSevere env lag sg \<longrightarrow>
         \<not> isNewCallAdmissionBlocked (snd (updateBackpressureStage env lag now sg st)))"
proof -
  have "backpressure_wf env (fold (\<lambda>(lag, now, sg) st. snd (updateBackpressureStage env lag now sg st)) samples st)"
    if "backpressure_wf env st" for st
    using that by (induction samples arbitrary: st) (auto simp: updateBackpressureStage_wf)
  then show ?thesis
    using backpressure_init_wf admission_samples.positive [of env]
    by (simp add: Let_def isNewCallAdmissionBlocked_def updateBackpressureStage_fields)
qed

theorem admission_block_exact_witness:
  "\<not> isNewCallAdmissionBlocked (snd (updateBackpressureStage Map.empty (Some 1) 9
      \<lparr> redisWriteMs = None, queueLagMs = None, tickDriftMs = None \<rparr>
      (fold (\<lambda>(lag, now, sg) st. snd (updateBackpressureStage Map.empty lag now sg st))
        [(Some 500, 1, \<lparr> redisWriteMs = None, queueLagMs = None, tickDriftMs = None \<rparr>),
         (Some 500, 2, \<lparr> redisWriteMs = None, queueLagMs = None, tickDriftMs = None \<rparr>)] backpressure_init)))"
  using admission_block_exact [of Map.empty
      "[(Some 500, 1, \<lparr> redisWriteMs = None, queueLagMs = None, tickDriftMs = None \<rparr>),
        (Some 500, 2, \<lparr> redisWriteMs = None, queueLagMs = None, tickDriftMs = None \<rparr>)]"
      "Some 1" "\<lparr> redisWriteMs = None, queueLagMs = None, tickDriftMs = None \<rparr>" 9]
  by (simp add: Let_def computeSevere_def isAtOrAbove_def getBackpressureSevereEventLoopLagMs_def readEnvInt_def)

end
