(* ===== verification/Bootstrap.thy ===== *)
theory Bootstrap
  imports Ownership Resilience
begin

text \<open>
  The state the billing engine works on, and the promotion of a seeded session to a billable one:
  \<open>promoteBootstrappingSession\<close> of \<open>src/modules/billing/billing.service.ts\<close> and the pricing
  repair of \<open>src/modules/billing/billing-session-pricing-repair.service.ts\<close>.

  \<open>billing_state\<close> extends the key space and the stored sessions with the four balance keys of a
  call (the integers their decimal text stands for), the checkpoint, user and creator collections,
  the price cache, the transition audit and the worker's backpressure state. \<open>worker\<close> is the
  process that runs an operation: its configuration, its clock, and the answers of Redis and Mongo
  where the code handles a failure. What the code sends to others (socket emits, queue jobs,
  termination requests) is the list of events an operation returns.
\<close>

section \<open>State\<close>

record user_doc =
  u_id :: string
  u_firebaseUid :: string
  u_role :: string
  u_coins :: int
  u_introFreeCallCredits :: "int option"
  u_welcomeFreeCallConsumedAt :: "millis option"
  u_maxCallDurationSeconds :: "int option"

record creator_doc =
  c_id :: string
  c_userId :: string
  c_price :: rat
  c_isDisabled :: bool
  c_maxCallDurationSeconds :: "int option"

record billing_state = slot_state +
  introKey :: "string \<Rightarrow> int option"
  walletKey :: "string \<Rightarrow> int option"
  coinsKey :: "string \<Rightarrow> int option"
  earningsKey :: "string \<Rightarrow> int option"
  checkpoints :: "string \<Rightarrow> billing_checkpoint option"
  prices :: pricing_state
  users :: "user_doc list"
  creators :: "creator_doc list"
  audit :: "transition_audit list"
  pressure :: backpressure

record worker =
  w_env :: env
  w_cfg :: pricing_config
  w_inst :: string
  w_token :: string
  w_shuttingDown :: bool
  w_deltaCursorV3 :: bool
  w_runsWorkers :: bool
  w_now :: millis
  w_clock :: millis
  w_redisWriteMs :: int
  w_eventLoopLag :: "int option"
  w_interference :: interference
  w_db_ok :: bool
  w_cache_ok :: bool
  w_persist_error :: "string option"
  w_advance :: "call_session \<Rightarrow> micros \<Rightarrow> billing_checkpoint option \<Rightarrow> billing_checkpoint option"

record billing_snapshot =
  bs_callId :: string
  bs_billingSequence :: int
  bs_lifecycleState :: "BillingLifecycleState option"
  bs_coins :: int
  bs_coinsExact :: rat
  bs_earnings :: rat
  bs_elapsedSeconds :: int
  bs_remainingSeconds :: int
  bs_durationLimit :: int
  bs_serverTimestamp :: millis
  bs_introPromoActive :: bool
  bs_userRate :: micros
  bs_creatorRate :: micros

datatype billing_event =
    EmitUpdate billing_snapshot
  | DurationWarning string int int int
  | ForceTerminate string string string
  | FinalizeCallEnd string string
  | CancelCycleJob string
  | MirrorDurable string
  | PeriodicPersist string
  | FlushPersist string string
  | BillingError string string
  | EnsureCallDoc string
  | ReplayBillingStarted string
  | DeadLetter string

text \<open>\<open>ForceTerminate callId reason creatorReason\<close> is a request to \<open>forceTerminateCall\<close>.\<close>

definition readLiveUserSpendBalancesMicros :: "string \<Rightarrow> billing_state \<Rightarrow> micros \<times> micros \<times> micros" where
  "readLiveUserSpendBalancesMicros cid st =
     (let introR = introKey st cid; walletR = walletKey st cid; legacyMerged = coinsKey st cid;
          (introMicros, walletMicros) =
            (if introR = None \<and> walletR = None \<and> legacyMerged \<noteq> None
             then (0, parse_micros legacyMerged)
             else (parse_micros introR, parse_micros walletR))
      in (introMicros, walletMicros, introMicros + walletMicros))"

definition clearCallSessionSeed :: "string \<Rightarrow> billing_state \<Rightarrow> billing_state" where
  "clearCallSessionSeed cid st =
     st\<lparr>sessions := (sessions st)(cid := None), introKey := (introKey st)(cid := None),
        walletKey := (walletKey st)(cid := None), earningsKey := (earningsKey st)(cid := None),
        coinsKey := (coinsKey st)(cid := None)\<rparr>"

section \<open>Promotion\<close>

datatype promote_failure =
    UserNotFound | CreatorMissing | CreatorDisabled | InvalidParticipants | InsufficientCoins
  | ConcurrentPromote | PromoteRedisError

record promote_options =
  po_terminateOnFailure :: bool
  po_preserveStartTime :: bool
  po_preserveRuntimeBalances :: bool

record promoted =
  pr_session :: call_session
  pr_spendableMicros :: micros
  pr_initialIntroMicros :: micros
  pr_initialWalletMicros :: micros
  pr_introPromoActive :: bool
  pr_pricePerSecondMicros :: micros
  pr_creatorEarningsPerSecondMicros :: micros

definition live_session_promoted :: "string \<Rightarrow> billing_state \<Rightarrow> bool" where
  "live_session_promoted cid st =
     (case sessions st cid of Some (Typed live) \<Rightarrow> \<not> isBootstrappingSession live | _ \<Rightarrow> False)"

definition find_payer :: "call_session \<Rightarrow> billing_state \<Rightarrow> user_doc option" where
  "find_payer s st =
     (case find (\<lambda>u. u_firebaseUid u = userFirebaseUid s) (users st) of
        Some u \<Rightarrow> Some u
      | None \<Rightarrow>
          if js_trim (userMongoId s) = [] then None
          else find (\<lambda>u. u_id u = js_trim (userMongoId s)) (users st))"

definition find_creator :: "call_session \<Rightarrow> billing_state \<Rightarrow> creator_doc option" where
  "find_creator s st =
     (let creatorMongoId = js_trim (creatorMongoId s)
      in if creatorMongoId = [] then None
         else (case find (\<lambda>c. c_id c = creatorMongoId) (creators st) of
                 Some c \<Rightarrow> Some c
               | None \<Rightarrow> find (\<lambda>c. c_userId c = creatorMongoId) (creators st)))"

definition creator_account_ok :: "call_session \<Rightarrow> creator_doc \<Rightarrow> billing_state \<Rightarrow> bool" where
  "creator_account_ok s c st =
     (case find (\<lambda>u. u_id u = c_userId c) (users st) of
        None \<Rightarrow> False
      | Some cu \<Rightarrow>
          (u_role cu = ''creator'' \<or> u_role cu = ''admin'') \<and>
          u_firebaseUid cu \<noteq> [] \<and> u_firebaseUid cu = creatorFirebaseUid s)"

text \<open>The participants of the call, or the reason they are refused (in the order of the code).\<close>

definition promote_participants :: "call_session \<Rightarrow> billing_state \<Rightarrow> promote_failure + user_doc \<times> creator_doc" where
  "promote_participants s st =
     (case find_payer s st of
        None \<Rightarrow> Inl UserNotFound
      | Some u \<Rightarrow>
          if u_role u \<noteq> ''user'' then Inl InvalidParticipants
          else (case find_creator s st of
                  None \<Rightarrow> Inl CreatorMissing
                | Some c \<Rightarrow>
                    if c_isDisabled c then Inl CreatorDisabled
                    else if \<not> creator_account_ok s c st then Inl InvalidParticipants
                    else Inr (u, c)))"

text \<open>
  A refusal releases the slots and asks for termination when the caller wants it; a missing user
  or creator returns before that.
\<close>

definition promote_refuse ::
  "promote_options \<Rightarrow> string \<Rightarrow> call_session \<Rightarrow> promote_failure \<Rightarrow> billing_state
   \<Rightarrow> billing_state \<times> billing_event list" where
  "promote_refuse opts cid s failure st =
     (if po_terminateOnFailure opts \<and> failure \<in> {InvalidParticipants, CreatorDisabled}
      then (releaseActiveCallSlotsIfOurs cid (userFirebaseUid s) (creatorFirebaseUid s) st,
            [ForceTerminate cid ''unknown'' ''unknown''])
      else (st, []))"

definition hasRuntimeActivity :: "call_session \<Rightarrow> bool" where
  "hasRuntimeActivity s \<longleftrightarrow> billingSequence s > 0 \<or> totalDeductedMicros s > 0"

definition preserves_balances :: "promote_options \<Rightarrow> call_session \<Rightarrow> bool" where
  "preserves_balances opts s \<longleftrightarrow>
     po_preserveRuntimeBalances opts \<or> (po_preserveStartTime opts \<and> hasRuntimeActivity s)"

text \<open>
  Initial balances: the welcome promotion or the wallet from Mongo, or what Redis holds for a
  session that already ran. The last component says whether Redis was the source.
\<close>

definition mongo_balances :: "env \<Rightarrow> user_doc \<Rightarrow> micros \<Rightarrow> bool \<times> micros \<times> micros" where
  "mongo_balances env u pps =
     (let promo = (isFreeCallEnabled env \<and> u_role u = ''user'' \<and>
                   u_welcomeFreeCallConsumedAt u = None \<and> num0 (u_introFreeCallCredits u) > 0)
      in (promo,
          (if promo \<and> pps > 0 then getFreeCallDurationSeconds env * pps else 0),
          (if promo then 0 else coinsWholeToMicros (u_coins u))))"

definition promote_balances ::
  "env \<Rightarrow> promote_options \<Rightarrow> string \<Rightarrow> call_session \<Rightarrow> user_doc \<Rightarrow> micros \<Rightarrow> billing_state
   \<Rightarrow> bool \<times> micros \<times> micros \<times> bool" where
  "promote_balances env opts cid s u pps st =
     (let (promo, intro, wallet) = mongo_balances env u pps;
          redisIntro = parse_micros (introKey st cid);
          redisWallet = parse_micros (walletKey st cid);
          canUseRedisRuntime =
            (hasRuntimeActivity s \<and> redisIntro + redisWallet > 0 \<and>
             (introKey st cid \<noteq> None \<or> walletKey st cid \<noteq> None))
      in if preserves_balances opts s \<and> canUseRedisRuntime
         then (introPromoActive s = Some True \<or> (redisIntro > 0 \<and> redisWallet = 0),
               redisIntro, redisWallet, True)
         else (promo, intro, wallet, False))"

definition promote_duration_limit :: "env \<Rightarrow> pricing_config \<Rightarrow> user_doc \<Rightarrow> creator_doc \<Rightarrow> bool \<Rightarrow> micros \<Rightarrow> int" where
  "promote_duration_limit env cfg u c promo pps =
     (let creatorLimit = nvl (c_maxCallDurationSeconds c) (DEFAULT_CREATOR_CALL_DURATION_SECONDS cfg);
          userLimit = nvl (u_maxCallDurationSeconds u) (DEFAULT_USER_CALL_DURATION_SECONDS cfg);
          platformCapSeconds = min creatorLimit (min userLimit (MAX_CALL_DURATION_SECONDS cfg))
      in if promo \<and> pps > 0 then min platformCapSeconds (getFreeCallDurationSeconds env)
         else platformCapSeconds)"

definition promote_session ::
  "worker \<Rightarrow> promote_options \<Rightarrow> string \<Rightarrow> call_session \<Rightarrow> user_doc \<Rightarrow> creator_doc \<Rightarrow> pricing_snapshot
   \<Rightarrow> bool \<Rightarrow> micros \<Rightarrow> micros \<Rightarrow> call_session" where
  "promote_session w opts cid s u c snap promo intro wallet =
     (let pps = snap_pricePerSecondMicros snap;
          start = (if po_preserveStartTime opts then (if startTime s = 0 then w_clock w else startTime s)
                   else w_clock w)
      in normalizeV4SessionFields (s\<lparr>
           schemaVersion := BILLING_SESSION_SCHEMA_VERSION,
           billingVersion := Some 1,
           initialIntroMicros := Some intro,
           initialWalletMicros := Some wallet,
           billingPricePerSecondMicros := Some pps,
           introPromoActive := Some promo,
           introPromoSessionId := Some cid,
           totalIntroDeductedMicros := Some (nvl (totalIntroDeductedMicros s) 0),
           totalWalletDeductedMicros := Some (nvl (totalWalletDeductedMicros s) 0),
           callId := cid,
           userMongoId := u_id u,
           creatorMongoId := c_id c,
           pricePerMinute := snap_pricePerMinute snap,
           pricePerSecondMicros := pps,
           creatorEarningsPerSecondMicros := snap_creatorEarningsPerSecondMicros snap,
           creatorShareAtCallTime := snap_creatorShareAtCallTime snap,
           startTime := start,
           lastProcessedAt := start,
           version := 1,
           lifecycleState := Some (nvl (lifecycleState s) STARTING),
           effectiveDurationLimitSeconds := promote_duration_limit (w_env w) (w_cfg w) u c promo pps,
           lastCheckpointAtMs := Some (nvl (lastCheckpointAtMs s) 0),
           lastHealthyTickAt := Some (nvl (lastHealthyTickAt s) start),
           lastSocketEmitAt := Some (nvl (lastSocketEmitAt s) start),
           lastSequenceAdvanceAt := Some (nvl (lastSequenceAdvanceAt s) start),
           expectedNextTickAtMs := Some (start + readBillingProcessIntervalMs (w_env w)),
           instanceId := Some (nvl (instanceId s) (w_inst w)),
           runtimeEpoch := Some (nvl (runtimeEpoch s) 1),
           leaderLock := Some (nvl (leaderLock s) (''runtime:'' @ cid))\<rparr>))"

definition promote_persist :: "worker \<Rightarrow> string \<Rightarrow> promoted \<Rightarrow> bool \<Rightarrow> billing_state \<Rightarrow> billing_state" where
  "promote_persist w cid p fromRedis st =
     (let s = pr_session p;
          st1 = (if fromRedis then st\<lparr>sessions := (sessions st)(cid \<mapsto> Typed s)\<rparr>
                 else st\<lparr>sessions := (sessions st)(cid \<mapsto> Typed s),
                         introKey := (introKey st)(cid \<mapsto> pr_initialIntroMicros p),
                         walletKey := (walletKey st)(cid \<mapsto> pr_initialWalletMicros p),
                         earningsKey := (earningsKey st)(cid \<mapsto> 0)\<rparr>)
      in st1\<lparr>checkpoints := (checkpoints st1)(cid :=
               upsertBillingCheckpointSnapshot (w_db_ok w) s (pr_spendableMicros p) (checkpoints st1 cid))\<rparr>)"

definition promoteBootstrappingSession ::
  "worker \<Rightarrow> promote_options \<Rightarrow> string \<Rightarrow> call_session \<Rightarrow> billing_state
   \<Rightarrow> (promote_failure + promoted) \<times> billing_state \<times> billing_event list" where
  "promoteBootstrappingSession w opts cid s st =
     (if live_session_promoted cid st then (Inl ConcurrentPromote, st, [])
      else (case promote_participants s st of
              Inl failure \<Rightarrow> (Inl failure, promote_refuse opts cid s failure st)
            | Inr (u, c) \<Rightarrow>
                (let snap = buildSnapshotFromPricePerMinute (CREATOR_SHARE_PERCENTAGE (w_cfg w)) (c_price c);
                     st1 = st\<lparr>prices := warmSnapshotCache (w_cache_ok w) (c_id c) snap (prices st)\<rparr>;
                     pps = snap_pricePerSecondMicros snap;
                     (promo, intro, wallet, fromRedis) = promote_balances (w_env w) opts cid s u pps st1;
                     spendable = intro + wallet;
                     minEntry = coinsWholeToMicros (MIN_COINS_TO_CALL (w_cfg w))
                 in if \<not> preserves_balances opts s \<and> spendable < max pps minEntry
                    then (Inl InsufficientCoins,
                          (if po_terminateOnFailure opts
                           then (releaseActiveCallSlotsIfOurs cid (userFirebaseUid s) (creatorFirebaseUid s) st1,
                                 [ForceTerminate cid
                                    (if spendable < minEntry then ''min_coins_not_met'' else ''insufficient_coins'')
                                    ''user_out_of_coins''])
                           else (st1, [])))
                    else (let s' = promote_session w opts cid s u c snap promo intro wallet;
                              p = \<lparr> pr_session = s', pr_spendableMicros = spendable,
                                    pr_initialIntroMicros = intro, pr_initialWalletMicros = wallet,
                                    pr_introPromoActive = promo, pr_pricePerSecondMicros = pps,
                                    pr_creatorEarningsPerSecondMicros = snap_creatorEarningsPerSecondMicros snap \<rparr>
                          in if w_persist_error w \<noteq> None
                             then (Inl PromoteRedisError, st1, [EnsureCallDoc cid])
                             else (Inr p, promote_persist w cid p fromRedis st1, [EnsureCallDoc cid])))))"

section \<open>Pricing repair\<close>

datatype repair_reason =
    AlreadyValid | PricingPatched | BootstrapCompleted | RepairCreatorNotFound | RepairCreatorDisabled
  | RepairUserNotFound | StillBootstrapping | RepairInvalidParticipants | RepairInsufficientCoins
  | RepairRedisError

record repair_result =
  rr_repaired :: bool
  rr_reason :: repair_reason
  rr_pricePerSecondMicros :: "micros option"

definition patched_session :: "pricing_snapshot \<Rightarrow> call_session \<Rightarrow> call_session" where
  "patched_session snap s =
     normalizeV4SessionFields (s\<lparr>
       pricePerMinute := snap_pricePerMinute snap,
       pricePerSecondMicros := snap_pricePerSecondMicros snap,
       billingPricePerSecondMicros := Some (snap_pricePerSecondMicros snap),
       creatorEarningsPerSecondMicros := snap_creatorEarningsPerSecondMicros snap,
       creatorShareAtCallTime := snap_creatorShareAtCallTime snap\<rparr>)"

definition patchSessionPricingOnly ::
  "worker \<Rightarrow> string \<Rightarrow> call_session \<Rightarrow> billing_state \<Rightarrow> repair_result \<times> call_session \<times> billing_state" where
  "patchSessionPricingOnly w cid s st =
     (let creatorId = js_trim (creatorMongoId s)
      in if creatorId = []
         then (\<lparr> rr_repaired = False, rr_reason = RepairCreatorNotFound, rr_pricePerSecondMicros = None \<rparr>, s, st)
         else (case snapshotForCreatorCached (CREATOR_SHARE_PERCENTAGE (w_cfg w)) (w_cache_ok w) creatorId (prices st) of
                 (Inl _, prices') \<Rightarrow>
                   (\<lparr> rr_repaired = False, rr_reason = RepairCreatorNotFound, rr_pricePerSecondMicros = None \<rparr>,
                    s, st\<lparr>prices := prices'\<rparr>)
               | (Inr snap, prices') \<Rightarrow>
                   if snap_pricePerSecondMicros snap \<le> 0
                   then (\<lparr> rr_repaired = False, rr_reason = StillBootstrapping, rr_pricePerSecondMicros = None \<rparr>,
                         s, st\<lparr>prices := prices'\<rparr>)
                   else (let s' = patched_session snap s;
                             balance = parse_micros (introKey st cid) + parse_micros (walletKey st cid)
                         in (\<lparr> rr_repaired = True, rr_reason = PricingPatched,
                               rr_pricePerSecondMicros = Some (snap_pricePerSecondMicros snap) \<rparr>,
                             s',
                             st\<lparr>prices := prices',
                                sessions := (sessions st)(cid \<mapsto> Typed s'),
                                checkpoints := (checkpoints st)(cid :=
                                  upsertBillingCheckpointSnapshot (w_db_ok w) s' balance (checkpoints st cid))\<rparr>))))"

fun repair_reason_of :: "promote_failure \<Rightarrow> repair_reason" where
  "repair_reason_of UserNotFound = RepairUserNotFound"
| "repair_reason_of CreatorMissing = RepairCreatorNotFound"
| "repair_reason_of CreatorDisabled = RepairCreatorDisabled"
| "repair_reason_of InvalidParticipants = RepairInvalidParticipants"
| "repair_reason_of InsufficientCoins = RepairInsufficientCoins"
| "repair_reason_of ConcurrentPromote = AlreadyValid"
| "repair_reason_of PromoteRedisError = RepairRedisError"

text \<open>The session a concurrent promotion left, when it carries a price.\<close>

definition live_priced_session :: "string \<Rightarrow> billing_state \<Rightarrow> call_session option" where
  "live_priced_session cid st =
     (case sessions st cid of
        Some (Typed live) \<Rightarrow> if sessionPricePerSecondMicros live > 0 then Some live else None
      | _ \<Rightarrow> None)"

definition repair_options :: promote_options where
  "repair_options = \<lparr> po_terminateOnFailure = False, po_preserveStartTime = True,
     po_preserveRuntimeBalances = True \<rparr>"

definition repairSessionPricingIfNeeded ::
  "worker \<Rightarrow> string \<Rightarrow> call_session \<Rightarrow> billing_state
   \<Rightarrow> repair_result \<times> call_session \<times> billing_state \<times> billing_event list" where
  "repairSessionPricingIfNeeded w cid s st =
     (let currentPrice = sessionPricePerSecondMicros s
      in if currentPrice > 0 \<and> \<not> needsFullSessionBootstrap s
         then (\<lparr> rr_repaired = False, rr_reason = AlreadyValid, rr_pricePerSecondMicros = Some currentPrice \<rparr>, s, st, [])
         else if needsFullSessionBootstrap s
         then (case promoteBootstrappingSession w repair_options cid s st of
                 (Inr p, st', evs) \<Rightarrow>
                   (\<lparr> rr_repaired = True, rr_reason = BootstrapCompleted,
                      rr_pricePerSecondMicros = Some (pr_pricePerSecondMicros p) \<rparr>,
                    pr_session p, st', evs @ [ReplayBillingStarted cid])
               | (Inl failure, st', evs) \<Rightarrow>
                   (case (if failure = ConcurrentPromote then live_priced_session cid st' else None) of
                      Some live \<Rightarrow>
                        (\<lparr> rr_repaired = False, rr_reason = AlreadyValid,
                           rr_pricePerSecondMicros = Some (sessionPricePerSecondMicros live) \<rparr>, live, st', evs)
                    | None \<Rightarrow>
                        (\<lparr> rr_repaired = False, rr_reason = repair_reason_of failure,
                           rr_pricePerSecondMicros = None \<rparr>, s, st', evs)))
         else (case patchSessionPricingOnly w cid s st of (r, s', st') \<Rightarrow> (r, s', st', [])))"

definition hasValidSessionPricing :: "repair_result \<Rightarrow> call_session \<Rightarrow> bool" where
  "hasValidSessionPricing r s \<longleftrightarrow>
     rr_reason r = AlreadyValid \<or> (rr_repaired r \<and> nvl (rr_pricePerSecondMicros r) 0 > 0) \<or>
     sessionPricePerSecondMicros s > 0"

section \<open>An example state\<close>

text \<open>One funded user and one creator at the base tier, and a seeded session between them.\<close>

definition demo_seed :: call_session where
  "demo_seed = demo_session\<lparr>version := 0, pricePerSecondMicros := 0, billingPricePerSecondMicros := None,
     lifecycleState := Some STARTING\<rparr>"

definition demo_state :: billing_state where
  "demo_state =
     \<lparr> kv = Map.empty, sessions = Map.empty, introKey = Map.empty, walletKey = Map.empty,
       coinsKey = Map.empty, earningsKey = Map.empty, checkpoints = Map.empty,
       prices = \<lparr> creator_price = [''mk'' \<mapsto> 1800], snap_cache = Map.empty \<rparr>,
       users = [\<lparr> u_id = ''mu'', u_firebaseUid = ''u1'', u_role = ''user'', u_coins = 900,
                  u_introFreeCallCredits = None, u_welcomeFreeCallConsumedAt = Some 5,
                  u_maxCallDurationSeconds = None \<rparr>,
                \<lparr> u_id = ''mc'', u_firebaseUid = ''k1'', u_role = ''creator'', u_coins = 0,
                  u_introFreeCallCredits = None, u_welcomeFreeCallConsumedAt = None,
                  u_maxCallDurationSeconds = None \<rparr>],
       creators = [\<lparr> c_id = ''mk'', c_userId = ''mc'', c_price = 1800, c_isDisabled = False,
                     c_maxCallDurationSeconds = None \<rparr>],
       audit = [], pressure = backpressure_init \<rparr>"

definition demo_worker :: worker where
  "demo_worker =
     \<lparr> w_env = Map.empty, w_cfg = default_pricing, w_inst = ''host:1'', w_token = ''t1'',
       w_shuttingDown = False, w_deltaCursorV3 = False, w_runsWorkers = True,
       w_now = 1001000, w_clock = 1001005, w_redisWriteMs = 3, w_eventLoopLag = Some 2,
       w_interference = quiet, w_db_ok = True, w_cache_ok = True, w_persist_error = None,
       w_advance = (\<lambda>s balance cp. cp) \<rparr>"

lemmas demo_promotion_defs =
  promoteBootstrappingSession_def live_session_promoted_def promote_participants_def find_payer_def
  find_creator_def creator_account_ok_def promote_balances_def mongo_balances_def
  preserves_balances_def hasRuntimeActivity_def repair_options_def Let_def js_trim_def js_is_space_def
  demo_state_def demo_worker_def demo_seed_def demo_session_def buildSnapshotFromPricePerMinute_def
  tier_user_rates default_pricing_def coinsWholeToMicros_def COIN_MICROS_def isFreeCallEnabled_def
  parse_micros_def

section \<open>Facts\<close>

lemma promote_ok_cases:
  assumes "promoteBootstrappingSession w opts cid s st = (Inr p, st', evs)"
  obtains u c promo intro wallet fromRedis snap where
    "promote_participants s st = Inr (u, c)" and "\<not> live_session_promoted cid st"
    and "snap = buildSnapshotFromPricePerMinute (CREATOR_SHARE_PERCENTAGE (w_cfg w)) (c_price c)"
    and "preserves_balances opts s \<or>
      max (snap_pricePerSecondMicros snap) (coinsWholeToMicros (MIN_COINS_TO_CALL (w_cfg w))) \<le> intro + wallet"
    and "pr_session p = promote_session w opts cid s u c snap promo intro wallet"
    and "pr_spendableMicros p = intro + wallet" and "pr_initialIntroMicros p = intro"
    and "pr_initialWalletMicros p = wallet"
    and "st' = promote_persist w cid p fromRedis
       (st\<lparr>prices := warmSnapshotCache (w_cache_ok w) (c_id c) snap (prices st)\<rparr>)"
    and "promote_balances (w_env w) opts cid s u (snap_pricePerSecondMicros snap)
       (st\<lparr>prices := warmSnapshotCache (w_cache_ok w) (c_id c) snap (prices st)\<rparr>) =
         (promo, intro, wallet, fromRedis)"
  using assms
  by (auto simp: promoteBootstrappingSession_def Let_def promote_refuse_def not_less
      split: if_splits sum.splits prod.splits)

lemma promote_session_fields [simp]:
  "startTime (promote_session w opts cid s u c snap promo i wl) =
     (if po_preserveStartTime opts then (if startTime s = 0 then w_clock w else startTime s) else w_clock w)"
  "lastProcessedAt (promote_session w opts cid s u c snap promo i wl) =
     (if po_preserveStartTime opts then (if startTime s = 0 then w_clock w else startTime s) else w_clock w)"
  "totalDeductedMicros (promote_session w opts cid s u c snap promo i wl) = totalDeductedMicros s"
  "pricePerSecondMicros (promote_session w opts cid s u c snap promo i wl) = snap_pricePerSecondMicros snap"
  "billingPricePerSecondMicros (promote_session w opts cid s u c snap promo i wl) =
     Some (snap_pricePerSecondMicros snap)"
  "version (promote_session w opts cid s u c snap promo i wl) = 1"
  "effectiveDurationLimitSeconds (promote_session w opts cid s u c snap promo i wl) =
     promote_duration_limit (w_env w) (w_cfg w) u c promo (snap_pricePerSecondMicros snap)"
  by (simp_all add: promote_session_def Let_def)

lemma promote_duration_limit_le: "promote_duration_limit env cfg u c promo pps \<le> MAX_CALL_DURATION_SECONDS cfg"
  by (auto simp: promote_duration_limit_def Let_def min_le_iff_disj)

lemma promote_persist_store:
  "sessions (promote_persist w cid p fromRedis st) cid = Some (Typed (pr_session p))"
  "\<not> fromRedis \<Longrightarrow> introKey (promote_persist w cid p fromRedis st) cid = Some (pr_initialIntroMicros p)"
  "\<not> fromRedis \<Longrightarrow> walletKey (promote_persist w cid p fromRedis st) cid = Some (pr_initialWalletMicros p)"
  by (simp_all add: promote_persist_def Let_def)

text \<open>
  A call is only promoted with the money to pay for it: a fresh promotion finds at least one
  second of the creator's current price and the entry minimum, stores exactly that balance under
  the call's keys, and freezes the creator's price and a duration limit within the platform cap.
\<close>

theorem promotion_requires_funds:
  assumes "promoteBootstrappingSession w opts cid s st = (Inr p, st', evs)"
    and "\<not> preserves_balances opts s"
  shows "max (pricePerSecondMicros (pr_session p)) (coinsWholeToMicros (MIN_COINS_TO_CALL (w_cfg w)))
           \<le> pr_spendableMicros p \<and>
    sessions st' cid = Some (Typed (pr_session p)) \<and>
    readLiveUserSpendBalancesMicros cid st' =
      (max 0 (pr_initialIntroMicros p), max 0 (pr_initialWalletMicros p),
       max 0 (pr_initialIntroMicros p) + max 0 (pr_initialWalletMicros p)) \<and>
    (\<exists>u c. promote_participants s st = Inr (u, c) \<and>
       pricePerSecondMicros (pr_session p) = pricePerMinuteToUserMicrosPerSecond (c_price c)) \<and>
    effectiveDurationLimitSeconds (pr_session p) \<le> MAX_CALL_DURATION_SECONDS (w_cfg w)"
proof -
  obtain u c promo intro wallet fromRedis snap where *:
    "promote_participants s st = Inr (u, c)"
    "snap = buildSnapshotFromPricePerMinute (CREATOR_SHARE_PERCENTAGE (w_cfg w)) (c_price c)"
    "max (snap_pricePerSecondMicros snap) (coinsWholeToMicros (MIN_COINS_TO_CALL (w_cfg w))) \<le> intro + wallet"
    "pr_session p = promote_session w opts cid s u c snap promo intro wallet"
    "pr_spendableMicros p = intro + wallet"
    "pr_initialIntroMicros p = intro" "pr_initialWalletMicros p = wallet"
    "st' = promote_persist w cid p fromRedis
       (st\<lparr>prices := warmSnapshotCache (w_cache_ok w) (c_id c) snap (prices st)\<rparr>)"
    "promote_balances (w_env w) opts cid s u (snap_pricePerSecondMicros snap)
       (st\<lparr>prices := warmSnapshotCache (w_cache_ok w) (c_id c) snap (prices st)\<rparr>) =
         (promo, intro, wallet, fromRedis)"
    by (rule promote_ok_cases [OF assms(1)]) (use assms(2) in blast)
  have r: "\<not> fromRedis" using *(9) assms(2) by (auto simp: promote_balances_def Let_def split: prod.splits)
  have store: "sessions st' cid = Some (Typed (pr_session p))"
    "introKey st' cid = Some intro" "walletKey st' cid = Some wallet"
    using promote_persist_store r *(6,7,8) by simp_all
  have price: "snap_pricePerSecondMicros snap = pricePerMinuteToUserMicrosPerSecond (c_price c)"
    using *(2) by (simp add: buildSnapshotFromPricePerMinute_def Let_def)
  show ?thesis
    using *(1,3-7) store price promote_duration_limit_le
    by (auto simp: readLiveUserSpendBalancesMicros_def parse_micros_def)
qed

theorem promotion_requires_funds_witness:
  "case promoteBootstrappingSession demo_worker
          \<lparr> po_terminateOnFailure = True, po_preserveStartTime = False, po_preserveRuntimeBalances = False \<rparr>
          ''c1'' demo_seed demo_state of
     (Inr p, st', evs) \<Rightarrow> 450000000 \<le> pr_spendableMicros p \<and> sessions st' ''c1'' = Some (Typed (pr_session p))
   | (Inl _, _) \<Rightarrow> False"
proof -
  let ?o = "\<lparr> po_terminateOnFailure = True, po_preserveStartTime = False, po_preserveRuntimeBalances = False \<rparr>"
  have ok: "\<not> isl (fst (promoteBootstrappingSession demo_worker ?o ''c1'' demo_seed demo_state))"
    by (simp add: demo_promotion_defs)
  then obtain p st' evs where r: "promoteBootstrappingSession demo_worker ?o ''c1'' demo_seed demo_state = (Inr p, st', evs)"
    by (cases "promoteBootstrappingSession demo_worker ?o ''c1'' demo_seed demo_state")
      (auto simp: isl_def split: sum.splits, metis obj_sumE)
  have "\<not> preserves_balances ?o demo_seed" by (simp add: preserves_balances_def)
  with promotion_requires_funds [OF r] show ?thesis
    unfolding r by (simp add: demo_worker_def default_pricing_def coinsWholeToMicros_def COIN_MICROS_def)
qed

text \<open>
  Repairing the price of a session that has already been charged rewinds its billing cursor:
  the promoted session keeps the micro-coins deducted so far and starts again at the call's start
  time, so the next ticks charge the elapsed time a second time.
\<close>

theorem repair_rewinds_cursor:
  assumes "promoteBootstrappingSession w repair_options cid s st = (Inr p, st', evs)" and "startTime s \<noteq> 0"
  shows "lastProcessedAt (pr_session p) = startTime s \<and>
    totalDeductedMicros (pr_session p) = totalDeductedMicros s \<and>
    sessions st' cid = Some (Typed (pr_session p))"
proof -
  have "po_preserveStartTime repair_options" by (simp add: repair_options_def)
  then show ?thesis
    by (rule_tac promote_ok_cases [OF assms(1)]) (use assms(2) promote_persist_store(1) in simp)
qed

theorem repair_rewinds_cursor_witness:
  "let s = demo_seed\<lparr>lastProcessedAt := 1060000, totalDeductedMicros := 1800000000\<rparr>
   in case promoteBootstrappingSession demo_worker repair_options ''c1'' s demo_state of
     (Inr p, st', evs) \<Rightarrow> lastProcessedAt (pr_session p) = 1000000 \<and> totalDeductedMicros (pr_session p) = 1800000000
   | (Inl _, _) \<Rightarrow> False"
proof -
  let ?s = "demo_seed\<lparr>lastProcessedAt := 1060000, totalDeductedMicros := 1800000000\<rparr>"
  have ok: "\<not> isl (fst (promoteBootstrappingSession demo_worker repair_options ''c1'' ?s demo_state))"
    by (simp add: demo_promotion_defs)
  then obtain p st' evs where r: "promoteBootstrappingSession demo_worker repair_options ''c1'' ?s demo_state = (Inr p, st', evs)"
    by (cases "promoteBootstrappingSession demo_worker repair_options ''c1'' ?s demo_state")
      (auto simp: isl_def split: sum.splits, metis obj_sumE)
  from repair_rewinds_cursor [OF r] show ?thesis
    unfolding Let_def r by (simp add: demo_seed_def demo_session_def)
qed

end
