(* ===== verification/BillingTick.thy ===== *)
theory BillingTick
  imports Bootstrap
begin

text \<open>
  One billing cycle of a call: \<open>_processBillingCycleInternal\<close>, \<open>processBillingTick\<close> and
  \<open>flushBillingToQuiescence\<close> of \<open>src/modules/billing/billing.service.ts\<close>, cut into the phases
  the function goes through. \<open>w_now\<close> is the time read after the terminal check, \<open>w_clock\<close> the
  later readings of the same cycle.
\<close>

section \<open>Results\<close>

datatype tick_result = TickOk | TickDeferred | StopNoSession | StopNeedsSettlement

datatype tick_error = SessionParseError | MonotonicityViolated | RedisFailure string

type_synonym outcome = "(tick_error + tick_result) \<times> billing_state \<times> billing_event list"

definition pendingCallEndKey :: "string \<Rightarrow> string" where
  "pendingCallEndKey cid = ''pending:call:ends:'' @ cid"

definition settledCallKey :: "string \<Rightarrow> string" where
  "settledCallKey cid = ''settled:call:'' @ cid"

section \<open>Loading\<close>

record loaded =
  l_session :: call_session
  l_intro :: micros
  l_wallet :: micros
  l_earnings :: micros
  l_needsMigration :: bool

definition checkpoint_session ::
  "worker \<Rightarrow> string \<Rightarrow> billing_state \<Rightarrow> (call_session \<times> micros \<times> micros) option \<times> pricing_state" where
  "checkpoint_session w cid st =
     (case checkpoints st cid of
        None \<Rightarrow> (None, prices st)
      | Some cp \<Rightarrow>
          buildSessionFromCheckpoint (w_cfg w) (readBillingProcessIntervalMs (w_env w)) (w_inst w)
            (w_cache_ok w) (prices st) (w_now w) cp cid)"

definition load_balances :: "string \<Rightarrow> billing_state \<Rightarrow> micros \<times> micros" where
  "load_balances cid st =
     (if introKey st cid \<noteq> None \<or> walletKey st cid \<noteq> None
      then (parse_micros (introKey st cid), parse_micros (walletKey st cid))
      else if coinsKey st cid \<noteq> None then (0, parse_micros (coinsKey st cid))
      else (0, 0))"

definition stored_schema_outdated :: "stored_session \<Rightarrow> bool" where
  "stored_schema_outdated raw =
     (case raw of Typed s \<Rightarrow> schemaVersion s < BILLING_SESSION_SCHEMA_VERSION | _ \<Rightarrow> True)"

definition merge_checkpoint :: "call_session \<Rightarrow> call_session \<Rightarrow> call_session" where
  "merge_checkpoint s r =
     normalizeV4SessionFields (s\<lparr>lastProcessedAt := lastProcessedAt r,
       totalDeductedMicros := totalDeductedMicros r, totalEarnedMicros := totalEarnedMicros r,
       version := max (version s) (version r)\<rparr>)"

definition load_tick_session ::
  "worker \<Rightarrow> string \<Rightarrow> billing_state \<Rightarrow> (tick_error + loaded option) \<times> pricing_state" where
  "load_tick_session w cid st =
     (case sessions st cid of
        None \<Rightarrow>
          if \<not> w_deltaCursorV3 w then (Inr None, prices st)
          else (case checkpoint_session w cid st of
                  (None, prices') \<Rightarrow> (Inr None, prices')
                | (Some (s, balance, earned), prices') \<Rightarrow>
                    (Inr (Some \<lparr> l_session = normalizeV4SessionFields s, l_intro = 0, l_wallet = balance,
                                 l_earnings = earned, l_needsMigration = False \<rparr>), prices'))
      | Some raw \<Rightarrow>
          (case migrateSession (w_cfg w) (w_now w) raw (earningsKey st cid) of
             None \<Rightarrow> (Inl SessionParseError, prices st)
           | Some (s, earned) \<Rightarrow>
               (let (i, wl) = load_balances cid st;
                    l = \<lparr> l_session = s, l_intro = i, l_wallet = wl, l_earnings = earned,
                          l_needsMigration = stored_schema_outdated raw \<rparr>
                in if w_deltaCursorV3 w \<and>
                      (introKey st cid = None \<or> walletKey st cid = None \<or> earningsKey st cid = None)
                   then (case checkpoint_session w cid st of
                           (None, prices') \<Rightarrow> (Inr (Some l), prices')
                         | (Some (r, balance, earned'), prices') \<Rightarrow>
                             (Inr (Some (l\<lparr>l_session := merge_checkpoint s r, l_intro := 0,
                                           l_wallet := balance, l_earnings := earned'\<rparr>)), prices'))
                   else (Inr (Some l), prices st))))"

definition shortCircuitIfTerminalBillingSession ::
  "string \<Rightarrow> BillingLifecycleState option \<Rightarrow> keyspace \<Rightarrow> tick_result option" where
  "shortCircuitIfTerminalBillingSession cid lifecycleOpt k =
     (if \<not> isNonTerminalLifecycle lifecycleOpt then Some StopNoSession
      else if k (settledCallKey cid) \<noteq> None \<and> k (settledCallKey cid) \<noteq> Some [] then Some StopNoSession
      else None)"

definition write_migrated_session :: "string \<Rightarrow> call_session \<Rightarrow> loaded \<Rightarrow> billing_state \<Rightarrow> billing_state" where
  "write_migrated_session cid s l st =
     (if l_needsMigration l
      then st\<lparr>sessions := (sessions st)(cid \<mapsto> Typed s),
              introKey := (introKey st)(cid \<mapsto> l_intro l),
              walletKey := (walletKey st)(cid \<mapsto> l_wallet l),
              earningsKey := (earningsKey st)(cid \<mapsto> l_earnings l),
              coinsKey := (coinsKey st)(cid := None)\<rparr>
      else st)"

section \<open>Price and drift\<close>

abbreviation session_rate :: "call_session \<Rightarrow> micros" where
  "session_rate s \<equiv> nvl (billingPricePerSecondMicros s) (pricePerSecondMicros s)"

text \<open>The session after a repair that was needed, or nothing when it still has no price.\<close>

definition ensure_tick_price ::
  "worker \<Rightarrow> string \<Rightarrow> call_session \<Rightarrow> billing_state
   \<Rightarrow> call_session option \<times> billing_state \<times> billing_event list" where
  "ensure_tick_price w cid s st =
     (if session_rate s \<le> 0
      then (case repairSessionPricingIfNeeded w cid s st of
              (_, s', st', evs) \<Rightarrow> (if session_rate s' \<le> 0 then None else Some s', st', evs))
      else (Some s, st, []))"

definition record_tick_drift :: "worker \<Rightarrow> call_session \<Rightarrow> billing_state \<Rightarrow> billing_state" where
  "record_tick_drift w s st =
     st\<lparr>pressure :=
       (if num0 (expectedNextTickAtMs s) \<noteq> 0 \<and> isLiveBillingLifecycle (lifecycleState s) \<and> w_runsWorkers w
        then snd (updateBackpressureStage (w_env w) (w_eventLoopLag w) (w_clock w)
               \<lparr> redisWriteMs = None, queueLagMs = None,
                 tickDriftMs = Some (max 0 (w_now w - num0 (expectedNextTickAtMs s))) \<rparr> (pressure st))
        else pressure st)\<rparr>"

definition tick_delta :: "worker \<Rightarrow> call_session \<Rightarrow> millis" where
  "tick_delta w s = min (max 0 (w_now w - lastProcessedAt s)) (readMaxBillingDeltaMs (w_env w))"

section \<open>Keepalive and pending end\<close>

definition snapshot_of :: "string \<Rightarrow> call_session \<Rightarrow> micros \<Rightarrow> micros \<Rightarrow> bool \<Rightarrow> millis \<Rightarrow> billing_snapshot" where
  "snapshot_of cid s balance earned promo ts =
     \<lparr> bs_callId = cid, bs_billingSequence = billingSequence s, bs_lifecycleState = lifecycleState s,
       bs_coins = microsToWholeCoinsFloor balance,
       bs_coinsExact = of_int balance / of_int COIN_MICROS,
       bs_earnings = of_int (js_round (of_int earned / of_int COIN_MICROS * 100)) / 100,
       bs_elapsedSeconds = elapsedSeconds s,
       bs_remainingSeconds = (if session_rate s > 0 then balance div session_rate s else 0),
       bs_durationLimit = effectiveDurationLimitSeconds s, bs_serverTimestamp = ts,
       bs_introPromoActive = promo, bs_userRate = pricePerSecondMicros s,
       bs_creatorRate = creatorEarningsPerSecondMicros s \<rparr>"

definition keepalive_due :: "worker \<Rightarrow> call_session \<Rightarrow> backpressure \<Rightarrow> bool" where
  "keepalive_due w s bp \<longleftrightarrow>
     lifecycleState s \<in> {Some ACTIVE, Some RECOVERING, Some STARTING} \<and>
     (let interval = max (getEmitIntervalForStage (w_env w) (getBillingEmitIntervalMs (w_env w)) bp)
                         (getBillingEmitKeepaliveMs (w_env w));
          lastEmit = num0 (case lastEmitAtMs s of None \<Rightarrow> lastSocketEmitAt s | Some t \<Rightarrow> Some t);
          emitStallMs = (if lastEmit > 0 then max 0 (w_clock w - lastEmit) else interval)
      in emitStallMs \<ge> interval)"

definition stamp_emit :: "millis \<Rightarrow> call_session \<Rightarrow> call_session" where
  "stamp_emit t s = s\<lparr>lastEmitAtMs := Some t, lastSocketEmitAt := Some t\<rparr>"

definition maybeEmitBillingKeepaliveIfDue ::
  "worker \<Rightarrow> string \<Rightarrow> call_session \<Rightarrow> micros \<Rightarrow> bool \<Rightarrow> micros \<Rightarrow> billing_state
   \<Rightarrow> call_session \<times> billing_state \<times> billing_event list" where
  "maybeEmitBillingKeepaliveIfDue w cid s balance promo earned st =
     (if \<not> keepalive_due w s (pressure st) then (s, st, [])
      else (let s' = stamp_emit (w_clock w) s
            in (s', persistCallSession cid s' st,
                [EmitUpdate (snapshot_of cid s' balance earned promo (w_clock w))])))"

definition consumePendingCallEndIfAny :: "string \<Rightarrow> billing_state \<Rightarrow> bool \<times> billing_state \<times> billing_event list" where
  "consumePendingCallEndIfAny cid st =
     (if kv st (pendingCallEndKey cid) = None \<or> kv st (pendingCallEndKey cid) = Some [] then (False, st, [])
      else (True, st\<lparr>kv := (kv st)(pendingCallEndKey cid := None)\<rparr>,
            [FinalizeCallEnd cid ''deferred_pending_end'']))"

section \<open>Charging\<close>

definition tick_transition ::
  "worker \<Rightarrow> string \<Rightarrow> BillingLifecycleState \<Rightarrow> string \<Rightarrow> call_session \<Rightarrow> billing_state
   \<Rightarrow> call_session \<times> billing_state" where
  "tick_transition w cid to reason s st =
     (case transitionBillingStateWithAudit (w_db_ok w) (w_clock w)
             \<lparr> tr_callId = cid, tr_from = lifecycle s, tr_to = to,
               tr_source = ''billing.processTick'', tr_reason = reason \<rparr> (audit st) of
        (r, audit') \<Rightarrow> (s\<lparr>lifecycleState := Some (tr_next r)\<rparr>, st\<lparr>audit := audit'\<rparr>))"

definition active_spend :: "bool \<Rightarrow> loaded \<Rightarrow> micros" where
  "active_spend promo l = (if promo then l_intro l else l_wallet l)"

definition potential_deduct :: "millis \<Rightarrow> micros \<Rightarrow> micros" where
  "potential_deduct deltaMs pps = deltaMs * pps div 1000"

definition time_covered :: "micros \<Rightarrow> micros \<Rightarrow> millis" where
  "time_covered deduct pps = deduct * 1000 div pps"

definition earn_for :: "millis \<Rightarrow> micros \<Rightarrow> micros" where
  "earn_for coveredMs ceps = coveredMs * ceps div 1000"

definition charge_balances :: "bool \<Rightarrow> micros \<Rightarrow> micros \<Rightarrow> loaded \<Rightarrow> loaded" where
  "charge_balances promo deduct earn l =
     l\<lparr>l_intro := (if promo then l_intro l - deduct else l_intro l),
       l_wallet := (if promo then l_wallet l else l_wallet l - deduct),
       l_earnings := l_earnings l + earn\<rparr>"

definition charge_session :: "bool \<Rightarrow> micros \<Rightarrow> millis \<Rightarrow> micros \<Rightarrow> millis \<Rightarrow> call_session \<Rightarrow> call_session" where
  "charge_session promo deduct covered earn now s =
     s\<lparr>totalIntroDeductedMicros :=
         (if promo then Some (nvl (totalIntroDeductedMicros s) 0 + deduct) else totalIntroDeductedMicros s),
       totalWalletDeductedMicros :=
         (if promo then totalWalletDeductedMicros s else Some (nvl (totalWalletDeductedMicros s) 0 + deduct)),
       lastProcessedAt := lastProcessedAt s + covered,
       totalDeductedMicros := totalDeductedMicros s + deduct,
       totalEarnedMicros := totalEarnedMicros s + earn,
       version := version s + 1,
       billingSequence := billingSequence s + 1,
       lastHealthyTickAt := Some now,
       lastSequenceAdvanceAt := Some now\<rparr>"

definition activate_session :: "worker \<Rightarrow> string \<Rightarrow> call_session \<Rightarrow> billing_state \<Rightarrow> call_session \<times> billing_state" where
  "activate_session w cid s st =
     (if lifecycleState s = Some STARTING \<or> lifecycleState s = Some RECOVERING
      then tick_transition w cid ACTIVE ''first_successful_tick'' s st
      else (s, st))"

definition set_elapsed :: "worker \<Rightarrow> micros \<Rightarrow> call_session \<Rightarrow> call_session" where
  "set_elapsed w pps s =
     s\<lparr>elapsedSeconds := (if pps > 0 then totalDeductedMicros s div pps else 0),
       expectedNextTickAtMs := Some (lastProcessedAt s + readBillingProcessIntervalMs (w_env w))\<rparr>"

definition duration_warning :: "worker \<Rightarrow> string \<Rightarrow> call_session \<Rightarrow> billing_event list" where
  "duration_warning w cid s =
     (let remaining = effectiveDurationLimitSeconds s - elapsedSeconds s
      in if remaining \<le> CALL_DURATION_WARNING_SECONDS (w_cfg w) \<and> remaining > 0
         then [DurationWarning cid (elapsedSeconds s) (effectiveDurationLimitSeconds s) remaining] else [])"

section \<open>Checkpoint, persistence and emission\<close>

definition checkpoint_wanted :: "worker \<Rightarrow> call_session \<Rightarrow> bool" where
  "checkpoint_wanted w s \<longleftrightarrow>
     (let cpInterval = getBillingCheckpointIntervalMs (w_env w);
          every = getBillingCheckpointEverySequences (w_env w);
          minDelta = getBillingCheckpointMinDeltaMicros (w_env w);
          due = (cpInterval > 0 \<and> w_clock w - num0 (lastCheckpointAtMs s) \<ge> cpInterval);
          dueBySequence = (every > 0 \<and> billingSequence s > 0 \<and> billingSequence s mod every = 0);
          prevDed = lastCheckpointDeductedMicros s;
          prevEarn = lastCheckpointEarnedMicros s
      in (due \<or> dueBySequence) \<and>
         (minDelta \<le> 0 \<or> (prevDed = None \<and> prevEarn = None) \<or>
          \<bar>totalDeductedMicros s - num0 prevDed\<bar> \<ge> minDelta \<or>
          \<bar>totalEarnedMicros s - num0 prevEarn\<bar> \<ge> minDelta))"

definition stamp_checkpoint :: "millis \<Rightarrow> call_session \<Rightarrow> call_session" where
  "stamp_checkpoint t s =
     s\<lparr>lastCheckpointAtMs := Some t, lastCheckpointDeductedMicros := Some (totalDeductedMicros s),
       lastCheckpointEarnedMicros := Some (totalEarnedMicros s)\<rparr>"

definition write_tick_checkpoint ::
  "worker \<Rightarrow> string \<Rightarrow> call_session \<Rightarrow> micros \<Rightarrow> billing_state \<Rightarrow> call_session \<times> billing_state" where
  "write_tick_checkpoint w cid s balance st =
     (if w_deltaCursorV3 w
      then (s, st\<lparr>checkpoints := (checkpoints st)(cid := w_advance w s balance (checkpoints st cid))\<rparr>)
      else if checkpoint_wanted w s
      then (stamp_checkpoint (w_clock w) s,
            st\<lparr>checkpoints := (checkpoints st)(cid :=
                 upsertBillingCheckpoint (w_db_ok w) s (checkpoints st cid))\<rparr>)
      else (s, st))"

definition persist_tick :: "string \<Rightarrow> call_session \<Rightarrow> loaded \<Rightarrow> billing_state \<Rightarrow> billing_state" where
  "persist_tick cid s l st =
     releaseActiveCallSlotsIfTerminal s
       (st\<lparr>introKey := (introKey st)(cid \<mapsto> l_intro l),
           walletKey := (walletKey st)(cid \<mapsto> l_wallet l),
           earningsKey := (earningsKey st)(cid \<mapsto> l_earnings l),
           sessions := (sessions st)(cid \<mapsto> Typed s)\<rparr>)"

definition record_write_latency :: "worker \<Rightarrow> call_session \<Rightarrow> billing_state \<Rightarrow> billing_state" where
  "record_write_latency w s st =
     st\<lparr>pressure :=
       (if isLiveBillingLifecycle (lifecycleState s) \<and> w_runsWorkers w
        then snd (updateBackpressureStage (w_env w) (w_eventLoopLag w) (w_clock w)
               \<lparr> redisWriteMs = Some (w_redisWriteMs w), queueLagMs = None, tickDriftMs = None \<rparr> (pressure st))
        else pressure st)\<rparr>"

definition should_emit_update :: "worker \<Rightarrow> micros \<Rightarrow> micros \<Rightarrow> call_session \<Rightarrow> backpressure \<Rightarrow> bool" where
  "should_emit_update w pps activeRemain s bp \<longleftrightarrow>
     (let interval = getEmitIntervalForStage (w_env w) (getBillingEmitIntervalMs (w_env w)) bp;
          isEmitDue = (lastEmitAtMs s = None \<or> w_clock w - num0 (lastEmitAtMs s) \<ge> interval);
          isLowBalance = (activeRemain < pps * 3)
      in (isEmitDue \<or> isLowBalance) \<and>
         w_redisWriteMs w \<le> getBillingRedisBackpressureMs (w_env w) \<and> getBillingBackpressureStage bp < 3)"

definition emit_tick_update ::
  "worker \<Rightarrow> string \<Rightarrow> micros \<Rightarrow> bool \<Rightarrow> call_session \<Rightarrow> loaded \<Rightarrow> billing_state
   \<Rightarrow> call_session \<times> billing_state \<times> billing_event list" where
  "emit_tick_update w cid pps promo s l st =
     (let balance = l_intro l + l_wallet l
      in if should_emit_update w pps (active_spend promo l) s (pressure st)
         then (let s' = stamp_emit (w_clock w) s
               in (s', persistCallSession cid s' st,
                   [EmitUpdate (snapshot_of cid s' balance (l_earnings l) promo (w_clock w))]))
         else maybeEmitBillingKeepaliveIfDue w cid s balance promo (l_earnings l) st)"

definition exhausted_reason :: "bool \<Rightarrow> string" where
  "exhausted_reason promo = (if promo then ''intro_promo_exhausted'' else ''insufficient_coins'')"

text \<open>After a charge: emit, and stop the call when less than a second is left.\<close>

definition finish_tick ::
  "worker \<Rightarrow> string \<Rightarrow> micros \<Rightarrow> bool \<Rightarrow> call_session \<Rightarrow> loaded \<Rightarrow> billing_state \<Rightarrow> outcome" where
  "finish_tick w cid pps promo s l st =
     (case emit_tick_update w cid pps promo s l (record_write_latency w s (persist_tick cid s l st)) of
        (s1, st1, evs) \<Rightarrow>
          if active_spend promo l < pps
          then (Inr StopNeedsSettlement,
                snd (tick_transition w cid ENDING ''insufficient_balance_post_deduct'' s1 st1),
                [MirrorDurable cid, PeriodicPersist cid] @ evs @
                [ForceTerminate cid (exhausted_reason promo) ''user_out_of_coins''])
          else (Inr TickOk, st1, [MirrorDurable cid, PeriodicPersist cid] @ evs))"

text \<open>The charge is computed; the duration limit is checked before anything is written.\<close>

definition settle_charge ::
  "worker \<Rightarrow> string \<Rightarrow> micros \<Rightarrow> bool \<Rightarrow> call_session \<Rightarrow> loaded \<Rightarrow> billing_state \<Rightarrow> outcome" where
  "settle_charge w cid pps promo s l st =
     (case activate_session w cid s st of
        (s1, st1) \<Rightarrow>
          (let s2 = set_elapsed w pps s1;
               warn = duration_warning w cid s2
           in if elapsedSeconds s2 \<ge> effectiveDurationLimitSeconds s2
              then (Inr StopNeedsSettlement,
                    snd (tick_transition w cid ENDING ''duration_limit_reached'' s2 st1),
                    warn @ [ForceTerminate cid ''duration_limit_reached'' ''duration_limit_reached''])
              else (case write_tick_checkpoint w cid s2 (l_intro l + l_wallet l) st1 of
                      (s3, st3) \<Rightarrow>
                        (case w_persist_error w of
                           Some e \<Rightarrow> (Inl (RedisFailure e), st3, warn @ [BillingError cid ''REDIS_ERROR''])
                         | None \<Rightarrow>
                             (case finish_tick w cid pps promo s3 l st3 of
                                (r, st4, evs) \<Rightarrow> (r, st4, warn @ evs))))))"

definition charge_tick ::
  "worker \<Rightarrow> string \<Rightarrow> micros \<Rightarrow> micros \<Rightarrow> bool \<Rightarrow> micros \<times> micros \<Rightarrow> call_session \<Rightarrow> loaded
   \<Rightarrow> billing_state \<Rightarrow> outcome" where
  "charge_tick w cid pps ceps promo previous s l st =
     (let activeSpend = active_spend promo l;
          deduct = min (potential_deduct (tick_delta w s) pps) activeSpend;
          covered = time_covered deduct pps;
          earn = earn_for covered ceps;
          s' = charge_session promo deduct covered earn (w_now w) s
      in if deduct \<le> 0
         then (if activeSpend < pps
               then (Inr StopNeedsSettlement,
                     snd (tick_transition w cid ENDING ''insufficient_balance_pre_deduct'' s st),
                     [FlushPersist cid ''insufficient_balance'',
                      ForceTerminate cid (exhausted_reason promo) ''user_out_of_coins''])
               else (case maybeEmitBillingKeepaliveIfDue w cid s (l_intro l + l_wallet l) promo (l_earnings l) st of
                       (_, st', evs) \<Rightarrow> (Inr TickOk, st', evs)))
         else if totalDeductedMicros s' < fst previous \<or> totalEarnedMicros s' < snd previous
         then (Inl MonotonicityViolated, st, [])
         else settle_charge w cid pps promo s' (charge_balances promo deduct earn l) st)"

section \<open>The cycle\<close>

definition bill_loaded_session ::
  "worker \<Rightarrow> string \<Rightarrow> call_session \<Rightarrow> loaded \<Rightarrow> billing_state \<Rightarrow> outcome" where
  "bill_loaded_session w cid s l st =
     (let promo = (introPromoActive s = Some True);
          ceps = creatorEarningsPerSecondMicros s;
          previous = (totalDeductedMicros s, totalEarnedMicros s)
      in case ensure_tick_price w cid s st of
           (None, st1, evs) \<Rightarrow> (Inr TickDeferred, st1, evs)
         | (Some s1, st1, evs) \<Rightarrow>
             (let st2 = record_tick_drift w s1 st1
              in if tick_delta w s1 < MIN_BILLING_DELTA_MS
                 then (case maybeEmitBillingKeepaliveIfDue w cid s1 (l_intro l + l_wallet l) promo (l_earnings l) st2 of
                         (_, st3, evs') \<Rightarrow> (Inr TickOk, st3, evs @ evs'))
                 else (case consumePendingCallEndIfAny cid st2 of
                         (True, st3, evs') \<Rightarrow> (Inr StopNeedsSettlement, st3, evs @ evs')
                       | (False, st3, _) \<Rightarrow>
                           (case charge_tick w cid (session_rate s1) ceps promo previous s1 l st3 of
                              (r, st4, evs') \<Rightarrow> (r, st4, evs @ evs')))))"

definition tick_body :: "worker \<Rightarrow> string \<Rightarrow> billing_state \<Rightarrow> outcome" where
  "tick_body w cid st =
     (case load_tick_session w cid st of
        (Inl e, prices') \<Rightarrow> (Inl e, st\<lparr>prices := prices'\<rparr>, [])
      | (Inr None, prices') \<Rightarrow> (Inr StopNoSession, st\<lparr>prices := prices'\<rparr>, [])
      | (Inr (Some l), prices') \<Rightarrow>
          (let s = normalizeV4SessionFields (l_session l); st1 = st\<lparr>prices := prices'\<rparr>
           in case shortCircuitIfTerminalBillingSession cid (lifecycleState s) (kv st1) of
                Some r \<Rightarrow> (Inr r, st1, [CancelCycleJob cid])
              | None \<Rightarrow>
                  (case ensureRuntimeOwnership (w_env w) (w_inst w) (w_shuttingDown w) (w_interference w)
                          s cid (w_now w) (kv st1) of
                     (False, _, k) \<Rightarrow> (Inr TickDeferred, st1\<lparr>kv := k\<rparr>, [])
                   | (True, s', k) \<Rightarrow>
                       bill_loaded_session w cid s' l (write_migrated_session cid s' l (st1\<lparr>kv := k\<rparr>)))))"

definition processBillingCycleInternal :: "worker \<Rightarrow> string \<Rightarrow> billing_state \<Rightarrow> outcome" where
  "processBillingCycleInternal w cid st =
     (case acquireBillingCycleLock cid (w_token w) (kv st) of
        (False, _) \<Rightarrow> (Inr TickDeferred, st, [])
      | (True, k) \<Rightarrow>
          (case tick_body w cid (st\<lparr>kv := k\<rparr>) of
             (r, st', evs) \<Rightarrow>
               (r, st'\<lparr>kv := releaseBillingCycleLock (billingCycleLockKey cid) (w_token w) (kv st')\<rparr>, evs)))"

section \<open>Retries and flush\<close>

definition tick_retry_options :: retry_options where
  "tick_retry_options = \<lparr> maxRetries = 3, initialDelay = 1000, maxDelay = 10000, backoffMultiplier = 2 \<rparr>"

definition tick_retryable :: "tick_error \<Rightarrow> bool" where
  "tick_retryable e =
     (case e of
        RedisFailure msg \<Rightarrow>
          list_ex (js_includes msg) [''ECONNRESET'', ''ETIMEDOUT'', ''ENOTFOUND'', ''ECONNREFUSED'']
      | _ \<Rightarrow> False)"

text \<open>\<open>ws\<close> gives the worker at each attempt: its clock and the answers of the stores differ.\<close>

definition processBillingTick ::
  "(nat \<Rightarrow> worker) \<Rightarrow> string \<Rightarrow> billing_state \<Rightarrow> tick_result \<times> billing_state \<times> billing_event list" where
  "processBillingTick ws cid st =
     (case retryWithBackoff tick_retry_options tick_retryable
             (\<lambda>attempt (st, evs). case processBillingCycleInternal (ws attempt) cid st of
                                    (r, st', evs') \<Rightarrow> (r, (st', evs @ evs')))
             (st, []) of
        (Inr r, (st', evs), _) \<Rightarrow> (r, st', evs)
      | (Inl e, (st', evs), _) \<Rightarrow> (StopNeedsSettlement, st', evs @ [DeadLetter cid]))"

definition getBillingWallLagMs :: "millis \<Rightarrow> string \<Rightarrow> billing_state \<Rightarrow> millis option" where
  "getBillingWallLagMs now cid st =
     (case sessions st cid of Some (Typed s) \<Rightarrow> Some (max 0 (now - lastProcessedAt s)) | _ \<Rightarrow> None)"

definition MAX_SETTLEMENT_FLUSH_ITERATIONS :: nat where
  "MAX_SETTLEMENT_FLUSH_ITERATIONS = 50"

text \<open>
  \<open>flush_loop left\<close> is the loop with \<open>left\<close> iterations still allowed; \<open>t n\<close> is the time and
  \<open>ws n\<close> the worker of the \<open>n\<close>-th iteration.
\<close>

fun flush_loop ::
  "(nat \<Rightarrow> millis) \<Rightarrow> (nat \<Rightarrow> nat \<Rightarrow> worker) \<Rightarrow> string \<Rightarrow> nat \<Rightarrow> nat \<Rightarrow> millis \<Rightarrow> billing_state
   \<Rightarrow> nat \<times> millis \<times> billing_state \<times> billing_event list" where
  "flush_loop t ws cid 0 n residual st = (n, residual, st, [])"
| "flush_loop t ws cid (Suc left) n residual st =
     (case getBillingWallLagMs (t n) cid st of
        None \<Rightarrow> (n, 0, st, [])
      | Some lagBefore \<Rightarrow>
          if lagBefore < MIN_BILLING_DELTA_MS then (n, lagBefore, st, [])
          else (case processBillingTick (ws n) cid st of
                  (r, st', evs) \<Rightarrow>
                    (let lagAfter = num0 (getBillingWallLagMs (t (Suc n)) cid st')
                     in if r = StopNoSession \<or> r = StopNeedsSettlement \<or> lagAfter < MIN_BILLING_DELTA_MS
                        then (Suc n, lagAfter, st', evs)
                        else (case flush_loop t ws cid left (Suc n) lagAfter st' of
                                (n', residual', st'', evs') \<Rightarrow> (n', residual', st'', evs @ evs')))))"

definition finalFlushMarkerKey :: "string \<Rightarrow> string" where
  "finalFlushMarkerKey cid = ''billing:final_flush:'' @ cid"

definition flushBillingToQuiescence ::
  "(nat \<Rightarrow> millis) \<Rightarrow> (nat \<Rightarrow> nat \<Rightarrow> worker) \<Rightarrow> string \<Rightarrow> billing_state
   \<Rightarrow> (nat \<times> millis) \<times> billing_state \<times> billing_event list" where
  "flushBillingToQuiescence t ws cid st =
     (case flush_loop t ws cid MAX_SETTLEMENT_FLUSH_ITERATIONS 0 0 st of
        (n, residual, st', evs) \<Rightarrow>
          ((n, residual),
           st'\<lparr>kv := (kv st')(finalFlushMarkerKey cid \<mapsto> show_nat n @ '','' @ show_int residual)\<rparr>, evs))"

end
