(* ===== verification/DurableSession.thy ===== *)
theory DurableSession
  imports Ownership
begin

text \<open>
  The durable copy of a billing session in Mongo and its incremental ledger:
  \<open>src/modules/billing/call-session.service.ts\<close>, \<open>billing-persist.service.ts\<close> and
  \<open>sumLedgerForCall\<close> of \<open>billing-ledger.model.ts\<close>.

  Every write is one conditional update of a document, \<open>find_and_update\<close>, which is atomic in
  Mongo: a filter over the current document, and what it changes. The state holds the documents,
  the settlement part of the call documents, the ledger rows in the order they were created, the
  key space and the two in-memory maps of the process. Instance id, clock and environment are
  arguments.
\<close>

section \<open>State\<close>

datatype durable_status =
    D_active | D_reconnecting | D_ending | D_settling | D_settled | D_failed_settlement

record durable_doc =
  dd_state :: durable_status
  dd_finalized :: bool
  dd_userDebitedMicros :: micros
  dd_creatorCreditedMicros :: micros
  dd_accumulatedDurationSec :: int
  dd_billingSequence :: int
  dd_lastPersistedTick :: int
  dd_settlementVersion :: int
  dd_fencingToken :: int
  dd_reconnectGeneration :: int
  dd_leaseOwnerId :: "string option"
  dd_leaseExpiresAt :: "millis option"
  dd_finalizationOwnerId :: "string option"
  dd_finalizationStartedAt :: "millis option"
  dd_finalizationReason :: "string option"
  dd_recoveryAttempts :: int
  dd_recoveredBy :: "string option"
  dd_endedAt :: "millis option"
  dd_finalizedAt :: "millis option"
  dd_updatedAt :: millis

record ledger_row =
  lr_tickNumber :: int
  lr_userDebitMicros :: micros
  lr_creatorCreditMicros :: micros
  lr_billedDurationMs :: millis
  lr_flushReason :: string
  lr_sourceInstanceId :: string

record call_settlement =
  cs_status :: string
  cs_version :: int
  cs_owner :: string
  cs_source :: string
  cs_reason :: string
  cs_updatedAt :: "millis option"
  cs_ownerToken :: "string option"
  cs_isSettled :: bool

record durable_store =
  docs :: "string \<Rightarrow> durable_doc option"
  callSettlement :: "string \<Rightarrow> call_settlement option"
  ledger :: "string \<Rightarrow> ledger_row list"
  redis :: keyspace
  lastMirrorAt :: "string \<Rightarrow> millis option"
  lastPersistAt :: "string \<Rightarrow> millis option"

definition find_and_update ::
  "millis \<Rightarrow> string \<Rightarrow> (durable_doc \<Rightarrow> bool) \<Rightarrow> (durable_doc \<Rightarrow> durable_doc) \<Rightarrow> durable_store
   \<Rightarrow> durable_doc option \<times> durable_store" where
  "find_and_update now cid flt upd st =
     (case docs st cid of
        None \<Rightarrow> (None, st)
      | Some d \<Rightarrow>
          if flt d then (let d' = (upd d)\<lparr>dd_updatedAt := now\<rparr> in (Some d', st\<lparr>docs := (docs st)(cid \<mapsto> d')\<rparr>))
          else (None, st))"

section \<open>Settlement claim\<close>

definition mapSettlementReasonToFinalization :: "string \<Rightarrow> string \<Rightarrow> string" where
  "mapSettlementReasonToFinalization reason source =
     (if js_includes source ''watchdog'' \<or> js_includes source ''reconciliation'' then ''watchdog_recovery''
      else if reason = ''insufficient_coins'' then ''insufficient_balance''
      else if reason = ''disconnect'' then ''disconnect_timeout''
      else if reason = ''timeout'' then ''disconnect_timeout''
      else if reason = ''force_end'' then ''force_terminated''
      else ''normal_end'')"

definition isDurableSettlingStale :: "env \<Rightarrow> millis \<Rightarrow> durable_doc \<Rightarrow> bool" where
  "isDurableSettlingStale env nowMs d =
     (let staleThreshold = nowMs - BILLING_MAX_SETTLING_MS env
      in case dd_finalizationStartedAt d of
           Some t \<Rightarrow> t < staleThreshold
         | None \<Rightarrow> dd_updatedAt d < staleThreshold)"

datatype claim_lost_detail = SettlingActive | SettlingStaleRace | StateBlocked

definition resolveClaimLostDetail :: "env \<Rightarrow> millis \<Rightarrow> durable_doc option \<Rightarrow> claim_lost_detail" where
  "resolveClaimLostDetail env now existing =
     (case existing of
        None \<Rightarrow> StateBlocked
      | Some d \<Rightarrow>
          if dd_state d = D_settling
          then (if isDurableSettlingStale env now d then SettlingStaleRace else SettlingActive)
          else StateBlocked)"

definition getDurableClaimLostDetail :: "env \<Rightarrow> millis \<Rightarrow> string \<Rightarrow> durable_store \<Rightarrow> claim_lost_detail option" where
  "getDurableClaimLostDetail env now cid st =
     (if \<not> isDurableCallSessionEnabled env then None
      else (case docs st cid of
              None \<Rightarrow> None
            | Some d \<Rightarrow>
                if dd_finalized d \<or> dd_state d = D_settled then None
                else Some (resolveClaimLostDetail env now (Some d))))"

definition mirrorCallSettlementSettling ::
  "millis \<Rightarrow> string \<Rightarrow> string \<Rightarrow> string \<Rightarrow> string \<Rightarrow> int \<Rightarrow> durable_store \<Rightarrow> durable_store" where
  "mirrorCallSettlementSettling now cid source reason owner v st =
     (case callSettlement st cid of
        None \<Rightarrow> st
      | Some c \<Rightarrow>
          if cs_status c = ''settled'' then st
          else st\<lparr>callSettlement := (callSettlement st)(cid \<mapsto>
                 c\<lparr>cs_status := ''settling'', cs_source := source, cs_reason := reason, cs_version := v,
                   cs_updatedAt := Some now, cs_owner := owner\<rparr>)\<rparr>)"

definition settlementClaimKey :: "string \<Rightarrow> string" where
  "settlementClaimKey cid = ''settlement:claim:'' @ cid"

datatype claim_result = ClaimOk int | AlreadyFinalized | ClaimLost claim_lost_detail

definition claim_update :: "string \<Rightarrow> string \<Rightarrow> millis \<Rightarrow> durable_doc \<Rightarrow> durable_doc" where
  "claim_update reason owner now d =
     d\<lparr>dd_finalizationReason := Some reason, dd_finalizationOwnerId := Some owner,
       dd_finalizationStartedAt := Some now, dd_settlementVersion := dd_settlementVersion d + 1\<rparr>"

definition claimDurableCallSessionForSettlement ::
  "env \<Rightarrow> string \<Rightarrow> millis \<Rightarrow> string \<Rightarrow> string \<Rightarrow> string \<Rightarrow> durable_store \<Rightarrow> claim_result \<times> durable_store" where
  "claimDurableCallSessionForSettlement env inst now cid reason source st =
     (if \<not> isDurableCallSessionEnabled env then (ClaimOk 1, st)
      else (let fr = mapSettlementReasonToFinalization reason source
            in case find_and_update now cid
                      (\<lambda>d. \<not> dd_finalized d \<and> dd_state d \<in> {D_active, D_reconnecting, D_ending})
                      (\<lambda>d. (claim_update fr inst now d)\<lparr>dd_state := D_settling\<rparr>) st of
                 (Some d, st') \<Rightarrow>
                   (ClaimOk (dd_settlementVersion d), mirrorCallSettlementSettling now cid source reason inst (dd_settlementVersion d) st')
               | (None, _) \<Rightarrow>
                   (case docs st cid of
                      None \<Rightarrow> (ClaimLost StateBlocked, st)
                    | Some e \<Rightarrow>
                        if dd_finalized e \<or> dd_state e = D_settled then (AlreadyFinalized, st)
                        else if dd_state e = D_settling
                        then (case find_and_update now cid
                                     (\<lambda>d. \<not> dd_finalized d \<and> dd_state d = D_settling \<and> isDurableSettlingStale env now d)
                                     (claim_update fr inst now) st of
                                (Some d, st') \<Rightarrow>
                                  (ClaimOk (dd_settlementVersion d),
                                   mirrorCallSettlementSettling now cid source reason inst (dd_settlementVersion d)
                                     (st'\<lparr>redis := (redis st')(settlementClaimKey cid := None)\<rparr>))
                              | (None, _) \<Rightarrow> (ClaimLost (resolveClaimLostDetail env now (Some e)), st))
                        else (ClaimLost (resolveClaimLostDetail env now (Some e)), st))))"

section \<open>Creation and state changes\<close>

definition new_durable_doc :: "env \<Rightarrow> string \<Rightarrow> millis \<Rightarrow> durable_doc" where
  "new_durable_doc env inst now =
     \<lparr> dd_state = D_active, dd_finalized = False, dd_userDebitedMicros = 0, dd_creatorCreditedMicros = 0,
       dd_accumulatedDurationSec = 0, dd_billingSequence = 0, dd_lastPersistedTick = 0,
       dd_settlementVersion = 0, dd_fencingToken = 1, dd_reconnectGeneration = 0,
       dd_leaseOwnerId = (if isBillingOwnershipV2Enabled env then Some inst else None),
       dd_leaseExpiresAt = (if isBillingOwnershipV2Enabled env then Some (now + CALL_SESSION_LEASE_TTL_MS env) else None),
       dd_finalizationOwnerId = None, dd_finalizationStartedAt = None, dd_finalizationReason = None,
       dd_recoveryAttempts = 0, dd_recoveredBy = None, dd_endedAt = None, dd_finalizedAt = None,
       dd_updatedAt = now \<rparr>"

definition createDurableCallSessionAtStart ::
  "env \<Rightarrow> string \<Rightarrow> millis \<Rightarrow> string \<Rightarrow> durable_store \<Rightarrow> durable_doc option \<times> durable_store" where
  "createDurableCallSessionAtStart env inst now cid st =
     (if \<not> isDurableCallSessionEnabled env then (None, st)
      else (case docs st cid of
              Some d \<Rightarrow> (Some d, st)
            | None \<Rightarrow> (let d = new_durable_doc env inst now in (Some d, st\<lparr>docs := (docs st)(cid \<mapsto> d)\<rparr>))))"

definition getDurableCallSession :: "env \<Rightarrow> string \<Rightarrow> durable_store \<Rightarrow> durable_doc option" where
  "getDurableCallSession env cid st = (if isDurableCallSessionEnabled env then docs st cid else None)"

definition isDurableCallSessionFinalized :: "env \<Rightarrow> string \<Rightarrow> durable_store \<Rightarrow> bool" where
  "isDurableCallSessionFinalized env cid st =
     (isDurableCallSessionEnabled env \<and>
      (case docs st cid of None \<Rightarrow> False | Some d \<Rightarrow> dd_finalized d \<or> dd_state d = D_settled))"

definition markDurableCallSessionEnding ::
  "env \<Rightarrow> millis \<Rightarrow> string \<Rightarrow> millis option \<Rightarrow> durable_store \<Rightarrow> bool \<times> durable_store" where
  "markDurableCallSessionEnding env now cid endedAt st =
     (if \<not> isDurableCallSessionEnabled env then (False, st)
      else (case find_and_update now cid
                   (\<lambda>d. \<not> dd_finalized d \<and> dd_state d \<in> {D_active, D_reconnecting})
                   (\<lambda>d. d\<lparr>dd_state := D_ending, dd_endedAt := Some (nvl endedAt now)\<rparr>) st of
              (r, st') \<Rightarrow> (r \<noteq> None, st')))"

definition markDurableCallSessionSettled :: "env \<Rightarrow> millis \<Rightarrow> string \<Rightarrow> int \<Rightarrow> durable_store \<Rightarrow> durable_store" where
  "markDurableCallSessionSettled env now cid v st =
     (if \<not> isDurableCallSessionEnabled env then st
      else snd (find_and_update now cid (\<lambda>d. \<not> dd_finalized d)
                  (\<lambda>d. d\<lparr>dd_state := D_settled, dd_finalized := True, dd_finalizedAt := Some now,
                         dd_settlementVersion := v\<rparr>) st))"

definition markDurableCallSessionFailedSettlement :: "env \<Rightarrow> millis \<Rightarrow> string \<Rightarrow> durable_store \<Rightarrow> durable_store" where
  "markDurableCallSessionFailedSettlement env now cid st =
     (if \<not> isDurableCallSessionEnabled env then st
      else snd (find_and_update now cid (\<lambda>d. \<not> dd_finalized d) (\<lambda>d. d\<lparr>dd_state := D_failed_settlement\<rparr>) st))"

definition resetDurableCallSessionForSettlementRetry ::
  "env \<Rightarrow> millis \<Rightarrow> string \<Rightarrow> durable_store \<Rightarrow> bool \<times> durable_store" where
  "resetDurableCallSessionForSettlementRetry env now cid st =
     (if \<not> isDurableCallSessionEnabled env then (False, st)
      else (case find_and_update now cid (\<lambda>d. \<not> dd_finalized d \<and> dd_state d = D_failed_settlement)
                   (\<lambda>d. d\<lparr>dd_state := D_ending, dd_finalizationOwnerId := None, dd_finalizationStartedAt := None,
                          dd_settlementVersion := dd_settlementVersion d + 1\<rparr>) st of
              (r, st') \<Rightarrow> (r \<noteq> None, st')))"

definition bumpReconnectGeneration :: "env \<Rightarrow> millis \<Rightarrow> string \<Rightarrow> durable_store \<Rightarrow> int option \<times> durable_store" where
  "bumpReconnectGeneration env now cid st =
     (if \<not> isDurableCallSessionEnabled env then (None, st)
      else (case find_and_update now cid (\<lambda>d. \<not> dd_finalized d)
                   (\<lambda>d. d\<lparr>dd_reconnectGeneration := dd_reconnectGeneration d + 1,
                          dd_fencingToken := (if isBillingOwnershipV2Enabled env then dd_fencingToken d + 1 else dd_fencingToken d),
                          dd_state := D_reconnecting\<rparr>) st of
              (r, st') \<Rightarrow> (map_option dd_reconnectGeneration r, st')))"

definition recordRecoveryAttempt :: "env \<Rightarrow> millis \<Rightarrow> string \<Rightarrow> string \<Rightarrow> durable_store \<Rightarrow> durable_store" where
  "recordRecoveryAttempt env now cid by_whom st =
     (if \<not> isDurableCallSessionEnabled env then st
      else snd (find_and_update now cid (\<lambda>d. True)
                  (\<lambda>d. d\<lparr>dd_recoveryAttempts := dd_recoveryAttempts d + 1, dd_recoveredBy := Some by_whom\<rparr>) st))"

section \<open>Leases and mirroring\<close>

record persist_guard =
  pg_instanceId :: string
  pg_reconnectGeneration :: int
  pg_fencingToken :: int

definition tryTakeoverLease :: "env \<Rightarrow> millis \<Rightarrow> string \<Rightarrow> string \<Rightarrow> durable_store \<Rightarrow> bool \<times> durable_store" where
  "tryTakeoverLease env now cid newOwner st =
     (if \<not> isBillingOwnershipV2Enabled env then (False, st)
      else (case find_and_update now cid
                   (\<lambda>d. \<not> dd_finalized d \<and> (case dd_leaseExpiresAt d of None \<Rightarrow> False | Some t \<Rightarrow> t < now))
                   (\<lambda>d. d\<lparr>dd_leaseOwnerId := Some newOwner, dd_leaseExpiresAt := Some (now + CALL_SESSION_LEASE_TTL_MS env),
                          dd_fencingToken := dd_fencingToken d + 1\<rparr>) st of
              (r, st') \<Rightarrow> (r \<noteq> None, st')))"

definition getPersistGuardForCall :: "env \<Rightarrow> string \<Rightarrow> durable_store \<Rightarrow> persist_guard option" where
  "getPersistGuardForCall env cid st =
     (if \<not> isBillingOwnershipV2Enabled env then None
      else (case docs st cid of
              None \<Rightarrow> None
            | Some d \<Rightarrow>
                (case dd_leaseOwnerId d of
                   None \<Rightarrow> None
                 | Some owner \<Rightarrow>
                     if owner = [] then None
                     else Some \<lparr> pg_instanceId = owner, pg_reconnectGeneration = dd_reconnectGeneration d,
                                 pg_fencingToken = dd_fencingToken d \<rparr>)))"

definition assignInitialLease :: "env \<Rightarrow> string \<Rightarrow> millis \<Rightarrow> string \<Rightarrow> durable_store \<Rightarrow> durable_store" where
  "assignInitialLease env inst now cid st =
     (if \<not> isBillingOwnershipV2Enabled env \<or> \<not> isDurableCallSessionEnabled env then st
      else snd (find_and_update now cid (\<lambda>d. \<not> dd_finalized d)
                  (\<lambda>d. d\<lparr>dd_leaseOwnerId := Some inst, dd_leaseExpiresAt := Some (now + CALL_SESSION_LEASE_TTL_MS env),
                         dd_fencingToken := 1\<rparr>) st))"

definition guard_matches :: "env \<Rightarrow> persist_guard option \<Rightarrow> durable_doc \<Rightarrow> bool" where
  "guard_matches env g d =
     (\<not> dd_finalized d \<and>
      (case g of
         None \<Rightarrow> True
       | Some pg \<Rightarrow> isBillingOwnershipV2Enabled env \<longrightarrow>
           dd_reconnectGeneration d = pg_reconnectGeneration pg \<and> dd_fencingToken d = pg_fencingToken pg \<and>
           dd_leaseOwnerId d = Some (pg_instanceId pg)))"

definition mirrorRedisSessionToDurableCallSession ::
  "env \<Rightarrow> millis \<Rightarrow> string \<Rightarrow> call_session \<Rightarrow> persist_guard option \<Rightarrow> durable_store \<Rightarrow> bool \<times> durable_store" where
  "mirrorRedisSessionToDurableCallSession env now cid s g st =
     (if \<not> isDurableCallSessionEnabled env then (True, st)
      else (case find_and_update now cid (guard_matches env g)
                   (\<lambda>d. d\<lparr>dd_accumulatedDurationSec := max 0 (elapsedSeconds s),
                          dd_userDebitedMicros := max 0 (totalDeductedMicros s),
                          dd_creatorCreditedMicros := max 0 (totalEarnedMicros s),
                          dd_billingSequence := max 0 (billingSequence s),
                          dd_leaseExpiresAt := (if isBillingOwnershipV2Enabled env
                            then Some (now + CALL_SESSION_LEASE_TTL_MS env) else dd_leaseExpiresAt d)\<rparr>) st of
              (r, st') \<Rightarrow> (r \<noteq> None, st')))"

definition maybeMirrorRedisSessionToDurable ::
  "env \<Rightarrow> string \<Rightarrow> millis \<Rightarrow> string \<Rightarrow> call_session \<Rightarrow> bool \<Rightarrow> durable_store \<Rightarrow> durable_store" where
  "maybeMirrorRedisSessionToDurable env inst now cid s force st =
     (if \<not> isDurableCallSessionEnabled env then st
      else if \<not> force \<and> now - num0 (lastMirrorAt st cid) < CALL_SESSION_MIRROR_INTERVAL_MS env then st
      else (let st1 = st\<lparr>lastMirrorAt := (lastMirrorAt st)(cid \<mapsto> now)\<rparr>
            in if \<not> isBillingOwnershipV2Enabled env
               then snd (mirrorRedisSessionToDurableCallSession env now cid s None st1)
               else (case getPersistGuardForCall env cid st1 of
                       None \<Rightarrow>
                         (let st2 = assignInitialLease env inst now cid st1
                          in snd (mirrorRedisSessionToDurableCallSession env now cid s
                                    (getPersistGuardForCall env cid st2) st2))
                     | Some g \<Rightarrow>
                         if pg_instanceId g = inst
                         then snd (mirrorRedisSessionToDurableCallSession env now cid s (Some g) st1)
                         else st1)))"

definition flushMirrorRedisSessionToDurable ::
  "env \<Rightarrow> string \<Rightarrow> millis \<Rightarrow> string \<Rightarrow> call_session \<Rightarrow> durable_store \<Rightarrow> durable_store" where
  "flushMirrorRedisSessionToDurable env inst now cid s st =
     maybeMirrorRedisSessionToDurable env inst now cid s True st"

definition clearMirrorTracking :: "string \<Rightarrow> durable_store \<Rightarrow> durable_store" where
  "clearMirrorTracking cid st = st\<lparr>lastMirrorAt := (lastMirrorAt st)(cid := None)\<rparr>"

definition freezeDurableCallSessionsForShutdown ::
  "env \<Rightarrow> string \<Rightarrow> millis \<Rightarrow> string list \<Rightarrow> durable_store \<Rightarrow> string list \<times> durable_store" where
  "freezeDurableCallSessionsForShutdown env inst now ids st =
     (if \<not> isDurableCallSessionEnabled env then ([], st)
      else (let hit = filter (\<lambda>cid. case docs st cid of
                        None \<Rightarrow> False
                      | Some d \<Rightarrow> \<not> dd_finalized d \<and> dd_state d \<in> {D_active, D_reconnecting} \<and>
                          (isBillingOwnershipV2Enabled env \<longrightarrow> dd_leaseOwnerId d = Some inst)) ids
            in (hit,
                fold (\<lambda>cid st. snd (find_and_update now cid (\<lambda>d. True)
                        (\<lambda>d. d\<lparr>dd_finalizationReason := Some ''deployment_shutdown'',
                               dd_leaseOwnerId := (if isBillingOwnershipV2Enabled env then None else dd_leaseOwnerId d),
                               dd_leaseExpiresAt := (if isBillingOwnershipV2Enabled env then None else dd_leaseExpiresAt d)\<rparr>) st))
                  hit st)))"

section \<open>The incremental ledger\<close>

definition BILLING_PERSIST_INTERVAL_MS :: "env \<Rightarrow> int" where
  "BILLING_PERSIST_INTERVAL_MS env = envIntOr env ''BILLING_PERSIST_INTERVAL_MS'' 5000 1000 60000"

definition shouldRunPeriodicPersist :: "env \<Rightarrow> millis \<Rightarrow> string \<Rightarrow> durable_store \<Rightarrow> bool" where
  "shouldRunPeriodicPersist env now cid st = (now - num0 (lastPersistAt st cid) \<ge> BILLING_PERSIST_INTERVAL_MS env)"

definition sumLedgerForCall :: "string \<Rightarrow> durable_store \<Rightarrow> micros \<times> micros \<times> int" where
  "sumLedgerForCall cid st =
     (sum_list (map lr_userDebitMicros (ledger st cid)), sum_list (map lr_creatorCreditMicros (ledger st cid)),
      int (length (ledger st cid)))"

definition ledger_increment :: "env \<Rightarrow> string \<Rightarrow> millis \<Rightarrow> call_session \<Rightarrow> string \<Rightarrow> durable_doc \<Rightarrow> ledger_row" where
  "ledger_increment env inst now s reason d =
     (let base = (if lastProcessedAt s = 0 then startTime s else lastProcessedAt s);
          accrualStart = max (startTime s) (base - BILLING_PERSIST_INTERVAL_MS env)
      in \<lparr> lr_tickNumber = dd_lastPersistedTick d + 1,
           lr_userDebitMicros = max 0 (totalDeductedMicros s - dd_userDebitedMicros d),
           lr_creatorCreditMicros = max 0 (totalEarnedMicros s - dd_creatorCreditedMicros d),
           lr_billedDurationMs = max 0 (now - accrualStart),
           lr_flushReason = reason, lr_sourceInstanceId = inst \<rparr>)"

definition ledger_totals :: "env \<Rightarrow> millis \<Rightarrow> call_session \<Rightarrow> int \<Rightarrow> durable_doc \<Rightarrow> durable_doc" where
  "ledger_totals env now s tick d =
     d\<lparr>dd_userDebitedMicros := totalDeductedMicros s, dd_creatorCreditedMicros := totalEarnedMicros s,
       dd_accumulatedDurationSec := elapsedSeconds s, dd_billingSequence := billingSequence s,
       dd_lastPersistedTick := tick,
       dd_leaseExpiresAt := (if isBillingOwnershipV2Enabled env then Some (now + 15000) else dd_leaseExpiresAt d)\<rparr>"

definition flushBillingPersist ::
  "env \<Rightarrow> string \<Rightarrow> millis \<Rightarrow> string \<Rightarrow> call_session \<Rightarrow> string \<Rightarrow> durable_store \<Rightarrow> durable_store" where
  "flushBillingPersist env inst now cid s reason st =
     (if \<not> isIncrementalBillingPersistEnabled env
      then snd (mirrorRedisSessionToDurableCallSession env now cid s (getPersistGuardForCall env cid st) st)
      else (case docs st cid of
              None \<Rightarrow> st
            | Some d \<Rightarrow>
                if dd_finalized d then st
                else (let row = ledger_increment env inst now s reason d
                      in if lr_userDebitMicros row = 0 \<and> lr_creatorCreditMicros row = 0 \<and> reason = ''periodic''
                         then st\<lparr>lastPersistAt := (lastPersistAt st)(cid \<mapsto> now)\<rparr>
                         else if (case getPersistGuardForCall env cid st of
                                    None \<Rightarrow> False | Some g \<Rightarrow> pg_instanceId g \<noteq> inst) then st
                         else if lr_tickNumber row \<in> lr_tickNumber ` set (ledger st cid) then st
                         else (let st1 = st\<lparr>ledger := (ledger st)(cid := ledger st cid @ [row])\<rparr>;
                                   st2 = snd (find_and_update now cid (\<lambda>d. \<not> dd_finalized d)
                                     (ledger_totals env now s (lr_tickNumber row)) st1)
                               in st2\<lparr>lastPersistAt := (lastPersistAt st2)(cid \<mapsto> now)\<rparr>))))"

definition maybePeriodicBillingPersist ::
  "env \<Rightarrow> string \<Rightarrow> millis \<Rightarrow> string \<Rightarrow> call_session \<Rightarrow> durable_store \<Rightarrow> durable_store" where
  "maybePeriodicBillingPersist env inst now cid s st =
     (if \<not> shouldRunPeriodicPersist env now cid st then st
      else flushBillingPersist env inst now cid s ''periodic'' st)"

definition clearPersistTracking :: "string \<Rightarrow> durable_store \<Rightarrow> durable_store" where
  "clearPersistTracking cid st = st\<lparr>lastPersistAt := (lastPersistAt st)(cid := None)\<rparr>"

definition flushBillingPersistForCallId ::
  "env \<Rightarrow> string \<Rightarrow> millis \<Rightarrow> string \<Rightarrow> string \<Rightarrow> call_session \<Rightarrow> durable_store \<Rightarrow> durable_store" where
  "flushBillingPersistForCallId env inst now cid reason s st =
     (if lifecycleState s = Some SETTLED \<or> lifecycleState s = Some FAILED then st
      else flushBillingPersist env inst now cid s reason st)"

section \<open>Operations as steps\<close>

datatype durable_op =
    Create string millis
  | Claim string millis string string
  | MarkEnding millis "millis option"
  | MarkSettled millis int
  | MarkFailed millis
  | ResetRetry millis
  | Reconnect millis
  | Recovery millis string
  | Takeover millis string
  | AssignLease string millis
  | Mirror string millis call_session bool
  | Persist string millis call_session string
  | Freeze string millis

fun durable_apply :: "env \<Rightarrow> string \<Rightarrow> durable_op \<Rightarrow> durable_store \<Rightarrow> durable_store" where
  "durable_apply env cid (Create inst t) st = snd (createDurableCallSessionAtStart env inst t cid st)"
| "durable_apply env cid (Claim inst t reason source) st =
     snd (claimDurableCallSessionForSettlement env inst t cid reason source st)"
| "durable_apply env cid (MarkEnding t e) st = snd (markDurableCallSessionEnding env t cid e st)"
| "durable_apply env cid (MarkSettled t v) st = markDurableCallSessionSettled env t cid v st"
| "durable_apply env cid (MarkFailed t) st = markDurableCallSessionFailedSettlement env t cid st"
| "durable_apply env cid (ResetRetry t) st = snd (resetDurableCallSessionForSettlementRetry env t cid st)"
| "durable_apply env cid (Reconnect t) st = snd (bumpReconnectGeneration env t cid st)"
| "durable_apply env cid (Recovery t who) st = recordRecoveryAttempt env t cid who st"
| "durable_apply env cid (Takeover t who) st = snd (tryTakeoverLease env t cid who st)"
| "durable_apply env cid (AssignLease inst t) st = assignInitialLease env inst t cid st"
| "durable_apply env cid (Mirror inst t s force) st = maybeMirrorRedisSessionToDurable env inst t cid s force st"
| "durable_apply env cid (Persist inst t s reason) st = flushBillingPersist env inst t cid s reason st"
| "durable_apply env cid (Freeze inst t) st = snd (freezeDurableCallSessionsForShutdown env inst t [cid] st)"

section \<open>Conditional updates\<close>

lemma find_and_update_cases:
  "(docs st cid = None \<or> (\<exists>d. docs st cid = Some d \<and> \<not> flt d)) \<and> find_and_update now cid flt upd st = (None, st) \<or>
   (\<exists>d. docs st cid = Some d \<and> flt d \<and>
      find_and_update now cid flt upd st =
        (Some ((upd d)\<lparr>dd_updatedAt := now\<rparr>), st\<lparr>docs := (docs st)(cid \<mapsto> (upd d)\<lparr>dd_updatedAt := now\<rparr>)\<rparr>))"
  by (auto simp: find_and_update_def Let_def split: option.splits)

text \<open>What a document keeps under an update that misses it or keeps it.\<close>

lemma find_and_update_keeps:
  assumes "docs st cid = Some d" and "flt d \<Longrightarrow> P ((upd d)\<lparr>dd_updatedAt := now\<rparr>)" and "P d"
  shows "\<exists>d'. docs (snd (find_and_update now cid flt upd st)) cid = Some d' \<and> P d'"
  using assms find_and_update_cases [of st cid flt now upd] by (auto simp: Let_def)

lemma mirrorSettling_docs [simp]: "docs (mirrorCallSettlementSettling now cid source reason owner v st) = docs st"
  by (simp add: mirrorCallSettlementSettling_def split: option.split)

lemma docs_other_fields [simp]:
  "docs (st\<lparr>redis := k\<rparr>) = docs st" "docs (st\<lparr>lastMirrorAt := m\<rparr>) = docs st"
  "docs (st\<lparr>lastPersistAt := m\<rparr>) = docs st" "docs (st\<lparr>ledger := l\<rparr>) = docs st"
  by simp_all

lemma find_and_update_hit:
  "docs st cid = Some d \<Longrightarrow> flt d \<Longrightarrow> find_and_update now cid flt upd st =
     (Some ((upd d)\<lparr>dd_updatedAt := now\<rparr>), st\<lparr>docs := (docs st)(cid \<mapsto> (upd d)\<lparr>dd_updatedAt := now\<rparr>)\<rparr>)"
  by (simp add: find_and_update_def Let_def)

lemma find_and_update_miss:
  "docs st cid = Some d \<Longrightarrow> \<not> flt d \<Longrightarrow> find_and_update now cid flt upd st = (None, st)"
  by (simp add: find_and_update_def)

section \<open>Finalized sessions are frozen\<close>

definition money_fields :: "durable_doc \<Rightarrow> bool \<times> durable_status \<times> micros \<times> micros \<times> int \<times> int \<times> int" where
  "money_fields d = (dd_finalized d, dd_state d, dd_userDebitedMicros d, dd_creatorCreditedMicros d,
     dd_billingSequence d, dd_lastPersistedTick d, dd_settlementVersion d)"

lemma finalized_step:
  assumes d: "docs st cid = Some d" and f: "dd_finalized d"
  shows "\<exists>d'. docs (durable_apply env cid opn st) cid = Some d' \<and> money_fields d' = money_fields d"
proof -
  have miss: "find_and_update now cid flt upd st' = (None, st')"
    if "docs st' cid = Some d" "\<And>d. flt d \<Longrightarrow> \<not> dd_finalized d" for now flt upd st'
    using that f by (intro find_and_update_miss) auto
  show ?thesis
  proof (cases opn)
    case (Recovery t who)
    then show ?thesis using d
      by (auto simp: recordRecoveryAttempt_def find_and_update_def money_fields_def Let_def)
  next
    case (Mirror inst t s force)
    have g: "find_and_update now cid (guard_matches env x) upd st' = (None, st')" if "docs st' cid = Some d" for now x upd st'
      using that f by (intro find_and_update_miss) (auto simp: guard_matches_def)
    show ?thesis using Mirror d g miss
      by (auto simp: maybeMirrorRedisSessionToDurable_def mirrorRedisSessionToDurableCallSession_def
          assignInitialLease_def Let_def split: option.splits)
  next
    case (Persist inst t s reason)
    have g: "find_and_update now cid (guard_matches env x) upd st = (None, st)" for now x upd
      using d f by (intro find_and_update_miss) (auto simp: guard_matches_def)
    show ?thesis using Persist d f g
      by (auto simp: flushBillingPersist_def mirrorRedisSessionToDurableCallSession_def Let_def split: option.splits)
  next
    case (Claim inst t reason source)
    then show ?thesis using d f
      by (auto simp: claimDurableCallSessionForSettlement_def find_and_update_def Let_def)
  qed (use d f in \<open>auto simp: find_and_update_def createDurableCallSessionAtStart_def markDurableCallSessionEnding_def
      markDurableCallSessionSettled_def markDurableCallSessionFailedSettlement_def
      resetDurableCallSessionForSettlementRetry_def bumpReconnectGeneration_def tryTakeoverLease_def
      assignInitialLease_def freezeDurableCallSessionsForShutdown_def Let_def\<close>)
qed


definition demo_env :: env where
  "demo_env = [''DURABLE_CALL_SESSION_ENABLED'' \<mapsto> ''true'', ''BILLING_OWNERSHIP_V2_ENABLED'' \<mapsto> ''true'',
     ''INCREMENTAL_BILLING_PERSIST_ENABLED'' \<mapsto> ''true'']"

definition demo_store :: durable_store where
  "demo_store = \<lparr> docs = [''c1'' \<mapsto> new_durable_doc demo_env ''host:1'' 1000000], callSettlement = Map.empty,
     ledger = (\<lambda>_. []), redis = Map.empty, lastMirrorAt = Map.empty, lastPersistAt = Map.empty \<rparr>"

lemma demo_flags [simp]:
  "isDurableCallSessionEnabled demo_env" "isBillingOwnershipV2Enabled demo_env"
  "isIncrementalBillingPersistEnabled demo_env"
  by (simp_all add: demo_env_def isDurableCallSessionEnabled_def isBillingOwnershipV2Enabled_def
      isIncrementalBillingPersistEnabled_def)


section \<open>Settlement claims\<close>

text \<open>
  Operations that do not move a settling session: everything but a reconnect, the settlement's own
  outcome marks, and what happens after the claim has gone stale.
\<close>

fun calm_op :: "env \<Rightarrow> millis \<Rightarrow> durable_op \<Rightarrow> bool" where
  "calm_op env t0 (Claim inst t reason source) \<longleftrightarrow> t \<le> t0 + BILLING_MAX_SETTLING_MS env"
| "calm_op env t0 (Reconnect t) \<longleftrightarrow> False"
| "calm_op env t0 (MarkSettled t v) \<longleftrightarrow> False"
| "calm_op env t0 (MarkFailed t) \<longleftrightarrow> False"
| "calm_op env t0 _ \<longleftrightarrow> True"

definition settling_since :: "string \<Rightarrow> millis \<Rightarrow> int \<Rightarrow> durable_store \<Rightarrow> bool" where
  "settling_since cid t0 v st =
     (case docs st cid of
        None \<Rightarrow> False
      | Some d \<Rightarrow> dd_state d = D_settling \<and> \<not> dd_finalized d \<and> dd_finalizationStartedAt d = Some t0 \<and>
          dd_settlementVersion d = v)"

lemma settling_updates:
  assumes "settling_since cid t0 v st"
    and "\<And>d. dd_state d = D_settling \<Longrightarrow> dd_finalizationStartedAt d = Some t0 \<Longrightarrow> flt d \<Longrightarrow>
      dd_state (upd d) = D_settling \<and> dd_finalized (upd d) = dd_finalized d \<and>
      dd_finalizationStartedAt (upd d) = Some t0 \<and> dd_settlementVersion (upd d) = dd_settlementVersion d"
  shows "settling_since cid t0 v (snd (find_and_update now cid flt upd st))"
  using assms by (auto simp: settling_since_def find_and_update_def Let_def split: option.splits)

lemma settling_other_fields [simp]:
  "settling_since cid t0 v (st\<lparr>redis := k\<rparr>) = settling_since cid t0 v st"
  "settling_since cid t0 v (st\<lparr>lastMirrorAt := m\<rparr>) = settling_since cid t0 v st"
  "settling_since cid t0 v (st\<lparr>lastPersistAt := m\<rparr>) = settling_since cid t0 v st"
  "settling_since cid t0 v (st\<lparr>ledger := l\<rparr>) = settling_since cid t0 v st"
  by (simp_all add: settling_since_def)

lemma settling_mirror:
  "settling_since cid t0 v st \<Longrightarrow> settling_since cid t0 v (snd (mirrorRedisSessionToDurableCallSession env now cid s g st))"
  unfolding mirrorRedisSessionToDurableCallSession_def
  using settling_updates [of cid t0 v st "guard_matches env g"] by (simp add: case_prod_beta)

lemma settling_assign:
  "settling_since cid t0 v st \<Longrightarrow> settling_since cid t0 v (assignInitialLease env inst now cid st)"
  unfolding assignInitialLease_def using settling_updates [of cid t0 v st] by simp

lemma claim_refused:
  assumes "settling_since cid t0 v st" and "isDurableCallSessionEnabled env" and "t \<le> t0 + BILLING_MAX_SETTLING_MS env"
  shows "claimDurableCallSessionForSettlement env inst t cid reason source st = (ClaimLost SettlingActive, st)"
  using assms
  by (auto simp: settling_since_def claimDurableCallSessionForSettlement_def find_and_update_def
      resolveClaimLostDetail_def isDurableSettlingStale_def Let_def split: option.splits)

lemma settling_step:
  assumes "settling_since cid t0 v st" and "calm_op env t0 opn" and "isDurableCallSessionEnabled env"
  shows "settling_since cid t0 v (durable_apply env cid opn st)"
proof (cases opn)
  case (Claim inst t reason source)
  then show ?thesis using assms claim_refused by simp
next
  case (Create inst t)
  then show ?thesis using assms
    by (auto simp: createDurableCallSessionAtStart_def settling_since_def split: option.splits)
next
  case (Mirror inst t s force)
  then show ?thesis using assms(1) settling_mirror settling_assign
    by (simp add: maybeMirrorRedisSessionToDurable_def Let_def split: option.splits)
next
  case (Persist inst t s reason)
  then show ?thesis using assms(1) settling_mirror settling_updates [of cid t0 v]
    by (simp add: flushBillingPersist_def ledger_totals_def Let_def split: option.splits)
next
  case (Freeze inst t)
  then show ?thesis using assms(1)
    by (auto simp: freezeDurableCallSessionsForShutdown_def settling_since_def Let_def split: option.splits)
qed (use assms in
  \<open>auto simp: markDurableCallSessionEnding_def resetDurableCallSessionForSettlementRetry_def assignInitialLease_def
     recordRecoveryAttempt_def tryTakeoverLease_def find_and_update_def settling_since_def Let_def split: option.splits\<close>)

lemma claim_wins:
  assumes "claimDurableCallSessionForSettlement env inst t cid reason source st = (ClaimOk v, st')"
    and "isDurableCallSessionEnabled env"
  shows "settling_since cid t v st'"
  using assms
  by (auto simp: claimDurableCallSessionForSettlement_def find_and_update_def claim_update_def
      settling_since_def Let_def split: option.splits if_splits)



text \<open>
  A reconnect reopens a settlement in progress: it moves any session that is not finalized,
  also a settling one, to \<open>reconnecting\<close>, from where a second settler's claim succeeds at once.
\<close>

theorem reconnect_reopens_claim:
  assumes "isDurableCallSessionEnabled env"
    and "claimDurableCallSessionForSettlement env inst t cid reason source st = (ClaimOk v, st')"
  shows "\<exists>v2 st2. claimDurableCallSessionForSettlement env inst2 t2 cid reason2 source2
      (snd (bumpReconnectGeneration env t1 cid st')) = (ClaimOk v2, st2)"
proof -
  obtain d where d: "docs st' cid = Some d" "\<not> dd_finalized d"
    using claim_wins [OF assms(2,1)] by (auto simp: settling_since_def split: option.splits)
  show ?thesis using assms(1) d
    by (simp add: bumpReconnectGeneration_def claimDurableCallSessionForSettlement_def find_and_update_def Let_def)
qed

theorem reconnect_reopens_claim_witness:
  "\<exists>v2 st2. claimDurableCallSessionForSettlement demo_env ''host:2'' 1050002 ''c1'' ''timeout'' ''watchdog''
      (snd (bumpReconnectGeneration demo_env 1050001 ''c1''
        (snd (claimDurableCallSessionForSettlement demo_env ''host:1'' 1050000 ''c1'' ''force_end'' ''tick'' demo_store)))) = (ClaimOk v2, st2)"
proof -
  obtain st' where c: "claimDurableCallSessionForSettlement demo_env ''host:1'' 1050000 ''c1'' ''force_end'' ''tick'' demo_store = (ClaimOk 1, st')"
    by (simp add: claimDurableCallSessionForSettlement_def find_and_update_def demo_store_def new_durable_doc_def
        claim_update_def Let_def)
  from reconnect_reopens_claim [OF _ c] c show ?thesis by simp
qed

section \<open>The ledger\<close>

text \<open>The ledger accounts for the durable totals: one row per persisted tick, summing up to them.\<close>

definition ledger_balanced :: "string \<Rightarrow> durable_store \<Rightarrow> bool" where
  "ledger_balanced cid st =
     (case docs st cid of
        None \<Rightarrow> ledger st cid = []
      | Some d \<Rightarrow>
          sum_list (map lr_userDebitMicros (ledger st cid)) = dd_userDebitedMicros d \<and>
          sum_list (map lr_creatorCreditMicros (ledger st cid)) = dd_creatorCreditedMicros d \<and>
          map lr_tickNumber (ledger st cid) = map int [1..<Suc (length (ledger st cid))] \<and>
          dd_lastPersistedTick d = int (length (ledger st cid)))"

definition totals_ahead :: "string \<Rightarrow> durable_store \<Rightarrow> call_session \<Rightarrow> bool" where
  "totals_ahead cid st s =
     (case docs st cid of
        None \<Rightarrow> True
      | Some d \<Rightarrow> dd_userDebitedMicros d \<le> totalDeductedMicros s \<and> dd_creatorCreditedMicros d \<le> totalEarnedMicros s)"

lemma flush_cases:
  assumes "isIncrementalBillingPersistEnabled env"
  obtains "docs (flushBillingPersist env inst now cid s reason st) cid = docs st cid"
      "ledger (flushBillingPersist env inst now cid s reason st) cid = ledger st cid"
  | d d' where "docs st cid = Some d" "docs (flushBillingPersist env inst now cid s reason st) cid = Some d'"
      "ledger (flushBillingPersist env inst now cid s reason st) cid =
         ledger st cid @ [ledger_increment env inst now s reason d]"
      "dd_userDebitedMicros d' = totalDeductedMicros s" "dd_creatorCreditedMicros d' = totalEarnedMicros s"
      "dd_lastPersistedTick d' = dd_lastPersistedTick d + 1"
proof (cases "docs (flushBillingPersist env inst now cid s reason st) cid = docs st cid \<and>
    ledger (flushBillingPersist env inst now cid s reason st) cid = ledger st cid")
  case True
  then show ?thesis using that(1) by blast
next
  case False
  then obtain d where d: "docs st cid = Some d" "\<not> dd_finalized d" using assms
    by (cases "docs st cid"; cases "dd_finalized (the (docs st cid))") (simp_all add: flushBillingPersist_def)
  have tick: "lr_tickNumber (ledger_increment env inst now s reason d) = dd_lastPersistedTick d + 1"
    by (simp add: ledger_increment_def Let_def)
  show ?thesis
    by (rule that(2) [OF d(1), of "(ledger_totals env now s (dd_lastPersistedTick d + 1) d)\<lparr>dd_updatedAt := now\<rparr>"])
      (use False d assms in \<open>auto simp: flushBillingPersist_def find_and_update_def Let_def tick ledger_totals_def
         split: if_splits\<close>)
qed

text \<open>
  The ledger adds up: a flush of a session whose totals have not fallen behind keeps the
  ledger balanced, that is consecutively numbered rows whose debits and credits sum to the durable
  totals, whoever runs it and whatever its reason.
\<close>

theorem ledger_flush_balanced:
  assumes "isIncrementalBillingPersistEnabled env" and "ledger_balanced cid st" and "totals_ahead cid st s"
  shows "ledger_balanced cid (flushBillingPersist env inst now cid s reason st)"
proof (cases rule: flush_cases [OF assms(1), of inst now cid s reason st])
  case 1
  then show ?thesis using assms(2) by (simp add: ledger_balanced_def del: upt_Suc split: option.splits)
next
  case (2 d d')
  then show ?thesis
    using assms(2,3) by (simp add: ledger_balanced_def totals_ahead_def ledger_increment_def Let_def)
qed

theorem ledger_flush_balanced_witness:
  "ledger_balanced ''c1'' (flushBillingPersist demo_env ''host:1'' 1006000 ''c1'' (demo_session\<lparr>totalDeductedMicros := 150000000\<rparr>)
     ''periodic'' demo_store)"
  by (rule ledger_flush_balanced)
    (simp_all add: ledger_balanced_def totals_ahead_def demo_store_def new_durable_doc_def demo_session_def)

text \<open>
  Mirroring starves the ledger: the mirror writes the same durable totals the ledger takes its
  increments from, so what a mirror has copied never reaches a ledger row. After a mirror of a
  charged session, the periodic flush of that session adds no row, and the ledger sums to less than
  the session was charged.
\<close>

theorem mirror_starves_ledger:
  assumes "isIncrementalBillingPersistEnabled env" and "isDurableCallSessionEnabled env"
    and "docs st cid = Some d" and "\<not> dd_finalized d" and "dd_leaseOwnerId d = Some inst" and "inst \<noteq> []"
    and "0 \<le> totalDeductedMicros s" and "0 \<le> totalEarnedMicros s"
  shows "let st1 = maybeMirrorRedisSessionToDurable env inst t cid s True st;
             st2 = flushBillingPersist env inst t2 cid s ''periodic'' st1
         in (\<exists>d'. docs st2 cid = Some d' \<and> dd_userDebitedMicros d' = totalDeductedMicros s) \<and>
            ledger st2 cid = ledger st cid"
  using assms
  by (auto simp: Let_def maybeMirrorRedisSessionToDurable_def getPersistGuardForCall_def guard_matches_def
      mirrorRedisSessionToDurableCallSession_def find_and_update_def flushBillingPersist_def ledger_increment_def)

theorem mirror_starves_ledger_witness:
  "let s = demo_session\<lparr>totalDeductedMicros := 150000000\<rparr>;
       st2 = flushBillingPersist demo_env ''host:1'' 1006001 ''c1'' s ''periodic''
               (maybeMirrorRedisSessionToDurable demo_env ''host:1'' 1006000 ''c1'' s True demo_store)
   in sumLedgerForCall ''c1'' st2 = (0, 0, 0)"
proof -
  have d: "docs demo_store ''c1'' = Some (new_durable_doc demo_env ''host:1'' 1000000)" by (simp add: demo_store_def)
  have "\<not> dd_finalized (new_durable_doc demo_env ''host:1'' 1000000)"
    "dd_leaseOwnerId (new_durable_doc demo_env ''host:1'' 1000000) = Some ''host:1''"
    by (simp_all add: new_durable_doc_def)
  from mirror_starves_ledger [OF _ _ d this, of demo_env "demo_session\<lparr>totalDeductedMicros := 150000000\<rparr>" 1006000 1006001]
  show ?thesis by (simp add: Let_def demo_session_def sumLedgerForCall_def demo_store_def)
qed

end
