(* ===== verification/Settlement.thy ===== *)
theory Settlement
  imports BillingTick DurableSession
begin

text \<open>
  Settlement of a call: \<open>settleCall\<close> of \<open>src/modules/billing/billing-settlement.service.ts\<close> with the
  authoritative totals (\<open>billing-settlement-totals.service.ts\<close>), the guards of the reconciliation
  (\<open>billing-reconciliation.guards.ts\<close>) and the commission rates
  (\<open>src/modules/payment/commission-resolve.service.ts\<close>).

  The financial writes are one Mongo transaction, attempted up to three times. \<open>settle_txn\<close> is its
  effect when it commits; \<open>settle_fault\<close> says what happens to an attempt: it commits, fails with a
  transient error (before or after the creator section) or a permanent one, conflicts inside the creator section (the code catches that
  error, but the server has aborted the transaction, so the attempt fails at its next operation),
  or its commit answer is lost, with or without the commit having been applied.
\<close>

section \<open>State\<close>

datatype txn_kind = Debit | Credit

record history_row =
  h_callId :: string
  h_owner :: string
  h_ownerRole :: string
  h_settlementStatus :: string
  h_settledAt :: "millis option"
  h_durationSeconds :: int
  h_coinsDeducted :: int
  h_walletCoinsDeducted :: int
  h_coinsEarned :: int
  h_paidCoinsEarned :: int
  h_freeCoinsEarned :: int

record staff_doc =
  sd_role :: string
  sd_bdId :: "string option"

record commission_profile =
  cm_id :: string
  cm_scope :: string
  cm_subjectId :: string
  cm_bdBps :: int
  cm_agencyBps :: int
  cm_priority :: int
  cm_validFrom :: millis
  cm_validTo :: "millis option"
  cm_createdAt :: millis

record settle_state =
  core :: billing_state
  durable :: durable_store
  coinTxns :: "string \<times> string \<times> txn_kind \<Rightarrow> int option"
  staffBalance :: "string \<Rightarrow> int option"
  staffLedger :: "string \<Rightarrow> int option"
  history :: "history_row list"
  agencyOf :: "string \<Rightarrow> string option"
  staffDocs :: "string \<Rightarrow> staff_doc option"
  profiles :: "commission_profile list"
  platformBps :: "int \<times> int"

section \<open>Commission rates\<close>

definition activeProfileFilter :: "string \<Rightarrow> string \<Rightarrow> millis \<Rightarrow> commission_profile \<Rightarrow> bool" where
  "activeProfileFilter subject scope now p \<longleftrightarrow>
     cm_scope p = scope \<and> cm_subjectId p = subject \<and> cm_validFrom p \<le> now \<and>
     (case cm_validTo p of None \<Rightarrow> True | Some t \<Rightarrow> now \<le> t)"

text \<open>Sort order of \<open>COMMISSION_PROFILE_RESOLUTION_SORT\<close>, descending in every field.\<close>

definition profile_before :: "commission_profile \<Rightarrow> commission_profile \<Rightarrow> bool" where
  "profile_before p q \<longleftrightarrow>
     cm_priority p > cm_priority q \<or> (cm_priority p = cm_priority q \<and>
     (cm_validFrom p > cm_validFrom q \<or> (cm_validFrom p = cm_validFrom q \<and>
     (cm_createdAt p > cm_createdAt q \<or> (cm_createdAt p = cm_createdAt q \<and> cm_id p > cm_id q)))))"

fun first_profile :: "commission_profile list \<Rightarrow> commission_profile option" where
  "first_profile [] = None"
| "first_profile (p # ps) =
     (case first_profile ps of
        None \<Rightarrow> Some p
      | Some q \<Rightarrow> if profile_before q p then Some q else Some p)"

definition resolveStaffCommissionBps :: "millis \<Rightarrow> string \<Rightarrow> string option \<Rightarrow> settle_state \<Rightarrow> int \<times> int" where
  "resolveStaffCommissionBps now bdUserId agencyId st =
     (case first_profile (filter (activeProfileFilter bdUserId ''bd'' now) (profiles st)) of
        Some p \<Rightarrow> (cm_bdBps p, cm_agencyBps p)
      | None \<Rightarrow>
          (case (case agencyId of
                   None \<Rightarrow> None
                 | Some a \<Rightarrow> first_profile (filter (activeProfileFilter a ''agency'' now) (profiles st))) of
             Some p \<Rightarrow> (cm_bdBps p, cm_agencyBps p)
           | None \<Rightarrow> platformBps st))"

section \<open>Authoritative totals\<close>

datatype totals_source = FromRedis | FromDurable | FromLedger | FromCheckpoint | FromNone

record settlement_totals =
  tot_deducted :: micros
  tot_earned :: micros
  tot_sequence :: int
  tot_source :: totals_source

definition some_activity :: "micros \<Rightarrow> micros \<Rightarrow> int \<Rightarrow> bool" where
  "some_activity d e n \<longleftrightarrow> d > 0 \<or> e > 0 \<or> n > 0"

definition redis_totals :: "stored_session option \<Rightarrow> (micros \<times> micros \<times> int) option" where
  "redis_totals raw =
     (case raw of
        Some (Typed s) \<Rightarrow>
          Some (max 0 (totalDeductedMicros s), max 0 (totalEarnedMicros s), max 0 (billingSequence s))
      | Some (Legacy v) \<Rightarrow> Some (0, 0, max 0 \<lfloor>rat0 (v1_billingSequence v)\<rfloor>)
      | _ \<Rightarrow> None)"

definition active_totals :: "totals_source \<Rightarrow> (micros \<times> micros \<times> int) option \<Rightarrow> settlement_totals option" where
  "active_totals src t =
     (case t of
        None \<Rightarrow> None
      | Some (d, e, n) \<Rightarrow>
          if some_activity d e n
          then Some \<lparr> tot_deducted = d, tot_earned = e, tot_sequence = n, tot_source = src \<rparr> else None)"

definition ledger_totals_of :: "string \<Rightarrow> durable_store \<Rightarrow> settlement_totals option" where
  "ledger_totals_of cid ds =
     (case sumLedgerForCall cid ds of
        (d, e, n) \<Rightarrow>
          if n > 0 then Some \<lparr> tot_deducted = max 0 d, tot_earned = max 0 e, tot_sequence = n, tot_source = FromLedger \<rparr>
          else None)"

definition checkpoint_totals_of :: "billing_checkpoint option \<Rightarrow> settlement_totals option" where
  "checkpoint_totals_of cp =
     map_option (\<lambda>c. \<lparr> tot_deducted = max 0 (cp_totalDeductedMicros c), tot_earned = max 0 (cp_totalEarnedMicros c),
                        tot_sequence = max 0 (cp_billingSequence c), tot_source = FromCheckpoint \<rparr>) cp"

fun first_some :: "'a option list \<Rightarrow> 'a option" where
  "first_some [] = None"
| "first_some (None # xs) = first_some xs"
| "first_some (Some x # xs) = Some x"

definition no_totals :: settlement_totals where
  "no_totals = \<lparr> tot_deducted = 0, tot_earned = 0, tot_sequence = 0, tot_source = FromNone \<rparr>"

definition resolveAuthoritativeSettlementTotals :: "env \<Rightarrow> string \<Rightarrow> settle_state \<Rightarrow> settlement_totals" where
  "resolveAuthoritativeSettlementTotals env cid st =
     nvl (first_some
            [active_totals FromRedis (redis_totals (sessions (core st) cid)),
             active_totals FromDurable
               (map_option (\<lambda>d. (max 0 (dd_userDebitedMicros d), max 0 (dd_creatorCreditedMicros d), max 0 (dd_billingSequence d)))
                  (getDurableCallSession env cid (durable st))),
             ledger_totals_of cid (durable st),
             checkpoint_totals_of (checkpoints (core st) cid)])
         no_totals"

section \<open>The session as settlement reads it\<close>

record settle_view =
  sv_schemaVersion :: int
  sv_introPromoActive :: bool
  sv_totalIntro :: "micros option"
  sv_totalWallet :: "micros option"
  sv_userFirebaseUid :: string
  sv_creatorFirebaseUid :: string
  sv_userMongoId :: string
  sv_creatorMongoId :: string
  sv_ppsMicros :: "micros option"
  sv_pricePerSecond :: "rat option"
  sv_startTime :: millis
  sv_lastProcessedAt :: millis
  sv_totalDeducted :: "micros option"
  sv_totalEarned :: "micros option"
  sv_elapsedSeconds :: int
  sv_billingSequence :: int

fun view_of_stored :: "stored_session \<Rightarrow> settle_view option" where
  "view_of_stored Unparsable = None"
| "view_of_stored (Typed s) =
     Some \<lparr> sv_schemaVersion = schemaVersion s, sv_introPromoActive = (introPromoActive s = Some True),
            sv_totalIntro = totalIntroDeductedMicros s, sv_totalWallet = totalWalletDeductedMicros s,
            sv_userFirebaseUid = userFirebaseUid s, sv_creatorFirebaseUid = creatorFirebaseUid s,
            sv_userMongoId = userMongoId s, sv_creatorMongoId = creatorMongoId s,
            sv_ppsMicros = Some (pricePerSecondMicros s), sv_pricePerSecond = None,
            sv_startTime = startTime s, sv_lastProcessedAt = lastProcessedAt s, sv_totalDeducted = Some (totalDeductedMicros s),
            sv_totalEarned = Some (totalEarnedMicros s), sv_elapsedSeconds = elapsedSeconds s,
            sv_billingSequence = billingSequence s \<rparr>"
| "view_of_stored (Legacy v) =
     Some \<lparr> sv_schemaVersion = 0, sv_introPromoActive = False, sv_totalIntro = None, sv_totalWallet = None,
            sv_userFirebaseUid = v1_userFirebaseUid v, sv_creatorFirebaseUid = v1_creatorFirebaseUid v,
            sv_userMongoId = v1_userMongoId v, sv_creatorMongoId = v1_creatorMongoId v,
            sv_ppsMicros = None, sv_pricePerSecond = v1_pricePerSecond v,
            sv_startTime = num0 (v1_startTime v), sv_lastProcessedAt = 0, sv_totalDeducted = None, sv_totalEarned = None,
            sv_elapsedSeconds = \<lfloor>rat0 (v1_elapsedSeconds v)\<rfloor>,
            sv_billingSequence = \<lfloor>rat0 (v1_billingSequence v)\<rfloor> \<rparr>"

definition buildSettlementSessionFromCheckpoint :: "millis \<Rightarrow> billing_checkpoint \<Rightarrow> settle_view option" where
  "buildSettlementSessionFromCheckpoint now cp =
     (if cp_userMongoId cp = [] \<or> cp_creatorMongoId cp = [] \<or>
         nvl (cp_userFirebaseUid cp) [] = [] \<or> nvl (cp_creatorFirebaseUid cp) [] = []
      then None
      else (let pps = max 0 (num0 (cp_pricePerSecondMicros cp));
                start = or_else (cp_startTimeMs cp) now;
                ded = max 0 (cp_totalDeductedMicros cp)
            in Some \<lparr> sv_schemaVersion = BILLING_SESSION_SCHEMA_VERSION, sv_introPromoActive = False,
                      sv_totalIntro = None, sv_totalWallet = None,
                      sv_userFirebaseUid = nvl (cp_userFirebaseUid cp) [],
                      sv_creatorFirebaseUid = nvl (cp_creatorFirebaseUid cp) [],
                      sv_userMongoId = cp_userMongoId cp, sv_creatorMongoId = cp_creatorMongoId cp,
                      sv_ppsMicros = Some pps, sv_pricePerSecond = None, sv_startTime = start,
                      sv_lastProcessedAt = or_else (cp_lastProcessedAtMs cp) start,
                      sv_totalDeducted = Some ded, sv_totalEarned = Some (max 0 (cp_totalEarnedMicros cp)),
                      sv_elapsedSeconds = (if pps > 0 then ded div pps else 0), sv_billingSequence = 0 \<rparr>))"

definition applyAuthoritativeTotalsToSession :: "settle_view \<Rightarrow> settlement_totals \<Rightarrow> settle_view" where
  "applyAuthoritativeTotalsToSession v t =
     (if tot_source t = FromNone then v
      else (let deduct = max (num0 (sv_totalDeducted v)) (tot_deducted t);
                earn = max (num0 (sv_totalEarned v)) (tot_earned t);
                seqn = max (sv_billingSequence v) (tot_sequence t)
            in if sv_totalDeducted v = Some deduct \<and> sv_totalEarned v = Some earn then v
               else (let pps = max 0 (num0 (sv_ppsMicros v))
                     in v\<lparr>sv_totalDeducted := Some deduct, sv_totalEarned := Some earn, sv_billingSequence := seqn,
                          sv_elapsedSeconds := (if pps > 0 then deduct div pps else sv_elapsedSeconds v)\<rparr>)))"

section \<open>Reconciliation guards\<close>

definition isBlockZeroSettlementEnabled :: "env \<Rightarrow> bool" where
  "isBlockZeroSettlementEnabled env \<longleftrightarrow> env ''BILLING_BLOCK_ZERO_SETTLEMENT_ENABLED'' \<noteq> Some ''false''"

definition shouldBlockZeroSettlement :: "env \<Rightarrow> settlement_totals \<Rightarrow> string option" where
  "shouldBlockZeroSettlement env t =
     (if \<not> isBlockZeroSettlementEnabled env then None
      else if tot_deducted t > 0 then None
      else if tot_sequence t > 0 then Some ''zero_deduct_with_positive_sequence''
      else if tot_source t = FromDurable then Some ''zero_deduct_authoritative_durable''
      else if tot_source t = FromLedger then Some ''zero_deduct_authoritative_ledger''
      else if tot_earned t > 0 \<and> tot_deducted t = 0 \<and> tot_source t \<noteq> FromNone
      then Some ''zero_deduct_with_positive_earn''
      else None)"

definition shouldRescheduleBillingCycleForSession :: "BillingLifecycleState option option \<Rightarrow> bool \<Rightarrow> bool" where
  "shouldRescheduleBillingCycleForSession session tombstone =
     (if tombstone then False else (case session of None \<Rightarrow> False | Some lc \<Rightarrow> isNonTerminalLifecycle lc))"

definition shouldFinalizeSessionNoHistory :: "call_session \<Rightarrow> millis \<Rightarrow> millis \<Rightarrow> bool \<times> string" where
  "shouldFinalizeSessionNoHistory s nowMs minAgeMs =
     (if totalDeductedMicros s \<le> 0 then (False, ''no_deductions'')
      else if nvl (lifecycleState s) ACTIVE \<noteq> SETTLED \<and> nvl (lifecycleState s) ACTIVE \<noteq> FAILED
      then (False, ''live_session_no_history'')
      else (let heartbeatMs = max 0 (max (lastProcessedAt s) (num0 (lastEmitAtMs s)))
            in if heartbeatMs > 0 \<and> nowMs - heartbeatMs < minAgeMs
               then (False, ''terminal_but_recent_no_history'') else (True, [])))"

section \<open>The plan of a settlement\<close>

record settlement_plan =
  sp_callId :: string
  sp_userMongoId :: string
  sp_creatorMongoId :: string
  sp_introPromoActive :: bool
  sp_introDeductedMicros :: micros
  sp_walletDeductedMicros :: micros
  sp_totalDeducted :: int
  sp_walletCoinsDeducted :: int
  sp_totalEarnedCreator :: int
  sp_durationSeconds :: int
  sp_userFirebaseUid :: string
  sp_creatorFirebaseUid :: string
  sp_billingSequence :: int

text \<open>
  The amounts a settlement writes: the user pays whole coins rounded up, the creator gets whole
  coins rounded down, the wallet pays what was not paid from the promotion.
\<close>

definition settlement_plan_of :: "string \<Rightarrow> int option \<Rightarrow> settle_view \<Rightarrow> settlement_totals \<Rightarrow> settlement_plan" where
  "settlement_plan_of cid earningsRaw v totals =
     (let earnRaw = num0 earningsRaw;
          billedSeconds = max 0 (sv_elapsedSeconds v);
          intro = max 0 (num0 (sv_totalIntro v));
          m = applyAuthoritativeTotalsToSession v totals;
          wallet = (case sv_totalWallet v of
                      Some x \<Rightarrow> x | None \<Rightarrow> max 0 (num0 (sv_totalDeducted m) - intro));
          legacy = (tot_source totals = FromNone \<and> sv_schemaVersion v < BILLING_SESSION_SCHEMA_VERSION \<and>
                    rat0 (sv_pricePerSecond v) \<noteq> 0)
      in \<lparr> sp_callId = cid, sp_userMongoId = sv_userMongoId v, sp_creatorMongoId = sv_creatorMongoId v,
           sp_introPromoActive = sv_introPromoActive v, sp_introDeductedMicros = intro,
           sp_walletDeductedMicros = wallet,
           sp_totalDeducted =
             (if legacy
              then microsToUserDebitWholeCoins
                     (js_round (of_int billedSeconds * rat0 (sv_pricePerSecond v) * of_int COIN_MICROS))
              else microsToUserDebitWholeCoins (num0 (sv_totalDeducted m))),
           sp_walletCoinsDeducted = microsToUserDebitWholeCoins wallet,
           sp_totalEarnedCreator =
             (if legacy
              then microsToCreatorCreditWholeCoins (js_round (of_int (earnRaw * COIN_MICROS) / 10000))
              else microsToCreatorCreditWholeCoins (num0 (sv_totalEarned m))),
           sp_durationSeconds = max 0 (sv_elapsedSeconds m),
           sp_userFirebaseUid = sv_userFirebaseUid v, sp_creatorFirebaseUid = sv_creatorFirebaseUid v,
           sp_billingSequence = max 0 (sv_billingSequence m) \<rparr>)"

section \<open>The transaction\<close>

definition find_user :: "string \<Rightarrow> settle_state \<Rightarrow> user_doc option" where
  "find_user uid st = find (\<lambda>u. u_id u = uid) (users (core st))"

definition update_user :: "string \<Rightarrow> (user_doc \<Rightarrow> user_doc) \<Rightarrow> settle_state \<Rightarrow> settle_state" where
  "update_user uid f st =
     st\<lparr>core := (core st)\<lparr>users := map (\<lambda>u. if u_id u = uid then f u else u) (users (core st))\<rparr>\<rparr>"

definition put_txn :: "string \<times> string \<times> txn_kind \<Rightarrow> int \<Rightarrow> settle_state \<Rightarrow> settle_state" where
  "put_txn k amount st = st\<lparr>coinTxns := (coinTxns st)(k \<mapsto> amount)\<rparr>"

text \<open>The wallet is floored at zero by the update pipeline; the transaction row keeps the target.\<close>

definition debit_payer :: "settlement_plan \<Rightarrow> settle_state \<Rightarrow> settle_state" where
  "debit_payer p st =
     (let target = max 0 (microsToUserDebitWholeCoins (sp_walletDeductedMicros p));
          key = (sp_callId p, sp_userMongoId p, Debit);
          alreadyDebited = max 0 (num0 (coinTxns st key));
          delta = max 0 (target - alreadyDebited);
          st1 = (if delta > 0
                 then update_user (sp_userMongoId p) (\<lambda>u. u\<lparr>u_coins := max 0 (u_coins u - delta)\<rparr>) st else st)
      in if target > 0 then put_txn key target st1 else st1)"

definition consume_intro_promo :: "millis \<Rightarrow> settlement_plan \<Rightarrow> settle_state \<Rightarrow> settle_state" where
  "consume_intro_promo now p st =
     (if sp_introPromoActive p \<and> sp_introDeductedMicros p > 0
      then update_user (sp_userMongoId p)
             (\<lambda>u. if u_welcomeFreeCallConsumedAt u = None \<and> num0 (u_introFreeCallCredits u) > 0
                  then u\<lparr>u_welcomeFreeCallConsumedAt := Some now, u_introFreeCallCredits := Some 0\<rparr> else u) st
      else st)"

text \<open>A staff member without a document gets the ledger line and no balance.\<close>

definition credit_staff :: "string \<Rightarrow> string \<Rightarrow> int \<Rightarrow> settle_state \<Rightarrow> settle_state" where
  "credit_staff key staffId amount st =
     (if amount > 0 \<and> staffLedger st key = None
      then st\<lparr>staffBalance := (staffBalance st)(staffId := map_option (\<lambda>b. b + amount) (staffBalance st staffId)),
              staffLedger := (staffLedger st)(key \<mapsto> amount)\<rparr>
      else st)"

definition staff_revenue_split :: "settlement_plan \<Rightarrow> int \<times> int \<Rightarrow> string \<Rightarrow> string option \<Rightarrow> settle_state \<Rightarrow> settle_state" where
  "staff_revenue_split p rates agency bd st =
     (let (bdCut, agencyCut) =
            computeStaffCutsFromHostEarnings (sp_totalEarnedCreator p) (fst rates) (snd rates) (bd \<noteq> None);
          st1 = (case bd of
                   None \<Rightarrow> st
                 | Some b \<Rightarrow> credit_staff (''staff_ledger_call_'' @ sp_callId p @ ''_bd_credit'') b bdCut st)
      in credit_staff (''staff_ledger_call_'' @ sp_callId p @ ''_agency_credit'') agency agencyCut st1)"

text \<open>
  The creator section; it returns the amount the history will show. \<open>commission_ok\<close> is false when
  the commission lookup (which does not run in the transaction) throws: the credit is already
  written, the amount shown becomes zero.
\<close>

definition credit_creator ::
  "millis \<Rightarrow> bool \<Rightarrow> settlement_plan \<Rightarrow> settle_state \<Rightarrow> int \<times> settle_state" where
  "credit_creator now commission_ok p st =
     (let earned = sp_totalEarnedCreator p
      in if earned \<le> 0 then (earned, st)
         else (case find (\<lambda>c. c_id c = sp_creatorMongoId p) (creators (core st)) of
                 None \<Rightarrow> (0, st)
               | Some c \<Rightarrow>
                   if find_user (c_userId c) st = None then (0, st)
                   else (let key = (sp_callId p, c_userId c, Credit);
                             delta = max 0 (earned - max 0 (num0 (coinTxns st key)));
                             st1 = (if delta > 0
                                    then update_user (c_userId c) (\<lambda>u. u\<lparr>u_coins := u_coins u + delta\<rparr>) st else st);
                             st2 = put_txn key earned st1
                         in case agencyOf st (c_id c) of
                              None \<Rightarrow> (earned, st2)
                            | Some agency \<Rightarrow>
                                (case staffDocs st agency of
                                   None \<Rightarrow> (earned, st2)
                                 | Some ag \<Rightarrow>
                                     if sd_role ag \<noteq> ''agency'' then (earned, st2)
                                     else if \<not> commission_ok then (0, st2)
                                     else (earned,
                                           staff_revenue_split p
                                             (resolveStaffCommissionBps now (nvl (sd_bdId ag) agency) (Some agency) st)
                                             agency (sd_bdId ag) st2)))))"

definition upsert_history :: "history_row \<Rightarrow> history_row list \<Rightarrow> history_row list" where
  "upsert_history r rows =
     (if \<exists>x \<in> set rows. h_callId x = h_callId r \<and> h_owner x = h_owner r
      then map (\<lambda>x. if h_callId x = h_callId r \<and> h_owner x = h_owner r then r else x) rows
      else rows @ [r])"

definition user_history_row :: "millis \<Rightarrow> settlement_plan \<Rightarrow> history_row" where
  "user_history_row now p =
     \<lparr> h_callId = sp_callId p, h_owner = sp_userMongoId p, h_ownerRole = ''user'', h_settlementStatus = ''settled'',
       h_settledAt = Some now, h_durationSeconds = sp_durationSeconds p, h_coinsDeducted = sp_totalDeducted p,
       h_walletCoinsDeducted = sp_walletCoinsDeducted p, h_coinsEarned = 0, h_paidCoinsEarned = 0, h_freeCoinsEarned = 0 \<rparr>"

definition creator_history_row :: "millis \<Rightarrow> settlement_plan \<Rightarrow> string \<Rightarrow> int \<Rightarrow> history_row" where
  "creator_history_row now p owner earned =
     (let (paid, free) = splitCreatorEarningsByDebit (of_int earned) (sp_introDeductedMicros p) (sp_walletDeductedMicros p)
      in \<lparr> h_callId = sp_callId p, h_owner = owner, h_ownerRole = ''creator'', h_settlementStatus = ''settled'',
           h_settledAt = Some now, h_durationSeconds = sp_durationSeconds p, h_coinsDeducted = 0,
           h_walletCoinsDeducted = 0, h_coinsEarned = earned, h_paidCoinsEarned = paid, h_freeCoinsEarned = free \<rparr>)"

definition write_histories :: "millis \<Rightarrow> settlement_plan \<Rightarrow> int \<Rightarrow> settle_state \<Rightarrow> settle_state" where
  "write_histories now p earned st =
     (let rows1 = upsert_history (user_history_row now p) (history st)
      in st\<lparr>history :=
           (case find (\<lambda>c. c_id c = sp_creatorMongoId p) (creators (core st)) of
              None \<Rightarrow> rows1
            | Some c \<Rightarrow> upsert_history (creator_history_row now p (c_userId c) earned) rows1)\<rparr>)"

definition settle_txn :: "millis \<Rightarrow> bool \<Rightarrow> settlement_plan \<Rightarrow> settle_state \<Rightarrow> int \<times> settle_state" where
  "settle_txn now commission_ok p st =
     (case credit_creator now commission_ok p (consume_intro_promo now p (debit_payer p st)) of
        (earned, st') \<Rightarrow> (earned, write_histories now p earned st'))"

section \<open>Attempts\<close>

datatype settle_fault =
    Commits | FailsTransient bool | FailsPermanent | CreatorSectionConflict | CommitUnknown bool

datatype settle_error = PayerMissing | TransactionFailed

definition history_settled :: "history_row \<Rightarrow> bool" where
  "history_settled r \<longleftrightarrow>
     h_settlementStatus r = ''settled'' \<or> h_settledAt r \<noteq> None \<or>
     (h_settlementStatus r \<noteq> ''pending'' \<and> h_coinsDeducted r > 0)"

definition user_history :: "string \<Rightarrow> settle_state \<Rightarrow> history_row option" where
  "user_history cid st = find (\<lambda>r. h_callId r = cid \<and> h_ownerRole r = ''user'') (history st)"

definition isCallBillingAlreadySettled :: "env \<Rightarrow> string \<Rightarrow> settle_state \<Rightarrow> bool" where
  "isCallBillingAlreadySettled env cid st \<longleftrightarrow>
     (kv (core st) (settledCallKey cid) \<noteq> None \<and> kv (core st) (settledCallKey cid) \<noteq> Some []) \<or>
     isDurableCallSessionFinalized env cid (durable st) \<or>
     (case user_history cid st of None \<Rightarrow> False | Some r \<Rightarrow> history_settled r) \<or>
     (case callSettlement (durable st) cid of None \<Rightarrow> False | Some c \<Rightarrow> cs_status c = ''settled'')"

definition SETTLEMENT_TXN_MAX_ATTEMPTS :: nat where
  "SETTLEMENT_TXN_MAX_ATTEMPTS = 3"

definition set_tombstone :: "string \<Rightarrow> string option \<Rightarrow> settle_state \<Rightarrow> settle_state" where
  "set_tombstone cid v st = st\<lparr>core := (core st)\<lparr>kv := (kv (core st))(settledCallKey cid := v)\<rparr>\<rparr>"

text \<open>What a settlement that finds itself already committed reports.\<close>

definition adopt_history :: "settlement_plan \<Rightarrow> history_row option \<Rightarrow> settlement_plan" where
  "adopt_history p r =
     (case r of
        None \<Rightarrow> p
      | Some h \<Rightarrow> p\<lparr>sp_totalDeducted := h_coinsDeducted h, sp_durationSeconds := h_durationSeconds h\<rparr>)"

text \<open>
  \<open>settle_attempts left p\<close> is the loop with \<open>left\<close> further attempts allowed after this one. The
  plan carries the creator amount, which the code keeps in a variable outside the loop.
\<close>

fun settle_attempts ::
  "env \<Rightarrow> (nat \<Rightarrow> settle_fault) \<Rightarrow> (nat \<Rightarrow> bool) \<Rightarrow> millis \<Rightarrow> nat \<Rightarrow> nat \<Rightarrow> settlement_plan \<Rightarrow> settle_state
   \<Rightarrow> (settle_error + settlement_plan) \<times> settle_state" where
  "settle_attempts env faults commission now left attempt p st =
     (case find_user (sp_userMongoId p) st of
        None \<Rightarrow> (Inl PayerMissing, set_tombstone (sp_callId p) None st)
      | Some _ \<Rightarrow>
          (case settle_txn now (commission attempt) p st of
             (earned, st') \<Rightarrow>
               (let retry = (\<lambda>p' s. case left of
                               0 \<Rightarrow> (Inl TransactionFailed, set_tombstone (sp_callId p) None s)
                             | Suc left' \<Rightarrow> settle_attempts env faults commission now left' (Suc attempt) p' s)
                in case faults attempt of
                     Commits \<Rightarrow> (Inr (p\<lparr>sp_totalEarnedCreator := earned\<rparr>), st')
                   | FailsPermanent \<Rightarrow> (Inl TransactionFailed, set_tombstone (sp_callId p) None st)
                   | FailsTransient late \<Rightarrow>
                       retry (if late then p\<lparr>sp_totalEarnedCreator := earned\<rparr> else p) st
                   | CreatorSectionConflict \<Rightarrow>
                       retry (if sp_totalEarnedCreator p > 0 then p\<lparr>sp_totalEarnedCreator := 0\<rparr> else p) st
                   | CommitUnknown applied \<Rightarrow>
                       (let s = (if applied then st' else st)
                        in if isCallBillingAlreadySettled env (sp_callId p) s
                           then (Inr (adopt_history (p\<lparr>sp_totalEarnedCreator := earned\<rparr>) (user_history (sp_callId p) s)), s)
                           else retry (p\<lparr>sp_totalEarnedCreator := earned\<rparr>) s))))"

declare settle_attempts.simps [simp del]

section \<open>The handler\<close>

definition isInvalidBillingCallId :: "string \<Rightarrow> bool" where
  "isInvalidBillingCallId cid \<longleftrightarrow> cid = [] \<or> ends_with cid '':terminal''"

definition settleLockKey :: "string \<Rightarrow> string" where
  "settleLockKey cid = ''settle:lock:'' @ cid"

definition release_if_match :: "string \<Rightarrow> string \<Rightarrow> keyspace \<Rightarrow> keyspace" where
  "release_if_match key v k = (if k key = Some v then k(key := None) else k)"

definition deleteBillingSessionRedisKeys :: "string \<Rightarrow> string \<Rightarrow> string \<Rightarrow> settle_state \<Rightarrow> settle_state" where
  "deleteBillingSessionRedisKeys cid userUid creatorUid st =
     (let c = clearCallSessionSeed cid (core st)
      in st\<lparr>core := c\<lparr>kv := release_if_match (callpairKey userUid creatorUid) cid
                         (release_if_match (activeCallByUserKey creatorUid) cid
                            (release_if_match (activeCallByUserKey userUid) cid (kv c)))\<rparr>\<rparr>)"

definition blank_session :: call_session where
  "blank_session =
     \<lparr> schemaVersion = 0, billingVersion = None, initialIntroMicros = None, initialWalletMicros = None,
       billingPricePerSecondMicros = None, introPromoActive = None, introPromoSessionId = None,
       totalIntroDeductedMicros = None, totalWalletDeductedMicros = None, callId = [], userFirebaseUid = [],
       creatorFirebaseUid = [], userMongoId = [], creatorMongoId = [], pricePerMinute = 0,
       pricePerSecondMicros = 0, creatorEarningsPerSecondMicros = 0, creatorShareAtCallTime = 0, startTime = 0,
       lastProcessedAt = 0, version = 0, billingSequence = 0, lifecycleState = None, totalDeductedMicros = 0,
       totalEarnedMicros = 0, elapsedSeconds = 0, effectiveDurationLimitSeconds = 0, lastCheckpointAtMs = None,
       lastCheckpointDeductedMicros = None, lastCheckpointEarnedMicros = None, lastEmitAtMs = None,
       lastHealthyTickAt = None, lastSocketEmitAt = None, lastSequenceAdvanceAt = None, expectedNextTickAtMs = None,
       instanceId = None, runtimeEpoch = None, leaderLock = None \<rparr>"

text \<open>The fields of the settlement's session the ledger flush reads.\<close>

definition view_session :: "stored_session option \<Rightarrow> settle_view \<Rightarrow> call_session" where
  "view_session raw v =
     (case raw of
        Some (Typed s) \<Rightarrow> s
      | _ \<Rightarrow> blank_session\<lparr>startTime := sv_startTime v, lastProcessedAt := sv_lastProcessedAt v,
               totalDeductedMicros := num0 (sv_totalDeducted v),
               totalEarnedMicros := num0 (sv_totalEarned v), elapsedSeconds := sv_elapsedSeconds v,
               billingSequence := sv_billingSequence v\<rparr>)"

definition use_ledger_totals :: "micros \<times> micros \<times> int \<Rightarrow> settle_view \<Rightarrow> settle_view" where
  "use_ledger_totals totals v =
     (case totals of
        (d, e, n) \<Rightarrow>
          if n > 0
          then v\<lparr>sv_totalDeducted := Some d, sv_totalEarned := Some e,
                 sv_totalWallet := Some (max 0 (d - max 0 (num0 (sv_totalIntro v))))\<rparr>
          else v)"

text \<open>Reading the session: the stored one, or the checkpoint's with the cursor flag.\<close>

definition settlement_session :: "worker \<Rightarrow> string \<Rightarrow> settle_state \<Rightarrow> (unit + settle_view) option" where
  "settlement_session w cid st =
     (case sessions (core st) cid of
        Some raw \<Rightarrow> (case view_of_stored raw of None \<Rightarrow> Some (Inl ()) | Some v \<Rightarrow> Some (Inr v))
      | None \<Rightarrow>
          if \<not> w_deltaCursorV3 w then None
          else (case checkpoints (core st) cid of
                  None \<Rightarrow> None
                | Some cp \<Rightarrow> map_option Inr (buildSettlementSessionFromCheckpoint (w_clock w) cp)))"

definition settlement_earnings_raw :: "worker \<Rightarrow> string \<Rightarrow> settle_state \<Rightarrow> int option" where
  "settlement_earnings_raw w cid st =
     (case earningsKey (core st) cid of
        Some e \<Rightarrow> Some e
      | None \<Rightarrow> if w_deltaCursorV3 w then map_option cp_totalEarnedMicros (checkpoints (core st) cid) else None)"

definition ledger_flush_for_settlement :: "worker \<Rightarrow> string \<Rightarrow> settle_view \<Rightarrow> settle_state \<Rightarrow> settle_view \<times> settle_state" where
  "ledger_flush_for_settlement w cid v st =
     (if \<not> isIncrementalBillingPersistEnabled (w_env w) \<or> \<not> w_db_ok w then (v, st)
      else (let ds = flushBillingPersist (w_env w) (w_inst w) (w_clock w) cid
                       (view_session (sessions (core st) cid) v) ''call_end'' (durable st)
            in (use_ledger_totals (sumLedgerForCall cid ds) v, st\<lparr>durable := ds\<rparr>)))"

datatype settle_outcome = Skipped string | Persisted settlement_plan | Threw settle_error | CorruptSession

definition release_settle_lock :: "string \<Rightarrow> string \<Rightarrow> settle_state \<Rightarrow> settle_state" where
  "release_settle_lock cid token st =
     st\<lparr>core := (core st)\<lparr>kv := release_if_match (settleLockKey cid) token (kv (core st))\<rparr>\<rparr>"

text \<open>
  Whether Redis answers the two reads of the handler. After the commit the clean-up of the keys is
  taken to succeed.
\<close>

datatype settle_reads = ReadsOk | SessionReadFails | BalanceReadFails

text \<open>
  The part of the handler under the settlement lock. A throw leaves the lock: nothing releases it,
  and the process keeps refreshing it.
\<close>

definition settle_locked ::
  "worker \<Rightarrow> settle_reads \<Rightarrow> (nat \<Rightarrow> settle_fault) \<Rightarrow> (nat \<Rightarrow> bool) \<Rightarrow> string \<Rightarrow> bool \<Rightarrow> string \<Rightarrow> settle_state
   \<Rightarrow> settle_outcome \<times> settle_state" where
  "settle_locked w reads faults commission token fromFinalizer cid st =
     (let unlock = release_settle_lock cid token
      in if reads = SessionReadFails then (Skipped ''redis_error'', unlock st)
         else case settlement_session w cid st of
           None \<Rightarrow>
             (let st1 = (case user_history cid st of
                           None \<Rightarrow> st
                         | Some r \<Rightarrow> if history_settled r then set_tombstone cid (Some ''1'') st else st)
              in (Skipped ''no_session'', unlock st1))
         | Some (Inl _) \<Rightarrow> (CorruptSession, st)
         | Some (Inr v0) \<Rightarrow>
             (case ledger_flush_for_settlement w cid v0 st of
                (v, st1) \<Rightarrow>
                  if (case find (\<lambda>r. h_callId r = cid \<and> h_owner r = sv_userMongoId v) (history st1) of
                        None \<Rightarrow> False | Some r \<Rightarrow> history_settled r)
                  then (Skipped ''already_settled'',
                        unlock (set_tombstone cid (Some ''1'')
                          (deleteBillingSessionRedisKeys cid (sv_userFirebaseUid v) (sv_creatorFirebaseUid v) st1)))
                  else if reads = BalanceReadFails then (Skipped ''redis_error'', unlock st1)
                  else (let p = settlement_plan_of cid (settlement_earnings_raw w cid st1) v
                                  (resolveAuthoritativeSettlementTotals (w_env w) cid st1)
                        in case settle_attempts (w_env w) faults commission (w_clock w)
                                  (SETTLEMENT_TXN_MAX_ATTEMPTS - 1) 0 p st1 of
                             (Inl e, st2) \<Rightarrow> (Threw e, st2)
                           | (Inr p', st2) \<Rightarrow>
                               if fromFinalizer then (Persisted p', st2)
                               else (Persisted p',
                                     unlock (set_tombstone cid (Some ''1'')
                                       (deleteBillingSessionRedisKeys cid (sv_userFirebaseUid v) (sv_creatorFirebaseUid v) st2))))))"

definition tombstoned :: "string \<Rightarrow> settle_state \<Rightarrow> bool" where
  "tombstoned cid st \<longleftrightarrow>
     kv (core st) (settledCallKey cid) \<noteq> None \<and> kv (core st) (settledCallKey cid) \<noteq> Some []"

definition settleCall ::
  "worker \<Rightarrow> (nat \<Rightarrow> millis) \<Rightarrow> (nat \<Rightarrow> nat \<Rightarrow> worker) \<Rightarrow> settle_reads \<Rightarrow> (nat \<Rightarrow> settle_fault) \<Rightarrow> (nat \<Rightarrow> bool) \<Rightarrow> string \<Rightarrow> bool
   \<Rightarrow> string \<Rightarrow> settle_state \<Rightarrow> settle_outcome \<times> settle_state" where
  "settleCall w t ws reads faults commission token fromFinalizer cid st =
     (if isInvalidBillingCallId cid then (Skipped ''invalid_call_id'', st)
      else if fromFinalizer then settle_locked w reads faults commission token True cid st
      else if tombstoned cid st then (Skipped ''already_settled'', st)
      else (let st1 = st\<lparr>core := fst (snd (flushBillingToQuiescence t ws cid (core st)))\<rparr>
            in if tombstoned cid st1 then (Skipped ''already_settled'', st1)
               else if kv (core st1) (settleLockKey cid) \<noteq> None then (Skipped ''in_progress'', st1)
               else settle_locked w reads faults commission token False cid
                      (st1\<lparr>core := (core st1)\<lparr>kv := (kv (core st1))(settleLockKey cid \<mapsto> token)\<rparr>\<rparr>)))"

end
