(* ===== verification/SettlementProofs.thy ===== *)
theory SettlementProofs
  imports Settlement
begin

text \<open>
  What a settlement guarantees: the payer is debited exactly once whatever happens to the attempts
  of the transaction, replaying a committed transaction moves no coins, the creator is never credited
  more than the user is charged, a settled call stays settled, and the branches where the code loses
  the creator's credit or keeps the settlement lock.
\<close>

section \<open>Collections\<close>

lemma find_map_update:
  assumes "\<And>u. u_id (f u) = u_id u"
  shows "find (\<lambda>u. u_id u = v) (map (\<lambda>u. if u_id u = uid then f u else u) us) =
    (if v = uid then map_option f (find (\<lambda>u. u_id u = v) us) else find (\<lambda>u. u_id u = v) us)"
  using assms by (induction us) auto

lemma find_user_update:
  assumes "\<And>u. u_id (f u) = u_id u"
  shows "find_user v (update_user uid f st) = (if v = uid then map_option f (find_user v st) else find_user v st)"
  using find_map_update [OF assms] by (simp add: find_user_def update_user_def)

lemma update_user_fields [simp]:
  "coinTxns (update_user uid f st) = coinTxns st" "history (update_user uid f st) = history st"
  "staffLedger (update_user uid f st) = staffLedger st" "staffBalance (update_user uid f st) = staffBalance st"
  "durable (update_user uid f st) = durable st" "agencyOf (update_user uid f st) = agencyOf st"
  "staffDocs (update_user uid f st) = staffDocs st" "profiles (update_user uid f st) = profiles st"
  "platformBps (update_user uid f st) = platformBps st"
  "creators (core (update_user uid f st)) = creators (core st)" "kv (core (update_user uid f st)) = kv (core st)"
  by (simp_all add: update_user_def)

lemma put_txn_fields [simp]:
  "find_user v (put_txn k a st) = find_user v st" "history (put_txn k a st) = history st"
  "staffLedger (put_txn k a st) = staffLedger st" "staffBalance (put_txn k a st) = staffBalance st"
  "core (put_txn k a st) = core st" "durable (put_txn k a st) = durable st"
  "agencyOf (put_txn k a st) = agencyOf st" "staffDocs (put_txn k a st) = staffDocs st"
  "profiles (put_txn k a st) = profiles st" "platformBps (put_txn k a st) = platformBps st"
  "coinTxns (put_txn k a st) = (coinTxns st)(k \<mapsto> a)"
  by (simp_all add: put_txn_def find_user_def)

lemma credit_staff_fields [simp]:
  "find_user v (credit_staff key s a st) = find_user v st" "history (credit_staff key s a st) = history st"
  "core (credit_staff key s a st) = core st" "durable (credit_staff key s a st) = durable st"
  "coinTxns (credit_staff key s a st) = coinTxns st" "agencyOf (credit_staff key s a st) = agencyOf st"
  "staffDocs (credit_staff key s a st) = staffDocs st" "profiles (credit_staff key s a st) = profiles st"
  "platformBps (credit_staff key s a st) = platformBps st"
  by (simp_all add: credit_staff_def find_user_def)

lemma staff_split_fields [simp]:
  "find_user v (staff_revenue_split p r ag bd st) = find_user v st"
  "history (staff_revenue_split p r ag bd st) = history st"
  "core (staff_revenue_split p r ag bd st) = core st" "durable (staff_revenue_split p r ag bd st) = durable st"
  "coinTxns (staff_revenue_split p r ag bd st) = coinTxns st"
  by (simp_all add: staff_revenue_split_def Let_def split: option.split prod.split)

lemma write_histories_fields [simp]:
  "find_user v (write_histories now p e st) = find_user v st" "core (write_histories now p e st) = core st"
  "durable (write_histories now p e st) = durable st" "coinTxns (write_histories now p e st) = coinTxns st"
  "staffLedger (write_histories now p e st) = staffLedger st" "staffBalance (write_histories now p e st) = staffBalance st"
  by (simp_all add: write_histories_def find_user_def Let_def)

abbreviation coins_of :: "string \<Rightarrow> settle_state \<Rightarrow> int option" where
  "coins_of uid st \<equiv> map_option u_coins (find_user uid st)"

abbreviation wallet_target :: "settlement_plan \<Rightarrow> int" where
  "wallet_target p \<equiv> microsToUserDebitWholeCoins (sp_walletDeductedMicros p)"

lemma debit_payer_coins:
  "coins_of v (debit_payer p st) =
     (if v = sp_userMongoId p
      then map_option (\<lambda>c. if wallet_target p > max 0 (num0 (coinTxns st (sp_callId p, v, Debit)))
                           then max 0 (c - (wallet_target p - max 0 (num0 (coinTxns st (sp_callId p, v, Debit))))) else c)
             (coins_of v st)
      else coins_of v st)"
  by (auto simp: debit_payer_def Let_def find_user_update option.map_comp comp_def userDebit_nonneg max_def
      intro!: option.map_cong0)

lemma debit_payer_txn:
  "coinTxns (debit_payer p st) k =
     (if k = (sp_callId p, sp_userMongoId p, Debit) \<and> wallet_target p > 0 then Some (wallet_target p) else coinTxns st k)"
  using userDebit_nonneg [of "sp_walletDeductedMicros p"] by (simp add: debit_payer_def Let_def)

lemma consume_intro_keeps [simp]:
  "coins_of v (consume_intro_promo now p st) = coins_of v st"
  "coinTxns (consume_intro_promo now p st) = coinTxns st"
  "creators (core (consume_intro_promo now p st)) = creators (core st)"
  "kv (core (consume_intro_promo now p st)) = kv (core st)"
  by (auto simp: consume_intro_promo_def find_user_update option.map_comp comp_def intro!: option.map_cong0)

lemma debit_payer_keeps [simp]:
  "creators (core (debit_payer p st)) = creators (core st)" "kv (core (debit_payer p st)) = kv (core st)"
  by (simp_all add: debit_payer_def Let_def)

lemma credit_creator_coins:
  assumes "\<forall>c \<in> set (creators (core st)). c_userId c \<noteq> v"
  shows "coins_of v (snd (credit_creator now ok p st)) = coins_of v st"
    and "coinTxns (snd (credit_creator now ok p st)) (sp_callId p, v, k) = coinTxns st (sp_callId p, v, k)"
proof -
  have "c_userId c \<noteq> v" if "find (\<lambda>c. c_id c = sp_creatorMongoId p) (creators (core st)) = Some c" for c
    using that assms by (auto simp: find_Some_iff)
  then show "coins_of v (snd (credit_creator now ok p st)) = coins_of v st"
    and "coinTxns (snd (credit_creator now ok p st)) (sp_callId p, v, k) = coinTxns st (sp_callId p, v, k)"
    by (auto simp: credit_creator_def Let_def find_user_update split: option.splits)
qed

lemma credit_creator_core [simp]:
  "creators (core (snd (credit_creator now ok p st))) = creators (core st)"
  "kv (core (snd (credit_creator now ok p st))) = kv (core st)"
  by (simp_all add: credit_creator_def Let_def split: option.split)

lemma settle_txn_core [simp]:
  "creators (core (snd (settle_txn now ok p st))) = creators (core st)"
  "kv (core (snd (settle_txn now ok p st))) = kv (core st)"
  by (simp_all add: settle_txn_def case_prod_beta)

lemma settle_txn_payer:
  assumes "\<forall>c \<in> set (creators (core st)). c_userId c \<noteq> sp_userMongoId p"
  shows "coins_of (sp_userMongoId p) (snd (settle_txn now ok p st)) = coins_of (sp_userMongoId p) (debit_payer p st)"
    and "coinTxns (snd (settle_txn now ok p st)) (sp_callId p, sp_userMongoId p, Debit) =
       coinTxns (debit_payer p st) (sp_callId p, sp_userMongoId p, Debit)"
  using assms by (simp_all add: settle_txn_def case_prod_beta credit_creator_coins)

section \<open>Exactly one debit\<close>

definition debited :: "settlement_plan \<Rightarrow> int \<Rightarrow> settle_state \<Rightarrow> bool" where
  "debited p c0 st \<longleftrightarrow>
     coins_of (sp_userMongoId p) st = Some (max 0 (c0 - wallet_target p)) \<and>
     num0 (coinTxns st (sp_callId p, sp_userMongoId p, Debit)) = wallet_target p \<and>
     (\<forall>c \<in> set (creators (core st)). c_userId c \<noteq> sp_userMongoId p)"

definition undebited :: "settlement_plan \<Rightarrow> int \<Rightarrow> settle_state \<Rightarrow> bool" where
  "undebited p c0 st \<longleftrightarrow>
     coins_of (sp_userMongoId p) st = Some c0 \<and> 0 \<le> c0 \<and>
     coinTxns st (sp_callId p, sp_userMongoId p, Debit) = None \<and>
     (\<forall>c \<in> set (creators (core st)). c_userId c \<noteq> sp_userMongoId p)"

lemma settle_txn_debits: "undebited p c0 st \<Longrightarrow> debited p c0 (snd (settle_txn now ok p st))"
  using userDebit_nonneg [of "sp_walletDeductedMicros p"]
  by (auto simp: undebited_def debited_def settle_txn_payer debit_payer_coins debit_payer_txn)

lemma settle_txn_redo: "debited p c0 st \<Longrightarrow> debited p c0 (snd (settle_txn now ok p st))"
  using userDebit_nonneg [of "sp_walletDeductedMicros p"]
  by (auto simp: debited_def settle_txn_payer debit_payer_coins debit_payer_txn)

lemma debited_earned [simp]:
  "debited (p\<lparr>sp_totalEarnedCreator := e\<rparr>) c0 st = debited p c0 st"
  "undebited (p\<lparr>sp_totalEarnedCreator := e\<rparr>) c0 st = undebited p c0 st"
  by (simp_all add: debited_def undebited_def)

lemma attempts_debit:
  assumes "settle_attempts env faults commission now left attempt p st = (Inr p', st')"
    and "(st = st0 \<and> undebited p c0 st0 \<and> \<not> isCallBillingAlreadySettled env (sp_callId p) st0) \<or> debited p c0 st"
  shows "debited p c0 st'"
  using assms
proof (induction left arbitrary: attempt p st)
  case 0
  then show ?case
    by (subst (asm) settle_attempts.simps)
      (auto simp: Let_def settle_txn_debits settle_txn_redo split: option.splits prod.splits settle_fault.splits if_splits
        dest: settle_txn_debits [where now = now and ok = "commission attempt"]
              settle_txn_redo [where now = now and ok = "commission attempt"])
next
  case (Suc left)
  obtain earned st1 where t: "settle_txn now (commission attempt) p st = (earned, st1)" by fastforce
  have st1: "debited p c0 st1"
    using Suc.prems(2) settle_txn_debits [of p c0 st now "commission attempt"]
      settle_txn_redo [of p c0 st now "commission attempt"] t by auto
  have again: "debited p c0 st'" if r: "settle_attempts env faults commission now left (Suc attempt) q s = (Inr p', st')"
    "q = p \<or> (\<exists>e. q = p\<lparr>sp_totalEarnedCreator := e\<rparr>)" "s = st \<or> debited p c0 s" for q s
  proof -
    have "(s = st0 \<and> undebited q c0 st0 \<and> \<not> isCallBillingAlreadySettled env (sp_callId q) st0) \<or> debited q c0 s"
      using r(2,3) Suc.prems(2) by auto
    then have "debited q c0 st'" using Suc.IH r(1) by blast
    then show ?thesis using r(2) by auto
  qed
  obtain u where u: "find_user (sp_userMongoId p) st = Some u"
    using Suc.prems(1) by (subst (asm) settle_attempts.simps) (auto split: option.splits)
  show ?case
  proof (cases "faults attempt")
    case Commits
    then show ?thesis using Suc.prems(1) t u st1 by (subst (asm) settle_attempts.simps) auto
  next
    case (FailsTransient late)
    then have "settle_attempts env faults commission now left (Suc attempt)
        (if late then p\<lparr>sp_totalEarnedCreator := earned\<rparr> else p) st = (Inr p', st')"
      using Suc.prems(1) t u by (subst (asm) settle_attempts.simps) (simp add: Let_def)
    then show ?thesis by (rule again) auto
  next
    case FailsPermanent
    then show ?thesis using Suc.prems(1) t u by (subst (asm) settle_attempts.simps) auto
  next
    case CreatorSectionConflict
    then have "settle_attempts env faults commission now left (Suc attempt)
        (if sp_totalEarnedCreator p > 0 then p\<lparr>sp_totalEarnedCreator := 0\<rparr> else p) st = (Inr p', st')"
      using Suc.prems(1) t u by (subst (asm) settle_attempts.simps) (simp add: Let_def)
    then show ?thesis by (rule again) auto
  next
    case (CommitUnknown applied)
    let ?s = "if applied then st1 else st"
    consider "isCallBillingAlreadySettled env (sp_callId p) ?s" "st' = ?s"
      | "settle_attempts env faults commission now left (Suc attempt) (p\<lparr>sp_totalEarnedCreator := earned\<rparr>) ?s = (Inr p', st')"
      using CommitUnknown Suc.prems(1) t u
      by (subst (asm) (1) settle_attempts.simps) (auto simp: Let_def split: if_splits)
    then show ?thesis
    proof cases
      case 1
      then show ?thesis using st1 Suc.prems(2) by (auto split: if_splits)
    next
      case 2
      then show ?thesis by (rule again) (use st1 in auto)
    qed
  qed
qed

section \<open>Redoing a transaction\<close>

lemma update_user_id:
  "(\<And>u. u \<in> set (users (core st)) \<Longrightarrow> u_id u = uid \<Longrightarrow> f u = u) \<Longrightarrow> update_user uid f st = st"
  by (simp add: update_user_def map_idI)

lemma debit_payer_redo:
  assumes "wallet_target p > 0 \<Longrightarrow> coinTxns st (sp_callId p, sp_userMongoId p, Debit) = Some (wallet_target p)"
  shows "debit_payer p st = st"
  using assms userDebit_nonneg [of "sp_walletDeductedMicros p"]
  by (cases "wallet_target p > 0") (simp_all add: debit_payer_def put_txn_def Let_def fun_upd_idem)

definition intro_settled :: "settlement_plan \<Rightarrow> settle_state \<Rightarrow> bool" where
  "intro_settled p st \<longleftrightarrow>
     (sp_introPromoActive p \<and> sp_introDeductedMicros p > 0 \<longrightarrow>
      (\<forall>u \<in> set (users (core st)). u_id u = sp_userMongoId p \<longrightarrow>
         \<not> (u_welcomeFreeCallConsumedAt u = None \<and> num0 (u_introFreeCallCredits u) > 0)))"

lemma consume_intro_redo: "intro_settled p st \<Longrightarrow> consume_intro_promo now p st = st"
  by (auto simp: consume_intro_promo_def intro_settled_def intro!: update_user_id)

lemma consume_intro_settles: "intro_settled p (consume_intro_promo now p st)"
  by (auto simp: consume_intro_promo_def intro_settled_def update_user_def)

lemma credit_keeps_intro: "intro_settled p st \<Longrightarrow> intro_settled p (snd (credit_creator now ok q st))"
  by (auto simp: intro_settled_def credit_creator_def Let_def update_user_def split: option.splits)

lemma credit_staff_redo: "(a > 0 \<Longrightarrow> staffLedger st key \<noteq> None) \<Longrightarrow> credit_staff key s a st = st"
  by (auto simp: credit_staff_def)

lemma credit_creator_txn:
  assumes "find (\<lambda>c. c_id c = sp_creatorMongoId p) (creators (core st)) = Some c"
    and "find_user (c_userId c) st \<noteq> None" and "0 < sp_totalEarnedCreator p"
  shows "coinTxns (snd (credit_creator now ok p st)) (sp_callId p, c_userId c, Credit) = Some (sp_totalEarnedCreator p)"
  using assms by (auto simp: credit_creator_def Let_def split: option.splits)

lemma credit_creator_debit_rows [simp]:
  "coinTxns (snd (credit_creator now ok p st)) (i, v, Debit) = coinTxns st (i, v, Debit)"
  by (simp add: credit_creator_def Let_def split: option.split)

lemma credit_creator_redo:
  assumes "\<And>c. find (\<lambda>c. c_id c = sp_creatorMongoId p) (creators (core st)) = Some c \<Longrightarrow>
      find_user (c_userId c) st \<noteq> None \<Longrightarrow> 0 < sp_totalEarnedCreator p \<Longrightarrow>
      coinTxns st (sp_callId p, c_userId c, Credit) = Some (sp_totalEarnedCreator p)"
  shows "find_user v (snd (credit_creator now ok p st)) = find_user v st"
  using assms by (auto simp: credit_creator_def Let_def split: option.splits)

lemma credit_creator_dom: "(find_user v (snd (credit_creator now ok p st)) = None) = (find_user v st = None)"
  by (auto simp: credit_creator_def Let_def find_user_update split: option.splits)

lemma credit_staff_ledger: "staffLedger st k \<noteq> None \<Longrightarrow> staffLedger (credit_staff key s a st) k = staffLedger st k"
  by (auto simp: credit_staff_def)

lemma staff_split_redo:
  assumes "staffLedger st (''staff_ledger_call_'' @ sp_callId p @ ''_bd_credit'') \<noteq> None"
    and "staffLedger st (''staff_ledger_call_'' @ sp_callId p @ ''_agency_credit'') \<noteq> None"
  shows "staff_revenue_split p r ag bd st = st"
proof -
  obtain b a where c: "computeStaffCutsFromHostEarnings (sp_totalEarnedCreator p) (fst r) (snd r) (bd \<noteq> None) = (b, a)"
    by fastforce
  show ?thesis
    unfolding staff_revenue_split_def c Let_def prod.case
    by (cases bd) (simp_all only: option.case credit_staff_redo assms not_False_eq_True simp_thms)
qed

lemma credit_creator_staff_redo:
  assumes "staffLedger st (''staff_ledger_call_'' @ sp_callId p @ ''_bd_credit'') \<noteq> None"
    and "staffLedger st (''staff_ledger_call_'' @ sp_callId p @ ''_agency_credit'') \<noteq> None"
  shows "staffBalance (snd (credit_creator now ok p st)) = staffBalance st"
  using assms by (simp add: credit_creator_def Let_def staff_split_redo split: option.split)

lemma debit_payer_staff [simp]:
  "staffBalance (debit_payer p st) = staffBalance st" "staffLedger (debit_payer p st) = staffLedger st"
  by (simp_all add: debit_payer_def Let_def)

lemma consume_intro_staff [simp]:
  "staffBalance (consume_intro_promo now p st) = staffBalance st"
  "staffLedger (consume_intro_promo now p st) = staffLedger st"
  by (simp_all add: consume_intro_promo_def)

lemma consume_intro_dom [simp]: "(find_user v (consume_intro_promo now p st) = None) = (find_user v st = None)"
  by (auto simp: consume_intro_promo_def find_user_update)

lemma debit_payer_dom [simp]: "(find_user v (debit_payer p st) = None) = (find_user v st = None)"
  by (auto simp: debit_payer_def Let_def find_user_update)

text \<open>The rows a committed transaction leaves, which a second run of it compares with.\<close>

definition settled_rows :: "settlement_plan \<Rightarrow> settle_state \<Rightarrow> bool" where
  "settled_rows p st \<longleftrightarrow>
     (wallet_target p > 0 \<longrightarrow> coinTxns st (sp_callId p, sp_userMongoId p, Debit) = Some (wallet_target p)) \<and>
     (\<forall>c. find (\<lambda>c. c_id c = sp_creatorMongoId p) (creators (core st)) = Some c \<longrightarrow>
        find_user (c_userId c) st \<noteq> None \<longrightarrow> 0 < sp_totalEarnedCreator p \<longrightarrow>
        coinTxns st (sp_callId p, c_userId c, Credit) = Some (sp_totalEarnedCreator p))"

lemma settle_txn_rows: "settled_rows p (snd (settle_txn now ok p st))"
  using userDebit_nonneg [of "sp_walletDeductedMicros p"]
  by (auto simp: settled_rows_def settle_txn_def case_prod_beta debit_payer_txn credit_creator_txn credit_creator_dom)

lemma settle_txn_again:
  assumes "settled_rows p st"
  shows "coins_of v (snd (settle_txn now ok p st)) = coins_of v st"
proof -
  let ?s = "consume_intro_promo now p (debit_payer p st)"
  have d: "debit_payer p st = st" using assms by (simp add: settled_rows_def debit_payer_redo)
  have "find_user v (snd (credit_creator now ok p ?s)) = find_user v ?s"
    using assms by (intro credit_creator_redo) (auto simp: settled_rows_def d)
  then show ?thesis using d by (simp add: settle_txn_def case_prod_beta)
qed

lemma settle_txn_staff_again:
  assumes "staffLedger st (''staff_ledger_call_'' @ sp_callId p @ ''_bd_credit'') \<noteq> None"
    and "staffLedger st (''staff_ledger_call_'' @ sp_callId p @ ''_agency_credit'') \<noteq> None"
  shows "staffBalance (snd (settle_txn now ok p st)) = staffBalance st"
  using assms by (simp add: settle_txn_def case_prod_beta credit_creator_staff_redo)

section \<open>The handler\<close>

lemma same_plan_payer:
  "sp_walletCoinsDeducted (settlement_plan_of cid e v t) = wallet_target (settlement_plan_of cid e v t)"
  "sp_callId (settlement_plan_of cid e v t) = cid" "sp_userMongoId (settlement_plan_of cid e v t) = sv_userMongoId v"
  by (simp_all add: settlement_plan_of_def Let_def)

definition plan_payer :: "settlement_plan \<Rightarrow> string \<times> string \<times> micros \<times> int" where
  "plan_payer p = (sp_callId p, sp_userMongoId p, sp_walletDeductedMicros p, sp_walletCoinsDeducted p)"

lemma plan_payer_upd [simp]:
  "plan_payer (p\<lparr>sp_totalEarnedCreator := e\<rparr>) = plan_payer p" "plan_payer (adopt_history p r) = plan_payer p"
  by (simp_all add: plan_payer_def adopt_history_def split: option.split)

lemma settle_txn_kv: "settle_txn now ok p st = (e, st') \<Longrightarrow> kv (core st') = kv (core st)"
  using settle_txn_core(2) [of now ok p st] by simp

definition attempt_keeps :: "settlement_plan \<Rightarrow> settle_state \<Rightarrow> settle_error + settlement_plan \<Rightarrow> settle_state \<Rightarrow> bool" where
  "attempt_keeps p st r st' \<longleftrightarrow>
     (case r of Inl _ \<Rightarrow> True | Inr p' \<Rightarrow> plan_payer p' = plan_payer p) \<and>
     (\<forall>k. k \<noteq> settledCallKey (sp_callId p) \<longrightarrow> kv (core st') k = kv (core st) k)"

lemma attempt_keeps_base:
  "attempt_keeps p st (Inl e) (set_tombstone (sp_callId p) None st)"
  "kv (core s) = kv (core st) \<Longrightarrow> attempt_keeps p st (Inl e) (set_tombstone (sp_callId p) None s)"
  "kv (core s) = kv (core st) \<Longrightarrow> plan_payer q = plan_payer p \<Longrightarrow> attempt_keeps p st (Inr q) s"
  by (auto simp: attempt_keeps_def set_tombstone_def)

lemma attempts_keep:
  assumes "settle_attempts env faults commission now left attempt p st = (r, st')"
  shows "attempt_keeps p st r st'"
  using assms
proof (induction left arbitrary: attempt p st)
  case 0
  then show ?case
    by (subst (asm) settle_attempts.simps)
      (auto simp: Let_def attempt_keeps_base dest!: settle_txn_kv
        split: option.splits prod.splits settle_fault.splits if_splits)
next
  case (Suc left)
  obtain earned st1 where t: "settle_txn now (commission attempt) p st = (earned, st1)" by fastforce
  note k1 = settle_txn_kv [OF t]
  have again: ?case if "settle_attempts env faults commission now left (Suc attempt) q s = (r, st')"
    "plan_payer q = plan_payer p" "kv (core s) = kv (core st)" for q s
    using Suc.IH [OF that(1)] that(2,3) by (auto simp: attempt_keeps_def plan_payer_def split: sum.splits)
  show ?case
  proof (cases "find_user (sp_userMongoId p) st")
    case None
    then show ?thesis using Suc.prems by (subst (asm) settle_attempts.simps) (auto simp: attempt_keeps_base)
  next
    case (Some u)
    note step = Suc.prems [unfolded settle_attempts.simps [of env faults commission now "Suc left"]]
    show ?thesis
      by (cases "faults attempt")
        (use step t Some k1 in \<open>auto simp: Let_def attempt_keeps_base split: if_splits intro: again\<close>)
  qed
qed

lemma ledger_totals_keeps [simp]:
  "dd_finalized (ledger_totals env now s n d) = dd_finalized d" "dd_state (ledger_totals env now s n d) = dd_state d"
  by (simp_all add: ledger_totals_def)

lemma persist_keeps_settled:
  assumes "isIncrementalBillingPersistEnabled env"
  shows "isDurableCallSessionFinalized env i (flushBillingPersist env inst now cid s reason st) =
      isDurableCallSessionFinalized env i st"
    and "callSettlement (flushBillingPersist env inst now cid s reason st) = callSettlement st"
  using assms
  by (auto simp: flushBillingPersist_def isDurableCallSessionFinalized_def find_and_update_def Let_def
      split: option.split)

lemma ledger_flush_keeps:
  assumes "ledger_flush_for_settlement w cid v st = (v', st')"
  shows "core st' = core st" "coinTxns st' = coinTxns st" "history st' = history st"
    "isCallBillingAlreadySettled (w_env w) i st' = isCallBillingAlreadySettled (w_env w) i st"
    "sv_userMongoId v' = sv_userMongoId v" "sv_userFirebaseUid v' = sv_userFirebaseUid v"
    "sv_creatorFirebaseUid v' = sv_creatorFirebaseUid v" "staffLedger st' = staffLedger st"
  using assms
  by (auto simp: ledger_flush_for_settlement_def use_ledger_totals_def Let_def isCallBillingAlreadySettled_def
      user_history_def persist_keeps_settled split: if_splits prod.splits)

lemma settle_locked_attempts:
  assumes "settle_locked w reads faults commission token fin cid st = (out, st')"
    and "(\<exists>p. out = Persisted p) \<or> (\<exists>e. out = Threw e)"
  obtains st1 p r st2 and v :: settle_view where
    "core st1 = core st" "coinTxns st1 = coinTxns st" "history st1 = history st"
    "isCallBillingAlreadySettled (w_env w) cid st1 = isCallBillingAlreadySettled (w_env w) cid st"
    "sp_callId p = cid" "sp_walletCoinsDeducted p = wallet_target p"
    "settle_attempts (w_env w) faults commission (w_clock w) 2 0 p st1 = (r, st2)"
    "(out, st') = (case r of Inl e \<Rightarrow> (Threw e, st2) | Inr p' \<Rightarrow> (Persisted p', if fin then st2
       else release_settle_lock cid token (set_tombstone cid (Some ''1'')
         (deleteBillingSessionRedisKeys cid (sv_userFirebaseUid v) (sv_creatorFirebaseUid v) st2))))"
proof -
  have n: "reads \<noteq> SessionReadFails" using assms by (auto simp: settle_locked_def Let_def)
  obtain v0 where v0: "settlement_session w cid st = Some (Inr v0)"
  proof (cases "settlement_session w cid st")
    case None
    then show ?thesis using assms n by (auto simp: settle_locked_def Let_def)
  next
    case (Some x)
    then show ?thesis using assms n by (cases x) (auto simp: settle_locked_def Let_def that)
  qed
  obtain v st1 where f: "ledger_flush_for_settlement w cid v0 st = (v, st1)" by fastforce
  define p where "p = settlement_plan_of cid (settlement_earnings_raw w cid st1) v
    (resolveAuthoritativeSettlementTotals (w_env w) cid st1)"
  obtain r st2 where a: "settle_attempts (w_env w) faults commission (w_clock w) 2 0 p st1 = (r, st2)" by fastforce
  have r: "(out, st') = (case r of Inl e \<Rightarrow> (Threw e, st2) | Inr p' \<Rightarrow> (Persisted p', if fin then st2
       else release_settle_lock cid token (set_tombstone cid (Some ''1'')
         (deleteBillingSessionRedisKeys cid (sv_userFirebaseUid v) (sv_creatorFirebaseUid v) st2))))"
    using assms a n
    by (auto simp: settle_locked_def Let_def v0 f p_def [symmetric] SETTLEMENT_TXN_MAX_ATTEMPTS_def
        split: if_splits sum.splits)
  note k = ledger_flush_keeps [OF f]
  show thesis
    by (rule that [OF k(1-4) _ _ a r]) (simp_all add: p_def same_plan_payer)
qed

lemma settle_locked_persisted:
  assumes "settle_locked w reads faults commission token fin cid st = (Persisted p', st')"
  obtains st1 p st2 and v :: settle_view where
    "core st1 = core st" "coinTxns st1 = coinTxns st" "history st1 = history st"
    "isCallBillingAlreadySettled (w_env w) cid st1 = isCallBillingAlreadySettled (w_env w) cid st"
    "sp_callId p = cid" "sp_walletCoinsDeducted p = wallet_target p"
    "settle_attempts (w_env w) faults commission (w_clock w) 2 0 p st1 = (Inr p', st2)"
    "st' = (if fin then st2 else release_settle_lock cid token (set_tombstone cid (Some ''1'')
       (deleteBillingSessionRedisKeys cid (sv_userFirebaseUid v) (sv_creatorFirebaseUid v) st2)))"
  by (rule settle_locked_attempts [OF assms]) (auto split: sum.splits intro: that)

lemma settle_locked_threw:
  assumes "settle_locked w reads faults commission token fin cid st = (Threw e, st')"
  obtains st1 p where
    "core st1 = core st" "settle_attempts (w_env w) faults commission (w_clock w) 2 0 p st1 = (Inl e, st')"
  by (rule settle_locked_attempts [OF assms]) (auto split: sum.splits intro: that)

lemma release_keeps: "k \<noteq> key \<Longrightarrow> release_if_match key v m k = m k"
  by (simp add: release_if_match_def)

lemma settle_keys_distinct [simp]:
  "settledCallKey cid \<noteq> settleLockKey cid'" "settleLockKey cid' \<noteq> settledCallKey cid"
  "settleLockKey cid \<noteq> activeCallByUserKey u" "settleLockKey cid \<noteq> callpairKey a b"
  by (simp_all add: settledCallKey_def settleLockKey_def activeCallByUserKey_def callpairKey_def Let_def)

lemma cleanup_keeps_lock [simp]:
  "kv (core (deleteBillingSessionRedisKeys cid u c st)) (settleLockKey cid) = kv (core st) (settleLockKey cid)"
  by (simp add: deleteBillingSessionRedisKeys_def Let_def clearCallSessionSeed_def release_keeps)

lemma cleanup_keeps_money:
  "find_user v (release_settle_lock cid token (set_tombstone cid x (deleteBillingSessionRedisKeys cid u c st))) = find_user v st"
  "coinTxns (release_settle_lock cid token (set_tombstone cid x (deleteBillingSessionRedisKeys cid u c st))) = coinTxns st"
  by (simp_all add: release_settle_lock_def set_tombstone_def deleteBillingSessionRedisKeys_def Let_def find_user_def
      clearCallSessionSeed_def)

lemma attempts_keep_lock:
  "settle_attempts env faults commission now left attempt p st = (r, st') \<Longrightarrow>
   kv (core st') (settleLockKey cid) = kv (core st) (settleLockKey cid)"
  by (drule attempts_keep) (simp add: attempt_keeps_def)

lemma settled_skips:
  "tombstoned cid st \<Longrightarrow> isInvalidBillingCallId cid \<or> 
   settleCall w t ws reads faults commission token False cid st = (Skipped ''already_settled'', st)"
  by (simp add: settleCall_def)

lemma locked_debits_once:
  assumes "settle_locked w reads faults commission token fin cid st = (Persisted p, st')"
    and "\<not> isCallBillingAlreadySettled (w_env w) cid st"
    and "map_option u_coins (find_user (sp_userMongoId p) st) = Some c0" and "0 \<le> c0"
    and "coinTxns st (cid, sp_userMongoId p, Debit) = None"
    and "\<forall>c \<in> set (creators (core st)). c_userId c \<noteq> sp_userMongoId p"
  shows "map_option u_coins (find_user (sp_userMongoId p) st') = Some (max 0 (c0 - sp_walletCoinsDeducted p)) \<and>
    num0 (coinTxns st' (cid, sp_userMongoId p, Debit)) = sp_walletCoinsDeducted p"
proof -
  obtain st1 q st2 and v :: settle_view where 1: "core st1 = core st" "coinTxns st1 = coinTxns st"
      "isCallBillingAlreadySettled (w_env w) cid st1 = isCallBillingAlreadySettled (w_env w) cid st"
      "sp_callId q = cid" "sp_walletCoinsDeducted q = wallet_target q"
      "settle_attempts (w_env w) faults commission (w_clock w) 2 0 q st1 = (Inr p, st2)"
    and st': "st' = (if fin then st2 else release_settle_lock cid token (set_tombstone cid (Some ''1'')
       (deleteBillingSessionRedisKeys cid (sv_userFirebaseUid v) (sv_creatorFirebaseUid v) st2)))"
    by (rule settle_locked_persisted [OF assms(1)]) blast
  have q: "plan_payer p = plan_payer q" using attempts_keep [OF 1(6)] by (simp add: attempt_keeps_def)
  have "undebited q c0 st1"
    using assms(3-6) 1(1,2,4) q by (auto simp: undebited_def plan_payer_def find_user_def)
  then have "debited q c0 st2" using attempts_debit [OF 1(6), of st1 c0] assms(2) 1(3,4) by simp
  then show ?thesis using q 1(4,5) by (auto simp: debited_def plan_payer_def st' cleanup_keeps_money)
qed

text \<open>
  C15. Replaying a transaction that has committed moves no coins: no user's or creator's wallet
  changes, and with both staff ledger lines present no staff balance either, even if the clock, the
  rates or the outcome of the commission lookup differ.
\<close>
theorem settlement_replay_moves_nothing:
  "let st1 = snd (settle_txn now ok p st) in
    map_option u_coins (find_user v (snd (settle_txn now' ok' p st1))) = map_option u_coins (find_user v st1) \<and>
    (staffLedger st1 (''staff_ledger_call_'' @ sp_callId p @ ''_bd_credit'') \<noteq> None \<longrightarrow>
     staffLedger st1 (''staff_ledger_call_'' @ sp_callId p @ ''_agency_credit'') \<noteq> None \<longrightarrow>
     staffBalance (snd (settle_txn now' ok' p st1)) = staffBalance st1)"
  unfolding Let_def using settle_txn_again [OF settle_txn_rows] settle_txn_staff_again by blast

text \<open>
  Rounding never creates coins: when the micros credited do not exceed the micros debited, in the
  session and in the authoritative totals, the whole coins a settlement credits to the creator do not
  exceed the whole coins it charges.
\<close>
theorem settlement_pays_out_at_most_the_charge:
  assumes "num0 (sv_totalEarned v) \<le> num0 (sv_totalDeducted v)" "tot_earned t \<le> tot_deducted t"
    and "sv_schemaVersion v \<ge> BILLING_SESSION_SCHEMA_VERSION"
  shows "sp_totalEarnedCreator (settlement_plan_of cid e v t) \<le> sp_totalDeducted (settlement_plan_of cid e v t)"
proof -
  have "num0 (sv_totalEarned (applyAuthoritativeTotalsToSession v t))
      \<le> num0 (sv_totalDeducted (applyAuthoritativeTotalsToSession v t))"
    using assms(1,2) by (auto simp: applyAuthoritativeTotalsToSession_def Let_def num0_def)
  then show ?thesis using assms(3) by (simp add: settlement_plan_of_def Let_def credit_le_debit)
qed


text \<open>
  A settlement that throws keeps its lock: the key still holds this attempt's token, so until
  the key expires, which the heartbeat that is not stopped prevents, every later settlement of the
  call outside the finalizer is skipped as in progress.
\<close>
theorem failed_settlement_keeps_lock:
  assumes "settleCall w t ws reads faults commission token False cid st = (Threw e, st')"
  shows "kv (core st') (settleLockKey cid) = Some token"
proof -
  obtain s where l: "settle_locked w reads faults commission token False cid s = (Threw e, st')"
    and s: "kv (core s) (settleLockKey cid) = Some token"
    using assms by (auto simp: settleCall_def Let_def split: if_splits)
  obtain st1 q where "core st1 = core s" "settle_attempts (w_env w) faults commission (w_clock w) 2 0 q st1 = (Inl e, st')"
    by (rule settle_locked_threw [OF l])
  then show ?thesis using attempts_keep_lock s by metis
qed

section \<open>The creator's side\<close>

lemma upsert_history_mem: "r \<in> set (upsert_history r rows)"
  by (auto simp: upsert_history_def image_iff)

lemma credit_creator_wallet:
  assumes "find (\<lambda>c. c_id c = sp_creatorMongoId p) (creators (core st)) = Some c"
    and "map_option u_coins (find_user (c_userId c) st) = Some k" and "0 < sp_totalEarnedCreator p"
    and "coinTxns st (sp_callId p, c_userId c, Credit) = None"
  shows "coins_of (c_userId c) (snd (credit_creator now ok p st)) = Some (k + sp_totalEarnedCreator p)"
  using assms by (auto simp: credit_creator_def Let_def find_user_update num0_def split: option.splits)

lemma credit_creator_amount:
  assumes "find (\<lambda>c. c_id c = sp_creatorMongoId p) (creators (core st)) = Some c"
    and "find_user (c_userId c) st \<noteq> None" and "0 < sp_totalEarnedCreator p"
  shows "fst (credit_creator now ok p st) =
    (if ok \<or> agencyOf st (c_id c) = None \<or>
        (\<forall>ag. staffDocs st (the (agencyOf st (c_id c))) = Some ag \<longrightarrow> sd_role ag \<noteq> ''agency'')
     then sp_totalEarnedCreator p else 0)"
  using assms by (auto simp: credit_creator_def Let_def split: option.splits)

lemma before_credit [simp]:
  "agencyOf (consume_intro_promo now p (debit_payer p st)) = agencyOf st"
  "staffDocs (consume_intro_promo now p (debit_payer p st)) = staffDocs st"
  by (simp_all add: consume_intro_promo_def debit_payer_def Let_def)

lemma write_histories_creator_row:
  assumes "find (\<lambda>c. c_id c = sp_creatorMongoId p) (creators (core st)) = Some c"
  shows "creator_history_row now p (c_userId c) e \<in> set (history (write_histories now p e st))"
  using assms by (simp add: write_histories_def Let_def upsert_history_mem)

lemma creator_history_row_fields [simp]:
  "h_callId (creator_history_row now p owner e) = sp_callId p" "h_owner (creator_history_row now p owner e) = owner"
  "h_coinsEarned (creator_history_row now p owner e) = e"
  "h_paidCoinsEarned (creator_history_row now p owner e) + h_freeCoinsEarned (creator_history_row now p owner e) = max 0 e"
  using split_total [of "of_int e" "sp_introDeductedMicros p" "sp_walletDeductedMicros p"]
  by (simp_all add: creator_history_row_def case_prod_beta)

text \<open>
  C16. A committed settlement pays the creator: a creator other than the payer, with an account and
  no earlier credit for the call, gets exactly the whole coins planned, and the call's history has a
  row for the creator with that amount, split into a paid and a free part that add up to it. The
  commission lookup, where one is needed, has to answer.
\<close>
theorem creator_paid_and_recorded:
  assumes "find (\<lambda>c. c_id c = sp_creatorMongoId p) (creators (core st)) = Some c"
    and "map_option u_coins (find_user (c_userId c) st) = Some k" and "0 < sp_totalEarnedCreator p"
    and "coinTxns st (sp_callId p, c_userId c, Credit) = None" and "c_userId c \<noteq> sp_userMongoId p"
  shows "map_option u_coins (find_user (c_userId c) (snd (settle_txn now True p st))) = Some (k + sp_totalEarnedCreator p) \<and>
    (\<exists>r \<in> set (history (snd (settle_txn now True p st))).
       h_callId r = sp_callId p \<and> h_owner r = c_userId c \<and> h_coinsEarned r = sp_totalEarnedCreator p \<and>
       h_paidCoinsEarned r + h_freeCoinsEarned r = sp_totalEarnedCreator p)"
proof -
  let ?s = "consume_intro_promo now p (debit_payer p st)"
  have s: "find (\<lambda>c. c_id c = sp_creatorMongoId p) (creators (core ?s)) = Some c"
    "map_option u_coins (find_user (c_userId c) ?s) = Some k" "coinTxns ?s (sp_callId p, c_userId c, Credit) = None"
    "find_user (c_userId c) ?s \<noteq> None"
    using assms by (auto simp: debit_payer_coins debit_payer_txn)
  have e: "fst (credit_creator now True p ?s) = sp_totalEarnedCreator p"
    using credit_creator_amount [OF s(1,4) assms(3), of now True] by simp
  have h: "creator_history_row now p (c_userId c) (sp_totalEarnedCreator p) \<in>
      set (history (snd (settle_txn now True p st)))"
    using s(1) e by (simp add: settle_txn_def case_prod_beta write_histories_creator_row)
  have "coins_of (c_userId c) (snd (settle_txn now True p st)) = Some (k + sp_totalEarnedCreator p)"
    using credit_creator_wallet [OF s(1,2) assms(3) s(3)] by (simp add: settle_txn_def case_prod_beta)
  moreover have "max 0 (sp_totalEarnedCreator p) = sp_totalEarnedCreator p" using assms(3) by simp
  ultimately show ?thesis using h by (metis creator_history_row_fields)
qed

text \<open>
  When the commission lookup fails for a creator of an agency, the creator's wallet is credited
  all the same but the amount reported and the amount of the creator's history row are zero.
\<close>
theorem commission_failure_hides_credit:
  assumes "find (\<lambda>c. c_id c = sp_creatorMongoId p) (creators (core st)) = Some c"
    and "map_option u_coins (find_user (c_userId c) st) = Some k" and "0 < sp_totalEarnedCreator p"
    and "coinTxns st (sp_callId p, c_userId c, Credit) = None" and "c_userId c \<noteq> sp_userMongoId p"
    and "agencyOf st (c_id c) = Some a" and "staffDocs st a = Some ag" and "sd_role ag = ''agency''"
  shows "map_option u_coins (find_user (c_userId c) (snd (settle_txn now False p st))) = Some (k + sp_totalEarnedCreator p) \<and>
    fst (settle_txn now False p st) = 0 \<and>
    (\<exists>r \<in> set (history (snd (settle_txn now False p st))). h_owner r = c_userId c \<and> h_coinsEarned r = 0)"
proof -
  let ?s = "consume_intro_promo now p (debit_payer p st)"
  have s: "find (\<lambda>c. c_id c = sp_creatorMongoId p) (creators (core ?s)) = Some c"
    "map_option u_coins (find_user (c_userId c) ?s) = Some k" "coinTxns ?s (sp_callId p, c_userId c, Credit) = None"
    "find_user (c_userId c) ?s \<noteq> None"
    using assms by (auto simp: debit_payer_coins debit_payer_txn)
  have e: "fst (credit_creator now False p ?s) = 0"
    using credit_creator_amount [OF s(1,4) assms(3), of now False] assms(6-8) by simp
  have "creator_history_row now p (c_userId c) 0 \<in> set (history (snd (settle_txn now False p st)))"
    using s(1) e by (simp add: settle_txn_def case_prod_beta write_histories_creator_row)
  then have "\<exists>r \<in> set (history (snd (settle_txn now False p st))). h_owner r = c_userId c \<and> h_coinsEarned r = 0"
    by (metis creator_history_row_fields(2,3))
  then show ?thesis
    using credit_creator_wallet [OF s(1,2) assms(3) s(3)] e by (simp add: settle_txn_def case_prod_beta)
qed


section \<open>Totals\<close>

lemma first_some_mem: "first_some xs = Some x \<Longrightarrow> Some x \<in> set xs"
  by (induction xs rule: first_some.induct) auto

lemma totals_sources_nonneg:
  "active_totals src (redis_totals raw) = Some t \<Longrightarrow> 0 \<le> tot_deducted t \<and> 0 \<le> tot_earned t"
  "active_totals src (map_option (\<lambda>d. (max 0 (f d), max 0 (g d), h d)) x) = Some t \<Longrightarrow> 0 \<le> tot_deducted t \<and> 0 \<le> tot_earned t"
  "ledger_totals_of cid ds = Some t \<Longrightarrow> 0 \<le> tot_deducted t \<and> 0 \<le> tot_earned t"
  "checkpoint_totals_of cp = Some t \<Longrightarrow> 0 \<le> tot_deducted t \<and> 0 \<le> tot_earned t"
  by (auto simp: active_totals_def ledger_totals_of_def checkpoint_totals_of_def redis_totals_def
      split: option.splits stored_session.splits if_splits prod.splits)

lemma resolved_totals_nonneg:
  "0 \<le> tot_deducted (resolveAuthoritativeSettlementTotals env cid st) \<and>
   0 \<le> tot_earned (resolveAuthoritativeSettlementTotals env cid st)"
proof (cases "resolveAuthoritativeSettlementTotals env cid st = no_totals")
  case False
  then obtain t where "first_some
            [active_totals FromRedis (redis_totals (sessions (core st) cid)),
             active_totals FromDurable
               (map_option (\<lambda>d. (max 0 (dd_userDebitedMicros d), max 0 (dd_creatorCreditedMicros d), max 0 (dd_billingSequence d)))
                  (getDurableCallSession env cid (durable st))),
             ledger_totals_of cid (durable st),
             checkpoint_totals_of (checkpoints (core st) cid)] = Some t"
    and t: "resolveAuthoritativeSettlementTotals env cid st = t"
    by (auto simp: resolveAuthoritativeSettlementTotals_def nvl_def split: option.splits)
  from first_some_mem [OF this(1)] show ?thesis
    using totals_sources_nonneg(1,3,4) totals_sources_nonneg(2) [of FromDurable dd_userDebitedMicros
        dd_creatorCreditedMicros "\<lambda>d. max 0 (dd_billingSequence d)" "getDurableCallSession env cid (durable st)" t]
    unfolding t by (auto dest!: sym [of "Some t"])
qed (simp add: no_totals_def)

text \<open>
  The authoritative totals never lower what the session already shows, and whatever their source
  they are not negative.
\<close>
theorem authoritative_totals_only_raise:
  "num0 (sv_totalDeducted v) \<le> num0 (sv_totalDeducted (applyAuthoritativeTotalsToSession v
       (resolveAuthoritativeSettlementTotals env cid st))) \<and>
   num0 (sv_totalEarned v) \<le> num0 (sv_totalEarned (applyAuthoritativeTotalsToSession v
       (resolveAuthoritativeSettlementTotals env cid st))) \<and>
   0 \<le> tot_deducted (resolveAuthoritativeSettlementTotals env cid st) \<and>
   0 \<le> tot_earned (resolveAuthoritativeSettlementTotals env cid st)"
  using resolved_totals_nonneg [of env cid st]
  by (auto simp: applyAuthoritativeTotalsToSession_def Let_def num0_def)

section \<open>A worked settlement\<close>

text \<open>One billed second of a call between the funded user and a creator of an agency.\<close>

definition demo_billed :: call_session where
  "demo_billed = demo_session\<lparr>totalDeductedMicros := 30000000, totalEarnedMicros := 7500000,
     totalWalletDeductedMicros := Some 30000000, totalIntroDeductedMicros := Some 0, elapsedSeconds := 1, billingSequence := 1\<rparr>"

definition demo_settle :: settle_state where
  "demo_settle =
     \<lparr> core = demo_state\<lparr>sessions := [''c1'' \<mapsto> Typed demo_billed]\<rparr>,
       durable = \<lparr> docs = Map.empty, callSettlement = Map.empty, ledger = (\<lambda>_. []), redis = Map.empty,
                    lastMirrorAt = Map.empty, lastPersistAt = Map.empty \<rparr>,
       coinTxns = Map.empty, staffBalance = [''ag'' \<mapsto> 0, ''bd'' \<mapsto> 0], staffLedger = Map.empty, history = [],
       agencyOf = [''mk'' \<mapsto> ''ag''], staffDocs = [''ag'' \<mapsto> \<lparr> sd_role = ''agency'', sd_bdId = Some ''bd'' \<rparr>],
       profiles = [], platformBps = (5000, 2500) \<rparr>"

definition demo_plan :: settlement_plan where
  "demo_plan = \<lparr> sp_callId = ''c1'', sp_userMongoId = ''mu'', sp_creatorMongoId = ''mk'', sp_introPromoActive = False,
     sp_introDeductedMicros = 0, sp_walletDeductedMicros = 30000000, sp_totalDeducted = 30, sp_walletCoinsDeducted = 30,
     sp_totalEarnedCreator = 7, sp_durationSeconds = 1,
     sp_userFirebaseUid = ''u1'', sp_creatorFirebaseUid = ''k1'', sp_billingSequence = 1 \<rparr>"

definition flaky :: "nat \<Rightarrow> settle_fault" where
  "flaky n = (if n = 0 then CommitUnknown False else if n = 1 then FailsTransient True else Commits)"

definition settle_demo_call :: "(nat \<Rightarrow> settle_fault) \<Rightarrow> bool \<Rightarrow> settle_outcome \<times> settle_state" where
  "settle_demo_call faults fin =
     settleCall demo_worker (\<lambda>_. 1001000) (\<lambda>_ _. demo_worker) ReadsOk faults (\<lambda>_. True) ''s1'' fin ''c1'' demo_settle"

definition demo_creator :: creator_doc where
  "demo_creator = \<lparr> c_id = ''mk'', c_userId = ''mc'', c_price = 1800, c_isDisabled = False, c_maxCallDurationSeconds = None \<rparr>"

lemma demo_participants:
  "map_option u_coins (find_user ''mu'' demo_settle) = Some 900" "map_option u_coins (find_user ''mc'' demo_settle) = Some 0"
  "find (\<lambda>c. c_id c = ''mk'') (creators (core demo_settle)) =
     Some demo_creator"
  "c_userId demo_creator = ''mc''" "c_id demo_creator = ''mk''"
  "\<forall>c \<in> set (creators (core demo_settle)). c_userId c \<noteq> ''mu''"
  by (simp_all add: demo_settle_def demo_state_def find_user_def demo_creator_def)

lemma demo_plan_fields:
  "sp_callId demo_plan = ''c1''" "sp_userMongoId demo_plan = ''mu''" "sp_creatorMongoId demo_plan = ''mk''"
  "sp_totalEarnedCreator demo_plan = 7"
  by (simp_all add: demo_plan_def)

lemma demo_persists: "fst (settle_demo_call flaky True) = Persisted demo_plan"
  by code_simp

theorem settlement_replay_moves_nothing_witness:
  "let st1 = snd (settle_txn 5 True demo_plan demo_settle)
   in staffBalance (snd (settle_txn 6 True demo_plan st1)) = staffBalance st1 \<and> staffBalance st1 ''bd'' = Some 3"
proof -
  let ?st1 = "snd (settle_txn 5 True demo_plan demo_settle)"
  have "staffLedger ?st1 ''staff_ledger_call_c1_bd_credit'' \<noteq> None"
    "staffLedger ?st1 ''staff_ledger_call_c1_agency_credit'' \<noteq> None" "staffBalance ?st1 ''bd'' = Some 3"
    by code_simp+
  then show ?thesis
    using settlement_replay_moves_nothing [of 5 True demo_plan demo_settle "''mu''" 6 True]
    by (simp add: demo_plan_fields Let_def)
qed

definition demo_totals :: settlement_totals where
  "demo_totals = \<lparr> tot_deducted = 30000000, tot_earned = 7500000, tot_sequence = 1, tot_source = FromRedis \<rparr>"

theorem settlement_pays_out_at_most_the_charge_witness:
  "case view_of_stored (Typed demo_billed) of
     None \<Rightarrow> False
   | Some v \<Rightarrow> sp_totalEarnedCreator (settlement_plan_of ''c1'' None v demo_totals)
       \<le> sp_totalDeducted (settlement_plan_of ''c1'' None v demo_totals)"
proof -
  obtain v where v: "view_of_stored (Typed demo_billed) = Some v" by simp
  then have "num0 (sv_totalEarned v) \<le> num0 (sv_totalDeducted v)" "sv_schemaVersion v \<ge> BILLING_SESSION_SCHEMA_VERSION"
    by (auto simp: demo_billed_def demo_session_def BILLING_SESSION_SCHEMA_VERSION_def)
  from settlement_pays_out_at_most_the_charge [OF this(1) _ this(2), of demo_totals] show ?thesis
    by (simp only: v option.case) (simp add: demo_totals_def)
qed


theorem failed_settlement_keeps_lock_witness:
  "fst (settle_demo_call (\<lambda>_. FailsPermanent) False) = Threw TransactionFailed \<and>
   kv (core (snd (settle_demo_call (\<lambda>_. FailsPermanent) False))) (settleLockKey ''c1'') = Some ''s1''"
proof -
  have "fst (settle_demo_call (\<lambda>_. FailsPermanent) False) = Threw TransactionFailed" by code_simp
  then obtain st' where s: "settle_demo_call (\<lambda>_. FailsPermanent) False = (Threw TransactionFailed, st')"
    by (metis prod.collapse)
  show ?thesis using failed_settlement_keeps_lock [OF s [unfolded settle_demo_call_def]] s by simp
qed

theorem creator_paid_and_recorded_witness:
  "map_option u_coins (find_user ''mc'' (snd (settle_txn 5 True demo_plan demo_settle))) = Some 7 \<and>
   (\<exists>r \<in> set (history (snd (settle_txn 5 True demo_plan demo_settle))). h_owner r = ''mc'' \<and> h_coinsEarned r = 7)"
proof -
  have "coinTxns demo_settle = Map.empty" by (simp add: demo_settle_def)
  then show ?thesis
    using creator_paid_and_recorded [of demo_plan demo_settle demo_creator 0 5] demo_participants
    by (auto simp: demo_plan_fields simp del: map_option_eq_Some)
qed

theorem commission_failure_hides_credit_witness:
  "map_option u_coins (find_user ''mc'' (snd (settle_txn 5 False demo_plan demo_settle))) = Some 7 \<and>
   fst (settle_txn 5 False demo_plan demo_settle) = 0"
proof -
  have "coinTxns demo_settle = Map.empty" "agencyOf demo_settle ''mk'' = Some ''ag''"
    "staffDocs demo_settle ''ag'' = Some \<lparr> sd_role = ''agency'', sd_bdId = Some ''bd'' \<rparr>"
    by (simp_all add: demo_settle_def)
  then show ?thesis
    using commission_failure_hides_credit [of demo_plan demo_settle demo_creator 0 "''ag''"
        "\<lparr> sd_role = ''agency'', sd_bdId = Some ''bd'' \<rparr>" 5] demo_participants
    by (simp add: demo_plan_fields del: map_option_eq_Some)
qed


end
