(* ===== verification/TickRefinement.thy ===== *)
theory TickRefinement
  imports BillingTick
begin

text \<open>
  What a billing cycle promises of the money of a call, and the proof that the cycle of
  \<open>BillingTick\<close> keeps the promise. The abstract machine \<open>acct_step\<close> stays idle or charges at most
  the elapsed time and at most the balance, moving the cursor by what the charge covers.
  \<open>tick_refines\<close> is the refinement: each phase either leaves the call's cell in the stores as it is
  (up to bookkeeping fields) or writes the charged session and balances together. The locale
  \<open>metered_driver\<close> holds the facts about sequences of cycles; it is interpreted on the cycle, and
  retried ticks and flushes are shown to be such sequences.
\<close>

section \<open>What a phase keeps\<close>

definition money_view :: "call_session \<Rightarrow> (micros \<times> micros \<times> bool) \<times> millis \<times> micros \<times> micros \<times> bool" where
  "money_view s =
     ((session_rate s, creatorEarningsPerSecondMicros s, nvl (introPromoActive s) False), lastProcessedAt s,
      totalDeductedMicros s, totalEarnedMicros s, BILLING_SESSION_SCHEMA_VERSION \<le> schemaVersion s)"

lemma money_view_normalize [simp]: "money_view (normalizeV4SessionFields s) = money_view s"
  by (simp add: money_view_def)

lemma money_view_updates [simp]:
  "money_view (stamp_emit t s) = money_view s"
  "money_view (stamp_checkpoint t s) = money_view s"
  "money_view (set_elapsed w p s) = money_view s"
  "money_view (own_session inst e k s) = money_view s"
  "money_view (s\<lparr>lifecycleState := x\<rparr>) = money_view s"
  "money_view (s\<lparr>runtimeEpoch := y\<rparr>) = money_view s"
  by (simp_all add: money_view_def stamp_emit_def stamp_checkpoint_def set_elapsed_def own_session_def)

lemma money_view_ownership:
  "money_view (fst (snd (ensureRuntimeOwnership env inst sd g s cid now k))) = money_view s"
  by (simp add: ensureRuntimeOwnership_def resolve_current_owner_def Let_def split: option.split prod.split)

lemma money_view_transition [simp]: "money_view (fst (tick_transition w cid to reason s st)) = money_view s"
  by (simp add: tick_transition_def split: prod.split)

text \<open>The balance keys and the stored session of a call.\<close>

definition cell :: "string \<Rightarrow> billing_state \<Rightarrow> stored_session option \<times> int option \<times> int option \<times> int option" where
  "cell cid st = (sessions st cid, introKey st cid, walletKey st cid, earningsKey st cid)"

lemma cell_updates [simp]:
  "cell cid (st\<lparr>kv := k\<rparr>) = cell cid st"
  "cell cid (st\<lparr>prices := p\<rparr>) = cell cid st"
  "cell cid (st\<lparr>audit := au\<rparr>) = cell cid st"
  "cell cid (st\<lparr>pressure := bp\<rparr>) = cell cid st"
  "cell cid (st\<lparr>checkpoints := c\<rparr>) = cell cid st"
  "cell cid (st\<lparr>sessions := (sessions st)(cid \<mapsto> x)\<rparr>) =
     (Some x, introKey st cid, walletKey st cid, earningsKey st cid)"
  by (simp_all add: cell_def)

lemma cell_release [simp]: "cell cid (releaseActiveCallSlotsIfTerminal s st) = cell cid st"
  by (simp add: releaseActiveCallSlotsIfTerminal_def releaseActiveCallSlotsIfOurs_def Let_def)

lemma cell_persist [simp]:
  "cell cid (persistCallSession cid s st) = (Some (Typed s), snd (cell cid st))"
  by (simp add: persistCallSession_def) (simp add: cell_def)

lemma cell_transition [simp]: "cell cid (snd (tick_transition w c to reason s st)) = cell cid st"
  by (simp add: tick_transition_def split: prod.split)

lemma cell_phases [simp]:
  "cell cid (record_tick_drift w s st) = cell cid st"
  "cell cid (record_write_latency w s st) = cell cid st"
  "cell cid (fst (snd (consumePendingCallEndIfAny cid st))) = cell cid st"
  "cell cid (snd (write_tick_checkpoint w cid s b st)) = cell cid st"
  "cell cid (snd (activate_session w cid s st)) = cell cid st"
  "cell cid (persist_tick cid s l st) = (Some (Typed s), Some (l_intro l), Some (l_wallet l), Some (l_earnings l))"
  by (simp_all add: record_tick_drift_def record_write_latency_def consumePendingCallEndIfAny_def
      write_tick_checkpoint_def activate_session_def persist_tick_def)
     (simp add: cell_def)

lemma money_view_phases [simp]:
  "money_view (fst (activate_session w cid s st)) = money_view s"
  "money_view (fst (write_tick_checkpoint w cid s b st)) = money_view s"
  by (simp_all add: activate_session_def write_tick_checkpoint_def)

text \<open>An emission stores either the same cell or the session with new emit times.\<close>

lemma keepalive_cell:
  assumes "maybeEmitBillingKeepaliveIfDue w cid s b promo e st = (s', st', evs)"
  shows "money_view s' = money_view s \<and>
    (cell cid st' = cell cid st \<or> cell cid st' = (Some (Typed s'), snd (cell cid st))) \<and>
    set evs \<subseteq> range EmitUpdate"
  using assms by (auto simp: maybeEmitBillingKeepaliveIfDue_def Let_def split: if_splits)

lemma emit_cell:
  assumes "emit_tick_update w cid pps promo s l st = (s', st', evs)"
  shows "money_view s' = money_view s \<and>
    (cell cid st' = cell cid st \<or> cell cid st' = (Some (Typed s'), snd (cell cid st))) \<and>
    set evs \<subseteq> range EmitUpdate"
  using assms
  by (auto simp: emit_tick_update_def Let_def split: if_splits dest: keepalive_cell)

section \<open>The abstract machine\<close>

record account =
  a_intro :: micros
  a_wallet :: micros
  a_earnings :: micros
  a_deducted :: micros
  a_earned :: micros
  a_cursor :: millis

definition spend :: "bool \<Rightarrow> account \<Rightarrow> micros" where
  "spend promo a = (if promo then a_intro a else a_wallet a)"

definition acct_charge :: "micros \<Rightarrow> micros \<Rightarrow> bool \<Rightarrow> micros \<Rightarrow> account \<Rightarrow> account" where
  "acct_charge pps ceps promo d a =
     (let t = time_covered d pps; e = earn_for t ceps
      in \<lparr> a_intro = (if promo then a_intro a - d else a_intro a),
           a_wallet = (if promo then a_wallet a else a_wallet a - d),
           a_earnings = a_earnings a + e, a_deducted = a_deducted a + d, a_earned = a_earned a + e,
           a_cursor = a_cursor a + t \<rparr>)"

inductive acct_step :: "micros \<Rightarrow> micros \<Rightarrow> bool \<Rightarrow> millis \<Rightarrow> account \<Rightarrow> account \<Rightarrow> bool"
  for pps ceps promo now where
  idle: "acct_step pps ceps promo now a a"
| charge: "0 \<le> ms \<Longrightarrow> ms \<le> now - a_cursor a \<Longrightarrow> d = min (potential_deduct ms pps) (spend promo a) \<Longrightarrow> 0 < d \<Longrightarrow>
    acct_step pps ceps promo now a (acct_charge pps ceps promo d a)"

inductive_cases acct_stepE: "acct_step pps ceps promo now a a'"

text \<open>The account of a call as the stores hold it, and the state of a promoted call.\<close>

fun cell_account :: "stored_session option \<times> int option \<times> int option \<times> int option \<Rightarrow> account" where
  "cell_account (Some (Typed s), i, w, e) =
     \<lparr> a_intro = num0 i, a_wallet = num0 w, a_earnings = num0 e, a_deducted = totalDeductedMicros s,
       a_earned = totalEarnedMicros s, a_cursor = lastProcessedAt s \<rparr>"
| "cell_account (_, i, w, e) =
     \<lparr> a_intro = num0 i, a_wallet = num0 w, a_earnings = num0 e, a_deducted = 0, a_earned = 0, a_cursor = 0 \<rparr>"

fun cell_billable :: "micros \<Rightarrow> micros \<Rightarrow> bool \<Rightarrow> stored_session option \<times> int option \<times> int option \<times> int option \<Rightarrow> bool" where
  "cell_billable pps ceps promo (Some (Typed s), Some i, Some w, Some e) \<longleftrightarrow>
     fst (money_view s) = (pps, ceps, promo) \<and> BILLING_SESSION_SCHEMA_VERSION \<le> schemaVersion s \<and>
     0 \<le> i \<and> 0 \<le> w \<and> 0 \<le> e"
| "cell_billable pps ceps promo _ \<longleftrightarrow> False"

definition account :: "string \<Rightarrow> billing_state \<Rightarrow> account" where
  "account cid st = cell_account (cell cid st)"

definition billable :: "micros \<Rightarrow> micros \<Rightarrow> bool \<Rightarrow> string \<Rightarrow> billing_state \<Rightarrow> bool" where
  "billable pps ceps promo cid st \<longleftrightarrow> cell_billable pps ceps promo (cell cid st)"

section \<open>Refinement\<close>

lemma billableE:
  assumes "billable pps ceps promo cid st"
  obtains s i w e where "cell cid st = (Some (Typed s), Some i, Some w, Some e)"
    "fst (money_view s) = (pps, ceps, promo)" "BILLING_SESSION_SCHEMA_VERSION \<le> schemaVersion s"
    "0 \<le> i" "0 \<le> w" "0 \<le> e"
  using assms unfolding billable_def by (cases rule: cell_billable.cases [of "(pps, ceps, promo, cell cid st)"]) auto

definition loaded_account :: "call_session \<Rightarrow> loaded \<Rightarrow> account" where
  "loaded_account s l = cell_account (Some (Typed s), Some (l_intro l), Some (l_wallet l), Some (l_earnings l))"

text \<open>
  What a cycle of worker \<open>w\<close> that started on account \<open>a\<close> guarantees of its result: the call stays
  billable, the account moved by one abstract step, an answer \<open>TickOk\<close> after a real interval
  leaves a full second of money, an error is the failed write of Redis and charged nothing, and so
  did a cycle that ends the call on its duration limit.
\<close>

definition tick_post ::
  "micros \<Rightarrow> micros \<Rightarrow> bool \<Rightarrow> worker \<Rightarrow> string \<Rightarrow> account \<Rightarrow> outcome \<Rightarrow> bool" where
  "tick_post pps ceps promo w cid a out \<longleftrightarrow>
     (case out of (r, st', evs) \<Rightarrow>
        billable pps ceps promo cid st' \<and> acct_step pps ceps promo (w_now w) a (account cid st') \<and>
        (r = Inr TickOk \<and> MIN_BILLING_DELTA_MS \<le> w_now w - a_cursor a \<longrightarrow> pps \<le> spend promo (account cid st')) \<and>
        (\<forall>e. r = Inl e \<longrightarrow> account cid st' = a \<and> (\<exists>m. w_persist_error w = Some m \<and> e = RedisFailure m)) \<and>
        (\<forall>x. ForceTerminate cid ''duration_limit_reached'' x \<in> set evs \<longrightarrow> account cid st' = a))"

lemma cell_account_view:
  "money_view s = money_view s' \<Longrightarrow> cell_account (Some (Typed s), r) = cell_account (Some (Typed s'), r)"
  by (cases r) (simp add: money_view_def)

lemma cell_billable_view:
  "money_view s = money_view s' \<Longrightarrow>
   cell_billable pps ceps promo (Some (Typed s), r) = cell_billable pps ceps promo (Some (Typed s'), r)"
  by (cases "(pps, ceps, promo, Some (Typed s), r)" rule: cell_billable.cases) (auto simp: money_view_def)

text \<open>A phase that stores the same session up to its bookkeeping fields, or nothing, is idle.\<close>

lemma idle_post:
  assumes "billable pps ceps promo cid st" and "cell cid st = (Some (Typed s), r0)"
    and "money_view s' = money_view s"
    and "cell cid st' = cell cid st \<or> cell cid st' = (Some (Typed s'), snd (cell cid st))"
    and "r = Inr TickOk \<Longrightarrow> MIN_BILLING_DELTA_MS \<le> w_now w - a_cursor (account cid st) \<Longrightarrow> pps \<le> spend promo (account cid st)"
    and "\<And>e. r = Inl e \<Longrightarrow> \<exists>m. w_persist_error w = Some m \<and> e = RedisFailure m"
  shows "tick_post pps ceps promo w cid (account cid st) (r, st', evs)"
proof -
  have "account cid st' = account cid st \<and> billable pps ceps promo cid st'"
    using assms(1-4) cell_account_view [of s s' r0] cell_billable_view [of s s' pps ceps promo r0]
    by (auto simp: account_def billable_def)
  then show ?thesis using acct_step.idle assms(5,6) by (simp add: tick_post_def)
qed

lemma charged_account:
  "loaded_account (charge_session promo d (time_covered d pps) (earn_for (time_covered d pps) ceps) now s)
     (charge_balances promo d (earn_for (time_covered d pps) ceps) l) =
   acct_charge pps ceps promo d (loaded_account s l)"
  by (simp add: loaded_account_def charge_session_def charge_balances_def acct_charge_def Let_def)

lemma charged_view:
  "fst (money_view (charge_session promo d t e now s)) = fst (money_view s)"
  "schemaVersion (charge_session promo d t e now s) = schemaVersion s"
  by (simp_all add: money_view_def charge_session_def)

text \<open>The stored result of a completed charge.\<close>

lemma finish_tick_cell:
  assumes "finish_tick w cid pps promo s l st = (r, st', evs)"
  shows "\<exists>s'. money_view s' = money_view s \<and>
    cell cid st' = (Some (Typed s'), Some (l_intro l), Some (l_wallet l), Some (l_earnings l)) \<and>
    (r = Inr TickOk \<longrightarrow> pps \<le> active_spend promo l) \<and> (\<forall>e. r \<noteq> Inl e) \<and>
    (\<forall>x. ForceTerminate cid ''duration_limit_reached'' x \<notin> set evs)"
proof -
  obtain s1 st1 ev where e: "emit_tick_update w cid pps promo s l (record_write_latency w s (persist_tick cid s l st))
      = (s1, st1, ev)" by (metis prod_cases3)
  have "cell cid st' = cell cid st1 \<and> (r = Inr TickOk \<longrightarrow> pps \<le> active_spend promo l) \<and> (\<forall>e. r \<noteq> Inl e) \<and>
      set evs \<subseteq> set ev \<union> {MirrorDurable cid, PeriodicPersist cid, ForceTerminate cid (exhausted_reason promo) ''user_out_of_coins''}"
    using assms e by (auto simp: finish_tick_def split: if_splits)
  moreover have "exhausted_reason promo \<noteq> ''duration_limit_reached''" by (simp add: exhausted_reason_def)
  ultimately show ?thesis using emit_cell [OF e] by fastforce
qed

lemma settle_charge_cell:
  assumes "settle_charge w cid pps promo s l st = (r, st', evs)"
  shows "(cell cid st' = cell cid st \<and>
      (r = Inr StopNeedsSettlement \<or> (\<exists>m. w_persist_error w = Some m \<and> r = Inl (RedisFailure m)))) \<or>
    (\<exists>s'. money_view s' = money_view s \<and>
       cell cid st' = (Some (Typed s'), Some (l_intro l), Some (l_wallet l), Some (l_earnings l)) \<and>
       (r = Inr TickOk \<longrightarrow> pps \<le> active_spend promo l) \<and> (\<forall>e. r \<noteq> Inl e) \<and>
       (\<forall>x. ForceTerminate cid ''duration_limit_reached'' x \<notin> set evs))"
proof -
  obtain s1 st1 where a: "activate_session w cid s st = (s1, st1)" by fastforce
  let ?s2 = "set_elapsed w pps s1"
  obtain s3 st3 where c: "write_tick_checkpoint w cid ?s2 (l_intro l + l_wallet l) st1 = (s3, st3)" by fastforce
  obtain r4 st4 ev4 where f: "finish_tick w cid pps promo s3 l st3 = (r4, st4, ev4)" by (metis prod_cases3)
  have v: "money_view s3 = money_view s" "cell cid st3 = cell cid st" "cell cid st1 = cell cid st"
    using money_view_phases(1) [of w cid s st] money_view_phases(2) [of w cid ?s2 "l_intro l + l_wallet l" st1]
      cell_phases(4) [of cid w ?s2 "l_intro l + l_wallet l" st1] cell_phases(5) [of cid w s st] a c by simp_all
  have warn: "ForceTerminate cid z x \<notin> set (duration_warning w cid ?s2)" for z x
    by (simp add: duration_warning_def Let_def)
  show ?thesis
    using assms a c f v finish_tick_cell [OF f] warn
    by (auto simp: settle_charge_def Let_def split: if_splits option.splits)
qed

lemma tick_delta_bounds:
  "0 \<le> tick_delta w s" "0 < tick_delta w s \<Longrightarrow> tick_delta w s \<le> w_now w - lastProcessedAt s"
  "tick_delta w s \<le> 60000"
  using max_delta.in_range [of "w_env w"] by (auto simp: tick_delta_def)

lemma charged_billable:
  assumes "fst (money_view s) = (pps, ceps, promo)" and "BILLING_SESSION_SCHEMA_VERSION \<le> schemaVersion s"
    and "0 \<le> l_intro l" "0 \<le> l_wallet l" "0 \<le> l_earnings l" and "0 < d" "d \<le> active_spend promo l" "0 \<le> e"
    and "money_view s' = money_view (charge_session promo d t e now s)"
    and "cell cid st' = (Some (Typed s'), Some (l_intro (charge_balances promo d e l)),
        Some (l_wallet (charge_balances promo d e l)), Some (l_earnings (charge_balances promo d e l)))"
  shows "billable pps ceps promo cid st'"
proof -
  have "fst (money_view s') = (pps, ceps, promo)" using assms(1,9) charged_view(1) by simp
  moreover have "BILLING_SESSION_SCHEMA_VERSION \<le> schemaVersion s'"
    using assms(2,9) by (simp add: money_view_def charged_view(2))
  moreover have "0 \<le> l_intro (charge_balances promo d e l)" "0 \<le> l_wallet (charge_balances promo d e l)"
    "0 \<le> l_earnings (charge_balances promo d e l)"
    using assms(3-8) by (auto simp: charge_balances_def active_spend_def)
  ultimately show ?thesis using assms(10) by (simp add: billable_def)
qed

lemma spend_loaded: "spend promo (loaded_account s l) = active_spend promo l"
  by (simp add: spend_def loaded_account_def active_spend_def)

lemma charge_tick_post:
  assumes b: "billable pps ceps promo cid st" and "0 < pps" and "0 \<le> ceps"
    and c: "cell cid st = (Some (Typed s0), Some (l_intro l), Some (l_wallet l), Some (l_earnings l))"
    and v: "money_view s = money_view s0"
    and t: "charge_tick w cid pps ceps promo (totalDeductedMicros s, totalEarnedMicros s) s l st = (r, st', evs)"
  shows "tick_post pps ceps promo w cid (account cid st) (r, st', evs)"
proof -
  let ?d = "min (potential_deduct (tick_delta w s) pps) (active_spend promo l)"
  let ?t = "time_covered ?d pps" let ?e = "earn_for (time_covered ?d pps) ceps"
  let ?s = "charge_session promo ?d ?t ?e (w_now w) s" let ?l = "charge_balances promo ?d ?e l"
  have acc: "account cid st = loaded_account s l"
    using v c by (simp add: account_def loaded_account_def money_view_def)
  consider (stop) "?d \<le> 0" "active_spend promo l < pps" | (wait) "?d \<le> 0" "pps \<le> active_spend promo l" | (pay) "0 < ?d"
    by linarith
  then show ?thesis
  proof cases
    case stop
    then have "cell cid st' = cell cid st" "r = Inr StopNeedsSettlement" using t by (auto simp: charge_tick_def Let_def)
    then show ?thesis using idle_post [OF b c refl] by blast
  next
    case wait
    then obtain s' where k: "maybeEmitBillingKeepaliveIfDue w cid s (l_intro l + l_wallet l) promo (l_earnings l) st = (s', st', evs)"
        "r = Inr TickOk"
      using t by (auto simp: charge_tick_def Let_def split: prod.splits)
    have f: "pps \<le> spend promo (account cid st)" using wait(2) acc by (simp add: spend_loaded)
    show ?thesis
      using idle_post [OF b c, of s' st' r] keepalive_cell [OF k(1)] v f k(2) by (metis Inl_Inr_False)
  next
    case pay
    have e: "0 \<le> ?e" using pay assms(2,3)
      by (auto simp: earn_for_def time_covered_def intro!: int_div_nonneg mult_nonneg_nonneg)
    have "\<not> totalDeductedMicros ?s < totalDeductedMicros s" "\<not> totalEarnedMicros ?s < totalEarnedMicros s"
      using pay e unfolding charge_session_def by (auto simp del: min_less_iff_conj)
    then have "settle_charge w cid pps promo ?s ?l st = (r, st', evs)"
      using t pay by (simp add: charge_tick_def Let_def)
    from settle_charge_cell [OF this] show ?thesis
    proof (elim disjE exE conjE)
      assume "cell cid st' = cell cid st" "r = Inr StopNeedsSettlement"
      then show ?thesis using idle_post [OF b c refl] by blast
    next
      fix m assume "cell cid st' = cell cid st" "w_persist_error w = Some m" "r = Inl (RedisFailure m)"
      then show ?thesis using idle_post [OF b c refl] by blast
    next
      fix s' assume s': "money_view s' = money_view ?s"
        "cell cid st' = (Some (Typed s'), Some (l_intro ?l), Some (l_wallet ?l), Some (l_earnings ?l))"
        "r = Inr TickOk \<longrightarrow> pps \<le> active_spend promo ?l" "\<forall>e. r \<noteq> Inl e"
        "\<forall>x. ForceTerminate cid ''duration_limit_reached'' x \<notin> set evs"
      have bounds: "0 \<le> l_intro l" "0 \<le> l_wallet l" "0 \<le> l_earnings l" "fst (money_view s) = (pps, ceps, promo)"
        "BILLING_SESSION_SCHEMA_VERSION \<le> schemaVersion s"
        using b c v by (auto simp: billable_def money_view_def)
      have bill: "billable pps ceps promo cid st'"
        using charged_billable [OF bounds(4,5,1-3) pay _ e s'(1,2)] by simp
      have acc': "account cid st' = acct_charge pps ceps promo ?d (loaded_account s l)"
        unfolding charged_account [of promo ?d pps ceps "w_now w" s l, symmetric]
        using s'(2) cell_account_view [OF s'(1)] by (simp only: account_def loaded_account_def)
      have "tick_delta w s \<noteq> 0" using pay by (auto simp: potential_deduct_def)
      then have step: "acct_step pps ceps promo (w_now w) (loaded_account s l) (acct_charge pps ceps promo ?d (loaded_account s l))"
        using tick_delta_bounds(1,2) [of w s] pay
        by (intro acct_step.charge [where ms = "tick_delta w s"])
          (auto simp: spend_loaded, simp add: loaded_account_def)
      have "spend promo (account cid st') = active_spend promo ?l"
        unfolding acc' by (simp add: spend_def acct_charge_def Let_def active_spend_def charge_balances_def loaded_account_def)
      then show ?thesis using bill step acc acc' s'(3-5) by (auto simp: tick_post_def)
    qed
  qed
qed

lemma delta_short: "tick_delta w s < MIN_BILLING_DELTA_MS \<Longrightarrow> w_now w - lastProcessedAt s < MIN_BILLING_DELTA_MS"
  using max_delta.in_range(1) [of "w_env w"] by (auto simp: tick_delta_def MIN_BILLING_DELTA_MS_def)

lemma bill_loaded_post:
  assumes b: "billable pps ceps promo cid st" and "0 < pps" and "0 \<le> ceps"
    and c: "cell cid st = (Some (Typed s0), Some (l_intro l), Some (l_wallet l), Some (l_earnings l))"
    and v: "money_view s = money_view s0" and p: "introPromoActive s \<noteq> None"
    and t: "bill_loaded_session w cid s l st = (r, st', evs)"
  shows "tick_post pps ceps promo w cid (account cid st) (r, st', evs)"
proof -
  have s: "session_rate s = pps" "creatorEarningsPerSecondMicros s = ceps" "(introPromoActive s = Some True) = promo"
    using b c v p by (auto simp: billable_def money_view_def)
  have cur: "a_cursor (account cid st) = lastProcessedAt s" using c v by (simp add: account_def money_view_def)
  let ?st2 = "record_tick_drift w s st"
  have st2: "cell cid ?st2 = cell cid st" "account cid ?st2 = account cid st" "billable pps ceps promo cid ?st2"
    using b by (simp_all add: account_def billable_def)
  obtain pend st3 ev3 where e: "consumePendingCallEndIfAny cid ?st2 = (pend, st3, ev3)" by (metis prod_cases3)
  have st3: "cell cid st3 = cell cid st" "account cid st3 = account cid st" "billable pps ceps promo cid st3"
    using cell_phases(3) [of cid ?st2] e st2 by (simp_all add: account_def billable_def)
  have price: "ensure_tick_price w cid s st = (Some s, st, [])" using s assms(2) by (simp add: ensure_tick_price_def)
  consider (short) "tick_delta w s < MIN_BILLING_DELTA_MS" | (pending) "\<not> tick_delta w s < MIN_BILLING_DELTA_MS" pend
    | (bill) "\<not> tick_delta w s < MIN_BILLING_DELTA_MS" "\<not> pend" by blast
  then show ?thesis
  proof cases
    case short
    then obtain s' ev where k: "maybeEmitBillingKeepaliveIfDue w cid s (l_intro l + l_wallet l) promo (l_earnings l) ?st2 = (s', st', ev)"
        "r = Inr TickOk"
      using t price s by (auto simp: bill_loaded_session_def Let_def split: prod.splits)
    have "\<not> MIN_BILLING_DELTA_MS \<le> w_now w - a_cursor (account cid st)"
      using delta_short [OF short] cur by simp
    then show ?thesis
      using idle_post [OF st2(3), of s0 _ s' st' r] keepalive_cell [OF k(1)] v c st2 k(2) by (metis Inl_Inr_False)
  next
    case pending
    then have "cell cid st' = cell cid st" "r = Inr StopNeedsSettlement"
      using t price s e st3 by (auto simp: bill_loaded_session_def Let_def)
    then show ?thesis using idle_post [OF b c refl] by blast
  next
    case bill
    then have "charge_tick w cid pps ceps promo (totalDeductedMicros s, totalEarnedMicros s) s l st3 = (r, st', evs)"
      using t price s e by (auto simp: bill_loaded_session_def Let_def split: prod.splits)
    then show ?thesis using charge_tick_post [OF st3(3) assms(2,3) _ v] c st3 by simp
  qed
qed

lemma load_billable:
  assumes "billable pps ceps promo cid st" and "cell cid st = (Some (Typed s), Some i, Some wl, Some e)"
  shows "load_tick_session w cid st =
    (Inr (Some \<lparr> l_session = normalizeV4SessionFields s, l_intro = i, l_wallet = wl, l_earnings = e,
                 l_needsMigration = False \<rparr>), prices st)"
  using assms
  by (auto simp: billable_def cell_def load_tick_session_def migrateSession_def BILLING_SESSION_SCHEMA_VERSION_def load_balances_def
      stored_schema_outdated_def parse_micros_def)

lemma ownership_keeps_promo:
  "introPromoActive (fst (snd (ensureRuntimeOwnership env inst sd g s cid now k))) = introPromoActive s"
  by (simp add: ensureRuntimeOwnership_def resolve_current_owner_def own_session_def Let_def split: option.split prod.split)

lemma tick_body_post:
  assumes b: "billable pps ceps promo cid st" and "0 < pps" and "0 \<le> ceps"
    and t: "tick_body w cid st = (r, st', evs)"
  shows "tick_post pps ceps promo w cid (account cid st) (r, st', evs)"
proof -
  obtain s i wl e where c: "cell cid st = (Some (Typed s), Some i, Some wl, Some e)" using b by (rule billableE)
  define l where "l = \<lparr> l_session = normalizeV4SessionFields s, l_intro = i, l_wallet = wl, l_earnings = e,
                 l_needsMigration = False \<rparr>"
  have load: "load_tick_session w cid st = (Inr (Some l), prices st)" using load_billable [OF b c] l_def by simp
  let ?s = "normalizeV4SessionFields s"
  have idle: "tick_post pps ceps promo w cid (account cid st) (r, st', evs)"
    if "cell cid st' = cell cid st" "r = Inr StopNoSession \<or> r = Inr TickDeferred"
    using idle_post [OF b c refl] that by blast
  show ?thesis
  proof (cases "shortCircuitIfTerminalBillingSession cid (lifecycleState ?s) (kv st)")
    case (Some x)
    moreover from Some have "x = StopNoSession"
      by (simp add: shortCircuitIfTerminalBillingSession_def split: if_splits)
    ultimately show ?thesis using t load idle by (auto simp: tick_body_def Let_def l_def normalize_idem)
  next
    case None
    obtain ok s' k where o: "ensureRuntimeOwnership (w_env w) (w_inst w) (w_shuttingDown w) (w_interference w)
        ?s cid (w_now w) (kv st) = (ok, s', k)" by (metis prod_cases3)
    show ?thesis
    proof (cases ok)
      case False
      then show ?thesis using t load None o idle by (auto simp: tick_body_def Let_def l_def normalize_idem)
    next
      case True
      let ?st = "st\<lparr>prices := prices st, kv := k\<rparr>"
      have run: "bill_loaded_session w cid s' l ?st = (r, st', evs)"
        using t load None o True by (simp add: tick_body_def Let_def l_def normalize_idem write_migrated_session_def)
      have v: "money_view s' = money_view s"
        using money_view_ownership [of "w_env w" "w_inst w" "w_shuttingDown w" "w_interference w" ?s cid "w_now w" "kv st"] o
        by simp
      have p: "introPromoActive s' \<noteq> None"
        using ownership_keeps_promo [of "w_env w" "w_inst w" "w_shuttingDown w" "w_interference w" ?s cid "w_now w" "kv st"] o
        by simp
      have "billable pps ceps promo cid ?st" "account cid ?st = account cid st" "cell cid ?st = cell cid st"
        using b by (simp_all add: billable_def account_def)
      then show ?thesis using bill_loaded_post [OF _ assms(2,3) _ v p run] c l_def by simp
    qed
  qed
qed

text \<open>A billing cycle implements one step of the abstract machine, whatever it answers.\<close>

lemma tick_refines:
  assumes b: "billable pps ceps promo cid st" and "0 < pps" and "0 \<le> ceps"
  shows "tick_post pps ceps promo w cid (account cid st) (processBillingCycleInternal w cid st)"
proof -
  obtain s i wl e where c: "cell cid st = (Some (Typed s), Some i, Some wl, Some e)" using b by (rule billableE)
  obtain got k where a: "acquireBillingCycleLock cid (w_token w) (kv st) = (got, k)" by fastforce
  show ?thesis
  proof (cases got)
    case False
    then show ?thesis using a idle_post [OF b c refl, of st "Inr TickDeferred"]
      by (simp add: processBillingCycleInternal_def)
  next
    case True
    let ?st = "st\<lparr>kv := k\<rparr>"
    obtain r1 st1 ev1 where body: "tick_body w cid ?st = (r1, st1, ev1)" by (metis prod_cases3)
    have "billable pps ceps promo cid ?st" "account cid ?st = account cid st"
      using b by (simp_all add: billable_def account_def)
    with tick_body_post [OF _ assms(2,3) body]
    have "tick_post pps ceps promo w cid (account cid st) (r1, st1, ev1)" by simp
    then show ?thesis using a True body
      by (auto simp: processBillingCycleInternal_def tick_post_def billable_def account_def)
  qed
qed

section \<open>The contract of a metered driver\<close>

text \<open>
  What a component that drives billing cycles promises: it keeps its invariant and moves the
  account by one abstract step at its own time. The client lemmas are about any sequence of
  cycles, whichever workers run them.
\<close>

lemma acct_step_facts:
  assumes "acct_step pps ceps promo now a a'" and "0 < pps" and "0 \<le> ceps"
  shows "a_intro a' + a_wallet a' + a_deducted a' = a_intro a + a_wallet a + a_deducted a"
    and "a_earnings a' - a_earned a' = a_earnings a - a_earned a"
    and "a_deducted a \<le> a_deducted a'"
    and "a_cursor a \<le> a_cursor a'"
    and "(a_earned a' - a_earned a) * pps \<le> (a_deducted a' - a_deducted a) * ceps"
    and "(if promo then a_wallet a' = a_wallet a else a_intro a' = a_intro a)"
    and "0 \<le> spend promo a \<Longrightarrow> 0 \<le> spend promo a'"
proof -
  have "(earn_for (time_covered d pps) ceps) * pps \<le> d * ceps \<and> 0 \<le> time_covered d pps" if "0 < d" for d
  proof -
    let ?t = "time_covered d pps"
    have t: "0 \<le> ?t" "?t * pps \<le> d * 1000"
      using that assms(2) div_mult_le_self [of pps "d * 1000"] by (auto simp: time_covered_def)
    have "earn_for ?t ceps * 1000 \<le> ?t * ceps" unfolding earn_for_def by (rule div_mult_le_self) simp
    then have "earn_for ?t ceps * 1000 * pps \<le> ?t * ceps * pps" using assms(2) by (simp add: mult_right_mono)
    also have "\<dots> = ?t * pps * ceps" by simp
    also have "\<dots> \<le> d * 1000 * ceps" using t(2) assms(3) by (rule mult_right_mono)
    finally show ?thesis using t(1) by simp
  qed
  then show "a_intro a' + a_wallet a' + a_deducted a' = a_intro a + a_wallet a + a_deducted a"
    and "a_earnings a' - a_earned a' = a_earnings a - a_earned a"
    and "a_deducted a \<le> a_deducted a'" and "a_cursor a \<le> a_cursor a'"
    and "(a_earned a' - a_earned a) * pps \<le> (a_deducted a' - a_deducted a) * ceps"
    and "(if promo then a_wallet a' = a_wallet a else a_intro a' = a_intro a)"
    and "0 \<le> spend promo a \<Longrightarrow> 0 \<le> spend promo a'"
    using assms(1) by (auto elim!: acct_stepE simp: acct_charge_def Let_def spend_def)
qed

lemma acct_step_cursor:
  assumes "acct_step pps ceps promo now a a'" and "0 < pps" and "a_cursor a \<le> T" and "now \<le> T"
  shows "a_cursor a' \<le> T"
  using assms(1)
proof cases
  case idle
  then show ?thesis using assms(3) by simp
next
  case 2: (charge ms d)
  have "d * 1000 \<le> potential_deduct ms pps * 1000" using 2 by simp
  also have "\<dots> \<le> ms * pps" unfolding potential_deduct_def by (rule div_mult_le_self) simp
  finally have "time_covered d pps \<le> ms * pps div pps"
    unfolding time_covered_def using assms(2) by (rule zdiv_mono1)
  then show ?thesis using 2 assms(2,4) by (simp add: acct_charge_def Let_def)
qed

text \<open>
  For a whole number of micro-coins per millisecond the charge is exact until the purse is empty:
  the cursor accounts for all of it, or nothing more can be charged.
\<close>

definition exact_or_empty :: "micros \<Rightarrow> bool \<Rightarrow> millis \<Rightarrow> micros \<Rightarrow> millis \<Rightarrow> account \<Rightarrow> bool" where
  "exact_or_empty pps promo start paid T a \<longleftrightarrow>
     (a_deducted a - paid) * 1000 \<le> pps * (a_cursor a - start) \<or>
     (spend promo a = 0 \<and> (a_deducted a - paid) * 1000 \<le> pps * (T - start))"

lemma acct_step_exact:
  assumes "acct_step pps ceps promo now a a'" and "0 < pps" and "1000 dvd pps" and "now \<le> T"
    and "exact_or_empty pps promo start paid T a"
  shows "exact_or_empty pps promo start paid T a'"
  using assms(1)
proof cases
  case idle
  then show ?thesis using assms(5) by simp
next
  case 2: (charge ms d)
  have pot: "potential_deduct ms pps * 1000 = ms * pps"
    using assms(3) by (simp add: potential_deduct_def dvd_div_mult_self)
  have old: "(a_deducted a - paid) * 1000 \<le> pps * (a_cursor a - start)"
    using assms(5) 2 by (auto simp: exact_or_empty_def)
  show ?thesis
  proof (cases "d = potential_deduct ms pps")
    case True
    then have t: "time_covered d pps = ms" using pot assms(2) by (simp add: time_covered_def)
    have "(a_deducted a + d - paid) * 1000 \<le> pps * (a_cursor a + ms - start)"
      using old True pot by (simp add: algebra_simps)
    then show ?thesis using 2(1) t by (simp add: exact_or_empty_def acct_charge_def Let_def)
  next
    case False
    then have d: "d = spend promo a" "d * 1000 \<le> ms * pps" using 2 pot by auto
    have "d * 1000 \<le> (T - a_cursor a) * pps"
      using d(2) 2(3) assms(2,4) by (meson mult_right_mono order_trans diff_right_mono less_imp_le)
    then have "(a_deducted a + d - paid) * 1000 \<le> pps * (T - start)"
      using old by (simp add: algebra_simps)
    then show ?thesis using 2(1) d(1) by (auto simp: exact_or_empty_def acct_charge_def Let_def spend_def)
  qed
qed

locale metered_driver =
  fixes cycle :: "'w \<Rightarrow> 's \<Rightarrow> 's" and time :: "'w \<Rightarrow> millis"
    and inv :: "'s \<Rightarrow> bool" and acct :: "'s \<Rightarrow> account"
    and pps ceps :: micros and promo :: bool
  assumes rates: "inv s \<Longrightarrow> 0 < pps \<and> 0 \<le> ceps"
    and funds: "inv s \<Longrightarrow> 0 \<le> a_intro (acct s) \<and> 0 \<le> a_wallet (acct s)"
    and refines: "inv s \<Longrightarrow> inv (cycle w s) \<and> acct_step pps ceps promo (time w) (acct s) (acct (cycle w s))"
begin

lemma run_inv: "inv s \<Longrightarrow> inv (fold cycle ws s)"
  by (induction ws arbitrary: s) (simp_all add: refines)

lemma run_conserves:
  "inv s \<Longrightarrow> a_intro (acct (fold cycle ws s)) + a_wallet (acct (fold cycle ws s)) + a_deducted (acct (fold cycle ws s)) =
     a_intro (acct s) + a_wallet (acct s) + a_deducted (acct s) \<and>
   a_deducted (acct s) \<le> a_deducted (acct (fold cycle ws s))"
proof (induction ws arbitrary: s)
  case (Cons w ws)
  have i: "inv (cycle w s)" "acct_step pps ceps promo (time w) (acct s) (acct (cycle w s))" "0 < pps" "0 \<le> ceps"
    using refines rates Cons.prems by blast+
  show ?case using Cons.IH [OF i(1)] acct_step_facts(1,3) [OF i(2-4)] by simp
qed simp

lemma run_other_purse:
  "inv s \<Longrightarrow> (if promo then a_wallet (acct (fold cycle ws s)) = a_wallet (acct s)
              else a_intro (acct (fold cycle ws s)) = a_intro (acct s))"
proof (induction ws arbitrary: s)
  case (Cons w ws)
  have i: "inv (cycle w s)" "acct_step pps ceps promo (time w) (acct s) (acct (cycle w s))" "0 < pps" "0 \<le> ceps"
    using refines rates Cons.prems by blast+
  show ?case using Cons.IH [OF i(1)] acct_step_facts(6) [OF i(2-4)] by (simp split: if_splits)
qed simp

lemma run_share:
  "inv s \<Longrightarrow> (a_earned (acct (fold cycle ws s)) - a_earned (acct s)) * pps
     \<le> (a_deducted (acct (fold cycle ws s)) - a_deducted (acct s)) * ceps \<and>
   a_earnings (acct (fold cycle ws s)) - a_earned (acct (fold cycle ws s)) = a_earnings (acct s) - a_earned (acct s)"
proof (induction ws arbitrary: s)
  case (Cons w ws)
  have i: "inv (cycle w s)" "acct_step pps ceps promo (time w) (acct s) (acct (cycle w s))" "0 < pps" "0 \<le> ceps"
    using refines rates Cons.prems by blast+
  show ?case using Cons.IH [OF i(1)] acct_step_facts(2,5) [OF i(2-4)] by (simp add: algebra_simps)
qed simp

lemma run_cursor:
  "inv s \<Longrightarrow> \<forall>w \<in> set ws. time w \<le> T \<Longrightarrow> a_cursor (acct s) \<le> T \<Longrightarrow>
   a_cursor (acct s) \<le> a_cursor (acct (fold cycle ws s)) \<and> a_cursor (acct (fold cycle ws s)) \<le> T"
proof (induction ws arbitrary: s)
  case (Cons w ws)
  have i: "inv (cycle w s)" "acct_step pps ceps promo (time w) (acct s) (acct (cycle w s))" "0 < pps" "0 \<le> ceps"
    using refines rates Cons.prems by blast+
  have "a_cursor (acct (cycle w s)) \<le> T" using acct_step_cursor [OF i(2,3)] Cons.prems by simp
  then show ?case using Cons.IH [OF i(1)] Cons.prems acct_step_facts(4) [OF i(2-4)] by fastforce
qed simp

lemma run_exact:
  "inv s \<Longrightarrow> 1000 dvd pps \<Longrightarrow> \<forall>w \<in> set ws. time w \<le> T \<Longrightarrow> exact_or_empty pps promo start paid T (acct s) \<Longrightarrow>
   exact_or_empty pps promo start paid T (acct (fold cycle ws s))"
proof (induction ws arbitrary: s)
  case (Cons w ws)
  have i: "inv (cycle w s)" "acct_step pps ceps promo (time w) (acct s) (acct (cycle w s))" "0 < pps"
    using refines rates Cons.prems by blast+
  show ?case using Cons.IH [OF i(1)] Cons.prems acct_step_exact [OF i(2,3)] by simp
qed simp

lemma run_never_overcharges:
  assumes "inv s" and "1000 dvd pps" and "\<forall>w \<in> set ws. time w \<le> T" and "a_cursor (acct s) \<le> T"
  shows "(a_deducted (acct (fold cycle ws s)) - a_deducted (acct s)) * 1000 \<le> pps * (T - a_cursor (acct s))"
proof -
  have start: "exact_or_empty pps promo (a_cursor (acct s)) (a_deducted (acct s)) T (acct s)"
    by (simp add: exact_or_empty_def)
  have "pps * (a_cursor (acct (fold cycle ws s)) - a_cursor (acct s)) \<le> pps * (T - a_cursor (acct s))"
    using run_cursor [OF assms(1,3,4)] rates [OF assms(1)] by (intro mult_left_mono) auto
  then show ?thesis
    using run_exact [OF assms(1-3) start] by (auto simp: exact_or_empty_def)
qed

end

section \<open>The cycles implement it\<close>

definition tick_state :: "string \<Rightarrow> worker \<Rightarrow> billing_state \<Rightarrow> billing_state" where
  "tick_state cid w st = fst (snd (processBillingCycleInternal w cid st))"

definition chargeable :: "micros \<Rightarrow> micros \<Rightarrow> bool \<Rightarrow> string \<Rightarrow> billing_state \<Rightarrow> bool" where
  "chargeable pps ceps promo cid st \<longleftrightarrow> 0 < pps \<and> 0 \<le> ceps \<and> billable pps ceps promo cid st"

lemma billable_funds:
  "billable pps ceps promo cid st \<Longrightarrow> 0 \<le> a_intro (account cid st) \<and> 0 \<le> a_wallet (account cid st)"
  by (erule billableE) (simp add: account_def)

interpretation driver: metered_driver "tick_state cid" w_now "chargeable pps ceps promo cid" "account cid" pps ceps promo
  for pps ceps promo cid
proof
  fix s w
  assume c: "chargeable pps ceps promo cid s"
  show "chargeable pps ceps promo cid (tick_state cid w s) \<and>
      acct_step pps ceps promo (w_now w) (account cid s) (account cid (tick_state cid w s))"
    using c tick_refines [of pps ceps promo cid s w]
    by (auto simp: chargeable_def tick_state_def tick_post_def split: prod.splits)
qed (auto simp: chargeable_def dest: billable_funds)

section \<open>Retried ticks and flushes are sequences of cycles\<close>

lemma processBillingTick_runs:
  assumes "processBillingTick ws cid st = (r, st', evs)"
  shows "\<exists>us. set us \<subseteq> range ws \<and> st' = fold (tick_state cid) us st"
proof -
  let ?fn = "\<lambda>attempt (st, evs). case processBillingCycleInternal (ws attempt) cid st of
                                    (r, st', evs') \<Rightarrow> (r, (st', evs @ evs'))"
  let ?R = "\<lambda>(a :: billing_state \<times> billing_event list) (b :: billing_state \<times> billing_event list). \<exists>us. set us \<subseteq> range ws \<and> fst b = fold (tick_state cid) us (fst a)"
  have "?R x (snd (?fn a x))" for a x
    by (rule exI [of _ "[ws a]"]) (auto simp: tick_state_def split: prod.splits)
  moreover have "?R x z" if R: "?R x y" "?R y z" for x y z
  proof -
    obtain us vs where "set us \<subseteq> range ws" "fst y = fold (tick_state cid) us (fst x)"
      "set vs \<subseteq> range ws" "fst z = fold (tick_state cid) vs (fst y)" using R by blast
    then show ?thesis by (intro exI [of _ "us @ vs"]) simp
  qed
  ultimately have "?R (st, []) (fst (snd (retry_from tick_retry_options tick_retryable ?fn (maxRetries tick_retry_options) 0 (st, []))))"
    by (rule retry_from_state)
  then show ?thesis
    using assms by (auto simp: processBillingTick_def retryWithBackoff_def split: prod.splits sum.splits)
qed

lemma flush_loop_runs:
  "flush_loop t ws cid left n residual st = (n', residual', st', evs) \<Longrightarrow>
   n' \<le> n + left \<and> (\<exists>us. set us \<subseteq> {ws i j | i j. True} \<and> st' = fold (tick_state cid) us st)"
proof (induction left arbitrary: n residual st evs)
  case 0
  then have "st' = fold (tick_state cid) [] st \<and> n' = n" by simp
  then show ?case by (metis add_0_right empty_subsetI list.set(1) order_refl)
next
  case (Suc left)
  have nil: ?case if "n' \<le> n + Suc left" "st' = st"
    using that by (intro conjI exI [of _ "[]"]) simp_all
  obtain r st1 ev1 where p: "processBillingTick (ws n) cid st = (r, st1, ev1)" by (metis prod_cases3)
  obtain us where us: "set us \<subseteq> range (ws n)" "st1 = fold (tick_state cid) us st"
    using processBillingTick_runs [OF p] by blast
  have usr: "set us \<subseteq> {ws i j | i j. True}" using us(1) by blast
  obtain n2 r2 st2 ev2 where f: "flush_loop t ws cid left (Suc n) (num0 (getBillingWallLagMs (t (Suc n)) cid st1)) st1 = (n2, r2, st2, ev2)"
    by (metis prod_cases4)
  consider "st' = st" "n' = n" | "st' = st1" "n' = Suc n" | "st' = st2" "n' = n2" "residual' = r2"
    using Suc.prems p f by (auto simp: Let_def split: option.splits if_splits)
  then show ?case
  proof cases
    case 1
    then show ?thesis using nil by simp
  next
    case 2
    then show ?thesis using us(2) usr by (intro conjI exI [of _ us]) auto
  next
    case 3
    then obtain vs where "n' \<le> Suc n + left" "set vs \<subseteq> {ws i j | i j. True}" "st' = fold (tick_state cid) vs st1"
      using Suc.IH f by blast
    then show ?thesis using us(2) usr by (intro conjI exI [of _ "us @ vs"]) auto
  qed
qed

section \<open>A running call\<close>

definition demo_live :: billing_state where
  "demo_live = demo_state\<lparr>sessions := [''c1'' \<mapsto> Typed demo_session], introKey := [''c1'' \<mapsto> 0],
     walletKey := [''c1'' \<mapsto> 900000000], earningsKey := [''c1'' \<mapsto> 0]\<rparr>"

lemma demo_chargeable: "chargeable 30000000 7500000 False ''c1'' demo_live"
  by (simp add: chargeable_def billable_def cell_def demo_live_def demo_state_def demo_session_def money_view_def
      BILLING_SESSION_SCHEMA_VERSION_def)

lemma demo_account: "account ''c1'' demo_live = \<lparr> a_intro = 0, a_wallet = 900000000, a_earnings = 0,
    a_deducted = 0, a_earned = 0, a_cursor = 1000000 \<rparr>"
  by (simp add: account_def cell_def demo_live_def demo_state_def demo_session_def)

section \<open>Properties of billing\<close>

text \<open>
  C3. Billing conserves money: over any sequence of billing cycles, run by any workers, with lock
  contention, ownership takeovers, failing stores and any clock readings, what is left in the two
  purses plus what was deducted is what was there before; deductions never decrease, no purse goes
  below zero and only the purse the call is billed from is touched.
\<close>

theorem billing_conserves_money:
  assumes "chargeable pps ceps promo cid st"
  shows "let a = account cid st; a' = account cid (fold (tick_state cid) ws st)
    in a_intro a' + a_wallet a' + a_deducted a' = a_intro a + a_wallet a + a_deducted a \<and>
       a_deducted a \<le> a_deducted a' \<and> 0 \<le> a_intro a' \<and> 0 \<le> a_wallet a' \<and>
       (if promo then a_wallet a' = a_wallet a else a_intro a' = a_intro a)"
  using driver.run_conserves [OF assms, of ws] driver.run_other_purse [OF assms, of ws]
    driver.funds [OF driver.run_inv [OF assms, of ws]]
  by (simp add: Let_def)

theorem billing_conserves_money_witness:
  "a_wallet (account ''c1'' (fold (tick_state ''c1'') [demo_worker, demo_worker\<lparr>w_now := 1003000\<rparr>] demo_live)) +
   a_deducted (account ''c1'' (fold (tick_state ''c1'') [demo_worker, demo_worker\<lparr>w_now := 1003000\<rparr>] demo_live)) = 900000000"
  using billing_conserves_money [OF demo_chargeable, of "[demo_worker, demo_worker\<lparr>w_now := 1003000\<rparr>]"]
  by (simp add: Let_def demo_account)

text \<open>
  The creator never earns more than the creator rate on what the user paid: over any sequence
  of cycles the earned amount stays below the creator's fraction of the deducted amount, and the
  earnings counter of the call moves with it.
\<close>

theorem creator_share_bounded:
  assumes "chargeable pps ceps promo cid st"
  shows "let a = account cid st; a' = account cid (fold (tick_state cid) ws st)
    in (a_earned a' - a_earned a) * pps \<le> (a_deducted a' - a_deducted a) * ceps \<and>
       a_earnings a' - a_earnings a = a_earned a' - a_earned a"
  using driver.run_share [OF assms, of ws] by (simp add: Let_def)

theorem creator_share_bounded_witness:
  "a_earned (account ''c1'' (tick_state ''c1'' demo_worker demo_live)) * 30000000
     \<le> a_deducted (account ''c1'' (tick_state ''c1'' demo_worker demo_live)) * 7500000 \<and>
   a_earned (account ''c1'' (tick_state ''c1'' demo_worker demo_live)) = 7500000"
proof
  show "a_earned (account ''c1'' (tick_state ''c1'' demo_worker demo_live)) * 30000000
     \<le> a_deducted (account ''c1'' (tick_state ''c1'' demo_worker demo_live)) * 7500000"
    using creator_share_bounded [OF demo_chargeable, of "[demo_worker]"] by (simp add: Let_def demo_account)
  show "a_earned (account ''c1'' (tick_state ''c1'' demo_worker demo_live)) = 7500000" by code_simp
qed

text \<open>
  C6. At an allowed price a call is never charged for more than the time that passed: after any
  cycles up to time \<open>T\<close>, the micro-coins deducted cost at most the milliseconds between the
  billing cursor they started on and \<open>T\<close>, and the cursor never passes \<open>T\<close>.
\<close>

theorem never_overcharged:
  assumes "isAllowedCreatorPrice p" and "pps = pricePerMinuteToUserMicrosPerSecond (of_int p)"
    and "chargeable pps ceps promo cid st"
    and "\<forall>w \<in> set ws. w_now w \<le> T" and "a_cursor (account cid st) \<le> T"
  shows "let a = account cid st; a' = account cid (fold (tick_state cid) ws st)
    in (a_deducted a' - a_deducted a) * 1000 \<le> pps * (T - a_cursor a) \<and> a_cursor a' \<le> T"
proof -
  have "1000 dvd pps" using assms(1) by (cases rule: allowed_price_cases) (simp_all add: assms(2) tier_user_rates)
  then show ?thesis
    using driver.run_never_overcharges [OF assms(3) _ assms(4,5)] driver.run_cursor [OF assms(3-5)]
    by (simp add: Let_def)
qed

theorem never_overcharged_witness:
  "a_deducted (account ''c1'' (tick_state ''c1'' demo_worker demo_live)) * 1000 \<le> 30000000 * (1001000 - 1000000) \<and>
   a_deducted (account ''c1'' (tick_state ''c1'' demo_worker demo_live)) = 30000000"
proof
  show "a_deducted (account ''c1'' (tick_state ''c1'' demo_worker demo_live)) * 1000 \<le> 30000000 * (1001000 - 1000000)"
    using never_overcharged [of 1800 30000000 7500000 False "''c1''" demo_live "[demo_worker]" 1001000]
      demo_chargeable tier_user_rates(1)
    by (simp add: Let_def demo_account isAllowedCreatorPrice_def ALLOWED_CREATOR_PRICES_def demo_worker_def)
  show "a_deducted (account ''c1'' (tick_state ''c1'' demo_worker demo_live)) = 30000000" by code_simp
qed

text \<open>
  A cycle that answers \<open>TickOk\<close> after a billable interval leaves at least one full second of
  money in the purse: a call that cannot pay for its next second is told to stop, never continued.
\<close>

theorem tick_ok_leaves_a_second:
  assumes "chargeable pps ceps promo cid st"
    and "processBillingCycleInternal w cid st = (Inr TickOk, st', evs)"
    and "MIN_BILLING_DELTA_MS \<le> w_now w - a_cursor (account cid st)"
  shows "pps \<le> spend promo (account cid st')"
  using assms tick_refines [of pps ceps promo cid st w] by (simp add: chargeable_def tick_post_def)

theorem tick_ok_leaves_a_second_witness:
  "30000000 \<le> spend False (account ''c1'' (tick_state ''c1'' demo_worker demo_live))"
proof -
  have "fst (processBillingCycleInternal demo_worker ''c1'' demo_live) = Inr TickOk" by code_simp
  then obtain st' evs where t: "processBillingCycleInternal demo_worker ''c1'' demo_live = (Inr TickOk, st', evs)"
    by (metis prod_cases3 fst_conv)
  from tick_ok_leaves_a_second [OF demo_chargeable t] t show ?thesis
    by (simp add: tick_state_def demo_account MIN_BILLING_DELTA_MS_def demo_worker_def)
qed

text \<open>
  The only error a cycle of a promoted call raises is the failed Redis write, and then nothing
  was charged; in particular the monotonicity check of the totals never fires.
\<close>

theorem tick_errors_charge_nothing:
  assumes "chargeable pps ceps promo cid st"
    and "processBillingCycleInternal w cid st = (Inl e, st', evs)"
  shows "account cid st' = account cid st \<and> (\<exists>m. w_persist_error w = Some m \<and> e = RedisFailure m)"
  using assms tick_refines [of pps ceps promo cid st w] by (auto simp: chargeable_def tick_post_def)

theorem tick_errors_charge_nothing_witness:
  "account ''c1'' (tick_state ''c1'' (demo_worker\<lparr>w_persist_error := Some ''ECONNRESET''\<rparr>) demo_live) = account ''c1'' demo_live"
proof -
  let ?w = "demo_worker\<lparr>w_persist_error := Some ''ECONNRESET''\<rparr>"
  have "isl (fst (processBillingCycleInternal ?w ''c1'' demo_live))" by code_simp
  then obtain e st' evs where t: "processBillingCycleInternal ?w ''c1'' demo_live = (Inl e, st', evs)"
    by (metis prod_cases3 fst_conv isl_def)
  from tick_errors_charge_nothing [OF demo_chargeable t] t show ?thesis by (simp add: tick_state_def)
qed

text \<open>
  The cycle that ends a call on its duration limit drops its own charge: it requests the
  termination before the balances and the session are written, so the account in the stores is the
  one of the previous cycle.
\<close>

theorem duration_limit_tick_not_recorded:
  assumes "chargeable pps ceps promo cid st"
    and "processBillingCycleInternal w cid st = (r, st', evs)"
    and "ForceTerminate cid ''duration_limit_reached'' x \<in> set evs"
  shows "account cid st' = account cid st"
  using assms tick_refines [of pps ceps promo cid st w] by (auto simp: chargeable_def tick_post_def)

theorem duration_limit_tick_not_recorded_witness:
  "let st = demo_live\<lparr>sessions := [''c1'' \<mapsto> Typed (demo_session\<lparr>effectiveDurationLimitSeconds := 1\<rparr>)]\<rparr>
   in fst (processBillingCycleInternal demo_worker ''c1'' st) = Inr StopNeedsSettlement \<and>
      account ''c1'' (tick_state ''c1'' demo_worker st) = account ''c1'' st"
proof -
  let ?st = "demo_live\<lparr>sessions := [''c1'' \<mapsto> Typed (demo_session\<lparr>effectiveDurationLimitSeconds := 1\<rparr>)]\<rparr>"
  obtain r st' evs where t: "processBillingCycleInternal demo_worker ''c1'' ?st = (r, st', evs)" by (metis prod_cases3)
  have c: "chargeable 30000000 7500000 False ''c1'' ?st"
    by (simp add: chargeable_def billable_def cell_def demo_live_def demo_state_def demo_session_def money_view_def
      BILLING_SESSION_SCHEMA_VERSION_def)
  have "ForceTerminate ''c1'' ''duration_limit_reached'' ''duration_limit_reached'' \<in>
      set (snd (snd (processBillingCycleInternal demo_worker ''c1'' ?st)))" by code_simp
  then have "ForceTerminate ''c1'' ''duration_limit_reached'' ''duration_limit_reached'' \<in> set evs"
    unfolding t by simp
  from duration_limit_tick_not_recorded [OF c t this] have "account ''c1'' st' = account ''c1'' ?st" .
  moreover have "fst (processBillingCycleInternal demo_worker ''c1'' ?st) = Inr StopNeedsSettlement" by code_simp
  ultimately show ?thesis using t by (simp add: Let_def tick_state_def)
qed

lemma flush_conserves:
  assumes "chargeable pps ceps promo cid st"
    and "flushBillingToQuiescence t ws cid st = ((n, residual), st', evs)"
  shows "n \<le> 50 \<and> chargeable pps ceps promo cid st' \<and>
    a_intro (account cid st') + a_wallet (account cid st') + a_deducted (account cid st') =
      a_intro (account cid st) + a_wallet (account cid st) + a_deducted (account cid st)"
proof -
  obtain n' residual' st1 ev where f: "flush_loop t ws cid 50 0 0 st = (n', residual', st1, ev)" by (metis prod_cases4)
  obtain us where us: "n' \<le> 50" "st1 = fold (tick_state cid) us st" using flush_loop_runs [OF f] by auto
  have "n = n'" "cell cid st' = cell cid st1"
    using assms(2) f by (auto simp: flushBillingToQuiescence_def MAX_SETTLEMENT_FLUSH_ITERATIONS_def)
  then show ?thesis
    using us driver.run_inv [OF assms(1), of us] driver.run_conserves [OF assms(1), of us]
    by (simp add: chargeable_def billable_def account_def)
qed



text \<open>
  The integer arithmetic of a cycle is exact in double precision: at an allowed price every
  product the cycle forms stays below \<open>2 ^ 53\<close>.
\<close>

theorem tick_arith_safe:
  assumes "isAllowedCreatorPrice p" and "pps = pricePerMinuteToUserMicrosPerSecond (of_int p)"
    and "0 \<le> ceps" and "ceps \<le> pps" and "0 < d" and "d \<le> potential_deduct (tick_delta w s) pps"
  shows "tick_delta w s * pps < 2 ^ 53 \<and> d * 1000 < 2 ^ 53 \<and> time_covered d pps * ceps < 2 ^ 53"
proof -
  have pps: "0 < pps" "pps \<le> 60000000"
    using assms(1) by (cases rule: allowed_price_cases; simp add: assms(2) tier_user_rates)+
  have delta: "tick_delta w s * pps \<le> 60000 * 60000000"
    using tick_delta_bounds [of w s] pps by (intro mult_mono) auto
  have d: "d * 1000 \<le> tick_delta w s * pps"
    using assms(6) div_mult_le_self [of 1000 "tick_delta w s * pps"] by (simp add: potential_deduct_def)
  have "time_covered d pps * ceps \<le> time_covered d pps * pps"
    using assms(4,5) pps by (intro mult_left_mono) (auto simp: time_covered_def)
  also have "\<dots> \<le> d * 1000" unfolding time_covered_def using pps(1) by (rule div_mult_le_self)
  finally show ?thesis using delta d by simp
qed

theorem tick_arith_safe_witness:
  "tick_delta demo_worker demo_session * 30000000 < 2 ^ 53"
  using tick_arith_safe [of 1800 30000000 7500000 30000000 demo_worker demo_session] tier_user_rates(1)
  by (simp add: isAllowedCreatorPrice_def ALLOWED_CREATOR_PRICES_def potential_deduct_def tick_delta_def
      demo_worker_def demo_session_def readMaxBillingDeltaMs_def readEnvInt_def)

end
