(* ===== verification/WalletFrame.thy ===== *)
theory WalletFrame
  imports TickRefinement
begin

text \<open>
  The frame of billing: no phase of a cycle, a retried tick or a flush writes a user or creator
  document. Wallets are documents, so they change at settlement only.
\<close>

section \<open>Phases of a cycle\<close>

definition same_docs :: "billing_state \<Rightarrow> billing_state \<Rightarrow> bool" where
  "same_docs st st' \<longleftrightarrow> users st' = users st \<and> creators st' = creators st"

lemma same_docs_refl: "same_docs st st" by (simp add: same_docs_def)

lemma same_docs_trans: "same_docs a b \<Longrightarrow> same_docs b c \<Longrightarrow> same_docs a c"
  by (simp add: same_docs_def)

lemma slot_docs [simp]:
  "users (releaseActiveCallSlotsIfOurs cid u c st) = users st" "creators (releaseActiveCallSlotsIfOurs cid u c st) = creators st"
  "users (releaseActiveCallSlotsIfTerminal s st) = users st" "creators (releaseActiveCallSlotsIfTerminal s st) = creators st"
  "users (persistCallSession cid s st) = users st" "creators (persistCallSession cid s st) = creators st"
  by (simp_all add: persistCallSession_def releaseActiveCallSlotsIfTerminal_def releaseActiveCallSlotsIfOurs_def Let_def)

lemma promote_persist_docs [simp]:
  "users (promote_persist w cid p r st) = users st" "creators (promote_persist w cid p r st) = creators st"
  by (simp_all add: promote_persist_def Let_def)

lemma promote_docs:
  "promoteBootstrappingSession w opts cid s st = (r, st', evs) \<Longrightarrow> same_docs st st'"
  by (auto simp: promoteBootstrappingSession_def same_docs_def Let_def promote_refuse_def
      split: if_splits sum.splits prod.splits)

lemma repair_docs:
  "repairSessionPricingIfNeeded w cid s st = (r, s', st', evs) \<Longrightarrow> same_docs st st'"
  unfolding repairSessionPricingIfNeeded_def Let_def
  by (auto simp: patchSessionPricingOnly_def Let_def same_docs_refl dest: promote_docs
      split: if_splits sum.splits prod.splits option.splits) (simp_all add: same_docs_def)

lemma keepalive_docs:
  "maybeEmitBillingKeepaliveIfDue w cid s b p e st = (s', st', evs) \<Longrightarrow> same_docs st st'"
  by (auto simp: maybeEmitBillingKeepaliveIfDue_def same_docs_def Let_def split: if_splits)

lemma tick_transition_docs [simp]:
  "users (snd (tick_transition w cid t r s st)) = users st" "creators (snd (tick_transition w cid t r s st)) = creators st"
  by (simp_all add: tick_transition_def split: prod.split)

lemma finish_docs: "finish_tick w cid pps promo s l st = (r, st', evs) \<Longrightarrow> same_docs st st'"
  unfolding finish_tick_def emit_tick_update_def Let_def
  by (auto dest!: keepalive_docs simp: same_docs_def record_write_latency_def persist_tick_def
      split: if_splits prod.splits)

lemma settle_charge_docs: "settle_charge w cid pps promo s l st = (r, st', evs) \<Longrightarrow> same_docs st st'"
  unfolding settle_charge_def Let_def activate_session_def write_tick_checkpoint_def
  by (auto dest!: finish_docs simp: same_docs_def split: if_splits prod.splits option.splits
      dest: arg_cong [where f = "\<lambda>x. users (snd x)"] arg_cong [where f = "\<lambda>x. creators (snd x)"])

section \<open>Cycles, ticks and flushes\<close>

lemma charge_docs: "charge_tick w cid pps ceps promo prev s l st = (r, st', evs) \<Longrightarrow> same_docs st st'"
  unfolding charge_tick_def Let_def
  by (auto dest!: settle_charge_docs keepalive_docs simp: same_docs_def split: if_splits prod.splits)

lemma bill_docs:
  assumes "bill_loaded_session w cid s l st = (r, st', evs)"
  shows "same_docs st st'"
proof -
  obtain o1 st1 e1 where p: "ensure_tick_price w cid s st = (o1, st1, e1)" by (metis prod_cases3)
  have 1: "same_docs st st1"
    using p by (auto simp: ensure_tick_price_def same_docs_refl dest: repair_docs split: if_splits prod.splits)
  show ?thesis
  proof (cases o1)
    case None
    then show ?thesis using assms p 1 by (simp add: bill_loaded_session_def Let_def)
  next
    case (Some s1)
    have d: "same_docs st (record_tick_drift w s1 st1)"
      using 1 by (simp add: same_docs_def record_tick_drift_def)
    have "same_docs (record_tick_drift w s1 st1) st'"
      using assms p Some
      by (auto simp: bill_loaded_session_def Let_def consumePendingCallEndIfAny_def
          dest!: keepalive_docs charge_docs split: if_splits prod.splits) (simp_all add: same_docs_def)
    with d show ?thesis by (rule same_docs_trans)
  qed
qed

lemma tick_body_docs:
  assumes "tick_body w cid st = (r, st', evs)"
  shows "same_docs st st'"
proof -
  obtain x pr where l: "load_tick_session w cid st = (x, pr)" by fastforce
  consider e where "x = Inl e" | "x = Inr None" | ld where "x = Inr (Some ld)" by (metis option.exhaust sum.exhaust)
  then show ?thesis
  proof cases
    case 3
    let ?s = "normalizeV4SessionFields (l_session ld)" and ?st = "st\<lparr>prices := pr\<rparr>"
    obtain ok s' k where o: "ensureRuntimeOwnership (w_env w) (w_inst w) (w_shuttingDown w) (w_interference w)
        ?s cid (w_now w) (kv ?st) = (ok, s', k)" by (metis prod_cases3)
    have m: "same_docs st (write_migrated_session cid s' ld (?st\<lparr>kv := k\<rparr>))"
      by (simp add: same_docs_def write_migrated_session_def)
    show ?thesis
    proof (cases "shortCircuitIfTerminalBillingSession cid (lifecycleState ?s) (kv ?st)")
      case None
      show ?thesis
      proof (cases ok)
        case True
        then have "bill_loaded_session w cid s' ld (write_migrated_session cid s' ld (?st\<lparr>kv := k\<rparr>)) = (r, st', evs)"
          using assms l 3 None o by (simp add: tick_body_def Let_def)
        then show ?thesis using m bill_docs same_docs_trans by blast
      next
        case False
        then show ?thesis using assms l 3 None o by (auto simp: tick_body_def Let_def same_docs_def)
      qed
    next
      case (Some x)
      then show ?thesis using assms l 3 by (auto simp: tick_body_def Let_def same_docs_def)
    qed
  qed (use assms l in \<open>auto simp: tick_body_def same_docs_def\<close>)
qed

lemma cycle_docs:
  assumes "processBillingCycleInternal w cid st = (r, st', evs)"
  shows "same_docs st st'"
  using assms tick_body_docs [of w cid "st\<lparr>kv := k\<rparr>" for k]
  by (auto simp: processBillingCycleInternal_def same_docs_def split: prod.splits bool.splits)

lemma run_docs: "same_docs st (fold (tick_state cid) us st)"
proof (induction us arbitrary: st)
  case (Cons u us)
  have "same_docs st (tick_state cid u st)"
    by (cases "processBillingCycleInternal u cid st") (auto simp: tick_state_def dest: cycle_docs)
  with Cons show ?case using same_docs_trans by fastforce
qed (simp add: same_docs_refl)

lemma flush_docs: "same_docs st (fst (snd (flushBillingToQuiescence t ws cid st)))"
proof -
  obtain n' residual' st1 ev where
    f: "flush_loop t ws cid MAX_SETTLEMENT_FLUSH_ITERATIONS 0 0 st = (n', residual', st1, ev)" by (metis prod_cases4)
  obtain us where "st1 = fold (tick_state cid) us st" using flush_loop_runs [OF f] by auto
  then have "same_docs st st1" using run_docs by simp
  then show ?thesis using f by (simp add: flushBillingToQuiescence_def same_docs_def)
qed


end
