(* ===== verification/SettleFlow.thy ===== *)
theory SettleFlow
  imports SettlementProofs WalletFrame
begin

text \<open>
  The whole of \<open>settleCall\<close>, on the finalizer's path and on the direct one: the flush of the billing,
  the settlement lock and the transaction together. The payer is debited once, and for the amount
  that was metered.
\<close>

section \<open>The handler, on either path\<close>

text \<open>The state in which the locked part of the handler runs.\<close>

definition locked_state :: "bool \<Rightarrow> (nat \<Rightarrow> millis) \<Rightarrow> (nat \<Rightarrow> nat \<Rightarrow> worker) \<Rightarrow> string \<Rightarrow> string \<Rightarrow> settle_state \<Rightarrow> settle_state" where
  "locked_state fin t ws token cid st =
     (if fin then st
      else st\<lparr>core := (let c = fst (snd (flushBillingToQuiescence t ws cid (core st)))
                       in c\<lparr>kv := (kv c)(settleLockKey cid \<mapsto> token)\<rparr>)\<rparr>)"

lemma settleCall_locked:
  assumes "settleCall w t ws reads faults commission token fin cid st = (Persisted p, st')"
  shows "settle_locked w reads faults commission token fin cid (locked_state fin t ws token cid st) = (Persisted p, st')"
    and "\<not> fin \<Longrightarrow> \<not> tombstoned cid (locked_state fin t ws token cid st)"
  using assms
  by (auto simp: settleCall_def locked_state_def Let_def tombstoned_def split: if_splits)

lemma locked_state_fields [simp]:
  "coinTxns (locked_state fin t ws token cid st) = coinTxns st"
  "history (locked_state fin t ws token cid st) = history st"
  "durable (locked_state fin t ws token cid st) = durable st"
  "find_user v (locked_state fin t ws token cid st) = find_user v st"
  "creators (core (locked_state fin t ws token cid st)) = creators (core st)"
  using flush_docs [of "core st" t ws cid]
  by (simp_all add: locked_state_def Let_def find_user_def same_docs_def)

lemma locked_state_unsettled:
  assumes "\<not> isCallBillingAlreadySettled env cid st"
    and "\<not> fin \<Longrightarrow> \<not> tombstoned cid (locked_state fin t ws token cid st)"
  shows "\<not> isCallBillingAlreadySettled env cid (locked_state fin t ws token cid st)"
proof (cases fin)
  case False
  then show ?thesis
    using assms by (auto simp: isCallBillingAlreadySettled_def user_history_def tombstoned_def split: option.splits)
qed (use assms in \<open>simp add: locked_state_def\<close>)

text \<open>
  C1. A settlement that reports success has debited the payer exactly once, on the finalizer's path
  and on the direct one (which flushes the billing first): whatever happened to the three attempts
  of the transaction (transient errors, a conflict in the creator section, a commit whose answer was
  lost, applied or not), the wallet is lower by exactly the whole coins reported, floored at zero,
  and the debit row of the call shows that amount.
\<close>

theorem settlement_debits_once:
  assumes "settleCall w t ws reads faults commission token fin cid st = (Persisted p, st')"
    and "\<not> isCallBillingAlreadySettled (w_env w) cid st"
    and "map_option u_coins (find_user (sp_userMongoId p) st) = Some c0" and "0 \<le> c0"
    and "coinTxns st (cid, sp_userMongoId p, Debit) = None"
    and "\<forall>c \<in> set (creators (core st)). c_userId c \<noteq> sp_userMongoId p"
  shows "map_option u_coins (find_user (sp_userMongoId p) st') = Some (max 0 (c0 - sp_walletCoinsDeducted p)) \<and>
    num0 (coinTxns st' (cid, sp_userMongoId p, Debit)) = sp_walletCoinsDeducted p"
  using locked_debits_once [OF settleCall_locked(1) [OF assms(1)]
      locked_state_unsettled [OF assms(2) settleCall_locked(2) [OF assms(1)]], of c0] assms(3-6)
  by simp

section \<open>The amount settled is the amount metered\<close>

lemma attempts_total:
  assumes "settle_attempts env faults commission now left attempt p st = (Inr p', st')"
    and "\<forall>n applied. faults n \<noteq> CommitUnknown applied"
  shows "sp_totalDeducted p' = sp_totalDeducted p"
  using assms(1)
proof (induction left arbitrary: attempt p st)
  case 0
  then show ?case
    by (subst (asm) settle_attempts.simps)
      (auto simp: Let_def assms(2) split: option.splits prod.splits settle_fault.splits if_splits)
next
  case (Suc left)
  then show ?case
    by (subst (asm) (2) settle_attempts.simps)
      (auto simp: Let_def assms(2) dest!: Suc.IH split: option.splits prod.splits settle_fault.splits if_splits)
qed

lemma locked_plan:
  assumes "settle_locked w reads faults commission token fin cid st = (Persisted p, st')"
    and "\<not> isIncrementalBillingPersistEnabled (w_env w)" and "sessions (core st) cid = Some (Typed s)"
    and "\<forall>n applied. faults n \<noteq> CommitUnknown applied"
  shows "sp_totalDeducted p = sp_totalDeducted (settlement_plan_of cid (settlement_earnings_raw w cid st)
    (the (view_of_stored (Typed s))) (resolveAuthoritativeSettlementTotals (w_env w) cid st))"
proof -
  have l: "ledger_flush_for_settlement w cid v st = (v, st)" for v
    using assms(2) by (simp add: ledger_flush_for_settlement_def)
  show ?thesis
    using assms(1) attempts_total [OF _ assms(4)]
    by (auto simp: settle_locked_def settlement_session_def assms(3) l Let_def split: if_splits sum.splits prod.splits)
qed

lemma plan_of_live_session:
  assumes "sessions (core st) cid = Some (Typed s)" and "0 < totalDeductedMicros s"
  shows "sp_totalDeducted (settlement_plan_of cid e (the (view_of_stored (Typed s)))
    (resolveAuthoritativeSettlementTotals env cid st)) = microsToUserDebitWholeCoins (totalDeductedMicros s)"
proof -
  have "resolveAuthoritativeSettlementTotals env cid st =
    \<lparr> tot_deducted = totalDeductedMicros s, tot_earned = max 0 (totalEarnedMicros s),
      tot_sequence = max 0 (billingSequence s), tot_source = FromRedis \<rparr>"
    using assms by (simp add: resolveAuthoritativeSettlementTotals_def redis_totals_def active_totals_def
        some_activity_def nvl_def)
  then show ?thesis
    by (simp add: settlement_plan_of_def Let_def applyAuthoritativeTotalsToSession_def num0_def)
qed

lemma chargeable_session:
  assumes "chargeable pps ceps promo cid st"
  obtains s where "sessions st cid = Some (Typed s)" "a_deducted (account cid st) = totalDeductedMicros s"
proof (cases "sessions st cid")
  case None
  then show thesis using assms by (simp add: chargeable_def billable_def cell_def)
next
  case (Some x)
  then show thesis
    using assms that by (cases x) (simp_all add: chargeable_def billable_def account_def cell_def)
qed

text \<open>
  C7. What is settled is what was metered: for a running call settled directly, the coins charged are
  the metered micros rounded up to whole coins, and what the flush metered is exactly what the
  call's balances lost. (The ledger of increments is off and no commit answer is lost.)
\<close>

theorem settlement_charges_the_meter:
  assumes "chargeable pps ceps promo cid (core st)"
    and "settleCall w t ws reads faults commission token False cid st = (Persisted p, st')"
    and "\<not> isIncrementalBillingPersistEnabled (w_env w)" and "\<forall>n applied. faults n \<noteq> CommitUnknown applied"
    and "0 < a_deducted (account cid (fst (snd (flushBillingToQuiescence t ws cid (core st)))))"
  shows "let a0 = account cid (core st); a = account cid (fst (snd (flushBillingToQuiescence t ws cid (core st))))
    in a_deducted a \<le> sp_totalDeducted p * COIN_MICROS \<and> (sp_totalDeducted p - 1) * COIN_MICROS < a_deducted a \<and>
       a_deducted a - a_deducted a0 = (a_intro a0 + a_wallet a0) - (a_intro a + a_wallet a)"
proof -
  obtain n residual c evs where f: "flushBillingToQuiescence t ws cid (core st) = ((n, residual), c, evs)"
    by (metis surj_pair)
  note k = flush_conserves [OF assms(1) f]
  obtain s where s: "sessions c cid = Some (Typed s)" "a_deducted (account cid c) = totalDeductedMicros s"
    using k chargeable_session by blast
  let ?l = "locked_state False t ws token cid st"
  have ls: "sessions (core ?l) cid = Some (Typed s)" using s f by (simp add: locked_state_def Let_def)
  have d: "0 < totalDeductedMicros s" using assms(5) f s(2) by simp
  have "sp_totalDeducted p = microsToUserDebitWholeCoins (totalDeductedMicros s)"
    using locked_plan [OF settleCall_locked(1) [OF assms(2)] assms(3) ls assms(4)] plan_of_live_session [OF ls d] by simp
  then show ?thesis using userDebit_bounds [OF d] k f s(2) by (simp add: Let_def)
qed

section \<open>Worked settlements\<close>

theorem settlement_debits_once_witness:
  "fst (settle_demo_call flaky True) = Persisted demo_plan \<and>
   map_option u_coins (find_user ''mu'' (snd (settle_demo_call flaky True))) = Some 870 \<and>
   num0 (coinTxns (snd (settle_demo_call flaky True)) (''c1'', ''mu'', Debit)) = 30"
proof -
  obtain st' where s: "settle_demo_call flaky True = (Persisted demo_plan, st')"
    using demo_persists by (metis prod.collapse)
  have n: "\<not> isCallBillingAlreadySettled (w_env demo_worker) ''c1'' demo_settle" by code_simp
  show ?thesis
    using settlement_debits_once [OF s [unfolded settle_demo_call_def] n, of 900] s demo_participants
    by (simp add: demo_plan_def demo_settle_def)
qed

definition demo_running :: settle_state where
  "demo_running = demo_settle\<lparr>core := demo_live\<lparr>sessions := [''c1'' \<mapsto> Typed demo_billed]\<rparr>\<rparr>"

definition settle_running_call :: "settle_outcome \<times> settle_state" where
  "settle_running_call =
     settleCall demo_worker (\<lambda>_. 1000000) (\<lambda>_ _. demo_worker) ReadsOk (\<lambda>_. Commits) (\<lambda>_. True) ''s1'' False ''c1'' demo_running"

theorem settlement_charges_the_meter_witness:
  "\<exists>p. fst settle_running_call = Persisted p \<and> (sp_totalDeducted p - 1) * COIN_MICROS < 30000000 \<and>
     30000000 \<le> sp_totalDeducted p * COIN_MICROS"
proof -
  have "case fst settle_running_call of Persisted p \<Rightarrow> True | _ \<Rightarrow> False" by code_simp
  then obtain p st' where s: "settle_running_call = (Persisted p, st')"
    by (cases "fst settle_running_call") (auto simp: prod_eq_iff)
  have c: "chargeable 30000000 7500000 False ''c1'' (core demo_running)"
    by (simp add: demo_running_def chargeable_def billable_def cell_def demo_live_def demo_state_def demo_billed_def
        demo_session_def money_view_def BILLING_SESSION_SCHEMA_VERSION_def)
  have i: "\<not> isIncrementalBillingPersistEnabled (w_env demo_worker)" by code_simp
  have d: "a_deducted (account ''c1'' (fst (snd (flushBillingToQuiescence (\<lambda>_. 1000000) (\<lambda>_ _. demo_worker) ''c1''
      (core demo_running))))) = 30000000" by code_simp
  have "fst settle_running_call = Persisted p" by (subst s) (rule fst_conv)
  moreover have "(sp_totalDeducted p - 1) * COIN_MICROS < 30000000 \<and> 30000000 \<le> sp_totalDeducted p * COIN_MICROS"
    using settlement_charges_the_meter [OF c s [unfolded settle_running_call_def] i] d by (simp add: Let_def)
  ultimately show ?thesis by blast
qed

end
