(* ===== verification/Finalizer.thy ===== *)
theory Finalizer
  imports SettleFlow
begin

text \<open>
  The finalizer of a call: \<open>src/modules/billing/billing-session-finalization.service.ts\<close>, the one
  module that runs a settlement. It admits one finalizer per call (dead letter, in-flight key,
  settlement claim, settlement lock), takes the durable claim, moves the session to \<open>SETTLING\<close>,
  flushes the billing, settles, marks the call settled and cleans up; what fails is queued for a
  retry, and a call that cannot be settled is moved to the dead letter.

  The state \<open>fin_state\<close> adds to the settlement's state the retry queue (a Redis sorted set), the
  payloads of the retries, the terminal snapshots, the attempts logged on the call and what was sent
  to other components. \<open>fin_env\<close> holds what one run reads from outside: its worker, the clocks and
  faults of the flush and of the transaction, the random tokens, the steps other processes make
  while it polls or backs off, and the points at which a store throws. One reading of the clock
  stands for all of a run. Redis answers outside the guarded section of the handler; expiry of keys
  is a step of the environment.
\<close>

section \<open>State\<close>

datatype FinalizeStatus = FSettled | FDuplicate | FPendingRetry | FFailed | FDeadLettered

record finalize_params =
  fp_callId :: string
  fp_reason :: string
  fp_source :: string
  fp_attempt :: "int option"
  fp_enqueuedAt :: "millis option"

record finalize_result =
  fr_status :: FinalizeStatus
  fr_callId :: string
  fr_settlementVersion :: "int option"
  fr_coinsDeducted :: "int option"
  fr_coinsEarned :: "int option"
  fr_durationSeconds :: "int option"

record settlement_attempt =
  sa_source :: string
  sa_reason :: string
  sa_timestamp :: millis
  sa_result :: string
  sa_error :: "string option"
  sa_ownerToken :: "string option"
  sa_settlementVersion :: "int option"

record terminal_snapshot =
  ts_billingSequence :: int
  ts_durationSeconds :: int
  ts_finalCoins :: int
  ts_totalDeducted :: int
  ts_totalEarned :: int
  ts_settledAt :: millis
  ts_reason :: string
  ts_source :: string

datatype fin_event =
    CycleJobCancelled string
  | OutboxSettled string settlement_plan
  | OutboxFailedSettlement string
  | EmitSettled string settlement_plan
  | FirstCallReward string int

text \<open>
  \<open>durableParties\<close> are the two participants a durable session was created with; they never change.
\<close>

record fin_state =
  base :: settle_state
  retryQueue :: "(string \<times> millis) list"
  retryPayload :: "string \<Rightarrow> finalize_params option"
  terminalSnap :: "string \<Rightarrow> terminal_snapshot option"
  attemptLog :: "string \<Rightarrow> settlement_attempt list"
  durableParties :: "string \<Rightarrow> (string \<times> string) option"
  emitted :: "fin_event list"

datatype finalize_point = AtClaim | AtMarker | AtTotals | AtCancelJob | AtMarkSettled | AtMarkDurable

record fin_env =
  fe_w :: worker
  fe_t :: "nat \<Rightarrow> millis"
  fe_ws :: "nat \<Rightarrow> nat \<Rightarrow> worker"
  fe_reads :: settle_reads
  fe_faults :: "nat \<Rightarrow> settle_fault"
  fe_commission :: "nat \<Rightarrow> bool"
  fe_inflightToken :: string
  fe_ownerToken :: string
  fe_jitter :: int
  fe_polls :: "(settle_state \<Rightarrow> settle_state) list"
  fe_backoff :: "BillingLifecycleState \<Rightarrow> nat \<Rightarrow> settle_state \<Rightarrow> settle_state"
  fe_checkpointThrows :: "BillingLifecycleState \<Rightarrow> nat \<Rightarrow> bool"
  fe_raises :: "finalize_point \<Rightarrow> bool"

abbreviation fe_env :: "fin_env \<Rightarrow> env" where "fe_env fe \<equiv> w_env (fe_w fe)"
abbreviation fe_now :: "fin_env \<Rightarrow> millis" where "fe_now fe \<equiv> w_clock (fe_w fe)"
abbreviation fe_inst :: "fin_env \<Rightarrow> string" where "fe_inst fe \<equiv> w_inst (fe_w fe)"
abbreviation keys :: "fin_state \<Rightarrow> keyspace" where "keys st \<equiv> kv (core (base st))"
abbreviation claims :: "fin_state \<Rightarrow> keyspace" where "claims st \<equiv> redis (durable (base st))"

definition upd_core :: "(billing_state \<Rightarrow> billing_state) \<Rightarrow> settle_state \<Rightarrow> settle_state" where
  "upd_core f st = st\<lparr>core := f (core st)\<rparr>"

definition upd_durable :: "(durable_store \<Rightarrow> durable_store) \<Rightarrow> settle_state \<Rightarrow> settle_state" where
  "upd_durable f st = st\<lparr>durable := f (durable st)\<rparr>"

definition upd_base :: "(settle_state \<Rightarrow> settle_state) \<Rightarrow> fin_state \<Rightarrow> fin_state" where
  "upd_base f st = st\<lparr>base := f (base st)\<rparr>"

definition upd_keys :: "(keyspace \<Rightarrow> keyspace) \<Rightarrow> fin_state \<Rightarrow> fin_state" where
  "upd_keys f st = upd_base (upd_core (\<lambda>c. c\<lparr>kv := f (kv c)\<rparr>)) st"

text \<open>The settlement claim is a key of the same Redis; the durable session's model already holds it.\<close>

definition upd_claims :: "(keyspace \<Rightarrow> keyspace) \<Rightarrow> fin_state \<Rightarrow> fin_state" where
  "upd_claims f st = upd_base (upd_durable (\<lambda>d. d\<lparr>redis := f (redis d)\<rparr>)) st"

definition emit_fin :: "fin_event list \<Rightarrow> fin_state \<Rightarrow> fin_state" where
  "emit_fin evs st = st\<lparr>emitted := emitted st @ evs\<rparr>"

section \<open>Keys and limits\<close>

definition billingRecoveryDeadLetterKey :: "string \<Rightarrow> string" where
  "billingRecoveryDeadLetterKey cid = ''billing:recovery:deadletter:'' @ cid"

definition billingWatchdogCooldownKey :: "string \<Rightarrow> string" where
  "billingWatchdogCooldownKey cid = ''billing:watchdog:recovering:cooldown:'' @ cid"

definition billingWatchdogAttemptsKey :: "string \<Rightarrow> string" where
  "billingWatchdogAttemptsKey cid = ''billing:watchdog:recovering:attempts:'' @ cid"

definition billingFailedSettlementRecoveryCooldownKey :: "string \<Rightarrow> string" where
  "billingFailedSettlementRecoveryCooldownKey cid = ''billing:failed-settlement-recovery:cooldown:'' @ cid"

definition billingSettlementRetryDedupKey :: "string \<Rightarrow> string" where
  "billingSettlementRetryDedupKey cid = ''billing:settlement-retry:dedup:'' @ cid"

definition RETRY_MAX_AGE_MS :: "env \<Rightarrow> int" where
  "RETRY_MAX_AGE_MS env = envIntOr env ''BILLING_SETTLEMENT_RETRY_MAX_AGE_MS'' 900000 60000 3600000"

definition RETRY_JITTER_MS :: "env \<Rightarrow> int" where
  "RETRY_JITTER_MS env = envIntOr env ''BILLING_SETTLEMENT_RETRY_JITTER_MS'' 500 0 5000"

definition ACTIVE_RUNTIME_FINALIZE_GUARD_MS :: "env \<Rightarrow> int" where
  "ACTIVE_RUNTIME_FINALIZE_GUARD_MS env = envIntOr env ''BILLING_ACTIVE_RUNTIME_FINALIZE_GUARD_MS'' 45000 5000 120000"

definition FINALIZE_CONVERGENCE_MAX_ATTEMPTS :: "env \<Rightarrow> int" where
  "FINALIZE_CONVERGENCE_MAX_ATTEMPTS env = envIntOr env ''BILLING_FINALIZE_CONVERGENCE_MAX_ATTEMPTS'' 3 1 5"

definition FINALIZE_CONVERGENCE_RETRY_ENABLED :: "env \<Rightarrow> bool" where
  "FINALIZE_CONVERGENCE_RETRY_ENABLED env \<longleftrightarrow> env ''BILLING_FINALIZE_CONVERGENCE_RETRY_ENABLED'' \<noteq> Some ''false''"

definition isBillingOutboxProjectionEnabled :: "env \<Rightarrow> bool" where
  "isBillingOutboxProjectionEnabled env \<longleftrightarrow> env ''BILLING_OUTBOX_PROJECTION_ENABLED'' = Some ''true''"

section \<open>The retry queue\<close>

text \<open>A sorted set: one score per member, ordered by score and then by member.\<close>

definition zrem :: "string \<Rightarrow> (string \<times> millis) list \<Rightarrow> (string \<times> millis) list" where
  "zrem m q = filter (\<lambda>(x, _). x \<noteq> m) q"

fun zinsert :: "string \<times> millis \<Rightarrow> (string \<times> millis) list \<Rightarrow> (string \<times> millis) list" where
  "zinsert e [] = [e]"
| "zinsert (m, s) ((m', s') # q) =
     (if s < s' \<or> (s = s' \<and> m < m') then (m, s) # (m', s') # q else (m', s') # zinsert (m, s) q)"

definition zadd :: "millis \<Rightarrow> string \<Rightarrow> (string \<times> millis) list \<Rightarrow> (string \<times> millis) list" where
  "zadd score m q = zinsert (m, score) (zrem m q)"

definition zdue :: "millis \<Rightarrow> nat \<Rightarrow> (string \<times> millis) list \<Rightarrow> string list" where
  "zdue now n q = map fst (take n (filter (\<lambda>(_, s). 0 \<le> s \<and> s \<le> now) q))"

section \<open>Clean-up of the artifacts\<close>

definition appendSettlementAttempt :: "string \<Rightarrow> settlement_attempt \<Rightarrow> fin_state \<Rightarrow> fin_state" where
  "appendSettlementAttempt cid entry st =
     (case callSettlement (durable (base st)) cid of
        None \<Rightarrow> st
      | Some _ \<Rightarrow> st\<lparr>attemptLog := (attemptLog st)(cid := attemptLog st cid @ [entry])\<rparr>)"

definition attempt_entry :: "fin_env \<Rightarrow> string \<Rightarrow> string \<Rightarrow> string \<Rightarrow> settlement_attempt" where
  "attempt_entry fe source reason result =
     \<lparr> sa_source = source, sa_reason = reason, sa_timestamp = fe_now fe, sa_result = result, sa_error = None,
       sa_ownerToken = None, sa_settlementVersion = None \<rparr>"

definition clearSettlementRetryArtifacts :: "string \<Rightarrow> fin_state \<Rightarrow> fin_state" where
  "clearSettlementRetryArtifacts cid st =
     upd_keys (\<lambda>k. k(billingSettlementRetryDedupKey cid := None))
       (st\<lparr>retryQueue := zrem cid (retryQueue st), retryPayload := (retryPayload st)(cid := None)\<rparr>)"

definition drainSettlementArtifacts :: "string \<Rightarrow> fin_state \<Rightarrow> fin_state" where
  "drainSettlementArtifacts cid st =
     upd_keys (\<lambda>k. k(settleLockKey cid := None, finalizeInflightKey cid := None,
                      billingWatchdogCooldownKey cid := None, billingWatchdogAttemptsKey cid := None))
       (upd_claims (\<lambda>k. k(settlementClaimKey cid := None))
          (clearSettlementRetryArtifacts cid (emit_fin [CycleJobCancelled cid] st)))"

definition release_inflight :: "fin_env \<Rightarrow> string \<Rightarrow> fin_state \<Rightarrow> fin_state" where
  "release_inflight fe cid st = upd_keys (release_if_match (finalizeInflightKey cid) (fe_inflightToken fe)) st"

section \<open>Reading the call\<close>

record party_context =
  pc_payer :: "string option"
  pc_creator :: "string option"

definition readFinalizePartyContext :: "string \<Rightarrow> fin_state \<Rightarrow> party_context" where
  "readFinalizePartyContext cid st =
     (case sessions (core (base st)) cid of
        None \<Rightarrow> \<lparr> pc_payer = None, pc_creator = None \<rparr>
      | Some Unparsable \<Rightarrow> \<lparr> pc_payer = None, pc_creator = None \<rparr>
      | Some raw \<Rightarrow> \<lparr> pc_payer = Some (fst (stored_parties raw)), pc_creator = Some (snd (stored_parties raw)) \<rparr>)"

datatype recovery_source = RedisSession | CheckpointFallback | MissingRuntime

record snapshot_meta =
  sm_billingSequence :: int
  sm_snapshotVersion :: int
  sm_recoverySource :: recovery_source

definition readFinalizationSnapshotMeta :: "string \<Rightarrow> fin_state \<Rightarrow> snapshot_meta" where
  "readFinalizationSnapshotMeta cid st =
     (case sessions (core (base st)) cid of
        Some (Typed s) \<Rightarrow>
          \<lparr> sm_billingSequence = max 0 (billingSequence s), sm_snapshotVersion = max 1 (version s),
            sm_recoverySource = RedisSession \<rparr>
      | Some (Legacy v) \<Rightarrow>
          \<lparr> sm_billingSequence = max 0 \<lfloor>rat0 (v1_billingSequence v)\<rfloor>,
            sm_snapshotVersion = max 1 \<lfloor>rat0 (v1_version v)\<rfloor>, sm_recoverySource = RedisSession \<rparr>
      | Some Unparsable \<Rightarrow>
          \<lparr> sm_billingSequence = 0, sm_snapshotVersion = 1, sm_recoverySource = RedisSession \<rparr>
      | None \<Rightarrow>
          (case checkpoints (core (base st)) cid of
             Some cp \<Rightarrow>
               \<lparr> sm_billingSequence = max 0 (cp_billingSequence cp), sm_snapshotVersion = max 1 (num0 (cp_version cp)),
                 sm_recoverySource = CheckpointFallback \<rparr>
           | None \<Rightarrow> \<lparr> sm_billingSequence = 0, sm_snapshotVersion = 1, sm_recoverySource = MissingRuntime \<rparr>))"

definition set_stored_lifecycle :: "BillingLifecycleState \<Rightarrow> stored_session \<Rightarrow> stored_session" where
  "set_stored_lifecycle lc raw =
     (case raw of
        Typed s \<Rightarrow> Typed (s\<lparr>lifecycleState := Some lc\<rparr>)
      | Legacy v \<Rightarrow> Legacy (v\<lparr>v1_lifecycleState := Some lc\<rparr>)
      | Unparsable \<Rightarrow> Unparsable)"

definition put_session :: "string \<Rightarrow> stored_session \<Rightarrow> billing_state \<Rightarrow> billing_state" where
  "put_session cid raw c = c\<lparr>sessions := (sessions c)(cid \<mapsto> raw)\<rparr>"

section \<open>Dead letter\<close>

definition raise_durable_totals :: "fin_env \<Rightarrow> string \<Rightarrow> settle_state \<Rightarrow> settle_state" where
  "raise_durable_totals fe cid st =
     (let t = resolveAuthoritativeSettlementTotals (fe_env fe) cid st
      in if isDurableCallSessionEnabled (fe_env fe) \<and> tot_deducted t > 0
         then upd_durable (\<lambda>d. snd (find_and_update (fe_now fe) cid (\<lambda>_. True)
                (\<lambda>x. x\<lparr>dd_userDebitedMicros := max (dd_userDebitedMicros x) (tot_deducted t),
                       dd_creatorCreditedMicros := max (dd_creatorCreditedMicros x) (tot_earned t),
                       dd_billingSequence := max (dd_billingSequence x) (tot_sequence t)\<rparr>) d)) st
         else st)"

definition dead_letter_session :: "fin_env \<Rightarrow> string \<Rightarrow> string \<Rightarrow> string \<Rightarrow> billing_state \<Rightarrow> billing_state" where
  "dead_letter_session fe cid reason source c =
     (case sessions c cid of
        None \<Rightarrow> c
      | Some Unparsable \<Rightarrow> c
      | Some raw \<Rightarrow>
          (case transitionBillingStateWithAudit (w_db_ok (fe_w fe)) (fe_now fe)
                  \<lparr> tr_callId = cid, tr_from = nvl (stored_lifecycle raw) FAILED, tr_to = FAILED_RECOVERY_SETTLEMENT,
                    tr_source = ''billing.'' @ source @ ''.dead_letter'', tr_reason = reason \<rparr> (audit c) of
             (r, audit') \<Rightarrow> put_session cid (set_stored_lifecycle (tr_next r) raw) (c\<lparr>audit := audit'\<rparr>)))"

definition update_call_settlement :: "string \<Rightarrow> (call_settlement \<Rightarrow> call_settlement) \<Rightarrow> settle_state \<Rightarrow> settle_state" where
  "update_call_settlement cid f st =
     upd_durable (\<lambda>d. d\<lparr>callSettlement := (callSettlement d)(cid := map_option f (callSettlement d cid))\<rparr>) st"

definition dead_letter_call :: "fin_env \<Rightarrow> string \<Rightarrow> string \<Rightarrow> string \<Rightarrow> settle_state \<Rightarrow> settle_state" where
  "dead_letter_call fe cid reason source st =
     update_call_settlement cid
       (\<lambda>c. c\<lparr>cs_status := ''failed_recovery_settlement'', cs_reason := reason, cs_source := source,
              cs_updatedAt := Some (fe_now fe), cs_owner := fe_inst fe\<rparr>) st"

text \<open>The participants, from the session or else from the durable session.\<close>

definition dead_letter_parties :: "fin_env \<Rightarrow> string \<Rightarrow> fin_state \<Rightarrow> string \<times> string" where
  "dead_letter_parties fe cid st =
     (let ctx = readFinalizePartyContext cid st;
          u = pc_payer ctx; c = pc_creator ctx;
          dur = (if getDurableCallSession (fe_env fe) cid (durable (base st)) = None then None else durableParties st cid)
      in if nvl u [] \<noteq> [] \<and> nvl c [] \<noteq> [] then (nvl u [], nvl c [])
         else (nvl (case u of None \<Rightarrow> map_option fst dur | Some x \<Rightarrow> Some x) [],
               nvl (case c of None \<Rightarrow> map_option snd dur | Some x \<Rightarrow> Some x) []))"

text \<open>With force the liveness of the slot is not consulted.\<close>

definition unread_view :: "string \<Rightarrow> slot_view" where
  "unread_view _ =
     \<lparr> sv_ending = False, sv_pendingEnd = False, sv_terminal = False, sv_session = None, sv_call = Inl (), sv_ttl = 0,
       sv_precall = False \<rparr>"

text \<open>Removing the keys of the call and, by force, the creator's slot.\<close>

definition dead_letter_cleanup :: "fin_env \<Rightarrow> string \<Rightarrow> string \<times> string \<Rightarrow> settle_state \<Rightarrow> settle_state" where
  "dead_letter_cleanup fe cid parties st =
     (case parties of
        (u, c) \<Rightarrow>
          (let st1 = (if u \<noteq> [] \<and> c \<noteq> [] then deleteBillingSessionRedisKeys cid u c st else st)
           in if c \<noteq> []
              then upd_core (\<lambda>k. k\<lparr>kv := snd (clearCreatorActiveCallSlotIfStale (fe_env fe) unread_view c (Some cid) True (kv k))\<rparr>) st1
              else st1))"

definition moveCallToRecoveryDeadLetter :: "fin_env \<Rightarrow> string \<Rightarrow> string \<Rightarrow> string \<Rightarrow> fin_state \<Rightarrow> fin_state" where
  "moveCallToRecoveryDeadLetter fe cid reason source st =
     (let st1 = upd_base (raise_durable_totals fe cid) st;
          st2 = upd_keys (\<lambda>k. k(billingRecoveryDeadLetterKey cid \<mapsto> reason)) st1;
          st3 = upd_base (\<lambda>b. dead_letter_call fe cid reason source (upd_core (dead_letter_session fe cid reason source) b)) st2;
          st4 = drainSettlementArtifacts cid
                  (appendSettlementAttempt cid
                     ((attempt_entry fe source ''reconciliation'' ''failed'')\<lparr>sa_error := Some (''dead_letter:'' @ reason)\<rparr>) st3);
          st5 = upd_base (dead_letter_cleanup fe cid (dead_letter_parties fe cid st4)) st4;
          st6 = (if isDurableCallSessionEnabled (fe_env fe)
                 then upd_base (upd_durable (markDurableCallSessionFailedSettlement (fe_env fe) (fe_now fe) cid)) st5 else st5)
      in if isBillingOutboxProjectionEnabled (fe_env fe) then emit_fin [OutboxFailedSettlement cid] st6 else st6)"

section \<open>Terminal teardown and polling\<close>

definition ensureTerminalBillingTeardown :: "fin_env \<Rightarrow> string \<Rightarrow> fin_state \<Rightarrow> fin_state" where
  "ensureTerminalBillingTeardown fe cid st =
     (if \<not> isCallBillingAlreadySettled (fe_env fe) cid (base st) then st
      else (let st1 = emit_fin [CycleJobCancelled cid] st;
                drop = upd_base (upd_core (\<lambda>c. c\<lparr>sessions := (sessions c)(cid := None)\<rparr>))
            in case sessions (core (base st1)) cid of
                 None \<Rightarrow> st1
               | Some Unparsable \<Rightarrow> drop st1
               | Some raw \<Rightarrow>
                   (case stored_parties raw of
                      (u, c) \<Rightarrow>
                        if u \<noteq> [] \<and> c \<noteq> [] then upd_base (deleteBillingSessionRedisKeys cid u c) st1 else drop st1)))"

text \<open>
  One probe per half second until the deadline, then a last one; between two probes the other
  processes make their steps. A sleep takes at least its half second, which bounds the probes.
\<close>

fun poll_settled :: "env \<Rightarrow> string \<Rightarrow> (settle_state \<Rightarrow> settle_state) list \<Rightarrow> settle_state \<Rightarrow> bool \<times> settle_state" where
  "poll_settled env cid [] st = (isCallBillingAlreadySettled env cid st, st)"
| "poll_settled env cid (f # fs) st =
     (if isCallBillingAlreadySettled env cid st then (True, st) else poll_settled env cid fs (f st))"

definition poll_rounds :: "env \<Rightarrow> nat" where
  "poll_rounds env = nat ((BILLING_SETTLEMENT_POLL_MS env + 499) div 500)"

definition pollUntilSettled :: "fin_env \<Rightarrow> string \<Rightarrow> fin_state \<Rightarrow> bool \<times> fin_state" where
  "pollUntilSettled fe cid st =
     (case poll_settled (fe_env fe) cid (take (poll_rounds (fe_env fe)) (fe_polls fe)) (base st) of
        (b, base') \<Rightarrow> (b, st\<lparr>base := base'\<rparr>))"

section \<open>Retries\<close>

text \<open>
  The two ways to queue a retry differ in the score only: the backoff with jitter, or now. A call
  whose retries are too old or too many goes to the dead letter; a second request within the
  deduplication window does nothing.
\<close>

definition retry_score :: "fin_env \<Rightarrow> int \<Rightarrow> millis" where
  "retry_score fe attempt =
     fe_now fe + min 60000 (1000 * 2 ^ nat attempt) +
     (if RETRY_JITTER_MS (fe_env fe) > 0 then fe_jitter fe mod (RETRY_JITTER_MS (fe_env fe) + 1) else 0)"

definition enqueue_retry :: "(int \<Rightarrow> millis) \<Rightarrow> fin_env \<Rightarrow> finalize_params \<Rightarrow> fin_state \<Rightarrow> fin_state" where
  "enqueue_retry score fe ps st =
     (let cid = fp_callId ps; now = fe_now fe;
          attempt = num0 (fp_attempt ps) + 1;
          enqueuedAt = nvl (fp_enqueuedAt ps) now
      in if max 0 (now - enqueuedAt) > RETRY_MAX_AGE_MS (fe_env fe)
         then moveCallToRecoveryDeadLetter fe cid ''retry_age_exhausted'' (fp_source ps) st
         else if attempt > BILLING_SETTLEMENT_RETRY_MAX_ATTEMPTS (fe_env fe)
         then moveCallToRecoveryDeadLetter fe cid ''retry_cap_reached'' (fp_source ps) st
         else if keys st (billingSettlementRetryDedupKey cid) \<noteq> None then st
         else upd_keys (\<lambda>k. k(billingSettlementRetryDedupKey cid \<mapsto> show_int attempt))
                (st\<lparr>retryPayload := (retryPayload st)(cid \<mapsto> ps\<lparr>fp_attempt := Some attempt, fp_enqueuedAt := Some enqueuedAt\<rparr>),
                    retryQueue := zadd (score attempt) cid (retryQueue st)\<rparr>))"

definition enqueueSettlementRetry :: "fin_env \<Rightarrow> finalize_params \<Rightarrow> fin_state \<Rightarrow> fin_state" where
  "enqueueSettlementRetry fe ps st = enqueue_retry (retry_score fe) fe ps st"

definition enqueueImmediateSettlementRetry :: "fin_env \<Rightarrow> finalize_params \<Rightarrow> fin_state \<Rightarrow> fin_state" where
  "enqueueImmediateSettlementRetry fe ps st = enqueue_retry (\<lambda>_. fe_now fe) fe ps st"

section \<open>Takeover and recovery\<close>

definition tryStaleDurableSettlingTakeover :: "fin_env \<Rightarrow> string \<Rightarrow> fin_state \<Rightarrow> bool \<times> fin_state" where
  "tryStaleDurableSettlingTakeover fe cid st =
     (case getDurableCallSession (fe_env fe) cid (durable (base st)) of
        None \<Rightarrow> (False, st)
      | Some d \<Rightarrow>
          if dd_state d \<noteq> D_settling \<or> \<not> isDurableSettlingStale (fe_env fe) (fe_now fe) d then (False, st)
          else (True, upd_claims (\<lambda>k. k(settlementClaimKey cid := None)) st))"

definition tryStaleSettlingTakeover :: "fin_env \<Rightarrow> string \<Rightarrow> string \<Rightarrow> fin_state \<Rightarrow> bool \<times> fin_state" where
  "tryStaleSettlingTakeover fe cid token st =
     (case callSettlement (durable (base st)) cid of
        None \<Rightarrow> (False, st)
      | Some c \<Rightarrow>
          if cs_status c \<noteq> ''settling'' then (False, st)
          else if fe_now fe - num0 (cs_updatedAt c) \<le> BILLING_MAX_SETTLING_MS (fe_env fe) then (False, st)
          else (True,
                appendSettlementAttempt cid
                  ((attempt_entry fe ''reconciliation_worker'' ''reconciliation'' ''stale_takeover'')
                     \<lparr>sa_ownerToken := Some token, sa_settlementVersion := Some (cs_version c + 1)\<rparr>)
                  (upd_base (update_call_settlement cid
                       (\<lambda>c. c\<lparr>cs_status := ''settling'', cs_version := cs_version c + 1, cs_updatedAt := Some (fe_now fe),
                              cs_ownerToken := Some token, cs_owner := fe_inst fe\<rparr>))
                     (upd_claims (\<lambda>k. k(settlementClaimKey cid := None)) st))))"

datatype recovery_result = Recovered | RecoverySkipped

definition history_final :: "string \<Rightarrow> settle_state \<Rightarrow> bool" where
  "history_final cid st =
     (case user_history cid st of
        None \<Rightarrow> False | Some r \<Rightarrow> h_settlementStatus r = ''settled'' \<or> h_settledAt r \<noteq> None)"

definition truthy_key :: "keyspace \<Rightarrow> string \<Rightarrow> bool" where
  "truthy_key k key \<longleftrightarrow> k key \<noteq> None \<and> k key \<noteq> Some []"

definition recovery_allowed :: "fin_env \<Rightarrow> bool \<Rightarrow> string \<Rightarrow> fin_state \<Rightarrow> bool" where
  "recovery_allowed fe force cid st \<longleftrightarrow>
     isDurableCallSessionEnabled (fe_env fe) \<and>
     (force \<or> isFailedSettlementAutoRecoveryEnabled (fe_env fe)) \<and>
     (truthy_key (keys st) (billingRecoveryDeadLetterKey cid) \<or> force) \<and>
     \<not> history_final cid (base st) \<and>
     (case getDurableCallSession (fe_env fe) cid (durable (base st)) of
        None \<Rightarrow> False
      | Some d \<Rightarrow> dd_state d = D_failed_settlement \<and> (dd_billingSequence d > 0 \<or> force)) \<and>
     (force \<or> \<not> truthy_key (keys st) (billingFailedSettlementRecoveryCooldownKey cid))"

definition attemptFailedSettlementRecovery ::
  "fin_env \<Rightarrow> bool \<Rightarrow> string \<Rightarrow> string \<Rightarrow> fin_state \<Rightarrow> recovery_result \<times> fin_state" where
  "attemptFailedSettlementRecovery fe force cid source st =
     (if \<not> recovery_allowed fe force cid st then (RecoverySkipped, st)
      else (let st1 = upd_keys (\<lambda>k. k(billingFailedSettlementRecoveryCooldownKey cid \<mapsto> source,
                                       billingRecoveryDeadLetterKey cid := None)) st
            in case resetDurableCallSessionForSettlementRetry (fe_env fe) (fe_now fe) cid (durable (base st1)) of
                 (False, d) \<Rightarrow> (RecoverySkipped, upd_base (upd_durable (\<lambda>_. d)) st1)
               | (True, d) \<Rightarrow>
                   (Recovered,
                    enqueueImmediateSettlementRetry fe
                      \<lparr> fp_callId = cid, fp_reason = ''reconciliation'', fp_source = source, fp_attempt = Some 0,
                        fp_enqueuedAt = Some (fe_now fe) \<rparr>
                      (drainSettlementArtifacts cid (upd_base (upd_durable (\<lambda>_. d)) st1)))))"

definition result_of :: "FinalizeStatus \<Rightarrow> string \<Rightarrow> finalize_result" where
  "result_of s cid =
     \<lparr> fr_status = s, fr_callId = cid, fr_settlementVersion = None, fr_coinsDeducted = None, fr_coinsEarned = None,
       fr_durationSeconds = None \<rparr>"

definition handleDurableClaimLost ::
  "fin_env \<Rightarrow> finalize_params \<Rightarrow> claim_lost_detail \<Rightarrow> fin_state \<Rightarrow> finalize_result \<times> fin_state" where
  "handleDurableClaimLost fe ps detail st =
     (let cid = fp_callId ps; release = release_inflight fe cid;
          pending = (\<lambda>st. (result_of FPendingRetry cid, st))
      in case detail of
           SettlingActive \<Rightarrow>
             (case pollUntilSettled fe cid st of
                (True, st1) \<Rightarrow> (result_of FDuplicate cid, release (ensureTerminalBillingTeardown fe cid st1))
              | (False, st1) \<Rightarrow> pending (release (enqueueSettlementRetry fe ps st1)))
         | SettlingStaleRace \<Rightarrow>
             if num0 (fp_attempt ps) + 1 \<ge> BILLING_SETTLEMENT_RETRY_MAX_ATTEMPTS (fe_env fe)
             then (result_of FDeadLettered cid,
                   release (moveCallToRecoveryDeadLetter fe cid ''retry_cap_reached'' (fp_source ps) st))
             else pending (release (enqueueSettlementRetry fe ps st))
         | StateBlocked \<Rightarrow>
             (case getDurableCallSession (fe_env fe) cid (durable (base st)) of
                Some d \<Rightarrow>
                  if dd_state d = D_failed_settlement
                  then (case attemptFailedSettlementRecovery fe False cid (fp_source ps) (release st) of
                          (RecoverySkipped, st1) \<Rightarrow> pending (enqueueSettlementRetry fe ps st1)
                        | (Recovered, st1) \<Rightarrow> pending st1)
                  else pending (release (enqueueSettlementRetry fe ps st))
              | None \<Rightarrow> pending (release (enqueueSettlementRetry fe ps st))))"

section \<open>Marks on the call\<close>

definition markCallSettling :: "fin_env \<Rightarrow> finalize_params \<Rightarrow> settle_state \<Rightarrow> int \<times> settle_state" where
  "markCallSettling fe ps st =
     (1, case callSettlement (durable st) (fp_callId ps) of
           None \<Rightarrow> st
         | Some c \<Rightarrow>
             if cs_status c = ''settled'' then st
             else update_call_settlement (fp_callId ps)
                    (\<lambda>c. c\<lparr>cs_status := ''settling'', cs_source := fp_source ps, cs_reason := fp_reason ps, cs_version := 1,
                           cs_updatedAt := Some (fe_now fe), cs_ownerToken := Some (fe_ownerToken fe),
                           cs_owner := fe_inst fe\<rparr>) st)"

definition markCallSettled :: "fin_env \<Rightarrow> finalize_params \<Rightarrow> int \<Rightarrow> settle_state \<Rightarrow> settle_state" where
  "markCallSettled fe ps v st =
     update_call_settlement (fp_callId ps)
       (\<lambda>c. c\<lparr>cs_isSettled := True, cs_status := ''settled'', cs_source := fp_source ps, cs_reason := fp_reason ps,
              cs_updatedAt := Some (fe_now fe), cs_version := v\<rparr>) st"

definition runPostPersistRedisCleanup :: "fin_env \<Rightarrow> finalize_params \<Rightarrow> settlement_plan \<Rightarrow> fin_state \<Rightarrow> fin_state" where
  "runPostPersistRedisCleanup fe ps p st =
     (let cid = fp_callId ps;
          snap = \<lparr> ts_billingSequence = max 0 (sp_billingSequence p), ts_durationSeconds = max 0 (sp_durationSeconds p),
                   ts_finalCoins = max 0 (num0 (map_option u_coins (find_user (sp_userMongoId p) (base st)))),
                   ts_totalDeducted = max 0 (sp_totalDeducted p), ts_totalEarned = max 0 (sp_totalEarnedCreator p),
                   ts_settledAt = fe_now fe, ts_reason = fp_reason ps, ts_source = fp_source ps \<rparr>
      in upd_claims (\<lambda>k. k(settlementClaimKey cid := None))
           (upd_base (\<lambda>b. set_tombstone cid (Some ''1'')
                            (deleteBillingSessionRedisKeys cid (sp_userFirebaseUid p) (sp_creatorFirebaseUid p) b))
              (st\<lparr>terminalSnap := (terminalSnap st)(cid \<mapsto> snap)\<rparr>)))"

section \<open>Lifecycle checkpoint\<close>

definition reachedOrBeyondSettling :: "BillingLifecycleState \<Rightarrow> bool" where
  "reachedOrBeyondSettling s \<longleftrightarrow> s = SETTLING \<or> s = SETTLED \<or> s = FAILED_RECOVERY_SETTLEMENT"

definition transition_plan :: "BillingLifecycleState \<Rightarrow> BillingLifecycleState \<Rightarrow> BillingLifecycleState list" where
  "transition_plan target current =
     (if target = SETTLING \<and> (current = ACTIVE \<or> current = RECOVERING \<or> current = STARTING) then [ENDING, SETTLING]
      else [target])"

text \<open>The transitions of the plan in order; \<open>None\<close> is a blocked transition.\<close>

fun follow_plan ::
  "fin_env \<Rightarrow> string \<Rightarrow> string \<Rightarrow> BillingLifecycleState \<Rightarrow> BillingLifecycleState list \<Rightarrow> BillingLifecycleState
   \<Rightarrow> transition_audit list \<Rightarrow> BillingLifecycleState option \<times> transition_audit list" where
  "follow_plan fe cid status target [] current rows = (Some current, rows)"
| "follow_plan fe cid status target (t # ts) current rows =
     (case transitionBillingStateWithAudit (w_db_ok (fe_w fe)) (fe_now fe)
             \<lparr> tr_callId = cid, tr_from = current, tr_to = t, tr_source = ''billing.finalization.checkpoint'',
               tr_reason = ''checkpoint_'' @ status \<rparr> rows of
        (r, rows') \<Rightarrow>
          if tr_valid r then follow_plan fe cid status target ts (tr_next r) rows'
          else if target = SETTLING \<and> reachedOrBeyondSettling current then (Some current, rows')
          else (None, rows'))"

text \<open>
  The session rebuilt from a checkpoint. The object has version 1 and the fields of the later
  versions; the absent ones read as zero.
\<close>

definition session_from_checkpoint :: "millis \<Rightarrow> string \<Rightarrow> billing_checkpoint \<Rightarrow> call_session" where
  "session_from_checkpoint now cid cp =
     blank_session\<lparr> schemaVersion := 1, callId := cid, userMongoId := cp_userMongoId cp,
       creatorMongoId := cp_creatorMongoId cp, userFirebaseUid := nvl (cp_userFirebaseUid cp) [],
       creatorFirebaseUid := nvl (cp_creatorFirebaseUid cp) [], startTime := or_else (cp_startTimeMs cp) now,
       lastProcessedAt := or_else (cp_lastProcessedAtMs cp) now,
       pricePerSecondMicros := max 0 (num0 (cp_pricePerSecondMicros cp)),
       creatorEarningsPerSecondMicros := max 0 (num0 (cp_creatorEarningsPerSecondMicros cp)),
       totalDeductedMicros := max 0 (cp_totalDeductedMicros cp), totalEarnedMicros := max 0 (cp_totalEarnedMicros cp),
       billingSequence := max 0 (cp_billingSequence cp), lifecycleState := Some (nvl (cp_lifecycleState cp) RECOVERING),
       version := max 1 (num0 (cp_version cp)) \<rparr>"

definition with_totals :: "settlement_totals \<Rightarrow> call_session \<Rightarrow> call_session" where
  "with_totals t s =
     (case view_of_stored (Typed s) of
        None \<Rightarrow> s
      | Some v \<Rightarrow>
          (let v' = applyAuthoritativeTotalsToSession v t
           in s\<lparr>totalDeductedMicros := num0 (sv_totalDeducted v'), totalEarnedMicros := num0 (sv_totalEarned v'),
                billingSequence := sv_billingSequence v', elapsedSeconds := sv_elapsedSeconds v'\<rparr>))"

definition has_parties :: "stored_session \<Rightarrow> bool" where
  "has_parties raw =
     (case raw of
        Typed s \<Rightarrow> userMongoId s \<noteq> [] \<and> creatorMongoId s \<noteq> [] \<and> userFirebaseUid s \<noteq> [] \<and> creatorFirebaseUid s \<noteq> []
      | Legacy v \<Rightarrow> v1_userMongoId v \<noteq> [] \<and> v1_creatorMongoId v \<noteq> [] \<and> v1_userFirebaseUid v \<noteq> [] \<and> v1_creatorFirebaseUid v \<noteq> []
      | Unparsable \<Rightarrow> False)"

definition reconstruct_session :: "fin_env \<Rightarrow> string \<Rightarrow> settle_state \<Rightarrow> settle_state" where
  "reconstruct_session fe cid st =
     (case (sessions (core st) cid, checkpoints (core st) cid) of
        (None, Some cp) \<Rightarrow>
          (let s = with_totals (resolveAuthoritativeSettlementTotals (fe_env fe) cid st)
                     (session_from_checkpoint (fe_now fe) cid cp)
           in if has_parties (Typed s) then upd_core (put_session cid (Typed s)) st else st)
      | _ \<Rightarrow> st)"

text \<open>What the checkpoint row takes from a stored session.\<close>

definition cursor_of :: "millis \<Rightarrow> stored_session \<Rightarrow> call_session" where
  "cursor_of now raw =
     (case raw of
        Typed s \<Rightarrow>
          s\<lparr>startTime := (if startTime s = 0 then now else startTime s),
            lastProcessedAt := (if lastProcessedAt s = 0 then now else lastProcessedAt s),
            pricePerSecondMicros := max 0 (pricePerSecondMicros s),
            creatorEarningsPerSecondMicros := max 0 (creatorEarningsPerSecondMicros s),
            totalDeductedMicros := max 0 (totalDeductedMicros s), totalEarnedMicros := max 0 (totalEarnedMicros s)\<rparr>
      | Legacy v \<Rightarrow>
          blank_session\<lparr>userMongoId := v1_userMongoId v, creatorMongoId := v1_creatorMongoId v,
            userFirebaseUid := v1_userFirebaseUid v, creatorFirebaseUid := v1_creatorFirebaseUid v,
            startTime := or_else (v1_startTime v) now, lastProcessedAt := now,
            billingSequence := \<lfloor>rat0 (v1_billingSequence v)\<rfloor>, lifecycleState := v1_lifecycleState v\<rparr>
      | Unparsable \<Rightarrow> blank_session)"

definition write_lifecycle_checkpoint ::
  "fin_env \<Rightarrow> string \<Rightarrow> string \<Rightarrow> stored_session \<Rightarrow> billing_state \<Rightarrow> billing_state" where
  "write_lifecycle_checkpoint fe cid status raw c =
     (let balance = parse_micros (introKey c cid) + parse_micros (walletKey c cid)
      in c\<lparr>sessions := (sessions c)(cid \<mapsto> raw),
           checkpoints := (checkpoints c)(cid :=
             (if w_db_ok (fe_w fe)
              then map_option (\<lambda>cp. cp\<lparr>cp_status := Some status\<rparr>)
                     (upsertBillingCheckpointSnapshot True (cursor_of (fe_now fe) raw) balance (checkpoints c cid))
              else checkpoints c cid))\<rparr>)"

datatype checkpoint_step = CheckpointDone bool settle_state | CheckpointAgain settle_state

definition checkpoint_attempt ::
  "fin_env \<Rightarrow> string \<Rightarrow> BillingLifecycleState \<Rightarrow> string \<Rightarrow> nat \<Rightarrow> settle_state \<Rightarrow> checkpoint_step" where
  "checkpoint_attempt fe cid target status attempt st =
     (if fe_checkpointThrows fe target attempt then CheckpointAgain st
      else (let st1 = reconstruct_session fe cid st
            in case sessions (core st1) cid of
                 None \<Rightarrow> CheckpointAgain st1
               | Some raw \<Rightarrow>
                   if \<not> has_parties raw then CheckpointAgain st1
                   else (let current = nvl (stored_lifecycle raw) ACTIVE
                         in case follow_plan fe cid status target (transition_plan target current) current (audit (core st1)) of
                              (None, rows) \<Rightarrow> CheckpointAgain (upd_core (\<lambda>c. c\<lparr>audit := rows\<rparr>) st1)
                            | (Some nxt, rows) \<Rightarrow>
                                CheckpointDone (if target = SETTLING then reachedOrBeyondSettling nxt else nxt = target)
                                  (upd_core (\<lambda>c. write_lifecycle_checkpoint fe cid status (set_stored_lifecycle nxt raw)
                                                   (c\<lparr>audit := rows\<rparr>)) st1))))"

text \<open>The attempts, with the steps of the others during the backoff between two of them.\<close>

fun checkpoint_loop ::
  "fin_env \<Rightarrow> string \<Rightarrow> BillingLifecycleState \<Rightarrow> string \<Rightarrow> nat \<Rightarrow> nat \<Rightarrow> settle_state \<Rightarrow> bool \<times> settle_state" where
  "checkpoint_loop fe cid target status 0 attempt st = (False, st)"
| "checkpoint_loop fe cid target status (Suc left) attempt st =
     (case checkpoint_attempt fe cid target status attempt st of
        CheckpointDone ok st' \<Rightarrow> (ok, st')
      | CheckpointAgain st' \<Rightarrow>
          if left = 0 then (False, st')
          else checkpoint_loop fe cid target status left (Suc attempt) (fe_backoff fe target attempt st'))"

definition checkpoint_attempts :: "env \<Rightarrow> nat" where
  "checkpoint_attempts env =
     (if FINALIZE_CONVERGENCE_RETRY_ENABLED env then nat (FINALIZE_CONVERGENCE_MAX_ATTEMPTS env) else 1)"

definition checkpointLifecycleState ::
  "fin_env \<Rightarrow> string \<Rightarrow> BillingLifecycleState \<Rightarrow> string \<Rightarrow> fin_state \<Rightarrow> bool \<times> fin_state" where
  "checkpointLifecycleState fe cid target status st =
     (case checkpoint_loop fe cid target status (checkpoint_attempts (fe_env fe)) 1 (base st) of
        (ok, b) \<Rightarrow> (ok, st\<lparr>base := b\<rparr>))"

section \<open>The handler\<close>

text \<open>A finalizer that sees another instance bill the call right now gives way.\<close>

definition active_elsewhere :: "fin_env \<Rightarrow> BillingLifecycleState option \<Rightarrow> string option \<Rightarrow> millis option \<Rightarrow> bool" where
  "active_elsewhere fe lc owner advancedAt \<longleftrightarrow>
     nvl lc ACTIVE = ACTIVE \<and> nvl owner [] \<noteq> [] \<and> \<not> billingInstanceIdsMatch (nvl owner []) (fe_inst fe) \<and>
     num0 advancedAt > 0 \<and> fe_now fe - num0 advancedAt \<le> ACTIVE_RUNTIME_FINALIZE_GUARD_MS (fe_env fe)"

definition stale_worker :: "fin_env \<Rightarrow> string \<Rightarrow> fin_state \<Rightarrow> bool" where
  "stale_worker fe cid st =
     (case sessions (core (base st)) cid of
        Some (Typed s) \<Rightarrow> active_elsewhere fe (lifecycleState s) (instanceId s) (lastSequenceAdvanceAt s)
      | Some (Legacy v) \<Rightarrow> active_elsewhere fe (v1_lifecycleState v) (v1_instanceId v) (v1_lastSequenceAdvanceAt v)
      | _ \<Rightarrow> False)"

definition inflight_refused :: "fin_env \<Rightarrow> finalize_params \<Rightarrow> fin_state \<Rightarrow> finalize_result \<times> fin_state" where
  "inflight_refused fe ps st =
     (result_of FDuplicate (fp_callId ps),
      case callSettlement (durable (base st)) (fp_callId ps) of
        None \<Rightarrow> st
      | Some c \<Rightarrow>
          if cs_status c = ''settling'' \<and> num0 (cs_updatedAt c) > 0 \<and>
             fe_now fe - num0 (cs_updatedAt c) > BILLING_MAX_SETTLING_MS (fe_env fe)
          then enqueueImmediateSettlementRetry fe ps st else st)"

text \<open>Another finalizer holds the claim or the lock: wait for it, or queue a retry.\<close>

definition wait_for_other :: "fin_env \<Rightarrow> finalize_params \<Rightarrow> fin_state \<Rightarrow> finalize_result \<times> fin_state" where
  "wait_for_other fe ps st =
     (let cid = fp_callId ps
      in case pollUntilSettled fe cid st of
           (True, st1) \<Rightarrow> (result_of FDuplicate cid, release_inflight fe cid (ensureTerminalBillingTeardown fe cid st1))
         | (False, st1) \<Rightarrow> (result_of FPendingRetry cid, release_inflight fe cid (enqueueSettlementRetry fe ps st1)))"

text \<open>
  The admission, after the in-flight key is taken: \<open>Inl\<close> is an early answer, \<open>Inr\<close> the state in
  which the settlement section runs.
\<close>

definition finalize_admit ::
  "fin_env \<Rightarrow> finalize_params \<Rightarrow> fin_state \<Rightarrow> (finalize_result \<times> fin_state) + fin_state" where
  "finalize_admit fe ps st =
     (let cid = fp_callId ps
      in if stale_worker fe cid st
         then Inl (result_of FPendingRetry cid, enqueueImmediateSettlementRetry fe ps (release_inflight fe cid st))
         else if isCallBillingAlreadySettled (fe_env fe) cid (base st)
         then Inl (result_of FDuplicate cid,
                   release_inflight fe cid (ensureTerminalBillingTeardown fe cid
                     (appendSettlementAttempt cid (attempt_entry fe (fp_source ps) (fp_reason ps) ''duplicate'') st)))
         else (let st1 = snd (if isDurableCallSessionEnabled (fe_env fe) then tryStaleDurableSettlingTakeover fe cid st
                              else tryStaleSettlingTakeover fe cid (fe_ownerToken fe) st)
               in if claims st1 (settlementClaimKey cid) \<noteq> None then Inl (wait_for_other fe ps st1)
                  else (let st2 = upd_claims (\<lambda>k. k(settlementClaimKey cid \<mapsto> fe_ownerToken fe)) st1
                        in if keys st2 (settleLockKey cid) \<noteq> None
                           then Inl (wait_for_other fe ps (upd_claims (\<lambda>k. k(settlementClaimKey cid := None)) st2))
                           else Inr (upd_keys (\<lambda>k. k(settleLockKey cid \<mapsto> fe_ownerToken fe)) st2))))"

datatype section_end =
    Returned finalize_result fin_state | ClaimIsLost claim_lost_detail fin_state | Raised int fin_state

definition reward_event :: "settlement_plan \<Rightarrow> settle_state \<Rightarrow> fin_event list" where
  "reward_event p st =
     (if sp_userFirebaseUid p \<noteq> [] \<and> sp_durationSeconds p > 0
      then (case find (\<lambda>u. u_firebaseUid u = sp_userFirebaseUid p) (users (core st)) of
              None \<Rightarrow> []
            | Some u \<Rightarrow> if u_role u = ''user'' then [FirstCallReward (u_id u) (sp_durationSeconds p)] else [])
      else [])"

definition finalize_persisted ::
  "fin_env \<Rightarrow> finalize_params \<Rightarrow> int \<Rightarrow> settlement_plan \<Rightarrow> fin_state \<Rightarrow> section_end" where
  "finalize_persisted fe ps v p st =
     (let cid = fp_callId ps
      in if fe_raises fe AtMarkSettled then Raised v st
         else (let st1 = upd_base (markCallSettled fe ps v) st
               in if fe_raises fe AtMarkDurable then Raised v st1
                  else (let st2 = upd_base (upd_durable (markDurableCallSessionSettled (fe_env fe) (fe_now fe) cid v)) st1;
                            st3 = (if isBillingOutboxProjectionEnabled (fe_env fe) then emit_fin [OutboxSettled cid p] st2 else st2);
                            st4 = emit_fin [EmitSettled cid p] (snd (checkpointLifecycleState fe cid SETTLED ''settled'' st3));
                            st5 = runPostPersistRedisCleanup fe ps p st4;
                            st6 = appendSettlementAttempt cid
                                    ((attempt_entry fe (fp_source ps) (fp_reason ps) ''success'')
                                       \<lparr>sa_ownerToken := Some (fe_ownerToken fe), sa_settlementVersion := Some v\<rparr>) st5
                        in Returned \<lparr> fr_status = FSettled, fr_callId = cid, fr_settlementVersion = Some v,
                                      fr_coinsDeducted = Some (sp_totalDeducted p),
                                      fr_coinsEarned = Some (sp_totalEarnedCreator p),
                                      fr_durationSeconds = Some (sp_durationSeconds p) \<rparr>
                             (emit_fin (reward_event p (base st6)) st6))))"

definition settle_result ::
  "fin_env \<Rightarrow> finalize_params \<Rightarrow> int \<Rightarrow> settle_outcome \<Rightarrow> fin_state \<Rightarrow> section_end" where
  "settle_result fe ps v outcome st =
     (let cid = fp_callId ps
      in case outcome of
           Persisted p \<Rightarrow> finalize_persisted fe ps v p st
         | Skipped _ \<Rightarrow>
             if isCallBillingAlreadySettled (fe_env fe) cid (base st)
             then Returned (result_of FDuplicate cid) (ensureTerminalBillingTeardown fe cid st)
             else Returned (result_of FPendingRetry cid) (enqueueSettlementRetry fe ps st)
         | _ \<Rightarrow> Raised v st)"

definition finalize_flushed :: "fin_env \<Rightarrow> finalize_params \<Rightarrow> int \<Rightarrow> fin_state \<Rightarrow> section_end" where
  "finalize_flushed fe ps v st =
     (let cid = fp_callId ps
      in if fe_raises fe AtMarker then Raised v st
         else if isCallBillingAlreadySettled (fe_env fe) cid (base st)
         then Returned (result_of FDuplicate cid) (ensureTerminalBillingTeardown fe cid st)
         else if fe_raises fe AtTotals then Raised v st
         else if shouldBlockZeroSettlement (fe_env fe) (resolveAuthoritativeSettlementTotals (fe_env fe) cid (base st)) \<noteq> None
         then Returned (result_of FPendingRetry cid) (release_inflight fe cid (enqueueSettlementRetry fe ps st))
         else if fe_raises fe AtCancelJob then Raised v st
         else (case settleCall (fe_w fe) (fe_t fe) (fe_ws fe) (fe_reads fe) (fe_faults fe) (fe_commission fe)
                      (fe_ownerToken fe) True cid (base st) of
                 (outcome, b) \<Rightarrow> settle_result fe ps v outcome (emit_fin [CycleJobCancelled cid] (st\<lparr>base := b\<rparr>))))"

definition flush_base :: "fin_env \<Rightarrow> string \<Rightarrow> settle_state \<Rightarrow> settle_state" where
  "flush_base fe cid = upd_core (\<lambda>c. fst (snd (flushBillingToQuiescence (fe_t fe) (fe_ws fe) cid c)))"

definition finalize_claimed ::
  "fin_env \<Rightarrow> finalize_params \<Rightarrow> recovery_source \<Rightarrow> int \<Rightarrow> fin_state \<Rightarrow> section_end" where
  "finalize_claimed fe ps src v st =
     (let cid = fp_callId ps
      in case checkpointLifecycleState fe cid SETTLING ''settling'' st of
           (True, st1) \<Rightarrow> finalize_flushed fe ps v (upd_base (flush_base fe cid) st1)
         | (False, st1) \<Rightarrow>
             if src = MissingRuntime
             then Returned (result_of FPendingRetry cid) (enqueueSettlementRetry fe ps st1)
             else Returned (result_of FDeadLettered cid)
                    (moveCallToRecoveryDeadLetter fe cid ''convergence_impossible'' (fp_source ps) st1))"

definition finalize_section :: "fin_env \<Rightarrow> finalize_params \<Rightarrow> recovery_source \<Rightarrow> fin_state \<Rightarrow> section_end" where
  "finalize_section fe ps src st =
     (let cid = fp_callId ps
      in if fe_raises fe AtClaim then Raised 1 st
         else if isDurableCallSessionEnabled (fe_env fe)
         then (case claimDurableCallSessionForSettlement (fe_env fe) (fe_inst fe) (fe_now fe) cid (fp_reason ps)
                      (fp_source ps) (durable (base st)) of
                 (r, d) \<Rightarrow>
                   (let st1 = upd_base (upd_durable (\<lambda>_. d)) st
                    in case r of
                         ClaimOk v \<Rightarrow> finalize_claimed fe ps src v st1
                       | AlreadyFinalized \<Rightarrow> Returned (result_of FDuplicate cid) (ensureTerminalBillingTeardown fe cid st1)
                       | ClaimLost detail \<Rightarrow> ClaimIsLost detail st1))
         else (case markCallSettling fe ps (base st) of
                 (v, b) \<Rightarrow> finalize_claimed fe ps src v (st\<lparr>base := b\<rparr>)))"

definition finalize_finally :: "fin_env \<Rightarrow> string \<Rightarrow> fin_state \<Rightarrow> fin_state" where
  "finalize_finally fe cid st =
     release_inflight fe cid
       (upd_claims (\<lambda>k. k(settlementClaimKey cid := None))
          (upd_keys (release_if_match (settleLockKey cid) (fe_ownerToken fe)) st))"

definition finalize_catch :: "fin_env \<Rightarrow> finalize_params \<Rightarrow> int \<Rightarrow> fin_state \<Rightarrow> fin_state" where
  "finalize_catch fe ps v st =
     enqueueSettlementRetry fe ps
       (appendSettlementAttempt (fp_callId ps)
          ((attempt_entry fe (fp_source ps) (fp_reason ps) ''failed'')
             \<lparr>sa_ownerToken := Some (fe_ownerToken fe), sa_settlementVersion := Some v\<rparr>)
          (snd (checkpointLifecycleState fe (fp_callId ps) FAILED ''failed'' st)))"

text \<open>
  The answer to a lost claim is returned without being awaited, so the clean-up of the section runs
  first and the handler of the lost claim works without the keys of the admission.
\<close>

definition finalize_admitted ::
  "fin_env \<Rightarrow> finalize_params \<Rightarrow> recovery_source \<Rightarrow> fin_state \<Rightarrow> finalize_result \<times> fin_state" where
  "finalize_admitted fe ps src st =
     (case finalize_section fe ps src st of
        Returned r st1 \<Rightarrow> (r, finalize_finally fe (fp_callId ps) st1)
      | ClaimIsLost detail st1 \<Rightarrow> handleDurableClaimLost fe ps detail (finalize_finally fe (fp_callId ps) st1)
      | Raised v st1 \<Rightarrow>
          (result_of FPendingRetry (fp_callId ps), finalize_finally fe (fp_callId ps) (finalize_catch fe ps v st1)))"

datatype finalize_outcome = FinThrew | Fin finalize_result

definition finalize_direct :: "fin_env \<Rightarrow> finalize_params \<Rightarrow> fin_state \<Rightarrow> finalize_outcome \<times> fin_state" where
  "finalize_direct fe ps st =
     (case settleCall (fe_w fe) (fe_t fe) (fe_ws fe) (fe_reads fe) (fe_faults fe) (fe_commission fe) (fe_ownerToken fe)
             False (fp_callId ps) (base st) of
        (outcome, b) \<Rightarrow>
          ((case outcome of
              Threw _ \<Rightarrow> FinThrew | CorruptSession \<Rightarrow> FinThrew | _ \<Rightarrow> Fin (result_of FSettled (fp_callId ps))),
           st\<lparr>base := b\<rparr>))"

definition finalize_guarded :: "fin_env \<Rightarrow> finalize_params \<Rightarrow> fin_state \<Rightarrow> finalize_result \<times> fin_state" where
  "finalize_guarded fe ps st =
     (let cid = fp_callId ps
      in if truthy_key (keys st) (billingRecoveryDeadLetterKey cid) then (result_of FDeadLettered cid, st)
         else if keys st (finalizeInflightKey cid) \<noteq> None then inflight_refused fe ps st
         else (case finalize_admit fe ps (upd_keys (\<lambda>k. k(finalizeInflightKey cid \<mapsto> fe_inflightToken fe)) st) of
                 Inl early \<Rightarrow> early
               | Inr st1 \<Rightarrow> finalize_admitted fe ps (sm_recoverySource (readFinalizationSnapshotMeta cid st)) st1))"

definition finalizeCallSession :: "fin_env \<Rightarrow> finalize_params \<Rightarrow> fin_state \<Rightarrow> finalize_outcome \<times> fin_state" where
  "finalizeCallSession fe ps st =
     (if isInvalidBillingCallId (fp_callId ps) then (Fin (result_of FDuplicate (fp_callId ps)), st)
      else if \<not> isUnifiedBillingFinalizerEnabled (fe_env fe) then finalize_direct fe ps st
      else (case finalize_guarded fe ps st of (r, st') \<Rightarrow> (Fin r, st')))"

section \<open>The retry consumer\<close>

text \<open>
  \<open>parse_item\<close> is \<open>JSON.parse\<close> on a member of the queue (items of the first format hold the
  parameters themselves); \<open>None\<close> is a text that does not parse.
\<close>

definition consume_retry ::
  "fin_env \<Rightarrow> (string \<Rightarrow> finalize_params option) \<Rightarrow> string \<Rightarrow> fin_state \<Rightarrow> fin_state" where
  "consume_retry fe parse_item item st =
     (let st1 = st\<lparr>retryQueue := zrem item (retryQueue st)\<rparr>;
          undedup = upd_keys (\<lambda>k. k(billingSettlementRetryDedupKey item := None))
      in case retryPayload st1 item of
           None \<Rightarrow>
             if starts_with item ''{''
             then (case parse_item item of
                     None \<Rightarrow> st1
                   | Some ps \<Rightarrow>
                       (case finalizeCallSession fe ps st1 of
                          (Fin _, st2) \<Rightarrow> undedup st2
                        | (FinThrew, st2) \<Rightarrow> enqueueSettlementRetry fe ps st2))
             else undedup st1
         | Some ps \<Rightarrow>
             (case finalizeCallSession fe ps (undedup st1) of
                (Fin r, st2) \<Rightarrow>
                  if fr_status r \<noteq> FPendingRetry then st2\<lparr>retryPayload := (retryPayload st2)(item := None)\<rparr> else st2
              | (FinThrew, st2) \<Rightarrow> enqueueSettlementRetry fe ps st2))"

fun consume_retries ::
  "(nat \<Rightarrow> fin_env) \<Rightarrow> (string \<Rightarrow> finalize_params option) \<Rightarrow> nat \<Rightarrow> string list \<Rightarrow> fin_state \<Rightarrow> fin_state" where
  "consume_retries fes parse_item n [] st = st"
| "consume_retries fes parse_item n (x # xs) st =
     consume_retries fes parse_item (Suc n) xs (consume_retry (fes n) parse_item x st)"

definition processSettlementRetryQueue ::
  "(nat \<Rightarrow> fin_env) \<Rightarrow> (string \<Rightarrow> finalize_params option) \<Rightarrow> nat \<Rightarrow> fin_state \<Rightarrow> fin_state" where
  "processSettlementRetryQueue fes parse_item maxItems st =
     consume_retries fes parse_item 0 (zdue (fe_now (fes 0)) maxItems (retryQueue st)) st"

end
