(* ===== verification/FinalizerProofs.thy ===== *)
theory FinalizerProofs
  imports Finalizer
begin

text \<open>
  What holds of every run of the finalizer, whatever its environment: money moves at most once for a
  call, a run never leaves a key holding its tokens, a settled call is torn down and stays a
  duplicate, the dead letter stops a call, the retries are bounded. Two theorems show where the code
  does not do what it means to: the dead letter frees a slot of another call, and a session rebuilt
  from a checkpoint loses its charge at the next tick.
\<close>

section \<open>Frames\<close>

text \<open>Two states with the same wallets, transaction rows, staff balances and history.\<close>

definition same_money :: "settle_state \<Rightarrow> settle_state \<Rightarrow> bool" where
  "same_money st st' \<longleftrightarrow>
     users (core st') = users (core st) \<and> creators (core st') = creators (core st) \<and> coinTxns st' = coinTxns st \<and>
     staffBalance st' = staffBalance st \<and> staffLedger st' = staffLedger st \<and> history st' = history st"

lemma same_money_refl [simp]: "same_money st st" by (simp add: same_money_def)

lemma same_money_trans: "same_money a b \<Longrightarrow> same_money b c \<Longrightarrow> same_money a c"
  by (simp add: same_money_def)

text \<open>The operations that move no money disappear under \<open>same_money\<close>.\<close>

lemma same_money_core: "(\<And>c. same_docs c (f c)) \<Longrightarrow> same_money a (upd_core f b) = same_money a b"
  by (simp add: same_money_def upd_core_def same_docs_def)

lemma same_money_ops [simp]:
  "same_money a (upd_durable g b) = same_money a b"
  "same_money a (deleteBillingSessionRedisKeys cid u c b) = same_money a b"
  "same_money a (set_tombstone cid v b) = same_money a b"
  "same_money a (release_settle_lock cid token b) = same_money a b"
  "same_money a (update_call_settlement cid h b) = same_money a b"
  "same_money a (upd_core (put_session cid raw) b) = same_money a b"
  "same_money a (snd (ledger_flush_for_settlement w cid view b)) = same_money a b"
  by (simp_all add: same_money_def upd_core_def upd_durable_def update_call_settlement_def put_session_def Let_def
      deleteBillingSessionRedisKeys_def clearCallSessionSeed_def set_tombstone_def release_settle_lock_def
      ledger_flush_for_settlement_def)

lemma same_money_flush [simp]: "same_money a (flush_base fe cid b) = same_money a b"
  unfolding flush_base_def by (intro same_money_core flush_docs)

lemma same_money_reconstruct [simp]: "same_money a (reconstruct_session fe cid b) = same_money a b"
  by (simp add: reconstruct_session_def Let_def split: option.split)

section \<open>The history of a call\<close>

text \<open>
  A call is charged when it has a history row. \<open>rows_ok\<close>: every row of the call is a settled one and
  the payer's is among them; rows are written by settlement only, which writes settled ones.
\<close>

definition charged :: "string \<Rightarrow> settle_state \<Rightarrow> bool" where
  "charged cid st \<longleftrightarrow> list_ex (\<lambda>r. h_callId r = cid) (history st)"

definition payer_row :: "string \<Rightarrow> settle_state \<Rightarrow> bool" where
  "payer_row cid st \<longleftrightarrow> list_ex (\<lambda>r. h_callId r = cid \<and> h_ownerRole r = ''user'') (history st)"

definition settled_rows_only :: "string \<Rightarrow> settle_state \<Rightarrow> bool" where
  "settled_rows_only cid st \<longleftrightarrow> list_all (\<lambda>r. h_callId r = cid \<longrightarrow> history_settled r) (history st)"

definition rows_ok :: "string \<Rightarrow> settle_state \<Rightarrow> bool" where
  "rows_ok cid st \<longleftrightarrow> settled_rows_only cid st \<and> (charged cid st \<longrightarrow> payer_row cid st)"

lemmas row_defs = charged_def payer_row_def settled_rows_only_def list_ex_iff list_all_iff

text \<open>
  A step that moves money only by charging a call that was not charged, and writes settled rows.
\<close>

definition charges_once :: "string \<Rightarrow> settle_state \<Rightarrow> settle_state \<Rightarrow> bool" where
  "charges_once cid st st' \<longleftrightarrow>
     (same_money st st' \<or> (\<not> charged cid st \<and> charged cid st')) \<and> (settled_rows_only cid st \<longrightarrow> settled_rows_only cid st')"

lemma same_money_rows:
  assumes "same_money st st'"
  shows "charged cid st' = charged cid st" "payer_row cid st' = payer_row cid st"
    "settled_rows_only cid st' = settled_rows_only cid st" "rows_ok cid st' = rows_ok cid st"
  using assms by (simp_all add: same_money_def row_defs rows_ok_def)

lemma charges_once_frame: "same_money st st' \<Longrightarrow> charges_once cid st st'"
  by (simp add: charges_once_def same_money_rows)

lemma charges_once_trans:
  assumes "charges_once cid a b" and "charges_once cid b c"
  shows "charges_once cid a c"
  using assms same_money_trans same_money_rows(1) unfolding charges_once_def by metis

lemma charged_is_settled:
  assumes "rows_ok cid st" and "charged cid st"
  shows "isCallBillingAlreadySettled env cid st"
proof -
  obtain r where "find (\<lambda>r. h_callId r = cid \<and> h_ownerRole r = ''user'') (history st) = Some r"
    using assms by (cases "find (\<lambda>r. h_callId r = cid \<and> h_ownerRole r = ''user'') (history st)")
      (auto simp: rows_ok_def row_defs find_None_iff)
  moreover from this have "history_settled r"
    using assms by (auto simp: rows_ok_def row_defs find_Some_iff dest!: nth_mem)
  ultimately show ?thesis by (simp add: isCallBillingAlreadySettled_def user_history_def)
qed

section \<open>The transaction\<close>

lemma sections_history [simp]:
  "history (debit_payer p st) = history st" "history (consume_intro_promo now p st) = history st"
  "history (credit_staff key s a st) = history st" "history (staff_revenue_split p rates ag bd st) = history st"
  by (simp_all add: debit_payer_def consume_intro_promo_def credit_staff_def staff_revenue_split_def Let_def
      split: option.split prod.split)

lemma credit_creator_history [simp]: "history (snd (credit_creator now ok p st)) = history st"
  by (simp add: credit_creator_def Let_def split: option.split)

lemma settle_txn_history:
  "history (snd (settle_txn now ok p st)) =
     history (write_histories now p (fst (settle_txn now ok p st)) st)"
  by (simp add: settle_txn_def write_histories_def case_prod_beta Let_def split: option.split)

lemma upsert_rows: "set (upsert_history r rows) \<subseteq> insert r (set rows)"
  by (auto simp: upsert_history_def)

lemma upsert_charges: "list_ex (\<lambda>x. h_callId x = h_callId r) (upsert_history r rows)"
  by (auto simp: upsert_history_def list_ex_iff)

lemma write_histories_rows:
  assumes "settled_rows_only (sp_callId p) st"
  shows "settled_rows_only (sp_callId p) (write_histories now p e st)" "charged (sp_callId p) (write_histories now p e st)"
proof -
  let ?u = "user_history_row now p" and ?rows = "history (write_histories now p e st)"
  have u: "h_callId ?u = sp_callId p" "history_settled ?u" by (simp_all add: user_history_row_def history_settled_def)
  have c: "h_callId (creator_history_row now p o' e) = sp_callId p" "history_settled (creator_history_row now p o' e)" for o'
    by (simp_all add: creator_history_row_def history_settled_def split: prod.split)
  consider "?rows = upsert_history ?u (history st)"
    | o' where "?rows = upsert_history (creator_history_row now p o' e) (upsert_history ?u (history st))"
    by (cases "find (\<lambda>c. c_id c = sp_creatorMongoId p) (creators (core st))") (auto simp: write_histories_def Let_def)
  then have "set ?rows \<subseteq> {r. h_callId r = sp_callId p \<longrightarrow> history_settled r} \<and> (\<exists>r \<in> set ?rows. h_callId r = sp_callId p)"
  proof cases
    case 1
    then show ?thesis
      using assms upsert_rows [of ?u "history st"] upsert_charges [of ?u "history st"] u by (auto simp: row_defs)
  next
    case (2 o')
    then show ?thesis
      using assms upsert_rows [of ?u "history st"] upsert_rows [of "creator_history_row now p o' e" "upsert_history ?u (history st)"]
        upsert_charges [of "creator_history_row now p o' e" "upsert_history ?u (history st)"] u c
      by (auto simp: row_defs)
  qed
  then show "settled_rows_only (sp_callId p) (write_histories now p e st)" "charged (sp_callId p) (write_histories now p e st)"
    by (auto simp: row_defs)
qed

lemma settle_txn_charges:
  assumes "settled_rows_only (sp_callId p) st"
  shows "settled_rows_only (sp_callId p) (snd (settle_txn now ok p st))" "charged (sp_callId p) (snd (settle_txn now ok p st))"
  using write_histories_rows [OF assms, of now "fst (settle_txn now ok p st)"]
  by (simp_all add: settled_rows_only_def charged_def settle_txn_history)

section \<open>Attempts and the locked section\<close>

text \<open>What a settlement may do to the rows of its call: nothing, or charge it with settled rows.\<close>

definition may_charge :: "string \<Rightarrow> settle_state \<Rightarrow> settle_state \<Rightarrow> bool" where
  "may_charge cid st st' \<longleftrightarrow> settled_rows_only cid st' \<and> (same_money st st' \<or> charged cid st')"

lemma may_charge_frame:
  "settled_rows_only cid st \<Longrightarrow> same_money st st' \<Longrightarrow> may_charge cid st st'"
  by (simp add: may_charge_def same_money_rows)

lemma may_charge_then:
  assumes "may_charge cid st st'" and "same_money st' st''"
  shows "may_charge cid st st''"
  using assms same_money_trans by (auto simp: may_charge_def same_money_rows)

lemma attempts_charge:
  assumes "settle_attempts env faults commission now left attempt p st = (r, st')"
    and "settled_rows_only (sp_callId p) st"
  shows "may_charge (sp_callId p) st st'"
  using assms
proof (induction left arbitrary: attempt p st)
  case 0
  obtain earned st1 where t: "settle_txn now (commission attempt) p st = (earned, st1)" by fastforce
  have c: "may_charge (sp_callId p) st st1"
    using settle_txn_charges [OF 0(2), of now "commission attempt"] by (simp add: t may_charge_def)
  have f: "may_charge (sp_callId p) st (set_tombstone (sp_callId p) None s)" if "may_charge (sp_callId p) st s" for s
    using that by (rule may_charge_then) simp
  have s: "may_charge (sp_callId p) st st" using 0(2) same_money_refl by (rule may_charge_frame)
  show ?case
    by (cases "find_user (sp_userMongoId p) st"; cases "faults attempt")
      (use 0(1) t f c s in \<open>auto simp: settle_attempts.simps [of env faults commission now 0] Let_def split: if_splits\<close>)
next
  case (Suc left)
  obtain earned st1 where t: "settle_txn now (commission attempt) p st = (earned, st1)" by fastforce
  have c: "may_charge (sp_callId p) st st1"
    using settle_txn_charges [OF Suc.prems(2), of now "commission attempt"] by (simp add: t may_charge_def)
  have s: "may_charge (sp_callId p) st st" using Suc.prems(2) same_money_refl by (rule may_charge_frame)
  have f: "may_charge (sp_callId p) st (set_tombstone (sp_callId p) None st)"
    using s by (rule may_charge_then) simp
  have again: "may_charge (sp_callId p) st st'"
    if a: "settle_attempts env faults commission now left (Suc attempt) q b = (r, st')" and q: "sp_callId q = sp_callId p"
      and b: "may_charge (sp_callId p) st b" for q b
  proof -
    have "may_charge (sp_callId p) b st'" using Suc.IH [OF a] b q by (simp add: may_charge_def)
    then show ?thesis using b same_money_trans same_money_rows(1) by (auto simp: may_charge_def)
  qed
  show ?case
    by (cases "find_user (sp_userMongoId p) st"; cases "faults attempt")
      (use Suc.prems(1) t f c s in \<open>auto simp: settle_attempts.simps [of env faults commission now "Suc left"] Let_def
         intro: again split: if_splits\<close>)
qed

lemma locked_charges:
  assumes "settle_locked w reads faults commission token True cid st = (out, st')"
    and "settled_rows_only cid st"
  shows "may_charge cid st st'"
proof -
  have frame: ?thesis if "same_money st st'" using assms(2) that by (rule may_charge_frame)
  show ?thesis
  proof (cases "reads = SessionReadFails \<or> (\<nexists>v0. settlement_session w cid st = Some (Inr v0))")
    case True
    then have "same_money st st'"
      using assms(1) by (auto simp: settle_locked_def Let_def split: if_splits option.splits sum.splits)
    then show ?thesis by (rule frame)
  next
    case False
    then obtain v0 where v0: "settlement_session w cid st = Some (Inr v0)" and r: "reads \<noteq> SessionReadFails" by blast
    obtain v st1 where l: "ledger_flush_for_settlement w cid v0 st = (v, st1)" by fastforce
    have m: "same_money st st1" using same_money_ops(7) [of st w cid v0 st] l by simp
    let ?p = "settlement_plan_of cid (settlement_earnings_raw w cid st1) v (resolveAuthoritativeSettlementTotals (w_env w) cid st1)"
    obtain q st2 where a: "settle_attempts (w_env w) faults commission (w_clock w) (SETTLEMENT_TXN_MAX_ATTEMPTS - 1) 0 ?p st1 = (q, st2)"
      by fastforce
    consider "same_money st1 st'" | "st' = st2"
      using assms(1) r a
      by (auto simp: settle_locked_def Let_def v0 l split: if_splits sum.splits)
    then show ?thesis
    proof cases
      case 1
      then show ?thesis using m same_money_trans frame by blast
    next
      case 2
      have "may_charge cid st1 st2"
        using attempts_charge [OF a] assms(2) m by (simp add: same_plan_payer same_money_rows)
      then show ?thesis using 2 m same_money_trans by (auto simp: may_charge_def)
    qed
  qed
qed


section \<open>Steps of the finalizer\<close>

text \<open>A step that charges at most once and keeps the rows in order.\<close>

definition orderly :: "string \<Rightarrow> settle_state \<Rightarrow> settle_state \<Rightarrow> bool" where
  "orderly cid st st' \<longleftrightarrow> charges_once cid st st' \<and> (rows_ok cid st \<longrightarrow> rows_ok cid st')"

lemma orderly_frame: "same_money st st' \<Longrightarrow> orderly cid st st'"
  by (simp add: orderly_def charges_once_frame same_money_rows)

lemma orderly_trans: "orderly cid a b \<Longrightarrow> orderly cid b c \<Longrightarrow> orderly cid a c"
  using charges_once_trans by (auto simp: orderly_def)

lemma orderly_then: "orderly cid a b \<Longrightarrow> same_money b c \<Longrightarrow> orderly cid a c"
  using orderly_trans orderly_frame by blast

text \<open>The other processes, while this one polls or backs off, are orderly too.\<close>

definition polite :: "string \<Rightarrow> fin_env \<Rightarrow> bool" where
  "polite cid fe \<longleftrightarrow>
     (\<forall>f \<in> set (fe_polls fe). \<forall>st. orderly cid st (f st)) \<and> (\<forall>t n st. orderly cid st (fe_backoff fe t n st))"

lemma base_upd [simp]:
  "base (upd_base f st) = f (base st)" "base (emit_fin evs st) = base st"
  "base (appendSettlementAttempt cid e st) = base st"
  by (simp_all add: upd_base_def emit_fin_def appendSettlementAttempt_def split: option.split)

lemma same_money_fin [simp]:
  "same_money a (base (upd_keys k st)) = same_money a (base st)"
  "same_money a (base (upd_claims k st)) = same_money a (base st)"
  "same_money a (base (release_inflight fe cid st)) = same_money a (base st)"
  by (simp_all add: upd_keys_def upd_claims_def release_inflight_def same_money_core same_docs_def)

lemma same_money_artifacts [simp]:
  "same_money a (base (clearSettlementRetryArtifacts cid st)) = same_money a (base st)"
  "same_money a (base (drainSettlementArtifacts cid st)) = same_money a (base st)"
  "same_money a (base (finalize_finally fe cid st)) = same_money a (base st)"
  "same_money a (base (runPostPersistRedisCleanup fe ps p st)) = same_money a (base st)"
  by (simp_all add: clearSettlementRetryArtifacts_def drainSettlementArtifacts_def finalize_finally_def
      runPostPersistRedisCleanup_def Let_def)

lemma same_money_dead_letter_parts [simp]:
  "same_money a (upd_core (dead_letter_session fe cid reason source) b) = same_money a b"
  "same_money a (raise_durable_totals fe cid b) = same_money a b"
  "same_money a (dead_letter_call fe cid reason source b) = same_money a b"
  "same_money a (dead_letter_cleanup fe cid parties b) = same_money a b"
  by (simp_all add: same_money_core same_docs_def dead_letter_session_def put_session_def raise_durable_totals_def
      dead_letter_call_def dead_letter_cleanup_def Let_def split: option.split stored_session.split prod.split)

lemma same_money_dead_letter [simp]:
  "same_money a (base (moveCallToRecoveryDeadLetter fe cid reason source st)) = same_money a (base st)"
  by (simp add: moveCallToRecoveryDeadLetter_def Let_def)

lemma same_money_enqueue [simp]:
  "same_money a (base (enqueue_retry score fe ps st)) = same_money a (base st)"
  "same_money a (base (enqueueSettlementRetry fe ps st)) = same_money a (base st)"
  "same_money a (base (enqueueImmediateSettlementRetry fe ps st)) = same_money a (base st)"
  by (simp_all add: enqueue_retry_def enqueueSettlementRetry_def enqueueImmediateSettlementRetry_def Let_def)

lemma same_money_teardown [simp]:
  "same_money a (base (ensureTerminalBillingTeardown fe cid st)) = same_money a (base st)"
  by (simp add: ensureTerminalBillingTeardown_def Let_def same_money_core same_docs_def split: option.split stored_session.split prod.split)

lemma same_money_takeover [simp]:
  "same_money a (base (snd (tryStaleDurableSettlingTakeover fe cid st))) = same_money a (base st)"
  "same_money a (base (snd (tryStaleSettlingTakeover fe cid token st))) = same_money a (base st)"
  by (simp_all add: tryStaleDurableSettlingTakeover_def tryStaleSettlingTakeover_def split: option.split)

lemma same_money_recovery [simp]:
  "same_money a (base (snd (attemptFailedSettlementRecovery fe force cid source st))) = same_money a (base st)"
  by (simp add: attemptFailedSettlementRecovery_def Let_def split: prod.split bool.split)

lemma same_money_marks [simp]:
  "same_money a (snd (markCallSettling fe ps b)) = same_money a b"
  "same_money a (markCallSettled fe ps v b) = same_money a b"
  by (simp_all add: markCallSettling_def markCallSettled_def split: option.split)

section \<open>Polling and the lifecycle checkpoint\<close>

lemma poll_orderly:
  "\<forall>f \<in> set fs. \<forall>st. orderly cid st (f st) \<Longrightarrow> orderly cid st (snd (poll_settled env cid' fs st))"
proof (induction fs arbitrary: st)
  case (Cons f fs)
  then show ?case using orderly_trans [of cid st "f st"] by (simp add: orderly_frame)
qed (simp add: orderly_frame)

lemma pollUntilSettled_orderly:
  assumes "polite cid fe"
  shows "orderly cid (base st) (base (snd (pollUntilSettled fe cid' st)))"
proof -
  have "\<forall>f \<in> set (take (poll_rounds (fe_env fe)) (fe_polls fe)). \<forall>st. orderly cid st (f st)"
    using assms by (auto simp: polite_def dest: in_set_takeD)
  from poll_orderly [OF this] show ?thesis by (simp add: pollUntilSettled_def case_prod_beta)
qed

lemma checkpoint_attempt_frame:
  "checkpoint_attempt fe cid target status n st = CheckpointDone ok st' \<Longrightarrow> same_money st st'"
  "checkpoint_attempt fe cid target status n st = CheckpointAgain st' \<Longrightarrow> same_money st st'"
  by (auto simp: checkpoint_attempt_def Let_def same_money_core same_docs_def write_lifecycle_checkpoint_def
      split: if_splits option.splits prod.splits)

lemma checkpoint_loop_orderly:
  assumes "polite cid fe"
  shows "orderly cid st (snd (checkpoint_loop fe cid' target status left n st))"
proof (induction left arbitrary: n st)
  case (Suc left)
  show ?case
  proof (cases "checkpoint_attempt fe cid' target status n st")
    case (CheckpointDone ok st1)
    then show ?thesis using checkpoint_attempt_frame(1) [OF CheckpointDone] by (simp add: orderly_frame)
  next
    case (CheckpointAgain st1)
    have 1: "orderly cid st st1" using checkpoint_attempt_frame(2) [OF CheckpointAgain] by (rule orderly_frame)
    have "orderly cid st1 (fe_backoff fe target n st1)" using assms by (simp add: polite_def)
    then have "orderly cid st (snd (checkpoint_loop fe cid' target status left (Suc n) (fe_backoff fe target n st1)))"
      using 1 Suc.IH [of "fe_backoff fe target n st1" "Suc n"] by (blast intro: orderly_trans)
    then show ?thesis using 1 CheckpointAgain by simp
  qed
qed (simp add: orderly_frame)

lemma checkpoint_orderly:
  "polite cid fe \<Longrightarrow> orderly cid (base st) (base (snd (checkpointLifecycleState fe cid' target status st)))"
  using checkpoint_loop_orderly by (simp add: checkpointLifecycleState_def case_prod_beta)


section \<open>The settlement section\<close>

primrec section_state :: "section_end \<Rightarrow> fin_state" where
  "section_state (Returned r st) = st"
| "section_state (ClaimIsLost d st) = st"
| "section_state (Raised v st) = st"

lemma orderly_once: "orderly cid a b \<Longrightarrow> charges_once cid a b" by (simp add: orderly_def)

lemma charges_once_then: "charges_once cid a b \<Longrightarrow> same_money b c \<Longrightarrow> charges_once cid a c"
  using charges_once_trans charges_once_frame by blast

lemma persisted_once:
  assumes "polite cid fe"
  shows "charges_once cid (base st) (base (section_state (finalize_persisted fe ps v p st)))"
proof -
  let ?c = "\<lambda>s. snd (checkpointLifecycleState fe (fp_callId ps) SETTLED ''settled'' s)"
  have o: "orderly cid (base s) (base (?c s))" for s using assms by (rule checkpoint_orderly)
  have *: "charges_once cid (base st) (base (?c s))" if "same_money (base st) (base s)" for s
    using orderly_trans [OF orderly_frame [OF that] o] by (rule orderly_once)
  have "charges_once cid (base st) (base (runPostPersistRedisCleanup fe ps p (emit_fin e (?c s))))"
    if "same_money (base st) (base s)" for s e
    using * [OF that] by (rule charges_once_then) simp
  then show ?thesis by (simp add: finalize_persisted_def Let_def charges_once_frame)
qed

lemma settle_result_once:
  assumes "polite cid fe"
  shows "charges_once cid (base st) (base (section_state (settle_result fe ps v out st)))"
  using persisted_once [OF assms]
  by (simp add: settle_result_def Let_def charges_once_frame split: settle_outcome.split)

lemma flushed_once:
  assumes "polite cid fe" and "fp_callId ps = cid" and "rows_ok cid (base st)" and "\<not> isInvalidBillingCallId cid"
  shows "charges_once cid (base st) (base (section_state (finalize_flushed fe ps v st)))"
proof -
  obtain out b where s: "settleCall (fe_w fe) (fe_t fe) (fe_ws fe) (fe_reads fe) (fe_faults fe) (fe_commission fe)
      (fe_ownerToken fe) True cid (base st) = (out, b)" by fastforce
  have l: "settle_locked (fe_w fe) (fe_reads fe) (fe_faults fe) (fe_commission fe) (fe_ownerToken fe) True cid (base st) = (out, b)"
    using s assms(4) by (simp add: settleCall_def)
  have "charges_once cid (base st) b" if n: "\<not> isCallBillingAlreadySettled (fe_env fe) cid (base st)"
    using locked_charges [OF l] assms(3) n charged_is_settled
    by (auto simp: may_charge_def charges_once_def rows_ok_def)
  then have "charges_once cid (base st) (base (section_state (settle_result fe ps v out (emit_fin e (st\<lparr>base := b\<rparr>)))))"
    if "\<not> isCallBillingAlreadySettled (fe_env fe) cid (base st)" for e
    using that settle_result_once [OF assms(1), of "emit_fin e (st\<lparr>base := b\<rparr>)"] charges_once_trans by fastforce
  then show ?thesis by (simp add: finalize_flushed_def Let_def assms(2) s charges_once_frame)
qed

lemma claimed_once:
  assumes "polite cid fe" and "fp_callId ps = cid" and "rows_ok cid (base st)" and "\<not> isInvalidBillingCallId cid"
  shows "charges_once cid (base st) (base (section_state (finalize_claimed fe ps src v st)))"
proof -
  obtain ok st1 where c: "checkpointLifecycleState fe cid SETTLING ''settling'' st = (ok, st1)" by fastforce
  have o: "orderly cid (base st) (base st1)" using checkpoint_orderly [OF assms(1), of st cid] c by (metis snd_conv)
  show ?thesis
  proof (cases ok)
    case True
    let ?s = "upd_base (flush_base fe cid) st1"
    have f: "orderly cid (base st) (base ?s)" using o by (rule orderly_then) simp
    then have "rows_ok cid (base ?s)" using assms(3) unfolding orderly_def by blast
    then have "charges_once cid (base ?s) (base (section_state (finalize_flushed fe ps v ?s)))"
      using assms by (intro flushed_once) simp_all
    then show ?thesis
      using charges_once_trans [OF orderly_once [OF f]] c True assms(2) by (simp add: finalize_claimed_def)
  next
    case False
    have "charges_once cid (base st) (base (enqueueSettlementRetry fe ps st1))"
      "charges_once cid (base st) (base (moveCallToRecoveryDeadLetter fe cid reason source st1))" for reason source
      using orderly_once [OF o] by (simp_all add: charges_once_then)
    then show ?thesis using c False assms(2) by (simp add: finalize_claimed_def)
  qed
qed

lemma section_once:
  assumes "polite cid fe" and "fp_callId ps = cid" and "rows_ok cid (base st)" and "\<not> isInvalidBillingCallId cid"
  shows "charges_once cid (base st) (base (section_state (finalize_section fe ps src st)))"
proof -
  have c: "charges_once cid (base st) (base (section_state (finalize_claimed fe ps src v s)))"
    if "same_money (base st) (base s)" for s v
    using that assms claimed_once [OF assms(1,2), of s src v] charges_once_trans [OF charges_once_frame [OF that]]
    by (simp add: same_money_rows)
  have m: "same_money (base st) (base (st\<lparr>base := snd (markCallSettling fe ps (base st))\<rparr>))" by simp
  show ?thesis
    using c [OF m]
    by (auto simp: finalize_section_def Let_def charges_once_frame case_prod_beta split: claim_result.split intro: c)
qed

section \<open>The whole handler\<close>

lemma claim_lost_once:
  assumes "polite cid fe"
  shows "charges_once cid (base st) (base (snd (handleDurableClaimLost fe ps detail st)))"
proof -
  obtain b st1 where p: "pollUntilSettled fe (fp_callId ps) st = (b, st1)" by fastforce
  have o: "charges_once cid (base st) (base st1)"
    using pollUntilSettled_orderly [OF assms, of st "fp_callId ps"] p by (simp add: orderly_def)
  have r: "same_money a (base (snd (attemptFailedSettlementRecovery fe force c src s))) = same_money a (base s)"
    for a force c src s by simp
  have recov: "same_money (base st) (base s)"
    if "attemptFailedSettlementRecovery fe False (fp_callId ps) (fp_source ps) (release_inflight fe (fp_callId ps) st) = (q, s)" for q s
    using r [of "base st" False "fp_callId ps" "fp_source ps" "release_inflight fe (fp_callId ps) st"] that by simp
  have poll: "charges_once cid (base st) (base (release_inflight fe c (ensureTerminalBillingTeardown fe c' st1)))"
    "charges_once cid (base st) (base (release_inflight fe c (enqueueSettlementRetry fe ps st1)))" for c c'
    using o by (simp_all add: charges_once_then)
  show ?thesis
    by (cases detail; cases b)
      (auto simp: handleDurableClaimLost_def Let_def p poll charges_once_frame dest!: recov
        split: option.split prod.split recovery_result.split)
qed

lemma wait_once:
  assumes "polite cid fe"
  shows "charges_once cid (base st) (base (snd (wait_for_other fe ps st)))"
proof -
  obtain b st1 where p: "pollUntilSettled fe (fp_callId ps) st = (b, st1)" by fastforce
  have "charges_once cid (base st) (base st1)"
    using pollUntilSettled_orderly [OF assms, of st "fp_callId ps"] p by (simp add: orderly_def)
  then have "charges_once cid (base st) (base (release_inflight fe c (ensureTerminalBillingTeardown fe c' st1)))"
    "charges_once cid (base st) (base (release_inflight fe c (enqueueSettlementRetry fe ps st1)))" for c c'
    by (simp_all add: charges_once_then)
  then show ?thesis by (cases b) (simp_all add: wait_for_other_def p Let_def)
qed

lemma admit_once:
  assumes "polite cid fe"
  shows "finalize_admit fe ps st = Inl (r, st') \<Longrightarrow> charges_once cid (base st) (base st')"
    and "finalize_admit fe ps st = Inr st' \<Longrightarrow> same_money (base st) (base st')"
proof -
  define st1 where "st1 = snd (if isDurableCallSessionEnabled (fe_env fe) then tryStaleDurableSettlingTakeover fe (fp_callId ps) st
    else tryStaleSettlingTakeover fe (fp_callId ps) (fe_ownerToken fe) st)"
  have 1: "same_money (base st) (base st1)" by (simp add: st1_def)
  have w: "charges_once cid (base st) (base s)" if "wait_for_other fe ps x = (q, s)" "same_money (base st) (base x)" for q s x
    using wait_once [OF assms, of x ps] that charges_once_trans charges_once_frame by fastforce
  show "finalize_admit fe ps st = Inl (r, st') \<Longrightarrow> charges_once cid (base st) (base st')"
    using 1 by (auto simp: finalize_admit_def Let_def st1_def [symmetric] charges_once_frame intro: w split: if_splits)
  show "finalize_admit fe ps st = Inr st' \<Longrightarrow> same_money (base st) (base st')"
    using 1 by (auto simp: finalize_admit_def Let_def st1_def [symmetric] split: if_splits)
qed

lemma catch_once:
  assumes "polite cid fe"
  shows "charges_once cid (base st) (base (finalize_catch fe ps v st))"
proof -
  have "charges_once cid (base st) (base (snd (checkpointLifecycleState fe (fp_callId ps) FAILED ''failed'' st)))"
    using checkpoint_orderly [OF assms] by (rule orderly_once)
  then show ?thesis unfolding finalize_catch_def by (rule charges_once_then) simp
qed

lemma admitted_once:
  assumes "polite cid fe" and "fp_callId ps = cid" and "rows_ok cid (base st)" and "\<not> isInvalidBillingCallId cid"
  shows "charges_once cid (base st) (base (snd (finalize_admitted fe ps src st)))"
proof -
  note s = section_once [OF assms, of src]
  show ?thesis
  proof (cases "finalize_section fe ps src st")
    case (Returned r st1)
    then show ?thesis using s charges_once_then [of cid "base st" "base st1"] by (simp add: finalize_admitted_def)
  next
    case (ClaimIsLost d st1)
    let ?f = "finalize_finally fe (fp_callId ps) st1"
    have "charges_once cid (base st) (base ?f)" using s ClaimIsLost by (simp add: charges_once_then)
    then show ?thesis
      using ClaimIsLost claim_lost_once [OF assms(1), of ?f ps d] charges_once_trans by (simp add: finalize_admitted_def)
  next
    case (Raised v st1)
    have "charges_once cid (base st) (base (finalize_catch fe ps v st1))"
      using s Raised catch_once [OF assms(1), of st1 ps v] charges_once_trans by fastforce
    then show ?thesis using Raised charges_once_then by (simp add: finalize_admitted_def)
  qed
qed

lemma finalize_once:
  assumes "finalizeCallSession fe ps st = (out, st')" and "isUnifiedBillingFinalizerEnabled (fe_env fe)"
    and "fp_callId ps = cid" and "polite cid fe" and "rows_ok cid (base st)"
  shows "charges_once cid (base st) (base st')"
proof (cases "isInvalidBillingCallId cid")
  case True
  then show ?thesis using assms(1,3) by (simp add: finalizeCallSession_def charges_once_frame)
next
  case False
  let ?s = "upd_keys (\<lambda>k. k(finalizeInflightKey cid \<mapsto> fe_inflightToken fe)) st"
  have m: "same_money (base st) (base ?s)" by simp
  have i: "charges_once cid (base st) (base (snd (inflight_refused fe ps st)))"
    by (simp add: inflight_refused_def charges_once_frame split: option.split)
  have a: "charges_once cid (base st) (base s)" if "finalize_admit fe ps ?s = Inl (r, s)" for r s
    using admit_once(1) [OF assms(4) that] charges_once_trans charges_once_frame m by blast
  have b: "charges_once cid (base st) (base (snd (finalize_admitted fe ps src s)))" if "finalize_admit fe ps ?s = Inr s" for s src
  proof -
    have f: "same_money (base st) (base s)" using admit_once(2) [OF assms(4) that] m same_money_trans by blast
    then show ?thesis
      using admitted_once [OF assms(4,3), of s src] assms(5) False charges_once_trans [OF charges_once_frame [OF f]]
      by (simp add: same_money_rows)
  qed
  have "charges_once cid (base st) (base (snd (finalize_guarded fe ps st)))"
    using i a b assms(3) by (auto simp: finalize_guarded_def Let_def charges_once_frame split: sum.split)
  then show ?thesis using assms(1-3) False by (auto simp: finalizeCallSession_def split: prod.splits)
qed


section \<open>Sequences of runs\<close>

text \<open>
  Any number of runs of the finalizer for one call, each with its own environment (tokens, clocks,
  faults, the steps of the others). A run that charges leaves the payer's row; it would not only if
  the payer were the creator's own account, whose row then replaces it.
\<close>

inductive finalized :: "string \<Rightarrow> fin_state \<Rightarrow> fin_state \<Rightarrow> bool" for cid st where
  not_yet: "finalized cid st st"
| run: "finalized cid st st1 \<Longrightarrow> finalizeCallSession fe ps st1 = (out, st2) \<Longrightarrow>
        isUnifiedBillingFinalizerEnabled (fe_env fe) \<Longrightarrow> fp_callId ps = cid \<Longrightarrow> polite cid fe \<Longrightarrow>
        (charged cid (base st2) \<longrightarrow> payer_row cid (base st2)) \<Longrightarrow> finalized cid st st2"

lemma finalized_once:
  assumes "finalized cid st st'" and "rows_ok cid (base st)"
  shows "charges_once cid (base st) (base st') \<and> rows_ok cid (base st')"
  using assms(1)
proof induction
  case not_yet
  then show ?case using assms(2) by (simp add: charges_once_frame)
next
  case (run st1 fe ps out st2)
  have "charges_once cid (base st1) (base st2)" using run finalize_once [OF run.hyps(2-5)] by blast
  then show ?case using run charges_once_trans by (auto simp: charges_once_def rows_ok_def)
qed


section \<open>Keys and tokens\<close>

text \<open>The keys a run takes with its tokens: the in-flight key and the settlement lock.\<close>

definition guard_key :: "string \<Rightarrow> string \<Rightarrow> bool" where
  "guard_key cid k \<longleftrightarrow> k = finalizeInflightKey cid \<or> k = settleLockKey cid"

definition lacks :: "string \<Rightarrow> string \<Rightarrow> keyspace \<Rightarrow> bool" where
  "lacks k t ks \<longleftrightarrow> ks k \<noteq> Some t"

lemma guard_keys_distinct [simp]:
  "finalizeInflightKey cid \<noteq> settleLockKey cid'" "settleLockKey cid' \<noteq> finalizeInflightKey cid"
  "guard_key cid k \<Longrightarrow> k \<noteq> billingSettlementRetryDedupKey cid'" "guard_key cid k \<Longrightarrow> k \<noteq> billingRecoveryDeadLetterKey cid'"
  "guard_key cid k \<Longrightarrow> k \<noteq> billingFailedSettlementRecoveryCooldownKey cid'"
  by (auto simp: guard_key_def finalizeInflightKey_def settleLockKey_def billingSettlementRetryDedupKey_def
      billingRecoveryDeadLetterKey_def billingFailedSettlementRecoveryCooldownKey_def)

lemma upd_parts [simp]:
  "core (upd_core f b) = f (core b)" "durable (upd_core f b) = durable b"
  "core (upd_durable g b) = core b" "durable (upd_durable g b) = g (durable b)"
  by (simp_all add: upd_core_def upd_durable_def)

lemma keys_upd [simp]:
  "keys (upd_keys f st) = f (keys st)" "keys (upd_claims g st) = keys st"
  by (simp_all add: upd_keys_def upd_claims_def)

lemma lacks_release: "lacks k t ks \<Longrightarrow> lacks k t (release_if_match key v ks)" "lacks key v (release_if_match key v ks)"
  by (auto simp: lacks_def release_if_match_def)

lemma lacks_delete: "lacks k t (kv (core st)) \<Longrightarrow> lacks k t (kv (core (deleteBillingSessionRedisKeys cid u c st)))"
  by (simp add: deleteBillingSessionRedisKeys_def Let_def clearCallSessionSeed_def lacks_release)

lemma lacks_artifacts:
  assumes "lacks k t (keys st)"
  shows "lacks k t (keys (clearSettlementRetryArtifacts cid st))" "lacks k t (keys (drainSettlementArtifacts cid st))"
  using assms
  by (auto simp: lacks_def clearSettlementRetryArtifacts_def drainSettlementArtifacts_def)

lemma dead_letter_session_kv: "kv (dead_letter_session fe cid reason source c) = kv c"
  by (simp add: dead_letter_session_def put_session_def split: option.split stored_session.split prod.split)

lemma lacks_cleanup: "lacks k t (kv (core st)) \<Longrightarrow> lacks k t (kv (core (dead_letter_cleanup fe cid parties st)))"
  using lacks_delete [of k t st cid]
  by (auto simp: dead_letter_cleanup_def Let_def upd_core_def clearCreatorActiveCallSlotIfStale_def lacks_def
      split: prod.split option.split)

lemma lacks_dead_letter:
  assumes "lacks k t (keys st)" and "guard_key cid' k"
  shows "lacks k t (keys (moveCallToRecoveryDeadLetter fe cid reason source st))"
proof -
  have c: "lacks k t (keys (drainSettlementArtifacts cid (appendSettlementAttempt cid e
      (upd_base (\<lambda>b. dead_letter_call fe cid reason source (upd_core (dead_letter_session fe cid reason source) b))
        (upd_keys (\<lambda>k. k(billingRecoveryDeadLetterKey cid \<mapsto> reason)) (upd_base (raise_durable_totals fe cid) st))))))" for e
    using assms
    by (intro lacks_artifacts)
      (simp add: dead_letter_call_def update_call_settlement_def raise_durable_totals_def upd_durable_def upd_core_def
        dead_letter_session_kv upd_keys_def lacks_def Let_def)
  show ?thesis
    using lacks_cleanup [OF c] by (simp add: moveCallToRecoveryDeadLetter_def Let_def)
qed

lemma lacks_enqueue:
  assumes "lacks k t (keys st)" and "guard_key cid' k"
  shows "lacks k t (keys (enqueueSettlementRetry fe ps st))" "lacks k t (keys (enqueueImmediateSettlementRetry fe ps st))"
  using assms lacks_dead_letter [OF assms]
  by (auto simp: enqueueSettlementRetry_def enqueueImmediateSettlementRetry_def enqueue_retry_def Let_def lacks_def)

lemma lacks_teardown: "lacks k t (keys st) \<Longrightarrow> lacks k t (keys (ensureTerminalBillingTeardown fe cid st))"
  using lacks_delete [of k t "base st"]
  by (auto simp: ensureTerminalBillingTeardown_def Let_def upd_core_def split: option.split stored_session.split prod.split)

lemma lacks_inflight:
  "lacks k t (keys st) \<Longrightarrow> lacks k t (keys (release_inflight fe cid st))"
  "lacks (finalizeInflightKey cid) (fe_inflightToken fe) (keys (release_inflight fe cid st))"
  by (simp_all add: release_inflight_def lacks_release)

lemma lacks_recovery:
  assumes "lacks k t (keys st)" and "guard_key cid' k"
  shows "lacks k t (keys (snd (attemptFailedSettlementRecovery fe force cid source st)))"
proof -
  have "lacks k t (keys (drainSettlementArtifacts cid (upd_base (upd_durable d) (upd_keys (\<lambda>k. k(billingFailedSettlementRecoveryCooldownKey cid \<mapsto> source,
                                       billingRecoveryDeadLetterKey cid := None)) st))))" for d
    using assms by (intro lacks_artifacts) (simp add: lacks_def)
  then show ?thesis
    using assms lacks_enqueue(2) [OF _ assms(2)]
    by (auto simp: attemptFailedSettlementRecovery_def Let_def lacks_def split: prod.split bool.split)
qed

section \<open>No run leaves its tokens behind\<close>

text \<open>The tokens of a run are fresh: no other process writes them.\<close>

definition fresh_tokens :: "string \<Rightarrow> fin_env \<Rightarrow> bool" where
  "fresh_tokens cid fe \<longleftrightarrow>
     (\<forall>f \<in> set (fe_polls fe). \<forall>st.
        (lacks (finalizeInflightKey cid) (fe_inflightToken fe) (kv (core st)) \<longrightarrow>
           lacks (finalizeInflightKey cid) (fe_inflightToken fe) (kv (core (f st)))) \<and>
        (lacks (settleLockKey cid) (fe_ownerToken fe) (kv (core st)) \<longrightarrow>
           lacks (settleLockKey cid) (fe_ownerToken fe) (kv (core (f st)))))"

text \<open>\<open>kept\<close>: one of the two pairs of key and token.\<close>

definition own_pair :: "string \<Rightarrow> fin_env \<Rightarrow> string \<Rightarrow> string \<Rightarrow> bool" where
  "own_pair cid fe k t \<longleftrightarrow>
     k = finalizeInflightKey cid \<and> t = fe_inflightToken fe \<or> k = settleLockKey cid \<and> t = fe_ownerToken fe"

lemma own_pair_guard: "own_pair cid fe k t \<Longrightarrow> guard_key cid k"
  by (auto simp: own_pair_def guard_key_def)

lemma lacks_poll:
  assumes "fresh_tokens cid fe" and "own_pair cid fe k t" and "lacks k t (keys st)"
  shows "lacks k t (keys (snd (pollUntilSettled fe cid' st)))"
proof -
  have "lacks k t (kv (core (snd (poll_settled env cid' fs b))))"
    if "lacks k t (kv (core b))" "set fs \<subseteq> set (fe_polls fe)" for env fs b
    using that
  proof (induction fs arbitrary: b)
    case (Cons f fs)
    then have "lacks k t (kv (core (f b)))" using assms(1,2) by (auto simp: fresh_tokens_def own_pair_def)
    then show ?case using Cons by simp
  qed simp
  from this [of "base st" "take n (fe_polls fe)" for n] assms(3) show ?thesis
    by (simp add: pollUntilSettled_def case_prod_beta set_take_subset)
qed

lemma lacks_release_own:
  assumes "own_pair cid fe k t" and "k = settleLockKey cid \<Longrightarrow> lacks k t (keys s)"
  shows "lacks k t (keys (release_inflight fe cid s))"
  using assms lacks_inflight by (auto simp: own_pair_def)

lemma lacks_wait:
  assumes "fresh_tokens cid fe" and "own_pair cid fe k t" and "fp_callId ps = cid"
    and "k = settleLockKey cid \<Longrightarrow> lacks k t (keys st)"
  shows "lacks k t (keys (snd (wait_for_other fe ps st)))"
proof -
  obtain b st1 where p: "pollUntilSettled fe cid st = (b, st1)" by fastforce
  have 1: "lacks k t (keys st1)" if "k = settleLockKey cid"
    using lacks_poll [OF assms(1,2) assms(4) [OF that], of cid] p by simp
  note i = lacks_release_own [OF assms(2)]
  have e: "lacks k t (keys (enqueueSettlementRetry fe ps st1))" "lacks k t (keys (ensureTerminalBillingTeardown fe cid st1))"
    if "k = settleLockKey cid"
    using lacks_enqueue(1) [OF 1 [OF that] own_pair_guard [OF assms(2)]] lacks_teardown [OF 1 [OF that]] by simp_all
  show ?thesis
    using i [OF e(1)] i [OF e(2)] p by (cases b) (simp_all add: wait_for_other_def Let_def assms(3))
qed

lemma lacks_claim_lost:
  assumes "fresh_tokens cid fe" and "own_pair cid fe k t" and "fp_callId ps = cid" and "lacks k t (keys st)"
  shows "lacks k t (keys (snd (handleDurableClaimLost fe ps detail st)))"
proof -
  note g = own_pair_guard [OF assms(2)]
  obtain b st1 where p: "pollUntilSettled fe cid st = (b, st1)" by fastforce
  have 1: "lacks k t (keys st1)" using lacks_poll [OF assms(1,2,4), of cid] p by simp
  note e = lacks_enqueue(1) [OF _ g] and d = lacks_dead_letter [OF _ g] and i = lacks_inflight(1)
  have r: "lacks k t (keys s)" if "attemptFailedSettlementRecovery fe False cid (fp_source ps) (release_inflight fe cid st) = (q, s)" for q s
    using lacks_recovery [OF i [OF assms(4)] g] that by (metis snd_conv)
  show ?thesis
    by (cases detail; cases b)
      (use assms(4) 1 p in \<open>auto simp: handleDurableClaimLost_def Let_def assms(3) intro!: e d i lacks_teardown dest!: r
         split: option.split prod.split recovery_result.split\<close>)
qed

lemma lacks_finally: "own_pair cid fe k t \<Longrightarrow> lacks k t (keys (finalize_finally fe cid st))"
  by (auto simp: finalize_finally_def own_pair_def lacks_inflight lacks_release)

lemma takeover_keys:
  "keys (snd (if d then tryStaleDurableSettlingTakeover fe cid st else tryStaleSettlingTakeover fe cid token st)) = keys st"
  by (auto simp: tryStaleDurableSettlingTakeover_def tryStaleSettlingTakeover_def update_call_settlement_def split: option.split)

lemma lacks_admit:
  assumes "fresh_tokens cid fe" and "own_pair cid fe k t" and "fp_callId ps = cid"
    and "k = settleLockKey cid \<Longrightarrow> lacks k t (keys st)" and "finalize_admit fe ps st = Inl (r, st')"
  shows "lacks k t (keys st')"
proof -
  note e = lacks_enqueue(2) [OF _ own_pair_guard [OF assms(2)]] and i = lacks_release_own [OF assms(2)]
  define st1 where "st1 = snd (if isDurableCallSessionEnabled (fe_env fe) then tryStaleDurableSettlingTakeover fe cid st
    else tryStaleSettlingTakeover fe cid (fe_ownerToken fe) st)"
  have 1: "keys st1 = keys st" by (simp only: st1_def takeover_keys)
  have w: "lacks k t (keys s)" if "wait_for_other fe ps x = (q, s)" "keys x = keys st" for q s x
    using lacks_wait [OF assms(1-3), of x] assms(4) that by (metis snd_conv)
  show ?thesis
    using assms(5) assms(4) 1
    by (auto simp: finalize_admit_def Let_def assms(3) st1_def [symmetric] intro!: e i lacks_teardown
        intro: w split: if_splits)
qed

text \<open>
  No run of the finalizer leaves a key it took: whatever path it takes, the in-flight key and the
  settlement lock of the call do not hold its tokens afterwards.
\<close>

theorem finalizer_releases_its_keys:
  assumes "finalizeCallSession fe ps st = (out, st')" and "isUnifiedBillingFinalizerEnabled (fe_env fe)"
    and "fresh_tokens (fp_callId ps) fe"
    and "keys st (finalizeInflightKey (fp_callId ps)) \<noteq> Some (fe_inflightToken fe)"
    and "keys st (settleLockKey (fp_callId ps)) \<noteq> Some (fe_ownerToken fe)"
  shows "keys st' (finalizeInflightKey (fp_callId ps)) \<noteq> Some (fe_inflightToken fe) \<and>
    keys st' (settleLockKey (fp_callId ps)) \<noteq> Some (fe_ownerToken fe)"
proof -
  let ?cid = "fp_callId ps"
  have "lacks k t (keys (snd (finalize_guarded fe ps st)))" if o: "own_pair ?cid fe k t" for k t
  proof -
    note g = own_pair_guard [OF o]
    have 0: "lacks k t (keys st)" using assms(4,5) o by (auto simp: own_pair_def lacks_def)
    let ?s = "upd_keys (\<lambda>k. k(finalizeInflightKey ?cid \<mapsto> fe_inflightToken fe)) st"
    have s: "k = settleLockKey ?cid \<Longrightarrow> lacks k t (keys ?s)" using 0 by (simp add: lacks_def)
    have i: "lacks k t (keys (snd (inflight_refused fe ps st)))"
      using 0 lacks_enqueue(2) [OF 0 g] by (simp add: inflight_refused_def split: option.split)
    have a: "lacks k t (keys x)" if "finalize_admit fe ps ?s = Inl (r, x)" for r x
      using lacks_admit [OF assms(3) o refl s that] .
    have b: "lacks k t (keys (snd (finalize_admitted fe ps src x)))" for src x
      using lacks_finally [OF o] lacks_claim_lost [OF assms(3) o refl]
      by (simp add: finalize_admitted_def split: section_end.split)
    show ?thesis using 0 i a b by (auto simp: finalize_guarded_def Let_def split: sum.split)
  qed
  from this [of "finalizeInflightKey ?cid" "fe_inflightToken fe"] this [of "settleLockKey ?cid" "fe_ownerToken fe"]
  show ?thesis
    using assms(1,2,4,5) by (auto simp: finalizeCallSession_def lacks_def own_pair_def split: if_splits prod.splits)
qed

section \<open>A settled call\<close>

lemma persisted_returns:
  assumes "finalize_persisted fe ps v p st = Returned r st'"
  obtains e s c where "st' = emit_fin e (appendSettlementAttempt (fp_callId ps) c (runPostPersistRedisCleanup fe ps p s))"
    "fr_status r = FSettled" "fr_coinsDeducted r = Some (sp_totalDeducted p)"
  using assms by (auto simp: finalize_persisted_def Let_def split: if_splits)

lemma result_of_status [simp]: "fr_status (result_of x cid) = x" by (simp add: result_of_def)

lemma section_settles:
  assumes "finalize_section fe ps src st = Returned r st'" and "fr_status r = FSettled"
  shows "\<exists>v p s. finalize_persisted fe ps v p s = Returned r st'"
proof -
  have f: "\<exists>v p s. finalize_persisted fe ps v p s = Returned r st'" if "finalize_flushed fe ps v s = Returned r st'" for v s
    using that assms(2)
    by (auto simp: finalize_flushed_def settle_result_def Let_def split: if_splits prod.splits settle_outcome.splits)
  have c: "\<exists>v p s. finalize_persisted fe ps v p s = Returned r st'" if "finalize_claimed fe ps src v s = Returned r st'" for v s
    using that assms(2) by (auto simp: finalize_claimed_def Let_def intro: f split: if_splits prod.splits bool.splits)
  show ?thesis
    using assms by (auto simp: finalize_section_def Let_def intro: c split: if_splits prod.splits claim_result.splits)
qed

lemma early_not_settled:
  assumes "finalize_admit fe ps st = Inl (r, st')" shows "fr_status r \<noteq> FSettled"
  using assms
  by (auto simp: finalize_admit_def wait_for_other_def Let_def split: if_splits prod.splits bool.splits)

lemma claim_lost_not_settled: "fr_status (fst (handleDurableClaimLost fe ps d st)) \<noteq> FSettled"
  by (auto simp: handleDurableClaimLost_def Let_def split: claim_lost_detail.splits prod.splits bool.splits option.splits
      recovery_result.splits if_splits)

lemma guarded_settles:
  assumes "finalize_guarded fe ps st = (r, st')" and "fr_status r = FSettled"
  obtains v p s st1 where "finalize_persisted fe ps v p s = Returned r st1" "st' = finalize_finally fe (fp_callId ps) st1"
proof -
  obtain src s where a: "finalize_admitted fe ps src s = (r, st')"
    using assms early_not_settled
    by (auto simp: finalize_guarded_def inflight_refused_def Let_def split: if_splits sum.splits)
  show thesis
  proof (cases "finalize_section fe ps src s")
    case (Returned r' s1)
    then have r: "r' = r" "st' = finalize_finally fe (fp_callId ps) s1" using a by (auto simp: finalize_admitted_def)
    show ?thesis using section_settles [OF Returned] assms(2) r that by blast
  next
    case (ClaimIsLost d s1)
    then show ?thesis using a assms(2) claim_lost_not_settled [of fe ps d] by (auto simp: finalize_admitted_def) (metis fst_conv)
  next
    case (Raised v s1)
    then show ?thesis using a assms(2) by (auto simp: finalize_admitted_def)
  qed
qed

text \<open>What the clean-up of a settled call leaves.\<close>

definition torn_down :: "string \<Rightarrow> fin_state \<Rightarrow> bool" where
  "torn_down cid st \<longleftrightarrow>
     tombstoned cid (base st) \<and> sessions (core (base st)) cid = None \<and> introKey (core (base st)) cid = None \<and>
     walletKey (core (base st)) cid = None \<and> earningsKey (core (base st)) cid = None \<and>
     claims st (settlementClaimKey cid) = None"

lemma finally_fields [simp]:
  "kv (core (base (finalize_finally fe cid st))) (settledCallKey x) = keys st (settledCallKey x)"
  "sessions (core (base (finalize_finally fe cid st))) = sessions (core (base st))"
  "introKey (core (base (finalize_finally fe cid st))) = introKey (core (base st))"
  "walletKey (core (base (finalize_finally fe cid st))) = walletKey (core (base st))"
  "earningsKey (core (base (finalize_finally fe cid st))) = earningsKey (core (base st))"
  "claims (finalize_finally fe cid st) (settlementClaimKey cid) = None"
  "terminalSnap (finalize_finally fe cid st) = terminalSnap st"
  by (simp_all add: finalize_finally_def release_inflight_def upd_keys_def upd_claims_def release_if_match_def
      settledCallKey_def settleLockKey_def finalizeInflightKey_def upd_base_def)

lemma cleanup_tears_down:
  "torn_down cid (finalize_finally fe cid (emit_fin e (appendSettlementAttempt cid c (runPostPersistRedisCleanup fe (ps\<lparr>fp_callId := cid\<rparr>) p s))))"
  by (simp add: torn_down_def tombstoned_def runPostPersistRedisCleanup_def Let_def set_tombstone_def upd_claims_def
      deleteBillingSessionRedisKeys_def clearCallSessionSeed_def)

lemma cleanup_snapshot:
  "terminalSnap (emit_fin e (appendSettlementAttempt cid c (runPostPersistRedisCleanup fe ps p s))) (fp_callId ps) =
     Some \<lparr> ts_billingSequence = max 0 (sp_billingSequence p), ts_durationSeconds = max 0 (sp_durationSeconds p),
       ts_finalCoins = max 0 (num0 (map_option u_coins (find_user (sp_userMongoId p) (base s)))),
       ts_totalDeducted = max 0 (sp_totalDeducted p), ts_totalEarned = max 0 (sp_totalEarnedCreator p),
       ts_settledAt = fe_now fe, ts_reason = fp_reason ps, ts_source = fp_source ps \<rparr>"
  by (simp add: runPostPersistRedisCleanup_def Let_def upd_claims_def upd_base_def emit_fin_def
      appendSettlementAttempt_def split: option.split)

lemma torn_down_run:
  assumes "torn_down cid st" and "\<not> isInvalidBillingCallId cid" and "isUnifiedBillingFinalizerEnabled (fe_env fe)"
    and "fp_callId ps = cid"
  obtains r st' where "finalizeCallSession fe ps st = (Fin r, st')" "fr_status r = FDuplicate \<or> fr_status r = FDeadLettered"
    "same_money (base st) (base st')"
proof -
  let ?s = "upd_keys (\<lambda>k. k(finalizeInflightKey cid \<mapsto> fe_inflightToken fe)) st"
  have k: "settledCallKey cid \<noteq> finalizeInflightKey cid" by (simp add: settledCallKey_def finalizeInflightKey_def)
  have "isCallBillingAlreadySettled (fe_env fe) cid (base ?s)"
    using assms(1) k by (simp add: isCallBillingAlreadySettled_def torn_down_def tombstoned_def)
  moreover have "\<not> stale_worker fe cid ?s"
    using assms(1) by (simp add: stale_worker_def torn_down_def upd_keys_def)
  ultimately obtain s where a: "finalize_admit fe ps ?s = Inl (result_of FDuplicate cid, s)" "same_money (base st) (base s)"
    by (simp add: finalize_admit_def assms(4))
  have "\<exists>r st'. finalize_guarded fe ps st = (r, st') \<and> (fr_status r = FDuplicate \<or> fr_status r = FDeadLettered) \<and>
      same_money (base st) (base st')"
    using a by (auto simp: finalize_guarded_def inflight_refused_def assms(4) split: option.split)
  then show thesis using assms(2-4) that by (auto simp: finalizeCallSession_def)
qed


section \<open>The dead letter\<close>

lemma fin_fields [simp]:
  "retryQueue (upd_base f st) = retryQueue st" "retryPayload (upd_base f st) = retryPayload st"
  "retryQueue (upd_keys g st) = retryQueue st" "retryPayload (upd_keys g st) = retryPayload st"
  "retryQueue (upd_claims g st) = retryQueue st" "retryPayload (upd_claims g st) = retryPayload st"
  "retryQueue (emit_fin e st) = retryQueue st" "retryPayload (emit_fin e st) = retryPayload st"
  "retryQueue (appendSettlementAttempt cid a st) = retryQueue st"
  "retryPayload (appendSettlementAttempt cid a st) = retryPayload st"
  by (simp_all add: upd_keys_def upd_claims_def upd_base_def emit_fin_def appendSettlementAttempt_def split: option.split)

lemma durable_failed_redis [simp]:
  "redis (markDurableCallSessionFailedSettlement env now cid d) = redis d"
  by (simp add: markDurableCallSessionFailedSettlement_def find_and_update_def Let_def split: option.split)

lemma zrem_gone: "m \<notin> fst ` set (zrem m q)" by (auto simp: zrem_def)

definition slot_key :: "string \<Rightarrow> bool" where
  "slot_key k \<longleftrightarrow> (\<exists>u. k = activeCallByUserKey u) \<or> (\<exists>u v. k = callpairKey u v)"

lemma not_slot_keys [simp]:
  "\<not> slot_key (finalizeInflightKey cid)" "\<not> slot_key (settleLockKey cid)" "\<not> slot_key (billingRecoveryDeadLetterKey cid)"
  by (auto simp: slot_key_def finalizeInflightKey_def settleLockKey_def billingRecoveryDeadLetterKey_def
      activeCallByUserKey_def callpairKey_def Let_def)

lemma delete_keeps_key:
  "\<not> slot_key k \<Longrightarrow> kv (core (deleteBillingSessionRedisKeys cid u c st)) k = kv (core st) k"
  by (auto simp: deleteBillingSessionRedisKeys_def Let_def clearCallSessionSeed_def release_if_match_def slot_key_def)

lemma cleanup_keeps_key:
  assumes "\<not> slot_key k"
  shows "kv (core (dead_letter_cleanup fe cid parties st)) k = kv (core st) k"
  using assms delete_keeps_key [OF assms]
  by (auto simp: dead_letter_cleanup_def Let_def clearCreatorActiveCallSlotIfStale_def slot_key_def
      split: prod.split option.split)

lemma cleanup_durable [simp]: "durable (dead_letter_cleanup fe cid parties st) = durable st"
  by (simp add: dead_letter_cleanup_def Let_def deleteBillingSessionRedisKeys_def split: prod.split)

text \<open>The state after the drain, in which the participants are read and the keys removed.\<close>

definition drained :: "fin_env \<Rightarrow> string \<Rightarrow> string \<Rightarrow> string \<Rightarrow> fin_state \<Rightarrow> fin_state" where
  "drained fe cid reason source st =
     drainSettlementArtifacts cid
       (appendSettlementAttempt cid
          ((attempt_entry fe source ''reconciliation'' ''failed'')\<lparr>sa_error := Some (''dead_letter:'' @ reason)\<rparr>)
          (upd_base (\<lambda>b. dead_letter_call fe cid reason source (upd_core (dead_letter_session fe cid reason source) b))
             (upd_keys (\<lambda>k. k(billingRecoveryDeadLetterKey cid \<mapsto> reason)) (upd_base (raise_durable_totals fe cid) st))))"

lemma dead_letter_drained:
  fixes st fe cid reason source
  defines "d \<equiv> drained fe cid reason source st"
  shows "retryQueue (moveCallToRecoveryDeadLetter fe cid reason source st) = retryQueue d"
    "retryPayload (moveCallToRecoveryDeadLetter fe cid reason source st) = retryPayload d"
    "core (base (moveCallToRecoveryDeadLetter fe cid reason source st)) =
       core (dead_letter_cleanup fe cid (dead_letter_parties fe cid d) (base d))"
    "claims (moveCallToRecoveryDeadLetter fe cid reason source st) = claims d"
  unfolding moveCallToRecoveryDeadLetter_def Let_def drained_def [symmetric] d_def by simp_all

lemma drained_fields:
  "retryQueue (drained fe cid reason source st) = zrem cid (retryQueue st)"
  "retryPayload (drained fe cid reason source st) = (retryPayload st)(cid := None)"
  "claims (drained fe cid reason source st) (settlementClaimKey cid) = None"
  by (simp_all add: drained_def drainSettlementArtifacts_def clearSettlementRetryArtifacts_def)
     (simp add: upd_keys_def upd_claims_def)

lemma drained_keys:
  "keys (drained fe cid reason source st) (finalizeInflightKey cid) = None"
  "keys (drained fe cid reason source st) (settleLockKey cid) = None"
  "keys (drained fe cid reason source st) (billingRecoveryDeadLetterKey cid) = Some reason"
  by (simp_all add: drained_def drainSettlementArtifacts_def finalizeInflightKey_def settleLockKey_def
      billingRecoveryDeadLetterKey_def billingWatchdogCooldownKey_def billingWatchdogAttemptsKey_def)
     (simp_all add: clearSettlementRetryArtifacts_def upd_keys_def dead_letter_call_def update_call_settlement_def dead_letter_session_kv
      billingSettlementRetryDedupKey_def)

lemma dead_letter_parts_core [simp]:
  "core (raise_durable_totals fe cid b) = core b" "core (dead_letter_call fe cid reason source b) = core b"
  by (simp_all add: raise_durable_totals_def dead_letter_call_def update_call_settlement_def Let_def)

lemma drained_session:
  assumes "sessions (core (base st)) cid = Some (Typed s)"
  shows "dead_letter_parties fe cid (drained fe cid reason source st) = (userFirebaseUid s, creatorFirebaseUid s)"
proof -
  obtain s' where "sessions (core (base (drained fe cid reason source st))) cid = Some (Typed s')"
    "userFirebaseUid s' = userFirebaseUid s" "creatorFirebaseUid s' = creatorFirebaseUid s"
    using assms
    by (auto simp: drained_def drainSettlementArtifacts_def clearSettlementRetryArtifacts_def upd_keys_def upd_claims_def
        dead_letter_session_def put_session_def set_stored_lifecycle_def case_prod_beta)
  then show ?thesis
    by (simp add: dead_letter_parties_def readFinalizePartyContext_def stored_parties_def Let_def nvl_def)
qed

text \<open>
  The dead letter stops everything for a call: no retry is queued, no payload, claim or lock is
  left, and from then on every run answers at once and changes nothing.
\<close>

theorem dead_letter_stops_the_call:
  assumes "reason \<noteq> []" and "\<not> isInvalidBillingCallId (fp_callId ps)" and "isUnifiedBillingFinalizerEnabled (fe_env fe')"
  shows "let cid = fp_callId ps; st' = moveCallToRecoveryDeadLetter fe cid reason source st
    in cid \<notin> fst ` set (retryQueue st') \<and> retryPayload st' cid = None \<and> claims st' (settlementClaimKey cid) = None \<and>
       keys st' (finalizeInflightKey cid) = None \<and> keys st' (settleLockKey cid) = None \<and>
       finalizeCallSession fe' ps st' = (Fin (result_of FDeadLettered cid), st')"
  using assms
  by (simp add: Let_def dead_letter_drained drained_fields drained_keys zrem_gone cleanup_keeps_key finalizeCallSession_def
      finalize_guarded_def truthy_key_def)

text \<open>
  The dead letter of a call drops the active slot of its creator even when the slot holds another
  call (the slot is cleared by force): the creator can then be booked a second time.
\<close>

theorem dead_letter_drops_foreign_slot:
  assumes "sessions (core (base st)) cid = Some (Typed s)" and "creatorFirebaseUid s \<noteq> []"
  shows "keys (moveCallToRecoveryDeadLetter fe cid reason source st) (activeCallByUserKey (creatorFirebaseUid s)) = None"
  using assms
  by (simp add: dead_letter_drained drained_session dead_letter_cleanup_def Let_def clearCreatorActiveCallSlotIfStale_def
      split: option.split)

section \<open>Retries are bounded\<close>

definition payloads_bounded :: "int \<Rightarrow> (string \<Rightarrow> finalize_params option) \<Rightarrow> bool" where
  "payloads_bounded m q \<longleftrightarrow> (\<forall>cid ps. q cid = Some ps \<longrightarrow> 1 \<le> num0 (fp_attempt ps) \<and> num0 (fp_attempt ps) \<le> m)"

abbreviation retries_bounded :: "int \<Rightarrow> fin_state \<Rightarrow> bool" where
  "retries_bounded m st \<equiv> payloads_bounded m (retryPayload st)"

lemma payload_same [simp]:
  "retryPayload (release_inflight fe cid st) = retryPayload st"
  "retryPayload (ensureTerminalBillingTeardown fe cid st) = retryPayload st"
  "retryPayload (snd (pollUntilSettled fe cid st)) = retryPayload st"
  "retryPayload (snd (checkpointLifecycleState fe cid target status st)) = retryPayload st"
  "retryPayload (finalize_finally fe cid st) = retryPayload st"
  "retryPayload (snd (tryStaleDurableSettlingTakeover fe cid st)) = retryPayload st"
  "retryPayload (snd (tryStaleSettlingTakeover fe cid token st)) = retryPayload st"
  "retryPayload (runPostPersistRedisCleanup fe ps p st) = retryPayload st"
  by (simp_all add: release_inflight_def ensureTerminalBillingTeardown_def pollUntilSettled_def checkpointLifecycleState_def
      finalize_finally_def tryStaleDurableSettlingTakeover_def tryStaleSettlingTakeover_def runPostPersistRedisCleanup_def
      Let_def split: option.split stored_session.split prod.split)

lemma payload_dropped:
  "retryPayload (drainSettlementArtifacts cid st) = (retryPayload st)(cid := None)"
  "retryPayload (moveCallToRecoveryDeadLetter fe cid reason source st) = (retryPayload st)(cid := None)"
  by (simp_all add: drainSettlementArtifacts_def clearSettlementRetryArtifacts_def dead_letter_drained drained_fields)

lemma bounded_drop: "payloads_bounded m q \<Longrightarrow> payloads_bounded m (q(cid := None))"
  by (auto simp: payloads_bounded_def)

lemma bounded_dead_letter: "retries_bounded m st \<Longrightarrow> retries_bounded m (moveCallToRecoveryDeadLetter fe cid reason source st)"
  by (simp add: payload_dropped bounded_drop)

lemma bounded_enqueue:
  assumes "retries_bounded m st" and "0 \<le> num0 (fp_attempt ps)" and "BILLING_SETTLEMENT_RETRY_MAX_ATTEMPTS (fe_env fe) = m"
  shows "retries_bounded m (enqueueSettlementRetry fe ps st)" "retries_bounded m (enqueueImmediateSettlementRetry fe ps st)"
  using assms bounded_dead_letter [OF assms(1)]
  by (auto simp: enqueueSettlementRetry_def enqueueImmediateSettlementRetry_def enqueue_retry_def Let_def)
     (auto simp: payloads_bounded_def)

lemma bounded_recovery:
  assumes "retries_bounded m st" and "BILLING_SETTLEMENT_RETRY_MAX_ATTEMPTS (fe_env fe) = m"
  shows "retries_bounded m (snd (attemptFailedSettlementRecovery fe force cid source st))"
proof -
  have "retries_bounded m (drainSettlementArtifacts cid (upd_base f (upd_keys g st)))" for f g
    using assms(1) by (simp add: payload_dropped bounded_drop)
  then have "retries_bounded m (enqueueImmediateSettlementRetry fe
      \<lparr> fp_callId = cid, fp_reason = ''reconciliation'', fp_source = source, fp_attempt = Some 0, fp_enqueuedAt = Some (fe_now fe) \<rparr>
      (drainSettlementArtifacts cid (upd_base f (upd_keys g st))))" for f g
    by (rule bounded_enqueue(2)) (simp_all add: assms(2))
  then show ?thesis
    using assms(1) by (auto simp: attemptFailedSettlementRecovery_def Let_def split: prod.split bool.split)
qed

lemma bounded_claim_lost:
  assumes "retries_bounded m st" and "0 \<le> num0 (fp_attempt ps)" and "BILLING_SETTLEMENT_RETRY_MAX_ATTEMPTS (fe_env fe) = m"
  shows "retries_bounded m (snd (handleDurableClaimLost fe ps detail st))"
proof -
  note e = bounded_enqueue(1) [OF _ assms(2,3)]
  obtain b st1 where p: "pollUntilSettled fe (fp_callId ps) st = (b, st1)" by fastforce
  have 1: "retries_bounded m st1"
    using payload_same(3) [of fe "fp_callId ps" st] p assms(1) by (simp add: payloads_bounded_def)
  have r: "retries_bounded m s"
    if "attemptFailedSettlementRecovery fe False (fp_callId ps) (fp_source ps) (release_inflight fe (fp_callId ps) st) = (q, s)" for q s
    using bounded_recovery [of m "release_inflight fe (fp_callId ps) st" fe False "fp_callId ps" "fp_source ps"] that assms(1,3) by simp
  show ?thesis
    by (cases detail; cases b)
      (use assms(1) 1 p in \<open>auto simp: handleDurableClaimLost_def Let_def intro: e bounded_dead_letter dest!: r
         split: option.split prod.split recovery_result.split\<close>)
qed

lemma bounded_wait:
  assumes "retries_bounded m st" and "0 \<le> num0 (fp_attempt ps)" and "BILLING_SETTLEMENT_RETRY_MAX_ATTEMPTS (fe_env fe) = m"
  shows "retries_bounded m (snd (wait_for_other fe ps st))"
proof -
  obtain b st1 where p: "pollUntilSettled fe (fp_callId ps) st = (b, st1)" by fastforce
  have "retries_bounded m st1"
    using payload_same(3) [of fe "fp_callId ps" st] p assms(1) by (simp add: payloads_bounded_def)
  then show ?thesis
    using bounded_enqueue(1) [OF _ assms(2,3)] p by (cases b) (simp_all add: wait_for_other_def Let_def)
qed

lemma bounded_section:
  assumes "retries_bounded m st" and "0 \<le> num0 (fp_attempt ps)" and "BILLING_SETTLEMENT_RETRY_MAX_ATTEMPTS (fe_env fe) = m"
  shows "retries_bounded m (section_state (finalize_section fe ps src st))"
proof -
  note e = bounded_enqueue(1) [OF _ assms(2,3)]
  have p: "retries_bounded m (section_state (finalize_persisted fe ps v p s))" if "retries_bounded m s" for v p s
    using that by (simp add: finalize_persisted_def Let_def)
  have r: "retries_bounded m (section_state (settle_result fe ps v out s))" if "retries_bounded m s" for v out s
    using that by (cases out) (simp_all add: settle_result_def Let_def e p)
  have f: "retries_bounded m (section_state (finalize_flushed fe ps v s))" if "retries_bounded m s" for v s
    using that by (auto simp: finalize_flushed_def Let_def e split: prod.split intro!: r)
  have c: "retries_bounded m (section_state (finalize_claimed fe ps src v s))" if "retries_bounded m s" for v s
  proof -
    obtain ok s1 where k: "checkpointLifecycleState fe (fp_callId ps) SETTLING ''settling'' s = (ok, s1)" by fastforce
    have "retries_bounded m s1"
      using payload_same(4) [of fe "fp_callId ps" SETTLING "''settling''" s] k that by (simp add: payloads_bounded_def)
    then show ?thesis
      using k by (cases ok) (auto simp: finalize_claimed_def Let_def intro: e f bounded_dead_letter)
  qed
  show ?thesis
    using assms(1)
    by (auto simp: finalize_section_def Let_def split: prod.split claim_result.split intro!: c)
qed

lemma bounded_finalize:
  assumes "retries_bounded m st" and "0 \<le> num0 (fp_attempt ps)" and "BILLING_SETTLEMENT_RETRY_MAX_ATTEMPTS (fe_env fe) = m"
  shows "retries_bounded m (snd (finalizeCallSession fe ps st))"
proof -
  note e = bounded_enqueue [OF _ assms(2,3)]
  have a: "retries_bounded m (snd (finalize_admitted fe ps src s))" if "retries_bounded m s" for src s
  proof (cases "finalize_section fe ps src s")
    case (Returned r s1)
    then show ?thesis using bounded_section [OF that assms(2,3), of src] by (simp add: finalize_admitted_def)
  next
    case (ClaimIsLost d s1)
    then show ?thesis
      using bounded_section [OF that assms(2,3), of src] bounded_claim_lost [OF _ assms(2,3)]
      by (simp add: finalize_admitted_def)
  next
    case (Raised v s1)
    then show ?thesis
      using bounded_section [OF that assms(2,3), of src] by (simp add: finalize_admitted_def finalize_catch_def e)
  qed
  have w: "retries_bounded m s" if "wait_for_other fe ps x = (q, s)" "retries_bounded m x" for q s x
    using bounded_wait [OF that(2) assms(2,3)] that(1) by simp
  have i: "retries_bounded m s'" if "finalize_admit fe ps s = Inl (r, s')" "retries_bounded m s" for r s s'
    using that
    by (auto simp: finalize_admit_def Let_def intro!: e(2) split: if_splits elim!: w)
  have j: "retries_bounded m s'" if "finalize_admit fe ps s = Inr s'" "retries_bounded m s" for s s'
    using that by (auto simp: finalize_admit_def Let_def split: if_splits)
  let ?s = "upd_keys (\<lambda>k. k(finalizeInflightKey (fp_callId ps) \<mapsto> fe_inflightToken fe)) st"
  have k: "retries_bounded m (snd (case finalize_admit fe ps ?s of Inl early \<Rightarrow> early | Inr st1 \<Rightarrow> finalize_admitted fe ps src st1))"
    for src
    using assms(1) i [of ?s] j [of ?s] a by (cases "finalize_admit fe ps ?s") (auto simp: prod_eq_iff)
  have "retries_bounded m (snd (inflight_refused fe ps st))"
    using assms(1) e(2) [OF assms(1)] by (simp add: inflight_refused_def split: option.split)
  then have "retries_bounded m (snd (finalize_guarded fe ps st))"
    using assms(1) k by (simp add: finalize_guarded_def Let_def)
  then show ?thesis
    using assms(1) by (auto simp: finalizeCallSession_def finalize_direct_def split: prod.split)
qed

lemma bounded_consume:
  assumes "retries_bounded m st" and "BILLING_SETTLEMENT_RETRY_MAX_ATTEMPTS (fe_env fe) = m"
    and "\<forall>x ps. parse_item x = Some ps \<longrightarrow> 0 \<le> num0 (fp_attempt ps)"
  shows "retries_bounded m (consume_retry fe parse_item item st)"
proof -
  let ?s = "st\<lparr>retryQueue := zrem item (retryQueue st)\<rparr>"
  have 0: "retries_bounded m ?s" using assms(1) by (simp add: payloads_bounded_def)
  have f: "retries_bounded m s'" if "finalizeCallSession fe ps s = (out, s')" "retries_bounded m s" "0 \<le> num0 (fp_attempt ps)"
    for ps s s' out
    using bounded_finalize [OF that(2,3) assms(2)] that(1) by simp
  have d: "retries_bounded m (s\<lparr>retryPayload := (retryPayload s)(item := None)\<rparr>)" if "retries_bounded m s" for s
    using that by (auto simp: payloads_bounded_def)
  have n: "0 \<le> num0 (fp_attempt ps)" if "retryPayload ?s item = Some ps" for ps
    using 0 that by (force simp: payloads_bounded_def)
  show ?thesis
  proof (cases "retryPayload ?s item")
    case None
    show ?thesis
    proof (cases "parse_item item")
      case (Some ps)
      obtain out s' where r: "finalizeCallSession fe ps ?s = (out, s')" by fastforce
      have "retries_bounded m s'" using f [OF r 0] assms(3) Some by blast
      then show ?thesis
        using None Some r 0 assms(3) bounded_enqueue(1) [of m s' ps fe] assms(2)
        by (cases out) (simp_all add: consume_retry_def Let_def)
    qed (use None 0 in \<open>simp add: consume_retry_def Let_def\<close>)
  next
    case (Some ps)
    obtain out s' where r: "finalizeCallSession fe ps (upd_keys (\<lambda>k. k(billingSettlementRetryDedupKey item := None)) ?s) = (out, s')"
      by fastforce
    have "retries_bounded m s'" using f [OF r] n [OF Some] 0 by simp
    then show ?thesis
      using Some r n [OF Some] d bounded_enqueue(1) [OF _ _ assms(2)]
      by (cases out) (auto simp: consume_retry_def Let_def)
  qed
qed


section \<open>The session rebuilt from a checkpoint\<close>

text \<open>
  A session that the finalizer rebuilds from the checkpoint carries the charged totals but the
  version of the first format, so the next tick migrates it as one: nothing charged, no price. With
  the sequence kept, the guard against zero settlements then refuses to settle it.
\<close>

theorem rebuilt_session_forgets_the_charge:
  assumes "sessions (core st) cid = None" and "checkpoints (core st) cid = Some cp" and "0 < cp_billingSequence cp"
    and "cp_userMongoId cp \<noteq> []" "cp_creatorMongoId cp \<noteq> []" "nvl (cp_userFirebaseUid cp) [] \<noteq> []"
    "nvl (cp_creatorFirebaseUid cp) [] \<noteq> []"
    and "isBlockZeroSettlementEnabled env"
  shows "\<exists>s s' e. sessions (core (reconstruct_session fe cid st)) cid = Some (Typed s) \<and>
    cp_totalDeductedMicros cp \<le> totalDeductedMicros s \<and>
    migrateSession cfg now (Typed s) earningsRaw = Some (s', e) \<and>
    totalDeductedMicros s' = 0 \<and> pricePerSecondMicros s' = 0 \<and>
    (sessions (core st') cid = Some (Typed s') \<longrightarrow>
       shouldBlockZeroSettlement env (resolveAuthoritativeSettlementTotals env' cid st') \<noteq> None)"
proof -
  define s where "s = with_totals (resolveAuthoritativeSettlementTotals (fe_env fe) cid st) (session_from_checkpoint (fe_now fe) cid cp)"
  have p: "has_parties (Typed s)"
    using assms(4-7) by (simp add: s_def with_totals_def session_from_checkpoint_def has_parties_def Let_def)
  have r: "sessions (core (reconstruct_session fe cid st)) cid = Some (Typed s)"
    using assms(1,2) p by (simp add: reconstruct_session_def s_def [symmetric] Let_def put_session_def)
  have t: "cp_totalDeductedMicros cp \<le> totalDeductedMicros s" "0 < billingSequence s" "schemaVersion s = 1"
    using assms(3)
    by (auto simp: s_def with_totals_def session_from_checkpoint_def applyAuthoritativeTotalsToSession_def Let_def)
  obtain s' e where m: "migrateSession cfg now (Typed s) earningsRaw = Some (s', e)"
    using t(3) by (cases "migrate_v1 cfg now (v1_of_typed s) earningsRaw") (simp add: migrateSession_def)
  have v: "totalDeductedMicros s' = 0" "pricePerSecondMicros s' = 0" "0 < billingSequence s'"
    using m t(2,3) by (auto simp: migrateSession_def migrate_v1_def v1_of_typed_def Let_def rat0_def js_round_def)
  have "shouldBlockZeroSettlement env (resolveAuthoritativeSettlementTotals env' cid st') \<noteq> None"
    if "sessions (core st') cid = Some (Typed s')"
    using that v assms(8) by (simp add: resolveAuthoritativeSettlementTotals_def redis_totals_def active_totals_def some_activity_def
        shouldBlockZeroSettlement_def nvl_def)
  then show ?thesis using r t m v by blast
qed

end
