(* ===== verification/FinalizerFlow.thy ===== *)
theory FinalizerFlow
  imports FinalizerProofs
begin

text \<open>
  A run of the finalizer from end to end: when nothing blocks the admission and nothing fails, one run
  settles the call. The worked runs at the end instantiate the theorems on the finalizer.
\<close>

section \<open>An undisturbed run settles\<close>

text \<open>The state in which a run that is admitted at once hands the call to the settlement.\<close>

definition admitted_base :: "fin_env \<Rightarrow> string \<Rightarrow> settle_state \<Rightarrow> settle_state" where
  "admitted_base fe cid b =
     b\<lparr>core := (core b)\<lparr>kv := (kv (core b))(finalizeInflightKey cid \<mapsto> fe_inflightToken fe, settleLockKey cid \<mapsto> fe_ownerToken fe)\<rparr>,
       durable := (durable b)\<lparr>redis := (redis (durable b))(settlementClaimKey cid \<mapsto> fe_ownerToken fe)\<rparr>\<rparr>"

definition settle_entry :: "fin_env \<Rightarrow> finalize_params \<Rightarrow> settle_state \<Rightarrow> settle_state" where
  "settle_entry fe ps b =
     flush_base fe (fp_callId ps)
       (snd (checkpoint_loop fe (fp_callId ps) SETTLING ''settling'' (checkpoint_attempts (fe_env fe)) 1
               (snd (markCallSettling fe ps (admitted_base fe (fp_callId ps) b)))))"

text \<open>The call is ready for a run: nothing blocks its admission and its session can be settled.\<close>

definition ready :: "fin_env \<Rightarrow> string \<Rightarrow> fin_state \<Rightarrow> bool" where
  "ready fe cid st \<longleftrightarrow>
     \<not> isInvalidBillingCallId cid \<and> \<not> truthy_key (keys st) (billingRecoveryDeadLetterKey cid) \<and>
     keys st (finalizeInflightKey cid) = None \<and> keys st (settleLockKey cid) = None \<and> claims st (settlementClaimKey cid) = None \<and>
     \<not> stale_worker fe cid st \<and> \<not> isCallBillingAlreadySettled (fe_env fe) cid (base st) \<and>
     (case callSettlement (durable (base st)) cid of None \<Rightarrow> True | Some c \<Rightarrow> cs_status c \<noteq> ''settling'') \<and>
     (case sessions (core (base st)) cid of
        Some raw \<Rightarrow> has_parties raw \<and> nvl (stored_lifecycle raw) ACTIVE \<noteq> INIT | None \<Rightarrow> False)"

text \<open>Nothing fails: no store throws, the transaction commits at its first attempt.\<close>

definition undisturbed :: "fin_env \<Rightarrow> bool" where
  "undisturbed fe \<longleftrightarrow>
     (\<forall>p. \<not> fe_raises fe p) \<and> \<not> fe_checkpointThrows fe SETTLING 1 \<and> fe_reads fe = ReadsOk \<and> fe_faults fe 0 = Commits"

lemma checkpoint_attempts_pos: "\<exists>n. checkpoint_attempts env = Suc n"
proof -
  have "1 \<le> FINALIZE_CONVERGENCE_MAX_ATTEMPTS env" by (simp add: FINALIZE_CONVERGENCE_MAX_ATTEMPTS_def envIntOr_def)
  then show ?thesis by (intro not0_implies_Suc) (simp add: checkpoint_attempts_def)
qed

lemma audit_result [simp]: "fst (transitionBillingStateWithAudit ok now req rows) = transitionBillingState req"
  by (simp add: transitionBillingStateWithAudit_def Let_def)

lemma follow_to_settling:
  assumes "current \<noteq> INIT"
  shows "\<exists>nxt. fst (follow_plan fe cid status SETTLING (transition_plan SETTLING current) current rows) = Some nxt \<and>
    reachedOrBeyondSettling nxt"
  using assms
  by (cases current) (simp_all add: transition_plan_def transitionBillingState_def reachedOrBeyondSettling_def case_prod_beta)

lemma checkpoint_reaches_settling:
  assumes "sessions (core b) cid = Some raw" and "has_parties raw" and "nvl (stored_lifecycle raw) ACTIVE \<noteq> INIT"
    and "\<not> fe_checkpointThrows fe SETTLING 1"
  shows "fst (checkpoint_loop fe cid SETTLING status (checkpoint_attempts (fe_env fe)) 1 b)"
    and "same_money b (snd (checkpoint_loop fe cid SETTLING status (checkpoint_attempts (fe_env fe)) 1 b))"
proof -
  obtain n where n: "checkpoint_attempts (fe_env fe) = Suc n" using checkpoint_attempts_pos by blast
  obtain nxt rows where f: "follow_plan fe cid status SETTLING (transition_plan SETTLING (nvl (stored_lifecycle raw) ACTIVE))
      (nvl (stored_lifecycle raw) ACTIVE) (audit (core b)) = (Some nxt, rows)" "reachedOrBeyondSettling nxt"
    using follow_to_settling [OF assms(3)] by (metis prod.collapse)
  then obtain b' where d: "checkpoint_attempt fe cid SETTLING status 1 b = CheckpointDone True b'"
    using assms by (simp add: checkpoint_attempt_def reconstruct_session_def Let_def)
  show "fst (checkpoint_loop fe cid SETTLING status (checkpoint_attempts (fe_env fe)) 1 b)"
    "same_money b (snd (checkpoint_loop fe cid SETTLING status (checkpoint_attempts (fe_env fe)) 1 b))"
    using d checkpoint_attempt_frame(1) [OF d] by (simp_all add: n)
qed

lemma upsert_keeps: "x \<in> set rows \<Longrightarrow> h_owner x \<noteq> h_owner r \<Longrightarrow> x \<in> set (upsert_history r rows)"
  by (force simp: upsert_history_def)

lemma write_histories_payer:
  assumes "\<forall>c \<in> set (creators (core st)). c_userId c \<noteq> sp_userMongoId p"
  shows "payer_row (sp_callId p) (write_histories now p e st)"
proof -
  let ?u = "user_history_row now p" and ?c = "find (\<lambda>c. c_id c = sp_creatorMongoId p) (creators (core st))"
  have u: "?u \<in> set (upsert_history ?u (history st))" by (rule upsert_history_mem)
  have "?u \<in> set (history (write_histories now p e st))"
  proof (cases ?c)
    case (Some c)
    then have "c \<in> set (creators (core st))" by (auto simp: find_Some_iff)
    then have "h_owner ?u \<noteq> h_owner (creator_history_row now p (c_userId c) e)"
      using assms by (auto simp: user_history_row_def creator_history_row_def split: prod.split)
    then show ?thesis using upsert_keeps [OF u] Some by (simp add: write_histories_def Let_def)
  qed (use u in \<open>simp add: write_histories_def Let_def\<close>)
  moreover have "h_callId ?u = sp_callId p" "h_ownerRole ?u = ''user''" by (simp_all add: user_history_row_def)
  ultimately show ?thesis unfolding payer_row_def list_ex_iff by blast
qed

lemma settle_commits:
  assumes "sessions (core b) cid = Some (Typed s)" and "find_user (userMongoId s) b \<noteq> None"
    and "\<forall>r \<in> set (history b). h_callId r \<noteq> cid" and "faults 0 = Commits"
  shows "\<exists>p b'. settle_locked w ReadsOk faults commission token True cid b = (Persisted p, b') \<and> charged cid b' \<and>
    ((\<forall>c \<in> set (creators (core b)). c_userId c \<noteq> userMongoId s) \<longrightarrow> payer_row cid b')"
proof -
  obtain v where v: "settlement_session w cid b = Some (Inr v)" "sv_userMongoId v = userMongoId s"
    using assms(1) by (simp add: settlement_session_def)
  obtain v' b1 where l: "ledger_flush_for_settlement w cid v b = (v', b1)" by fastforce
  note k = ledger_flush_keeps [OF l]
  have i: "sv_userMongoId v' = userMongoId s" using k(5) v(2) by simp
  have h: "find (\<lambda>r. h_callId r = cid \<and> h_owner r = userMongoId s) (history b1) = None"
    using assms(3) k(3) by (auto simp: find_None_iff)
  have u: "find_user (userMongoId s) b1 \<noteq> None" using assms(2) k(1) by (simp add: find_user_def)
  define p where "p = settlement_plan_of cid (settlement_earnings_raw w cid b1) v' (resolveAuthoritativeSettlementTotals (w_env w) cid b1)"
  have p: "sp_callId p = cid" "sp_userMongoId p = userMongoId s" by (simp_all add: p_def same_plan_payer i)
  let ?t = "settle_txn (w_clock w) (commission 0) p b1"
  have "settle_locked w ReadsOk faults commission token True cid b = (Persisted (p\<lparr>sp_totalEarnedCreator := fst ?t\<rparr>), snd ?t)"
    using u assms(4)
    by (auto simp: settle_locked_def v(1) l h Let_def SETTLEMENT_TXN_MAX_ATTEMPTS_def p_def [symmetric] p(2) i
        settle_attempts.simps [of _ _ _ _ 2] case_prod_beta split: option.splits)
  moreover have "charged cid (snd ?t)"
    using settle_txn_charges(2) [of p b1] assms(3) k(3) by (simp add: p(1) settled_rows_only_def list_all_iff)
  moreover have "payer_row cid (snd ?t)" if "\<forall>c \<in> set (creators (core b)). c_userId c \<noteq> userMongoId s"
    using write_histories_payer [of b1 p] that k(1) by (simp add: p payer_row_def settle_txn_history)
  ultimately show ?thesis by blast
qed

lemma markCallSettling_core [simp]: "core (snd (markCallSettling fe ps b)) = core b"
  by (simp add: markCallSettling_def update_call_settlement_def split: option.split)

lemma ready_admitted:
  assumes "ready fe cid st" and "\<not> isDurableCallSessionEnabled (fe_env fe)" and "fp_callId ps = cid"
  shows "\<exists>st1. finalize_admit fe ps (upd_keys (\<lambda>k. k(finalizeInflightKey cid \<mapsto> fe_inflightToken fe)) st) = Inr st1 \<and>
    base st1 = admitted_base fe cid (base st)"
proof -
  let ?in = "upd_keys (\<lambda>k. k(finalizeInflightKey cid \<mapsto> fe_inflightToken fe)) st"
  have k: "settledCallKey cid \<noteq> finalizeInflightKey cid" by (simp add: settledCallKey_def finalizeInflightKey_def)
  have s: "\<not> stale_worker fe cid ?in" using assms(1) by (simp add: ready_def stale_worker_def upd_keys_def)
  have n: "\<not> isCallBillingAlreadySettled (fe_env fe) cid (base ?in)"
    using assms(1) k by (simp add: ready_def isCallBillingAlreadySettled_def upd_keys_def user_history_def upd_core_def)
  have t: "tryStaleSettlingTakeover fe cid token ?in = (False, ?in)" for token
    using assms(1) by (auto simp: ready_def tryStaleSettlingTakeover_def upd_keys_def split: option.splits)
  show ?thesis
    using assms(1,2) s n t
    by (simp add: finalize_admit_def ready_def assms(3) admitted_base_def upd_keys_def upd_claims_def upd_core_def upd_durable_def)
qed

lemma entry_money:
  assumes "ready fe cid st" and "undisturbed fe" and "fp_callId ps = cid"
  shows "same_money (base st) (settle_entry fe ps (base st))"
proof -
  let ?b = "snd (markCallSettling fe ps (admitted_base fe cid (base st)))"
  have m: "same_money (base st) ?b" by simp (simp add: same_money_def admitted_base_def)
  obtain raw where raw: "sessions (core ?b) cid = Some raw" "has_parties raw" "nvl (stored_lifecycle raw) ACTIVE \<noteq> INIT"
    using assms(1) by (auto simp: ready_def admitted_base_def split: option.splits)
  show ?thesis
    using same_money_trans [OF m checkpoint_reaches_settling(2) [OF raw, of fe]] assms(2)
    by (simp add: settle_entry_def assms(3) undisturbed_def)
qed

lemma ready_run:
  assumes "ready fe cid st" and "undisturbed fe" and "fp_callId ps = cid"
    and "isUnifiedBillingFinalizerEnabled (fe_env fe)" and "\<not> isDurableCallSessionEnabled (fe_env fe)"
    and "b = settle_entry fe ps (base st)" and "\<not> isCallBillingAlreadySettled (fe_env fe) cid b"
    and "sessions (core b) cid = Some (Typed s)" and "0 < totalDeductedMicros s"
    and "find_user (userMongoId s) (base st) \<noteq> None" and "\<forall>r \<in> set (history (base st)). h_callId r \<noteq> cid"
  shows "\<exists>r st'. finalizeCallSession fe ps st = (Fin r, st') \<and> fr_status r = FSettled \<and>
    (polite cid fe \<longrightarrow> (\<forall>c \<in> set (creators (core (base st))). c_userId c \<noteq> userMongoId s) \<longrightarrow> payer_row cid (base st'))"
proof -
  let ?in = "upd_keys (\<lambda>k. k(finalizeInflightKey cid \<mapsto> fe_inflightToken fe)) st"
  have m: "same_money (base st) b" using entry_money [OF assms(1-3)] by (simp add: assms(6))
  obtain st1 where 1: "finalize_admit fe ps ?in = Inr st1" "base st1 = admitted_base fe cid (base st)"
    using ready_admitted [OF assms(1,5,3)] by blast
  let ?b0 = "snd (markCallSettling fe ps (base st1))"
  obtain raw where raw: "sessions (core ?b0) cid = Some raw" "has_parties raw" "nvl (stored_lifecycle raw) ACTIVE \<noteq> INIT"
    using assms(1) 1(2) by (auto simp: ready_def admitted_base_def split: option.splits)
  have c: "fst (checkpoint_loop fe cid SETTLING ''settling'' (checkpoint_attempts (fe_env fe)) 1 ?b0)"
    using checkpoint_reaches_settling(1) [OF raw] assms(2) by (simp add: undisturbed_def)
  define st2 where "st2 = upd_base (flush_base fe cid) (snd (checkpointLifecycleState fe cid SETTLING ''settling'' (st1\<lparr>base := ?b0\<rparr>)))"
  have 2: "base st2 = b"
    by (simp add: st2_def checkpointLifecycleState_def case_prod_beta assms(3,6) settle_entry_def 1(2))
  have claimed: "finalize_section fe ps src st1 = finalize_flushed fe ps 1 st2" for src
    using assms(2,5) c
    by (simp add: finalize_section_def finalize_claimed_def undisturbed_def st2_def checkpointLifecycleState_def case_prod_beta
        markCallSettling_def assms(3))
  obtain p b' where l: "settle_locked (fe_w fe) ReadsOk (fe_faults fe) (fe_commission fe) (fe_ownerToken fe) True cid b = (Persisted p, b')"
      "charged cid b'" "(\<forall>c \<in> set (creators (core (base st))). c_userId c \<noteq> userMongoId s) \<longrightarrow> payer_row cid b'"
    using settle_commits [OF assms(8), of "fe_faults fe" "fe_w fe" "fe_commission fe" "fe_ownerToken fe"] assms(2,10,11) m
    by (auto simp: undisturbed_def same_money_def find_user_def)
  have "settleCall (fe_w fe) (fe_t fe) (fe_ws fe) (fe_reads fe) (fe_faults fe) (fe_commission fe) (fe_ownerToken fe) True cid b
      = (Persisted p, b')"
    using l(1) assms(1,2) by (simp add: settleCall_def ready_def undisturbed_def)
  moreover have "shouldBlockZeroSettlement (fe_env fe) (resolveAuthoritativeSettlementTotals (fe_env fe) cid b) = None"
    using assms(8,9) by (simp add: shouldBlockZeroSettlement_def resolveAuthoritativeSettlementTotals_def redis_totals_def
        active_totals_def some_activity_def nvl_def)
  ultimately have f: "finalize_flushed fe ps 1 st2 = finalize_persisted fe ps 1 p (emit_fin [CycleJobCancelled cid] (st2\<lparr>base := b'\<rparr>))"
    using assms(2,7) 2 by (simp add: finalize_flushed_def settle_result_def undisturbed_def assms(3) Let_def)
  obtain r st' where r: "finalize_persisted fe ps 1 p (emit_fin [CycleJobCancelled cid] (st2\<lparr>base := b'\<rparr>)) = Returned r st'"
      "fr_status r = FSettled"
    using assms(2) by (simp add: finalize_persisted_def undisturbed_def Let_def)
  have "payer_row cid (base st')" if "polite cid fe" "\<forall>c \<in> set (creators (core (base st))). c_userId c \<noteq> userMongoId s"
  proof -
    have "charges_once cid b' (base st')"
      using persisted_once [OF that(1), of "emit_fin [CycleJobCancelled cid] (st2\<lparr>base := b'\<rparr>)" ps 1 p] r(1) by simp
    then have "same_money b' (base st')" using l(2) by (simp add: charges_once_def)
    then show ?thesis using l(3) that(2) same_money_rows(2) by blast
  qed
  then have "polite cid fe \<longrightarrow> (\<forall>c \<in> set (creators (core (base st))). c_userId c \<noteq> userMongoId s) \<longrightarrow>
      payer_row cid (base (finalize_finally fe cid st'))"
    using same_money_rows(2) [of "base st'" "base (finalize_finally fe cid st')"] by simp
  then show ?thesis
    using assms(1,4) 1(1) claimed f r
    by (simp add: finalizeCallSession_def finalize_guarded_def finalize_admitted_def ready_def assms(3))
qed


section \<open>A worked finalization\<close>

definition demo_call_row :: call_settlement where
  "demo_call_row = \<lparr> cs_status = [], cs_version = 0, cs_owner = [], cs_source = [], cs_reason = [], cs_updatedAt = None,
     cs_ownerToken = None, cs_isSettled = False \<rparr>"

definition demo_fin :: fin_state where
  "demo_fin =
     \<lparr> base = demo_settle\<lparr>durable := (durable demo_settle)\<lparr>callSettlement := [''c1'' \<mapsto> demo_call_row]\<rparr>\<rparr>,
       retryQueue = [], retryPayload = Map.empty, terminalSnap = Map.empty, attemptLog = (\<lambda>_. []),
       durableParties = Map.empty, emitted = [] \<rparr>"

definition demo_fe :: fin_env where
  "demo_fe =
     \<lparr> fe_w = demo_worker, fe_t = (\<lambda>_. 1000000), fe_ws = (\<lambda>_ _. demo_worker), fe_reads = ReadsOk,
       fe_faults = (\<lambda>_. Commits), fe_commission = (\<lambda>_. True), fe_inflightToken = ''i1'', fe_ownerToken = ''o1'',
       fe_jitter = 0, fe_polls = [], fe_backoff = (\<lambda>_ _ s. s), fe_checkpointThrows = (\<lambda>_ _. False),
       fe_raises = (\<lambda>_. False) \<rparr>"

definition demo_ps :: finalize_params where
  "demo_ps = \<lparr> fp_callId = ''c1'', fp_reason = ''explicit_end'', fp_source = ''socket_call_ended'', fp_attempt = None,
     fp_enqueuedAt = None \<rparr>"

lemma demo_env: "isUnifiedBillingFinalizerEnabled (fe_env demo_fe)" "\<not> isDurableCallSessionEnabled (fe_env demo_fe)"
  "fp_callId demo_ps = ''c1''" "\<not> isInvalidBillingCallId ''c1''"
  by code_simp+

lemma demo_ready: "ready demo_fe ''c1'' demo_fin" by code_simp

lemma demo_undisturbed: "undisturbed demo_fe" by (simp add: undisturbed_def demo_fe_def)

lemma demo_polite: "polite ''c1'' demo_fe" "fresh_tokens ''c1'' demo_fe"
  by (simp_all add: polite_def fresh_tokens_def demo_fe_def orderly_frame)

lemma demo_entry:
  "\<not> isCallBillingAlreadySettled (fe_env demo_fe) ''c1'' (settle_entry demo_fe demo_ps (base demo_fin))"
  "case sessions (core (settle_entry demo_fe demo_ps (base demo_fin))) ''c1'' of
     Some (Typed s) \<Rightarrow> 0 < totalDeductedMicros s \<and> userMongoId s = ''mu'' | _ \<Rightarrow> False"
  by code_simp+

lemma demo_entry_session:
  obtains s where "sessions (core (settle_entry demo_fe demo_ps (base demo_fin))) ''c1'' = Some (Typed s)"
    "0 < totalDeductedMicros s" "userMongoId s = ''mu''"
  using demo_entry(2) by (auto split: option.splits stored_session.splits)

lemma demo_rows: "rows_ok ''c1'' (base demo_fin)" "\<not> charged ''c1'' (base demo_fin)"
  "history (base demo_fin) = []" "creators (core (base demo_fin)) = creators (core demo_settle)"
  "users (core (base demo_fin)) = users (core demo_settle)"
  by (simp_all add: demo_fin_def demo_settle_def rows_ok_def row_defs)

lemma demo_settles:
  obtains r st' where "finalizeCallSession demo_fe demo_ps demo_fin = (Fin r, st')" "fr_status r = FSettled"
    "payer_row ''c1'' (base st')"
proof -
  obtain s where s: "sessions (core (settle_entry demo_fe demo_ps (base demo_fin))) ''c1'' = Some (Typed s)"
    "0 < totalDeductedMicros s" "userMongoId s = ''mu''" by (rule demo_entry_session)
  have u: "find_user (userMongoId s) (base demo_fin) \<noteq> None"
    using demo_participants(1) s(3) by (auto simp: find_user_def demo_rows(5))
  have h: "\<forall>r \<in> set (history (base demo_fin)). h_callId r \<noteq> ''c1''" by (simp add: demo_rows)
  show thesis
    using ready_run [OF demo_ready demo_undisturbed demo_env(3,1,2) refl demo_entry(1) s(1,2) u h] that demo_polite(1)
      demo_participants(6) s(3) demo_rows(4) by auto
qed


lemma demo_finalized:
  assumes "finalizeCallSession demo_fe demo_ps st = (out, st')" and "finalized ''c1'' st0 st" and "payer_row ''c1'' (base st')"
  shows "finalized ''c1'' st0 st'"
  using finalized.run [OF assms(2,1) demo_env(1,3) demo_polite(1)] assms(3) by blast



theorem finalizer_releases_its_keys_witness:
  "keys (snd (finalizeCallSession demo_fe demo_ps demo_fin)) (finalizeInflightKey ''c1'') \<noteq> Some ''i1''"
proof -
  have k: "keys demo_fin (finalizeInflightKey (fp_callId demo_ps)) \<noteq> Some (fe_inflightToken demo_fe)"
    "keys demo_fin (settleLockKey (fp_callId demo_ps)) \<noteq> Some (fe_ownerToken demo_fe)"
    using demo_ready by (simp_all add: ready_def demo_env(3))
  show ?thesis
    using finalizer_releases_its_keys [OF prod.collapse [symmetric] demo_env(1) _ k] demo_polite(2) demo_env(3)
    by (simp add: demo_fe_def)
qed

section \<open>A worked dead letter\<close>

theorem dead_letter_stops_the_call_witness:
  "let st' = moveCallToRecoveryDeadLetter demo_fe ''c1'' ''retry_cap_reached'' ''webhook'' demo_fin
   in retryPayload st' ''c1'' = None \<and> finalizeCallSession demo_fe demo_ps st' = (Fin (result_of FDeadLettered ''c1''), st')"
  using dead_letter_stops_the_call [of "''retry_cap_reached''" demo_ps demo_fe demo_fe "''webhook''" demo_fin] demo_env
  by (simp add: Let_def)

text \<open>The creator of the call is in another call, \<open>c2\<close>, when this one is dead-lettered.\<close>

definition demo_elsewhere :: fin_state where
  "demo_elsewhere = upd_keys (\<lambda>k. k(activeCallByUserKey ''k1'' \<mapsto> ''c2'')) demo_fin"

theorem dead_letter_drops_foreign_slot_witness:
  "keys demo_elsewhere (activeCallByUserKey ''k1'') = Some ''c2'' \<and>
   keys (moveCallToRecoveryDeadLetter demo_fe ''c1'' ''retry_cap_reached'' ''webhook'' demo_elsewhere) (activeCallByUserKey ''k1'') = None"
proof -
  have s: "sessions (core (base demo_elsewhere)) ''c1'' = Some (Typed demo_billed)"
    by (simp add: demo_elsewhere_def upd_keys_def demo_fin_def demo_settle_def)
  have c: "creatorFirebaseUid demo_billed = ''k1''" by (simp add: demo_billed_def demo_session_def)
  show ?thesis using dead_letter_drops_foreign_slot [OF s] c by (simp add: demo_elsewhere_def)
qed

section \<open>Worked retries\<close>

definition demo_retry :: fin_state where
  "demo_retry = demo_fin\<lparr>retryQueue := [(''c1'', 1000500)],
     retryPayload := [''c1'' \<mapsto> demo_ps\<lparr>fp_attempt := Some 8, fp_enqueuedAt := Some 1000000\<rparr>]\<rparr>"


section \<open>A worked reconstruction\<close>

definition demo_checkpoint :: billing_checkpoint where
  "demo_checkpoint = checkpoint_cursor demo_billed 870000000 empty_checkpoint"

definition demo_lost :: settle_state where
  "demo_lost = demo_settle\<lparr>core := (core demo_settle)\<lparr>sessions := Map.empty, checkpoints := [''c1'' \<mapsto> demo_checkpoint]\<rparr>\<rparr>"

theorem rebuilt_session_forgets_the_charge_witness:
  "\<exists>s s' e. sessions (core (reconstruct_session demo_fe ''c1'' demo_lost)) ''c1'' = Some (Typed s) \<and>
     30000000 \<le> totalDeductedMicros s \<and> migrateSession (w_cfg demo_worker) 1001000 (Typed s) None = Some (s', e) \<and>
     totalDeductedMicros s' = 0"
proof -
  have c: "sessions (core demo_lost) ''c1'' = None" "checkpoints (core demo_lost) ''c1'' = Some demo_checkpoint"
    by (simp_all add: demo_lost_def)
  have p: "0 < cp_billingSequence demo_checkpoint" "cp_userMongoId demo_checkpoint \<noteq> []" "cp_creatorMongoId demo_checkpoint \<noteq> []"
    "nvl (cp_userFirebaseUid demo_checkpoint) [] \<noteq> []" "nvl (cp_creatorFirebaseUid demo_checkpoint) [] \<noteq> []"
    "cp_totalDeductedMicros demo_checkpoint = 30000000"
    by (simp_all add: demo_checkpoint_def checkpoint_cursor_def demo_billed_def demo_session_def)
  have z: "isBlockZeroSettlementEnabled (fe_env demo_fe)" by code_simp
  show ?thesis using rebuilt_session_forgets_the_charge [OF c p(1-5) z] p(6) by metis
qed

end
