(* ===== verification/CoinStore.thy ===== *)
theory CoinStore
  imports Ownership
begin

text \<open>
  The collections that hold coins outside a call: the wallet of a \<open>User\<close> document and the ledger of
  \<open>CoinTransaction\<close> rows (\<open>user/coin-transaction.model.ts\<close>), with the audit that compares them
  (\<open>utils/balance-integrity.ts\<close>).

  A collection is the list of its documents in insertion order, which is the order \<open>findOne\<close> and
  \<open>sort({createdAt: 1})\<close> return them in. The unique index on \<open>transactionId\<close> is \<open>create_txn\<close>: it answers
  \<open>None\<close> for the duplicate key error 11000. Coins are rational, because a purchase may carry a fractional
  amount. The locale \<open>audited\<close> is the contract of every part of the program that moves coins.
\<close>

section \<open>Documents\<close>

datatype txn_type = Credit | Debit

datatype txn_status = TCompleted | TPending | TFailed

record coin_txn =
  tx_transactionId :: string
  tx_userId :: string
  tx_type :: txn_type
  tx_coins :: rat
  tx_source :: string
  tx_bonusReason :: "string option"
  tx_paymentGatewayTransactionId :: "string option"
  tx_paymentGatewayOrderId :: "string option"
  tx_priceInr :: "rat option"
  tx_status :: txn_status

record account =
  a_id :: string
  a_firebaseUid :: string
  a_role :: string
  a_coins :: rat
  a_phone :: "string option"
  a_email :: "string option"
  a_staffCoinsBalance :: "rat option"
  a_bdDisabled :: bool
  a_vipExpiresAt :: "millis option"

record coin_store =
  accounts :: "account list"
  txns :: "coin_txn list"

section \<open>Access\<close>

definition findById :: "string \<Rightarrow> coin_store \<Rightarrow> account option" where
  "findById uid st = List.find (\<lambda>a. a_id a = uid) (accounts st)"

definition find_txn :: "(coin_txn \<Rightarrow> bool) \<Rightarrow> coin_store \<Rightarrow> coin_txn option" where
  "find_txn P st = List.find P (txns st)"

definition txn_by_id :: "string \<Rightarrow> coin_store \<Rightarrow> coin_txn option" where
  "txn_by_id tid = find_txn (\<lambda>t. tx_transactionId t = tid)"

definition create_txn :: "coin_txn \<Rightarrow> coin_store \<Rightarrow> coin_store option" where
  "create_txn t st =
     (if tx_transactionId t \<in> tx_transactionId ` set (txns st) then None
      else Some (st\<lparr>txns := txns st @ [t]\<rparr>))"

definition update_txn :: "string \<Rightarrow> (coin_txn \<Rightarrow> coin_txn) \<Rightarrow> coin_store \<Rightarrow> coin_store" where
  "update_txn tid f st = st\<lparr>txns := map (\<lambda>t. if tx_transactionId t = tid then f t else t) (txns st)\<rparr>"

definition update_account :: "string \<Rightarrow> (account \<Rightarrow> account) \<Rightarrow> coin_store \<Rightarrow> coin_store" where
  "update_account uid f st = st\<lparr>accounts := map (\<lambda>a. if a_id a = uid then f a else a) (accounts st)\<rparr>"

definition inc_coins :: "string \<Rightarrow> rat \<Rightarrow> coin_store \<Rightarrow> coin_store" where
  "inc_coins uid n = update_account uid (\<lambda>a. a\<lparr>a_coins := a_coins a + n\<rparr>)"

section \<open>The audit of a wallet\<close>

datatype mismatch_class = wallet_over | wallet_under | balanced

record balance_check =
  bc_actualBalance :: rat
  bc_expectedBalance :: rat
  bc_mismatch :: bool
  bc_discrepancy :: rat

definition total_of :: "txn_type \<Rightarrow> string \<Rightarrow> coin_txn list \<Rightarrow> rat" where
  "total_of k uid ts =
     sum_list (map tx_coins (filter (\<lambda>t. tx_userId t = uid \<and> tx_status t = TCompleted \<and> tx_type t = k) ts))"

definition expectedBalance :: "string \<Rightarrow> coin_store \<Rightarrow> rat" where
  "expectedBalance uid st = total_of Credit uid (txns st) - total_of Debit uid (txns st)"

definition classifyMismatch :: "rat \<Rightarrow> mismatch_class" where
  "classifyMismatch d = (if d > 0 then wallet_over else if d < 0 then wallet_under else balanced)"

text \<open>The check, and the repair task it queues.\<close>

definition verifyUserBalance :: "string \<Rightarrow> coin_store \<Rightarrow> balance_check \<times> (string \<times> rat \<times> mismatch_class) option" where
  "verifyUserBalance uid st =
     (case findById uid st of
        None \<Rightarrow> (\<lparr>bc_actualBalance = 0, bc_expectedBalance = 0, bc_mismatch = False, bc_discrepancy = 0\<rparr>, None)
      | Some u \<Rightarrow>
          (let expected = expectedBalance uid st;
               discrepancy = a_coins u - expected;
               mismatch = \<bar>discrepancy\<bar> > 1
           in (\<lparr>bc_actualBalance = a_coins u, bc_expectedBalance = expected, bc_mismatch = mismatch,
                 bc_discrepancy = discrepancy\<rparr>,
               if mismatch then Some (uid, discrepancy, classifyMismatch discrepancy) else None)))"

definition batchVerifyBalances :: "nat \<Rightarrow> coin_store \<Rightarrow> nat \<times> balance_check list" where
  "batchVerifyBalances limit st =
     (let us = take limit (filter (\<lambda>a. a_coins a > 0) (accounts st))
      in (length us, filter bc_mismatch (map (\<lambda>u. fst (verifyUserBalance (a_id u) st)) us)))"

section \<open>The invariant of the store\<close>

text \<open>Keys are unique, and every wallet is what the completed rows of its owner add up to.\<close>

definition keys_unique :: "coin_store \<Rightarrow> bool" where
  "keys_unique st \<longleftrightarrow> distinct (map a_id (accounts st)) \<and> distinct (map tx_transactionId (txns st))"

definition backed :: "coin_store \<Rightarrow> bool" where
  "backed st \<longleftrightarrow> (\<forall>a \<in> set (accounts st). a_coins a = expectedBalance (a_id a) st)"

definition sound :: "coin_store \<Rightarrow> bool" where
  "sound st \<longleftrightarrow> keys_unique st \<and> backed st"

definition completed_rows :: "coin_store \<Rightarrow> coin_txn set" where
  "completed_rows st = {t \<in> set (txns st). tx_status t = TCompleted}"

lemma find_unique:
  "distinct (map f xs) \<Longrightarrow> x \<in> set xs \<Longrightarrow> List.find (\<lambda>y. f y = f x) xs = Some x"
proof (induction xs)
  case (Cons y ys)
  then show ?case by (cases "f y = f x") (auto simp: image_iff)
qed simp

lemma findById_SomeD:
  assumes "findById uid st = Some a"
  shows "a_id a = uid" and "a \<in> set (accounts st)"
  using assms by (auto simp: findById_def find_Some_iff)

lemma find_txn_SomeD:
  assumes "find_txn P st = Some t"
  shows "P t" and "t \<in> set (txns st)"
  using assms by (auto simp: find_txn_def find_Some_iff)

lemma txn_by_id_SomeD:
  assumes "txn_by_id tid st = Some t"
  shows "tx_transactionId t = tid" and "t \<in> set (txns st)"
  using find_txn_SomeD [OF assms [unfolded txn_by_id_def]] by simp_all

lemma txn_by_id_unique:
  "keys_unique st \<Longrightarrow> t \<in> set (txns st) \<Longrightarrow> txn_by_id (tx_transactionId t) st = Some t"
  by (simp add: txn_by_id_def find_txn_def keys_unique_def find_unique)

lemma store_fields [simp]:
  "accounts (update_txn tid f st) = accounts st" "txns (update_account uid g st) = txns st"
  "txns (inc_coins uid n st) = txns st"
  by (auto simp: update_txn_def update_account_def inc_coins_def)

lemma expected_accounts [simp]:
  "expectedBalance u (update_account uid g st) = expectedBalance u st" "expectedBalance u (inc_coins uid n st) = expectedBalance u st"
  by (simp_all add: expectedBalance_def)

lemma txns_update_txn: "txns (update_txn tid f st) = map (\<lambda>t. if tx_transactionId t = tid then f t else t) (txns st)"
  by (simp add: update_txn_def)

lemma accounts_update: "accounts (update_account uid f st) = map (\<lambda>a. if a_id a = uid then f a else a) (accounts st)"
  by (simp add: update_account_def)

lemma total_of_simps [simp]:
  "total_of k uid [] = 0"
  "total_of k uid (t # ts) =
     (if tx_userId t = uid \<and> tx_status t = TCompleted \<and> tx_type t = k then tx_coins t else 0) + total_of k uid ts"
  "total_of k uid (ts @ us) = total_of k uid ts + total_of k uid us"
  by (simp_all add: total_of_def)

text \<open>Changing the one row with an id changes the total by what the row counts for.\<close>

lemma total_of_update:
  assumes "distinct (map tx_transactionId ts)" and "t \<in> set ts"
  shows "total_of k uid (map (\<lambda>t'. if tx_transactionId t' = tx_transactionId t then u else t') ts) =
    total_of k uid ts - total_of k uid [t] + total_of k uid [u]"
  using assms
proof (induction ts)
  case (Cons x xs)
  show ?case
  proof (cases "x = t")
    case True
    then have "map (\<lambda>t'. if tx_transactionId t' = tx_transactionId t then u else t') xs = xs"
      using Cons.prems(1) by (intro map_idI) (auto simp: image_iff)
    then show ?thesis using True by simp
  next
    case False
    then have n: "tx_transactionId x \<noteq> tx_transactionId t" using Cons.prems by (auto simp: image_iff)
    have "total_of k uid (map (\<lambda>t'. if tx_transactionId t' = tx_transactionId t then u else t') xs) =
      total_of k uid xs - total_of k uid [t] + total_of k uid [u]"
      using False Cons by simp
    then show ?thesis using n by (simp del: total_of_simps(1))
  qed
qed simp

section \<open>Moving coins together with their row\<close>

lemma keys_update_txn:
  "keys_unique st \<Longrightarrow> (\<And>t. tx_transactionId (f t) = tx_transactionId t) \<Longrightarrow> keys_unique (update_txn tid f st)"
  by (simp add: keys_unique_def update_txn_def comp_def if_distrib cong: if_cong)

lemma keys_update_account:
  "keys_unique st \<Longrightarrow> (\<And>a. a_id (f a) = a_id a) \<Longrightarrow> keys_unique (update_account uid f st)"
  by (simp add: keys_unique_def update_account_def comp_def if_distrib cong: if_cong)

lemma keys_inc_coins: "keys_unique st \<Longrightarrow> keys_unique (inc_coins uid n st)"
  by (simp add: inc_coins_def keys_update_account)

lemma keys_create_txn: "keys_unique st \<Longrightarrow> create_txn t st = Some st' \<Longrightarrow> keys_unique st'"
  by (auto simp: create_txn_def keys_unique_def split: if_splits)

text \<open>
  A wallet moves by the amount by which its expected balance moves. This is what an operation shows to
  keep the store backed.
\<close>

lemma backed_inc:
  assumes "backed st" and "accounts st' = accounts st"
    and "\<And>u. expectedBalance u st' = expectedBalance u st + (if u = uid then n else 0)"
  shows "backed (inc_coins uid n st')"
proof -
  have "a_id a = uid \<Longrightarrow> a_coins a + n = expectedBalance uid st'" "a_id a \<noteq> uid \<Longrightarrow> a_coins a = expectedBalance (a_id a) st'"
    if "a \<in> set (accounts st)" for a
    using that assms(1) by (auto simp: backed_def assms(3))
  then show ?thesis by (auto simp: backed_def inc_coins_def accounts_update assms(2))
qed

lemma backed_same:
  assumes "backed st" and "map (\<lambda>a. (a_id a, a_coins a)) (accounts st') = map (\<lambda>a. (a_id a, a_coins a)) (accounts st)"
    and "\<And>u. expectedBalance u st' = expectedBalance u st"
  shows "backed st'"
proof -
  have "(\<lambda>a. (a_id a, a_coins a)) ` set (accounts st') = (\<lambda>a. (a_id a, a_coins a)) ` set (accounts st)"
    using arg_cong [OF assms(2), of set] by simp
  then have b: "\<exists>b \<in> set (accounts st). a_id b = a_id a \<and> a_coins b = a_coins a" if "a \<in> set (accounts st')" for a
    using that by (metis (mono_tags, lifting) imageE image_eqI prod.inject)
  have "a_coins a = expectedBalance (a_id a) st'" if "a \<in> set (accounts st')" for a
    using b [OF that] assms(1) by (auto simp: backed_def assms(3))
  then show ?thesis by (simp add: backed_def)
qed

definition signed :: "coin_txn \<Rightarrow> rat" where
  "signed t = (case tx_type t of Credit \<Rightarrow> tx_coins t | Debit \<Rightarrow> - tx_coins t)"

lemma expected_append:
  "expectedBalance u (st\<lparr>txns := txns st @ [t]\<rparr>) =
    expectedBalance u st + (if u = tx_userId t \<and> tx_status t = TCompleted then signed t else 0)"
  by (auto simp: expectedBalance_def signed_def split: txn_type.splits)

lemma expected_update:
  assumes "keys_unique st" and "t \<in> set (txns st)" and "tx_userId (f t) = tx_userId t" and "tx_type (f t) = tx_type t"
    and "tx_coins (f t) = tx_coins t"
  shows "expectedBalance u (update_txn (tx_transactionId t) f st) = expectedBalance u st +
    (if u = tx_userId t then (if tx_status (f t) = TCompleted then signed t else 0) - (if tx_status t = TCompleted then signed t else 0) else 0)"
proof -
  have m: "map (\<lambda>t'. if tx_transactionId t' = tx_transactionId t then f t' else t') (txns st) =
    map (\<lambda>t'. if tx_transactionId t' = tx_transactionId t then f t else t') (txns st)"
    using assms(1,2) txn_by_id_unique [OF assms(1)] by (auto simp: txn_by_id_def) (metis option.inject)
  show ?thesis
    using assms by (auto simp: expectedBalance_def txns_update_txn m total_of_update keys_unique_def signed_def
        split: txn_type.splits)
qed

lemma sound_create_credit:
  assumes "sound st" and "create_txn t st = Some st'" and "tx_status t = TCompleted"
  shows "sound (inc_coins (tx_userId t) (signed t) st')"
proof -
  have "st' = st\<lparr>txns := txns st @ [t]\<rparr>" using assms(2) by (auto simp: create_txn_def split: if_splits)
  then have "backed (inc_coins (tx_userId t) (signed t) st')"
    using assms by (intro backed_inc [of st]) (auto simp: sound_def expected_append)
  then show ?thesis using assms keys_create_txn keys_inc_coins by (auto simp: sound_def)
qed

lemma sound_create_open:
  assumes "sound st" and "create_txn t st = Some st'" and "tx_status t \<noteq> TCompleted"
  shows "sound st'"
proof -
  have "st' = st\<lparr>txns := txns st @ [t]\<rparr>" using assms(2) by (auto simp: create_txn_def split: if_splits)
  then have "backed st'" using assms(1,3) by (simp add: sound_def backed_def expected_append)
  then show ?thesis using assms keys_create_txn by (auto simp: sound_def)
qed

lemma completed_create: "create_txn t st = Some st' \<Longrightarrow> completed_rows st \<subseteq> completed_rows st'"
  by (auto simp: create_txn_def completed_rows_def split: if_splits)

lemma completed_accounts [simp]:
  "completed_rows (update_account uid f st) = completed_rows st" "completed_rows (inc_coins uid n st) = completed_rows st"
  by (simp_all add: completed_rows_def)

section \<open>The contract of the operations that move coins\<close>

text \<open>
  A part of the program steps the store while an invariant of its own holds. The contract: the
  invariant is kept and includes \<open>sound\<close>, and no completed row is lost or changed. The lemmas hold of
  every sequence of steps.
\<close>

locale audited =
  fixes ok :: "coin_store \<Rightarrow> bool" and step :: "coin_store \<Rightarrow> coin_store \<Rightarrow> bool"
  assumes ok_sound: "ok st \<Longrightarrow> sound st"
    and step_ok: "step st st' \<Longrightarrow> ok st \<Longrightarrow> ok st'"
    and step_keeps: "step st st' \<Longrightarrow> ok st \<Longrightarrow> completed_rows st \<subseteq> completed_rows st'"
begin

lemma steps_ok:
  assumes "step\<^sup>*\<^sup>* st st'" and "ok st"
  shows "ok st'"
  using assms by (induction rule: rtranclp_induct) (auto intro: step_ok)

lemma steps_keep:
  assumes "step\<^sup>*\<^sup>* st st'" and "ok st"
  shows "completed_rows st \<subseteq> completed_rows st'"
  using assms(1)
proof (induction rule: rtranclp_induct)
  case (step b c)
  then show ?case using steps_ok [OF _ assms(2)] step_keeps by blast
qed simp

lemma steps_audit:
  assumes "step\<^sup>*\<^sup>* st st'" and "ok st" and "findById uid st' = Some a"
  shows "a_coins a = expectedBalance uid st'" and "\<not> bc_mismatch (fst (verifyUserBalance uid st'))"
proof -
  show e: "a_coins a = expectedBalance uid st'"
    using steps_ok [OF assms(1,2)] ok_sound findById_SomeD [OF assms(3)] by (auto simp: sound_def backed_def)
  show "\<not> bc_mismatch (fst (verifyUserBalance uid st'))"
    using e assms(3) by (simp add: verifyUserBalance_def Let_def)
qed

end

end
