(* ===== verification/Purchases.thy ===== *)
theory Purchases
  imports CoinStore
begin

text \<open>
  Coin purchases: \<open>payment/payment-finalization.service.ts\<close>, \<open>wallet-payment-reconcile.service.ts\<close>,
  \<open>recharge-pricing.service.ts\<close>, the web checkout and the webhook of \<open>payment.controller.ts\<close>, and the
  checkout contexts of \<open>checkout-return.service.ts\<close>.

  The payment provider, the signature check and the decoding of checkout tokens are third-party: they
  are the fields of \<open>pay_env\<close>. What other requests do to the collections between two commands of an
  operation is its argument \<open>others\<close>, indexed by the point. A Mongo transaction is one step: it
  answers an error and leaves the store, or commits.
\<close>

section \<open>Numbers and notes\<close>

text \<open>\<open>Number(s)\<close> of a string; \<open>None\<close> is \<open>NaN\<close> or an infinity, which every caller refuses alike.\<close>

definition hex_value :: "char \<Rightarrow> nat option" where
  "hex_value c =
     (let n = of_char c :: nat
      in if 48 \<le> n \<and> n \<le> 57 then Some (n - 48)
         else if 65 \<le> n \<and> n \<le> 70 then Some (n - 55)
         else if 97 \<le> n \<and> n \<le> 102 then Some (n - 87) else None)"

definition radix_number :: "nat \<Rightarrow> string \<Rightarrow> rat option" where
  "radix_number r ds =
     (let vs = map hex_value ds
      in if ds = [] \<or> list_ex (\<lambda>v. case v of None \<Rightarrow> True | Some d \<Rightarrow> r \<le> d) vs then None
         else Some (of_nat (foldl (\<lambda>a v. a * r + the v) 0 vs)))"

definition exponent_value :: "string \<Rightarrow> int option" where
  "exponent_value s =
     (case s of
        [] \<Rightarrow> None
      | c # cs \<Rightarrow>
          (let ds = (if c = CHR ''-'' \<or> c = CHR ''+'' then cs else s)
           in if ds = [] \<or> \<not> list_all js_is_digit ds then None
              else Some (if c = CHR ''-'' then - digits_value ds else digits_value ds)))"

definition pow10 :: "int \<Rightarrow> rat" where
  "pow10 e = (if 0 \<le> e then 10 ^ nat e else 1 / 10 ^ nat (- e))"

definition unsigned_decimal :: "string \<Rightarrow> rat option" where
  "unsigned_decimal s =
     (let whole = takeWhile js_is_digit s;
          r1 = dropWhile js_is_digit s;
          dot = (r1 \<noteq> [] \<and> hd r1 = CHR ''.'');
          frac = (if dot then takeWhile js_is_digit (tl r1) else []);
          r2 = (if dot then dropWhile js_is_digit (tl r1) else r1);
          mant = of_int (digits_value (whole @ frac)) * pow10 (- int (length frac))
      in if whole = [] \<and> frac = [] then None
         else if r2 = [] then Some mant
         else if hd r2 = CHR ''e'' \<or> hd r2 = CHR ''E''
         then map_option (\<lambda>e. mant * pow10 e) (exponent_value (tl r2))
         else None)"

definition js_number :: "string \<Rightarrow> rat option" where
  "js_number str =
     (let s = js_trim str;
          p = take 2 s;
          r = (if s = [] then Some 0
               else if p = ''0x'' \<or> p = ''0X'' then radix_number 16 (drop 2 s)
               else if p = ''0o'' \<or> p = ''0O'' then radix_number 8 (drop 2 s)
               else if p = ''0b'' \<or> p = ''0B'' then radix_number 2 (drop 2 s)
               else if hd s = CHR ''-'' then map_option uminus (unsigned_decimal (tl s))
               else unsigned_decimal (if hd s = CHR ''+'' then tl s else s))
      in case r of None \<Rightarrow> None | Some x \<Rightarrow> if \<bar>x\<bar> < 2 ^ 1024 - 2 ^ 970 then Some x else None)"

datatype note_value = NStr string | NInt int | NBool bool | NNull

type_synonym note_map = "string \<Rightarrow> note_value option"

fun note_string :: "note_value \<Rightarrow> string" where
  "note_string (NStr s) = s"
| "note_string (NInt i) = show_int i"
| "note_string (NBool b) = (if b then ''true'' else ''false'')"
| "note_string NNull = ''null''"

definition noteStr :: "note_map \<Rightarrow> string \<Rightarrow> string option" where
  "noteStr ns key =
     (case ns key of
        None \<Rightarrow> None
      | Some v \<Rightarrow> if v = NNull then None
                else (let s = js_trim (note_string v) in if s = [] then None else Some s))"

definition isWalletProductNotes :: "note_map \<Rightarrow> string option \<Rightarrow> bool" where
  "isWalletProductNotes ns receipt =
     (let productType = noteStr ns ''productType''
      in if productType = Some ''vip_membership'' \<or> productType = Some ''moments_premium_membership'' then False
         else if noteStr ns ''coins'' \<noteq> None \<or> noteStr ns ''packageId'' \<noteq> None then True
         else (case receipt of None \<Rightarrow> False | Some r \<Rightarrow> starts_with r ''web_c_'' \<or> starts_with r ''coins_''))"

text \<open>\<open>[...new Set(xs)]\<close> keeps the first occurrence of each element.\<close>

fun js_set :: "string list \<Rightarrow> string list" where
  "js_set [] = []"
| "js_set (x # xs) = x # filter (\<lambda>y. y \<noteq> x) (js_set xs)"

definition phoneVariants :: "string \<Rightarrow> string list" where
  "phoneVariants phone =
     (let digits = filter js_is_digit phone;
          last10 = drop (length digits - 10) digits;
          base = [phone, digits, ''+'' @ digits, last10];
          out = (if length last10 = 10 then base @ [''+91'' @ last10, ''91'' @ last10] else base)
      in js_set (filter (\<lambda>s. s \<noteq> []) out))"

section \<open>Prices\<close>

record coin_pack =
  cp_coins :: int
  cp_tier1PriceInr :: int
  cp_tier2PriceInr :: int
  cp_isActive :: bool

datatype pricing_tier = tier1 | tier2

record recharge_benefits =
  rb_discountedPriceInr :: int
  rb_originalPriceInr :: int
  rb_discountPercent :: int
  rb_baseCoins :: int
  rb_bonusCoins :: int
  rb_totalCoins :: int
  rb_bonusPercent :: int
  rb_bonusReason :: "string option"
  rb_benefitsApplied :: bool
  rb_vipDiscountApplied :: bool
  rb_vipBonusApplied :: bool

definition hasCompletedCoinPurchase :: "string \<Rightarrow> coin_store \<Rightarrow> bool" where
  "hasCompletedCoinPurchase uid st =
     list_ex (\<lambda>t. tx_userId t = uid \<and> tx_source t = ''payment_gateway'' \<and> tx_status t = TCompleted \<and> tx_type t = Credit)
       (txns st)"

definition getEffectivePackPrice :: "coin_pack \<Rightarrow> pricing_tier \<Rightarrow> int" where
  "getEffectivePackPrice pack tier = (if tier = tier1 then cp_tier1PriceInr pack else cp_tier2PriceInr pack)"

definition resolveUserPricingTier :: "string \<Rightarrow> coin_store \<Rightarrow> pricing_tier" where
  "resolveUserPricingTier uid st = (if hasCompletedCoinPurchase uid st then tier2 else tier1)"

definition normalizePackageId :: "int \<Rightarrow> string" where
  "normalizePackageId coins = ''pack_'' @ show_int coins"

definition getActiveCoinPackByPackageIdForTier :: "coin_pack list \<Rightarrow> string \<Rightarrow> pricing_tier \<Rightarrow> (int \<times> int) option" where
  "getActiveCoinPackByPackageIdForTier packs packageId tier =
     map_option (\<lambda>p. (cp_coins p, getEffectivePackPrice p tier))
       (List.find (\<lambda>p. normalizePackageId (cp_coins p) = packageId) (filter cp_isActive packs))"

definition readBonusBps :: "env \<Rightarrow> int" where
  "readBonusBps env =
     (case env ''VIP_RECHARGE_BONUS_BPS'' of
        None \<Rightarrow> 1000
      | Some raw \<Rightarrow> if raw = [] then 1000
                   else (case js_parse_int raw of
                           None \<Rightarrow> 1000
                         | Some n \<Rightarrow> if js_finite n \<and> 0 \<le> n then n else 1000))"

definition applyBpsDiscount :: "int \<Rightarrow> int \<Rightarrow> int" where
  "applyBpsDiscount amount discountBps =
     (if discountBps \<le> 0 then amount else max 1 (amount * (10000 - discountBps) div 10000))"

definition resolveRechargeBenefits ::
  "env \<Rightarrow> bool \<Rightarrow> bool \<Rightarrow> bool \<Rightarrow> int \<Rightarrow> int \<Rightarrow> int \<Rightarrow> recharge_benefits" where
  "resolveRechargeBenefits env vipEnabled vipRechargeBonusEnabled vipActive rechargeDiscountBps priceInr coins =
     (let perks = vipEnabled \<and> vipActive;
          discount = perks \<and> rechargeDiscountBps > 0;
          discounted = (if discount then applyBpsDiscount priceInr rechargeDiscountBps else priceInr);
          bonusBps = readBonusBps env;
          bonus = perks \<and> vipRechargeBonusEnabled \<and> bonusBps > 0;
          bonusCoins = (if bonus then coins * bonusBps div 10000 else 0);
          vipDiscount = discount \<and> discounted < priceInr;
          vipBonus = bonus \<and> bonusCoins > 0
      in \<lparr> rb_discountedPriceInr = discounted, rb_originalPriceInr = priceInr,
           rb_discountPercent = (if discount then js_round (of_int rechargeDiscountBps / 100) else 0),
           rb_baseCoins = coins, rb_bonusCoins = bonusCoins, rb_totalCoins = coins + bonusCoins,
           rb_bonusPercent = (if bonus then js_round (of_int bonusBps / 100) else 0),
           rb_bonusReason = (if vipBonus then Some ''VIP'' else None),
           rb_benefitsApplied = (vipDiscount \<or> vipBonus), rb_vipDiscountApplied = vipDiscount,
           rb_vipBonusApplied = vipBonus \<rparr>)"

section \<open>Finalization\<close>

definition buildPendingTransactionId :: "string \<Rightarrow> string" where
  "buildPendingTransactionId orderId = ''pay_'' @ orderId"

definition buildPendingBonusTransactionId :: "string \<Rightarrow> string" where
  "buildPendingBonusTransactionId orderId = ''pay_bonus_'' @ orderId"

text \<open>\<open>getOrderTransactionSelectors\<close>: a row of the order matches one of the three selectors.\<close>

definition matches_order :: "string \<Rightarrow> coin_txn \<Rightarrow> bool" where
  "matches_order orderId t \<longleftrightarrow>
     tx_transactionId t = buildPendingTransactionId orderId \<or> tx_transactionId t = ''razorpay_'' @ orderId \<or>
     tx_paymentGatewayOrderId t = Some orderId"

definition complete_row :: "string \<Rightarrow> string \<Rightarrow> coin_txn \<Rightarrow> coin_txn" where
  "complete_row orderId paymentId t =
     t\<lparr>tx_status := TCompleted, tx_paymentGatewayTransactionId := Some paymentId, tx_paymentGatewayOrderId := Some orderId\<rparr>"

definition completePendingTransaction :: "coin_txn \<Rightarrow> string \<Rightarrow> string \<Rightarrow> coin_store \<Rightarrow> (coin_txn \<times> coin_store) option" where
  "completePendingTransaction tx orderId paymentId st =
     map_option (\<lambda>t. (complete_row orderId paymentId t,
                       update_txn (tx_transactionId tx) (complete_row orderId paymentId) st))
       (find_txn (\<lambda>t. tx_transactionId t = tx_transactionId tx \<and> tx_status t \<noteq> TCompleted) st)"

record finalize_payment_result =
  fpr_completed :: bool
  fpr_transaction :: coin_txn
  fpr_updatedUserCoins :: rat
  fpr_coinsAdded :: rat

definition coins_of :: "string \<Rightarrow> coin_store \<Rightarrow> rat" where
  "coins_of uid st = (case findById uid st of None \<Rightarrow> 0 | Some a \<Rightarrow> a_coins a)"

text \<open>The pending bonus of the order, completed: the coins it adds and the store.\<close>

definition complete_bonus :: "string \<Rightarrow> string \<Rightarrow> coin_store \<Rightarrow> rat \<times> coin_store" where
  "complete_bonus orderId paymentId st =
     (case txn_by_id (buildPendingBonusTransactionId orderId) st of
        None \<Rightarrow> (0, st)
      | Some b \<Rightarrow>
          if tx_status b = TCompleted then (0, st)
          else (case completePendingTransaction b orderId paymentId st of
                  None \<Rightarrow> (0, st)
                | Some (b', st') \<Rightarrow> (tx_coins b', st')))"

definition finalize_txn ::
  "string \<Rightarrow> string \<Rightarrow> string option \<Rightarrow> coin_store \<Rightarrow> string + finalize_payment_result \<times> coin_store" where
  "finalize_txn orderId paymentId expectedUserId st =
     (case find_txn (matches_order orderId) st of
        None \<Rightarrow> Inl ''TRANSACTION_NOT_FOUND''
      | Some cur \<Rightarrow>
          if expectedUserId \<noteq> None \<and> expectedUserId \<noteq> Some [] \<and> expectedUserId \<noteq> Some (tx_userId cur)
          then Inl ''TRANSACTION_USER_MISMATCH''
          else (case findById (tx_userId cur) st of
                  None \<Rightarrow> Inl ''USER_NOT_FOUND''
                | Some user \<Rightarrow>
                    (case completePendingTransaction cur orderId paymentId st of
                       None \<Rightarrow>
                         (case txn_by_id (tx_transactionId cur) st of
                            None \<Rightarrow> Inl ''TRANSACTION_NOT_FOUND''
                          | Some already \<Rightarrow>
                              (let (bonus, st1) = complete_bonus orderId paymentId st;
                                   st2 = inc_coins (tx_userId cur) bonus st1
                               in Inr (\<lparr> fpr_completed = False, fpr_transaction = already,
                                         fpr_updatedUserCoins = coins_of (tx_userId cur) st2, fpr_coinsAdded = bonus \<rparr>, st2)))
                     | Some (updated, st1) \<Rightarrow>
                         (let (bonus, st2) = complete_bonus orderId paymentId st1;
                              total = tx_coins updated + bonus;
                              st3 = inc_coins (tx_userId cur) total st2
                          in Inr (\<lparr> fpr_completed = True, fpr_transaction = updated,
                                    fpr_updatedUserCoins = coins_of (tx_userId cur) st3, fpr_coinsAdded = total \<rparr>, st3)))))"

datatype pay_event =
    CreatorReferralPurchaseHook string
  | CoinsUpdated string rat
  | ReferralRewardOnPurchase string "rat option"
  | FirstRechargeHook string

definition finalizePaymentAtomically ::
  "string \<Rightarrow> string \<Rightarrow> string option \<Rightarrow> coin_store \<Rightarrow> (string + finalize_payment_result) \<times> coin_store \<times> pay_event list" where
  "finalizePaymentAtomically orderId paymentId expectedUserId st =
     (case finalize_txn orderId paymentId expectedUserId st of
        Inl e \<Rightarrow> (Inl e, st, [])
      | Inr (r, st') \<Rightarrow> (Inr r, st', [CreatorReferralPurchaseHook (tx_userId (fpr_transaction r))]))"

definition bonus_row :: "string \<Rightarrow> string \<Rightarrow> rat \<Rightarrow> string \<Rightarrow> coin_txn" where
  "bonus_row uid orderId coins reason =
     \<lparr> tx_transactionId = buildPendingBonusTransactionId orderId, tx_userId = uid, tx_type = Credit, tx_coins = coins,
       tx_source = ''recharge_bonus'', tx_bonusReason = Some reason, tx_paymentGatewayTransactionId = None,
       tx_paymentGatewayOrderId = Some orderId, tx_priceInr = None, tx_status = TPending \<rparr>"

text \<open>The insert after the lookup raises the duplicate key error when another request came first.\<close>

definition createPendingBonusCoinTransaction ::
  "(coin_store \<Rightarrow> coin_store) \<Rightarrow> string \<Rightarrow> string \<Rightarrow> rat \<Rightarrow> string \<Rightarrow> coin_store \<Rightarrow> string option \<times> coin_store" where
  "createPendingBonusCoinTransaction others uid orderId bonusCoins reason st =
     (if bonusCoins \<le> 0 then (None, st)
      else if txn_by_id (buildPendingBonusTransactionId orderId) st \<noteq> None then (None, st)
      else (let st1 = others st
            in case create_txn (bonus_row uid orderId bonusCoins reason) st1 of
                 None \<Rightarrow> (Some ''E11000'', st1)
               | Some st2 \<Rightarrow> (None, st2)))"

section \<open>The provider\<close>

record payment_doc =
  pd_order_id :: string
  pd_status :: string
  pd_notes :: note_map
  pd_contact :: "string option"
  pd_email :: "string option"

record order_doc =
  od_notes :: note_map
  od_receipt :: "string option"
  od_amount :: "rat option"

record checkout_session =
  cs_firebaseUid :: string
  cs_userId :: string
  cs_packageId :: string
  cs_coins :: int
  cs_priceInr :: int
  cs_pricingTier :: pricing_tier
  cs_bonusCoins :: int
  cs_sessionBonusReason :: "string option"
  cs_checkoutId :: "string option"

text \<open>
  \<open>pe_payment\<close> and \<open>pe_order\<close> are the fetches of the provider (an error message, or the document if there
  is one), \<open>pe_session\<close> decodes a checkout token, \<open>pe_signature\<close> is the comparison of the client's
  signature (\<open>None\<close> without a key), \<open>pe_isValidObjectId\<close> the check of the database driver.
\<close>

record pay_env =
  pe_env :: env
  pe_mock :: bool
  pe_payment :: "string \<Rightarrow> string + payment_doc option"
  pe_order :: "string \<Rightarrow> string + order_doc option"
  pe_session :: "string \<Rightarrow> checkout_session option"
  pe_signature :: "string \<Rightarrow> string \<Rightarrow> string \<Rightarrow> bool option"
  pe_isValidObjectId :: "string \<Rightarrow> bool"

definition no_notes :: note_map where
  "no_notes = (\<lambda>_. None)"

definition fetch_captured :: "pay_env \<Rightarrow> string \<Rightarrow> string \<Rightarrow> string + payment_doc \<times> order_doc option" where
  "fetch_captured pe orderId paymentId =
     (case pe_payment pe paymentId of
        Inl e \<Rightarrow> Inl e
      | Inr None \<Rightarrow> Inl ''PAYMENT_ORDER_MISMATCH''
      | Inr (Some p) \<Rightarrow>
          if pd_order_id p \<noteq> orderId then Inl ''PAYMENT_ORDER_MISMATCH''
          else if pd_status p \<noteq> ''captured''
          then Inl (''PAYMENT_NOT_CAPTURED:'' @ (if pd_status p = [] then ''unknown'' else pd_status p))
          else (case pe_order pe orderId of Inl e \<Rightarrow> Inl e | Inr d \<Rightarrow> Inr (p, d)))"

definition mock_payment :: "string \<Rightarrow> payment_doc" where
  "mock_payment orderId =
     \<lparr> pd_order_id = orderId, pd_status = ''captured'', pd_notes = no_notes, pd_contact = None, pd_email = None \<rparr>"

definition fetchCapturedPaymentAndOrder :: "pay_env \<Rightarrow> string \<Rightarrow> string \<Rightarrow> string + payment_doc \<times> order_doc option" where
  "fetchCapturedPaymentAndOrder pe orderId paymentId =
     (if pe_mock pe
      then Inr (mock_payment orderId, Some \<lparr> od_notes = no_notes, od_receipt = None, od_amount = Some 0 \<rparr>)
      else fetch_captured pe orderId paymentId)"

definition verifyProviderPaymentCaptured :: "pay_env \<Rightarrow> string \<Rightarrow> string \<Rightarrow> string + payment_doc \<times> order_doc option" where
  "verifyProviderPaymentCaptured pe orderId paymentId =
     (if pe_mock pe then Inr (mock_payment orderId, None) else fetch_captured pe orderId paymentId)"

section \<open>Checkout contexts\<close>

datatype checkout_status = cc_created | cc_pending | cc_success | cc_failed | cc_cancelled

record checkout_context =
  cc_checkoutId :: string
  cc_userId :: string
  cc_status :: checkout_status
  cc_orderId :: "string option"
  cc_walletDelta :: "rat option"

datatype webhook_status = we_received | we_processing | we_processed | we_failed

record webhook_event =
  we_eventId :: string
  we_eventType :: string
  we_orderId :: "string option"
  we_paymentId :: "string option"
  we_status :: webhook_status
  we_attemptCount :: int
  we_nextRetryAt :: "millis option"
  we_failureReason :: "string option"

record pay_state =
  store :: coin_store
  contexts :: "checkout_context list"
  webhooks :: "webhook_event list"
  payEvents :: "pay_event list"

definition emit_pay :: "pay_event list \<Rightarrow> pay_state \<Rightarrow> pay_state" where
  "emit_pay es st = st\<lparr>payEvents := payEvents st @ es\<rparr>"

definition upd_store :: "(coin_store \<Rightarrow> coin_store) \<Rightarrow> pay_state \<Rightarrow> pay_state" where
  "upd_store f st = st\<lparr>store := f (store st)\<rparr>"

definition attachCheckoutOrder :: "string option \<Rightarrow> string \<Rightarrow> pay_state \<Rightarrow> pay_state" where
  "attachCheckoutOrder checkoutId orderId st =
     (case checkoutId of
        None \<Rightarrow> st
      | Some cid \<Rightarrow> if cid = [] then st
          else st\<lparr>contexts := map (\<lambda>c. if cc_checkoutId c = cid \<and> cc_status c = cc_created
                                        then c\<lparr>cc_orderId := Some orderId, cc_status := cc_pending\<rparr> else c) (contexts st)\<rparr>)"

definition recordCheckoutResult :: "string option \<Rightarrow> checkout_status \<Rightarrow> rat option \<Rightarrow> pay_state \<Rightarrow> pay_state" where
  "recordCheckoutResult checkoutId status delta st =
     (case checkoutId of
        None \<Rightarrow> st
      | Some cid \<Rightarrow> if cid = [] then st
          else st\<lparr>contexts := map (\<lambda>c. if cc_checkoutId c = cid then c\<lparr>cc_status := status, cc_walletDelta := delta\<rparr> else c)
                               (contexts st)\<rparr>)"

definition recordHostedCheckoutResult :: "pay_env \<Rightarrow> string \<Rightarrow> checkout_status \<Rightarrow> pay_state \<Rightarrow> int \<times> pay_state" where
  "recordHostedCheckoutResult pe checkoutToken status st =
     (if status \<noteq> cc_cancelled \<and> status \<noteq> cc_failed then (400, st)
      else (case pe_session pe checkoutToken of
              None \<Rightarrow> (401, st)
            | Some s \<Rightarrow>
                (case cs_checkoutId s of
                   None \<Rightarrow> (401, st)
                 | Some cid \<Rightarrow>
                     (200, st\<lparr>contexts := map (\<lambda>c. if cc_checkoutId c = cid \<and> (cc_status c = cc_created \<or> cc_status c = cc_pending)
                                                  then c\<lparr>cc_status := status\<rparr> else c) (contexts st)\<rparr>))))"

section \<open>Reconciliation of a captured payment\<close>

definition main_row :: "string \<Rightarrow> string \<Rightarrow> rat \<Rightarrow> rat \<Rightarrow> coin_txn" where
  "main_row uid orderId coins price =
     \<lparr> tx_transactionId = buildPendingTransactionId orderId, tx_userId = uid, tx_type = Credit, tx_coins = coins,
       tx_source = ''payment_gateway'', tx_bonusReason = None, tx_paymentGatewayTransactionId = Some orderId,
       tx_paymentGatewayOrderId = Some orderId, tx_priceInr = Some price, tx_status = TPending \<rparr>"

definition ensurePendingCoinTransaction ::
  "(coin_store \<Rightarrow> coin_store) \<Rightarrow> string \<Rightarrow> string \<Rightarrow> rat \<Rightarrow> rat \<Rightarrow> coin_store \<Rightarrow> bool \<times> coin_store" where
  "ensurePendingCoinTransaction others uid orderId coins price st =
     (if find_txn (matches_order orderId) st \<noteq> None then (False, st)
      else (let st1 = others st
            in case create_txn (main_row uid orderId coins price) st1 of
                 None \<Rightarrow> (False, st1)
               | Some st2 \<Rightarrow> (True, st2)))"

text \<open>\<open>find(...).limit(2)\<close> with exactly one result.\<close>

definition the_only :: "(account \<Rightarrow> bool) \<Rightarrow> coin_store \<Rightarrow> account option" where
  "the_only P st = (case filter P (accounts st) of [a] \<Rightarrow> Some a | _ \<Rightarrow> None)"

definition by_user_id :: "pay_env \<Rightarrow> note_map \<Rightarrow> coin_store \<Rightarrow> account option" where
  "by_user_id pe ns st =
     (case noteStr ns ''userId'' of
        None \<Rightarrow> None
      | Some u \<Rightarrow> if pe_isValidObjectId pe u then findById u st else None)"

definition by_firebase_uid :: "note_map \<Rightarrow> coin_store \<Rightarrow> account option" where
  "by_firebase_uid ns st =
     (case noteStr ns ''firebaseUid'' of
        None \<Rightarrow> None
      | Some f \<Rightarrow> List.find (\<lambda>a. a_firebaseUid a = f) (accounts st))"

definition by_contact :: "string option \<Rightarrow> coin_store \<Rightarrow> account option" where
  "by_contact contact st =
     (case contact of
        None \<Rightarrow> None
      | Some c \<Rightarrow> if c = [] then None
          else the_only (\<lambda>a. case a_phone a of None \<Rightarrow> False | Some p \<Rightarrow> p \<in> set (phoneVariants c)) st)"

definition by_email :: "string option \<Rightarrow> coin_store \<Rightarrow> account option" where
  "by_email email st =
     (case email of
        None \<Rightarrow> None
      | Some e \<Rightarrow> if e = [] \<or> js_includes (js_to_lower e) ''void@razorpay'' then None
          else the_only (\<lambda>a. a_email a = Some (js_to_lower (js_trim e))) st)"

definition resolveWalletUser :: "pay_env \<Rightarrow> note_map \<Rightarrow> string option \<Rightarrow> string option \<Rightarrow> coin_store \<Rightarrow> account option" where
  "resolveWalletUser pe ns contact email st =
     (case by_user_id pe ns st of
        Some a \<Rightarrow> Some a
      | None \<Rightarrow>
          (case by_firebase_uid ns st of
             Some a \<Rightarrow> Some a
           | None \<Rightarrow>
               (case by_contact contact st of
                  Some a \<Rightarrow> Some a
                | None \<Rightarrow> by_email email st)))"

datatype reconcile_outcome = Credited | AlreadyCompleted | Skip | FailedReconcile

record reconcile_result =
  rr_outcome :: reconcile_outcome
  rr_reason :: "string option"
  rr_coinsAdded :: "rat option"
  rr_updatedUserCoins :: "rat option"
  rr_completed :: "bool option"

definition plain_outcome :: "reconcile_outcome \<Rightarrow> string \<Rightarrow> reconcile_result" where
  "plain_outcome k reason =
     \<lparr> rr_outcome = k, rr_reason = Some reason, rr_coinsAdded = None, rr_updatedUserCoins = None, rr_completed = None \<rparr>"

text \<open>The amounts of the order: an error, or its coins and price.\<close>

definition wallet_amounts :: "note_map \<Rightarrow> order_doc option \<Rightarrow> string + rat \<times> rat" where
  "wallet_amounts ns order =
     (let amount = (case order of None \<Rightarrow> None | Some d \<Rightarrow> od_amount d);
          coins = (case noteStr ns ''coins'' of None \<Rightarrow> None | Some s \<Rightarrow> js_number s);
          price = (case noteStr ns ''priceInr'' of
                     Some s \<Rightarrow> js_number s
                   | None \<Rightarrow> map_option (\<lambda>a. a / 100) amount)
      in case coins of
           None \<Rightarrow> Inl ''notes_missing_coins''
         | Some c \<Rightarrow>
             if c \<le> 0 then Inl ''notes_missing_coins''
             else (case price of
                     None \<Rightarrow> Inl ''notes_missing_price''
                   | Some p \<Rightarrow>
                       if p \<le> 0 then Inl ''notes_missing_price''
                       else if amount \<noteq> None \<and> amount \<noteq> Some (of_int (js_round (p * 100))) then Inl ''amount_mismatch''
                       else Inr (c, p)))"

definition main_existing :: "string \<Rightarrow> string \<Rightarrow> coin_store \<Rightarrow> coin_txn option" where
  "main_existing orderId paymentId st =
     (case find_txn (\<lambda>t. (tx_paymentGatewayTransactionId t = Some paymentId \<or> matches_order orderId t) \<and>
                        (tx_source t = ''payment_gateway'' \<or> tx_source t = ''recharge_bonus'')) st of
        None \<Rightarrow> None
      | Some t \<Rightarrow> if tx_source t = ''payment_gateway'' then Some t
                 else find_txn (\<lambda>t. matches_order orderId t \<and> tx_source t = ''payment_gateway'') st)"

definition bonus_note :: "note_map \<Rightarrow> rat" where
  "bonus_note ns =
     (case noteStr ns ''bonusCoins'' of
        None \<Rightarrow> 0
      | Some s \<Rightarrow> (case js_number s of None \<Rightarrow> 0 | Some n \<Rightarrow> n))"

text \<open>From the resolved user on: the pending rows, then the finalization.\<close>

definition reconcile_for ::
  "(nat \<Rightarrow> coin_store \<Rightarrow> coin_store) \<Rightarrow> note_map \<Rightarrow> string \<Rightarrow> string \<Rightarrow> string \<Rightarrow> rat \<Rightarrow> rat \<Rightarrow> coin_store
   \<Rightarrow> reconcile_result \<times> coin_store \<times> pay_event list" where
  "reconcile_for others ns orderId paymentId uid coins price st =
     (let (_, st1) = ensurePendingCoinTransaction (others 1) uid orderId coins price st;
          (e, st2) = createPendingBonusCoinTransaction (others 3) uid orderId (bonus_note ns)
                       (nvl (noteStr ns ''bonusReason'') ''VIP'') (others 2 st1)
      in case e of
           Some m \<Rightarrow> (plain_outcome FailedReconcile m, st2, [])
         | None \<Rightarrow>
             (case finalizePaymentAtomically orderId paymentId (Some uid) (others 4 st2) of
                (Inl m, st3, evs) \<Rightarrow> (plain_outcome FailedReconcile m, st3, evs)
              | (Inr r, st3, evs) \<Rightarrow>
                  (\<lparr> rr_outcome = (if fpr_completed r then Credited else AlreadyCompleted), rr_reason = None,
                     rr_coinsAdded = Some (fpr_coinsAdded r), rr_updatedUserCoins = Some (fpr_updatedUserCoins r),
                     rr_completed = Some (fpr_completed r) \<rparr>, st3, evs)))"

definition reconcileCapturedWalletPayment ::
  "pay_env \<Rightarrow> (nat \<Rightarrow> coin_store \<Rightarrow> coin_store) \<Rightarrow> checkout_context list \<Rightarrow> string \<Rightarrow> string \<Rightarrow> string option \<Rightarrow> coin_store
   \<Rightarrow> reconcile_result \<times> coin_store \<times> pay_event list" where
  "reconcileCapturedWalletPayment pe others ctxs orderId paymentId expectedUserId st =
     (case fetchCapturedPaymentAndOrder pe orderId paymentId of
        Inl m \<Rightarrow> (plain_outcome FailedReconcile m, st, [])
      | Inr (payment, order) \<Rightarrow>
          (let ns = (case order of None \<Rightarrow> no_notes | Some d \<Rightarrow> od_notes d) ++ pd_notes payment;
               receipt = (case order of None \<Rightarrow> None | Some d \<Rightarrow> od_receipt d)
           in if \<not> isWalletProductNotes ns receipt then (plain_outcome Skip ''not_wallet_product'', st, [])
              else (case wallet_amounts ns order of
                      Inl m \<Rightarrow> (plain_outcome Skip m, st, [])
                    | Inr (coins, price) \<Rightarrow>
                        if map_option tx_status (main_existing orderId paymentId st) = Some TCompleted
                        then (plain_outcome AlreadyCompleted ''already_completed'', st, [])
                        else (case resolveWalletUser pe ns (pd_contact payment) (pd_email payment) st of
                                None \<Rightarrow>
                                  (plain_outcome Skip
                                     (if list_ex (\<lambda>c. cc_orderId c = Some orderId \<and> cc_status c = cc_success) ctxs
                                      then ''user_deleted_after_credit'' else ''user_not_found''), st, [])
                              | Some u \<Rightarrow>
                                  if expectedUserId \<noteq> None \<and> expectedUserId \<noteq> Some [] \<and> expectedUserId \<noteq> Some (a_id u)
                                  then (plain_outcome FailedReconcile ''TRANSACTION_USER_MISMATCH'', st, [])
                                  else reconcile_for others ns orderId paymentId (a_id u) coins price (others 0 st)))))"

end
