(* ===== verification/Checkout.thy ===== *)
theory Checkout
  imports Purchases
begin

text \<open>
  The HTTP handlers of a coin purchase in \<open>payment/payment.controller.ts\<close>: checkout and order, the
  verification by the client, and the webhook of the provider with its retries. An answer is the
  status code with the reason the handler gives.
\<close>

type_synonym answer = "int \<times> string"

section \<open>Checkout and order\<close>

text \<open>
  \<open>initiateWebCheckout\<close>: the session it signs, or a refusal. \<open>vipActive\<close> and the flags are those of
  \<open>resolveRechargeBenefits\<close>; \<open>validNavigation\<close> is whether \<open>createCheckoutContext\<close> accepts the origin and
  the return path, \<open>baseUrl\<close> whether the address of the checkout page is configured.
\<close>

definition initiateWebCheckout ::
  "env \<Rightarrow> bool \<Rightarrow> bool \<Rightarrow> bool \<Rightarrow> int \<Rightarrow> coin_pack list \<Rightarrow> bool \<Rightarrow> bool \<Rightarrow> string \<Rightarrow> string option \<Rightarrow> int option \<Rightarrow> string
   \<Rightarrow> pay_state \<Rightarrow> (answer + checkout_session) \<times> pay_state" where
  "initiateWebCheckout env vipEnabled vipBonusEnabled vipActive discountBps packs validNavigation baseUrl firebaseUid packageId coins checkoutId st =
     (if packageId \<in> {None, Some []} \<and> coins \<in> {None, Some 0} then (Inl (400, ''Missing packageId''), st)
      else (case List.find (\<lambda>a. a_firebaseUid a = firebaseUid) (accounts (store st)) of
              None \<Rightarrow> (Inl (404, ''User not found''), st)
            | Some user \<Rightarrow>
                if a_role user \<noteq> ''user'' then (Inl (403, ''Only regular users can purchase coins''), st)
                else (let tier = resolveUserPricingTier (a_id user) (store st);
                          resolved = (case packageId of
                                        Some p \<Rightarrow> if js_trim p \<noteq> [] then js_trim p else normalizePackageId (num0 coins)
                                      | None \<Rightarrow> normalizePackageId (num0 coins))
                      in case getActiveCoinPackByPackageIdForTier packs resolved tier of
                           None \<Rightarrow> (Inl (400, ''Invalid packageId''), st)
                         | Some (c, price) \<Rightarrow>
                             if \<not> validNavigation then (Inl (400, ''Invalid returnTo''), st)
                             else (let b = resolveRechargeBenefits env vipEnabled vipBonusEnabled vipActive discountBps price c;
                                       st1 = st\<lparr>contexts := contexts st @
                                               [\<lparr> cc_checkoutId = checkoutId, cc_userId = a_id user, cc_status = cc_created,
                                                  cc_orderId = None, cc_walletDelta = None \<rparr>]\<rparr>
                                   in if \<not> baseUrl then (Inl (500, ''Failed to initiate checkout''), st1)
                                      else (Inr \<lparr> cs_firebaseUid = a_firebaseUid user, cs_userId = a_id user, cs_packageId = resolved,
                                                  cs_coins = rb_baseCoins b, cs_priceInr = rb_discountedPriceInr b,
                                                  cs_pricingTier = tier, cs_bonusCoins = rb_bonusCoins b,
                                                  cs_sessionBonusReason = rb_bonusReason b,
                                                  cs_checkoutId = Some checkoutId \<rparr>, st1)))))"

text \<open>The notes that \<open>createWebOrder\<close> stores with the provider.\<close>

definition web_order_notes :: "checkout_session \<Rightarrow> account \<Rightarrow> int \<Rightarrow> int \<Rightarrow> note_map" where
  "web_order_notes session user coins price =
     [''userId'' \<mapsto> NStr (a_id user), ''firebaseUid'' \<mapsto> NStr (a_firebaseUid user), ''packageId'' \<mapsto> NStr (cs_packageId session),
      ''coins'' \<mapsto> NStr (show_int coins), ''priceInr'' \<mapsto> NStr (show_int price),
      ''pricingTier'' \<mapsto> NStr (if cs_pricingTier session = tier1 then ''tier1'' else ''tier2'')]"

definition charged_price :: "checkout_session \<Rightarrow> int \<Rightarrow> int" where
  "charged_price session packPrice = (if cs_priceInr session > 0 then cs_priceInr session else packPrice)"

definition createPendingCoinTransaction :: "string \<Rightarrow> string \<Rightarrow> int \<Rightarrow> int \<Rightarrow> coin_store \<Rightarrow> coin_store option" where
  "createPendingCoinTransaction uid orderId coins price = create_txn (main_row uid orderId (of_int coins) (of_int price))"

text \<open>
  \<open>newOrder\<close> is the id the provider answers to the request (\<open>None\<close>: the request fails), \<open>keyId\<close> whether
  the key of the checkout page is configured. The answer carries the order id and the amount in paise.
\<close>

definition createWebOrder ::
  "pay_env \<Rightarrow> coin_pack list \<Rightarrow> string option \<Rightarrow> bool \<Rightarrow> (nat \<Rightarrow> coin_store \<Rightarrow> coin_store) \<Rightarrow> string \<Rightarrow> pay_state
   \<Rightarrow> (answer + string \<times> int) \<times> pay_state" where
  "createWebOrder pe packs newOrder keyId others checkoutToken st =
     (if checkoutToken = [] then (Inl (400, ''missing_checkout_token''), st)
      else (case pe_session pe checkoutToken of
        None \<Rightarrow> (Inl (401, ''invalid_or_expired_session''), st)
      | Some session \<Rightarrow>
          (case List.find (\<lambda>a. a_firebaseUid a = cs_firebaseUid session) (accounts (store st)) of
             None \<Rightarrow> (Inl (404, ''user_not_found''), st)
           | Some user \<Rightarrow>
               if a_id user \<noteq> cs_userId session \<or> a_role user \<noteq> ''user'' then (Inl (403, ''invalid_session_user''), st)
               else (case getActiveCoinPackByPackageIdForTier packs (cs_packageId session)
                            (resolveUserPricingTier (a_id user) (store st)) of
                  None \<Rightarrow> (Inl (400, ''invalid_session_package''), st)
                | Some (coins, packPrice) \<Rightarrow>
                    (case newOrder of
                       None \<Rightarrow> (Inl (500, ''internal_error''), st)
                     | Some orderId \<Rightarrow>
                         (let price = charged_price session packPrice; st0 = upd_store (others 0) st
                          in case createPendingCoinTransaction (a_id user) orderId coins price (store st0) of
                               None \<Rightarrow> (Inl (500, ''internal_error''), st0)
                             | Some s1 \<Rightarrow>
                                 (let st1 = attachCheckoutOrder (cs_checkoutId session) orderId (st0\<lparr>store := s1\<rparr>);
                                      (e, s2) = createPendingBonusCoinTransaction (others 2) (a_id user) orderId
                                                  (of_int (cs_bonusCoins session)) (nvl (cs_sessionBonusReason session) ''VIP'')
                                                  (others 1 (store st1));
                                      st2 = st1\<lparr>store := s2\<rparr>
                                  in if e \<noteq> None then (Inl (500, ''internal_error''), st2)
                                     else if \<not> keyId then (Inl (500, ''missing_razorpay_key_id''), st2)
                                     else (Inr (orderId, price * 100), st2))))))))"

section \<open>Verification by the client\<close>

text \<open>A refused signature marks the first row of the order failed, whatever its status.\<close>

definition fail_order :: "string \<Rightarrow> coin_store \<Rightarrow> coin_store" where
  "fail_order orderId st =
     (case find_txn (matches_order orderId) st of
        None \<Rightarrow> st
      | Some t \<Rightarrow> update_txn (tx_transactionId t) (\<lambda>r. r\<lparr>tx_status := TFailed\<rparr>) st)"

definition provider_refusal :: "string \<Rightarrow> answer" where
  "provider_refusal m =
     (if starts_with m ''PAYMENT_NOT_CAPTURED'' then (202, ''payment_not_captured'')
      else if m = ''PAYMENT_ORDER_MISMATCH'' then (400, ''order_payment_mismatch'')
      else (202, ''provider_verification_failed''))"

definition note_truthy :: "note_map \<Rightarrow> string \<Rightarrow> note_value option" where
  "note_truthy ns key =
     (case ns key of
        None \<Rightarrow> None
      | Some v \<Rightarrow> if v = NNull \<or> v = NStr [] \<or> v = NInt 0 \<or> v = NBool False then None else Some v)"

text \<open>\<open>Number(v)\<close> of a note.\<close>

fun note_number :: "note_value \<Rightarrow> rat option" where
  "note_number (NStr s) = js_number s"
| "note_number (NInt i) = Some (of_int i)"
| "note_number (NBool b) = Some (if b then 1 else 0)"
| "note_number NNull = Some 0"

definition success_effects :: "account \<Rightarrow> rat option \<Rightarrow> bool \<Rightarrow> rat \<Rightarrow> pay_event list" where
  "success_effects user price completed coins =
     (if completed
      then [CoinsUpdated (a_id user) coins, ReferralRewardOnPurchase (a_id user) price,
            FirstRechargeHook (a_id user)]
      else [])"

text \<open>After the row is found: ownership, the coins of the provider, the finalization.\<close>

definition verify_with_row ::
  "pay_env \<Rightarrow> (nat \<Rightarrow> coin_store \<Rightarrow> coin_store) \<Rightarrow> checkout_session \<Rightarrow> account \<Rightarrow> note_map \<Rightarrow> string \<Rightarrow> string \<Rightarrow> coin_txn
   \<Rightarrow> pay_state \<Rightarrow> answer \<times> pay_state" where
  "verify_with_row pe others session user ns orderId paymentId t st =
     (let price = (case note_truthy ns ''priceInr'' of
                     Some v \<Rightarrow> map_option of_int (js_parse_int (note_string v))
                   | None \<Rightarrow> Some (of_int (cs_priceInr session)))
      in if tx_userId t \<noteq> a_id user then ((403, ''txn_user_mismatch''), st)
         else if (case note_truthy ns ''coins'' of None \<Rightarrow> False | Some v \<Rightarrow> note_number v \<noteq> Some (tx_coins t))
         then ((400, ''provider_coin_mismatch''), st)
         else (case finalizePaymentAtomically orderId paymentId (Some (a_id user)) (store st) of
                 (Inr r, s1, evs) \<Rightarrow>
                   ((200, if fpr_completed r then ''completed'' else ''already_completed''),
                    recordCheckoutResult (cs_checkoutId session) cc_success (Some (fpr_coinsAdded r))
                      (emit_pay (evs @ success_effects user price (fpr_completed r) (fpr_updatedUserCoins r)) (st\<lparr>store := s1\<rparr>)))
               | (Inl m, s1, evs) \<Rightarrow>
                   if m = ''TRANSACTION_NOT_FOUND''
                   then (case reconcileCapturedWalletPayment pe others (contexts st) orderId paymentId (Some (a_id user)) s1 of
                           (r, s2, evs2) \<Rightarrow>
                             if rr_outcome r = Credited \<or> rr_outcome r = AlreadyCompleted
                             then ((200, if nvl (rr_completed r) True then ''completed'' else ''already_completed''),
                                   recordCheckoutResult (cs_checkoutId session) cc_success (Some (nvl (rr_coinsAdded r) 0))
                                     (emit_pay (evs2 @ success_effects user price (nvl (rr_completed r) True)
                                                         (nvl (rr_updatedUserCoins r) (a_coins user)))
                                       (st\<lparr>store := s2\<rparr>)))
                             else ((404, ''txn_not_found''), emit_pay evs2 (st\<lparr>store := s2\<rparr>)))
                   else if m = ''TRANSACTION_USER_MISMATCH'' then ((403, ''txn_user_mismatch''), st)
                   else ((500, ''finalize_error''), st)))"

definition verify_captured ::
  "pay_env \<Rightarrow> (nat \<Rightarrow> coin_store \<Rightarrow> coin_store) \<Rightarrow> checkout_session \<Rightarrow> account \<Rightarrow> string \<Rightarrow> string \<Rightarrow> pay_state
   \<Rightarrow> answer \<times> pay_state" where
  "verify_captured pe others session user orderId paymentId st =
     (case verifyProviderPaymentCaptured pe orderId paymentId of
        Inl m \<Rightarrow> (provider_refusal m, st)
      | Inr (payment, order) \<Rightarrow>
          (let ns = (case order of None \<Rightarrow> no_notes | Some d \<Rightarrow> od_notes d);
               named = map_option note_string (note_truthy ns ''userId'')
           in if named \<noteq> None \<and> named \<noteq> Some (a_id user) then ((403, ''provider_user_mismatch''), st)
              else (case find_txn (matches_order orderId) (store st) of
                      Some t \<Rightarrow> verify_with_row pe others session user ns orderId paymentId t st
                    | None \<Rightarrow>
                        (case reconcileCapturedWalletPayment pe others (contexts st) orderId paymentId (Some (a_id user)) (store st) of
                           (r, s1, evs) \<Rightarrow>
                             (let st1 = emit_pay evs (st\<lparr>store := s1\<rparr>)
                              in if rr_outcome r \<noteq> Credited \<and> rr_outcome r \<noteq> AlreadyCompleted then ((404, ''txn_not_found''), st1)
                                 else (case find_txn (matches_order orderId) s1 of
                                         None \<Rightarrow> ((404, ''txn_not_found''), st1)
                                       | Some t \<Rightarrow> verify_with_row pe others session user ns orderId paymentId t st1))))))"

definition verifyWebPayment ::
  "pay_env \<Rightarrow> (nat \<Rightarrow> coin_store \<Rightarrow> coin_store) \<Rightarrow> string \<Rightarrow> string \<Rightarrow> string \<Rightarrow> string \<Rightarrow> pay_state \<Rightarrow> answer \<times> pay_state" where
  "verifyWebPayment pe others checkoutToken orderId paymentId signature st =
     (if checkoutToken = [] then ((400, ''missing_checkout_token''), st)
      else if orderId = [] \<or> paymentId = [] \<or> signature = [] then ((400, ''missing_required_fields''), st)
      else (case pe_session pe checkoutToken of
              None \<Rightarrow> ((401, ''session_expired''), st)
            | Some session \<Rightarrow>
                (case List.find (\<lambda>a. a_firebaseUid a = cs_firebaseUid session) (accounts (store st)) of
                   None \<Rightarrow> ((403, ''invalid_session_user''), st)
                 | Some user \<Rightarrow>
                     if a_id user \<noteq> cs_userId session \<or> a_role user \<noteq> ''user'' then ((403, ''invalid_session_user''), st)
                     else (case pe_signature pe orderId paymentId signature of
                             None \<Rightarrow> ((500, ''signature_verifier_unavailable''), st)
                           | Some False \<Rightarrow>
                               ((400, ''signature_mismatch''),
                                upd_store (fail_order orderId) (recordCheckoutResult (cs_checkoutId session) cc_failed None st))
                           | Some True \<Rightarrow> verify_captured pe others session user orderId paymentId st))))"

section \<open>Webhook\<close>

definition payment_webhook_max_retries :: "env \<Rightarrow> int" where
  "payment_webhook_max_retries env =
     max 1 (or_else (js_parse_int (case env ''PAYMENT_WEBHOOK_MAX_RETRIES'' of
                                     None \<Rightarrow> ''6'' | Some s \<Rightarrow> if s = [] then ''6'' else s)) 6)"

definition payment_webhook_retry_base_ms :: "env \<Rightarrow> int" where
  "payment_webhook_retry_base_ms env =
     max 500 (or_else (js_parse_int (case env ''PAYMENT_WEBHOOK_RETRY_BASE_MS'' of
                                       None \<Rightarrow> ''2000'' | Some s \<Rightarrow> if s = [] then ''2000'' else s)) 2000)"

definition isRetriableWebhookFailure :: "string \<Rightarrow> bool" where
  "isRetriableWebhookFailure m =
     (if m = [] then True
      else \<not> (starts_with m ''PAYMENT_ORDER_MISMATCH'' \<or> starts_with m ''TRANSACTION_USER_MISMATCH'' \<or>
              m \<in> {''user_not_found'', ''user_deleted_after_credit'', ''notes_missing_coins'', ''notes_missing_price'',
                   ''not_wallet_product'', ''amount_mismatch''}))"

definition computeNextRetryAt :: "env \<Rightarrow> millis \<Rightarrow> int \<Rightarrow> millis" where
  "computeNextRetryAt env now attemptCount =
     now + min 60000 (payment_webhook_retry_base_ms env * 2 ^ nat (max 0 (attemptCount - 1)))"

definition find_event :: "string \<Rightarrow> pay_state \<Rightarrow> webhook_event option" where
  "find_event eid st = List.find (\<lambda>e. we_eventId e = eid) (webhooks st)"

definition update_event :: "string \<Rightarrow> (webhook_event \<Rightarrow> webhook_event) \<Rightarrow> pay_state \<Rightarrow> pay_state" where
  "update_event eid f st = st\<lparr>webhooks := map (\<lambda>e. if we_eventId e = eid then f e else e) (webhooks st)\<rparr>"

definition event_due :: "millis \<Rightarrow> webhook_event \<Rightarrow> bool" where
  "event_due now e \<longleftrightarrow>
     (we_status e = we_received \<or> we_status e = we_failed) \<and> (case we_nextRetryAt e of None \<Rightarrow> True | Some t \<Rightarrow> t \<le> now)"

datatype webhook_outcome = W_processed | W_ignored | W_already_processed | W_failed string | W_retryable_failed string

definition mark_processed :: "webhook_event \<Rightarrow> webhook_event" where
  "mark_processed e = e\<lparr>we_status := we_processed, we_failureReason := None, we_nextRetryAt := None\<rparr>"

text \<open>The purchase of an event: an error message, or success; with the hooks that ran.\<close>

definition settle_event ::
  "pay_env \<Rightarrow> (nat \<Rightarrow> coin_store \<Rightarrow> coin_store) \<Rightarrow> checkout_context list \<Rightarrow> string \<Rightarrow> string \<Rightarrow> coin_store
   \<Rightarrow> string option \<times> coin_store \<times> pay_event list" where
  "settle_event pe others ctxs orderId paymentId s =
     (case verifyProviderPaymentCaptured pe orderId paymentId of
        Inl m \<Rightarrow> (Some m, s, [])
      | Inr _ \<Rightarrow>
          (case finalizePaymentAtomically orderId paymentId None s of
             (Inr _, s1, evs) \<Rightarrow> (None, s1, evs)
           | (Inl m, s1, evs) \<Rightarrow>
               if \<not> starts_with m ''TRANSACTION_NOT_FOUND'' then (Some m, s1, evs)
               else (case reconcileCapturedWalletPayment pe others ctxs orderId paymentId None s1 of
                       (r, s2, evs2) \<Rightarrow>
                         if rr_outcome r = Credited \<or> rr_outcome r = AlreadyCompleted \<or>
                            rr_reason r = Some ''user_deleted_after_credit''
                         then (None, s2, evs2)
                         else (Some (case rr_reason r of
                                       None \<Rightarrow> ''TRANSACTION_NOT_FOUND''
                                     | Some m' \<Rightarrow> if m' = [] then ''TRANSACTION_NOT_FOUND'' else m'), s2, evs2))))"

definition processStoredRazorpayWebhookEvent ::
  "pay_env \<Rightarrow> (nat \<Rightarrow> coin_store \<Rightarrow> coin_store) \<Rightarrow> millis \<Rightarrow> string \<Rightarrow> pay_state \<Rightarrow> webhook_outcome \<times> pay_state" where
  "processStoredRazorpayWebhookEvent pe others now eid st =
     (case find_event eid st of
        None \<Rightarrow> (W_ignored, st)
      | Some e \<Rightarrow>
          if \<not> event_due now e
          then (if we_status e = we_processed then W_already_processed else W_ignored, st)
          else (let attempts = we_attemptCount e + 1;
                    st1 = update_event eid (\<lambda>x. x\<lparr>we_status := we_processing, we_attemptCount := attempts\<rparr>) st;
                    paymentId = nvl (we_paymentId e) []; orderId = nvl (we_orderId e) [];
                    failed = (\<lambda>m due. update_event eid (\<lambda>x. x\<lparr>we_status := we_failed, we_failureReason := Some m, we_nextRetryAt := due\<rparr>))
                in if paymentId = [] \<or> orderId = []
                   then (W_failed ''missing_payment_or_order_id'', failed ''missing_payment_or_order_id'' None st1)
                   else if we_eventType e \<noteq> ''payment.captured'' \<and> we_eventType e \<noteq> ''order.paid''
                   then (W_ignored, update_event eid mark_processed st1)
                   else (case settle_event pe others (contexts st1) orderId paymentId (store st1) of
                           (None, s, evs) \<Rightarrow> (W_processed, update_event eid mark_processed (emit_pay evs (st1\<lparr>store := s\<rparr>)))
                         | (Some m, s, evs) \<Rightarrow>
                             (let retriable = (attempts < payment_webhook_max_retries (pe_env pe) \<and> isRetriableWebhookFailure m);
                                  st2 = emit_pay evs (st1\<lparr>store := s\<rparr>)
                              in if retriable
                                 then (W_retryable_failed m,
                                       failed m (Some (computeNextRetryAt (pe_env pe) now attempts)) st2)
                                 else (W_failed m, failed m None st2)))))"

fun process_events ::
  "pay_env \<Rightarrow> (nat \<Rightarrow> coin_store \<Rightarrow> coin_store) \<Rightarrow> millis \<Rightarrow> string list \<Rightarrow> pay_state \<Rightarrow> int \<times> pay_state" where
  "process_events pe others now [] st = (0, st)"
| "process_events pe others now (eid # eids) st =
     (let (r, st1) = processStoredRazorpayWebhookEvent pe others now eid st;
          (n, st2) = process_events pe others now eids st1
      in ((if r = W_processed \<or> r = W_ignored \<or> r = W_already_processed then 1 else 0) + n, st2))"

definition retryFailedPaymentWebhooks ::
  "pay_env \<Rightarrow> (nat \<Rightarrow> coin_store \<Rightarrow> coin_store) \<Rightarrow> millis \<Rightarrow> int \<Rightarrow> pay_state \<Rightarrow> int \<times> pay_state" where
  "retryFailedPaymentWebhooks pe others now limit st =
     process_events pe others now (map we_eventId (take (nat (max 1 limit)) (filter (event_due now) (webhooks st)))) st"

text \<open>The handler: a new event is stored and processed, a known one is answered as a duplicate.\<close>

definition handleRazorpayWebhook ::
  "pay_env \<Rightarrow> (nat \<Rightarrow> coin_store \<Rightarrow> coin_store) \<Rightarrow> millis \<Rightarrow> string \<Rightarrow> string \<Rightarrow> string \<Rightarrow> string \<Rightarrow> pay_state \<Rightarrow> answer \<times> pay_state" where
  "handleRazorpayWebhook pe others now eid eventType paymentId orderId st =
     (if find_event eid st \<noteq> None then ((200, ''duplicate''), st)
      else (let e = \<lparr> we_eventId = eid, we_eventType = eventType, we_orderId = (if orderId = [] then None else Some orderId),
                      we_paymentId = (if paymentId = [] then None else Some paymentId), we_status = we_received,
                      we_attemptCount = 0, we_nextRetryAt = None, we_failureReason = None \<rparr>
            in case processStoredRazorpayWebhookEvent pe others now eid (st\<lparr>webhooks := webhooks st @ [e]\<rparr>) of
                 (W_retryable_failed m, st1) \<Rightarrow> ((500, m), st1)
               | (W_failed m, st1) \<Rightarrow> ((200, m), st1)
               | (W_processed, st1) \<Rightarrow> ((200, ''processed''), st1)
               | (W_ignored, st1) \<Rightarrow> ((200, ''ignored''), st1)
               | (W_already_processed, st1) \<Rightarrow> ((200, ''already_processed''), st1)))"

section \<open>Sweep\<close>

text \<open>
  \<open>runWalletPaymentReconcileSweep\<close> (\<open>wallet-payment-reconcile-sweep.service.ts\<close>) over the candidates of the
  error check: order and payment ids.
\<close>

definition reconcile_sweep_batch :: "env \<Rightarrow> int" where
  "reconcile_sweep_batch env =
     max 1 (or_else (js_parse_int (case env ''PAYMENT_RECONCILE_SWEEP_BATCH'' of
                                     None \<Rightarrow> ''25'' | Some s \<Rightarrow> if s = [] then ''25'' else s)) 25)"

fun sweep_rows ::
  "pay_env \<Rightarrow> (nat \<Rightarrow> coin_store \<Rightarrow> coin_store) \<Rightarrow> (string \<times> string) list \<Rightarrow> pay_state \<Rightarrow> reconcile_outcome list \<times> pay_state" where
  "sweep_rows pe others [] st = ([], st)"
| "sweep_rows pe others ((orderId, paymentId) # rows) st =
     (case reconcileCapturedWalletPayment pe others (contexts st) orderId paymentId None (store st) of
        (r, s, evs) \<Rightarrow>
          (let (os, st') = sweep_rows pe others rows (emit_pay evs (st\<lparr>store := s\<rparr>)) in (rr_outcome r # os, st')))"

definition runWalletPaymentReconcileSweep ::
  "pay_env \<Rightarrow> (nat \<Rightarrow> coin_store \<Rightarrow> coin_store) \<Rightarrow> (string \<times> string) list \<Rightarrow> pay_state \<Rightarrow> reconcile_outcome list \<times> pay_state" where
  "runWalletPaymentReconcileSweep pe others candidates st =
     sweep_rows pe others (take (nat (reconcile_sweep_batch (pe_env pe))) (filter (\<lambda>r. fst r \<noteq> []) candidates)) st"

end
