(* ===== verification/PurchaseProofs.thy ===== *)
theory PurchaseProofs
  imports Checkout
begin

text \<open>
  What the purchase handlers guarantee: over any sequence of checkouts, verifications, webhooks, retries
  and sweeps every wallet stays what its completed rows add up to and no completed row is touched, as
  long as no verification with a refused signature comes in between; and what such a verification does.
\<close>

section \<open>The rows of an order\<close>

text \<open>
  \<open>buyer\<close> names the user who opened an order. An id that starts with \<open>bonus_\<close> would share the row
  names of another order, so it has the buyer of that order; the provider's ids start with \<open>order_\<close>.
\<close>

definition belongs :: "string \<Rightarrow> coin_txn \<Rightarrow> bool" where
  "belongs orderId t \<longleftrightarrow> matches_order orderId t \<or> tx_transactionId t = buildPendingBonusTransactionId orderId"

definition rows_of_buyer :: "(string \<Rightarrow> string) \<Rightarrow> coin_store \<Rightarrow> bool" where
  "rows_of_buyer buyer st \<longleftrightarrow>
     (\<forall>orderId. buyer (''bonus_'' @ orderId) = buyer orderId) \<and>
     (\<forall>orderId. \<forall>t \<in> set (txns st). belongs orderId t \<longrightarrow> tx_userId t = buyer orderId \<and> tx_type t = Credit)"

definition purchase_ok :: "(string \<Rightarrow> string) \<Rightarrow> coin_store \<Rightarrow> bool" where
  "purchase_ok buyer st \<longleftrightarrow> sound st \<and> rows_of_buyer buyer st"

text \<open>
  A step that credits \<open>n\<close> coins of the ledger to the buyer of an order without touching the wallet yet:
  what completing a row does.
\<close>

definition credits :: "string \<Rightarrow> rat \<Rightarrow> coin_store \<Rightarrow> coin_store \<Rightarrow> bool" where
  "credits uid n st st' \<longleftrightarrow>
     accounts st' = accounts st \<and> keys_unique st' \<and> completed_rows st \<subseteq> completed_rows st' \<and>
     (\<forall>u. expectedBalance u st' = expectedBalance u st + (if u = uid then n else 0))"

lemma credits_refl: "keys_unique st \<Longrightarrow> credits uid 0 st st"
  by (simp add: credits_def)

lemma credits_trans: "credits uid m st st1 \<Longrightarrow> credits uid n st1 st2 \<Longrightarrow> credits uid (m + n) st st2"
  unfolding credits_def by (auto simp: add.assoc)

lemma credits_sound:
  assumes "credits uid n st st'" and "sound st"
  shows "sound (inc_coins uid n st')"
proof -
  have "backed (inc_coins uid n st')" using assms by (intro backed_inc [of st]) (simp_all add: credits_def sound_def)
  then show ?thesis using assms keys_inc_coins by (auto simp: credits_def sound_def)
qed

lemma completePending_cases:
  assumes "completePendingTransaction tx orderId paymentId st = Some (t', st')"
  obtains t where "t \<in> set (txns st)" "tx_transactionId t = tx_transactionId tx" "tx_status t \<noteq> TCompleted"
    "t' = complete_row orderId paymentId t" "st' = update_txn (tx_transactionId t) (complete_row orderId paymentId) st"
proof -
  obtain t where f: "find_txn (\<lambda>t. tx_transactionId t = tx_transactionId tx \<and> tx_status t \<noteq> TCompleted) st = Some t"
    "t' = complete_row orderId paymentId t" "st' = update_txn (tx_transactionId tx) (complete_row orderId paymentId) st"
    using assms by (auto simp: completePendingTransaction_def)
  show thesis using f(2,3) find_txn_SomeD [OF f(1)] by (intro that [of t]) simp_all
qed

lemma complete_row_fields [simp]:
  "tx_transactionId (complete_row o1 p t) = tx_transactionId t" "tx_userId (complete_row o1 p t) = tx_userId t"
  "tx_type (complete_row o1 p t) = tx_type t" "tx_coins (complete_row o1 p t) = tx_coins t"
  "tx_status (complete_row o1 p t) = TCompleted" "tx_paymentGatewayOrderId (complete_row o1 p t) = Some o1"
  "tx_source (complete_row o1 p t) = tx_source t"
  by (simp_all add: complete_row_def)

lemma same_row:
  "keys_unique st \<Longrightarrow> t \<in> set (txns st) \<Longrightarrow> t' \<in> set (txns st) \<Longrightarrow> tx_transactionId t = tx_transactionId t' \<Longrightarrow> t = t'"
  by (auto simp: keys_unique_def distinct_map inj_on_def)

lemma complete_credits:
  assumes "completePendingTransaction tx orderId paymentId st = Some (t', st')" and "keys_unique st"
    and "rows_of_buyer buyer st" and "tx \<in> set (txns st)" and "belongs orderId tx"
  shows "credits (buyer orderId) (tx_coins tx) st st'" and "rows_of_buyer buyer st'"
    and "t' = complete_row orderId paymentId tx" and "t' \<in> set (txns st')"
proof -
  obtain t where t: "t \<in> set (txns st)" "tx_transactionId t = tx_transactionId tx" "tx_status t \<noteq> TCompleted"
    "t' = complete_row orderId paymentId t" "st' = update_txn (tx_transactionId t) (complete_row orderId paymentId) st"
    by (rule completePending_cases [OF assms(1)])
  have e: "t = tx" using same_row [OF assms(2) t(1) assms(4) t(2)] .
  have u: "tx_userId tx = buyer orderId" "tx_type tx = Credit" using assms(3-5) by (auto simp: rows_of_buyer_def)
  show "t' = complete_row orderId paymentId tx" using t(4) e by simp
  show "t' \<in> set (txns st')" using t(1,4,5) by (force simp: txns_update_txn)
  have k: "keys_unique st'" using t(5) keys_update_txn [OF assms(2)] by simp
  have c: "completed_rows st \<subseteq> completed_rows st'"
    using t(1,3,5) same_row [OF assms(2)] by (force simp: completed_rows_def txns_update_txn image_iff)
  show "credits (buyer orderId) (tx_coins tx) st st'"
    using expected_update [OF assms(2,4), of "complete_row orderId paymentId"] t(3,5) e u k c
    by (simp add: credits_def signed_def)
  show "rows_of_buyer buyer st'"
    unfolding rows_of_buyer_def
  proof (intro conjI allI ballI impI)
    fix b r
    show "buyer (''bonus_'' @ b) = buyer b" using assms(3) unfolding rows_of_buyer_def by blast
    assume r: "r \<in> set (txns st')" and b: "belongs b r"
    have "r \<in> set (txns st) \<or> r = complete_row orderId paymentId tx"
      using r t(5) e same_row [OF assms(2) _ assms(4)] by (auto simp: txns_update_txn)
    then have "r \<in> set (txns st) \<and> belongs b r \<or> r = complete_row orderId paymentId tx \<and> (belongs b tx \<or> b = orderId)"
      using b by (auto simp: belongs_def matches_order_def)
    then have "tx_userId r = buyer b \<and> tx_type r = Credit"
      using assms(3,4) u unfolding rows_of_buyer_def by (metis complete_row_fields(2,3))
    then show "tx_userId r = buyer b" "tx_type r = Credit" by simp_all
  qed
qed


lemma complete_bonus_credits:
  assumes "complete_bonus orderId paymentId st = (n, st')" and "keys_unique st" and "rows_of_buyer buyer st"
  shows "credits (buyer orderId) n st st'" and "rows_of_buyer buyer st'"
proof -
  have "credits (buyer orderId) n st st' \<and> rows_of_buyer buyer st'"
  proof (cases "txn_by_id (buildPendingBonusTransactionId orderId) st")
    case None
    then show ?thesis using assms by (auto simp: complete_bonus_def credits_refl)
  next
    case (Some b)
    have b: "b \<in> set (txns st)" "belongs orderId b" using txn_by_id_SomeD [OF Some] by (simp_all add: belongs_def)
    show ?thesis
    proof (cases "tx_status b = TCompleted \<or> completePendingTransaction b orderId paymentId st = None")
      case True
      then show ?thesis using assms Some by (auto simp: complete_bonus_def credits_refl split: if_splits)
    next
      case False
      then obtain b' s where c: "completePendingTransaction b orderId paymentId st = Some (b', s)" by fastforce
      then have "n = tx_coins b'" "st' = s" using assms(1) Some False by (auto simp: complete_bonus_def)
      then show ?thesis using complete_credits [OF c assms(2,3) b] by simp
    qed
  qed
  then show "credits (buyer orderId) n st st'" "rows_of_buyer buyer st'" by simp_all
qed

lemma rows_of_buyer_inc [simp]: "rows_of_buyer buyer (inc_coins uid n st) = rows_of_buyer buyer st"
  by (simp add: rows_of_buyer_def)

lemma finalize_txn_cases:
  assumes "finalize_txn orderId paymentId e st = Inr (r, st')"
  obtains (already) cur n s where "find_txn (matches_order orderId) st = Some cur"
      "completePendingTransaction cur orderId paymentId st = None" "complete_bonus orderId paymentId st = (n, s)"
      "st' = inc_coins (tx_userId cur) n s" "\<not> fpr_completed r" "fpr_coinsAdded r = n"
      "txn_by_id (tx_transactionId cur) st = Some (fpr_transaction r)"
  | (credited) cur upd s1 n s where "find_txn (matches_order orderId) st = Some cur"
      "completePendingTransaction cur orderId paymentId st = Some (upd, s1)" "complete_bonus orderId paymentId s1 = (n, s)"
      "st' = inc_coins (tx_userId cur) (tx_coins upd + n) s" "fpr_completed r" "fpr_coinsAdded r = tx_coins upd + n"
      "fpr_transaction r = upd"
proof -
  obtain cur where cur: "find_txn (matches_order orderId) st = Some cur"
    using assms by (auto simp: finalize_txn_def split: option.splits)
  show thesis
  proof (cases "completePendingTransaction cur orderId paymentId st")
    case None
    obtain n s where b: "complete_bonus orderId paymentId st = (n, s)" by fastforce
    show thesis using assms cur None b by (intro already [of cur n s]) (auto simp: finalize_txn_def Let_def split: if_splits option.splits)
  next
    case (Some p)
    obtain upd s1 n s where b: "p = (upd, s1)" "complete_bonus orderId paymentId s1 = (n, s)" by (metis surj_pair)
    show thesis using assms cur Some b
      by (intro credited [of cur upd s1 n s]) (auto simp: finalize_txn_def Let_def split: if_splits option.splits)
  qed
qed

lemma finalize_txn_ok:
  assumes "finalize_txn orderId paymentId e st = Inr (r, st')" and "purchase_ok buyer st"
  shows "purchase_ok buyer st'" and "completed_rows st \<subseteq> completed_rows st'"
proof -
  have k: "keys_unique st" "rows_of_buyer buyer st" using assms(2) by (auto simp: purchase_ok_def sound_def)
  have u: "cur \<in> set (txns st)" "belongs orderId cur" "tx_userId cur = buyer orderId"
    if "find_txn (matches_order orderId) st = Some cur" for cur
    using find_txn_SomeD [OF that] k(2) by (auto simp: belongs_def rows_of_buyer_def)
  have fin: "purchase_ok buyer (inc_coins (buyer orderId) n s) \<and> completed_rows st \<subseteq> completed_rows (inc_coins (buyer orderId) n s)"
    if "credits (buyer orderId) n st s" "rows_of_buyer buyer s" for n s
    using that assms(2) credits_sound [OF that(1)] by (simp add: purchase_ok_def credits_def)
  have "purchase_ok buyer st' \<and> completed_rows st \<subseteq> completed_rows st'"
    using assms(1)
  proof (cases rule: finalize_txn_cases)
    case (already cur n s)
    then show ?thesis using complete_bonus_credits [OF already(3) k] fin u(3) by simp
  next
    case (credited cur upd s1 n s)
    note c = complete_credits [OF credited(2) k u(1,2) [OF credited(1)]]
    have k1: "keys_unique s1" using c(1) by (simp add: credits_def)
    have "credits (buyer orderId) (tx_coins upd + n) st s"
      using credits_trans [OF c(1) complete_bonus_credits(1) [OF credited(3) k1 c(2)]] c(3) by simp
    then show ?thesis using complete_bonus_credits(2) [OF credited(3) k1 c(2)] fin u(3) [OF credited(1)] credited(4) by simp
  qed
  then show "purchase_ok buyer st'" "completed_rows st \<subseteq> completed_rows st'" by simp_all
qed

lemma finalize_ok:
  assumes "finalizePaymentAtomically orderId paymentId e st = (r, st', evs)" and "purchase_ok buyer st"
  shows "purchase_ok buyer st'" and "completed_rows st \<subseteq> completed_rows st'"
  using assms finalize_txn_ok [of orderId paymentId e st _ st' buyer]
  by (auto simp: finalizePaymentAtomically_def split: sum.splits)


section \<open>Advancing steps\<close>

text \<open>
  A step advances the store when it keeps the invariant, every completed row, and who the users are.
  The interference of the others is assumed to do so; it is shown for every operation.
\<close>

definition who :: "coin_store \<Rightarrow> (string \<times> string \<times> string \<times> string option \<times> string option) list" where
  "who st = map (\<lambda>a. (a_id a, a_firebaseUid a, a_role a, a_phone a, a_email a)) (accounts st)"

definition advances :: "(string \<Rightarrow> string) \<Rightarrow> coin_store \<Rightarrow> coin_store \<Rightarrow> bool" where
  "advances buyer st st' \<longleftrightarrow>
     (purchase_ok buyer st \<longrightarrow> purchase_ok buyer st' \<and> completed_rows st \<subseteq> completed_rows st' \<and> who st' = who st)"

definition courteous :: "(string \<Rightarrow> string) \<Rightarrow> (nat \<Rightarrow> coin_store \<Rightarrow> coin_store) \<Rightarrow> bool" where
  "courteous buyer others \<longleftrightarrow> (\<forall>n st. advances buyer st (others n st))"

lemma advances_refl [simp]: "advances buyer st st"
  by (simp add: advances_def)

lemma advances_trans [trans]: "advances buyer a b \<Longrightarrow> advances buyer b c \<Longrightarrow> advances buyer a c"
  by (auto simp: advances_def)

lemma who_simps [simp]:
  "who (inc_coins uid n st) = who st" "who (update_txn tid f st) = who st" "who (st\<lparr>txns := ts\<rparr>) = who st"
  by (simp_all add: who_def inc_coins_def update_account_def update_txn_def comp_def if_distrib cong: if_cong)

lemma who_accounts: "accounts st' = accounts st \<Longrightarrow> who st' = who st"
  by (simp add: who_def)

lemma completePending_accounts: "completePendingTransaction tx o1 p st = Some (t, st') \<Longrightarrow> accounts st' = accounts st"
  by (auto simp: completePendingTransaction_def update_txn_def)

lemma complete_bonus_accounts: "complete_bonus o1 p st = (n, st') \<Longrightarrow> accounts st' = accounts st"
  by (auto simp: complete_bonus_def completePending_accounts split: option.splits if_splits prod.splits)

lemma finalize_advances:
  assumes "finalizePaymentAtomically orderId paymentId e st = (r, st', evs)"
  shows "advances buyer st st'"
proof -
  have "who st' = who st"
  proof (cases "finalize_txn orderId paymentId e st")
    case (Inr p)
    obtain q where p: "finalize_txn orderId paymentId e st = Inr (q, st')"
      using assms Inr by (cases p) (auto simp: finalizePaymentAtomically_def)
    show ?thesis using p
    proof (cases rule: finalize_txn_cases)
      case (already cur n s)
      have "who s = who st" using complete_bonus_accounts [OF already(3)] by (rule who_accounts)
      then show ?thesis using already(4) by simp
    next
      case (credited cur upd s1 n s)
      have "who s = who st"
        using complete_bonus_accounts [OF credited(3)] completePending_accounts [OF credited(2)] by (intro who_accounts) simp
      then show ?thesis using credited(4) by simp
    qed
  qed (use assms in \<open>simp add: finalizePaymentAtomically_def\<close>)
  then show ?thesis using finalize_ok [OF assms] by (simp add: advances_def)
qed

lemma create_row_advances:
  assumes "create_txn t st = Some st'" and "tx_status t = TPending" and "tx_type t = Credit" and "tx_userId t = buyer orderId"
    and "tx_transactionId t = buildPendingTransactionId orderId \<or> tx_transactionId t = buildPendingBonusTransactionId orderId"
    and "tx_paymentGatewayOrderId t = Some orderId"
  shows "advances buyer st st'"
proof (unfold advances_def, intro impI conjI)
  assume ok: "purchase_ok buyer st"
  have st': "st' = st\<lparr>txns := txns st @ [t]\<rparr>" using assms(1) by (auto simp: create_txn_def split: if_splits)
  have b: "buyer o2 = buyer orderId" if "belongs o2 t" for o2
    using that assms(5,6) ok
    by (auto simp: belongs_def matches_order_def buildPendingTransactionId_def buildPendingBonusTransactionId_def
        purchase_ok_def rows_of_buyer_def)
  have "rows_of_buyer buyer st'"
    using ok assms(3,4) b by (auto simp: st' purchase_ok_def rows_of_buyer_def)
  moreover have "sound st'" using ok sound_create_open [OF _ assms(1)] assms(2) by (simp add: purchase_ok_def)
  ultimately show "purchase_ok buyer st'" by (simp add: purchase_ok_def)
  show "completed_rows st \<subseteq> completed_rows st'" using completed_create [OF assms(1)] .
  show "who st' = who st" by (simp add: st')
qed

lemma main_row_advances:
  "create_txn (main_row uid orderId coins price) st = Some st' \<Longrightarrow> uid = buyer orderId \<Longrightarrow> advances buyer st st'"
  by (rule create_row_advances [where orderId = orderId]) (auto simp: main_row_def)

lemma bonus_row_advances:
  "create_txn (bonus_row uid orderId coins reason) st = Some st' \<Longrightarrow> uid = buyer orderId \<Longrightarrow> advances buyer st st'"
  by (rule create_row_advances [where orderId = orderId]) (auto simp: bonus_row_def)

lemma ensurePending_advances:
  assumes "advances buyer st (others st)" and "uid = buyer orderId"
  shows "advances buyer st (snd (ensurePendingCoinTransaction others uid orderId coins price st))"
  using assms main_row_advances
  by (auto simp: ensurePendingCoinTransaction_def Let_def split: option.split intro: advances_trans)

lemma createBonus_advances:
  assumes "advances buyer st (others st)" and "uid = buyer orderId"
  shows "advances buyer st (snd (createPendingBonusCoinTransaction others uid orderId coins reason st))"
  using assms bonus_row_advances
  by (auto simp: createPendingBonusCoinTransaction_def Let_def split: option.split intro: advances_trans)

lemma reconcile_for_advances:
  assumes "courteous buyer others" and "uid = buyer orderId" and "reconcile_for others ns orderId paymentId uid coins price st = (r, st', evs)"
  shows "advances buyer st st'"
proof -
  obtain b st1 where 1: "ensurePendingCoinTransaction (others 1) uid orderId coins price st = (b, st1)" by fastforce
  obtain e st2 where 2: "createPendingBonusCoinTransaction (others 3) uid orderId (bonus_note ns)
      (nvl (noteStr ns ''bonusReason'') ''VIP'') (others 2 st1) = (e, st2)" by fastforce
  have o: "advances buyer s (others n s)" for n s using assms(1) by (simp add: courteous_def)
  have "advances buyer st st1" using ensurePending_advances [where others = "others 1", OF o assms(2)] 1 by (metis snd_conv)
  also have "advances buyer st1 (others 2 st1)" by (rule o)
  also have "advances buyer (others 2 st1) st2" using createBonus_advances [where others = "others 3", OF o assms(2)] 2 by (metis snd_conv)
  finally have s2: "advances buyer st st2" .
  obtain q st3 es where 3: "finalizePaymentAtomically orderId paymentId (Some uid) (others 4 st2) = (q, st3, es)" using prod_cases3 by blast
  have s3: "advances buyer st st3" using s2 o [of st2 4] finalize_advances [OF 3] by (blast intro: advances_trans)
  show ?thesis using assms(3) s2 s3 by (auto simp: reconcile_for_def 1 [simplified] 2 3 split: option.splits sum.splits)
qed

text \<open>The user that the notes of a captured payment lead to.\<close>

definition resolved :: "pay_env \<Rightarrow> string \<Rightarrow> string \<Rightarrow> coin_store \<Rightarrow> string option" where
  "resolved pe orderId paymentId st =
     (case fetchCapturedPaymentAndOrder pe orderId paymentId of
        Inl _ \<Rightarrow> None
      | Inr (payment, order) \<Rightarrow>
          map_option a_id (resolveWalletUser pe ((case order of None \<Rightarrow> no_notes | Some d \<Rightarrow> od_notes d) ++ pd_notes payment)
            (pd_contact payment) (pd_email payment) st))"

definition names_buyer :: "(string \<Rightarrow> string) \<Rightarrow> pay_env \<Rightarrow> coin_store \<Rightarrow> bool" where
  "names_buyer buyer pe st \<longleftrightarrow>
     (\<forall>orderId paymentId. resolved pe orderId paymentId st = None \<or> resolved pe orderId paymentId st = Some (buyer orderId))"

lemma find_by_key: "(\<And>x. P x = Q (g x)) \<Longrightarrow> map_option g (List.find P xs) = List.find Q (map g xs)"
  by (induction xs) auto

lemma filter_by_key: "(\<And>x. P x = Q (g x)) \<Longrightarrow> map g (filter P xs) = filter Q (map g xs)"
  by (induction xs) auto

text \<open>The resolution looks only at who the users are.\<close>

definition key_of :: "account \<Rightarrow> string \<times> string \<times> string \<times> string option \<times> string option" where
  "key_of a = (a_id a, a_firebaseUid a, a_role a, a_phone a, a_email a)"

lemma who_key: "who st = map key_of (accounts st)"
  by (simp add: who_def key_of_def)

lemma key_id: "a_id a = fst (key_of a)"
  by (simp add: key_of_def)

lemma the_only_key:
  assumes "\<And>a. P a = Q (key_of a)" and "who st = who st'"
  shows "map_option key_of (the_only P st) = map_option key_of (the_only P st')"
proof -
  have "map key_of (filter P (accounts st)) = map key_of (filter P (accounts st'))"
    using assms by (simp add: filter_by_key [of P Q key_of] who_key)
  then show ?thesis by (auto simp: the_only_def split: list.splits)
qed

lemma find_key:
  assumes "\<And>a. P a = Q (key_of a)" and "who st = who st'"
  shows "map_option key_of (List.find P (accounts st)) = map_option key_of (List.find P (accounts st'))"
  using assms by (simp add: find_by_key [of P Q key_of] who_key)

lemma by_user_id_key: "who st = who st' \<Longrightarrow> map_option key_of (by_user_id pe ns st) = map_option key_of (by_user_id pe ns st')"
  using find_key [of "\<lambda>a. a_id a = u" "\<lambda>k. fst k = u" st st' for u]
  by (simp add: by_user_id_def findById_def key_of_def split: option.split)

lemma by_firebase_uid_key:
  "who st = who st' \<Longrightarrow> map_option key_of (by_firebase_uid ns st) = map_option key_of (by_firebase_uid ns st')"
  using find_key [of "\<lambda>a. a_firebaseUid a = u" "\<lambda>k. fst (snd k) = u" st st' for u]
  by (simp add: by_firebase_uid_def key_of_def split: option.split)

lemma by_contact_key: "who st = who st' \<Longrightarrow> map_option key_of (by_contact c st) = map_option key_of (by_contact c st')"
  using the_only_key [of "\<lambda>a. case a_phone a of None \<Rightarrow> False | Some p \<Rightarrow> p \<in> set (phoneVariants u)"
      "\<lambda>k. case fst (snd (snd (snd k))) of None \<Rightarrow> False | Some p \<Rightarrow> p \<in> set (phoneVariants u)" st st' for u]
  by (simp add: by_contact_def key_of_def split: option.split)

lemma by_email_key: "who st = who st' \<Longrightarrow> map_option key_of (by_email e st) = map_option key_of (by_email e st')"
  using the_only_key [of "\<lambda>a. a_email a = Some (js_to_lower (js_trim u))"
      "\<lambda>k. snd (snd (snd (snd k))) = Some (js_to_lower (js_trim u))" st st' for u]
  by (simp add: by_email_def key_of_def split: option.split)

lemma option_key: "map_option g a = map_option g b \<Longrightarrow> a = None \<longleftrightarrow> b = None"
  by (cases a; cases b) auto

lemma resolveWalletUser_key:
  assumes "who st = who st'"
  shows "map_option key_of (resolveWalletUser pe ns c e st) = map_option key_of (resolveWalletUser pe ns c e st')"
proof -
  have or: "map_option key_of (case a of Some x \<Rightarrow> Some x | None \<Rightarrow> b) = map_option key_of (case a' of Some x \<Rightarrow> Some x | None \<Rightarrow> b')"
    if "map_option key_of a = map_option key_of a'" "map_option key_of b = map_option key_of b'" for a a' b b'
    using that by (cases a; cases a') simp_all
  show ?thesis
    unfolding resolveWalletUser_def
    by (rule or [OF by_user_id_key [OF assms] or [OF by_firebase_uid_key [OF assms]
            or [OF by_contact_key [OF assms] by_email_key [OF assms]]]])
qed

lemma resolved_who: "who st = who st' \<Longrightarrow> resolved pe orderId paymentId st = resolved pe orderId paymentId st'"
proof -
  assume w: "who st = who st'"
  have "map_option a_id x = map_option a_id y" if "map_option key_of x = map_option key_of y" for x y
    using that by (cases x; cases y) (simp_all add: key_of_def)
  note k = this [OF resolveWalletUser_key [OF w]]
  show ?thesis unfolding resolved_def by (cases "fetchCapturedPaymentAndOrder pe orderId paymentId") (simp_all add: k split: prod.split)
qed

lemma names_buyer_who: "who st = who st' \<Longrightarrow> names_buyer buyer pe st = names_buyer buyer pe st'"
  unfolding names_buyer_def by (simp only: resolved_who [of st st'])

text \<open>The handler changes nothing, or runs for the resolved user.\<close>

lemma reconcile_cases:
  assumes "reconcileCapturedWalletPayment pe others ctxs orderId paymentId e st = (r, st', evs)"
  obtains (refused) "st' = st" "evs = []"
  | (runs) ns uid coins price where "resolved pe orderId paymentId st = Some uid"
      "reconcile_for others ns orderId paymentId uid coins price (others 0 st) = (r, st', evs)"
proof (cases "fetchCapturedPaymentAndOrder pe orderId paymentId")
  case (Inl m)
  then show thesis using assms refused by (simp add: reconcileCapturedWalletPayment_def)
next
  case (Inr p)
  obtain payment order where p: "p = (payment, order)" by fastforce
  define ns where "ns = (case order of None \<Rightarrow> no_notes | Some d \<Rightarrow> od_notes d) ++ pd_notes payment"
  note run = assms [unfolded reconcileCapturedWalletPayment_def Inr p, simplified, folded ns_def]
  show thesis
  proof (cases "wallet_amounts ns order")
    case (Inl m)
    then show thesis using run refused by (auto simp: Let_def split: if_splits)
  next
    case (Inr cp)
    obtain coins price where cp: "cp = (coins, price)" by fastforce
    show thesis
    proof (cases "resolveWalletUser pe ns (pd_contact payment) (pd_email payment) st")
      case None
      then show thesis using run refused Inr cp by (auto simp: Let_def split: if_splits)
    next
      case (Some a)
      then have s: "resolved pe orderId paymentId st = Some (a_id a)"
        using \<open>fetchCapturedPaymentAndOrder pe orderId paymentId = Inr p\<close> p by (simp add: resolved_def ns_def)
      show thesis
      proof (cases "reconcile_for others ns orderId paymentId (a_id a) coins price (others 0 st) = (r, st', evs)")
        case True
        then show thesis using runs s by blast
      next
        case False
        then show thesis using run refused Inr cp Some by (auto simp: Let_def split: if_splits)
      qed
    qed
  qed
qed

lemma reconcile_advances:
  assumes "courteous buyer others" and "names_buyer buyer pe st"
    and "reconcileCapturedWalletPayment pe others ctxs orderId paymentId e st = (r, st', evs)"
  shows "advances buyer st st'"
  using assms(3)
proof (cases rule: reconcile_cases)
  case (runs ns uid coins price)
  have "uid = buyer orderId" using assms(2) runs(1) unfolding names_buyer_def by (metis option.distinct(1) option.inject)
  moreover have "advances buyer st (others 0 st)" using assms(1) by (simp add: courteous_def)
  ultimately show ?thesis using reconcile_for_advances [OF assms(1) _ runs(2)] advances_trans by blast
qed simp


section \<open>The handlers advance the store\<close>

lemma pay_fields [simp]:
  "store (emit_pay es st) = store st" "store (attachCheckoutOrder c orderId st) = store st"
  "store (recordCheckoutResult c k d st) = store st" "store (update_event eid f st) = store st"
  "store (upd_store g st) = g (store st)" "contexts (update_event eid f st) = contexts st"
  by (simp_all add: emit_pay_def attachCheckoutOrder_def recordCheckoutResult_def update_event_def upd_store_def split: option.split)

lemma others_advance: "courteous buyer others \<Longrightarrow> advances buyer st (others n st)"
  by (simp add: courteous_def)

lemma pendingCoin_advances:
  "createPendingCoinTransaction uid orderId c p s = Some s1 \<Longrightarrow> uid = buyer orderId \<Longrightarrow> advances buyer s s1"
  unfolding createPendingCoinTransaction_def by (rule main_row_advances)

lemma createWebOrder_cases:
  assumes "createWebOrder pe packs newOrder keyId others tok st = (r, st')"
  obtains (refused) "store st' = store st"
  | (known) "store st' = others 0 (store st)"
  | (opened) session orderId c p s1 where "newOrder = Some orderId" "pe_session pe tok = Some session"
      "createPendingCoinTransaction (cs_userId session) orderId c p (others 0 (store st)) = Some s1"
      "store st' = snd (createPendingBonusCoinTransaction (others 2) (cs_userId session) orderId (of_int (cs_bonusCoins session))
         (nvl (cs_sessionBonusReason session) ''VIP'') (others 1 s1))"
proof (cases "pe_session pe tok")
  case None
  then show thesis using assms refused by (auto simp: createWebOrder_def split: if_splits)
next
  case (Some session)
  note s = Some
  show thesis
  proof (cases "List.find (\<lambda>a. a_firebaseUid a = cs_firebaseUid session) (accounts (store st))")
    case None
    then show thesis using assms refused s by (auto simp: createWebOrder_def split: if_splits)
  next
    case (Some user)
    note u = Some
    show thesis
    proof (cases "tok = [] \<or> a_id user \<noteq> cs_userId session \<or> a_role user \<noteq> ''user'' \<or> newOrder = None \<or>
        getActiveCoinPackByPackageIdForTier packs (cs_packageId session) (resolveUserPricingTier (a_id user) (store st)) = None")
      case True
      then show thesis using assms refused s u by (auto simp: createWebOrder_def split: if_splits option.splits)
    next
      case False
      then obtain orderId c p where o: "newOrder = Some orderId"
        "getActiveCoinPackByPackageIdForTier packs (cs_packageId session) (resolveUserPricingTier (a_id user) (store st)) = Some (c, p)"
        by fastforce
      show thesis
      proof (cases "createPendingCoinTransaction (a_id user) orderId c (charged_price session p) (others 0 (store st))")
        case None
        then show thesis using assms known s u o False by (auto simp: createWebOrder_def Let_def)
      next
        case (Some s1)
        obtain e s2 where b: "createPendingBonusCoinTransaction (others 2) (a_id user) orderId (of_int (cs_bonusCoins session))
            (nvl (cs_sessionBonusReason session) ''VIP'') (others 1 s1) = (e, s2)" by fastforce
        have "store st' = s2" using assms s u o False Some b
          by (auto simp: createWebOrder_def Let_def upd_store_def attachCheckoutOrder_def split: if_splits option.splits)
        then show thesis
          using opened [of orderId session c "charged_price session p" s1] o(1) s False Some b by (metis snd_conv)
      qed
    qed
  qed
qed

lemma createWebOrder_advances:
  assumes "createWebOrder pe packs newOrder keyId others tok st = (r, st')" and "courteous buyer others"
    and "\<And>orderId session. newOrder = Some orderId \<Longrightarrow> pe_session pe tok = Some session \<Longrightarrow> buyer orderId = cs_userId session"
  shows "advances buyer (store st) (store st')"
  using assms(1)
proof (cases rule: createWebOrder_cases)
  case refused
  then show ?thesis by simp
next
  case known
  then show ?thesis using others_advance [OF assms(2)] by simp
next
  case (opened session orderId c p s1)
  have b: "cs_userId session = buyer orderId" using assms(3) opened(1,2) by simp
  have "advances buyer (store st) (others 0 (store st))" using others_advance [OF assms(2)] .
  also have "advances buyer \<dots> s1" using pendingCoin_advances [where buyer = buyer, OF opened(3) b] .
  also have "advances buyer s1 (others 1 s1)" using others_advance [OF assms(2)] .
  also have "advances buyer \<dots> (store st')"
    unfolding opened(4) using createBonus_advances [where others = "others 2" and buyer = buyer, OF others_advance [OF assms(2)] b] .
  finally show ?thesis .
qed

lemma finalize_error: "finalizePaymentAtomically orderId paymentId e st = (Inl m, st', evs) \<Longrightarrow> st' = st \<and> evs = []"
  by (auto simp: finalizePaymentAtomically_def split: sum.splits)

lemma verify_with_row_advances:
  assumes "verify_with_row pe others session user ns orderId paymentId t st = (r, st')" and "courteous buyer others"
    and "names_buyer buyer pe (store st)"
  shows "advances buyer (store st) (store st')"
proof -
  obtain q s1 evs where f: "finalizePaymentAtomically orderId paymentId (Some (a_id user)) (store st) = (q, s1, evs)"
    using prod_cases3 by blast
  obtain rr s2 evs2 where rc: "reconcileCapturedWalletPayment pe others (contexts st) orderId paymentId (Some (a_id user)) (store st) = (rr, s2, evs2)"
    using prod_cases3 by blast
  have "q = Inl m \<Longrightarrow> s1 = store st" for m using f finalize_error by blast
  then have "store st' = store st \<or> store st' = s1 \<or> store st' = s2"
    using assms(1) f rc by (cases q) (auto simp: verify_with_row_def Let_def split: if_splits)
  then show ?thesis using finalize_advances [OF f] reconcile_advances [OF assms(2,3) rc] by auto
qed

lemma verify_captured_advances:
  assumes "verify_captured pe others session user orderId paymentId st = (r, st')" and "courteous buyer others"
    and "names_buyer buyer pe (store st)" and "purchase_ok buyer (store st)"
  shows "advances buyer (store st) (store st')"
proof (cases "find_txn (matches_order orderId) (store st)")
  case (Some t)
  then show ?thesis using assms verify_with_row_advances
    by (auto simp: verify_captured_def Let_def split: sum.splits prod.splits if_splits)
next
  case None
  obtain rr s2 evs2 where rc: "reconcileCapturedWalletPayment pe others (contexts st) orderId paymentId (Some (a_id user)) (store st) = (rr, s2, evs2)"
    using prod_cases3 by blast
  have a: "advances buyer (store st) s2" using reconcile_advances [OF assms(2,3) rc] .
  have n: "names_buyer buyer pe s2" using a assms(3,4) names_buyer_who [of s2 "store st"] by (simp add: advances_def)
  define st1 where "st1 = emit_pay evs2 (st\<lparr>store := s2\<rparr>)"
  have "st' = st \<or> st' = st1 \<or> (\<exists>ns t. verify_with_row pe others session user ns orderId paymentId t st1 = (r, st'))"
    using assms(1) None rc by (auto simp: verify_captured_def Let_def st1_def split: sum.splits prod.splits if_splits option.splits)
  moreover have "advances buyer s2 (store st')" if "verify_with_row pe others session user ns orderId paymentId t st1 = (r, st')" for ns t
    using verify_with_row_advances [OF that assms(2)] n by (simp add: st1_def)
  ultimately show ?thesis using a by (auto simp: st1_def intro: advances_trans)
qed

lemma verifyWebPayment_advances:
  assumes "verifyWebPayment pe others tok orderId paymentId sig st = (r, st')" and "courteous buyer others"
    and "names_buyer buyer pe (store st)" and "purchase_ok buyer (store st)" and "pe_signature pe orderId paymentId sig \<noteq> Some False"
  shows "advances buyer (store st) (store st')"
  using assms verify_captured_advances [OF _ assms(2-4)]
  by (auto simp: verifyWebPayment_def split: option.splits if_splits bool.splits)

lemma settle_event_advances:
  assumes "settle_event pe others ctxs orderId paymentId st = (m, st', evs)" and "courteous buyer others" and "names_buyer buyer pe st"
  shows "advances buyer st st'"
proof -
  obtain q s1 evs1 where f: "finalizePaymentAtomically orderId paymentId None st = (q, s1, evs1)" using prod_cases3 by blast
  obtain rr s2 evs2 where rc: "reconcileCapturedWalletPayment pe others ctxs orderId paymentId None st = (rr, s2, evs2)"
    using prod_cases3 by blast
  have "q = Inl m \<Longrightarrow> s1 = st" for m using f finalize_error by blast
  then have "st' = st \<or> st' = s1 \<or> st' = s2"
    using assms(1) f rc by (cases q) (auto simp: settle_event_def split: if_splits sum.splits)
  then show ?thesis using finalize_advances [OF f] reconcile_advances [OF assms(2,3) rc] by auto
qed

lemma processEvent_advances:
  assumes "processStoredRazorpayWebhookEvent pe others now eid st = (r, st')" and "courteous buyer others"
    and "names_buyer buyer pe (store st)"
  shows "advances buyer (store st) (store st')"
proof (cases "\<exists>e. find_event eid st = Some e \<and> event_due now e")
  case False
  then show ?thesis using assms(1) by (auto simp: processStoredRazorpayWebhookEvent_def split: option.splits if_splits)
next
  case True
  then obtain e where e: "find_event eid st = Some e" "event_due now e" by blast
  obtain m s evs where 1: "settle_event pe others (contexts st) (nvl (we_orderId e) []) (nvl (we_paymentId e) []) (store st) = (m, s, evs)"
    using prod_cases3 by blast
  have "store st' = store st \<or> store st' = s"
    using assms(1) e 1 by (auto simp: processStoredRazorpayWebhookEvent_def Let_def split: if_splits option.splits)
  then show ?thesis using settle_event_advances [OF 1 assms(2,3)] by auto
qed

text \<open>A handler that runs over several orders keeps the names of the buyers.\<close>

lemma advances_names:
  "advances buyer st st' \<Longrightarrow> purchase_ok buyer st \<Longrightarrow> names_buyer buyer pe st \<Longrightarrow> names_buyer buyer pe st' \<and> purchase_ok buyer st'"
  using names_buyer_who [of st' st] by (simp add: advances_def)

lemma process_events_advances:
  assumes "courteous buyer others" and "names_buyer buyer pe (store st)" and "purchase_ok buyer (store st)"
  shows "advances buyer (store st) (store (snd (process_events pe others now eids st)))"
  using assms(2,3)
proof (induction eids arbitrary: st)
  case (Cons eid eids)
  obtain r st1 where 1: "processStoredRazorpayWebhookEvent pe others now eid st = (r, st1)" by fastforce
  have a: "advances buyer (store st) (store st1)" using processEvent_advances [OF 1 assms(1) Cons.prems(1)] .
  have "advances buyer (store st1) (store (snd (process_events pe others now eids st1)))"
    using Cons.IH advances_names [OF a Cons.prems(2,1)] by simp
  then show ?case using a advances_trans by (auto simp: 1 split: prod.split)
qed simp

lemma sweep_rows_advances:
  assumes "courteous buyer others" and "names_buyer buyer pe (store st)" and "purchase_ok buyer (store st)"
  shows "advances buyer (store st) (store (snd (sweep_rows pe others rows st)))"
  using assms(2,3)
proof (induction rows arbitrary: st)
  case (Cons row rows)
  obtain orderId paymentId where row: "row = (orderId, paymentId)" by fastforce
  obtain r s evs where 1: "reconcileCapturedWalletPayment pe others (contexts st) orderId paymentId None (store st) = (r, s, evs)"
    using prod_cases3 by blast
  let ?st = "emit_pay evs (st\<lparr>store := s\<rparr>)"
  have a: "advances buyer (store st) s" using reconcile_advances [OF assms(1) Cons.prems(1) 1] .
  have "advances buyer (store ?st) (store (snd (sweep_rows pe others rows ?st)))"
    using Cons.IH [of ?st] advances_names [OF a Cons.prems(2,1)] by simp
  then show ?case using a advances_trans by (auto simp: row 1 split: prod.split)
qed simp


section \<open>Sequences of handlers\<close>

text \<open>
  The handlers in any order. The others are courteous, the notes of a payment lead to the buyer of its
  order, and a new order has the user of the session as its buyer. A verification whose signature is
  refused is not among the steps.
\<close>

inductive purchase_step :: "(string \<Rightarrow> string) \<Rightarrow> pay_state \<Rightarrow> pay_state \<Rightarrow> bool" for buyer where
  checkout: "initiateWebCheckout env vipEnabled vipBonus vipActive bps packs nav base fuid packageId coins checkoutId st = (r, st') \<Longrightarrow>
    purchase_step buyer st st'"
| order: "createWebOrder pe packs newOrder keyId others tok st = (r, st') \<Longrightarrow> courteous buyer others \<Longrightarrow>
    (\<And>orderId session. newOrder = Some orderId \<Longrightarrow> pe_session pe tok = Some session \<Longrightarrow> buyer orderId = cs_userId session) \<Longrightarrow>
    purchase_step buyer st st'"
| verify: "verifyWebPayment pe others tok orderId paymentId sig st = (r, st') \<Longrightarrow> courteous buyer others \<Longrightarrow>
    names_buyer buyer pe (store st) \<Longrightarrow> pe_signature pe orderId paymentId sig \<noteq> Some False \<Longrightarrow> purchase_step buyer st st'"
| webhook: "handleRazorpayWebhook pe others now eid eventType paymentId orderId st = (r, st') \<Longrightarrow> courteous buyer others \<Longrightarrow>
    names_buyer buyer pe (store st) \<Longrightarrow> purchase_step buyer st st'"
| retry: "retryFailedPaymentWebhooks pe others now limit st = (n, st') \<Longrightarrow> courteous buyer others \<Longrightarrow>
    names_buyer buyer pe (store st) \<Longrightarrow> purchase_step buyer st st'"
| sweep: "runWalletPaymentReconcileSweep pe others candidates st = (os, st') \<Longrightarrow> courteous buyer others \<Longrightarrow>
    names_buyer buyer pe (store st) \<Longrightarrow> purchase_step buyer st st'"
| hosted: "recordHostedCheckoutResult pe tok status st = (n, st') \<Longrightarrow> purchase_step buyer st st'"

lemma initiateWebCheckout_store:
  "initiateWebCheckout env vipEnabled vipBonus vipActive bps packs nav base fuid packageId coins checkoutId st = (r, st') \<Longrightarrow> store st' = store st"
  by (auto simp: initiateWebCheckout_def Let_def split: if_splits option.splits prod.splits)

lemma hosted_store: "recordHostedCheckoutResult pe tok status st = (n, st') \<Longrightarrow> store st' = store st"
  by (auto simp: recordHostedCheckoutResult_def split: if_splits option.splits)

lemma webhook_store:
  assumes "handleRazorpayWebhook pe others now eid eventType paymentId orderId st = (r, st')"
  shows "st' = st \<or> (\<exists>st1 q. store st1 = store st \<and> processStoredRazorpayWebhookEvent pe others now eid st1 = (q, st'))"
proof (cases "find_event eid st")
  case None
  define st1 where "st1 = st\<lparr>webhooks := webhooks st @
    [\<lparr> we_eventId = eid, we_eventType = eventType, we_orderId = (if orderId = [] then None else Some orderId),
       we_paymentId = (if paymentId = [] then None else Some paymentId), we_status = we_received,
       we_attemptCount = 0, we_nextRetryAt = None, we_failureReason = None \<rparr>]\<rparr>"
  have "\<exists>q. processStoredRazorpayWebhookEvent pe others now eid st1 = (q, st')"
    using assms None by (auto simp: handleRazorpayWebhook_def Let_def st1_def split: prod.splits webhook_outcome.splits)
  then show ?thesis by (auto simp: st1_def)
qed (use assms in \<open>simp add: handleRazorpayWebhook_def\<close>)

lemma purchase_step_advances:
  assumes "purchase_step buyer st st'" and "purchase_ok buyer (store st)"
  shows "advances buyer (store st) (store st')"
  using assms(1)
proof cases
  case checkout
  then show ?thesis using initiateWebCheckout_store by simp
next
  case order
  then show ?thesis using createWebOrder_advances by blast
next
  case verify
  then show ?thesis using verifyWebPayment_advances assms(2) by blast
next
  case (webhook pe others now eid eventType paymentId orderId r)
  then show ?thesis using webhook_store [OF webhook(1)] processEvent_advances by force
next
  case (retry pe others now limit n)
  then show ?thesis using process_events_advances [OF retry(2,3) assms(2)] by (metis retryFailedPaymentWebhooks_def snd_conv)
next
  case (sweep pe others candidates os)
  then show ?thesis using sweep_rows_advances [OF sweep(2,3) assms(2)] by (metis runWalletPaymentReconcileSweep_def snd_conv)
next
  case hosted
  then show ?thesis using hosted_store by simp
qed

definition store_step :: "(string \<Rightarrow> string) \<Rightarrow> coin_store \<Rightarrow> coin_store \<Rightarrow> bool" where
  "store_step buyer s s' \<longleftrightarrow> (\<exists>st st'. purchase_step buyer st st' \<and> store st = s \<and> store st' = s')"

interpretation purchases: audited "purchase_ok buyer" "store_step buyer" for buyer
proof
  fix st st' assume "store_step buyer st st'" and ok: "purchase_ok buyer st"
  then have "advances buyer st st'" using purchase_step_advances by (auto simp: store_step_def)
  then show "purchase_ok buyer st'" "completed_rows st \<subseteq> completed_rows st'" using ok by (simp_all add: advances_def)
qed (simp add: purchase_ok_def)

lemma purchase_steps_store: "(purchase_step buyer)\<^sup>*\<^sup>* st st' \<Longrightarrow> (store_step buyer)\<^sup>*\<^sup>* (store st) (store st')"
  by (induction rule: rtranclp_induct) (auto simp: store_step_def intro: rtranclp.rtrancl_into_rtrancl)

text \<open>
  C4. Over any sequence of checkouts, orders, client verifications whose signature is not refused,
  webhooks, webhook retries and sweeps, with other requests in between, every wallet stays exactly what its completed ledger rows add up to:
  the audit finds no mismatch, and a row once completed is never changed, so no payment is credited
  twice.
\<close>

theorem purchases_stay_backed:
  assumes "(purchase_step buyer)\<^sup>*\<^sup>* st st'" and "purchase_ok buyer (store st)" and "findById uid (store st') = Some a"
  shows "a_coins a = expectedBalance uid (store st') \<and> \<not> bc_mismatch (fst (verifyUserBalance uid (store st'))) \<and>
    completed_rows (store st) \<subseteq> completed_rows (store st')"
  using purchases.steps_audit [OF purchase_steps_store [OF assms(1)] assms(2,3)]
    purchases.steps_keep [OF purchase_steps_store [OF assms(1)] assms(2)] by simp

end
