(* ===== verification/PurchaseFlow.thy ===== *)
theory PurchaseFlow
  imports PurchaseProofs
begin

text \<open>
  Single purchases: what a finalization credits, that it does so once, that the order the server wrote
  is enough to credit it when its pending row was lost, and two ways in which the handlers go wrong.
\<close>

section \<open>Finalizing twice\<close>

lemma find_map_marked:
  assumes "List.find P xs = Some c" and "P (f c)" and "Q (f c)" and "\<And>x. f x = x \<or> Q (f x)"
  shows "\<exists>y. List.find P (map f xs) = Some y \<and> Q y"
  using assms(1)
proof (induction xs)
  case (Cons x xs)
  then show ?case using assms(2-4) by (metis list.simps(9) find.simps(2) option.inject)
qed simp

lemma complete_row_matches [simp]: "matches_order orderId (complete_row orderId p t)"
  by (simp add: matches_order_def)

lemma completePending_map:
  assumes "completePendingTransaction tx orderId p st = Some (t, st')"
  shows "txns st' = map (\<lambda>r. if tx_transactionId r = tx_transactionId tx then complete_row orderId p r else r) (txns st)"
  using assms by (auto simp: completePendingTransaction_def txns_update_txn)

lemma complete_bonus_map:
  assumes "complete_bonus orderId p st = (n, st')"
  shows "\<exists>f. txns st' = map f (txns st) \<and> (\<forall>r. f r = r \<or> f r = complete_row orderId p r)"
proof (cases "txns st' = txns st")
  case True
  then show ?thesis by (intro exI [of _ id]) simp
next
  case False
  then obtain b t where "completePendingTransaction b orderId p st = Some (t, st')"
    using assms by (auto simp: complete_bonus_def split: option.splits if_splits)
  then show ?thesis using completePending_map by (intro exI conjI) (assumption | fastforce)+
qed

definition bonus_closed :: "string \<Rightarrow> coin_store \<Rightarrow> bool" where
  "bonus_closed orderId st \<longleftrightarrow>
     (\<forall>b. txn_by_id (buildPendingBonusTransactionId orderId) st = Some b \<longrightarrow> tx_status b = TCompleted)"

lemma bonus_closed_none: "bonus_closed orderId st \<Longrightarrow> complete_bonus orderId p st = (0, st)"
  by (auto simp: bonus_closed_def complete_bonus_def split: option.split)

lemma bonus_closed_inc [simp]: "bonus_closed orderId (inc_coins u n st) = bonus_closed orderId st"
  by (simp add: bonus_closed_def txn_by_id_def find_txn_def)

lemma find_txn_inc [simp]: "find_txn P (inc_coins u n st) = find_txn P st"
  by (simp add: find_txn_def)

lemma find_update_id:
  "(\<And>r. tx_transactionId (f r) = tx_transactionId r) \<Longrightarrow>
    txn_by_id tid (update_txn i f st) = map_option (\<lambda>r. if tx_transactionId r = i then f r else r) (txn_by_id tid st)"
proof -
  assume f: "\<And>r. tx_transactionId (f r) = tx_transactionId r"
  have "List.find (\<lambda>t. tx_transactionId t = tid) (map (\<lambda>r. if tx_transactionId r = i then f r else r) xs) =
    map_option (\<lambda>r. if tx_transactionId r = i then f r else r) (List.find (\<lambda>t. tx_transactionId t = tid) xs)" for xs
    by (induction xs) (auto simp: f)
  then show ?thesis by (simp add: txn_by_id_def find_txn_def txns_update_txn)
qed

lemma complete_bonus_closes:
  assumes "complete_bonus orderId p st = (n, st')" and "keys_unique st"
  shows "bonus_closed orderId st'"
proof (cases "bonus_closed orderId st")
  case True
  then show ?thesis using assms(1) bonus_closed_none by simp
next
  case False
  then obtain b where b: "txn_by_id (buildPendingBonusTransactionId orderId) st = Some b" "tx_status b \<noteq> TCompleted"
    by (auto simp: bonus_closed_def)
  have "tx_transactionId b = buildPendingBonusTransactionId orderId" "b \<in> set (txns st)" using txn_by_id_SomeD [OF b(1)] by simp_all
  moreover have "completePendingTransaction b orderId p st \<noteq> None"
    using b calculation by (auto simp: completePendingTransaction_def find_txn_def find_None_iff)
  ultimately obtain t s where c: "completePendingTransaction b orderId p st = Some (t, s)" by fastforce
  then have "st' = s" using assms(1) b by (simp add: complete_bonus_def)
  moreover have "s = update_txn (tx_transactionId b) (complete_row orderId p) st"
    using c by (auto simp: completePendingTransaction_def)
  ultimately show ?thesis using b \<open>tx_transactionId b = _\<close> by (auto simp: bonus_closed_def find_update_id)
qed

lemma completePending_None_iff:
  assumes "keys_unique st" and "t \<in> set (txns st)"
  shows "completePendingTransaction t orderId p st = None \<longleftrightarrow> tx_status t = TCompleted"
  using assms same_row [OF assms(1)] by (auto simp: completePendingTransaction_def find_txn_def find_None_iff)

lemma inc_zero [simp]: "inc_coins u 0 st = st"
  by (simp add: inc_coins_def update_account_def)

definition order_closed :: "string \<Rightarrow> coin_store \<Rightarrow> bool" where
  "order_closed orderId st \<longleftrightarrow>
     (\<exists>t. find_txn (matches_order orderId) st = Some t \<and> tx_status t = TCompleted) \<and> bonus_closed orderId st"

lemma finalize_closes:
  assumes "finalize_txn orderId p e st = Inr (r, st')" and "keys_unique st"
  shows "order_closed orderId st'" and "keys_unique st'"
proof -
  have marked: "\<exists>t. find_txn (matches_order orderId) s = Some t \<and> tx_status t = TCompleted"
    if b: "complete_bonus orderId p s0 = (n, s)"
      and m: "\<exists>t. find_txn (matches_order orderId) s0 = Some t \<and> tx_status t = TCompleted" for s0 s n
  proof -
    obtain f where f: "txns s = map f (txns s0)" "\<And>x. f x = x \<or> f x = complete_row orderId p x"
      using complete_bonus_map [OF b] by blast
    obtain t where t: "find_txn (matches_order orderId) s0 = Some t" "tx_status t = TCompleted" using m by blast
    have "matches_order orderId (f t)" using f(2) [of t] find_txn_SomeD(1) [OF t(1)] by (metis complete_row_matches)
    moreover have "tx_status (f t) = TCompleted" using f(2) [of t] t(2) by (metis complete_row_fields(5))
    moreover have "f x = x \<or> tx_status (f x) = TCompleted" for x using f(2) [of x] by (metis complete_row_fields(5))
    ultimately show ?thesis using find_map_marked [of "matches_order orderId" "txns s0" t f "\<lambda>x. tx_status x = TCompleted"] t(1) f(1)
      by (simp add: find_txn_def)
  qed
  have "order_closed orderId st' \<and> keys_unique st'"
    using assms(1)
  proof (cases rule: finalize_txn_cases)
    case (already cur n s)
    have "tx_status cur = TCompleted"
      using completePending_None_iff [OF assms(2)] find_txn_SomeD(2) [OF already(1)] already(2) by simp
    then have "order_closed orderId s"
      using marked [OF already(3)] already(1) complete_bonus_closes [OF already(3) assms(2)] by (simp add: order_closed_def)
    moreover have "keys_unique s"
    proof -
      obtain f where "txns s = map f (txns st)" "\<And>x. f x = x \<or> f x = complete_row orderId p x"
        using complete_bonus_map [OF already(3)] by blast
      then have "map tx_transactionId (txns s) = map tx_transactionId (txns st)" by (auto, metis complete_row_fields(1))
      then show ?thesis using assms(2) complete_bonus_accounts [OF already(3)] by (simp add: keys_unique_def)
    qed
    ultimately show ?thesis using already(4) keys_inc_coins by (simp add: order_closed_def)
  next
    case (credited cur upd s1 n s)
    let ?g = "\<lambda>r. if tx_transactionId r = tx_transactionId cur then complete_row orderId p r else r"
    have g: "txns s1 = map ?g (txns st)" using completePending_map [OF credited(2)] .
    have k1: "keys_unique s1"
      using g completePending_accounts [OF credited(2)] assms(2) by (simp add: keys_unique_def comp_def if_distrib cong: if_cong)
    have "\<exists>t. find_txn (matches_order orderId) s1 = Some t \<and> tx_status t = TCompleted"
      using find_map_marked [of "matches_order orderId" "txns st" cur ?g "\<lambda>x. tx_status x = TCompleted"] credited(1) g
      by (simp add: find_txn_def)
    then have "order_closed orderId s"
      using marked [OF credited(3)] complete_bonus_closes [OF credited(3) k1] by (simp add: order_closed_def)
    moreover have "keys_unique s"
    proof -
      obtain f where "txns s = map f (txns s1)" "\<And>x. f x = x \<or> f x = complete_row orderId p x"
        using complete_bonus_map [OF credited(3)] by blast
      then have "map tx_transactionId (txns s) = map tx_transactionId (txns s1)" by (auto, metis complete_row_fields(1))
      then show ?thesis using k1 complete_bonus_accounts [OF credited(3)] by (simp add: keys_unique_def)
    qed
    ultimately show ?thesis using credited(4) keys_inc_coins by (simp add: order_closed_def)
  qed
  then show "order_closed orderId st'" "keys_unique st'" by simp_all
qed

lemma closed_adds_nothing:
  assumes "finalize_txn orderId p e st = Inr (r, st')" and "order_closed orderId st" and "keys_unique st"
  shows "\<not> fpr_completed r" and "fpr_coinsAdded r = 0" and "st' = st"
proof -
  obtain t where t: "find_txn (matches_order orderId) st = Some t" "tx_status t = TCompleted" using assms(2) by (auto simp: order_closed_def)
  have n: "completePendingTransaction t orderId p st = None"
    using completePending_None_iff [OF assms(3) find_txn_SomeD(2) [OF t(1)]] t(2) by simp
  have b: "complete_bonus orderId p st = (0, st)" using assms(2) bonus_closed_none by (simp add: order_closed_def)
  have "\<not> fpr_completed r \<and> fpr_coinsAdded r = 0 \<and> st' = st"
    using assms(1)
  proof (cases rule: finalize_txn_cases)
    case (already cur m s)
    then show ?thesis using b by simp
  next
    case credited
    then show ?thesis using t n by simp
  qed
  then show "\<not> fpr_completed r" "fpr_coinsAdded r = 0" "st' = st" by simp_all
qed

text \<open>
  A payment is credited by its first finalization only: when the client's verification, the webhook
  and the sweep all finalize the same order, whoever comes after finds it completed, adds no coins and
  leaves the store as it is.
\<close>

theorem second_finalization_adds_nothing:
  assumes "finalizePaymentAtomically orderId p e st = (Inr r, st1, evs)" and "keys_unique st"
    and "finalizePaymentAtomically orderId p' e' st1 = (Inr r', st2, evs')"
  shows "\<not> fpr_completed r' \<and> fpr_coinsAdded r' = 0 \<and> st2 = st1"
proof -
  have "finalize_txn orderId p e st = Inr (r, st1)" "finalize_txn orderId p' e' st1 = Inr (r', st2)"
    using assms(1,3) by (auto simp: finalizePaymentAtomically_def split: sum.splits prod.splits)
  then show ?thesis using closed_adds_nothing finalize_closes [OF _ assms(2)] by metis
qed


section \<open>A refused signature\<close>

lemma findById_update_txn [simp]: "findById u (update_txn i f st) = findById u st"
  by (simp add: findById_def update_txn_def)

lemma find_by_update_account:
  assumes "\<And>a. a_id (f a) = a_id a"
  shows "findById u (update_account i f st) = map_option (\<lambda>a. if a_id a = i then f a else a) (findById u st)"
proof -
  have "List.find (\<lambda>a. a_id a = u) (map (\<lambda>a. if a_id a = i then f a else a) xs) =
    map_option (\<lambda>a. if a_id a = i then f a else a) (List.find (\<lambda>a. a_id a = u) xs)" for xs
    by (induction xs) (auto simp: assms)
  then show ?thesis by (simp add: findById_def accounts_update)
qed

lemma coins_inc: "findById u st = Some a \<Longrightarrow> coins_of u (inc_coins u n st) = a_coins a + n"
  using findById_SomeD(1) [of u st a] by (simp add: coins_of_def inc_coins_def find_by_update_account)

lemma row_not_refused: "fst (verify_with_row pe others session user ns orderId p t st) \<noteq> (400, ''signature_mismatch'')"
proof -
  obtain q s1 evs where f: "finalizePaymentAtomically orderId p (Some (a_id user)) (store st) = (q, s1, evs)" using prod_cases3 by blast
  obtain rr s2 evs2 where "reconcileCapturedWalletPayment pe others (contexts st) orderId p (Some (a_id user)) s1 = (rr, s2, evs2)"
    using prod_cases3 by blast
  then show ?thesis using f by (cases q) (simp_all add: verify_with_row_def Let_def)
qed

lemma captured_not_refused: "fst (verify_captured pe others session user orderId p st) \<noteq> (400, ''signature_mismatch'')"
proof (cases "verifyProviderPaymentCaptured pe orderId p")
  case (Inl m)
  then show ?thesis by (simp add: verify_captured_def provider_refusal_def)
next
  case (Inr x)
  obtain rr s2 evs2 where "reconcileCapturedWalletPayment pe others (contexts st) orderId p (Some (a_id user)) (store st) = (rr, s2, evs2)"
    using prod_cases3 by blast
  then show ?thesis using Inr row_not_refused
    by (cases x) (simp add: verify_captured_def Let_def split: option.split)
qed

lemma refused_signature_store:
  assumes "verifyWebPayment pe others tok orderId p sig st = ((400, ''signature_mismatch''), st1)"
  shows "store st1 = fail_order orderId (store st)"
  using assms captured_not_refused
  by (auto simp: verifyWebPayment_def split: option.splits if_splits bool.splits) (metis fst_conv)+

lemma find_first_update:
  assumes "List.find P xs = Some t" and "\<And>r. tx_transactionId (f r) = tx_transactionId r" and "\<And>r. P (f r) = P r"
  shows "List.find P (map (\<lambda>r. if tx_transactionId r = i then f r else r) xs) = Some (if tx_transactionId t = i then f t else t)"
  using assms(1)
proof (induction xs)
  case (Cons x xs)
  then show ?case by (cases "P x") (auto simp: assms(2,3))
qed simp

text \<open>An open first row of a known user, with no open bonus, is credited in full.\<close>

lemma finalize_open:
  assumes "find_txn (matches_order orderId) st = Some t" and "tx_status t \<noteq> TCompleted" and "keys_unique st"
    and "findById (tx_userId t) st = Some a" and "bonus_closed orderId st" and "e = None \<or> e = Some (tx_userId t)"
  shows "\<exists>r st' evs. finalizePaymentAtomically orderId p e st = (Inr r, st', evs) \<and> fpr_completed r \<and>
    fpr_coinsAdded r = tx_coins t \<and> coins_of (tx_userId t) st' = a_coins a + tx_coins t"
proof -
  have mem: "t \<in> set (txns st)" using find_txn_SomeD(2) [OF assms(1)] .
  obtain u s1 where c: "completePendingTransaction t orderId p st = Some (u, s1)"
    using completePending_None_iff [OF assms(3) mem, of orderId p] assms(2) by fastforce
  have u: "u = complete_row orderId p t" "s1 = update_txn (tx_transactionId t) (complete_row orderId p) st"
  proof -
    obtain t' where "t' \<in> set (txns st)" "tx_transactionId t' = tx_transactionId t" "u = complete_row orderId p t'"
      "s1 = update_txn (tx_transactionId t') (complete_row orderId p) st"
      using completePending_cases [OF c] by auto
    moreover from this have "t' = t" using same_row [OF assms(3) _ mem] by simp
    ultimately show "u = complete_row orderId p t" "s1 = update_txn (tx_transactionId t) (complete_row orderId p) st" by simp_all
  qed
  have "bonus_closed orderId s1"
    using assms(5) unfolding u(2) by (auto simp: bonus_closed_def find_update_id)
  then have b: "complete_bonus orderId p s1 = (0, s1)" by (rule bonus_closed_none)
  have "findById (tx_userId t) s1 = Some a" using assms(4) by (simp add: u(2))
  then show ?thesis
    using assms(1,4,6) c b u(1) coins_inc [of "tx_userId t" s1 a "tx_coins t"]
    by (auto simp: finalizePaymentAtomically_def finalize_txn_def Let_def)
qed


section \<open>Failed webhooks\<close>

lemma find_event_update:
  assumes "\<And>e. we_eventId (f e) = we_eventId e"
  shows "find_event eid (update_event eid f st) = map_option f (find_event eid st)"
proof -
  have "List.find (\<lambda>e. we_eventId e = eid) (map (\<lambda>e. if we_eventId e = eid then f e else e) xs) =
    map_option f (List.find (\<lambda>e. we_eventId e = eid) xs)" for xs
    by (induction xs) (auto simp: assms)
  then show ?thesis by (simp add: find_event_def update_event_def)
qed

lemma find_event_emit [simp]: "find_event eid (emit_pay es st) = find_event eid st"
  "find_event eid (st\<lparr>store := s\<rparr>) = find_event eid st"
  by (simp_all add: find_event_def emit_pay_def)

text \<open>
  An event that failed for good, because its error is permanent or its attempts are used up, is due
  again at once and at any later time: it is stored as failed without a retry time, which is what the
  next scan looks for. The limit on the attempts never ends the retries.
\<close>

theorem failed_webhook_is_due_again:
  assumes "processStoredRazorpayWebhookEvent pe others now eid st = (W_failed m, st')"
  shows "\<exists>e e'. find_event eid st = Some e \<and> find_event eid st' = Some e' \<and> we_status e' = we_failed \<and>
    we_attemptCount e' = we_attemptCount e + 1 \<and> event_due later e'"
proof -
  obtain e where e: "find_event eid st = Some e" "event_due now e"
    using assms by (auto simp: processStoredRazorpayWebhookEvent_def split: option.splits if_splits)
  obtain q s evs where 1: "settle_event pe others (contexts st) (nvl (we_orderId e) []) (nvl (we_paymentId e) []) (store st) = (q, s, evs)"
    using prod_cases3 by blast
  show ?thesis
    using assms e 1
    by (auto simp: processStoredRazorpayWebhookEvent_def Let_def find_event_update event_due_def split: if_splits option.splits)
qed

section \<open>Prices\<close>

text \<open>
  The price a member pays is at least one rupee and never above the list price, the bonus is never
  negative, the total is what the two rows of the order will credit, and a user without membership
  gets neither.
\<close>

theorem recharge_benefits_bounded:
  assumes "1 \<le> price" and "0 \<le> coins"
  shows "1 \<le> rb_discountedPriceInr (resolveRechargeBenefits env vip bonus active bps price coins) \<and>
    rb_discountedPriceInr (resolveRechargeBenefits env vip bonus active bps price coins) \<le> price \<and>
    0 \<le> rb_bonusCoins (resolveRechargeBenefits env vip bonus active bps price coins) \<and>
    rb_totalCoins (resolveRechargeBenefits env vip bonus active bps price coins) =
      rb_baseCoins (resolveRechargeBenefits env vip bonus active bps price coins) +
      rb_bonusCoins (resolveRechargeBenefits env vip bonus active bps price coins) \<and>
    (\<not> (vip \<and> active) \<longrightarrow> rb_discountedPriceInr (resolveRechargeBenefits env vip bonus active bps price coins) = price \<and>
      rb_bonusCoins (resolveRechargeBenefits env vip bonus active bps price coins) = 0)"
proof -
  have "price * (10000 - bps) div 10000 \<le> price" if "0 < bps"
  proof -
    have "price * (10000 - bps) \<le> price * 10000" using that assms(1) by (intro mult_left_mono) auto
    then show ?thesis using zdiv_mono1 [of "price * (10000 - bps)" "price * 10000" 10000] by simp
  qed
  then show ?thesis using assms by (auto simp: resolveRechargeBenefits_def applyBpsDiscount_def Let_def intro!: int_div_nonneg mult_nonneg_nonneg)
qed


section \<open>The notes of an order\<close>

lemma show_nat_hd: "js_is_digit (hd (show_nat n))"
  using show_nat_digits [of n] show_nat_nonempty [of n] by (cases "show_nat n") auto

lemma digits_trim: "\<forall>c \<in> set s. js_is_digit c \<Longrightarrow> js_trim s = s"
proof -
  assume d: "\<forall>c \<in> set s. js_is_digit c"
  have "dropWhile js_is_space s = s" if "\<forall>c \<in> set s. js_is_digit c" for s
    using that digit_not_space by (cases s) auto
  then show ?thesis using d by (simp add: js_trim_def)
qed

lemma digit_not_letter: "js_is_digit c \<Longrightarrow> c \<notin> {CHR ''x'', CHR ''X'', CHR ''o'', CHR ''O'', CHR ''b'', CHR ''B''}"
  by (auto simp: js_is_digit_def)

lemma whole_amount_note:
  assumes "0 \<le> n" and "n < 2 ^ 53"
  shows "js_trim (show_int n) = show_int n" and "show_int n \<noteq> []" and "js_number (show_int n) = Some (of_int n)"
proof -
  let ?s = "show_nat (nat n)"
  have s: "show_int n = ?s" using assms(1) by (simp add: show_int_def)
  have d: "\<forall>c \<in> set ?s. js_is_digit c" by (rule show_nat_digits)
  have ne: "?s \<noteq> []" by (rule show_nat_nonempty)
  have h: "hd ?s \<noteq> CHR ''-''" "hd ?s \<noteq> CHR ''+''" using digit_not_sign [OF show_nat_hd] by blast+
  have p: "take 2 ?s \<notin> {''0x'', ''0X'', ''0o'', ''0O'', ''0b'', ''0B''}"
  proof
    assume "take 2 ?s \<in> {''0x'', ''0X'', ''0o'', ''0O'', ''0b'', ''0B''}"
    then have "last (take 2 ?s) \<in> {CHR ''x'', CHR ''X'', CHR ''o'', CHR ''O'', CHR ''b'', CHR ''B''}" by auto
    moreover have "last (take 2 ?s) \<in> set ?s"
      by (rule in_set_takeD [OF last_in_set]) (use ne in simp)
    ultimately show False using d digit_not_letter by blast
  qed
  have w: "takeWhile js_is_digit ?s = ?s" "dropWhile js_is_digit ?s = []" using d by (simp_all add: takeWhile_eq_all_conv dropWhile_eq_Nil_conv)
  have u: "unsigned_decimal ?s = Some (of_int n)"
    using assms(1) ne by (simp add: unsigned_decimal_def w Let_def digits_value_show_nat pow10_def)
  have f: "\<bar>of_int n\<bar> < (2 ^ 1024 - 2 ^ 970 :: rat)"
  proof -
    have "(of_int n :: rat) < of_int (2 ^ 53)" using assms(2) by (simp only: of_int_less_iff)
    also have "\<dots> < 2 ^ 1024 - 2 ^ 970" by simp
    finally show ?thesis using assms(1) by simp
  qed
  have "js_number ?s = Some (of_int n)"
    using p ne h f u by (simp add: js_number_def Let_def digits_trim [OF d])
  then show "js_trim (show_int n) = show_int n" "show_int n \<noteq> []" "js_number (show_int n) = Some (of_int n)"
    using ne by (simp_all add: s digits_trim [OF d])
qed

definition plain_string :: "string \<Rightarrow> bool" where
  "plain_string s \<longleftrightarrow> js_trim s = s \<and> s \<noteq> []"

lemma noteStr_plain: "ns key = Some (NStr s) \<Longrightarrow> plain_string s \<Longrightarrow> noteStr ns key = Some s"
  by (simp add: noteStr_def plain_string_def)

lemma amounts_of_order:
  assumes "0 < coins" and "coins < 2 ^ 53" and "0 < price" and "price < 2 ^ 53"
  shows "wallet_amounts (web_order_notes session user coins price)
      (Some \<lparr> od_notes = web_order_notes session user coins price, od_receipt = None, od_amount = Some (of_int (price * 100)) \<rparr>) =
    Inr (of_int coins, of_int price)"
proof -
  note c = whole_amount_note [OF less_imp_le [OF assms(1)] assms(2)] and p = whole_amount_note [OF less_imp_le [OF assms(3)] assms(4)]
  let ?n = "web_order_notes session user coins price"
  have "noteStr ?n ''coins'' = Some (show_int coins)" "noteStr ?n ''priceInr'' = Some (show_int price)"
    using c p by (auto intro!: noteStr_plain simp: web_order_notes_def plain_string_def)
  moreover have "js_round (of_int price * 100) = price * 100" using js_round_of_int [of "price * 100"] by simp
  ultimately show ?thesis using assms c p by (simp add: wallet_amounts_def Let_def)
qed

text \<open>
  A whole amount survives the notes of the provider: printed by the server and read back with
  \<open>Number\<close>, it is the amount again.
\<close>

theorem order_notes_roundtrip:
  assumes "0 < coins" and "coins < 2 ^ 53" and "0 < price" and "price < 2 ^ 53"
  shows "wallet_amounts (web_order_notes session user coins price)
      (Some \<lparr> od_notes = web_order_notes session user coins price, od_receipt = None, od_amount = Some (of_int (price * 100)) \<rparr>) =
    Inr (of_int coins, of_int price)"
  using assms by (rule amounts_of_order)

section \<open>An order whose row was lost\<close>

text \<open>The provider's record of a captured payment for an order of the web checkout.\<close>

definition provider_confirms ::
  "pay_env \<Rightarrow> checkout_session \<Rightarrow> account \<Rightarrow> int \<Rightarrow> int \<Rightarrow> string \<Rightarrow> string \<Rightarrow> bool" where
  "provider_confirms pe session user coins price orderId paymentId \<longleftrightarrow>
     \<not> pe_mock pe \<and> pe_isValidObjectId pe (a_id user) \<and>
     pe_payment pe paymentId = Inr (Some \<lparr> pd_order_id = orderId, pd_status = ''captured'', pd_notes = no_notes,
                                          pd_contact = None, pd_email = None \<rparr>) \<and>
     pe_order pe orderId = Inr (Some \<lparr> od_notes = web_order_notes session user coins price, od_receipt = None,
                                      od_amount = Some (of_int (price * 100)) \<rparr>)"

lemma fresh_row:
  assumes "find_txn (matches_order orderId) st = None" and "txn_by_id (buildPendingBonusTransactionId orderId) st = None"
  shows "create_txn (main_row uid orderId coins price) st = Some (st\<lparr>txns := txns st @ [main_row uid orderId coins price]\<rparr>)"
    and "find_txn (matches_order orderId) (st\<lparr>txns := txns st @ [main_row uid orderId coins price]\<rparr>) = Some (main_row uid orderId coins price)"
    and "txn_by_id (buildPendingBonusTransactionId orderId) (st\<lparr>txns := txns st @ [main_row uid orderId coins price]\<rparr>) = None"
proof -
  have n: "\<not> matches_order orderId t" if "t \<in> set (txns st)" for t
    using assms(1) that by (auto simp: find_txn_def find_None_iff)
  show "create_txn (main_row uid orderId coins price) st = Some (st\<lparr>txns := txns st @ [main_row uid orderId coins price]\<rparr>)"
    using n by (force simp: create_txn_def main_row_def matches_order_def)
  have "List.find P (xs @ [x]) = Some x" if "List.find P xs = None" "P x" for P and xs :: "coin_txn list" and x
    using that by (induction xs) (auto split: if_splits)
  then show "find_txn (matches_order orderId) (st\<lparr>txns := txns st @ [main_row uid orderId coins price]\<rparr>) = Some (main_row uid orderId coins price)"
    using assms(1) by (simp add: find_txn_def matches_order_def main_row_def)
  have "List.find P (xs @ [x]) = None" if "List.find P xs = None" "\<not> P x" for P and xs :: "coin_txn list" and x
    using that by (induction xs) (auto split: if_splits)
  then show "txn_by_id (buildPendingBonusTransactionId orderId) (st\<lparr>txns := txns st @ [main_row uid orderId coins price]\<rparr>) = None"
    using assms(2)
    by (simp add: txn_by_id_def find_txn_def main_row_def buildPendingTransactionId_def buildPendingBonusTransactionId_def)
qed



section \<open>Concrete runs\<close>

definition demo_user :: account where
  "demo_user = \<lparr> a_id = ''u1'', a_firebaseUid = ''f1'', a_role = ''user'', a_coins = 0, a_phone = None, a_email = None,
     a_staffCoinsBalance = None, a_bdDisabled = False, a_vipExpiresAt = None \<rparr>"

definition demo_session :: checkout_session where
  "demo_session = \<lparr> cs_firebaseUid = ''f1'', cs_userId = ''u1'', cs_packageId = ''pack_550'', cs_coins = 550, cs_priceInr = 499, cs_pricingTier = tier1,
     cs_bonusCoins = 0, cs_sessionBonusReason = None, cs_checkoutId = None \<rparr>"

definition demo_pe :: pay_env where
  "demo_pe = \<lparr> pe_env = (\<lambda>_. None), pe_mock = True, pe_payment = (\<lambda>_. Inl ''down''), pe_order = (\<lambda>_. Inl ''down''),
     pe_session = (\<lambda>tok. if tok = ''token'' then Some demo_session else None),
     pe_signature = (\<lambda>_ _ sig. Some (sig = ''good'')), pe_isValidObjectId = (\<lambda>_. True) \<rparr>"

definition demo_pay :: pay_state where
  "demo_pay = \<lparr> store = \<lparr> accounts = [demo_user], txns = [main_row ''u1'' ''order_1'' 550 499] \<rparr>, contexts = [], webhooks = [],
     payEvents = [] \<rparr>"

definition demo_paid :: pay_state where
  "demo_paid = \<lparr> store = \<lparr> accounts = [demo_user\<lparr>a_coins := 550\<rparr>],
       txns = [complete_row ''order_1'' ''p1'' (main_row ''u1'' ''order_1'' 550 499)] \<rparr>,
     contexts = [], webhooks = [], payEvents = [] \<rparr>"

lemmas demo_pay_defs = demo_user_def demo_session_def demo_pe_def demo_pay_def demo_paid_def main_row_def complete_row_def

lemma demo_pay_ok: "purchase_ok (\<lambda>_. ''u1'') (store demo_pay)"
  by (simp add: purchase_ok_def sound_def keys_unique_def backed_def expectedBalance_def rows_of_buyer_def demo_pay_defs)

lemma demo_verify:
  "verifyWebPayment demo_pe (\<lambda>_ s. s) ''token'' ''order_1'' ''p1'' ''good'' demo_pay =
    ((200, ''completed''), demo_paid\<lparr>payEvents := [CreatorReferralPurchaseHook ''u1'', CoinsUpdated ''u1'' 550,
       ReferralRewardOnPurchase ''u1'' (Some 499), FirstRechargeHook ''u1'']\<rparr>)"
  by code_simp

lemma demo_forged:
  "fst (verifyWebPayment demo_pe (\<lambda>_ s. s) ''token'' ''order_1'' ''p1'' ''bad'' demo_paid) = (400, ''signature_mismatch'')"
  by code_simp

lemma demo_courteous: "courteous buyer (\<lambda>_ s. s)"
  by (simp add: courteous_def)

lemma demo_names: "names_buyer buyer demo_pe s"
  by (simp add: names_buyer_def resolved_def fetchCapturedPaymentAndOrder_def demo_pe_def mock_payment_def no_notes_def
      resolveWalletUser_def by_user_id_def by_firebase_uid_def by_contact_def by_email_def noteStr_def)

theorem purchases_stay_backed_witness:
  "\<exists>st' a. (purchase_step (\<lambda>_. ''u1''))\<^sup>*\<^sup>* demo_pay st' \<and> findById ''u1'' (store st') = Some a \<and> a_coins a = 550 \<and>
    expectedBalance ''u1'' (store st') = 550"
proof -
  let ?st = "snd (verifyWebPayment demo_pe (\<lambda>_ s. s) ''token'' ''order_1'' ''p1'' ''good'' demo_pay)"
  have "purchase_step (\<lambda>_. ''u1'') demo_pay ?st"
    by (rule purchase_step.verify [where pe = demo_pe and others = "\<lambda>_ s. s" and tok = "''token''" and
          orderId = "''order_1''" and paymentId = "''p1''" and sig = "''good''" and r = "(200, ''completed'')"])
      (simp_all add: demo_verify demo_courteous demo_names, simp add: demo_pe_def)
  then have s: "(purchase_step (\<lambda>_. ''u1''))\<^sup>*\<^sup>* demo_pay ?st" by simp
  have a: "findById ''u1'' (store ?st) = Some (demo_user\<lparr>a_coins := 550\<rparr>)"
    unfolding demo_verify by (simp add: findById_def demo_pay_defs)
  show ?thesis
    using s a purchases_stay_backed [OF s demo_pay_ok a]
    by (intro exI [of _ ?st] exI [of _ "demo_user\<lparr>a_coins := 550\<rparr>"]) simp
qed

definition demo_receipt :: "bool \<Rightarrow> rat \<Rightarrow> finalize_payment_result" where
  "demo_receipt completed added =
     \<lparr> fpr_completed = completed, fpr_transaction = complete_row ''order_1'' ''p1'' (main_row ''u1'' ''order_1'' 550 499),
       fpr_updatedUserCoins = 550, fpr_coinsAdded = added \<rparr>"

lemma demo_first:
  "finalizePaymentAtomically ''order_1'' ''p1'' None (store demo_pay) =
    (Inr (demo_receipt True 550), store demo_paid, [CreatorReferralPurchaseHook ''u1''])"
  by code_simp

lemma demo_second:
  "finalizePaymentAtomically ''order_1'' ''p2'' (Some ''u1'') (store demo_paid) =
    (Inr (demo_receipt False 0), store demo_paid, [CreatorReferralPurchaseHook ''u1''])"
  by code_simp

lemma demo_keys: "keys_unique (store demo_pay)" "keys_unique (store demo_paid)"
  by (simp_all add: keys_unique_def demo_pay_defs)

theorem second_finalization_adds_nothing_witness:
  "\<not> fpr_completed (demo_receipt False 0) \<and> fpr_coinsAdded (demo_receipt False 0) = 0"
  using second_finalization_adds_nothing [OF demo_first demo_keys(1) demo_second] by simp


definition demo_event :: webhook_event where
  "demo_event = \<lparr> we_eventId = ''e1'', we_eventType = ''payment.captured'', we_orderId = Some ''order_9'', we_paymentId = Some ''p9'',
     we_status = we_failed, we_attemptCount = 40, we_nextRetryAt = None, we_failureReason = None \<rparr>"

theorem failed_webhook_is_due_again_witness:
  "\<exists>e e'. find_event ''e1'' (demo_pay\<lparr>webhooks := [demo_event]\<rparr>) = Some e \<and>
    find_event ''e1'' (snd (processStoredRazorpayWebhookEvent demo_pe (\<lambda>_ s. s) 1000 ''e1'' (demo_pay\<lparr>webhooks := [demo_event]\<rparr>))) = Some e' \<and>
    we_attemptCount e' = we_attemptCount e + 1 \<and> event_due 1000 e'"
proof -
  let ?run = "processStoredRazorpayWebhookEvent demo_pe (\<lambda>_ s. s) 1000 ''e1'' (demo_pay\<lparr>webhooks := [demo_event]\<rparr>)"
  have "fst ?run = W_failed ''not_wallet_product''" by code_simp
  then have "?run = (W_failed ''not_wallet_product'', snd ?run)" by (simp add: prod_eq_iff)
  from failed_webhook_is_due_again [OF this, of 1000] show ?thesis by auto
qed

theorem recharge_benefits_bounded_witness:
  "1 \<le> rb_discountedPriceInr (resolveRechargeBenefits (\<lambda>_. None) True True True 1000 499 550) \<and>
    rb_discountedPriceInr (resolveRechargeBenefits (\<lambda>_. None) True True True 1000 499 550) \<le> 499"
  using recharge_benefits_bounded [of 499 550 "\<lambda>_. None" True True True 1000] by simp

theorem order_notes_roundtrip_witness:
  "wallet_amounts (web_order_notes demo_session demo_user 550 499)
      (Some \<lparr> od_notes = web_order_notes demo_session demo_user 550 499, od_receipt = None, od_amount = Some (of_int (499 * 100)) \<rparr>) =
    Inr (of_int 550, of_int 499)"
  by (rule order_notes_roundtrip) simp_all

definition demo_provider :: pay_env where
  "demo_provider = demo_pe\<lparr>pe_mock := False,
     pe_payment := (\<lambda>_. Inr (Some \<lparr> pd_order_id = ''order_2'', pd_status = ''captured'', pd_notes = no_notes,
                                    pd_contact = None, pd_email = None \<rparr>)),
     pe_order := (\<lambda>_. Inr (Some \<lparr> od_notes = web_order_notes demo_session demo_user 550 499, od_receipt = None,
                                  od_amount = Some (of_int (499 * 100)) \<rparr>))\<rparr>"


end
