(* ===== verification/Withdrawals.thy ===== *)
theory Withdrawals
  imports CoinStore
begin

text \<open>
  Payouts: the wallet of the staff in \<open>billing/staff-wallet-portal.service.ts\<close>, the request of a creator
  (\<open>creator/creator.controller.ts\<close>), what an administrator does with a request
  (\<open>creator/withdrawal-processing.service.ts\<close>), and the reconciliation of the staff wallets with their
  ledger (\<open>billing/staff-wallet-reconciliation.service.ts\<close>).

  Marking a request paid is a sequence of separate writes, outside a transaction. \<open>run_writes\<close> runs such a
  sequence with what others do between two writes and with the number of writes the store accepts
  before it fails.
\<close>

section \<open>Documents\<close>

datatype withdrawal_status = W_pending | W_approved | W_rejected | W_paid

record withdrawal =
  w_id :: string
  w_creatorUserId :: "string option"
  w_creatorFirebaseUid :: "string option"
  w_staffUserId :: "string option"
  w_amount :: rat
  w_status :: withdrawal_status
  w_requestedAt :: millis
  w_processedAt :: "millis option"
  w_adminUserId :: "string option"
  w_notes :: "string option"
  w_transactionId :: "string option"
  w_name :: "string option"
  w_number :: "string option"
  w_upi :: "string option"
  w_accountNumber :: "string option"
  w_ifsc :: "string option"
  w_assignedAgencyId :: "string option"

record host_profile =
  hp_userId :: string
  hp_earningsCoins :: rat
  hp_assignedAgencyId :: "string option"

record staff_row =
  sl_staffUserId :: string
  sl_direction :: txn_type
  sl_amountCoins :: rat
  sl_balanceAfter :: "rat option"
  sl_sourceType :: string
  sl_withdrawalId :: "string option"
  sl_idempotencyKey :: "string option"

record payout_account =
  po_staffUserId :: string
  po_accountHolderName :: string
  po_accountNumber :: "string option"
  po_ifsc :: "string option"
  po_upi :: "string option"
  po_phone :: "string option"

record reconcile_log =
  rl_staffUserId :: string
  rl_expectedBalance :: rat
  rl_actualBalance :: rat
  rl_autoCorrected :: bool
  rl_correctionAmount :: rat

record wd_state =
  wallets :: coin_store
  hosts :: "host_profile list"
  requests :: "withdrawal list"
  staffRows :: "staff_row list"
  payouts :: "payout_account list"
  reconLog :: "reconcile_log list"

definition find_request :: "string \<Rightarrow> wd_state \<Rightarrow> withdrawal option" where
  "find_request wid st = List.find (\<lambda>w. w_id w = wid) (requests st)"

text \<open>
  \<open>save\<close> of a loaded document writes the fields that were assigned, at the values computed from what was
  loaded, and fails when the document is gone.
\<close>

definition save_request :: "string \<Rightarrow> (withdrawal \<Rightarrow> withdrawal) \<Rightarrow> wd_state \<Rightarrow> wd_state option" where
  "save_request wid f st =
     (case find_request wid st of
        None \<Rightarrow> None
      | Some _ \<Rightarrow> Some (st\<lparr>requests := map (\<lambda>x. if w_id x = wid then f x else x) (requests st)\<rparr>))"

definition save_user :: "string \<Rightarrow> (account \<Rightarrow> account) \<Rightarrow> wd_state \<Rightarrow> wd_state option" where
  "save_user uid f st =
     (case findById uid (wallets st) of
        None \<Rightarrow> None
      | Some _ \<Rightarrow> Some (st\<lparr>wallets := update_account uid f (wallets st)\<rparr>))"

definition save_host :: "string \<Rightarrow> (host_profile \<Rightarrow> host_profile) \<Rightarrow> wd_state \<Rightarrow> wd_state option" where
  "save_host uid f st =
     (if uid \<in> hp_userId ` set (hosts st)
      then Some (st\<lparr>hosts := map (\<lambda>h. if hp_userId h = uid then f h else h) (hosts st)\<rparr>) else None)"

definition insert_txn :: "coin_txn \<Rightarrow> wd_state \<Rightarrow> wd_state option" where
  "insert_txn t st = map_option (\<lambda>s. st\<lparr>wallets := s\<rparr>) (create_txn t (wallets st))"

text \<open>The idempotency key of a ledger row is unique where it is present.\<close>

definition insert_row :: "staff_row \<Rightarrow> wd_state \<Rightarrow> wd_state option" where
  "insert_row r st =
     (if sl_idempotencyKey r \<noteq> None \<and> sl_idempotencyKey r \<in> sl_idempotencyKey ` set (staffRows st) then None
      else Some (st\<lparr>staffRows := staffRows st @ [r]\<rparr>))"

definition MIN_WITHDRAWAL_COINS :: int where
  "MIN_WITHDRAWAL_COINS = 1000"

definition active :: "withdrawal \<Rightarrow> bool" where
  "active w \<longleftrightarrow> w_status w = W_pending \<or> w_status w = W_approved"

text \<open>\<open>findOne(...).sort({requestedAt: -1})\<close> over the active requests.\<close>

definition latest_active :: "(withdrawal \<Rightarrow> bool) \<Rightarrow> wd_state \<Rightarrow> withdrawal option" where
  "latest_active P st =
     (case sort_key (\<lambda>w. - w_requestedAt w) (filter (\<lambda>w. P w \<and> active w) (requests st)) of [] \<Rightarrow> None | w # _ \<Rightarrow> Some w)"

definition active_message :: "withdrawal \<Rightarrow> string" where
  "active_message w =
     (if w_status w = W_pending
      then ''You already have a pending withdrawal request. Please wait for it to be processed.''
      else ''You already have an approved withdrawal awaiting payout. Please wait until it is marked paid.'')"

section \<open>Payout accounts\<close>

definition no_space :: "string \<Rightarrow> string" where
  "no_space = filter (\<lambda>c. \<not> js_is_space c)"

definition js_is_upper :: "char \<Rightarrow> bool" where
  "js_is_upper c \<longleftrightarrow> 65 \<le> (of_char c :: nat) \<and> (of_char c :: nat) \<le> 90"

definition js_is_lower :: "char \<Rightarrow> bool" where
  "js_is_lower c \<longleftrightarrow> 97 \<le> (of_char c :: nat) \<and> (of_char c :: nat) \<le> 122"

definition js_to_upper :: "string \<Rightarrow> string" where
  "js_to_upper = map (\<lambda>c. if js_is_lower c then char_of (of_char c - 32 :: nat) else c)"

text \<open>The patterns \<open>^[A-Z]{4}0[A-Z0-9]{6}$\<close> and \<open>^[\w.\-]{2,}@[\w.\-]{2,}$\<close>.\<close>

definition is_ifsc :: "string \<Rightarrow> bool" where
  "is_ifsc s \<longleftrightarrow>
     length s = 11 \<and> list_all js_is_upper (take 4 s) \<and> s ! 4 = CHR ''0'' \<and>
     list_all (\<lambda>c. js_is_upper c \<or> js_is_digit c) (drop 5 s)"

definition upi_char :: "char \<Rightarrow> bool" where
  "upi_char c \<longleftrightarrow> js_is_upper c \<or> js_is_lower c \<or> js_is_digit c \<or> c \<in> {CHR ''_'', CHR ''.'', CHR ''-''}"

definition is_upi :: "string \<Rightarrow> bool" where
  "is_upi s \<longleftrightarrow>
     (let a = takeWhile (\<lambda>c. c \<noteq> CHR ''@'') s; r = dropWhile (\<lambda>c. c \<noteq> CHR ''@'') s
      in r \<noteq> [] \<and> 2 \<le> length a \<and> list_all upi_char a \<and> 2 \<le> length (tl r) \<and> list_all upi_char (tl r))"

record payout_input =
  pi_accountHolderName :: "string option"
  pi_accountNumber :: "string option"
  pi_ifsc :: "string option"
  pi_upi :: "string option"
  pi_phone :: "string option"

definition validatePayoutAccountInput :: "payout_input \<Rightarrow> string option" where
  "validatePayoutAccountInput inp =
     (let name = js_trim (nvl (pi_accountHolderName inp) []);
          accountNumber = no_space (nvl (pi_accountNumber inp) []);
          ifsc = js_to_upper (js_trim (nvl (pi_ifsc inp) []));
          upi = js_to_lower (js_trim (nvl (pi_upi inp) []));
          hasBank = (accountNumber \<noteq> [] \<and> ifsc \<noteq> []);
          hasUpi = (upi \<noteq> [])
      in if length name < 2 then Some ''Account holder name is required''
         else if \<not> hasBank \<and> \<not> hasUpi then Some ''Add UPI ID or bank account number with IFSC''
         else if accountNumber \<noteq> [] \<and> ifsc = [] then Some ''IFSC is required when account number is provided''
         else if ifsc \<noteq> [] \<and> accountNumber = [] then Some ''Account number is required when IFSC is provided''
         else if ifsc \<noteq> [] \<and> \<not> is_ifsc ifsc then Some ''Invalid IFSC format''
         else if upi \<noteq> [] \<and> \<not> is_upi upi then Some ''Invalid UPI ID format''
         else None)"

definition non_empty :: "string \<Rightarrow> string option" where
  "non_empty s = (if s = [] then None else Some s)"

text \<open>\<open>isComplete\<close> of \<open>serializePayoutAccount\<close>.\<close>

definition payout_complete :: "payout_account \<Rightarrow> bool" where
  "payout_complete p \<longleftrightarrow>
     (let given = (\<lambda>f. js_trim (nvl f []) \<noteq> [])
      in js_trim (po_accountHolderName p) \<noteq> [] \<and>
         (given (po_accountNumber p) \<and> given (po_ifsc p) \<or> given (po_upi p)))"

definition upsertStaffPayoutAccount :: "string \<Rightarrow> payout_input \<Rightarrow> wd_state \<Rightarrow> (string + payout_account) \<times> wd_state" where
  "upsertStaffPayoutAccount staffId inp st =
     (case validatePayoutAccountInput inp of
        Some err \<Rightarrow> (Inl err, st)
      | None \<Rightarrow>
          (let p = \<lparr> po_staffUserId = staffId, po_accountHolderName = js_trim (nvl (pi_accountHolderName inp) []),
                     po_accountNumber = non_empty (no_space (nvl (pi_accountNumber inp) [])),
                     po_ifsc = non_empty (js_to_upper (js_trim (nvl (pi_ifsc inp) []))),
                     po_upi = non_empty (js_to_lower (js_trim (nvl (pi_upi inp) []))),
                     po_phone = non_empty (js_trim (nvl (pi_phone inp) [])) \<rparr>;
               merge = (\<lambda>q. q\<lparr>po_accountHolderName := po_accountHolderName p,
                              po_accountNumber := (case po_accountNumber p of None \<Rightarrow> po_accountNumber q | x \<Rightarrow> x),
                              po_ifsc := (case po_ifsc p of None \<Rightarrow> po_ifsc q | x \<Rightarrow> x),
                              po_upi := (case po_upi p of None \<Rightarrow> po_upi q | x \<Rightarrow> x),
                              po_phone := (case po_phone p of None \<Rightarrow> po_phone q | x \<Rightarrow> x)\<rparr>)
           in case List.find (\<lambda>q. po_staffUserId q = staffId) (payouts st) of
                None \<Rightarrow> (Inr p, st\<lparr>payouts := payouts st @ [p]\<rparr>)
              | Some q \<Rightarrow> (Inr (merge q), st\<lparr>payouts := map (\<lambda>x. if po_staffUserId x = staffId then merge x else x) (payouts st)\<rparr>)))"

section \<open>Requests\<close>

text \<open>
  \<open>wid\<close> is the id the database gives to a new request, \<open>others\<close> what happens between the last check and
  the insert. An amount that is not finite is \<open>None\<close>.
\<close>

definition createStaffWithdrawalRequest ::
  "(wd_state \<Rightarrow> wd_state) \<Rightarrow> millis \<Rightarrow> string \<Rightarrow> string \<Rightarrow> rat option \<Rightarrow> bool \<Rightarrow> wd_state \<Rightarrow> (string + withdrawal) \<times> wd_state" where
  "createStaffWithdrawalRequest others now wid staffId amountRaw blockIfBdDisabled st =
     (case amountRaw of
        None \<Rightarrow> (Inl ''Minimum withdrawal amount is 1000 coins'', st)
      | Some raw \<Rightarrow>
          if \<lfloor>raw\<rfloor> < MIN_WITHDRAWAL_COINS then (Inl ''Minimum withdrawal amount is 1000 coins'', st)
          else (case findById staffId (wallets st) of
                  None \<Rightarrow> (Inl ''Unauthorized'', st)
                | Some user \<Rightarrow>
                    if blockIfBdDisabled \<and> a_bdDisabled user
                    then (Inl ''Account is disabled -- new payout requests are blocked'', st)
                    else if of_int \<lfloor>raw\<rfloor> > nvl (a_staffCoinsBalance user) 0 then (Inl ''Insufficient wallet balance'', st)
                    else (case latest_active (\<lambda>w. w_staffUserId w = Some staffId) st of
                            Some w \<Rightarrow> (Inl (active_message w), st)
                          | None \<Rightarrow>
                              (case List.find (\<lambda>p. po_staffUserId p = staffId) (payouts st) of
                                 None \<Rightarrow> (Inl ''Bind a payout account in Wallet before requesting withdrawal'', st)
                               | Some p \<Rightarrow>
                                   if \<not> payout_complete p
                                   then (Inl ''Bind a payout account in Wallet before requesting withdrawal'', st)
                                   else (let w = \<lparr> w_id = wid, w_creatorUserId = None, w_creatorFirebaseUid = None,
                                                   w_staffUserId = Some staffId, w_amount = of_int \<lfloor>raw\<rfloor>, w_status = W_pending,
                                                   w_requestedAt = now, w_processedAt = None, w_adminUserId = None, w_notes = None, w_transactionId = None,
                                                   w_name = Some (po_accountHolderName p), w_number = po_phone p, w_upi = po_upi p,
                                                   w_accountNumber = po_accountNumber p, w_ifsc = po_ifsc p, w_assignedAgencyId = None \<rparr>;
                                             st1 = others st
                                         in (Inr w, st1\<lparr>requests := requests st1 @ [w]\<rparr>))))))"

definition isSuperAdminRole :: "string \<Rightarrow> bool" where
  "isSuperAdminRole role \<longleftrightarrow> role = ''admin'' \<or> role = ''super_admin''"

definition given :: "string option \<Rightarrow> bool" where
  "given s \<longleftrightarrow> (case s of None \<Rightarrow> False | Some x \<Rightarrow> x \<noteq> [] \<and> js_trim x \<noteq> [])"

definition trimmed :: "string option \<Rightarrow> string option" where
  "trimmed s = (case s of None \<Rightarrow> None | Some x \<Rightarrow> non_empty (js_trim x))"

record withdrawal_body =
  wb_amount :: "rat option"
  wb_name :: "string option"
  wb_number :: "string option"
  wb_upi :: "string option"
  wb_accountNumber :: "string option"
  wb_ifsc :: "string option"

definition requestWithdrawal ::
  "(wd_state \<Rightarrow> wd_state) \<Rightarrow> millis \<Rightarrow> string \<Rightarrow> string \<Rightarrow> withdrawal_body \<Rightarrow> wd_state \<Rightarrow> (int \<times> string + withdrawal) \<times> wd_state" where
  "requestWithdrawal others now wid firebaseUid body st =
     (case List.find (\<lambda>a. a_firebaseUid a = firebaseUid) (accounts (wallets st)) of
        None \<Rightarrow> (Inl (404, ''User not found''), st)
      | Some user \<Rightarrow>
          if a_role user \<noteq> ''creator'' \<and> \<not> isSuperAdminRole (a_role user)
          then (Inl (403, ''Only creators can request withdrawals''), st)
          else (case wb_amount body of
                  None \<Rightarrow> (Inl (400, ''Amount must be a positive number''), st)
                | Some amount \<Rightarrow>
                    if amount \<le> 0 then (Inl (400, ''Amount must be a positive number''), st)
                    else if \<not> given (wb_name body) then (Inl (400, ''Name is required''), st)
                    else if \<not> given (wb_number body) then (Inl (400, ''Phone number is required''), st)
                    else if \<not> given (wb_upi body) \<and> (\<not> given (wb_accountNumber body) \<or> \<not> given (wb_ifsc body))
                    then (Inl (400, ''Either UPI ID or both Account Number and IFSC are required''), st)
                    else if given (wb_accountNumber body) \<and> \<not> given (wb_ifsc body)
                    then (Inl (400, ''IFSC code is required when account number is provided''), st)
                    else if amount < of_int MIN_WITHDRAWAL_COINS then (Inl (400, ''Minimum withdrawal amount is 1000 coins''), st)
                    else if amount > a_coins user then (Inl (400, ''Insufficient balance''), st)
                    else (case latest_active (\<lambda>w. w_creatorUserId w = Some (a_id user)) st of
                            Some w \<Rightarrow> (Inl (409, active_message w), st)
                          | None \<Rightarrow>
                              (case List.find (\<lambda>h. hp_userId h = a_id user) (hosts st) of
                                 None \<Rightarrow> (Inl (404, ''Creator profile not found''), st)
                               | Some h \<Rightarrow>
                                   (let w = \<lparr> w_id = wid, w_creatorUserId = Some (a_id user), w_creatorFirebaseUid = None,
                                              w_staffUserId = None, w_amount = amount, w_status = W_pending,
                                              w_requestedAt = now, w_processedAt = None, w_adminUserId = None, w_notes = None, w_transactionId = None,
                                              w_name = trimmed (wb_name body), w_number = trimmed (wb_number body),
                                              w_upi = trimmed (wb_upi body), w_accountNumber = trimmed (wb_accountNumber body),
                                              w_ifsc = trimmed (wb_ifsc body), w_assignedAgencyId = hp_assignedAgencyId h \<rparr>;
                                        st1 = others st
                                    in (Inr w, st1\<lparr>requests := requests st1 @ [w]\<rparr>))))))"

end
