(* ===== verification/Payouts.thy ===== *)
theory Payouts
  imports Withdrawals
begin

text \<open>
  What an administrator does with a request (\<open>creator/withdrawal-processing.service.ts\<close>) and the
  reconciliation of the staff wallets (\<open>billing/staff-wallet-reconciliation.service.ts\<close>).

  None of the handlers runs in a transaction. A handler is given as the writes it performs one after
  the other; \<open>run_writes\<close> runs them with what others do before each, \<open>others n\<close> when \<open>n\<close> writes are left,
  and with the number of writes the store accepts before it fails.
\<close>

section \<open>Writes one after the other\<close>

fun run_writes ::
  "(nat \<Rightarrow> wd_state \<Rightarrow> wd_state) \<Rightarrow> nat \<Rightarrow> (wd_state \<Rightarrow> wd_state option) list \<Rightarrow> wd_state \<Rightarrow> bool \<times> wd_state" where
  "run_writes others budget [] st = (True, st)"
| "run_writes others 0 (w # ws) st = (False, st)"
| "run_writes others (Suc n) (w # ws) st =
     (case w (others (length ws) st) of
        None \<Rightarrow> (False, others (length ws) st)
      | Some st' \<Rightarrow> run_writes others n ws st')"

datatype wd_outcome =
    WOk string rat "string option"
  | WRefused int string
  | WThrown

definition answer_after :: "wd_outcome \<Rightarrow> bool \<times> wd_state \<Rightarrow> wd_outcome \<times> wd_state" where
  "answer_after r p = (if fst p then r else WThrown, snd p)"

record acting_user =
  au_id :: string
  au_role :: string

section \<open>Approval and rejection\<close>

definition resolveWithdrawalCreatorUser :: "withdrawal \<Rightarrow> wd_state \<Rightarrow> account option" where
  "resolveWithdrawalCreatorUser w st =
     (case w_creatorUserId w of
        Some uid \<Rightarrow> findById uid (wallets st)
      | None \<Rightarrow>
          (case w_creatorFirebaseUid w of
             None \<Rightarrow> None
           | Some uid \<Rightarrow> if uid = [] then None else List.find (\<lambda>a. a_firebaseUid a = uid) (accounts (wallets st))))"

definition withdrawalManagedByAgent :: "withdrawal \<Rightarrow> string \<Rightarrow> wd_state \<Rightarrow> bool" where
  "withdrawalManagedByAgent w agent st \<longleftrightarrow>
     w_assignedAgencyId w = Some agent \<or>
     (case w_creatorUserId w of
        None \<Rightarrow> False
      | Some uid \<Rightarrow>
          (case List.find (\<lambda>h. hp_userId h = uid) (hosts st) of
             None \<Rightarrow> False | Some h \<Rightarrow> hp_assignedAgencyId h = Some agent))"

definition notes_of :: "string option \<Rightarrow> string option" where
  "notes_of n = (case n of None \<Rightarrow> None | Some x \<Rightarrow> non_empty (js_trim x))"

definition processWithdrawalApproval ::
  "(nat \<Rightarrow> wd_state \<Rightarrow> wd_state) \<Rightarrow> nat \<Rightarrow> millis \<Rightarrow> string \<Rightarrow> acting_user \<Rightarrow> string option \<Rightarrow> bool \<Rightarrow> wd_state \<Rightarrow> wd_outcome \<times> wd_state" where
  "processWithdrawalApproval others budget now wid actor reason isAdmin st =
     (case find_request wid st of
        None \<Rightarrow> (WRefused 404 ''Withdrawal not found'', st)
      | Some w \<Rightarrow>
          (case w_staffUserId w of
             Some staffId \<Rightarrow>
               if \<not> isAdmin \<or> \<not> isSuperAdminRole (au_role actor)
               then (WRefused 403 ''Staff withdrawals require super admin approval'', st)
               else if w_status w \<noteq> W_pending then (WRefused 400 ''Only pending withdrawals can be approved.'', st)
               else (case findById staffId (wallets st) of
                       None \<Rightarrow> (WRefused 404 ''Staff user not found'', st)
                     | Some u \<Rightarrow>
                         if nvl (a_staffCoinsBalance u) 0 < w_amount w
                         then (WRefused 400 ''Staff wallet balance is less than withdrawal amount'', st)
                         else answer_after (WOk wid (w_amount w) None)
                                (run_writes others budget
                                   [save_request wid (\<lambda>x. x\<lparr>w_status := W_approved, w_processedAt := Some now,
                                      w_adminUserId := Some (au_id actor), w_notes := notes_of reason\<rparr>)] st))
           | None \<Rightarrow>
               if \<not> isAdmin then (WRefused 403 ''Creator withdrawal actions require super admin'', st)
               else if w_status w \<noteq> W_pending then (WRefused 400 ''Only pending withdrawals can be approved.'', st)
               else (case resolveWithdrawalCreatorUser w st of
                       None \<Rightarrow> (WRefused 404 ''Creator user not found'', st)
                     | Some u \<Rightarrow>
                         if a_coins u < w_amount w
                         then (WRefused 400 ''Creator balance is less than withdrawal amount'', st)
                         else answer_after (WOk wid (w_amount w) None)
                                (run_writes others budget
                                   [save_request wid (\<lambda>x. x\<lparr>w_status := W_approved, w_processedAt := Some now,
                                      w_adminUserId := Some (au_id actor), w_notes := notes_of reason,
                                      w_creatorUserId := (if w_creatorUserId w = None then Some (a_id u) else w_creatorUserId x)\<rparr>)] st))))"

definition processWithdrawalRejection ::
  "(nat \<Rightarrow> wd_state \<Rightarrow> wd_state) \<Rightarrow> nat \<Rightarrow> millis \<Rightarrow> string \<Rightarrow> acting_user \<Rightarrow> string \<Rightarrow> bool \<Rightarrow> wd_state \<Rightarrow> wd_outcome \<times> wd_state" where
  "processWithdrawalRejection others budget now wid actor reason isAdmin st =
     (if length (js_trim reason) < 3 then (WRefused 400 ''Notes/reason is required (min 3 characters)'', st)
      else case find_request wid st of
        None \<Rightarrow> (WRefused 404 ''Withdrawal not found'', st)
      | Some w \<Rightarrow>
          if w_staffUserId w \<noteq> None \<and> (\<not> isAdmin \<or> \<not> isSuperAdminRole (au_role actor))
          then (WRefused 403 ''Staff withdrawals require super admin'', st)
          else if w_staffUserId w = None \<and> \<not> isAdmin
          then (WRefused 403 ''Creator withdrawal actions require super admin'', st)
          else if w_status w \<noteq> W_pending \<and> w_status w \<noteq> W_approved
          then (WRefused 400 ''Only pending or approved withdrawals can be rejected.'', st)
          else answer_after (WOk wid (w_amount w) None)
                 (run_writes others budget
                    [save_request wid (\<lambda>x. x\<lparr>w_status := W_rejected, w_adminUserId := Some (au_id actor),
                       w_notes := Some (js_trim reason), w_processedAt := Some now\<rparr>)] st))"

section \<open>Marking a request paid\<close>

definition paid_notes :: "string option \<Rightarrow> withdrawal \<Rightarrow> string option" where
  "paid_notes reason w =
     (case notes_of reason of
        None \<Rightarrow> w_notes w
      | Some n \<Rightarrow> (let old = nvl (w_notes w) [] in Some (old @ (if old = [] then [] else '' | '') @ ''Paid: '' @ n)))"

text \<open>The last write: the status, the notes, and what the payout assigned to the document.\<close>

definition save_paid :: "millis \<Rightarrow> string option \<Rightarrow> withdrawal \<Rightarrow> (withdrawal \<Rightarrow> withdrawal) \<Rightarrow> wd_state \<Rightarrow> wd_state option" where
  "save_paid now reason w assigned =
     save_request (w_id w) (\<lambda>x. (assigned x)\<lparr>w_status := W_paid, w_processedAt := Some now,
       w_notes := (if notes_of reason = None then w_notes x else paid_notes reason w)\<rparr>)"

definition payout_txn :: "string \<Rightarrow> string \<Rightarrow> rat \<Rightarrow> coin_txn" where
  "payout_txn tid uid amount =
     \<lparr> tx_transactionId = tid, tx_userId = uid, tx_type = Debit, tx_coins = amount, tx_source = ''withdrawal'',
       tx_bonusReason = None, tx_paymentGatewayTransactionId = None, tx_paymentGatewayOrderId = None,
       tx_priceInr = None, tx_status = TCompleted \<rparr>"

definition paid_debit_key :: "string \<Rightarrow> string" where
  "paid_debit_key wid = ''staff_ledger_withdrawal_'' @ wid @ ''_paid_debit''"

definition payout_row :: "withdrawal \<Rightarrow> string \<Rightarrow> rat \<Rightarrow> staff_row" where
  "payout_row w staffId after =
     \<lparr> sl_staffUserId = staffId, sl_direction = Debit, sl_amountCoins = w_amount w, sl_balanceAfter = Some after,
       sl_sourceType = ''withdrawal_reserve'', sl_withdrawalId = Some (w_id w),
       sl_idempotencyKey = Some (paid_debit_key (w_id w)) \<rparr>"

definition staff_payout_writes ::
  "millis \<Rightarrow> string option \<Rightarrow> withdrawal \<Rightarrow> account \<Rightarrow> string \<Rightarrow> (wd_state \<Rightarrow> wd_state option) list" where
  "staff_payout_writes now reason w u tid =
     (let left = max 0 (nvl (a_staffCoinsBalance u) 0 - w_amount w)
      in [insert_txn (payout_txn tid (a_id u) (w_amount w)),
          save_user (a_id u) (\<lambda>a. a\<lparr>a_staffCoinsBalance := Some left\<rparr>),
          insert_row (payout_row w (a_id u) left),
          save_paid now reason w (\<lambda>x. x\<lparr>w_transactionId := Some tid\<rparr>)])"

definition creator_payout_writes ::
  "millis \<Rightarrow> string option \<Rightarrow> withdrawal \<Rightarrow> account \<Rightarrow> host_profile option \<Rightarrow> string \<Rightarrow> (wd_state \<Rightarrow> wd_state option) list" where
  "creator_payout_writes now reason w u host tid =
     [insert_txn (payout_txn tid (a_id u) (w_amount w)),
      save_user (a_id u) (\<lambda>a. a\<lparr>a_coins := a_coins u - w_amount w\<rparr>)] @
     (case host of
        None \<Rightarrow> []
      | Some h \<Rightarrow> [save_host (a_id u) (\<lambda>x. x\<lparr>hp_earningsCoins := max 0 (hp_earningsCoins h - w_amount w)\<rparr>)]) @
     [save_paid now reason w (\<lambda>x. x\<lparr>w_transactionId := Some tid,
        w_creatorUserId := (if w_creatorUserId w = None then Some (a_id u) else w_creatorUserId x)\<rparr>)]"

text \<open>A transaction id that is the empty string counts as absent.\<close>

definition paid_before :: "withdrawal \<Rightarrow> bool" where
  "paid_before w \<longleftrightarrow> (case w_transactionId w of None \<Rightarrow> False | Some t \<Rightarrow> t \<noteq> [])"

definition markStaffPaid ::
  "(nat \<Rightarrow> wd_state \<Rightarrow> wd_state) \<Rightarrow> nat \<Rightarrow> millis \<Rightarrow> string \<Rightarrow> string option \<Rightarrow> withdrawal \<Rightarrow> string \<Rightarrow> wd_state \<Rightarrow> wd_outcome \<times> wd_state" where
  "markStaffPaid others budget now uuid reason w staffId st =
     (if paid_before w
      then answer_after (WOk (w_id w) (w_amount w) (w_transactionId w))
             (run_writes others budget [save_paid now reason w id] st)
      else (case findById staffId (wallets st) of
              None \<Rightarrow> (WRefused 404 ''Staff user not found'', st)
            | Some u \<Rightarrow>
                if nvl (a_staffCoinsBalance u) 0 < w_amount w
                then (WRefused 400 ''Staff wallet balance is less than withdrawal amount'', st)
                else (let tid = ''staff_withdrawal_'' @ w_id w @ ''_'' @ uuid
                      in answer_after (WOk (w_id w) (w_amount w) (Some tid))
                           (run_writes others budget (staff_payout_writes now reason w u tid) st))))"

definition markCreatorPaid ::
  "(nat \<Rightarrow> wd_state \<Rightarrow> wd_state) \<Rightarrow> nat \<Rightarrow> millis \<Rightarrow> string \<Rightarrow> string option \<Rightarrow> withdrawal \<Rightarrow> wd_state \<Rightarrow> wd_outcome \<times> wd_state" where
  "markCreatorPaid others budget now uuid reason w st =
     (case resolveWithdrawalCreatorUser w st of
        None \<Rightarrow> (WRefused 404 ''Creator user not found'', st)
      | Some u \<Rightarrow>
          if paid_before w
          then answer_after (WOk (w_id w) (w_amount w) (w_transactionId w))
                 (run_writes others budget [save_paid now reason w id] st)
          else if a_coins u < w_amount w
          then (WRefused 400 ''Creator balance is less than withdrawal amount'', st)
          else (let tid = ''withdrawal_'' @ w_id w @ ''_'' @ uuid
                in answer_after (WOk (w_id w) (w_amount w) (Some tid))
                     (run_writes others budget
                        (creator_payout_writes now reason w u (List.find (\<lambda>h. hp_userId h = a_id u) (hosts st)) tid) st)))"

definition processWithdrawalMarkPaid ::
  "(nat \<Rightarrow> wd_state \<Rightarrow> wd_state) \<Rightarrow> nat \<Rightarrow> millis \<Rightarrow> string \<Rightarrow> string \<Rightarrow> acting_user \<Rightarrow> string option \<Rightarrow> bool \<Rightarrow> wd_state \<Rightarrow> wd_outcome \<times> wd_state" where
  "processWithdrawalMarkPaid others budget now uuid wid actor reason isAdmin st =
     (case find_request wid st of
        None \<Rightarrow> (WRefused 404 ''Withdrawal not found'', st)
      | Some w \<Rightarrow>
          if \<not> isAdmin then (WRefused 403 ''Creator withdrawal actions require super admin'', st)
          else if w_status w \<noteq> W_approved then (WRefused 400 ''Cannot mark as paid'', st)
          else (case w_staffUserId w of
                  Some staffId \<Rightarrow>
                    if \<not> isSuperAdminRole (au_role actor) then (WRefused 403 ''Staff withdrawals require super admin'', st)
                    else markStaffPaid others budget now uuid reason w staffId st
                | None \<Rightarrow> markCreatorPaid others budget now uuid reason w st))"

section \<open>Reconciliation of the staff wallets\<close>

definition isStaffWalletReconcileAutoFixEnabled :: "env \<Rightarrow> bool" where
  "isStaffWalletReconcileAutoFixEnabled env =
     (case env ''STAFF_WALLET_RECONCILE_AUTO_FIX'' of
        None \<Rightarrow> False
      | Some v \<Rightarrow> js_to_lower (js_trim v) \<in> {''true'', ''1''})"

definition getStaffWalletReconcileToleranceCoins :: "env \<Rightarrow> int" where
  "getStaffWalletReconcileToleranceCoins env =
     max 0 (nvl (js_parse_int (js_trim (nvl (env ''STAFF_WALLET_RECONCILE_TOLERANCE_COINS'') []))) 0)"

definition direction_sum :: "txn_type \<Rightarrow> string \<Rightarrow> staff_row list \<Rightarrow> rat" where
  "direction_sum k uid rs = sum_list (map sl_amountCoins (filter (\<lambda>r. sl_staffUserId r = uid \<and> sl_direction r = k) rs))"

definition recomputeBalanceFromLedger :: "string \<Rightarrow> wd_state \<Rightarrow> rat" where
  "recomputeBalanceFromLedger uid st = direction_sum Credit uid (staffRows st) - direction_sum Debit uid (staffRows st)"

definition cached_balance :: "string \<Rightarrow> wd_state \<Rightarrow> rat" where
  "cached_balance uid st = (case findById uid (wallets st) of None \<Rightarrow> 0 | Some u \<Rightarrow> nvl (a_staffCoinsBalance u) 0)"

definition reconcileStaffBalance :: "env \<Rightarrow> bool \<Rightarrow> string \<Rightarrow> wd_state \<Rightarrow> reconcile_log \<times> wd_state" where
  "reconcileStaffBalance env dryRun uid st =
     (let expected = recomputeBalanceFromLedger uid st;
          actual = cached_balance uid st;
          needsFix = (\<bar>actual - expected\<bar> > of_int (getStaffWalletReconcileToleranceCoins env) \<and>
                      isStaffWalletReconcileAutoFixEnabled env \<and> \<not> dryRun);
          st1 = (if needsFix
                 then st\<lparr>wallets := update_account uid (\<lambda>a. a\<lparr>a_staffCoinsBalance := Some (max 0 expected)\<rparr>) (wallets st)\<rparr>
                 else st);
          r = \<lparr> rl_staffUserId = uid, rl_expectedBalance = expected, rl_actualBalance = actual,
                rl_autoCorrected = needsFix, rl_correctionAmount = (if needsFix then expected - actual else 0) \<rparr>
      in (r, st1\<lparr>reconLog := reconLog st1 @ [r]\<rparr>))"

text \<open>The ids of a \<open>Set\<close> that received the ledger ids first, in insertion order.\<close>

definition collectStaffUserIdsForReconciliation :: "wd_state \<Rightarrow> string list" where
  "collectStaffUserIdsForReconciliation st =
     rev (remdups (rev (map sl_staffUserId (staffRows st) @
       map a_id (filter (\<lambda>a. a_staffCoinsBalance a \<noteq> None) (accounts (wallets st))))))"

record reconcile_summary =
  rs_processed :: nat
  rs_driftCount :: nat
  rs_maxAbsDrift :: rat

fun reconcile_ids :: "env \<Rightarrow> bool \<Rightarrow> string list \<Rightarrow> wd_state \<Rightarrow> reconcile_summary \<times> wd_state" where
  "reconcile_ids env dryRun [] st = (\<lparr> rs_processed = 0, rs_driftCount = 0, rs_maxAbsDrift = 0 \<rparr>, st)"
| "reconcile_ids env dryRun (uid # ids) st =
     (let (r, st1) = reconcileStaffBalance env dryRun uid st;
          drift = \<bar>rl_actualBalance r - rl_expectedBalance r\<bar>;
          (s, st2) = reconcile_ids env dryRun ids st1
      in (\<lparr> rs_processed = Suc (rs_processed s),
            rs_driftCount = (if drift > of_int (getStaffWalletReconcileToleranceCoins env) then 1 else 0) + rs_driftCount s,
            rs_maxAbsDrift = max drift (rs_maxAbsDrift s) \<rparr>, st2))"

definition reconcileAllStaffBalances :: "env \<Rightarrow> bool \<Rightarrow> wd_state \<Rightarrow> reconcile_summary \<times> wd_state" where
  "reconcileAllStaffBalances env dryRun st = reconcile_ids env dryRun (collectStaffUserIdsForReconciliation st) st"

section \<open>The staff wallet as its owner sees it\<close>

record wallet_summary =
  ws_balance :: rat
  ws_totalEarningsCoins :: rat
  ws_totalWithdrawnCoins :: rat
  ws_activeWithdrawalCount :: nat
  ws_canRequestWithdrawal :: bool
  ws_payoutAccountBound :: bool

definition getStaffWalletSummary :: "string \<Rightarrow> wd_state \<Rightarrow> wallet_summary" where
  "getStaffWalletSummary uid st =
     (let mine = filter (\<lambda>w. w_staffUserId w = Some uid) (requests st);
          n = length (filter active mine)
      in \<lparr> ws_balance = cached_balance uid st,
           ws_totalEarningsCoins = direction_sum Credit uid (staffRows st),
           ws_totalWithdrawnCoins = sum_list (map w_amount (filter (\<lambda>w. w_status w = W_approved \<or> w_status w = W_paid) mine)),
           ws_activeWithdrawalCount = n, ws_canRequestWithdrawal = (n = 0),
           ws_payoutAccountBound = (case List.find (\<lambda>p. po_staffUserId p = uid) (payouts st) of
                                      None \<Rightarrow> False | Some p \<Rightarrow> payout_complete p) \<rparr>)"

text \<open>A page of the ledger, newest row first, with the number of pages.\<close>

definition listStaffWalletTransactions :: "string \<Rightarrow> int \<Rightarrow> int \<Rightarrow> wd_state \<Rightarrow> staff_row list \<times> int" where
  "listStaffWalletTransactions uid page limit st =
     (let safeLimit = min 100 (max 1 limit);
          skip = (max 1 page - 1) * safeLimit;
          rows = rev (filter (\<lambda>r. sl_staffUserId r = uid) (staffRows st))
      in (take (nat safeLimit) (drop (nat skip) rows),
          max 1 \<lceil>(of_nat (length rows) / of_int safeLimit) :: rat\<rceil>))"

end
