(* ===== verification/PayoutProofs.thy ===== *)
theory PayoutProofs
  imports Payouts
begin

text \<open>
  What the payouts guarantee when every handler runs undisturbed: wallets and ledgers account for
  every payout, a closed request stays as it is, nobody has two requests open. \<open>payout_step\<close> is the
  handlers in any order, with the income of the parties in between.
\<close>

section \<open>The invariant\<close>

definition paid_out :: "string \<Rightarrow> withdrawal \<Rightarrow> rat" where
  "paid_out uid w = (if w_staffUserId w = Some uid \<and> w_status w = W_paid then w_amount w else 0)"

text \<open>
  The coins a member of the staff was paid. The payout writes a debit into the ledger of coins but takes
  the amount from the staff balance, so the audit of the wallet is off by this amount.
\<close>

definition staff_paid :: "string \<Rightarrow> wd_state \<Rightarrow> rat" where
  "staff_paid uid st = sum_list (map (paid_out uid) (requests st))"

definition account_ok :: "wd_state \<Rightarrow> account \<Rightarrow> bool" where
  "account_ok st a \<longleftrightarrow>
     a_coins a = expectedBalance (a_id a) (wallets st) + staff_paid (a_id a) st \<and>
     nvl (a_staffCoinsBalance a) 0 = recomputeBalanceFromLedger (a_id a) st"

definition row_of_payout :: "withdrawal \<Rightarrow> coin_txn \<Rightarrow> bool" where
  "row_of_payout w t \<longleftrightarrow> Some (tx_transactionId t) = w_transactionId w \<and> tx_type t = Debit \<and> tx_coins t = w_amount w \<and>
     tx_status t = TCompleted"

definition request_ok :: "wd_state \<Rightarrow> withdrawal \<Rightarrow> bool" where
  "request_ok st w \<longleftrightarrow>
     (if w_status w = W_paid then \<exists>t \<in> set (txns (wallets st)). row_of_payout w t
      else \<not> paid_before w \<and> Some (paid_debit_key (w_id w)) \<notin> sl_idempotencyKey ` set (staffRows st))"

definition paid_ids :: "wd_state \<Rightarrow> string option list" where
  "paid_ids st = map w_transactionId (filter (\<lambda>w. w_status w = W_paid) (requests st))"

definition payout_ok :: "wd_state \<Rightarrow> bool" where
  "payout_ok st \<longleftrightarrow>
     keys_unique (wallets st) \<and> distinct (map w_id (requests st)) \<and> distinct (paid_ids st) \<and>
     (\<forall>a \<in> set (accounts (wallets st)). account_ok st a) \<and> (\<forall>w \<in> set (requests st). request_ok st w)"

section \<open>Updates of one document\<close>

lemma sum_update:
  fixes g :: "'a \<Rightarrow> rat"
  assumes "distinct (map k xs)" and "x \<in> set xs"
  shows "sum_list (map g (map (\<lambda>y. if k y = k x then f y else y) xs)) = sum_list (map g xs) - g x + g (f x)"
  using assms
proof (induction xs)
  case (Cons y ys)
  show ?case
  proof (cases "y = x")
    case True
    then have "map (\<lambda>y. if k y = k x then f y else y) ys = ys" using Cons.prems(1) by (intro map_idI) (auto simp: image_iff)
    then show ?thesis using True by simp
  next
    case False
    then have "k y \<noteq> k x" using Cons.prems by (auto simp: image_iff)
    then show ?thesis using False Cons by (simp del: map_map)
  qed
qed simp

lemma find_request_SomeD:
  assumes "find_request wid st = Some w"
  shows "w_id w = wid" and "w \<in> set (requests st)"
  using assms by (auto simp: find_request_def find_Some_iff)

lemma find_request_unique:
  "distinct (map w_id (requests st)) \<Longrightarrow> w \<in> set (requests st) \<Longrightarrow> find_request (w_id w) st = Some w"
  by (simp add: find_request_def find_unique)

lemma recompute_append:
  "recomputeBalanceFromLedger u (st\<lparr>staffRows := staffRows st @ [r]\<rparr>) =
    recomputeBalanceFromLedger u st +
    (if sl_staffUserId r = u then (case sl_direction r of Credit \<Rightarrow> sl_amountCoins r | Debit \<Rightarrow> - sl_amountCoins r) else 0)"
  by (auto simp: recomputeBalanceFromLedger_def direction_sum_def split: txn_type.splits)

lemma recompute_frame:
  "staffRows st' = staffRows st \<Longrightarrow> recomputeBalanceFromLedger u st' = recomputeBalanceFromLedger u st"
  by (simp add: recomputeBalanceFromLedger_def)

lemma staff_paid_frame: "requests st' = requests st \<Longrightarrow> staff_paid u st' = staff_paid u st"
  by (simp add: staff_paid_def)

section \<open>The writes of a payout\<close>

abbreviation alone :: "nat \<Rightarrow> wd_state \<Rightarrow> wd_state" where
  "alone \<equiv> \<lambda>_ st. st"

definition paid_request :: "millis \<Rightarrow> string option \<Rightarrow> withdrawal \<Rightarrow> string \<Rightarrow> string option \<Rightarrow> withdrawal" where
  "paid_request now reason w tid creator =
     w\<lparr>w_transactionId := Some tid, w_creatorUserId := creator, w_status := W_paid, w_processedAt := Some now,
       w_notes := (if notes_of reason = None then w_notes w else paid_notes reason w)\<rparr>"

lemma paid_request_staff:
  "paid_request now reason w tid (w_creatorUserId w) =
     w\<lparr>w_transactionId := Some tid, w_status := W_paid, w_processedAt := Some now,
       w_notes := (if notes_of reason = None then w_notes w else paid_notes reason w)\<rparr>"
  by (cases w) (simp add: paid_request_def)

definition with_request :: "withdrawal \<Rightarrow> wd_state \<Rightarrow> wd_state" where
  "with_request w st = st\<lparr>requests := map (\<lambda>x. if w_id x = w_id w then w else x) (requests st)\<rparr>"

lemma save_request_found:
  assumes "distinct (map w_id (requests st))" and "find_request wid st = Some w" and "w_id (f w) = wid"
  shows "save_request wid f st = Some (with_request (f w) st)"
proof -
  have w: "w_id w = wid" "w \<in> set (requests st)" using find_request_SomeD [OF assms(2)] by simp_all
  have "w_id x = wid \<Longrightarrow> x = w" if "x \<in> set (requests st)" for x
    using find_request_unique [OF assms(1) that] assms(2) by auto
  then show ?thesis using assms by (auto simp: save_request_def with_request_def)
qed

lemma frame_found [simp]:
  "find_request wid (st\<lparr>wallets := x\<rparr>) = find_request wid st" "find_request wid (st\<lparr>staffRows := y\<rparr>) = find_request wid st"
  "find_request wid (st\<lparr>hosts := z\<rparr>) = find_request wid st"
  by (simp_all add: find_request_def)

lemma find_txns_update [simp]: "findById u (s\<lparr>txns := ts\<rparr>) = findById u s"
  by (simp add: findById_def)

definition staff_payout :: "withdrawal \<Rightarrow> account \<Rightarrow> string \<Rightarrow> wd_state \<Rightarrow> wd_state" where
  "staff_payout w u tid st =
     (let left = max 0 (nvl (a_staffCoinsBalance u) 0 - w_amount w)
      in st\<lparr>wallets := update_account (a_id u) (\<lambda>a. a\<lparr>a_staffCoinsBalance := Some left\<rparr>)
                        ((wallets st)\<lparr>txns := txns (wallets st) @ [payout_txn tid (a_id u) (w_amount w)]\<rparr>),
            staffRows := staffRows st @ [payout_row w (a_id u) left]\<rparr>)"

lemma staff_writes_run:
  assumes "distinct (map w_id (requests st))" and "find_request (w_id w) st = Some w" and "findById (a_id u) (wallets st) = Some u"
    and "tid \<notin> tx_transactionId ` set (txns (wallets st))" and "Some (paid_debit_key (w_id w)) \<notin> sl_idempotencyKey ` set (staffRows st)"
    and "4 \<le> n"
  shows "run_writes alone n (staff_payout_writes now reason w u tid) st =
    (True, with_request (paid_request now reason w tid (w_creatorUserId w)) (staff_payout w u tid st))"
proof -
  obtain m where n: "n = Suc (Suc (Suc (Suc m)))" using assms(6) by (metis add_2_eq_Suc le_Suc_ex numeral_Bit0 add.assoc)
  let ?s = "staff_payout w u tid st"
  have s: "save_paid now reason w (\<lambda>x. x\<lparr>w_transactionId := Some tid\<rparr>) ?s =
    Some (with_request (paid_request now reason w tid (w_creatorUserId w)) ?s)"
    unfolding save_paid_def paid_request_staff
    using assms(1,2) by (subst save_request_found [where w = w]) (simp_all add: staff_payout_def Let_def)
  show ?thesis
    unfolding n staff_payout_writes_def Let_def
    using assms(3-5) s
    by (simp add: insert_txn_def create_txn_def payout_txn_def save_user_def insert_row_def payout_row_def staff_payout_def Let_def)
qed

definition creator_payout :: "withdrawal \<Rightarrow> account \<Rightarrow> string \<Rightarrow> host_profile option \<Rightarrow> wd_state \<Rightarrow> wd_state" where
  "creator_payout w u tid host st =
     st\<lparr>wallets := update_account (a_id u) (\<lambda>a. a\<lparr>a_coins := a_coins u - w_amount w\<rparr>)
                     ((wallets st)\<lparr>txns := txns (wallets st) @ [payout_txn tid (a_id u) (w_amount w)]\<rparr>),
        hosts := (case host of
                    None \<Rightarrow> hosts st
                  | Some h \<Rightarrow> map (\<lambda>x. if hp_userId x = a_id u
                                     then x\<lparr>hp_earningsCoins := max 0 (hp_earningsCoins h - w_amount w)\<rparr> else x) (hosts st))\<rparr>"

lemma creator_writes_run:
  assumes "distinct (map w_id (requests st))" and "find_request (w_id w) st = Some w" and "findById (a_id u) (wallets st) = Some u"
    and "tid \<notin> tx_transactionId ` set (txns (wallets st))" and "host = List.find (\<lambda>h. hp_userId h = a_id u) (hosts st)" and "4 \<le> n"
  shows "run_writes alone n (creator_payout_writes now reason w u host tid) st =
    (True, with_request (paid_request now reason w tid (if w_creatorUserId w = None then Some (a_id u) else w_creatorUserId w))
             (creator_payout w u tid host st))"
proof -
  obtain m where n: "n = Suc (Suc (Suc (Suc m)))" using assms(6) by (metis add_2_eq_Suc le_Suc_ex numeral_Bit0 add.assoc)
  let ?s = "creator_payout w u tid host st"
  let ?f = "\<lambda>x. x\<lparr>w_transactionId := Some tid, w_creatorUserId := (if w_creatorUserId w = None then Some (a_id u) else w_creatorUserId x)\<rparr>"
  have s: "save_paid now reason w ?f ?s =
    Some (with_request (paid_request now reason w tid (if w_creatorUserId w = None then Some (a_id u) else w_creatorUserId w)) ?s)"
    unfolding save_paid_def paid_request_def
    using assms(1,2) by (subst save_request_found [where w = w]) (simp_all add: creator_payout_def, (cases w, simp)?)
  have h: "a_id u \<in> hp_userId ` set (hosts st)" if "host = Some h" for h
    using that assms(5) by (auto simp: find_Some_iff image_iff) (metis nth_mem)
  show ?thesis
    unfolding n creator_payout_writes_def
    using assms(3,4) s h
    by (cases host) (simp_all add: insert_txn_def create_txn_def payout_txn_def save_user_def save_host_def creator_payout_def)
qed

lemma duplicate_write:
  assumes "tid \<in> tx_transactionId ` set (txns (wallets st))"
  shows "snd (run_writes alone n (insert_txn (payout_txn tid uid amount) # ws) st) = st"
  using assms by (cases n) (simp_all add: insert_txn_def create_txn_def payout_txn_def)

section \<open>Marking a request paid, undisturbed\<close>

lemma paid_debit_key_inj [simp]: "paid_debit_key x = paid_debit_key y \<longleftrightarrow> x = y"
  by (simp add: paid_debit_key_def)

lemma request_okD:
  assumes "payout_ok st" and "find_request wid st = Some w" and "w_status w \<noteq> W_paid"
  shows "w_id w = wid" and "w \<in> set (requests st)" and "\<not> paid_before w"
    and "Some (paid_debit_key wid) \<notin> sl_idempotencyKey ` set (staffRows st)" and "distinct (map w_id (requests st))"
proof -
  show w: "w_id w = wid" "w \<in> set (requests st)" using find_request_SomeD [OF assms(2)] by simp_all
  then show "\<not> paid_before w" "Some (paid_debit_key wid) \<notin> sl_idempotencyKey ` set (staffRows st)"
    using assms(1,3) by (auto simp: payout_ok_def request_ok_def)
  show "distinct (map w_id (requests st))" using assms(1) by (simp add: payout_ok_def)
qed

definition staff_paid_state :: "millis \<Rightarrow> string option \<Rightarrow> withdrawal \<Rightarrow> account \<Rightarrow> string \<Rightarrow> wd_state \<Rightarrow> wd_state" where
  "staff_paid_state now reason w u tid st =
     with_request (paid_request now reason w tid (w_creatorUserId w)) (staff_payout w u tid st)"

definition creator_paid_state :: "millis \<Rightarrow> string option \<Rightarrow> withdrawal \<Rightarrow> account \<Rightarrow> string \<Rightarrow> wd_state \<Rightarrow> wd_state" where
  "creator_paid_state now reason w u tid st =
     with_request (paid_request now reason w tid (if w_creatorUserId w = None then Some (a_id u) else w_creatorUserId w))
       (creator_payout w u tid (List.find (\<lambda>h. hp_userId h = a_id u) (hosts st)) st)"

lemma markStaffPaid_cases:
  assumes "payout_ok st" and "find_request wid st = Some w" and "w_status w = W_approved" and "4 \<le> n"
    and "markStaffPaid alone n now uuid reason w staffId st = (r, st')"
  obtains (same) "st' = st" "\<And>i x t. r \<noteq> WOk i x t"
    | (paid) u tid where "findById staffId (wallets st) = Some u" "w_amount w \<le> nvl (a_staffCoinsBalance u) 0"
      "tid \<notin> tx_transactionId ` set (txns (wallets st))" "r = WOk wid (w_amount w) (Some tid)" "st' = staff_paid_state now reason w u tid st"
proof (cases "findById staffId (wallets st)")
  case None
  then have "st' = st" "r = WRefused 404 ''Staff user not found''"
    using assms request_okD(3) [OF assms(1,2)] by (auto simp: markStaffPaid_def)
  then show ?thesis using same by simp
next
  case (Some u)
  note w = request_okD [OF assms(1,2)]
  let ?tid = "''staff_withdrawal_'' @ wid @ ''_'' @ uuid"
  have u: "findById (a_id u) (wallets st) = Some u" using Some findById_SomeD(1) by metis
  show ?thesis
  proof (cases "nvl (a_staffCoinsBalance u) 0 < w_amount w \<or> ?tid \<in> tx_transactionId ` set (txns (wallets st))")
    case True
    then show ?thesis
    proof
      assume "nvl (a_staffCoinsBalance u) 0 < w_amount w"
      then have "st' = st \<and> (\<exists>c m. r = WRefused c m)" using assms(3,5) w Some by (auto simp: markStaffPaid_def)
      then show ?thesis using same by auto
    next
      assume d: "?tid \<in> tx_transactionId ` set (txns (wallets st))"
      obtain k where k: "n = Suc k" using assms(4) by (cases n) auto
      have "run_writes alone n (staff_payout_writes now reason w u ?tid) st = (False, st)"
        using d by (auto simp: k staff_payout_writes_def Let_def insert_txn_def create_txn_def payout_txn_def)
      then show ?thesis using assms w Some same by (auto simp: markStaffPaid_def answer_after_def split: if_splits)
    qed
  next
    case False
    have "find_request (w_id w) st = Some w" "Some (paid_debit_key (w_id w)) \<notin> sl_idempotencyKey ` set (staffRows st)"
      using assms(2,3) w by simp_all
    note run = staff_writes_run [OF w(5) this(1) u _ this(2) assms(4)]
    show ?thesis
      using paid [of u ?tid] False assms w Some run [of ?tid now reason]
      by (simp add: markStaffPaid_def answer_after_def staff_paid_state_def Let_def)
  qed
qed

lemma resolve_found:
  assumes "keys_unique (wallets st)" and "resolveWithdrawalCreatorUser w st = Some u"
  shows "findById (a_id u) (wallets st) = Some u"
proof -
  have "u \<in> set (accounts (wallets st))"
    using assms(2) findById_SomeD(2) by (auto simp: resolveWithdrawalCreatorUser_def find_Some_iff split: option.splits if_splits)
  then show ?thesis using assms(1) by (simp add: findById_def keys_unique_def find_unique)
qed

lemma markCreatorPaid_cases:
  assumes "payout_ok st" and "find_request wid st = Some w" and "w_status w = W_approved" and "4 \<le> n"
    and "markCreatorPaid alone n now uuid reason w st = (r, st')"
  obtains (same) "st' = st" "\<And>i x t. r \<noteq> WOk i x t"
    | (paid) u tid where "resolveWithdrawalCreatorUser w st = Some u" "findById (a_id u) (wallets st) = Some u" "w_amount w \<le> a_coins u"
      "tid \<notin> tx_transactionId ` set (txns (wallets st))" "r = WOk wid (w_amount w) (Some tid)" "st' = creator_paid_state now reason w u tid st"
proof (cases "resolveWithdrawalCreatorUser w st")
  case None
  then have "st' = st" "r = WRefused 404 ''Creator user not found''" using assms by (auto simp: markCreatorPaid_def)
  then show ?thesis using same by simp
next
  case (Some u)
  note w = request_okD [OF assms(1,2)]
  let ?tid = "''withdrawal_'' @ wid @ ''_'' @ uuid"
  have u: "findById (a_id u) (wallets st) = Some u" using resolve_found [OF _ Some] assms(1) by (simp add: payout_ok_def)
  show ?thesis
  proof (cases "a_coins u < w_amount w \<or> ?tid \<in> tx_transactionId ` set (txns (wallets st))")
    case True
    then show ?thesis
    proof
      assume "a_coins u < w_amount w"
      then have "st' = st \<and> (\<exists>c m. r = WRefused c m)" using assms(3,5) w Some by (auto simp: markCreatorPaid_def)
      then show ?thesis using same by auto
    next
      assume d: "?tid \<in> tx_transactionId ` set (txns (wallets st))"
      obtain k where k: "n = Suc k" using assms(4) by (cases n) auto
      have "run_writes alone n (creator_payout_writes now reason w u host ?tid) st = (False, st)" for host
        using d by (auto simp: k creator_payout_writes_def insert_txn_def create_txn_def payout_txn_def)
      then show ?thesis using assms w Some same by (auto simp: markCreatorPaid_def answer_after_def split: if_splits)
    qed
  next
    case False
    have "find_request (w_id w) st = Some w" using assms(2) w(1,3) assms(3) by simp
    note run = creator_writes_run [OF w(5) this u _ refl assms(4)]
    show ?thesis
      using paid [of u ?tid] False assms w Some u run [of ?tid now reason]
      by (simp add: markCreatorPaid_def answer_after_def creator_paid_state_def Let_def)
  qed
qed

section \<open>A payout keeps the invariant\<close>

lemma requests_with_request [simp]: "requests (with_request w s) = map (\<lambda>x. if w_id x = w_id w then w else x) (requests s)"
  "wallets (with_request w s) = wallets s" "staffRows (with_request w s) = staffRows s"
  by (simp_all add: with_request_def)

lemma recompute_with_request [simp]: "recomputeBalanceFromLedger u (with_request w s) = recomputeBalanceFromLedger u s"
  by (rule recompute_frame) simp

lemma staff_paid_with_request:
  assumes "distinct (map w_id (requests s))" and "w \<in> set (requests s)" and "w_id w' = w_id w"
  shows "staff_paid u (with_request w' s) = staff_paid u s - paid_out u w + paid_out u w'"
  using sum_update [OF assms(1,2), of "paid_out u" "\<lambda>_. w'"] assms(3) by (simp add: staff_paid_def)

lemma filter_update_new:
  assumes "distinct (map k xs)" and "x \<in> set xs" and "\<not> P x" and "P y" and "f y \<notin> f ` set (filter P xs)" and "distinct (map f (filter P xs))"
  shows "distinct (map f (filter P (map (\<lambda>z. if k z = k x then y else z) xs)))"
  using assms
proof (induction xs)
  case (Cons z zs)
  show ?case
  proof (cases "z = x")
    case True
    then have "map (\<lambda>z. if k z = k x then y else z) zs = zs" using Cons.prems(1) by (intro map_idI) (auto simp: image_iff)
    then show ?thesis using True Cons.prems by auto
  next
    case False
    then have n: "k z \<noteq> k x" and x: "x \<in> set zs" using Cons.prems by (auto simp: image_iff)
    have d: "distinct (map f (filter P (map (\<lambda>z. if k z = k x then y else z) zs)))"
      using Cons x by (auto split: if_splits)
    have "f z \<notin> f ` set (filter P (map (\<lambda>z. if k z = k x then y else z) zs))" if "P z"
    proof
      assume "f z \<in> f ` set (filter P (map (\<lambda>z. if k z = k x then y else z) zs))"
      then obtain v where v: "v \<in> set zs" "P (if k v = k x then y else v)" "f z = f (if k v = k x then y else v)" by auto
      then show False using Cons.prems(5,6) that by (auto split: if_splits)
    qed
    then show ?thesis using n d by auto
  qed
qed simp

lemma payout_keeps:
  assumes ok: "payout_ok st" and w: "w \<in> set (requests st)" "w_status w = W_approved" "w_id w' = w_id w" "w_status w' = W_paid"
    and s: "requests s = requests st" "keys_unique (wallets s)" "txns (wallets s) = txns (wallets st) @ [t]" "row_of_payout w' t"
    and rows: "sl_idempotencyKey ` set (staffRows s) \<subseteq> insert (Some (paid_debit_key (w_id w))) (sl_idempotencyKey ` set (staffRows st))"
    and accts: "\<And>a. a \<in> set (accounts (wallets s)) \<Longrightarrow>
      a_coins a = expectedBalance (a_id a) (wallets s) + staff_paid (a_id a) st + paid_out (a_id a) w' \<and>
      nvl (a_staffCoinsBalance a) 0 = recomputeBalanceFromLedger (a_id a) s"
  shows "payout_ok (with_request w' s)"
proof -
  have d: "distinct (map w_id (requests s))" using ok s(1) by (simp add: payout_ok_def)
  have n: "tx_transactionId t \<notin> tx_transactionId ` set (txns (wallets st))"
    using s(2,3) by (auto simp: keys_unique_def)
  have f: "w_transactionId w' = Some (tx_transactionId t)" using s(4) by (simp add: row_of_payout_def)
  have new: "w_transactionId w' \<notin> w_transactionId ` set (filter (\<lambda>w. w_status w = W_paid) (requests st))"
  proof
    assume "w_transactionId w' \<in> w_transactionId ` set (filter (\<lambda>w. w_status w = W_paid) (requests st))"
    then obtain x where x: "x \<in> set (requests st)" "w_status x = W_paid" "w_transactionId x = Some (tx_transactionId t)" using f by auto
    then have "request_ok st x" using ok by (simp add: payout_ok_def)
    then obtain y where "y \<in> set (txns (wallets st))" "row_of_payout x y" using x(2) by (auto simp: request_ok_def)
    then show False using x(3) n imageI [of y _ tx_transactionId] by (simp add: row_of_payout_def)
  qed
  have "distinct (paid_ids (with_request w' s))"
    using filter_update_new [where k = w_id and P = "\<lambda>w. w_status w = W_paid" and f = w_transactionId and y = w',
        OF d [unfolded s(1)] w(1)] w new ok
    by (simp add: paid_ids_def s(1) payout_ok_def)
  moreover have "distinct (map w_id (requests (with_request w' s)))"
    using d w(3) by (simp add: s(1) comp_def if_distrib cong: if_cong)
  moreover have "account_ok (with_request w' s) a" if a: "a \<in> set (accounts (wallets s))" for a
    using accts [OF a] staff_paid_with_request [OF d, of w w' "a_id a"] w s(1) staff_paid_frame [of s st "a_id a"]
    by (simp add: account_ok_def paid_out_def)
  moreover have "request_ok (with_request w' s) x" if x: "x \<in> set (requests (with_request w' s))" for x
  proof -
    consider "x = w'" | "x \<in> set (requests st)" "w_id x \<noteq> w_id w" using x w(3) by (auto simp: s(1) split: if_splits)
    then show ?thesis
    proof cases
      case 1
      then show ?thesis using w(4) s(3,4) by (auto simp: request_ok_def)
    next
      case 2
      then have "request_ok st x" using ok by (simp add: payout_ok_def)
      then show ?thesis using 2 rows s(3) by (auto simp: request_ok_def)
    qed
  qed
  ultimately show ?thesis using s(2) by (simp add: payout_ok_def)
qed

lemma keys_debited:
  assumes "keys_unique s" and "tx_transactionId t \<notin> tx_transactionId ` set (txns s)" and "\<And>a. a_id (f a) = a_id a"
  shows "keys_unique (update_account uid f (s\<lparr>txns := txns s @ [t]\<rparr>))"
  using assms by (intro keys_update_account) (auto simp: keys_unique_def)

lemma account_in_update:
  assumes "a \<in> set (accounts (update_account uid f s))"
  obtains (other) "a \<in> set (accounts s)" "a_id a \<noteq> uid" | (it) b where "b \<in> set (accounts s)" "a_id b = uid" "a = f b"
  using assms by (auto simp: accounts_update split: if_splits)

lemma account_is:
  assumes "keys_unique s" and "findById (a_id u) s = Some u" and "b \<in> set (accounts s)" and "a_id b = a_id u"
  shows "b = u"
  using find_unique [of a_id "accounts s" b] assms by (simp add: keys_unique_def findById_def)

lemma staff_payout_keeps:
  assumes ok: "payout_ok st" and w: "find_request wid st = Some w" "w_status w = W_approved" "w_staffUserId w = Some (a_id u)"
    and u: "findById (a_id u) (wallets st) = Some u" "w_amount w \<le> nvl (a_staffCoinsBalance u) 0"
    and t: "tid \<notin> tx_transactionId ` set (txns (wallets st))"
  shows "payout_ok (staff_paid_state now reason w u tid st)"
  unfolding staff_paid_state_def
proof (rule payout_keeps [OF ok, of w])
  let ?s = "staff_payout w u tid st"
  show "w \<in> set (requests st)" using find_request_SomeD(2) [OF w(1)] .
  show "w_status w = W_approved" by fact
  show "keys_unique (wallets ?s)"
    using ok t by (auto simp: staff_payout_def Let_def payout_txn_def payout_ok_def intro!: keys_debited)
  show "txns (wallets ?s) = txns (wallets st) @ [payout_txn tid (a_id u) (w_amount w)]"
    by (simp add: staff_payout_def Let_def)
  show "sl_idempotencyKey ` set (staffRows ?s) \<subseteq> insert (Some (paid_debit_key (w_id w))) (sl_idempotencyKey ` set (staffRows st))"
    by (auto simp: staff_payout_def Let_def payout_row_def)
  fix a assume "a \<in> set (accounts (wallets ?s))"
  then have a: "a \<in> set (accounts (update_account (a_id u) (\<lambda>a. a\<lparr>a_staffCoinsBalance := Some (nvl (a_staffCoinsBalance u) 0 - w_amount w)\<rparr>)
     ((wallets st)\<lparr>txns := txns (wallets st) @ [payout_txn tid (a_id u) (w_amount w)]\<rparr>)))"
    using u(2) by (simp add: staff_payout_def Let_def)
  have e: "expectedBalance x (wallets ?s) = expectedBalance x (wallets st) - (if x = a_id u then w_amount w else 0)" for x
    by (auto simp: staff_payout_def Let_def expected_append payout_txn_def signed_def)
  have r: "recomputeBalanceFromLedger x ?s = recomputeBalanceFromLedger x st - (if x = a_id u then w_amount w else 0)" for x
  proof -
    have "recomputeBalanceFromLedger x ?s = recomputeBalanceFromLedger x (st\<lparr>staffRows := staffRows st @
        [payout_row w (a_id u) (max 0 (nvl (a_staffCoinsBalance u) 0 - w_amount w))]\<rparr>)"
      by (rule recompute_frame) (simp add: staff_payout_def Let_def)
    then show ?thesis by (simp add: recompute_append payout_row_def)
  qed
  have p: "paid_out x (paid_request now reason w tid (w_creatorUserId w)) = (if x = a_id u then w_amount w else 0)" for x
    using w(3) by (auto simp: paid_out_def paid_request_def)
  from a show "a_coins a = expectedBalance (a_id a) (wallets ?s) + staff_paid (a_id a) st +
      paid_out (a_id a) (paid_request now reason w tid (w_creatorUserId w)) \<and>
    nvl (a_staffCoinsBalance a) 0 = recomputeBalanceFromLedger (a_id a) ?s"
  proof (cases rule: account_in_update)
    case other
    then have "account_ok st a" using ok by (simp add: payout_ok_def)
    then show ?thesis using other by (simp add: account_ok_def e r p)
  next
    case (it b)
    then have "b = u" using account_is [OF _ u(1)] ok by (simp add: payout_ok_def)
    moreover have "account_ok st u" using it \<open>b = u\<close> ok by (simp add: payout_ok_def)
    ultimately show ?thesis using it by (simp add: account_ok_def e r p nvl_def)
  qed
qed (simp_all add: paid_request_def staff_payout_def Let_def row_of_payout_def payout_txn_def)

lemma creator_payout_keeps:
  assumes ok: "payout_ok st" and w: "find_request wid st = Some w" "w_status w = W_approved" "w_staffUserId w = None"
    and u: "findById (a_id u) (wallets st) = Some u"
    and t: "tid \<notin> tx_transactionId ` set (txns (wallets st))"
  shows "payout_ok (creator_paid_state now reason w u tid st)"
  unfolding creator_paid_state_def
proof (rule payout_keeps [OF ok, of w])
  let ?h = "List.find (\<lambda>h. hp_userId h = a_id u) (hosts st)"
  let ?s = "creator_payout w u tid ?h st"
  show "w \<in> set (requests st)" using find_request_SomeD(2) [OF w(1)] .
  show "w_status w = W_approved" by fact
  show "keys_unique (wallets ?s)"
    using ok t by (auto simp: creator_payout_def payout_txn_def payout_ok_def intro!: keys_debited)
  show "txns (wallets ?s) = txns (wallets st) @ [payout_txn tid (a_id u) (w_amount w)]"
    by (simp add: creator_payout_def)
  show "sl_idempotencyKey ` set (staffRows ?s) \<subseteq> insert (Some (paid_debit_key (w_id w))) (sl_idempotencyKey ` set (staffRows st))"
    by (auto simp: creator_payout_def)
  fix a assume "a \<in> set (accounts (wallets ?s))"
  then have a: "a \<in> set (accounts (update_account (a_id u) (\<lambda>a. a\<lparr>a_coins := a_coins u - w_amount w\<rparr>)
     ((wallets st)\<lparr>txns := txns (wallets st) @ [payout_txn tid (a_id u) (w_amount w)]\<rparr>)))"
    by (simp add: creator_payout_def)
  have e: "expectedBalance x (wallets ?s) = expectedBalance x (wallets st) - (if x = a_id u then w_amount w else 0)" for x
    by (auto simp: creator_payout_def expected_append payout_txn_def signed_def)
  have r: "recomputeBalanceFromLedger x ?s = recomputeBalanceFromLedger x st" for x
    by (rule recompute_frame) (simp add: creator_payout_def)
  have p: "paid_out x (paid_request now reason w tid c) = 0" for x c
    using w(3) by (auto simp: paid_out_def paid_request_def)
  from a show "a_coins a = expectedBalance (a_id a) (wallets ?s) + staff_paid (a_id a) st +
      paid_out (a_id a) (paid_request now reason w tid (if w_creatorUserId w = None then Some (a_id u) else w_creatorUserId w)) \<and>
    nvl (a_staffCoinsBalance a) 0 = recomputeBalanceFromLedger (a_id a) ?s"
  proof (cases rule: account_in_update)
    case other
    then have "account_ok st a" using ok by (simp add: payout_ok_def)
    then show ?thesis using other by (simp add: account_ok_def e r p)
  next
    case (it b)
    then have "b = u" using account_is [OF _ u] ok by (simp add: payout_ok_def)
    moreover have "account_ok st u" using it \<open>b = u\<close> ok by (simp add: payout_ok_def)
    ultimately show ?thesis using it by (simp add: account_ok_def e r p)
  qed
qed (simp_all add: paid_request_def creator_payout_def row_of_payout_def payout_txn_def)

section \<open>The life of a request\<close>

definition closed :: "withdrawal \<Rightarrow> bool" where
  "closed w \<longleftrightarrow> w_status w = W_rejected \<or> w_status w = W_paid"

definition party :: "withdrawal \<Rightarrow> string option \<times> string option" where
  "party w = (w_staffUserId w, w_creatorUserId w)"

text \<open>Requests of the older backend name their creator by the Firebase uid alone.\<close>

definition names_party :: "withdrawal \<Rightarrow> bool" where
  "names_party w \<longleftrightarrow> w_staffUserId w \<noteq> None \<or> w_creatorUserId w \<noteq> None"

text \<open>The documented life: pending, approved, then paid, and rejected from the first two.\<close>

definition moves_on :: "withdrawal \<Rightarrow> withdrawal \<Rightarrow> bool" where
  "moves_on w w' \<longleftrightarrow>
     (w_status w, w_status w') \<in> {(W_pending, W_approved), (W_pending, W_rejected), (W_approved, W_rejected), (W_approved, W_paid)} \<and>
     w_id w' = w_id w \<and> w_amount w' = w_amount w \<and> w_staffUserId w' = w_staffUserId w \<and>
     (names_party w \<longrightarrow> w_creatorUserId w' = w_creatorUserId w)"

inductive request_step :: "withdrawal list \<Rightarrow> withdrawal list \<Rightarrow> bool" where
  unchanged: "request_step ws ws"
| opened: "w_id w \<notin> w_id ` set ws \<Longrightarrow> w_status w = W_pending \<Longrightarrow> names_party w \<Longrightarrow> party w \<notin> party ` set (filter active ws) \<Longrightarrow>
    request_step ws (ws @ [w])"
| moved: "w \<in> set ws \<Longrightarrow> moves_on w w' \<Longrightarrow> request_step ws (map (\<lambda>x. if w_id x = w_id w then w' else x) ws)"

lemma filter_update_same:
  "(\<And>z. z \<in> set xs \<Longrightarrow> k z = i \<Longrightarrow> \<not> P z) \<Longrightarrow> \<not> P y \<Longrightarrow> filter P (map (\<lambda>z. if k z = i then y else z) xs) = filter P xs"
  by (induction xs) auto

lemma open_keeps:
  assumes ok: "payout_ok st" and w: "w \<in> set (requests st)" "w_status w \<noteq> W_paid" "w_status w' \<noteq> W_paid"
    and w': "w_id w' = w_id w" "w_transactionId w' = w_transactionId w"
  shows "payout_ok (with_request w' st)"
proof -
  have d: "distinct (map w_id (requests st))" using ok by (simp add: payout_ok_def)
  have x: "x = w" if "x \<in> set (requests st)" "w_id x = w_id w" for x
    using that w(1) d find_request_unique by (metis option.inject)
  have "filter (\<lambda>w. w_status w = W_paid) (map (\<lambda>x. if w_id x = w_id w' then w' else x) (requests st)) =
    filter (\<lambda>w. w_status w = W_paid) (requests st)"
    using x w w' by (intro filter_update_same) auto
  then have p: "paid_ids (with_request w' st) = paid_ids st" by (simp add: paid_ids_def)
  have "staff_paid u (with_request w' st) = staff_paid u st" for u
    using staff_paid_with_request [OF d w(1) w'(1)] w(2,3) by (simp add: paid_out_def)
  then have "account_ok (with_request w' st) a" if "a \<in> set (accounts (wallets st))" for a
    using ok that by (simp add: payout_ok_def account_ok_def)
  moreover have "request_ok (with_request w' st) x" if "x \<in> set (requests (with_request w' st))" for x
    using that ok w w' by (auto simp: payout_ok_def request_ok_def paid_before_def split: if_splits)
  moreover have "distinct (map w_id (requests (with_request w' st)))"
    using d w'(1) by (simp add: comp_def if_distrib cong: if_cong)
  ultimately show ?thesis using ok p by (simp add: payout_ok_def)
qed

text \<open>An id is fresh when no request has it and no ledger row was written for it.\<close>

definition fresh_request :: "string \<Rightarrow> wd_state \<Rightarrow> bool" where
  "fresh_request wid st \<longleftrightarrow> wid \<notin> w_id ` set (requests st) \<and> Some (paid_debit_key wid) \<notin> sl_idempotencyKey ` set (staffRows st)"

lemma opened_keeps:
  assumes ok: "payout_ok st" and w: "fresh_request (w_id w) st" "w_status w = W_pending" "w_transactionId w = None"
  shows "payout_ok (st\<lparr>requests := requests st @ [w]\<rparr>)"
proof -
  let ?s = "st\<lparr>requests := requests st @ [w]\<rparr>"
  have "staff_paid u ?s = staff_paid u st" for u using w(2) by (simp add: staff_paid_def paid_out_def)
  moreover have "recomputeBalanceFromLedger u ?s = recomputeBalanceFromLedger u st" for u by (rule recompute_frame) simp
  moreover have "paid_ids ?s = paid_ids st" using w(2) by (simp add: paid_ids_def)
  ultimately show ?thesis
    using ok w by (auto simp: payout_ok_def account_ok_def request_ok_def fresh_request_def paid_before_def)
qed

section \<open>The handlers, undisturbed\<close>

lemma single_write:
  "run_writes alone n [save_request wid f] st = (b, st') \<Longrightarrow> distinct (map w_id (requests st)) \<Longrightarrow> find_request wid st = Some w \<Longrightarrow>
    w_id (f w) = wid \<Longrightarrow> st' = st \<or> st' = with_request (f w) st"
  by (cases n) (auto simp: save_request_found)

lemma moved_with_request:
  "w \<in> set (requests st) \<Longrightarrow> moves_on w w' \<Longrightarrow> request_step (requests st) (requests (with_request w' st))"
  using request_step.moved [of w "requests st" w'] by (simp add: moves_on_def)

lemma open_write_step:
  assumes ok: "payout_ok st" and w: "find_request wid st = Some w"
    and run: "answer_after q (run_writes alone n [save_request wid f] st) = (r, st')"
    and f: "moves_on w (f w)" "w_transactionId (f w) = w_transactionId w" "w_status (f w) \<noteq> W_paid" "w_status w \<noteq> W_paid"
  shows "payout_ok st' \<and> request_step (requests st) (requests st')"
proof -
  have d: "distinct (map w_id (requests st))" using ok by (simp add: payout_ok_def)
  have k: "w_id w = wid" "w \<in> set (requests st)" using find_request_SomeD [OF w] by simp_all
  have "snd (answer_after q (run_writes alone n [save_request wid f] st)) = snd (run_writes alone n [save_request wid f] st)"
    by (simp add: answer_after_def)
  then have "run_writes alone n [save_request wid f] st = (fst (run_writes alone n [save_request wid f] st), st')"
    unfolding run by (metis prod.collapse snd_conv)
  moreover have "w_id (f w) = wid" using f(1) k(1) by (simp add: moves_on_def)
  ultimately consider "st' = st" | "st' = with_request (f w) st" using single_write [OF _ d w] by blast
  then show ?thesis
  proof cases
    case 1
    then show ?thesis using ok by (simp add: request_step.unchanged)
  next
    case 2
    then show ?thesis using open_keeps [OF ok k(2) f(4,3) _ f(2)] moved_with_request [OF k(2) f(1)] f(1) by (simp add: moves_on_def)
  qed
qed

lemma maybe_written:
  assumes "payout_ok st" and "find_request wid st = Some w"
    and "st' = st \<or> answer_after q (run_writes alone n [save_request wid f] st) = (r, st')"
    and "w_status w \<noteq> W_paid" and "st' \<noteq> st \<Longrightarrow> moves_on w (f w)" and "w_transactionId (f w) = w_transactionId w" and "w_status (f w) \<noteq> W_paid"
  shows "payout_ok st' \<and> request_step (requests st) (requests st')"
  using assms open_write_step [OF assms(1,2), of q n f r st'] by (cases "st' = st") (simp_all add: request_step.unchanged)

lemma approval_step:
  assumes ok: "payout_ok st" and run: "processWithdrawalApproval alone n now wid actor reason isAdmin st = (r, st')"
  shows "payout_ok st' \<and> request_step (requests st) (requests st')"
proof (cases "find_request wid st")
  case None
  then show ?thesis using run ok by (simp add: processWithdrawalApproval_def request_step.unchanged)
next
  case w: (Some w)
  note k = find_request_SomeD(1) [OF w]
  show ?thesis
  proof (cases "w_status w = W_pending")
    case False
    then have "st' = st" using run w by (auto simp: processWithdrawalApproval_def split: if_splits option.splits)
    then show ?thesis using ok by (simp add: request_step.unchanged)
  next
    case p: True
    show ?thesis
    proof (cases "w_staffUserId w")
      case None
      show ?thesis
      proof (cases "resolveWithdrawalCreatorUser w st")
        case None
        then have "st' = st" using run w p \<open>w_staffUserId w = None\<close> by (auto simp: processWithdrawalApproval_def split: if_splits)
        then show ?thesis using ok by (simp add: request_step.unchanged)
      next
        case (Some u)
        let ?f = "\<lambda>x. x\<lparr>w_status := W_approved, w_processedAt := Some now, w_adminUserId := Some (au_id actor), w_notes := notes_of reason,
          w_creatorUserId := (if w_creatorUserId w = None then Some (a_id u) else w_creatorUserId x)\<rparr>"
        have "st' = st \<or> answer_after (WOk wid (w_amount w) None) (run_writes alone n [save_request wid ?f] st) = (r, st')"
          using run by (simp add: processWithdrawalApproval_def w p None Some split: if_splits)
        then show ?thesis
          by (rule maybe_written [OF ok w]) (simp_all add: p moves_on_def names_party_def None)
      qed
    next
      case (Some s)
      let ?f = "\<lambda>x. x\<lparr>w_status := W_approved, w_processedAt := Some now, w_adminUserId := Some (au_id actor), w_notes := notes_of reason\<rparr>"
      have "st' = st \<or> answer_after (WOk wid (w_amount w) None) (run_writes alone n [save_request wid ?f] st) = (r, st')"
        using run by (simp add: processWithdrawalApproval_def w p Some split: if_splits option.splits)
      then show ?thesis
        by (rule maybe_written [OF ok w]) (simp_all add: p moves_on_def)
    qed
  qed
qed

lemma rejection_step:
  assumes ok: "payout_ok st" and run: "processWithdrawalRejection alone n now wid actor reason isAdmin st = (r, st')"
  shows "payout_ok st' \<and> request_step (requests st) (requests st')"
proof (cases "find_request wid st")
  case None
  then show ?thesis using run ok by (auto simp: processWithdrawalRejection_def request_step.unchanged split: if_splits)
next
  case w: (Some w)
  show ?thesis
  proof (cases "w_status w = W_pending \<or> w_status w = W_approved")
    case False
    then have "st' = st" using run w by (auto simp: processWithdrawalRejection_def split: if_splits)
    then show ?thesis using ok by (simp add: request_step.unchanged)
  next
    case p: True
    let ?f = "\<lambda>x. x\<lparr>w_status := W_rejected, w_adminUserId := Some (au_id actor), w_notes := Some (js_trim reason), w_processedAt := Some now\<rparr>"
    have "st' = st \<or> answer_after (WOk wid (w_amount w) None) (run_writes alone n [save_request wid ?f] st) = (r, st')"
      using run by (simp add: processWithdrawalRejection_def w split: if_splits)
    then show ?thesis
      using p by (elim maybe_written [OF ok w]) (auto simp: moves_on_def)
  qed
qed

lemma mark_paid_step:
  assumes ok: "payout_ok st" and n: "4 \<le> n" and run: "processWithdrawalMarkPaid alone n now uuid wid actor reason isAdmin st = (r, st')"
  shows "payout_ok st' \<and> request_step (requests st) (requests st')"
proof (cases "find_request wid st")
  case None
  then show ?thesis using run ok by (simp add: processWithdrawalMarkPaid_def request_step.unchanged)
next
  case (Some w)
  show ?thesis
  proof (cases "isAdmin \<and> w_status w = W_approved")
    case False
    then show ?thesis using run ok Some by (auto simp: processWithdrawalMarkPaid_def request_step.unchanged split: if_splits)
  next
    case a: True
    have m: "w \<in> set (requests st)" using find_request_SomeD(2) [OF Some] .
    have mv: "moves_on w (paid_request now reason w tid c)" if "names_party w \<Longrightarrow> c = w_creatorUserId w" for tid c
      using a that by (simp add: moves_on_def paid_request_def)
    show ?thesis
    proof (cases "w_staffUserId w")
      case None
      then have "markCreatorPaid alone n now uuid reason w st = (r, st')" using run Some a by (simp add: processWithdrawalMarkPaid_def)
      then show ?thesis
      proof (cases rule: markCreatorPaid_cases [OF ok Some conjunct2 [OF a] n, consumes 1, case_names same paid])
        case same
        then show ?thesis using ok by (simp add: request_step.unchanged)
      next
        case (paid u tid)
        have "request_step (requests st) (requests (with_request (paid_request now reason w tid
            (if w_creatorUserId w = None then Some (a_id u) else w_creatorUserId w)) st))"
          using None by (intro moved_with_request [OF m] mv) (auto simp: names_party_def)
        then show ?thesis
          using creator_payout_keeps [OF ok Some conjunct2 [OF a] None paid(2,4)] paid(6)
          by (simp add: creator_paid_state_def creator_payout_def)
      qed
    next
      case s: (Some staffId)
      show ?thesis
      proof (cases "isSuperAdminRole (au_role actor)")
        case False
        then show ?thesis using run ok Some s a by (auto simp: processWithdrawalMarkPaid_def request_step.unchanged)
      next
        case True
        then have "markStaffPaid alone n now uuid reason w staffId st = (r, st')" using run Some a s by (simp add: processWithdrawalMarkPaid_def)
        then show ?thesis
        proof (cases rule: markStaffPaid_cases [OF ok Some conjunct2 [OF a] n, consumes 1, case_names same paid])
          case same
          then show ?thesis using ok by (simp add: request_step.unchanged)
        next
          case (paid u tid)
          have u: "w_staffUserId w = Some (a_id u)" "findById (a_id u) (wallets st) = Some u"
            using findById_SomeD(1) [OF paid(1)] paid(1) s by simp_all
          have "request_step (requests st) (requests (with_request (paid_request now reason w tid (w_creatorUserId w)) st))"
            by (intro moved_with_request [OF m] mv) simp
          then show ?thesis
            using staff_payout_keeps [OF ok Some conjunct2 [OF a] u paid(2,3)] paid(5)
            by (simp add: staff_paid_state_def staff_payout_def Let_def)
        qed
      qed
    qed
  qed
qed

end
