(* ===== verification/PayoutFlow.thy ===== *)
theory PayoutFlow
  imports PayoutProofs
begin

text \<open>
  Sequences of payout handlers and what interference and failures do to them: requests filed at the
  same time, a rejection that meets a payout, a payout cut short between its writes, and the
  reconciliation of the staff wallets.
\<close>

section \<open>New requests\<close>

lemma find_none_filter: "List.find P xs = None \<Longrightarrow> filter P xs = []"
  by (simp add: find_None_iff filter_empty_conv)

lemma latest_active_None: "latest_active P st = None \<longleftrightarrow> (\<forall>w \<in> set (requests st). active w \<longrightarrow> \<not> P w)"
proof -
  have "sort_key (\<lambda>w. - w_requestedAt w) ws = [] \<longleftrightarrow> ws = []" for ws :: "withdrawal list"
    by (metis length_0_conv length_sort)
  moreover have "latest_active P st = None \<longleftrightarrow> sort_key (\<lambda>w. - w_requestedAt w) (filter (\<lambda>w. P w \<and> active w) (requests st)) = []"
    by (simp add: latest_active_def split: list.split)
  ultimately show ?thesis by (auto simp: filter_empty_conv)
qed

lemma opened_step:
  assumes ok: "payout_ok st" and w: "fresh_request (w_id w) st" "w_status w = W_pending" "w_transactionId w = None" "names_party w"
    and free: "\<And>x. x \<in> set (requests st) \<Longrightarrow> active x \<Longrightarrow> party x \<noteq> party w"
  shows "payout_ok (st\<lparr>requests := requests st @ [w]\<rparr>) \<and> request_step (requests st) (requests (st\<lparr>requests := requests st @ [w]\<rparr>))"
proof -
  have "party w \<notin> party ` set (filter active (requests st))"
  proof
    assume "party w \<in> party ` set (filter active (requests st))"
    then obtain x where "x \<in> set (requests st)" "active x" "party x = party w" by auto
    then show False using free by simp
  qed
  then show ?thesis using opened_keeps [OF ok w(1-3)] w by (simp add: fresh_request_def request_step.opened)
qed

lemma creator_request_step:
  assumes ok: "payout_ok st" and fresh: "fresh_request wid st" and run: "requestWithdrawal id now wid fuid body st = (r, st')"
  shows "payout_ok st' \<and> request_step (requests st) (requests st')"
proof (cases r)
  case (Inl e)
  then have "st' = st" using run by (auto simp: requestWithdrawal_def Let_def split: if_splits option.splits)
  then show ?thesis using ok by (simp add: request_step.unchanged)
next
  case (Inr w)
  have "st' = st\<lparr>requests := requests st @ [w]\<rparr> \<and> w_id w = wid \<and> w_status w = W_pending \<and> w_transactionId w = None \<and>
    w_staffUserId w = None \<and> (\<exists>uid. w_creatorUserId w = Some uid \<and> latest_active (\<lambda>w. w_creatorUserId w = Some uid) st = None)"
    using run by (auto simp: Inr requestWithdrawal_def Let_def split: if_splits option.splits)
  then show ?thesis
    using opened_step [OF ok, of w] fresh by (auto simp: latest_active_None names_party_def party_def)
qed

lemma staff_request_step:
  assumes ok: "payout_ok st" and fresh: "fresh_request wid st"
    and run: "createStaffWithdrawalRequest id now wid staffId amount block st = (r, st')"
  shows "payout_ok st' \<and> request_step (requests st) (requests st')"
proof (cases r)
  case (Inl e)
  then have "st' = st" using run by (auto simp: createStaffWithdrawalRequest_def Let_def split: if_splits option.splits)
  then show ?thesis using ok by (simp add: request_step.unchanged)
next
  case (Inr w)
  have "st' = st\<lparr>requests := requests st @ [w]\<rparr> \<and> w_id w = wid \<and> w_status w = W_pending \<and> w_transactionId w = None \<and>
    w_staffUserId w = Some staffId \<and> latest_active (\<lambda>w. w_staffUserId w = Some staffId) st = None"
    using run by (auto simp: Inr createStaffWithdrawalRequest_def Let_def split: if_splits option.splits)
  then show ?thesis
    using opened_step [OF ok, of w] fresh by (auto simp: latest_active_None names_party_def party_def)
qed

section \<open>Income and reconciliation\<close>

text \<open>What the invariant reads of a state besides its requests.\<close>

lemma ok_frame:
  assumes "payout_ok st" and "requests st' = requests st" and "staffRows st' = staffRows st" and "wallets st' = wallets st"
  shows "payout_ok st'"
  using assms recompute_frame [OF assms(3)] staff_paid_frame [OF assms(2)]
  by (simp add: payout_ok_def account_ok_def request_ok_def paid_ids_def)

text \<open>A completed row with its coins, as every credit of the program writes it.\<close>

definition coin_income :: "coin_txn \<Rightarrow> wd_state \<Rightarrow> wd_state" where
  "coin_income t st = (case create_txn t (wallets st) of
     None \<Rightarrow> st | Some s \<Rightarrow> st\<lparr>wallets := inc_coins (tx_userId t) (signed t) s\<rparr>)"

text \<open>A line of the staff ledger with the balance, as the settlement of a call writes it.\<close>

definition staff_income :: "staff_row \<Rightarrow> wd_state \<Rightarrow> wd_state" where
  "staff_income r st = (case insert_row r st of
     None \<Rightarrow> st
   | Some st1 \<Rightarrow> st1\<lparr>wallets := update_account (sl_staffUserId r)
       (\<lambda>a. a\<lparr>a_staffCoinsBalance := Some (nvl (a_staffCoinsBalance a) 0 + sl_amountCoins r)\<rparr>) (wallets st1)\<rparr>)"

lemma coin_income_keeps:
  assumes ok: "payout_ok st" and t: "tx_status t = TCompleted"
  shows "payout_ok (coin_income t st) \<and> requests (coin_income t st) = requests st"
proof (cases "create_txn t (wallets st)")
  case None
  then show ?thesis using ok by (simp add: coin_income_def)
next
  case (Some s)
  then have s: "s = (wallets st)\<lparr>txns := txns (wallets st) @ [t]\<rparr>" by (auto simp: create_txn_def split: if_splits)
  let ?st = "coin_income t st"
  have st: "?st = st\<lparr>wallets := inc_coins (tx_userId t) (signed t) s\<rparr>" by (simp add: coin_income_def Some)
  have k: "keys_unique (wallets ?st)" using ok keys_create_txn [OF _ Some] by (simp add: st payout_ok_def keys_inc_coins)
  have e: "expectedBalance u (wallets ?st) = expectedBalance u (wallets st) + (if u = tx_userId t then signed t else 0)" for u
    using t by (simp add: st s expected_append)
  have f: "staff_paid u ?st = staff_paid u st" "recomputeBalanceFromLedger u ?st = recomputeBalanceFromLedger u st" for u
    using staff_paid_frame [of ?st st u] recompute_frame [of ?st st u] by (simp_all add: st)
  have "account_ok ?st a" if "a \<in> set (accounts (wallets ?st))" for a
  proof -
    have "a \<in> set (accounts (update_account (tx_userId t) (\<lambda>a. a\<lparr>a_coins := a_coins a + signed t\<rparr>) (wallets st)))"
      using that by (simp add: st s inc_coins_def accounts_update)
    then show ?thesis
      using ok by (cases rule: account_in_update) (auto simp: payout_ok_def account_ok_def e f)
  qed
  moreover have "request_ok ?st w" if "w \<in> set (requests st)" for w
    using ok that by (auto simp: payout_ok_def request_ok_def st s)
  ultimately show ?thesis using ok k by (simp add: payout_ok_def st paid_ids_def)
qed

lemma staff_income_keeps:
  assumes ok: "payout_ok st" and r: "sl_direction r = Credit" "\<And>wid. sl_idempotencyKey r \<noteq> Some (paid_debit_key wid)"
  shows "payout_ok (staff_income r st) \<and> requests (staff_income r st) = requests st"
proof (cases "insert_row r st")
  case None
  then show ?thesis using ok by (simp add: staff_income_def)
next
  case (Some st1)
  then have s: "st1 = st\<lparr>staffRows := staffRows st @ [r]\<rparr>" by (auto simp: insert_row_def split: if_splits)
  let ?f = "\<lambda>a. a\<lparr>a_staffCoinsBalance := Some (nvl (a_staffCoinsBalance a) 0 + sl_amountCoins r)\<rparr>"
  let ?st = "staff_income r st"
  have st: "?st = st1\<lparr>wallets := update_account (sl_staffUserId r) ?f (wallets st1)\<rparr>" by (simp add: staff_income_def Some)
  have e: "expectedBalance u (wallets ?st) = expectedBalance u (wallets st)" "staff_paid u ?st = staff_paid u st" for u
    by (simp_all add: st s staff_paid_def)
  have b: "recomputeBalanceFromLedger u ?st = recomputeBalanceFromLedger u st + (if u = sl_staffUserId r then sl_amountCoins r else 0)" for u
    using recompute_append [of u st r] recompute_frame [of ?st st1 u] r(1) by (simp add: st s)
  have "account_ok ?st a" if "a \<in> set (accounts (wallets ?st))" for a
  proof -
    have "a \<in> set (accounts (update_account (sl_staffUserId r) ?f (wallets st)))" using that by (simp add: st s)
    then show ?thesis
      using ok by (cases rule: account_in_update) (auto simp: payout_ok_def account_ok_def e b nvl_def)
  qed
  moreover have "request_ok ?st w" if "w \<in> set (requests st)" for w
    using ok that r(2) [of "w_id w"] by (auto simp: payout_ok_def request_ok_def st s)
  ultimately show ?thesis using ok by (simp add: payout_ok_def st s paid_ids_def keys_update_account)
qed

text \<open>Where the balance is what the ledger adds up to, the reconciliation has nothing to correct.\<close>

lemma reconcile_settled:
  assumes "cached_balance uid st = recomputeBalanceFromLedger uid st"
  shows "snd (reconcileStaffBalance env dry uid st) = st\<lparr>reconLog := reconLog st @ [fst (reconcileStaffBalance env dry uid st)]\<rparr>"
proof -
  have "\<not> \<bar>cached_balance uid st - recomputeBalanceFromLedger uid st\<bar> > of_int (getStaffWalletReconcileToleranceCoins env)"
    using assms by (simp add: getStaffWalletReconcileToleranceCoins_def)
  then show ?thesis by (simp add: reconcileStaffBalance_def Let_def)
qed

lemma cached_ok:
  assumes "payout_ok st" and "uid \<in> a_id ` set (accounts (wallets st))"
  shows "cached_balance uid st = recomputeBalanceFromLedger uid st"
proof -
  obtain a where a: "a \<in> set (accounts (wallets st))" "a_id a = uid" using assms(2) by auto
  then have "findById uid (wallets st) = Some a" using assms(1) find_unique by (fastforce simp: payout_ok_def keys_unique_def findById_def)
  then show ?thesis using a assms(1) by (auto simp: cached_balance_def payout_ok_def account_ok_def)
qed

text \<open>Every line of the ledger belongs to an account.\<close>

definition rows_owned :: "wd_state \<Rightarrow> bool" where
  "rows_owned st \<longleftrightarrow> sl_staffUserId ` set (staffRows st) \<subseteq> a_id ` set (accounts (wallets st))"

lemma reconcile_ids_frame:
  assumes "payout_ok st" and "set ids \<subseteq> a_id ` set (accounts (wallets st))"
  shows "\<exists>l. snd (reconcile_ids env dry ids st) = st\<lparr>reconLog := l\<rparr>"
  using assms
proof (induction ids arbitrary: st)
  case Nil
  have "snd (reconcile_ids env dry [] st) = st\<lparr>reconLog := reconLog st\<rparr>" by simp
  then show ?case by blast
next
  case (Cons uid ids)
  let ?l = "reconLog st @ [fst (reconcileStaffBalance env dry uid st)]"
  have r: "snd (reconcileStaffBalance env dry uid st) = st\<lparr>reconLog := ?l\<rparr>"
    using Cons.prems by (intro reconcile_settled cached_ok) auto
  have "payout_ok (st\<lparr>reconLog := ?l\<rparr>)" using ok_frame [OF Cons.prems(1)] by simp
  then obtain l where "snd (reconcile_ids env dry ids (st\<lparr>reconLog := ?l\<rparr>)) = st\<lparr>reconLog := ?l\<rparr>\<lparr>reconLog := l\<rparr>"
    using Cons.IH [of "st\<lparr>reconLog := ?l\<rparr>"] Cons.prems(2) by auto
  then show ?case using r by (auto simp: split_def Let_def)
qed

lemma collected_owned:
  assumes "rows_owned st"
  shows "set (collectStaffUserIdsForReconciliation st) \<subseteq> a_id ` set (accounts (wallets st))"
  using assms by (auto simp: collectStaffUserIdsForReconciliation_def rows_owned_def)

lemma reconcile_all_keeps:
  assumes "payout_ok st" and "rows_owned st" and "reconcileAllStaffBalances env dry st = (s, st')"
  shows "payout_ok st' \<and> requests st' = requests st"
proof -
  obtain l where "snd (reconcileAllStaffBalances env dry st) = st\<lparr>reconLog := l\<rparr>"
    using reconcile_ids_frame [OF assms(1) collected_owned [OF assms(2)]] by (auto simp: reconcileAllStaffBalances_def)
  then have "st' = st\<lparr>reconLog := l\<rparr>" using assms(3) by simp
  then show ?thesis using ok_frame [OF assms(1), of st'] by simp
qed

section \<open>Any sequence of handlers\<close>

inductive payout_step :: "wd_state \<Rightarrow> wd_state \<Rightarrow> bool" where
  bind: "upsertStaffPayoutAccount staffId inp st = (r, st') \<Longrightarrow> payout_step st st'"
| creator_request: "requestWithdrawal id now wid fuid body st = (r, st') \<Longrightarrow> fresh_request wid st \<Longrightarrow> payout_step st st'"
| staff_request: "createStaffWithdrawalRequest id now wid staffId amount block st = (r, st') \<Longrightarrow> fresh_request wid st \<Longrightarrow> payout_step st st'"
| approval: "processWithdrawalApproval alone n now wid actor reason isAdmin st = (a, st') \<Longrightarrow> payout_step st st'"
| rejection: "processWithdrawalRejection alone n now wid actor notice isAdmin st = (a, st') \<Longrightarrow> payout_step st st'"
| payout: "processWithdrawalMarkPaid alone n now uuid wid actor reason isAdmin st = (a, st') \<Longrightarrow> 4 \<le> n \<Longrightarrow> payout_step st st'"
| reconciliation: "reconcileAllStaffBalances env dry st = (s, st') \<Longrightarrow> rows_owned st \<Longrightarrow> payout_step st st'"
| coins: "tx_status t = TCompleted \<Longrightarrow> payout_step st (coin_income t st)"
| commission: "sl_direction row = Credit \<Longrightarrow> (\<And>wid. sl_idempotencyKey row \<noteq> Some (paid_debit_key wid)) \<Longrightarrow>
    payout_step st (staff_income row st)"

lemma payout_step_keeps:
  assumes "payout_step st st'" and ok: "payout_ok st"
  shows "payout_ok st' \<and> request_step (requests st) (requests st')"
  using assms(1)
proof cases
  case (bind staffId inp r)
  then have "requests st' = requests st \<and> staffRows st' = staffRows st \<and> wallets st' = wallets st"
    by (auto simp: upsertStaffPayoutAccount_def Let_def split: option.splits)
  then show ?thesis using ok_frame [OF ok] by (simp add: request_step.unchanged)
next
  case creator_request
  then show ?thesis using creator_request_step [OF ok] by blast
next
  case staff_request
  then show ?thesis using staff_request_step [OF ok] by blast
next
  case approval
  then show ?thesis using approval_step [OF ok] by blast
next
  case rejection
  then show ?thesis using rejection_step [OF ok] by blast
next
  case payout
  then show ?thesis using mark_paid_step [OF ok] by blast
next
  case reconciliation
  then show ?thesis using reconcile_all_keeps [OF ok] by (metis request_step.unchanged)
next
  case coins
  then show ?thesis using coin_income_keeps [OF ok] by (metis request_step.unchanged)
next
  case commission
  then show ?thesis using staff_income_keeps [OF ok] by (metis request_step.unchanged)
qed

lemma payout_steps_ok: "payout_step\<^sup>*\<^sup>* st st' \<Longrightarrow> payout_ok st \<Longrightarrow> payout_ok st'"
  by (induction rule: rtranclp_induct) (use payout_step_keeps in blast)+

text \<open>
  C5. Over any sequence of undisturbed requests, approvals, rejections, payouts, reconciliations and
  income, every payout is accounted for: each paid request has a debit row of its own with its amount,
  the balance of a member of the staff is what the staff ledger adds up to, and a wallet of coins is what
  its rows add up to plus what its owner was paid as staff. For creators the audit therefore finds no
  mismatch; for staff it finds exactly the sum of their payouts, which are booked as debits of coins.
\<close>

theorem payouts_are_accounted_for:
  assumes "payout_step\<^sup>*\<^sup>* st st'" and "payout_ok st"
  shows "(\<forall>w \<in> set (requests st'). w_status w = W_paid \<longrightarrow> (\<exists>t \<in> set (txns (wallets st')). row_of_payout w t)) \<and>
    distinct (paid_ids st') \<and>
    (\<forall>a \<in> set (accounts (wallets st')). a_coins a = expectedBalance (a_id a) (wallets st') + staff_paid (a_id a) st' \<and>
      nvl (a_staffCoinsBalance a) 0 = recomputeBalanceFromLedger (a_id a) st')"
  using payout_steps_ok [OF assms] by (auto simp: payout_ok_def request_ok_def account_ok_def)

lemma closed_stays:
  assumes "request_step ws ws'" and "distinct (map w_id ws)" and "w \<in> set ws" and "closed w"
  shows "w \<in> set ws'"
  using assms(1)
proof cases
  case (moved v v')
  then have "v \<noteq> w" using assms(4) by (auto simp: moves_on_def closed_def)
  then have "w_id w \<noteq> w_id v" using assms(2,3) moved by (auto simp: distinct_map inj_on_def)
  then show ?thesis using moved assms(3) by (force simp: image_iff)
qed (use assms in auto)

text \<open>
  C29. A request that was paid or rejected stays exactly as it is, whatever sequence of undisturbed
  handlers follows: it is not paid again, not rejected after the payout and not reopened.
\<close>

theorem closed_requests_are_final:
  assumes "payout_step\<^sup>*\<^sup>* st st'" and "payout_ok st" and "w \<in> set (requests st)" and "closed w"
  shows "w \<in> set (requests st')"
  using assms
proof (induction rule: rtranclp_induct)
  case (step y z)
  have "payout_ok y" using step payout_steps_ok by blast
  then show ?case
    using payout_step_keeps [OF step(2)] closed_stays [of "requests y" "requests z" w] step by (auto simp: payout_ok_def)
qed

definition one_open :: "wd_state \<Rightarrow> bool" where
  "one_open st \<longleftrightarrow>
     (\<forall>x \<in> set (requests st). active x \<longrightarrow> names_party x \<and> (\<forall>y \<in> set (requests st). active y \<and> party x = party y \<longrightarrow> x = y))"

lemma one_open_step:
  assumes "request_step (requests st) (requests st')" and "one_open st" and "distinct (map w_id (requests st))"
  shows "one_open st'"
  using assms(1)
proof cases
  case (opened w)
  have "party x \<noteq> party w" if "x \<in> set (requests st)" "active x" for x
  proof
    assume "party x = party w"
    moreover have "party x \<in> party ` set (filter active (requests st))" using that by simp
    ultimately show False using opened(5) by simp
  qed
  then show ?thesis using opened assms(2) by (fastforce simp: one_open_def)
next
  case (moved w w')
  have a: "active w' \<longrightarrow> active w \<and> (names_party w \<longrightarrow> party w' = party w \<and> names_party w')"
    using moved by (auto simp: moves_on_def active_def party_def names_party_def)
  have x: "x = w" if "x \<in> set (requests st)" "w_id x = w_id w" for x
    using that moved assms(3) by (auto simp: distinct_map inj_on_def)
  have "z = w' \<or> z \<in> set (requests st) \<and> z \<noteq> w" if "z \<in> set (requests st')" for z
    using that moved x by (auto split: if_splits)
  then show ?thesis using a moved(2) assms(2) unfolding one_open_def by metis
qed (use assms in \<open>simp add: one_open_def\<close>)

text \<open>
  When requests are filed one after the other, a creator or a member of the staff never has two open
  requests: over any sequence of undisturbed handlers, two open requests of the same party are the same
  request.
\<close>

theorem one_open_request_per_party:
  assumes "payout_step\<^sup>*\<^sup>* st st'" and "payout_ok st" and "one_open st"
    and "x \<in> set (requests st')" and "y \<in> set (requests st')" and "active x" and "active y" and "party x = party y"
  shows "x = y"
proof -
  have "one_open st'"
    using assms(1)
  proof (induction rule: rtranclp_induct)
    case (step y z)
    have "payout_ok y" using step(1) assms(2) payout_steps_ok by blast
    then show ?case using payout_step_keeps [OF step(2)] one_open_step step(3) by (auto simp: payout_ok_def)
  qed (fact assms(3))
  then show ?thesis using assms(4-8) by (auto simp: one_open_def)
qed

text \<open>
  The check for an open request and the insert are not one operation, and no index forbids a second
  one: two requests of a creator that are each acceptable, the second arriving while the first is
  between its check and its insert, are both accepted, and both stand open for the same wallet.
\<close>

theorem concurrent_requests_both_accepted:
  assumes "requestWithdrawal id now1 wid1 fuid body1 st = (Inr w1, s1)" and "requestWithdrawal id now2 wid2 fuid body2 st = (Inr w2, s2)"
  shows "requestWithdrawal (\<lambda>s. snd (requestWithdrawal id now2 wid2 fuid body2 s)) now1 wid1 fuid body1 st =
      (Inr w1, st\<lparr>requests := requests st @ [w2, w1]\<rparr>) \<and>
    active w1 \<and> active w2 \<and> party w1 = party w2"
proof -
  have s: "snd (requestWithdrawal id now2 wid2 fuid body2 st) = st\<lparr>requests := requests st @ [w2]\<rparr>"
    using assms(2) by (auto simp: requestWithdrawal_def Let_def split: if_splits option.splits)
  have "requestWithdrawal (\<lambda>s. snd (requestWithdrawal id now2 wid2 fuid body2 s)) now1 wid1 fuid body1 st =
      (Inr w1, st\<lparr>requests := requests st @ [w2, w1]\<rparr>)"
    using assms(1) s by (simp add: requestWithdrawal_def [of _ now1] Let_def split: if_splits option.splits) auto
  moreover have "active w1 \<and> active w2 \<and> party w1 = party w2"
    using assms by (auto simp: requestWithdrawal_def Let_def active_def party_def split: if_splits option.splits)
  ultimately show ?thesis by simp
qed

section \<open>A rejection that meets a payout\<close>

text \<open>What a request must fulfil to be paid out of the coins of a creator.\<close>

definition payable :: "wd_state \<Rightarrow> string \<Rightarrow> withdrawal \<Rightarrow> account \<Rightarrow> bool" where
  "payable st wid w u \<longleftrightarrow>
     keys_unique (wallets st) \<and> distinct (map w_id (requests st)) \<and> find_request wid st = Some w \<and> w_status w = W_approved \<and>
     w_staffUserId w = None \<and> \<not> paid_before w \<and> resolveWithdrawalCreatorUser w st = Some u \<and> w_amount w \<le> a_coins u"

definition payout_id :: "string \<Rightarrow> string \<Rightarrow> string" where
  "payout_id wid uuid = ''withdrawal_'' @ wid @ ''_'' @ uuid"

lemma payout_id_inj [simp]: "payout_id wid x = payout_id wid y \<longleftrightarrow> x = y"
  by (simp add: payout_id_def)

lemma markPaid_creator:
  assumes "payable st wid w u"
  shows "processWithdrawalMarkPaid others n now uuid wid actor reason True st =
    answer_after (WOk wid (w_amount w) (Some (payout_id wid uuid)))
      (run_writes others n (creator_payout_writes now reason w u (List.find (\<lambda>h. hp_userId h = a_id u) (hosts st)) (payout_id wid uuid)) st)"
  using assms find_request_SomeD(1) [of wid st w]
  by (simp add: payable_def processWithdrawalMarkPaid_def markCreatorPaid_def payout_id_def Let_def)

lemma payable_user:
  assumes "payable st wid w u"
  shows "findById (a_id u) (wallets st) = Some u"
  using assms resolve_found [of st w u] by (simp add: payable_def)

lemma markPaid_creator_alone:
  assumes "payable st wid w u" and "payout_id wid uuid \<notin> tx_transactionId ` set (txns (wallets st))" and "4 \<le> n"
  shows "processWithdrawalMarkPaid alone n now uuid wid actor reason True st =
    (WOk wid (w_amount w) (Some (payout_id wid uuid)), creator_paid_state now reason w u (payout_id wid uuid) st)"
proof -
  have "w_id w = wid" "find_request (w_id w) st = Some w" "distinct (map w_id (requests st))"
    using assms(1) find_request_SomeD(1) by (auto simp: payable_def)
  then show ?thesis
    unfolding markPaid_creator [OF assms(1)]
    using creator_writes_run [OF _ _ payable_user [OF assms(1)] assms(2) refl assms(3)]
    by (simp add: answer_after_def creator_paid_state_def)
qed

lemma coins_after_payout:
  assumes "findById (a_id u) (wallets st) = Some u"
  shows "findById (a_id u) (wallets (creator_paid_state now reason w u tid st)) = Some (u\<lparr>a_coins := a_coins u - w_amount w\<rparr>)"
proof -
  have "List.find (\<lambda>a. a_id a = i) (map (\<lambda>a. if a_id a = i then a\<lparr>a_coins := c\<rparr> else a) xs) =
    map_option (\<lambda>a. a\<lparr>a_coins := c\<rparr>) (List.find (\<lambda>a. a_id a = i) xs)" for i c and xs :: "account list"
    by (induction xs) auto
  then show ?thesis using assms by (simp add: creator_paid_state_def creator_payout_def findById_def accounts_update)
qed

lemma find_with_request:
  assumes "find_request (w_id w') st = Some w"
  shows "find_request (w_id w') (with_request w' st) = Some w'"
proof -
  have "List.find P xs = Some w \<Longrightarrow> P w' \<Longrightarrow> List.find P (map (\<lambda>x. if P x then w' else x) xs) = Some w'" for P and xs :: "withdrawal list"
    by (induction xs) (auto split: if_splits)
  then show ?thesis using assms by (simp add: find_request_def)
qed

text \<open>
  A rejection that read the request as approved and saves after a payout overwrites it: the coins are
  gone and the payout has its debit row, but the request ends up rejected, which nothing revisits.
\<close>

theorem rejection_overwrites_payout:
  assumes "payable st wid w u" and "payout_id wid uuid \<notin> tx_transactionId ` set (txns (wallets st))" and "3 \<le> length (js_trim notice)"
  shows "\<exists>st' w'. processWithdrawalRejection
      (\<lambda>_ s. snd (processWithdrawalMarkPaid alone 4 now uuid wid actor reason True s)) 1 now' wid actor' notice True st =
      (WOk wid (w_amount w) None, st') \<and>
    find_request wid st' = Some w' \<and> w_status w' = W_rejected \<and> w_transactionId w' = Some (payout_id wid uuid) \<and>
    findById (a_id u) (wallets st') = Some (u\<lparr>a_coins := a_coins u - w_amount w\<rparr>)"
proof -
  let ?p = "creator_paid_state now reason w u (payout_id wid uuid) st"
  let ?f = "\<lambda>x. x\<lparr>w_status := W_rejected, w_adminUserId := Some (au_id actor'), w_notes := Some (js_trim notice), w_processedAt := Some now'\<rparr>"
  have w: "w_id w = wid" "find_request wid st = Some w" "distinct (map w_id (requests st))"
    using assms(1) find_request_SomeD(1) by (auto simp: payable_def)
  define v where "v = paid_request now reason w (payout_id wid uuid) (if w_creatorUserId w = None then Some (a_id u) else w_creatorUserId w)"
  have v: "w_id v = wid" "w_transactionId v = Some (payout_id wid uuid)" by (simp_all add: v_def paid_request_def w(1))
  let ?h = "List.find (\<lambda>h. hp_userId h = a_id u) (hosts st)"
  have p: "?p = with_request v (creator_payout w u (payout_id wid uuid) ?h st)" by (simp add: creator_paid_state_def v_def)
  have d: "distinct (map w_id (requests ?p))" using w(3) v(1) by (simp add: p creator_payout_def comp_def if_distrib cong: if_cong)
  have f: "find_request wid ?p = Some v"
    using find_with_request [of v "creator_payout w u (payout_id wid uuid) ?h st" w] v(1) w(2) by (simp add: p creator_payout_def)
  have s: "save_request wid ?f ?p = Some (with_request (?f v) ?p)" using save_request_found [OF d f, of ?f] v(1) by simp
  have a: "w_staffUserId w = None" "w_status w = W_approved" using assms(1) by (simp_all add: payable_def)
  have r: "processWithdrawalRejection (\<lambda>_ s. snd (processWithdrawalMarkPaid alone 4 now uuid wid actor reason True s)) 1 now' wid actor' notice True st =
      (WOk wid (w_amount w) None, with_request (?f v) ?p)"
    using assms(3) w a s markPaid_creator_alone [OF assms(1,2), of 4 now actor reason]
    by (simp add: processWithdrawalRejection_def answer_after_def)
  have "find_request wid (with_request (?f v) ?p) = Some (?f v)" using find_with_request [of "?f v" ?p v] f v(1) by simp
  then show ?thesis
    using r v coins_after_payout [OF payable_user [OF assms(1)], of now reason w "payout_id wid uuid"]
    by (intro exI [of _ "with_request (?f v) ?p"] exI [of _ "?f v"]) simp
qed

section \<open>A payout cut short\<close>

text \<open>The state after the first two writes: the debit row and the wallet.\<close>

definition half_paid :: "string \<Rightarrow> withdrawal \<Rightarrow> account \<Rightarrow> wd_state \<Rightarrow> wd_state" where
  "half_paid tid w u st =
     st\<lparr>wallets := update_account (a_id u) (\<lambda>a. a\<lparr>a_coins := a_coins u - w_amount w\<rparr>)
                     ((wallets st)\<lparr>txns := txns (wallets st) @ [payout_txn tid (a_id u) (w_amount w)]\<rparr>)\<rparr>"

lemma cut_short:
  assumes "payable st wid w u" and "payout_id wid uuid \<notin> tx_transactionId ` set (txns (wallets st))"
  shows "processWithdrawalMarkPaid alone 2 now uuid wid actor reason True st = (WThrown, half_paid (payout_id wid uuid) w u st)"
  unfolding markPaid_creator [OF assms(1)] creator_payout_writes_def
  using assms(2) payable_user [OF assms(1)]
  by (simp add: numeral_2_eq_2 insert_txn_def create_txn_def payout_txn_def save_user_def half_paid_def answer_after_def split: option.split)

lemma find_coins_update:
  "List.find (\<lambda>a. a_id a = i) (map (\<lambda>a. if a_id a = i then a\<lparr>a_coins := c\<rparr> else a) xs) =
    map_option (\<lambda>a. a\<lparr>a_coins := c\<rparr>) (List.find (\<lambda>a. a_id a = i) xs)"
  by (induction xs) auto

lemma find_coins_other:
  "i \<noteq> j \<Longrightarrow> List.find (\<lambda>a. a_id a = i) (map (\<lambda>a. if a_id a = j then a\<lparr>a_coins := c\<rparr> else a) xs) = List.find (\<lambda>a. a_id a = i) xs"
  by (induction xs) auto

lemma find_uid_update:
  assumes "distinct (map a_id xs)" and "List.find (\<lambda>a. a_firebaseUid a = f) xs = Some u"
  shows "List.find (\<lambda>a. a_firebaseUid a = f) (map (\<lambda>a. if a_id a = a_id u then a\<lparr>a_coins := c\<rparr> else a) xs) = Some (u\<lparr>a_coins := c\<rparr>)"
  using assms
proof (induction xs)
  case (Cons x xs)
  have u: "a_firebaseUid u = f" using Cons.prems(2) by (simp only: find_Some_iff) auto
  show ?case
  proof (cases "x = u")
    case False
    then have "a_firebaseUid x \<noteq> f" "List.find (\<lambda>a. a_firebaseUid a = f) xs = Some u" using Cons.prems(2) by (auto split: if_splits)
    then show ?thesis using Cons by simp
  qed (simp add: u)
qed simp

lemma half_paid_payable:
  assumes "payable st wid w u" and "payout_id wid uuid \<notin> tx_transactionId ` set (txns (wallets st))" and "2 * w_amount w \<le> a_coins u"
  shows "payable (half_paid (payout_id wid uuid) w u st) wid w (u\<lparr>a_coins := a_coins u - w_amount w\<rparr>)"
proof -
  have k: "keys_unique (wallets st)" and r: "resolveWithdrawalCreatorUser w st = Some u" using assms(1) by (simp_all add: payable_def)
  have "keys_unique (wallets (half_paid (payout_id wid uuid) w u st))"
    using k assms(2) by (auto simp: half_paid_def payout_txn_def intro!: keys_debited)
  moreover have "resolveWithdrawalCreatorUser w (half_paid (payout_id wid uuid) w u st) = Some (u\<lparr>a_coins := a_coins u - w_amount w\<rparr>)"
  proof (cases "w_creatorUserId w")
    case None
    then show ?thesis
      using r k find_uid_update [of "accounts (wallets st)" _ u]
      by (auto simp: resolveWithdrawalCreatorUser_def half_paid_def accounts_update keys_unique_def split: option.splits if_splits)
  next
    case (Some i)
    then have "a_id u = i" using r findById_SomeD(1) by (auto simp: resolveWithdrawalCreatorUser_def)
    then show ?thesis
      using r Some by (simp add: resolveWithdrawalCreatorUser_def half_paid_def findById_def accounts_update find_coins_update)
  qed
  ultimately show ?thesis using assms by (simp add: payable_def half_paid_def find_request_def)
qed

text \<open>
  C30. A payout whose writes fail after the wallet was debited leaves the request approved and without the
  id of its transaction, so marking it paid again debits the same payout a second time.
\<close>

theorem interrupted_payout_debits_twice:
  assumes "payable st wid w u" and "2 * w_amount w \<le> a_coins u" and "uuid1 \<noteq> uuid2"
    and "payout_id wid uuid1 \<notin> tx_transactionId ` set (txns (wallets st))" and "payout_id wid uuid2 \<notin> tx_transactionId ` set (txns (wallets st))"
    and "processWithdrawalMarkPaid alone 2 now uuid1 wid actor reason True st = (r1, st1)"
    and "processWithdrawalMarkPaid alone 4 now' uuid2 wid actor reason True st1 = (r2, st2)"
  shows "r1 = WThrown \<and> r2 = WOk wid (w_amount w) (Some (payout_id wid uuid2)) \<and>
    map_option a_coins (findById (a_id u) (wallets st2)) = Some (a_coins u - 2 * w_amount w)"
proof -
  have 1: "r1 = WThrown" "st1 = half_paid (payout_id wid uuid1) w u st" using cut_short [OF assms(1,4), of now actor reason] assms(6) by simp_all
  let ?u = "u\<lparr>a_coins := a_coins u - w_amount w\<rparr>"
  have p: "payable st1 wid w ?u" using half_paid_payable [OF assms(1,4,2)] 1 by simp
  have "payout_id wid uuid2 \<notin> tx_transactionId ` set (txns (wallets st1))" using assms(3,5) by (simp add: 1 half_paid_def payout_txn_def)
  from markPaid_creator_alone [OF p this, of 4 now' actor reason] assms(7)
  have 2: "r2 = WOk wid (w_amount w) (Some (payout_id wid uuid2))" "st2 = creator_paid_state now' reason w ?u (payout_id wid uuid2) st1"
    by simp_all
  show ?thesis using 1(1) 2 coins_after_payout [OF payable_user [OF p], of now' reason w "payout_id wid uuid2"] by simp
qed

section \<open>A staff payout that never completes\<close>

lemma ids_update [simp]:
  assumes "\<And>a. a_id (f a) = a_id a"
  shows "a_id ` set (accounts (update_account uid f s)) = a_id ` set (accounts s)"
proof -
  have "map a_id (accounts (update_account uid f s)) = map a_id (accounts s)"
    by (simp add: accounts_update comp_def if_distrib assms cong: if_cong)
  then show ?thesis by (metis set_map)
qed

text \<open>
  A request of the staff whose first payout was cut short after its ledger row: still approved, without
  a transaction, and the key of its row taken.
\<close>

definition stuck :: "string \<Rightarrow> withdrawal \<Rightarrow> string \<Rightarrow> wd_state \<Rightarrow> bool" where
  "stuck wid w staffId st \<longleftrightarrow>
     find_request wid st = Some w \<and> w_status w = W_approved \<and> w_staffUserId w = Some staffId \<and> \<not> paid_before w \<and>
     Some (paid_debit_key wid) \<in> sl_idempotencyKey ` set (staffRows st) \<and> staffId \<in> a_id ` set (accounts (wallets st))"

definition staff_payout_id :: "string \<Rightarrow> string \<Rightarrow> string" where
  "staff_payout_id wid uuid = ''staff_withdrawal_'' @ wid @ ''_'' @ uuid"

lemma find_staff_update:
  "List.find (\<lambda>a. a_id a = i) (map (\<lambda>a. if a_id a = i then a\<lparr>a_staffCoinsBalance := c\<rparr> else a) xs) =
    map_option (\<lambda>a. a\<lparr>a_staffCoinsBalance := c\<rparr>) (List.find (\<lambda>a. a_id a = i) xs)"
  by (induction xs) auto

lemma stuck_retry:
  assumes st: "stuck wid w staffId st" and bal: "w_amount w \<le> cached_balance staffId st"
    and fresh: "staff_payout_id wid uuid \<notin> tx_transactionId ` set (txns (wallets st))"
    and admin: "isSuperAdminRole (au_role actor)" and n: "3 \<le> n"
  shows "\<exists>st'. processWithdrawalMarkPaid alone n now uuid wid actor reason True st = (WThrown, st') \<and> stuck wid w staffId st' \<and>
    cached_balance staffId st' = cached_balance staffId st - w_amount w \<and>
    tx_transactionId ` set (txns (wallets st')) = insert (staff_payout_id wid uuid) (tx_transactionId ` set (txns (wallets st)))"
proof -
  have w: "find_request wid st = Some w" "w_id w = wid" "w_status w = W_approved" "w_staffUserId w = Some staffId" "\<not> paid_before w"
    and key: "Some (paid_debit_key wid) \<in> sl_idempotencyKey ` set (staffRows st)"
    using st find_request_SomeD(1) by (auto simp: stuck_def)
  obtain u where u: "findById staffId (wallets st) = Some u"
  proof (cases "findById staffId (wallets st)")
    case None
    then show ?thesis using st by (auto simp: stuck_def findById_def find_None_iff)
  qed
  have i: "a_id u = staffId" using findById_SomeD(1) [OF u] .
  obtain m where m: "n = Suc (Suc (Suc m))" using n by (metis numeral_3_eq_3 Suc_le_D Suc_le_mono)
  let ?left = "nvl (a_staffCoinsBalance u) 0 - w_amount w"
  let ?st = "st\<lparr>wallets := update_account staffId (\<lambda>a. a\<lparr>a_staffCoinsBalance := Some ?left\<rparr>)
    ((wallets st)\<lparr>txns := txns (wallets st) @ [payout_txn (staff_payout_id wid uuid) staffId (w_amount w)]\<rparr>)\<rparr>"
  have b: "cached_balance staffId st = nvl (a_staffCoinsBalance u) 0" using u by (simp add: cached_balance_def)
  have "run_writes alone n (staff_payout_writes now reason w u (staff_payout_id wid uuid)) st = (False, ?st)"
    using bal b u i fresh key w(2)
    by (simp add: m staff_payout_writes_def Let_def insert_txn_def create_txn_def payout_txn_def save_user_def insert_row_def payout_row_def)
  then have "processWithdrawalMarkPaid alone n now uuid wid actor reason True st = (WThrown, ?st)"
    using w u admin bal b
    by (simp add: processWithdrawalMarkPaid_def markStaffPaid_def answer_after_def staff_payout_id_def Let_def)
  moreover have "stuck wid w staffId ?st" using st by (simp add: stuck_def)
  moreover have "cached_balance staffId ?st = cached_balance staffId st - w_amount w"
    using u b by (simp add: cached_balance_def findById_def accounts_update find_staff_update nvl_def)
  ultimately show ?thesis by (intro exI [of _ ?st]) (simp add: payout_txn_def)
qed

text \<open>Marking the request paid again and again, undisturbed.\<close>

definition retried :: "millis \<Rightarrow> string \<Rightarrow> acting_user \<Rightarrow> string option \<Rightarrow> string list \<Rightarrow> wd_state \<Rightarrow> wd_state" where
  "retried now wid actor reason = fold (\<lambda>uuid st. snd (processWithdrawalMarkPaid alone 4 now uuid wid actor reason True st))"

lemma stuck_retried:
  assumes "stuck wid w staffId st" and "of_nat (length uuids) * w_amount w \<le> cached_balance staffId st" and "0 \<le> w_amount w"
    and "staff_payout_id wid ` set uuids \<inter> tx_transactionId ` set (txns (wallets st)) = {}" and "distinct uuids"
    and "isSuperAdminRole (au_role actor)"
  shows "stuck wid w staffId (retried now wid actor reason uuids st) \<and>
    cached_balance staffId (retried now wid actor reason uuids st) = cached_balance staffId st - of_nat (length uuids) * w_amount w"
  using assms
proof (induction uuids arbitrary: st)
  case (Cons x xs)
  have "0 \<le> of_nat (length xs) * w_amount w" using Cons.prems(3) by simp
  then have "w_amount w \<le> cached_balance staffId st" using Cons.prems(2) by (simp add: algebra_simps)
  moreover have "staff_payout_id wid x \<notin> tx_transactionId ` set (txns (wallets st))" using Cons.prems(4) by auto
  ultimately obtain st' where st': "processWithdrawalMarkPaid alone 4 now x wid actor reason True st = (WThrown, st')" "stuck wid w staffId st'"
    "cached_balance staffId st' = cached_balance staffId st - w_amount w"
    "tx_transactionId ` set (txns (wallets st')) = insert (staff_payout_id wid x) (tx_transactionId ` set (txns (wallets st)))"
    using stuck_retry [OF Cons.prems(1) _ _ Cons.prems(6), of x 4 now reason] by auto
  have "staff_payout_id wid ` set xs \<inter> tx_transactionId ` set (txns (wallets st')) = {}"
    using Cons.prems(4,5) by (auto simp: st'(4) staff_payout_id_def)
  then show ?case
    using Cons.IH [OF st'(2)] Cons.prems st'(1,3) by (simp add: retried_def algebra_simps)
qed (simp add: retried_def)

text \<open>
  C31. A staff payout cut short before its last write can never be completed: the key of its ledger row
  is taken, so each further attempt debits the balance, writes one more debit row and then fails. After
  \<open>n\<close> attempts the amount is gone \<open>n + 1\<close> times and the request still stands approved.
\<close>

theorem stuck_staff_payout_drains_the_wallet:
  assumes "find_request wid st = Some w" and "w_status w = W_approved" and "w_staffUserId w = Some staffId" and "\<not> paid_before w"
    and "Some (paid_debit_key wid) \<notin> sl_idempotencyKey ` set (staffRows st)" and "staffId \<in> a_id ` set (accounts (wallets st))"
    and "0 \<le> w_amount w" and "of_nat (Suc (length uuids)) * w_amount w \<le> cached_balance staffId st"
    and "staff_payout_id wid ` set (uuid # uuids) \<inter> tx_transactionId ` set (txns (wallets st)) = {}" and "distinct (uuid # uuids)"
    and "isSuperAdminRole (au_role actor)"
    and "processWithdrawalMarkPaid alone 3 now uuid wid actor reason True st = (r, st1)"
  shows "r = WThrown \<and> find_request wid (retried now wid actor reason uuids st1) = Some w \<and>
    cached_balance staffId (retried now wid actor reason uuids st1) = cached_balance staffId st - of_nat (Suc (length uuids)) * w_amount w"
proof -
  obtain u where u: "findById staffId (wallets st) = Some u"
  proof (cases "findById staffId (wallets st)")
    case None
    then show ?thesis using assms(6) by (auto simp: findById_def find_None_iff)
  qed
  have i: "a_id u = staffId" "w_id w = wid" using findById_SomeD(1) [OF u] find_request_SomeD(1) [OF assms(1)] by simp_all
  have b: "cached_balance staffId st = nvl (a_staffCoinsBalance u) 0" using u by (simp add: cached_balance_def)
  have "0 \<le> of_nat (length uuids) * w_amount w" using assms(7) by simp
  then have bal: "w_amount w \<le> nvl (a_staffCoinsBalance u) 0" using assms(8) b by (simp add: algebra_simps)
  have fresh: "staff_payout_id wid uuid \<notin> tx_transactionId ` set (txns (wallets st))" using assms(9) by auto
  let ?left = "nvl (a_staffCoinsBalance u) 0 - w_amount w"
  let ?st = "st\<lparr>wallets := update_account staffId (\<lambda>a. a\<lparr>a_staffCoinsBalance := Some ?left\<rparr>)
      ((wallets st)\<lparr>txns := txns (wallets st) @ [payout_txn (staff_payout_id wid uuid) staffId (w_amount w)]\<rparr>),
    staffRows := staffRows st @ [payout_row w staffId ?left]\<rparr>"
  have "run_writes alone 3 (staff_payout_writes now reason w u (staff_payout_id wid uuid)) st = (False, ?st)"
    using bal u i fresh assms(5)
    by (simp add: numeral_3_eq_3 staff_payout_writes_def Let_def insert_txn_def create_txn_def payout_txn_def save_user_def
        insert_row_def payout_row_def)
  then have "processWithdrawalMarkPaid alone 3 now uuid wid actor reason True st = (WThrown, ?st)"
    using assms(1-4,11) u i bal
    by (simp add: processWithdrawalMarkPaid_def markStaffPaid_def answer_after_def staff_payout_id_def Let_def)
  then have 1: "r = WThrown" "st1 = ?st" using assms(12) by simp_all
  have "stuck wid w staffId ?st"
    using assms(1-4,6) i by (simp add: stuck_def payout_row_def find_request_def)
  moreover have c: "cached_balance staffId ?st = cached_balance staffId st - w_amount w"
    using u b by (simp add: cached_balance_def findById_def accounts_update find_staff_update nvl_def)
  moreover have "of_nat (length uuids) * w_amount w \<le> cached_balance staffId ?st" unfolding c using assms(8) by (simp add: algebra_simps)
  moreover have "staff_payout_id wid ` set uuids \<inter> tx_transactionId ` set (txns (wallets ?st)) = {}"
    using assms(9,10) by (auto simp: payout_txn_def staff_payout_id_def)
  ultimately have "stuck wid w staffId (retried now wid actor reason uuids ?st) \<and>
    cached_balance staffId (retried now wid actor reason uuids ?st) = cached_balance staffId ?st - of_nat (length uuids) * w_amount w"
    using stuck_retried assms(7,10,11) by simp
  then show ?thesis using 1 c by (simp add: stuck_def algebra_simps)
qed

section \<open>The reconciliation of the staff wallets\<close>

definition drifted :: "env \<Rightarrow> string \<Rightarrow> wd_state \<Rightarrow> bool" where
  "drifted env uid st \<longleftrightarrow>
     \<bar>cached_balance uid st - recomputeBalanceFromLedger uid st\<bar> > of_int (getStaffWalletReconcileToleranceCoins env)"

definition corrected :: "env \<Rightarrow> string \<Rightarrow> wd_state \<Rightarrow> rat" where
  "corrected env uid st =
     (if drifted env uid st then max 0 (recomputeBalanceFromLedger uid st) else cached_balance uid st)"

lemma find_staff_other:
  "i \<noteq> j \<Longrightarrow> List.find (\<lambda>a. a_id a = i) (map (\<lambda>a. if a_id a = j then a\<lparr>a_staffCoinsBalance := c\<rparr> else a) xs) = List.find (\<lambda>a. a_id a = i) xs"
  by (induction xs) auto

lemma reconcile_one:
  assumes "isStaffWalletReconcileAutoFixEnabled env"
  shows "cached_balance u (snd (reconcileStaffBalance env False uid st)) =
      (if u = uid \<and> u \<in> a_id ` set (accounts (wallets st)) then corrected env u st else cached_balance u st) \<and>
    recomputeBalanceFromLedger u (snd (reconcileStaffBalance env False uid st)) = recomputeBalanceFromLedger u st \<and>
    a_id ` set (accounts (wallets (snd (reconcileStaffBalance env False uid st)))) = a_id ` set (accounts (wallets st)) \<and>
    requests (snd (reconcileStaffBalance env False uid st)) = requests st \<and>
    staffRows (snd (reconcileStaffBalance env False uid st)) = staffRows st \<and>
    txns (wallets (snd (reconcileStaffBalance env False uid st))) = txns (wallets st)"
proof -
  let ?st = "snd (reconcileStaffBalance env False uid st)"
  let ?fix = "update_account uid (\<lambda>a. a\<lparr>a_staffCoinsBalance := Some (max 0 (recomputeBalanceFromLedger uid st))\<rparr>) (wallets st)"
  have w: "wallets ?st = (if drifted env uid st then ?fix else wallets st)"
    using assms by (simp add: reconcileStaffBalance_def Let_def drifted_def)
  have f: "findById u ?fix = (if u = uid then map_option (\<lambda>a. a\<lparr>a_staffCoinsBalance := Some (max 0 (recomputeBalanceFromLedger uid st))\<rparr>)
      (findById u (wallets st)) else findById u (wallets st))"
    by (simp add: findById_def accounts_update find_staff_update find_staff_other)
  have e: "findById u (wallets st) \<noteq> None \<longleftrightarrow> u \<in> a_id ` set (accounts (wallets st))"
    by (auto simp: findById_def find_None_iff)
  have r: "requests ?st = requests st" "staffRows ?st = staffRows st" by (simp_all add: reconcileStaffBalance_def Let_def)
  have i: "a_id ` set (accounts (wallets ?st)) = a_id ` set (accounts (wallets st))"
    by (simp add: w)
  show ?thesis
    using recompute_frame [OF r(2)] r e i w f
    by (auto simp: cached_balance_def corrected_def nvl_def split: option.splits)
qed

lemma reconcile_many:
  assumes "isStaffWalletReconcileAutoFixEnabled env"
  shows "distinct ids \<Longrightarrow> cached_balance u (snd (reconcile_ids env False ids st)) =
      (if u \<in> set ids \<and> u \<in> a_id ` set (accounts (wallets st)) then corrected env u st else cached_balance u st) \<and>
    requests (snd (reconcile_ids env False ids st)) = requests st \<and>
    staffRows (snd (reconcile_ids env False ids st)) = staffRows st \<and> txns (wallets (snd (reconcile_ids env False ids st))) = txns (wallets st)"
proof (induction ids arbitrary: st)
  case (Cons uid ids)
  let ?s = "snd (reconcileStaffBalance env False uid st)"
  note one = reconcile_one [OF assms, of u uid st]
  have "snd (reconcile_ids env False (uid # ids) st) = snd (reconcile_ids env False ids ?s)" by (simp add: split_def Let_def)
  moreover have "corrected env u ?s = corrected env u st" if "u \<noteq> uid" using one that by (simp add: corrected_def drifted_def)
  ultimately show ?case using Cons.IH [of ?s] Cons.prems one by auto
qed simp

lemma not_collected:
  assumes "u \<notin> set (collectStaffUserIdsForReconciliation st)"
  shows "cached_balance u st = 0 \<and> recomputeBalanceFromLedger u st = 0"
proof
  have n: "u \<notin> sl_staffUserId ` set (staffRows st)" "\<And>a. a \<in> set (accounts (wallets st)) \<Longrightarrow> a_id a = u \<Longrightarrow> a_staffCoinsBalance a = None"
    using assms by (auto simp: collectStaffUserIdsForReconciliation_def)
  show "cached_balance u st = 0"
    using n(2) findById_SomeD by (auto simp: cached_balance_def nvl_def split: option.split)
  have "filter (\<lambda>r. sl_staffUserId r = u \<and> sl_direction r = k) (staffRows st) = []" for k using n(1) by (auto simp: filter_empty_conv)
  then show "recomputeBalanceFromLedger u st = 0" by (simp add: recomputeBalanceFromLedger_def direction_sum_def)
qed

text \<open>
  C32. With the automatic correction on, one sweep brings every staff wallet in line with its ledger: a
  balance that is off by more than the tolerance becomes what the ledger adds up to (never below zero),
  every other balance, the ledgers and the requests stay as they are.
\<close>

theorem reconciliation_follows_the_ledger:
  assumes "isStaffWalletReconcileAutoFixEnabled env" and "reconcileAllStaffBalances env False st = (s, st')"
    and "uid \<in> a_id ` set (accounts (wallets st))"
  shows "cached_balance uid st' =
      (if \<bar>cached_balance uid st - recomputeBalanceFromLedger uid st\<bar> > of_int (getStaffWalletReconcileToleranceCoins env)
       then max 0 (recomputeBalanceFromLedger uid st) else cached_balance uid st) \<and>
    staffRows st' = staffRows st \<and> requests st' = requests st \<and> txns (wallets st') = txns (wallets st)"
proof -
  let ?ids = "collectStaffUserIdsForReconciliation st"
  have "distinct ?ids" by (simp add: collectStaffUserIdsForReconciliation_def)
  from reconcile_many [OF assms(1) this, of uid st]
  have m: "cached_balance uid st' = (if uid \<in> set ?ids then corrected env uid st else cached_balance uid st)"
    "staffRows st' = staffRows st" "requests st' = requests st" "txns (wallets st') = txns (wallets st)"
    using assms(2,3) by (simp_all add: reconcileAllStaffBalances_def)
  moreover have "corrected env uid st = cached_balance uid st" if "uid \<notin> set ?ids"
    using not_collected [OF that] by (simp add: corrected_def drifted_def getStaffWalletReconcileToleranceCoins_def)
  ultimately show ?thesis by (auto simp: corrected_def drifted_def)
qed

end
