(* ===== verification/PayoutPages.thy ===== *)
theory PayoutPages
  imports PayoutFlow
begin

text \<open>
  The pages of a staff ledger, and the payout theorems applied to a creator \<open>c1\<close> and a member \<open>s1\<close> of the
  staff with one approved request each.
\<close>

section \<open>Pages of the staff ledger\<close>

lemma concat_chunks: "concat (map (\<lambda>i. take k (drop (i * k) xs)) [0..<n]) = take (n * k) xs"
proof (induction n)
  case (Suc n)
  have "take (n * k) xs @ take k (drop (n * k) xs) = take (n * k + k) xs" by (simp add: take_add)
  then show ?case using Suc by (simp add: add.commute)
qed simp

lemma enough_pages:
  assumes "0 < k" and "n = nat \<lceil>(of_nat m / of_int k) :: rat\<rceil>"
  shows "m \<le> n * nat k"
proof -
  let ?c = "\<lceil>(of_nat m / of_int k) :: rat\<rceil>"
  have "(of_nat m / of_int k :: rat) \<le> of_int ?c" by (rule le_of_int_ceiling)
  moreover have k: "(0 :: rat) < of_int k" using assms(1) by simp
  ultimately have "(of_nat m :: rat) \<le> of_int ?c * of_int k" by (simp only: pos_divide_le_eq)
  then have "of_int (int m) \<le> (of_int (?c * k) :: rat)" by simp
  then have "int m \<le> ?c * k" by (simp only: of_int_le_iff)
  moreover have "(0 :: rat) \<le> of_nat m / of_int k" using k by simp
  then have "0 \<le> ?c" by (meson ceiling_le_zero ceiling_mono le_of_int_ceiling of_int_0_le_iff order.trans)
  ultimately have "int m \<le> int (n * nat k)" using assms by simp
  then show ?thesis by (simp only: of_nat_le_iff)
qed


section \<open>Bound payout accounts\<close>

definition payout_wf :: "payout_account \<Rightarrow> bool" where
  "payout_wf p \<longleftrightarrow> payout_complete p \<and> 2 \<le> length (po_accountHolderName p) \<and>
     (\<forall>x. po_ifsc p = Some x \<longrightarrow> is_ifsc x) \<and> (\<forall>x. po_upi p = Some x \<longrightarrow> is_upi x)"

lemma js_trim_non_space:
  assumes "c \<in> set s" and "\<not> js_is_space c"
  shows "js_trim s \<noteq> []"
proof -
  have d: "c \<in> set (dropWhile js_is_space xs)" if "c \<in> set xs" for xs
    using that assms(2) by (induction xs) auto
  then have "c \<in> set (dropWhile js_is_space (rev (dropWhile js_is_space s)))" using assms(1) by simp
  then show ?thesis unfolding js_trim_def by (metis empty_iff list.set(1) set_rev)
qed

lemma js_trim_kept: "js_trim s \<noteq> [] \<Longrightarrow> js_trim (js_trim s) \<noteq> []"
proof -
  let ?t = "dropWhile js_is_space (rev (dropWhile js_is_space s))"
  assume "js_trim s \<noteq> []"
  then have t: "?t \<noteq> []" by (simp add: js_trim_def del: dropWhile_eq_Nil_conv)
  have "hd ?t \<in> set (js_trim s)" using hd_in_set [OF t] unfolding js_trim_def set_rev .
  then show ?thesis using hd_dropWhile [OF t] by (rule js_trim_non_space)
qed

lemma no_space_given: "no_space s \<noteq> [] \<Longrightarrow> js_trim (no_space s) \<noteq> []"
proof -
  assume "no_space s \<noteq> []"
  then have "hd (no_space s) \<in> set (no_space s)" by simp
  moreover from this have "\<not> js_is_space (hd (no_space s))" by (simp add: no_space_def)
  ultimately show ?thesis by (rule js_trim_non_space)
qed

lemma is_upi_given: "is_upi s \<Longrightarrow> js_trim s \<noteq> []"
proof -
  assume "is_upi s"
  then have r: "dropWhile (\<lambda>c. c \<noteq> CHR ''@'') s \<noteq> []" by (auto simp: is_upi_def Let_def)
  then have "hd (dropWhile (\<lambda>c. c \<noteq> CHR ''@'') s) = CHR ''@''" using hd_dropWhile [OF r] by simp
  then have "CHR ''@'' \<in> set (dropWhile (\<lambda>c. c \<noteq> CHR ''@'') s)" using hd_in_set [OF r] by simp
  then have "CHR ''@'' \<in> set s" by (rule set_dropWhileD)
  then show ?thesis by (rule js_trim_non_space) code_simp
qed

lemma is_ifsc_given: "is_ifsc s \<Longrightarrow> js_trim s \<noteq> []"
proof -
  assume "is_ifsc s"
  then have "4 < length s" "s ! 4 = CHR ''0''" by (simp_all add: is_ifsc_def)
  then have "CHR ''0'' \<in> set s" using nth_mem by metis
  then show ?thesis by (rule js_trim_non_space) code_simp
qed

lemma find_payout_map:
  assumes "\<And>q. po_staffUserId (f q) = po_staffUserId q" and "List.find (\<lambda>q. po_staffUserId q = i) ps = Some q"
  shows "List.find (\<lambda>q. po_staffUserId q = i) (map (\<lambda>x. if po_staffUserId x = i then f x else x) ps) = Some (f q)"
  using assms(2) by (induction ps) (auto simp: assms(1) split: if_splits)

lemma validated:
  assumes "validatePayoutAccountInput inp = None"
  defines "number \<equiv> no_space (nvl (pi_accountNumber inp) [])" and "ifsc \<equiv> js_to_upper (js_trim (nvl (pi_ifsc inp) []))"
    and "upi \<equiv> js_to_lower (js_trim (nvl (pi_upi inp) []))"
  shows "2 \<le> length (js_trim (nvl (pi_accountHolderName inp) []))" and "number \<noteq> [] \<and> ifsc \<noteq> [] \<or> upi \<noteq> []"
    and "ifsc \<noteq> [] \<Longrightarrow> is_ifsc ifsc" and "upi \<noteq> [] \<Longrightarrow> is_upi upi"
  using assms(1) unfolding number_def ifsc_def upi_def
  by (auto simp: validatePayoutAccountInput_def Let_def split: if_splits)

text \<open>
  C38. Every stored payout account is usable, whatever is submitted: its holder is named, its IFSC and its
  UPI id have the documented formats, and it holds a UPI id or a bank account with its IFSC. A refused
  submission changes nothing, an accepted one is stored for its owner, so that a withdrawal is never
  refused for want of an account afterwards.
\<close>

theorem bound_accounts_are_usable:
  assumes "upsertStaffPayoutAccount staffId inp st = (r, st')" and "\<forall>p \<in> set (payouts st). payout_wf p"
  shows "(\<forall>p \<in> set (payouts st'). payout_wf p) \<and>
    (case r of
       Inl e \<Rightarrow> st' = st
     | Inr p \<Rightarrow> po_staffUserId p = staffId \<and> List.find (\<lambda>q. po_staffUserId q = staffId) (payouts st') = Some p)"
proof (cases "validatePayoutAccountInput inp")
  case (Some e)
  then show ?thesis using assms by (auto simp: upsertStaffPayoutAccount_def)
next
  case None
  note v = validated [OF None]
  let ?number = "no_space (nvl (pi_accountNumber inp) [])" and ?ifsc = "js_to_upper (js_trim (nvl (pi_ifsc inp) []))"
    and ?upi = "js_to_lower (js_trim (nvl (pi_upi inp) []))" and ?name = "js_trim (nvl (pi_accountHolderName inp) [])"
  have name: "js_trim ?name \<noteq> []"
    using v(1) js_trim_kept by force
  define p where "p = \<lparr> po_staffUserId = staffId, po_accountHolderName = ?name, po_accountNumber = non_empty ?number,
    po_ifsc = non_empty ?ifsc, po_upi = non_empty ?upi, po_phone = non_empty (js_trim (nvl (pi_phone inp) [])) \<rparr>"
  define merge where "merge q = q\<lparr>po_accountHolderName := po_accountHolderName p,
      po_accountNumber := (case po_accountNumber p of None \<Rightarrow> po_accountNumber q | x \<Rightarrow> x),
      po_ifsc := (case po_ifsc p of None \<Rightarrow> po_ifsc q | x \<Rightarrow> x),
      po_upi := (case po_upi p of None \<Rightarrow> po_upi q | x \<Rightarrow> x),
      po_phone := (case po_phone p of None \<Rightarrow> po_phone q | x \<Rightarrow> x)\<rparr>" for q :: payout_account
  have complete: "?number \<noteq> [] \<and> ?ifsc \<noteq> [] \<and> js_trim ?number \<noteq> [] \<and> js_trim ?ifsc \<noteq> [] \<or> ?upi \<noteq> [] \<and> js_trim ?upi \<noteq> []"
    using v(2-4) no_space_given is_ifsc_given is_upi_given by blast
  have p: "payout_wf p"
    using v name complete by (auto simp: payout_wf_def payout_complete_def p_def non_empty_def Let_def nvl_def)
  have m: "payout_wf (merge q)" if "payout_wf q" for q
    using that v name complete by (auto simp: payout_wf_def payout_complete_def p_def merge_def non_empty_def Let_def nvl_def)
  have run: "upsertStaffPayoutAccount staffId inp st = (case List.find (\<lambda>q. po_staffUserId q = staffId) (payouts st) of
      None \<Rightarrow> (Inr p, st\<lparr>payouts := payouts st @ [p]\<rparr>)
    | Some q \<Rightarrow> (Inr (merge q), st\<lparr>payouts := map (\<lambda>x. if po_staffUserId x = staffId then merge x else x) (payouts st)\<rparr>))"
    by (simp only: upsertStaffPayoutAccount_def None option.case Let_def p_def merge_def)
  show ?thesis
  proof (cases "List.find (\<lambda>q. po_staffUserId q = staffId) (payouts st)")
    case None
    have "List.find P xs = None \<Longrightarrow> P x \<Longrightarrow> List.find P (xs @ [x]) = Some x" for P and xs :: "payout_account list" and x
      by (induction xs) (auto split: if_splits)
    then show ?thesis using None assms(1) run p assms(2) by (auto simp: p_def)
  next
    case (Some q)
    have i: "po_staffUserId (merge q) = po_staffUserId q" for q by (simp add: merge_def)
    have "po_staffUserId q = staffId" using Some by (auto simp: find_Some_iff)
    then show ?thesis using Some assms(1) run m assms(2) i find_payout_map [of merge, OF i Some] by auto
  qed
qed

section \<open>The theorems at work\<close>

definition demo_account_input :: payout_input where
  "demo_account_input = \<lparr> pi_accountHolderName = Some '' Asha '', pi_accountNumber = Some ''12 34'', pi_ifsc = Some ''hdfc0000001'',
     pi_upi = None, pi_phone = None \<rparr>"



definition demo_creator :: account where
  "demo_creator = \<lparr> a_id = ''c1'', a_firebaseUid = ''f1'', a_role = ''creator'', a_coins = 5000, a_phone = None, a_email = None,
     a_staffCoinsBalance = None, a_bdDisabled = False, a_vipExpiresAt = None \<rparr>"

definition demo_staff :: account where
  "demo_staff = \<lparr> a_id = ''s1'', a_firebaseUid = ''f2'', a_role = ''agency'', a_coins = 0, a_phone = None, a_email = None,
     a_staffCoinsBalance = Some 9000, a_bdDisabled = False, a_vipExpiresAt = None \<rparr>"

definition demo_request :: "string \<Rightarrow> string option \<Rightarrow> string option \<Rightarrow> withdrawal" where
  "demo_request wid creator staff =
     \<lparr> w_id = wid, w_creatorUserId = creator, w_creatorFirebaseUid = None, w_staffUserId = staff, w_amount = 2000,
       w_status = W_approved, w_requestedAt = 1, w_processedAt = Some 2, w_adminUserId = Some ''adm'', w_notes = None,
       w_transactionId = None, w_name = Some ''N'', w_number = Some ''1'', w_upi = Some ''n@bank'', w_accountNumber = None,
       w_ifsc = None, w_assignedAgencyId = None \<rparr>"

definition demo_payouts :: wd_state where
  "demo_payouts =
     \<lparr> wallets = \<lparr> accounts = [demo_creator, demo_staff],
         txns = [\<lparr> tx_transactionId = ''t0'', tx_userId = ''c1'', tx_type = Credit, tx_coins = 5000, tx_source = ''video_call'',
                   tx_bonusReason = None, tx_paymentGatewayTransactionId = None, tx_paymentGatewayOrderId = None,
                   tx_priceInr = None, tx_status = TCompleted \<rparr>] \<rparr>,
       hosts = [\<lparr> hp_userId = ''c1'', hp_earningsCoins = 5000, hp_assignedAgencyId = None \<rparr>],
       requests = [demo_request ''w1'' (Some ''c1'') None, demo_request ''w2'' None (Some ''s1'')],
       staffRows = [\<lparr> sl_staffUserId = ''s1'', sl_direction = Credit, sl_amountCoins = 9000, sl_balanceAfter = Some 9000,
                      sl_sourceType = ''call_settlement'', sl_withdrawalId = None, sl_idempotencyKey = Some ''k0'' \<rparr>],
       payouts = [], reconLog = [] \<rparr>"

definition demo_admin :: acting_user where
  "demo_admin = \<lparr> au_id = ''adm'', au_role = ''super_admin'' \<rparr>"

lemmas demo_defs = demo_payouts_def demo_creator_def demo_staff_def demo_request_def demo_admin_def

definition demo_payout :: "wd_outcome \<times> wd_state" where
  "demo_payout = processWithdrawalMarkPaid (\<lambda>_ st. st) 4 100 ''x'' ''w1'' demo_admin None True demo_payouts"

definition demo_after :: "wd_outcome \<times> wd_state" where
  "demo_after = processWithdrawalRejection (\<lambda>_ st. st) 4 101 ''w1'' demo_admin ''mistake'' True (snd demo_payout)"

lemma demo_ok: "payout_ok demo_payouts"
  by code_simp

lemma demo_step: "payout_step demo_payouts (snd demo_payout)"
  using payout_step.payout [of 4 100 "''x''" "''w1''" demo_admin None True demo_payouts "fst demo_payout" "snd demo_payout"]
  by (simp add: demo_payout_def)

lemma demo_step2: "payout_step (snd demo_payout) (snd demo_after)"
  using payout_step.rejection [of 4 101 "''w1''" demo_admin "''mistake''" True "snd demo_payout" "fst demo_after" "snd demo_after"]
  by (simp add: demo_after_def)

lemma demo_paid_value:
  "map (\<lambda>w. (w_id w, w_status w)) (requests (snd demo_payout)) = [(''w1'', W_paid), (''w2'', W_approved)]"
  "map (\<lambda>a. (a_id a, a_coins a)) (accounts (wallets (snd demo_payout))) = [(''c1'', 3000), (''s1'', 0)]"
  by code_simp+

theorem payouts_are_accounted_for_witness:
  "\<exists>w \<in> set (requests (snd demo_payout)). w_id w = ''w1'' \<and> w_status w = W_paid \<and>
    (\<exists>t \<in> set (txns (wallets (snd demo_payout))). row_of_payout w t)"
proof -
  have s: "payout_step\<^sup>*\<^sup>* demo_payouts (snd demo_payout)" using demo_step by simp
  have "(''w1'', W_paid) \<in> set (map (\<lambda>w. (w_id w, w_status w)) (requests (snd demo_payout)))"
    by (simp only: demo_paid_value) simp
  then obtain w where "w \<in> set (requests (snd demo_payout))" "w_id w = ''w1''" "w_status w = W_paid" by auto
  then show ?thesis using payouts_are_accounted_for [OF s demo_ok] by blast
qed

theorem closed_requests_are_final_witness:
  "\<exists>w. w_id w = ''w1'' \<and> w_status w = W_paid \<and> w \<in> set (requests (snd demo_payout)) \<and> w \<in> set (requests (snd demo_after))"
proof -
  have "payout_step\<^sup>*\<^sup>* demo_payouts (snd demo_payout)" using demo_step by simp
  then have ok: "payout_ok (snd demo_payout)" using payout_steps_ok demo_ok by blast
  have s: "payout_step\<^sup>*\<^sup>* (snd demo_payout) (snd demo_after)" using demo_step2 by simp
  have "(''w1'', W_paid) \<in> set (map (\<lambda>w. (w_id w, w_status w)) (requests (snd demo_payout)))"
    by (simp only: demo_paid_value) simp
  then obtain w where w: "w \<in> set (requests (snd demo_payout))" "w_id w = ''w1''" "w_status w = W_paid" by auto
  then have "closed w" by (simp add: closed_def)
  from closed_requests_are_final [OF s ok w(1) this] w show ?thesis by blast
qed

theorem one_open_request_per_party_witness:
  "\<exists>x. x \<in> set (requests (snd demo_payout)) \<and> active x \<and> (\<forall>y \<in> set (requests (snd demo_payout)). active y \<and> party y = party x \<longrightarrow> y = x)"
proof -
  have s: "payout_step\<^sup>*\<^sup>* demo_payouts (snd demo_payout)" using demo_step by simp
  have o: "one_open demo_payouts" by code_simp
  have "(''w2'', W_approved) \<in> set (map (\<lambda>w. (w_id w, w_status w)) (requests (snd demo_payout)))"
    by (simp only: demo_paid_value) simp
  then obtain x where x: "x \<in> set (requests (snd demo_payout))" "active x" by (auto simp: active_def)
  then show ?thesis using one_open_request_per_party [OF s demo_ok o _ x(1) _ x(2)] by blast
qed

definition demo_body :: withdrawal_body where
  "demo_body = \<lparr> wb_amount = Some 4000, wb_name = Some ''N'', wb_number = Some ''1'', wb_upi = Some ''n@bank'',
     wb_accountNumber = None, wb_ifsc = None \<rparr>"

definition demo_idle :: wd_state where
  "demo_idle = demo_payouts\<lparr>requests := []\<rparr>"

definition demo_filed :: "millis \<Rightarrow> string \<Rightarrow> withdrawal" where
  "demo_filed now wid = (demo_request wid (Some ''c1'') None)\<lparr>w_amount := 4000, w_status := W_pending, w_requestedAt := now,
     w_processedAt := None, w_adminUserId := None\<rparr>"

lemma demo_requests:
  "requestWithdrawal id 10 ''w3'' ''f1'' demo_body demo_idle = (Inr (demo_filed 10 ''w3''), demo_idle\<lparr>requests := [demo_filed 10 ''w3'']\<rparr>)"
  "requestWithdrawal id 11 ''w4'' ''f1'' demo_body demo_idle = (Inr (demo_filed 11 ''w4''), demo_idle\<lparr>requests := [demo_filed 11 ''w4'']\<rparr>)"
  by code_simp+

theorem concurrent_requests_both_accepted_witness:
  "active (demo_filed 10 ''w3'') \<and> active (demo_filed 11 ''w4'') \<and> party (demo_filed 10 ''w3'') = party (demo_filed 11 ''w4'') \<and>
    demo_filed 10 ''w3'' \<noteq> demo_filed 11 ''w4''"
  using concurrent_requests_both_accepted [OF demo_requests] by (simp add: demo_filed_def demo_request_def)

lemma demo_payable: "payable demo_payouts ''w1'' (demo_request ''w1'' (Some ''c1'') None) demo_creator"
  by code_simp

lemma demo_fresh: "payout_id ''w1'' u \<notin> tx_transactionId ` set (txns (wallets demo_payouts))"
  by (simp add: payout_id_def demo_defs)

theorem rejection_overwrites_payout_witness:
  "\<exists>st' w'. processWithdrawalRejection
      (\<lambda>_ s. snd (processWithdrawalMarkPaid (\<lambda>_ st. st) 4 100 ''x'' ''w1'' demo_admin None True s)) 1 101 ''w1'' demo_admin ''mistake'' True
      demo_payouts = (WOk ''w1'' 2000 None, st') \<and>
    find_request ''w1'' st' = Some w' \<and> w_status w' = W_rejected \<and>
    findById ''c1'' (wallets st') = Some (demo_creator\<lparr>a_coins := 3000\<rparr>)"
proof -
  have n: "3 \<le> length (js_trim ''mistake'')" by code_simp
  have v: "w_amount (demo_request ''w1'' (Some ''c1'') None) = 2000" "a_id demo_creator = ''c1''" "a_coins demo_creator - 2000 = 3000"
    by (simp_all add: demo_defs)
  from rejection_overwrites_payout [OF demo_payable demo_fresh n, of 100 "''x''" demo_admin None 101 demo_admin]
  show ?thesis unfolding v by blast
qed

theorem interrupted_payout_debits_twice_witness:
  "map_option a_coins (findById ''c1'' (wallets (snd (processWithdrawalMarkPaid (\<lambda>_ st. st) 4 101 ''y'' ''w1'' demo_admin None True
    (snd (processWithdrawalMarkPaid (\<lambda>_ st. st) 2 100 ''x'' ''w1'' demo_admin None True demo_payouts)))))) = Some 1000"
proof -
  have v: "a_id demo_creator = ''c1''" "a_coins demo_creator - 2 * w_amount (demo_request ''w1'' (Some ''c1'') None) = 1000"
    and b: "2 * w_amount (demo_request ''w1'' (Some ''c1'') None) \<le> a_coins demo_creator" and n: "''x'' \<noteq> ''y''"
    by (simp_all add: demo_defs)
  from interrupted_payout_debits_twice [OF demo_payable b n demo_fresh demo_fresh prod.collapse [symmetric] prod.collapse [symmetric]]
  show ?thesis unfolding v by blast
qed

theorem stuck_staff_payout_drains_the_wallet_witness:
  "cached_balance ''s1'' (retried 100 ''w2'' demo_admin None [''y'', ''z'']
    (snd (processWithdrawalMarkPaid (\<lambda>_ st. st) 3 100 ''x'' ''w2'' demo_admin None True demo_payouts))) = 3000"
proof -
  let ?w = "demo_request ''w2'' None (Some ''s1'')"
  have h: "find_request ''w2'' demo_payouts = Some ?w" "w_status ?w = W_approved" "w_staffUserId ?w = Some ''s1''" "\<not> paid_before ?w"
    "Some (paid_debit_key ''w2'') \<notin> sl_idempotencyKey ` set (staffRows demo_payouts)" "''s1'' \<in> a_id ` set (accounts (wallets demo_payouts))"
    "0 \<le> w_amount ?w" "of_nat (Suc (length [''y'', ''z''])) * w_amount ?w \<le> cached_balance ''s1'' demo_payouts"
    "staff_payout_id ''w2'' ` set (''x'' # [''y'', ''z'']) \<inter> tx_transactionId ` set (txns (wallets demo_payouts)) = {}"
    "distinct (''x'' # [''y'', ''z''])" "isSuperAdminRole (au_role demo_admin)"
    by code_simp+
  have v: "cached_balance ''s1'' demo_payouts - of_nat (Suc (length [''y'', ''z''])) * w_amount ?w = 3000" by code_simp
  from stuck_staff_payout_drains_the_wallet [OF h prod.collapse [symmetric], of 100 None]
  show ?thesis unfolding v by blast
qed

definition demo_fix_env :: env where
  "demo_fix_env = (\<lambda>k. if k = ''STAFF_WALLET_RECONCILE_AUTO_FIX'' then Some ''true'' else None)"

definition demo_drift :: wd_state where
  "demo_drift = demo_payouts\<lparr>staffRows := []\<rparr>"

theorem reconciliation_follows_the_ledger_witness:
  "cached_balance ''s1'' demo_drift = 9000 \<and> cached_balance ''s1'' (snd (reconcileAllStaffBalances demo_fix_env False demo_drift)) = 0"
proof -
  have h: "isStaffWalletReconcileAutoFixEnabled demo_fix_env" "''s1'' \<in> a_id ` set (accounts (wallets demo_drift))"
    and v: "cached_balance ''s1'' demo_drift = 9000" "recomputeBalanceFromLedger ''s1'' demo_drift = 0"
      "getStaffWalletReconcileToleranceCoins demo_fix_env = 0"
    by code_simp+
  from reconciliation_follows_the_ledger [OF h(1) prod.collapse [symmetric] h(2)] v show ?thesis by simp
qed

theorem bound_accounts_are_usable_witness:
  "payout_wf (hd (payouts (snd (upsertStaffPayoutAccount ''s1'' demo_account_input demo_payouts)))) \<and>
    length (payouts (snd (upsertStaffPayoutAccount ''s1'' demo_account_input demo_payouts))) = 1"
proof -
  have l: "length (payouts (snd (upsertStaffPayoutAccount ''s1'' demo_account_input demo_payouts))) = 1" by code_simp
  have "\<forall>p \<in> set (payouts demo_payouts). payout_wf p" by (simp add: demo_payouts_def)
  from bound_accounts_are_usable [OF prod.collapse [symmetric] this, of "''s1''" demo_account_input] l show ?thesis
    by (metis One_nat_def hd_in_set length_0_conv nat.simps(3))
qed

end
