(* ===== verification/Rewards.thy ===== *)
theory Rewards
  imports Purchases
begin

text \<open>
  Coins that the program gives away: the tasks of \<open>consumer-rewards\<close> (configuration, eligibility, the two
  crediting transactions, the hooks and the claim of the hub) and the daily check-in.

  A transaction of the database is one step: its body reads and writes a state nobody else touches,
  and an error thrown in it leaves the state as it was. As the code expects, a duplicate key does not
  end the transaction. \<open>others\<close> is what happens between two operations of a hook.
\<close>

section \<open>Tasks and their configuration\<close>

datatype task_key =
    telegram_join | upload_profile_photo | complete_profile | first_video_call | first_message
  | invite_friend | successful_referral | first_recharge | watch_free_moments | like_moments | follow_creators

fun task_name :: "task_key \<Rightarrow> string" where
  "task_name telegram_join = ''telegram_join''"
| "task_name upload_profile_photo = ''upload_profile_photo''"
| "task_name complete_profile = ''complete_profile''"
| "task_name first_video_call = ''first_video_call''"
| "task_name first_message = ''first_message''"
| "task_name invite_friend = ''invite_friend''"
| "task_name successful_referral = ''successful_referral''"
| "task_name first_recharge = ''first_recharge''"
| "task_name watch_free_moments = ''watch_free_moments''"
| "task_name like_moments = ''like_moments''"
| "task_name follow_creators = ''follow_creators''"

record task_slice =
  ts_enabled :: bool
  ts_coins :: int
  ts_minSeconds :: "int option"
  ts_minPurchaseInr :: "int option"
  ts_targetCount :: "int option"

definition parsePositiveInt :: "string option \<Rightarrow> int \<Rightarrow> int" where
  "parsePositiveInt raw fallback =
     (case raw of
        None \<Rightarrow> fallback
      | Some s \<Rightarrow>
          if s = [] then fallback
          else (case js_parse_int s of Some n \<Rightarrow> if 0 < n then n else fallback | None \<Rightarrow> fallback))"

definition parseBool :: "string option \<Rightarrow> bool \<Rightarrow> bool" where
  "parseBool raw fallback =
     (case raw of
        None \<Rightarrow> fallback
      | Some s \<Rightarrow> if s = ''true'' \<or> s = ''1'' then True else if s = ''false'' \<or> s = ''0'' then False else fallback)"

definition isConsumerRewardsMasterEnabled :: "env \<Rightarrow> bool" where
  "isConsumerRewardsMasterEnabled env = parseBool (env ''CONSUMER_REWARDS_ENABLED'') True"

definition plain_slice :: "int \<Rightarrow> task_slice" where
  "plain_slice coins = \<lparr> ts_enabled = True, ts_coins = coins, ts_minSeconds = None, ts_minPurchaseInr = None, ts_targetCount = None \<rparr>"

text \<open>The defaults; Telegram has a configuration of its own and no slice here.\<close>

fun buildDefaultTaskConfig :: "env \<Rightarrow> task_key \<Rightarrow> task_slice option" where
  "buildDefaultTaskConfig env telegram_join = None"
| "buildDefaultTaskConfig env upload_profile_photo = Some (plain_slice (parsePositiveInt (env ''REWARD_UPLOAD_PROFILE_PHOTO_COINS'') 50))"
| "buildDefaultTaskConfig env complete_profile = Some (plain_slice (parsePositiveInt (env ''REWARD_COMPLETE_PROFILE_COINS'') 50))"
| "buildDefaultTaskConfig env first_video_call =
     Some ((plain_slice (parsePositiveInt (env ''REWARD_FIRST_VIDEO_CALL_COINS'') 1000))
       \<lparr>ts_minSeconds := Some (parsePositiveInt (env ''REWARD_FIRST_VIDEO_CALL_MIN_SECONDS'') 150)\<rparr>)"
| "buildDefaultTaskConfig env first_message = Some (plain_slice (parsePositiveInt (env ''REWARD_FIRST_MESSAGE_COINS'') 50))"
| "buildDefaultTaskConfig env invite_friend = Some (plain_slice (parsePositiveInt (env ''REWARD_INVITE_FRIEND_COINS'') 100))"
| "buildDefaultTaskConfig env successful_referral =
     Some ((plain_slice (parsePositiveInt (env ''REWARD_SUCCESSFUL_REFERRAL_COINS'') 500))
       \<lparr>ts_minPurchaseInr := Some (parsePositiveInt (env ''REWARD_SUCCESSFUL_REFERRAL_MIN_PURCHASE_INR'') 100)\<rparr>)"
| "buildDefaultTaskConfig env first_recharge = Some (plain_slice (parsePositiveInt (env ''REWARD_FIRST_RECHARGE_COINS'') 300))"
| "buildDefaultTaskConfig env watch_free_moments =
     Some ((plain_slice (parsePositiveInt (env ''REWARD_WATCH_FREE_MOMENTS_COINS'') 30))
       \<lparr>ts_targetCount := Some (parsePositiveInt (env ''REWARD_WATCH_FREE_MOMENTS_TARGET'') 5)\<rparr>)"
| "buildDefaultTaskConfig env like_moments =
     Some ((plain_slice (parsePositiveInt (env ''REWARD_LIKE_MOMENTS_COINS'') 20))
       \<lparr>ts_targetCount := Some (parsePositiveInt (env ''REWARD_LIKE_MOMENTS_TARGET'') 10)\<rparr>)"
| "buildDefaultTaskConfig env follow_creators =
     Some ((plain_slice (parsePositiveInt (env ''REWARD_FOLLOW_CREATORS_COINS'') 50))
       \<lparr>ts_targetCount := Some (parsePositiveInt (env ''REWARD_FOLLOW_CREATORS_TARGET'') 5)\<rparr>)"

text \<open>A slice as stored: numbers that are not finite, or absent, are \<open>None\<close>.\<close>

record stored_slice =
  ss_enabled :: "bool option"
  ss_coins :: "rat option"
  ss_minSeconds :: "rat option"
  ss_minPurchaseInr :: "rat option"
  ss_targetCount :: "rat option"

definition stored_number :: "rat \<Rightarrow> rat option \<Rightarrow> int \<Rightarrow> int" where
  "stored_number low raw fallback = (case raw of Some n \<Rightarrow> if low \<le> n then \<lfloor>n\<rfloor> else fallback | None \<Rightarrow> fallback)"

definition merge_slice :: "task_slice \<Rightarrow> stored_slice option \<Rightarrow> task_slice" where
  "merge_slice d raw =
     (case raw of
        None \<Rightarrow> d
      | Some s \<Rightarrow>
          \<lparr> ts_enabled = (ss_enabled s \<noteq> Some False), ts_coins = stored_number 0 (ss_coins s) (ts_coins d),
            ts_minSeconds = map_option (stored_number 0 (ss_minSeconds s)) (ts_minSeconds d),
            ts_minPurchaseInr = map_option (stored_number 0 (ss_minPurchaseInr s)) (ts_minPurchaseInr d),
            ts_targetCount = map_option (stored_number 1 (ss_targetCount s)) (ts_targetCount d) \<rparr>)"

record reward_config =
  rc_enabled :: bool
  rc_task :: "task_key \<Rightarrow> task_slice option"

text \<open>\<open>getOrCreateConsumerRewardConfig\<close> on the stored document: its flag and its slices.\<close>

definition consumerRewardConfig :: "env \<Rightarrow> bool \<Rightarrow> (task_key \<Rightarrow> stored_slice option) \<Rightarrow> reward_config" where
  "consumerRewardConfig env stored raw =
     \<lparr> rc_enabled = (stored \<and> isConsumerRewardsMasterEnabled env),
       rc_task = (\<lambda>k. map_option (\<lambda>d. merge_slice d (raw k)) (buildDefaultTaskConfig env k)) \<rparr>"

text \<open>The slice of a task that the hooks may use: rewards and task on.\<close>

definition task_on :: "reward_config \<Rightarrow> task_key \<Rightarrow> task_slice option" where
  "task_on cfg k = (if rc_enabled cfg then (case rc_task cfg k of Some s \<Rightarrow> if ts_enabled s then Some s else None | None \<Rightarrow> None) else None)"

section \<open>Documents\<close>

record avatar_doc =
  av_imageId :: string
  av_moderationStatus :: "string option"
  av_uploadedBy :: "string option"

text \<open>The fields of \<open>User\<close> that the rewards read, beside those of \<open>account\<close>.\<close>

record member =
  mb_id :: string
  mb_avatar :: "avatar_doc option"
  mb_username :: string
  mb_age :: "rat option"
  mb_gender :: string
  mb_usernameChangeCount :: int
  mb_referredBy :: "string option"
  mb_referrals :: "(string \<times> bool) list"
  mb_telegramUserId :: "string option"
  mb_telegramRewardClaimed :: bool

record progress_doc =
  pr_userId :: string
  pr_claimed :: "string list"
  pr_followed :: "string list"
  pr_dateKey :: string
  pr_viewed :: "string list"
  pr_liked :: "string list"
  pr_watchClaimed :: bool
  pr_likeClaimed :: bool

record checkin_state =
  ci_userId :: string
  ci_nextDayIndex :: int
  ci_lastClaimDateKey :: "string option"
  ci_lastClaimedDayIndex :: "int option"

record reward_state =
  wallet :: coin_store
  members :: "member list"
  progresses :: "progress_doc list"
  checkins :: "checkin_state list"

definition new_member :: "string \<Rightarrow> member" where
  "new_member uid =
     \<lparr> mb_id = uid, mb_avatar = None, mb_username = [], mb_age = None, mb_gender = [], mb_usernameChangeCount = 0,
       mb_referredBy = None, mb_referrals = [], mb_telegramUserId = None, mb_telegramRewardClaimed = False \<rparr>"

definition member_of :: "string \<Rightarrow> reward_state \<Rightarrow> member" where
  "member_of uid st = (case List.find (\<lambda>m. mb_id m = uid) (members st) of None \<Rightarrow> new_member uid | Some m \<Rightarrow> m)"

definition new_progress :: "string \<Rightarrow> progress_doc" where
  "new_progress uid =
     \<lparr> pr_userId = uid, pr_claimed = [], pr_followed = [], pr_dateKey = [], pr_viewed = [], pr_liked = [],
       pr_watchClaimed = False, pr_likeClaimed = False \<rparr>"

definition find_progress :: "string \<Rightarrow> reward_state \<Rightarrow> progress_doc option" where
  "find_progress uid st = List.find (\<lambda>p. pr_userId p = uid) (progresses st)"

definition ensureUserRewardProgress :: "string \<Rightarrow> reward_state \<Rightarrow> progress_doc \<times> reward_state" where
  "ensureUserRewardProgress uid st =
     (case find_progress uid st of
        Some p \<Rightarrow> (p, st)
      | None \<Rightarrow> (new_progress uid, st\<lparr>progresses := progresses st @ [new_progress uid]\<rparr>))"

definition update_progress :: "string \<Rightarrow> (progress_doc \<Rightarrow> progress_doc) \<Rightarrow> reward_state \<Rightarrow> reward_state" where
  "update_progress uid f st = st\<lparr>progresses := map (\<lambda>p. if pr_userId p = uid then f p else p) (progresses st)\<rparr>"

definition getClaimedAt :: "progress_doc \<Rightarrow> string \<Rightarrow> bool" where
  "getClaimedAt p key = (key \<in> set (pr_claimed p))"

definition mark_claimed :: "string \<Rightarrow> progress_doc \<Rightarrow> progress_doc" where
  "mark_claimed key p = p\<lparr>pr_claimed := pr_claimed p @ [key]\<rparr>"

section \<open>Eligibility of a profile\<close>

definition isSystemPresetImageId :: "string list \<Rightarrow> string \<Rightarrow> bool" where
  "isSystemPresetImageId presets imageId = (js_trim imageId \<noteq> [] \<and> js_trim imageId \<in> set presets)"

definition isModerationOkForReward :: "string option \<Rightarrow> bool" where
  "isModerationOkForReward status =
     (case status of None \<Rightarrow> True | Some s \<Rightarrow> s = [] \<or> s = ''approved'' \<or> s = ''auto-ok'')"

definition hasRewardQualifyingAvatar :: "string list \<Rightarrow> member \<Rightarrow> bool" where
  "hasRewardQualifyingAvatar presets m =
     (case mb_avatar m of
        None \<Rightarrow> False
      | Some a \<Rightarrow>
          av_imageId a \<noteq> [] \<and> \<not> isSystemPresetImageId presets (av_imageId a) \<and>
          isModerationOkForReward (av_moderationStatus a) \<and>
          (case av_uploadedBy a of None \<Rightarrow> False | Some up \<Rightarrow> up \<noteq> [] \<and> (mb_id m = [] \<or> up = mb_id m)))"

definition alnum :: "char \<Rightarrow> bool" where
  "alnum c \<longleftrightarrow> js_is_digit c \<or> (let c' = js_to_lower_char c in 97 \<le> (of_char c' :: nat) \<and> (of_char c' :: nat) \<le> 122)"

text \<open>The pattern \<open>^u[a-z0-9]{4,9}$\<close>, ignoring case.\<close>

definition looks_auto :: "string \<Rightarrow> bool" where
  "looks_auto s \<longleftrightarrow>
     (case s of [] \<Rightarrow> False
      | c # cs \<Rightarrow> js_to_lower_char c = CHR ''u'' \<and> 4 \<le> length cs \<and> length cs \<le> 9 \<and> list_all alnum cs)"

definition isProfileCompleteForReward :: "string list \<Rightarrow> member \<Rightarrow> bool" where
  "isProfileCompleteForReward presets m =
     (let username = js_trim (mb_username m)
      in hasRewardQualifyingAvatar presets m \<and> 4 \<le> length username \<and>
         \<not> (looks_auto username \<and> mb_usernameChangeCount m < 1) \<and>
         (case mb_age m of None \<Rightarrow> False | Some age \<Rightarrow> 13 \<le> age) \<and> js_trim (mb_gender m) \<noteq> [])"

section \<open>The crediting transactions\<close>

record credit_result =
  cr_alreadyClaimed :: bool
  cr_coinsCredited :: rat
  cr_balance :: rat

type_synonym reward_error = "int \<times> string"

definition reward_row :: "string \<Rightarrow> string \<Rightarrow> rat \<Rightarrow> string \<Rightarrow> coin_txn" where
  "reward_row tid uid coins source =
     \<lparr> tx_transactionId = tid, tx_userId = uid, tx_type = Credit, tx_coins = coins, tx_source = source,
       tx_bonusReason = None, tx_paymentGatewayTransactionId = None, tx_paymentGatewayOrderId = None,
       tx_priceInr = None, tx_status = TCompleted \<rparr>"

definition already_claimed :: "rat \<Rightarrow> credit_result" where
  "already_claimed balance = \<lparr> cr_alreadyClaimed = True, cr_coinsCredited = 0, cr_balance = balance \<rparr>"

text \<open>
  \<open>up\<close> says whether the store commits the transaction with the given id. \<open>updateOne\<close> reports a
  modification when the increment is not zero.
\<close>

definition creditOnceTaskReward ::
  "(string \<Rightarrow> bool) \<Rightarrow> string \<Rightarrow> string \<Rightarrow> string \<Rightarrow> rat \<Rightarrow> string \<Rightarrow> reward_state \<Rightarrow> (reward_error + credit_result) \<times> reward_state" where
  "creditOnceTaskReward up uid progressKey tid coins source st =
     (if \<not> up tid then (Inl (500, ''ERROR''), st)
      else case findById uid (wallet st) of
        None \<Rightarrow> (Inl (404, ''User not found''), st)
      | Some u \<Rightarrow>
          if a_role u \<noteq> ''user'' then (Inl (403, ''ROLE''), st)
          else (let (p, st1) = ensureUserRewardProgress uid st
                in if getClaimedAt p progressKey then (Inr (already_claimed (a_coins u)), st1)
                   else if coins \<le> 0 then (Inl (500, ''CONFIG''), st)
                   else (case create_txn (reward_row tid uid coins source) (wallet st1) of
                           None \<Rightarrow> (Inr (already_claimed (a_coins u)), st1)
                         | Some s \<Rightarrow>
                             (let st2 = update_progress uid (mark_claimed progressKey) (st1\<lparr>wallet := inc_coins uid coins s\<rparr>)
                              in (Inr \<lparr> cr_alreadyClaimed = False, cr_coinsCredited = coins,
                                        cr_balance = coins_of uid (wallet st2) \<rparr>, st2)))))"

definition daily_flag :: "task_key \<Rightarrow> progress_doc \<Rightarrow> bool" where
  "daily_flag k p = (if k = watch_free_moments then pr_watchClaimed p else pr_likeClaimed p)"

definition set_daily_flag :: "task_key \<Rightarrow> progress_doc \<Rightarrow> progress_doc" where
  "set_daily_flag k p = (if k = watch_free_moments then p\<lparr>pr_watchClaimed := True\<rparr> else p\<lparr>pr_likeClaimed := True\<rparr>)"

definition new_day :: "string \<Rightarrow> progress_doc \<Rightarrow> progress_doc" where
  "new_day today p = p\<lparr>pr_dateKey := today, pr_viewed := [], pr_liked := [], pr_watchClaimed := False, pr_likeClaimed := False\<rparr>"

definition creditDailyTaskReward ::
  "(string \<Rightarrow> bool) \<Rightarrow> string \<Rightarrow> task_key \<Rightarrow> string \<Rightarrow> string \<Rightarrow> rat \<Rightarrow> string \<Rightarrow> reward_state \<Rightarrow> (reward_error + credit_result) \<times> reward_state" where
  "creditDailyTaskReward up uid k dateKey tid coins source st =
     (if \<not> up tid then (Inl (500, ''ERROR''), st)
      else case findById uid (wallet st) of
        None \<Rightarrow> (Inl (403, ''ROLE''), st)
      | Some u \<Rightarrow>
          if a_role u \<noteq> ''user'' then (Inl (403, ''ROLE''), st)
          else (let (p, st1) = ensureUserRewardProgress uid st
                in if pr_dateKey p = dateKey \<and> daily_flag k p then (Inr (already_claimed (a_coins u)), st1)
                   else (case create_txn (reward_row tid uid coins source) (wallet st1) of
                           None \<Rightarrow> (Inr (already_claimed (a_coins u)), st1)
                         | Some s \<Rightarrow>
                             if coins = 0 then (Inl (500, ''WALLET''), st)
                             else (let st2 = update_progress uid
                                         (\<lambda>p. set_daily_flag k (if pr_dateKey p \<noteq> dateKey then new_day dateKey p else p))
                                         (st1\<lparr>wallet := inc_coins uid coins s\<rparr>)
                                   in (Inr \<lparr> cr_alreadyClaimed = False, cr_coinsCredited = coins,
                                             cr_balance = coins_of uid (wallet st2) \<rparr>, st2)))))"

section \<open>Hooks\<close>

text \<open>What a hook sees: the configuration, the date, the presets, and which transactions commit.\<close>

record reward_env =
  re_cfg :: reward_config
  re_today :: string
  re_presets :: "string list"
  re_up :: "string \<Rightarrow> bool"

type_synonym hook_result = "(reward_error + credit_result) option"

text \<open>A user document with the role the rewards are for.\<close>

definition consumer :: "string \<Rightarrow> reward_state \<Rightarrow> account option" where
  "consumer uid st = (case findById uid (wallet st) of Some u \<Rightarrow> if a_role u = ''user'' then Some u else None | None \<Rightarrow> None)"

text \<open>The shape all hooks of once tasks share, after their own conditions.\<close>

definition credit_once_if ::
  "reward_env \<Rightarrow> (reward_state \<Rightarrow> reward_state) \<Rightarrow> string \<Rightarrow> string \<Rightarrow> string \<Rightarrow> int \<Rightarrow> string \<Rightarrow> credit_result option \<Rightarrow> reward_state \<Rightarrow> hook_result \<times> reward_state" where
  "credit_once_if re others uid key tid coins source claimed_answer st =
     (let (p, st1) = ensureUserRewardProgress uid st
      in if getClaimedAt p key then (map_option Inr claimed_answer, st1)
         else (let (r, st2) = creditOnceTaskReward (re_up re) uid key tid (of_int coins) source (others st1)
               in (Some r, st2)))"

definition tryCreditProfilePhoto :: "reward_env \<Rightarrow> (reward_state \<Rightarrow> reward_state) \<Rightarrow> string \<Rightarrow> reward_state \<Rightarrow> hook_result \<times> reward_state" where
  "tryCreditProfilePhoto re others uid st =
     (case task_on (re_cfg re) upload_profile_photo of
        None \<Rightarrow> (None, st)
      | Some s \<Rightarrow>
          if ts_coins s < 1 \<or> consumer uid st = None \<or> \<not> hasRewardQualifyingAvatar (re_presets re) (member_of uid st) then (None, st)
          else credit_once_if re others uid ''upload_profile_photo'' (''profile_photo_reward_'' @ uid) (ts_coins s)
                 ''profile_photo_reward'' (Some (already_claimed 0)) st)"

definition tryCreditCompleteProfile :: "reward_env \<Rightarrow> (reward_state \<Rightarrow> reward_state) \<Rightarrow> string \<Rightarrow> reward_state \<Rightarrow> hook_result \<times> reward_state" where
  "tryCreditCompleteProfile re others uid st =
     (case task_on (re_cfg re) complete_profile of
        None \<Rightarrow> (None, st)
      | Some s \<Rightarrow>
          if ts_coins s < 1 \<or> consumer uid st = None \<or> \<not> isProfileCompleteForReward (re_presets re) (member_of uid st) then (None, st)
          else credit_once_if re others uid ''complete_profile'' (''profile_complete_reward_'' @ uid) (ts_coins s)
                 ''profile_complete_reward'' (Some (already_claimed (coins_of uid (wallet st)))) st)"

definition onUserProfileMaybeUpdated :: "reward_env \<Rightarrow> (reward_state \<Rightarrow> reward_state) \<Rightarrow> string \<Rightarrow> reward_state \<Rightarrow> reward_state" where
  "onUserProfileMaybeUpdated re others uid st =
     (case tryCreditProfilePhoto re others uid st of
        (Some (Inl e), st1) \<Rightarrow> st1
      | (_, st1) \<Rightarrow> snd (tryCreditCompleteProfile re others uid (others st1)))"

definition tryCreditFirstMessage :: "reward_env \<Rightarrow> (reward_state \<Rightarrow> reward_state) \<Rightarrow> string \<Rightarrow> reward_state \<Rightarrow> hook_result \<times> reward_state" where
  "tryCreditFirstMessage re others uid st =
     (case task_on (re_cfg re) first_message of
        None \<Rightarrow> (None, st)
      | Some s \<Rightarrow>
          if ts_coins s < 1 \<or> consumer uid st = None then (None, st)
          else credit_once_if re others uid ''first_message'' (''first_message_reward_'' @ uid) (ts_coins s)
                 ''first_message_reward'' None st)"

definition tryCreditFirstVideoCall ::
  "reward_env \<Rightarrow> (reward_state \<Rightarrow> reward_state) \<Rightarrow> string \<Rightarrow> int \<Rightarrow> reward_state \<Rightarrow> hook_result \<times> reward_state" where
  "tryCreditFirstVideoCall re others uid durationSeconds st =
     (case task_on (re_cfg re) first_video_call of
        None \<Rightarrow> (None, st)
      | Some s \<Rightarrow>
          if durationSeconds < nvl (ts_minSeconds s) 150 \<or> ts_coins s < 1 \<or> consumer uid st = None then (None, st)
          else credit_once_if re others uid ''first_video_call'' (''first_video_call_reward_'' @ uid) (ts_coins s)
                 ''first_video_call_reward'' None st)"

definition countCompletedPaymentGatewayCredits :: "string \<Rightarrow> reward_state \<Rightarrow> nat" where
  "countCompletedPaymentGatewayCredits uid st =
     length (filter (\<lambda>t. tx_userId t = uid \<and> tx_source t = ''payment_gateway'' \<and> tx_type t = Credit \<and> tx_status t = TCompleted)
       (txns (wallet st)))"

definition tryCreditFirstRecharge :: "reward_env \<Rightarrow> (reward_state \<Rightarrow> reward_state) \<Rightarrow> string \<Rightarrow> reward_state \<Rightarrow> hook_result \<times> reward_state" where
  "tryCreditFirstRecharge re others uid st =
     (case task_on (re_cfg re) first_recharge of
        None \<Rightarrow> (None, st)
      | Some s \<Rightarrow>
          if ts_coins s < 1 \<or> consumer uid st = None \<or> countCompletedPaymentGatewayCredits uid st \<noteq> 1 then (None, st)
          else credit_once_if re others uid ''first_recharge'' (''first_recharge_reward_'' @ uid) (ts_coins s)
                 ''first_recharge_reward'' None st)"

definition tryCreditInviteFriend ::
  "reward_env \<Rightarrow> (reward_state \<Rightarrow> reward_state) \<Rightarrow> string \<Rightarrow> string \<Rightarrow> reward_state \<Rightarrow> hook_result \<times> reward_state" where
  "tryCreditInviteFriend re others referrer referred st =
     (case task_on (re_cfg re) invite_friend of
        None \<Rightarrow> (None, st)
      | Some s \<Rightarrow>
          if ts_coins s < 1 \<or> consumer referrer st = None then (None, st)
          else credit_once_if re others referrer (''invite_friend_'' @ referred)
                 (''invite_friend_reward_'' @ referrer @ ''_'' @ referred) (ts_coins s) ''invite_friend_reward'' None st)"

section \<open>Moments and follows\<close>

definition isFreeTierMomentAccess :: "string option \<Rightarrow> bool" where
  "isFreeTierMomentAccess reason = (case reason of None \<Rightarrow> False | Some r \<Rightarrow> r \<in> {''FREE'', ''PREVIEW'', ''VIP''})"

definition DAILY_UNIQUE_IDS_CAP :: nat where
  "DAILY_UNIQUE_IDS_CAP = 50"

definition FOLLOW_UNIQUE_IDS_CAP :: nat where
  "FOLLOW_UNIQUE_IDS_CAP = 100"

definition addToSet :: "string \<Rightarrow> string list \<Rightarrow> string list" where
  "addToSet x xs = (if x \<in> set xs then xs else xs @ [x])"

definition daily_ids :: "task_key \<Rightarrow> progress_doc \<Rightarrow> string list" where
  "daily_ids k p = (if k = watch_free_moments then pr_viewed p else pr_liked p)"

definition add_daily_id :: "task_key \<Rightarrow> string \<Rightarrow> progress_doc \<Rightarrow> progress_doc" where
  "add_daily_id k mid p =
     (if length (daily_ids k p) < DAILY_UNIQUE_IDS_CAP
      then (if k = watch_free_moments then p\<lparr>pr_viewed := addToSet mid (pr_viewed p)\<rparr> else p\<lparr>pr_liked := addToSet mid (pr_liked p)\<rparr>)
      else p)"

text \<open>Three updates and a read, with the others in between.\<close>

definition atomicAddDailyMomentId ::
  "(reward_state \<Rightarrow> reward_state) \<Rightarrow> string \<Rightarrow> task_key \<Rightarrow> string \<Rightarrow> string \<Rightarrow> reward_state \<Rightarrow> (nat \<times> bool) \<times> reward_state" where
  "atomicAddDailyMomentId others uid k mid today st =
     (let st1 = others (snd (ensureUserRewardProgress uid st));
          st2 = others (update_progress uid (\<lambda>p. if pr_dateKey p \<noteq> today then new_day today p else p) st1);
          st3 = others (update_progress uid (\<lambda>p. if pr_dateKey p = today then add_daily_id k mid p else p) st2)
      in (case find_progress uid st3 of
            None \<Rightarrow> (0, False)
          | Some p \<Rightarrow> if pr_dateKey p \<noteq> today then (0, False) else (length (daily_ids k p), daily_flag k p), st3))"

definition daily_source :: "task_key \<Rightarrow> string" where
  "daily_source k = (if k = watch_free_moments then ''moment_watch_daily_reward'' else ''moment_like_daily_reward'')"

definition tryCreditWatchOrLikeDaily ::
  "reward_env \<Rightarrow> (reward_state \<Rightarrow> reward_state) \<Rightarrow> string \<Rightarrow> task_key \<Rightarrow> reward_state \<Rightarrow> hook_result \<times> reward_state" where
  "tryCreditWatchOrLikeDaily re others uid k st =
     (case task_on (re_cfg re) k of
        None \<Rightarrow> (None, st)
      | Some s \<Rightarrow>
          if ts_coins s < 1 then (None, st)
          else (let (p, st1) = ensureUserRewardProgress uid st;
                    target = nvl (ts_targetCount s) (if k = watch_free_moments then 5 else 10)
                in if pr_dateKey p \<noteq> re_today re \<or> daily_flag k p \<or> int (length (daily_ids k p)) < target then (None, st1)
                   else (let (r, st2) = creditDailyTaskReward (re_up re) uid k (re_today re)
                                          (daily_source k @ ''_'' @ uid @ ''_'' @ re_today re) (of_int (ts_coins s)) (daily_source k)
                                          (others st1)
                         in (Some r, st2))))"

definition recordMomentForReward ::
  "reward_env \<Rightarrow> (reward_state \<Rightarrow> reward_state) \<Rightarrow> string \<Rightarrow> task_key \<Rightarrow> string \<Rightarrow> reward_state \<Rightarrow> reward_state" where
  "recordMomentForReward re others uid k mid st =
     (case task_on (re_cfg re) k of
        None \<Rightarrow> st
      | Some s \<Rightarrow>
          if consumer uid st = None then st
          else (let ((count, claimed), st1) = atomicAddDailyMomentId others uid k mid (re_today re) st;
                    target = nvl (ts_targetCount s) (if k = watch_free_moments then 5 else 10)
                in if target \<le> int count \<and> \<not> claimed then snd (tryCreditWatchOrLikeDaily re others uid k st1) else st1))"

definition recordMomentViewForReward ::
  "reward_env \<Rightarrow> (reward_state \<Rightarrow> reward_state) \<Rightarrow> string \<Rightarrow> string \<Rightarrow> string option \<Rightarrow> reward_state \<Rightarrow> reward_state" where
  "recordMomentViewForReward re others uid mid reason st =
     (if isFreeTierMomentAccess reason then recordMomentForReward re others uid watch_free_moments mid st else st)"

definition recordMomentLikeForReward ::
  "reward_env \<Rightarrow> (reward_state \<Rightarrow> reward_state) \<Rightarrow> string \<Rightarrow> string \<Rightarrow> reward_state \<Rightarrow> reward_state" where
  "recordMomentLikeForReward re others uid mid st = recordMomentForReward re others uid like_moments mid st"

definition tryCreditFollowCreators :: "reward_env \<Rightarrow> (reward_state \<Rightarrow> reward_state) \<Rightarrow> string \<Rightarrow> reward_state \<Rightarrow> hook_result \<times> reward_state" where
  "tryCreditFollowCreators re others uid st =
     (case task_on (re_cfg re) follow_creators of
        None \<Rightarrow> (None, st)
      | Some s \<Rightarrow>
          if ts_coins s < 1 then (None, st)
          else (let (p, st1) = ensureUserRewardProgress uid st
                in if getClaimedAt p ''follow_creators'' then (Some (Inr (already_claimed 0)), st1)
                   else if int (length (pr_followed p)) < nvl (ts_targetCount s) 5 then (None, st1)
                   else (let (r, st2) = creditOnceTaskReward (re_up re) uid ''follow_creators'' (''follow_creators_reward_'' @ uid)
                                          (of_int (ts_coins s)) ''follow_creators_reward'' (others st1)
                         in (Some r, st2))))"

definition recordCreatorFollowForReward ::
  "reward_env \<Rightarrow> (reward_state \<Rightarrow> reward_state) \<Rightarrow> string \<Rightarrow> string \<Rightarrow> reward_state \<Rightarrow> reward_state" where
  "recordCreatorFollowForReward re others uid creator st =
     (case task_on (re_cfg re) follow_creators of
        None \<Rightarrow> st
      | Some s \<Rightarrow>
          if consumer uid st = None then st
          else (let st1 = others (snd (ensureUserRewardProgress uid st))
                in case find_progress uid st1 of
                     None \<Rightarrow> st1
                   | Some p \<Rightarrow>
                       if getClaimedAt p ''follow_creators'' then st1
                       else (let st2 = others (update_progress uid
                                     (\<lambda>p. if length (pr_followed p) < FOLLOW_UNIQUE_IDS_CAP
                                          then p\<lparr>pr_followed := addToSet creator (pr_followed p)\<rparr> else p) st1);
                                 followed = (case find_progress uid st2 of None \<Rightarrow> 0 | Some q \<Rightarrow> length (pr_followed q))
                             in if nvl (ts_targetCount s) 5 \<le> int followed then snd (tryCreditFollowCreators re others uid st2) else st2)))"

section \<open>The claim of the hub\<close>

definition requireCreditResult :: "hook_result \<times> reward_state \<Rightarrow> (reward_error + credit_result) \<times> reward_state" where
  "requireCreditResult r = (case fst r of None \<Rightarrow> Inl (400, ''NOT_ELIGIBLE'') | Some x \<Rightarrow> x, snd r)"

definition claimRewardsTask ::
  "reward_env \<Rightarrow> (reward_state \<Rightarrow> reward_state) \<Rightarrow> string \<Rightarrow> task_key option \<Rightarrow> reward_state \<Rightarrow> (reward_error + credit_result) \<times> reward_state" where
  "claimRewardsTask re others firebaseUid k st =
     (case List.find (\<lambda>a. a_firebaseUid a = firebaseUid) (accounts (wallet st)) of
        None \<Rightarrow> (Inl (404, ''User not found''), st)
      | Some u \<Rightarrow>
          if a_role u \<noteq> ''user'' then (Inl (403, ''ROLE''), st)
          else (case k of
                  Some upload_profile_photo \<Rightarrow> requireCreditResult (tryCreditProfilePhoto re others (a_id u) st)
                | Some complete_profile \<Rightarrow> requireCreditResult (tryCreditCompleteProfile re others (a_id u) st)
                | Some follow_creators \<Rightarrow> requireCreditResult (tryCreditFollowCreators re others (a_id u) st)
                | Some watch_free_moments \<Rightarrow> requireCreditResult (tryCreditWatchOrLikeDaily re others (a_id u) watch_free_moments st)
                | Some like_moments \<Rightarrow> requireCreditResult (tryCreditWatchOrLikeDaily re others (a_id u) like_moments st)
                | Some telegram_join \<Rightarrow> (Inl (400, ''USE_TELEGRAM''), st)
                | Some _ \<Rightarrow> (Inl (400, ''AUTO_ONLY''), st)
                | None \<Rightarrow> (Inl (400, ''UNKNOWN''), st)))"

end
