(* ===== verification/CheckIn.thy ===== *)
theory CheckIn
  imports Rewards
begin

text \<open>
  The daily check-in (\<open>checkin/checkin.service.ts\<close>, \<open>checkin.config.ts\<close>), the reward for a successful
  referral on its two paths (\<open>consumer-rewards/hooks.ts\<close>, \<open>user/referral.service.ts\<close>) and the rewards of the
  creator affiliate program (\<open>creator-referral/creator-referral-reward.service.ts\<close>).
\<close>

section \<open>The rewards of the cycle\<close>

definition DEFAULT_REWARDS :: "int list" where
  "DEFAULT_REWARDS = [50, 80, 50, 50, 50, 50, 100]"

definition CHECKIN_CYCLE_DAYS :: int where
  "CHECKIN_CYCLE_DAYS = 7"

text \<open>\<open>split(',')\<close>.\<close>

fun split_comma :: "string \<Rightarrow> string list" where
  "split_comma [] = [[]]"
| "split_comma (c # cs) =
     (if c = CHR '','' then [] # split_comma cs
      else (case split_comma cs of [] \<Rightarrow> [[c]] | w # ws \<Rightarrow> (c # w) # ws))"

definition parseRewards :: "string option \<Rightarrow> int list" where
  "parseRewards raw =
     (case raw of
        None \<Rightarrow> DEFAULT_REWARDS
      | Some s \<Rightarrow>
          if js_trim s = [] then DEFAULT_REWARDS
          else (let parts = map (\<lambda>w. js_number (js_trim w)) (split_comma s)
                in if length parts = 7 \<and> list_all (\<lambda>n. case n of None \<Rightarrow> False | Some x \<Rightarrow> 0 < x \<and> of_int \<lfloor>x\<rfloor> = x) parts
                   then map (\<lambda>n. case n of None \<Rightarrow> 0 | Some x \<Rightarrow> \<lfloor>x\<rfloor>) parts
                   else DEFAULT_REWARDS))"

definition isDailyCheckInEnabled :: "env \<Rightarrow> bool" where
  "isDailyCheckInEnabled env = (env ''DAILY_CHECKIN_ENABLED'' = Some ''true'')"

definition getDailyCheckInRewards :: "env \<Rightarrow> int list" where
  "getDailyCheckInRewards env = parseRewards (env ''DAILY_CHECKIN_REWARDS'')"

text \<open>An index outside the cycle is an error.\<close>

definition getDailyCheckInRewardForDay :: "env \<Rightarrow> int \<Rightarrow> int option" where
  "getDailyCheckInRewardForDay env day =
     (if day < 1 \<or> 7 < day then None else Some (getDailyCheckInRewards env ! nat (day - 1)))"

definition dailyCheckInTransactionId :: "string \<Rightarrow> string \<Rightarrow> string" where
  "dailyCheckInTransactionId uid dateKey = ''daily_checkin_'' @ uid @ ''_'' @ dateKey"

section \<open>The status\<close>

datatype reward_day_status = day_claimed | day_today | day_upcoming

record rewards_day =
  rd_day :: int
  rd_coins :: int
  rd_status :: reward_day_status

definition current_day :: "checkin_state \<Rightarrow> string \<Rightarrow> int" where
  "current_day ci today =
     (if ci_lastClaimDateKey ci = Some today then nvl (ci_lastClaimedDayIndex ci) (ci_nextDayIndex ci) else ci_nextDayIndex ci)"

definition buildRewardsGrid :: "checkin_state \<Rightarrow> string \<Rightarrow> int list \<Rightarrow> rewards_day list" where
  "buildRewardsGrid ci today rewards =
     map (\<lambda>i. let day = int i + 1; todayIndex = current_day ci today
              in \<lparr> rd_day = day, rd_coins = rewards ! i,
                   rd_status = (if day < todayIndex then day_claimed
                                else if day = todayIndex then (if ci_lastClaimDateKey ci = Some today then day_claimed else day_today)
                                else day_upcoming) \<rparr>) [0..<length rewards]"

record checkin_payload =
  cp_rewards :: "rewards_day list"
  cp_canClaimToday :: bool
  cp_currentDayIndex :: int
  cp_coinsBalance :: rat
  cp_alreadyClaimed :: bool
  cp_coinsCredited :: rat

definition toStatusPayload :: "env \<Rightarrow> checkin_state \<Rightarrow> rat \<Rightarrow> string \<Rightarrow> bool \<Rightarrow> rat \<Rightarrow> checkin_payload" where
  "toStatusPayload env ci balance today already credited =
     \<lparr> cp_rewards = buildRewardsGrid ci today (getDailyCheckInRewards env),
       cp_canClaimToday = (ci_lastClaimDateKey ci \<noteq> Some today), cp_currentDayIndex = current_day ci today,
       cp_coinsBalance = balance, cp_alreadyClaimed = already, cp_coinsCredited = credited \<rparr>"

section \<open>The claim\<close>

definition find_checkin :: "string \<Rightarrow> reward_state \<Rightarrow> checkin_state option" where
  "find_checkin uid st = List.find (\<lambda>c. ci_userId c = uid) (checkins st)"

definition new_checkin :: "string \<Rightarrow> checkin_state" where
  "new_checkin uid = \<lparr> ci_userId = uid, ci_nextDayIndex = 1, ci_lastClaimDateKey = None, ci_lastClaimedDayIndex = None \<rparr>"

definition ensureState :: "string \<Rightarrow> reward_state \<Rightarrow> checkin_state \<times> reward_state" where
  "ensureState uid st =
     (case find_checkin uid st of
        Some c \<Rightarrow> (c, st)
      | None \<Rightarrow> (new_checkin uid, st\<lparr>checkins := checkins st @ [new_checkin uid]\<rparr>))"

definition update_checkin :: "string \<Rightarrow> (checkin_state \<Rightarrow> checkin_state) \<Rightarrow> reward_state \<Rightarrow> reward_state" where
  "update_checkin uid f st = st\<lparr>checkins := map (\<lambda>c. if ci_userId c = uid then f c else c) (checkins st)\<rparr>"

definition next_day :: "int \<Rightarrow> int" where
  "next_day day = (if CHECKIN_CYCLE_DAYS \<le> day then 1 else day + 1)"

definition getCheckInStatusForUser :: "env \<Rightarrow> string \<Rightarrow> string \<Rightarrow> reward_state \<Rightarrow> (reward_error + checkin_payload) \<times> reward_state" where
  "getCheckInStatusForUser env fuid today st =
     (if \<not> isDailyCheckInEnabled env then (Inl (404, ''DISABLED''), st)
      else case List.find (\<lambda>a. a_firebaseUid a = fuid) (accounts (wallet st)) of
        None \<Rightarrow> (Inl (404, ''User not found''), st)
      | Some u \<Rightarrow>
          if a_role u \<noteq> ''user'' then (Inl (403, ''ROLE''), st)
          else (let (ci, st1) = ensureState (a_id u) st
                in (Inr (toStatusPayload env ci (a_coins u) today False 0), st1)))"

text \<open>
  The transaction of a claim: the row with its key, the wallet, and the state. The conditional update of
  the state finds what the transaction read.
\<close>

definition claim_txn :: "env \<Rightarrow> string \<Rightarrow> string \<Rightarrow> reward_state \<Rightarrow> (reward_error + checkin_payload) \<times> reward_state" where
  "claim_txn env uid today st =
     (case findById uid (wallet st) of
        None \<Rightarrow> (Inl (403, ''ROLE''), st)
      | Some u \<Rightarrow>
          if a_role u \<noteq> ''user'' then (Inl (403, ''ROLE''), st)
          else (let (ci, st1) = ensureState uid st
                in if ci_lastClaimDateKey ci = Some today
                   then (Inr (toStatusPayload env ci (a_coins u) today True 0), st1)
                   else (case getDailyCheckInRewardForDay env (ci_nextDayIndex ci) of
                           None \<Rightarrow> (Inl (500, ''ERROR''), st)
                         | Some coins \<Rightarrow>
                             (case create_txn (reward_row (dailyCheckInTransactionId uid today) uid (of_int coins) ''daily_checkin'') (wallet st1) of
                                None \<Rightarrow> (Inr (toStatusPayload env ci (a_coins u) today True 0), st1)
                              | Some s \<Rightarrow>
                                  (let f = (\<lambda>c. c\<lparr>ci_lastClaimDateKey := Some today, ci_lastClaimedDayIndex := Some (ci_nextDayIndex ci),
                                                  ci_nextDayIndex := next_day (ci_nextDayIndex ci)\<rparr>);
                                       st2 = update_checkin uid f (st1\<lparr>wallet := inc_coins uid (of_int coins) s\<rparr>)
                                   in (Inr (toStatusPayload env (f ci) (coins_of uid (wallet st2)) today False (of_int coins)), st2))))))"

definition claimDailyCheckIn ::
  "env \<Rightarrow> (reward_state \<Rightarrow> reward_state) \<Rightarrow> (string \<Rightarrow> bool) \<Rightarrow> string \<Rightarrow> string \<Rightarrow> reward_state \<Rightarrow> (reward_error + checkin_payload) \<times> reward_state" where
  "claimDailyCheckIn env others up fuid today st =
     (if \<not> isDailyCheckInEnabled env then (Inl (404, ''DISABLED''), st)
      else case List.find (\<lambda>a. a_firebaseUid a = fuid) (accounts (wallet st)) of
        None \<Rightarrow> (Inl (404, ''User not found''), st)
      | Some u \<Rightarrow>
          if a_role u \<noteq> ''user'' then (Inl (403, ''ROLE''), st)
          else if \<not> up (dailyCheckInTransactionId (a_id u) today) then (Inl (500, ''ERROR''), others st)
          else claim_txn env (a_id u) today (others st))"

section \<open>A successful referral\<close>

definition update_member :: "string \<Rightarrow> (member \<Rightarrow> member) \<Rightarrow> reward_state \<Rightarrow> reward_state" where
  "update_member uid f st = st\<lparr>members := map (\<lambda>m. if mb_id m = uid then f m else m) (members st)\<rparr>"

text \<open>
  The guarded update that sets \<open>rewardGranted\<close>: it matches when the referrer has an entry of the referred
  user that is not granted, and sets all of these.
\<close>

definition can_grant :: "string \<Rightarrow> string \<Rightarrow> reward_state \<Rightarrow> bool" where
  "can_grant referrer referred st \<longleftrightarrow> findById referrer (wallet st) \<noteq> None \<and> (referred, False) \<in> set (mb_referrals (member_of referrer st))"

definition grant_referral :: "string \<Rightarrow> string \<Rightarrow> reward_state \<Rightarrow> reward_state" where
  "grant_referral referrer referred =
     update_member referrer (\<lambda>m. m\<lparr>mb_referrals := map (\<lambda>r. if r = (referred, False) then (referred, True) else r) (mb_referrals m)\<rparr>)"

definition referralRewardTransactionId :: "string \<Rightarrow> string \<Rightarrow> string" where
  "referralRewardTransactionId referrer referred = ''referral_reward_'' @ referrer @ ''_'' @ referred"

text \<open>
  Both paths as processes that perform one operation on the store per move. The call path grants, then
  credits in a transaction; the purchase path grants and credits in one update, then writes the row.
\<close>

datatype referral_pc = Call_check | Call_grant | Call_credit | Buy_check | Buy_grant | Buy_row | Buy_progress | Stopped

definition row_exists :: "string \<Rightarrow> reward_state \<Rightarrow> bool" where
  "row_exists tid st \<longleftrightarrow> txn_by_id tid (wallet st) \<noteq> None"

fun referral_move :: "(string \<Rightarrow> bool) \<Rightarrow> string \<Rightarrow> string \<Rightarrow> int \<Rightarrow> referral_pc \<Rightarrow> reward_state \<Rightarrow> referral_pc \<times> reward_state" where
  "referral_move up referrer referred coins Call_check st =
     (if row_exists (referralRewardTransactionId referrer referred) st then (Stopped, st) else (Call_grant, st))"
| "referral_move up referrer referred coins Call_grant st =
     (if can_grant referrer referred st then (Call_credit, grant_referral referrer referred st) else (Stopped, st))"
| "referral_move up referrer referred coins Call_credit st =
     (Stopped, snd (creditOnceTaskReward up referrer (''successful_referral_'' @ referred)
                      (referralRewardTransactionId referrer referred) (of_int coins) ''referral_reward'' st))"
| "referral_move up referrer referred coins Buy_check st =
     (if row_exists (referralRewardTransactionId referrer referred) st
      then (Stopped, if can_grant referrer referred st then grant_referral referrer referred st else st)
      else (Buy_grant, st))"
| "referral_move up referrer referred coins Buy_grant st =
     (if can_grant referrer referred st
      then (Buy_row, (grant_referral referrer referred st)\<lparr>wallet := inc_coins referrer (of_int coins) (wallet st)\<rparr>)
      else (Stopped, st))"
| "referral_move up referrer referred coins Buy_row st =
     (if \<not> up (referralRewardTransactionId referrer referred) then (Stopped, st)
      else case create_txn (reward_row (referralRewardTransactionId referrer referred) referrer (of_int coins) ''referral_reward'') (wallet st) of
        None \<Rightarrow> (Stopped, st)
      | Some s \<Rightarrow> (Buy_progress, st\<lparr>wallet := s\<rparr>))"
| "referral_move up referrer referred coins Buy_progress st =
     (Stopped, update_progress referrer (mark_claimed (''successful_referral_'' @ referred)) (snd (ensureUserRewardProgress referrer st)))"
| "referral_move up referrer referred coins Stopped st = (Stopped, st)"

text \<open>A path runs to its end, with the others before each of its operations; no path has more than four.\<close>

fun run_referral ::
  "nat \<Rightarrow> (reward_state \<Rightarrow> reward_state) \<Rightarrow> (string \<Rightarrow> bool) \<Rightarrow> string \<Rightarrow> string \<Rightarrow> int \<Rightarrow> referral_pc \<Rightarrow> reward_state \<Rightarrow> reward_state" where
  "run_referral 0 others up referrer referred coins pc st = st"
| "run_referral (Suc n) others up referrer referred coins pc st =
     (if pc = Stopped then st
      else (let (pc', st') = referral_move up referrer referred coins pc (others st)
            in run_referral n others up referrer referred coins pc' st'))"

definition referrer_of :: "string \<Rightarrow> reward_state \<Rightarrow> string option" where
  "referrer_of referred st = (case findById referred (wallet st) of None \<Rightarrow> None | Some _ \<Rightarrow> mb_referredBy (member_of referred st))"

definition tryCreditSuccessfulReferralOnCall ::
  "reward_env \<Rightarrow> (reward_state \<Rightarrow> reward_state) \<Rightarrow> string \<Rightarrow> int \<Rightarrow> reward_state \<Rightarrow> reward_state" where
  "tryCreditSuccessfulReferralOnCall re others referred durationSeconds st =
     (case task_on (re_cfg re) successful_referral of
        None \<Rightarrow> st
      | Some s \<Rightarrow>
          if durationSeconds < nvl (case rc_task (re_cfg re) first_video_call of None \<Rightarrow> None | Some c \<Rightarrow> ts_minSeconds c) 150 \<or> ts_coins s < 1
          then st
          else (case referrer_of referred st of
                  None \<Rightarrow> st
                | Some referrer \<Rightarrow>
                    if consumer referrer st = None then st
                    else run_referral 4 others (re_up re) referrer referred (ts_coins s) Call_check st))"

definition processReferralRewardOnPurchase ::
  "reward_env \<Rightarrow> (reward_state \<Rightarrow> reward_state) \<Rightarrow> string \<Rightarrow> rat \<Rightarrow> reward_state \<Rightarrow> reward_state" where
  "processReferralRewardOnPurchase re others referred priceInr st =
     (case task_on (re_cfg re) successful_referral of
        None \<Rightarrow> st
      | Some s \<Rightarrow>
          if priceInr < of_int (nvl (ts_minPurchaseInr s) 100) then st
          else (case referrer_of referred st of
                  None \<Rightarrow> st
                | Some referrer \<Rightarrow>
                    if consumer referrer st = None then st
                    else run_referral 4 others (re_up re) referrer referred (ts_coins s) Buy_check st))"

text \<open>The hooks of a settled call.\<close>

definition onUserCallSettled :: "reward_env \<Rightarrow> (reward_state \<Rightarrow> reward_state) \<Rightarrow> string \<Rightarrow> int \<Rightarrow> reward_state \<Rightarrow> reward_state" where
  "onUserCallSettled re others uid durationSeconds st =
     (case tryCreditFirstVideoCall re others uid durationSeconds st of
        (Some (Inl e), st1) \<Rightarrow> st1
      | (_, st1) \<Rightarrow> tryCreditSuccessfulReferralOnCall re others uid durationSeconds st1)"

end
