(* ===== verification/Affiliate.thy ===== *)
theory Affiliate
  imports CheckIn
begin

text \<open>
  The creator affiliate program (\<open>creator-referral/creator-referral-reward.service.ts\<close>): one edge per
  referred user, three stages of reward to the creator, each paid in a transaction that claims the
  stage on the edge.
\<close>

section \<open>Configuration\<close>

definition CREATOR_REFERRAL_COINS_MAX :: int where
  "CREATOR_REFERRAL_COINS_MAX = 10000"

definition clampCoins :: "rat option \<Rightarrow> int \<Rightarrow> int" where
  "clampCoins n fallback =
     (case n of Some x \<Rightarrow> if x < 1 then fallback else min \<lfloor>x\<rfloor> CREATOR_REFERRAL_COINS_MAX | None \<Rightarrow> fallback)"

definition parseCoinsEnv :: "string option \<Rightarrow> int \<Rightarrow> int" where
  "parseCoinsEnv raw fallback =
     (case raw of None \<Rightarrow> fallback | Some s \<Rightarrow> if s = [] then fallback else clampCoins (js_number s) fallback)"

datatype referral_stage = attach_stage | telegram_stage | purchase_stage

fun stage_default :: "env \<Rightarrow> referral_stage \<Rightarrow> int" where
  "stage_default env attach_stage = parseCoinsEnv (env ''CREATOR_REFERRAL_ATTACH_COINS'') 200"
| "stage_default env telegram_stage = parseCoinsEnv (env ''CREATOR_REFERRAL_TELEGRAM_COINS'') 100"
| "stage_default env purchase_stage = parseCoinsEnv (env ''CREATOR_REFERRAL_PURCHASE_COINS'') 1000"

record affiliate_config =
  ac_enabled :: bool
  ac_coins :: "referral_stage \<Rightarrow> int"

text \<open>A stored amount that is absent is the default, one that is not a number or below one too.\<close>

definition viewFromDoc :: "env \<Rightarrow> bool option \<Rightarrow> (referral_stage \<Rightarrow> rat option) \<Rightarrow> affiliate_config" where
  "viewFromDoc env enabled stored =
     \<lparr> ac_enabled = (enabled \<noteq> Some False),
       ac_coins = (\<lambda>s. clampCoins (case stored s of None \<Rightarrow> Some (of_int (stage_default env s)) | x \<Rightarrow> x) (stage_default env s)) \<rparr>"

section \<open>Edges\<close>

record referral_edge =
  ed_creatorUserId :: string
  ed_referredUserId :: string
  ed_telegramJoined :: bool
  ed_creatorRewarded :: bool
  ed_attachRewarded :: "int option"
  ed_telegramRewarded :: "int option"
  ed_purchaseRewarded :: "int option"

record affiliate_state =
  af_store :: coin_store
  af_edges :: "referral_edge list"
  af_telegramClaimed :: "string list"

fun stage_paid :: "referral_stage \<Rightarrow> referral_edge \<Rightarrow> int option" where
  "stage_paid attach_stage e = ed_attachRewarded e"
| "stage_paid telegram_stage e = ed_telegramRewarded e"
| "stage_paid purchase_stage e = ed_purchaseRewarded e"

fun pay_stage :: "referral_stage \<Rightarrow> int \<Rightarrow> referral_edge \<Rightarrow> referral_edge" where
  "pay_stage attach_stage n e = e\<lparr>ed_attachRewarded := Some n\<rparr>"
| "pay_stage telegram_stage n e = e\<lparr>ed_telegramRewarded := Some n\<rparr>"
| "pay_stage purchase_stage n e = e\<lparr>ed_purchaseRewarded := Some n\<rparr>"

fun stage_name :: "referral_stage \<Rightarrow> string" where
  "stage_name attach_stage = ''attach''"
| "stage_name telegram_stage = ''telegram''"
| "stage_name purchase_stage = ''purchase''"

definition creatorReferralStageTransactionId :: "referral_stage \<Rightarrow> string \<Rightarrow> string \<Rightarrow> string" where
  "creatorReferralStageTransactionId s creator referred = ''creator_referral_'' @ stage_name s @ ''_'' @ creator @ ''_'' @ referred"

definition stage_source :: "referral_stage \<Rightarrow> string" where
  "stage_source s = ''creator_referral_'' @ stage_name s @ ''_reward''"

definition find_edge :: "(referral_edge \<Rightarrow> bool) \<Rightarrow> affiliate_state \<Rightarrow> referral_edge option" where
  "find_edge P st = List.find P (af_edges st)"

definition edge_of :: "string \<Rightarrow> affiliate_state \<Rightarrow> referral_edge option" where
  "edge_of referred = find_edge (\<lambda>e. ed_referredUserId e = referred)"

definition update_edge :: "string \<Rightarrow> (referral_edge \<Rightarrow> referral_edge) \<Rightarrow> affiliate_state \<Rightarrow> affiliate_state" where
  "update_edge referred f st = st\<lparr>af_edges := map (\<lambda>e. if ed_referredUserId e = referred then f e else e) (af_edges st)\<rparr>"

section \<open>A stage\<close>

text \<open>
  The transaction claims the stage, writes the row and credits the creator; a creator that does not
  exist aborts it. Edges are named by their referred user, which is unique.
\<close>

definition stage_txn :: "referral_stage \<Rightarrow> int \<Rightarrow> string \<Rightarrow> string \<Rightarrow> affiliate_state \<Rightarrow> (string + bool) \<times> affiliate_state" where
  "stage_txn s coins creator referred st =
     (case edge_of referred st of
        None \<Rightarrow> (Inr False, st)
      | Some e \<Rightarrow>
          if ed_creatorRewarded e \<or> stage_paid s e \<noteq> None then (Inr False, st)
          else (let st1 = update_edge referred (pay_stage s coins) st
                in case create_txn (reward_row (creatorReferralStageTransactionId s creator referred) creator (of_int coins) (stage_source s))
                          (af_store st1) of
                     None \<Rightarrow> (Inr False, st1)
                   | Some c \<Rightarrow>
                       if findById creator c = None then (Inl ''Creator user not found for referral reward'', st)
                       else (Inr True, st1\<lparr>af_store := inc_coins creator (of_int coins) c\<rparr>)))"

definition creditStage ::
  "affiliate_config \<Rightarrow> (affiliate_state \<Rightarrow> affiliate_state) \<Rightarrow> (string \<Rightarrow> bool) \<Rightarrow> referral_stage \<Rightarrow> string \<Rightarrow> string \<Rightarrow> affiliate_state \<Rightarrow>
     (string + bool) \<times> affiliate_state" where
  "creditStage cfg others up s creator referred st =
     (if \<not> ac_enabled cfg \<or> ac_coins cfg s < 1 then (Inr False, st)
      else case edge_of referred st of
        None \<Rightarrow> (Inr False, st)
      | Some e \<Rightarrow>
          if ed_creatorRewarded e \<or> stage_paid s e \<noteq> None then (Inr False, st)
          else if txn_by_id (creatorReferralStageTransactionId s creator referred) (af_store st) \<noteq> None
          then (Inr True, update_edge referred (\<lambda>e. if stage_paid s e = None then pay_stage s (ac_coins cfg s) e else e) (others st))
          else if \<not> up (creatorReferralStageTransactionId s creator referred) then (Inl ''store'', others st)
          else stage_txn s (ac_coins cfg s) creator referred (others st))"

definition tryCreditAttach where
  "tryCreditAttach cfg others up creator referred st =
     (case find_edge (\<lambda>e. ed_creatorUserId e = creator \<and> ed_referredUserId e = referred) st of
        None \<Rightarrow> (Inr False, st)
      | Some _ \<Rightarrow> creditStage cfg others up attach_stage creator referred st)"

definition tryCreditTelegram where
  "tryCreditTelegram cfg others up creator referred st =
     (case find_edge (\<lambda>e. ed_creatorUserId e = creator \<and> ed_referredUserId e = referred) st of
        None \<Rightarrow> (Inr False, st)
      | Some e \<Rightarrow>
          if \<not> ed_telegramJoined e then (Inr False, st)
          else creditStage cfg others up telegram_stage creator referred st)"

definition tryCreditPurchase where
  "tryCreditPurchase cfg others up referred st =
     (case edge_of referred st of
        None \<Rightarrow> (Inr False, st)
      | Some e \<Rightarrow> creditStage cfg others up purchase_stage (ed_creatorUserId e) referred st)"

definition referredUserHasQualifyingPurchase :: "string \<Rightarrow> affiliate_state \<Rightarrow> bool" where
  "referredUserHasQualifyingPurchase referred st \<longleftrightarrow>
     find_txn (\<lambda>t. tx_userId t = referred \<and> tx_status t = TCompleted \<and> tx_type t = Credit \<and>
       tx_source t \<in> {''payment_gateway'', ''vip_membership'', ''moments_premium_membership''}) (af_store st) \<noteq> None"

section \<open>Events\<close>

text \<open>A handler goes on with the next stage unless the one before threw.\<close>

definition and_then ::
  "(string + bool) \<times> affiliate_state \<Rightarrow> (affiliate_state \<Rightarrow> (string + bool) \<times> affiliate_state) \<Rightarrow> (string + bool) \<times> affiliate_state" where
  "and_then r f = (case fst r of Inl e \<Rightarrow> r | Inr _ \<Rightarrow> f (snd r))"

definition createCreatorReferralEdgeAfterAttach where
  "createCreatorReferralEdgeAfterAttach cfg others up creator referred telegramAlreadyClaimed st =
     (let joined = (telegramAlreadyClaimed \<or> referred \<in> set (af_telegramClaimed st));
          edge = \<lparr> ed_creatorUserId = creator, ed_referredUserId = referred, ed_telegramJoined = joined, ed_creatorRewarded = False,
                   ed_attachRewarded = None, ed_telegramRewarded = None, ed_purchaseRewarded = None \<rparr>;
          st1 = (if edge_of referred st = None then st\<lparr>af_edges := af_edges st @ [edge]\<rparr> else st)
      in and_then (tryCreditAttach cfg others up creator referred st1)
           (\<lambda>st2. and_then (if joined then tryCreditTelegram cfg others up creator referred st2 else (Inr False, st2))
             (\<lambda>st3. if referredUserHasQualifyingPurchase referred st3 then tryCreditPurchase cfg others up referred st3
                    else (Inr False, st3))))"

definition markCreatorReferralTelegramJoined where
  "markCreatorReferralTelegramJoined cfg others up referred st =
     (case edge_of referred st of
        None \<Rightarrow> (Inr False, st)
      | Some e \<Rightarrow>
          tryCreditTelegram cfg others up (ed_creatorUserId e) referred (update_edge referred (\<lambda>e. e\<lparr>ed_telegramJoined := True\<rparr>) st))"

section \<open>Reconciliation\<close>

definition stage_edges :: "nat \<Rightarrow> affiliate_state \<Rightarrow> referral_edge list" where
  "stage_edges limit st =
     take limit (filter (\<lambda>e. \<not> ed_creatorRewarded e \<and> (ed_attachRewarded e = None \<or> ed_telegramJoined e \<and> ed_telegramRewarded e = None))
       (af_edges st))"

definition purchase_edges :: "nat \<Rightarrow> affiliate_state \<Rightarrow> referral_edge list" where
  "purchase_edges limit st = take limit (filter (\<lambda>e. \<not> ed_creatorRewarded e \<and> ed_purchaseRewarded e = None) (af_edges st))"

definition unpaid_edges :: "nat \<Rightarrow> affiliate_state \<Rightarrow> referral_edge list" where
  "unpaid_edges limit st =
     stage_edges limit st @
     filter (\<lambda>e. ed_referredUserId e \<notin> ed_referredUserId ` set (stage_edges limit st)) (purchase_edges limit st)"

definition count_paid :: "(string + bool) \<times> affiliate_state \<Rightarrow> nat \<Rightarrow> nat" where
  "count_paid r n = (if fst r = Inr True then Suc n else n)"

text \<open>The stages of one row, as it was read; an error ends the sweep.\<close>

definition reconcile_edge ::
  "affiliate_config \<Rightarrow> (affiliate_state \<Rightarrow> affiliate_state) \<Rightarrow> (string \<Rightarrow> bool) \<Rightarrow> referral_edge \<Rightarrow> affiliate_state \<Rightarrow> (string + nat) \<times> affiliate_state" where
  "reconcile_edge cfg others up e st =
     (let c = ed_creatorUserId e; u = ed_referredUserId e;
          r1 = (if ed_attachRewarded e = None then tryCreditAttach cfg others up c u st else (Inr False, st));
          r2 = and_then r1 (\<lambda>s. if ed_telegramJoined e \<and> ed_telegramRewarded e = None then tryCreditTelegram cfg others up c u s else (Inr False, s));
          r3 = and_then r2 (\<lambda>s. if ed_purchaseRewarded e = None \<and> referredUserHasQualifyingPurchase u s
                               then tryCreditPurchase cfg others up u s else (Inr False, s))
      in (case fst r3 of Inl err \<Rightarrow> Inl err | Inr _ \<Rightarrow> Inr (count_paid r1 (count_paid r2 (count_paid r3 0))), snd r3))"

fun reconcile_edges ::
  "affiliate_config \<Rightarrow> (affiliate_state \<Rightarrow> affiliate_state) \<Rightarrow> (string \<Rightarrow> bool) \<Rightarrow> referral_edge list \<Rightarrow> affiliate_state \<Rightarrow> (string + nat) \<times> affiliate_state" where
  "reconcile_edges cfg others up [] st = (Inr 0, st)"
| "reconcile_edges cfg others up (e # es) st =
     (case reconcile_edge cfg others up e st of
        (Inl err, st1) \<Rightarrow> (Inl err, st1)
      | (Inr n, st1) \<Rightarrow>
          (case reconcile_edges cfg others up es st1 of
             (Inl err, st2) \<Rightarrow> (Inl err, st2)
           | (Inr m, st2) \<Rightarrow> (Inr (n + m), st2)))"

definition reconcileUnpaidCreatorReferrals where
  "reconcileUnpaidCreatorReferrals cfg others up limit st =
     (if \<not> ac_enabled cfg then (Inr 0, st) else reconcile_edges cfg others up (unpaid_edges limit st) st)"

end
