(* ===== verification/Telegram.thy ===== *)
theory Telegram
  imports CheckIn "HOL-Library.Word"
begin

text \<open>
  The reward for joining the Telegram channel (\<open>telegram-reward/\<close>): the signed payload of the deep link
  as bytes (\<open>telegram-link-token.ts\<close>), the webhook that links a Telegram account and the claim
  (\<open>telegram-reward.service.ts\<close>).

  Node's \<open>Buffer\<close> is modelled where the code uses it: hexadecimal, base64 in both directions, and
  big-endian 32-bit integers. The HMAC is the parameter \<open>hmac\<close>, the answer of the Telegram API the
  parameter \<open>chat\<close>.
\<close>

section \<open>Bytes\<close>

type_synonym byte = "8 word"

definition hex_alphabet :: string where
  "hex_alphabet = ''0123456789abcdef''"

definition hex_digit :: "nat \<Rightarrow> char" where
  "hex_digit n = hex_alphabet ! n"

definition hex_value :: "char \<Rightarrow> nat option" where
  "hex_value c = List.find (\<lambda>n. hex_digit n = js_to_lower_char c) [0..<16]"

definition hex_of :: "byte list \<Rightarrow> string" where
  "hex_of bs = concat (map (\<lambda>b. [hex_digit (unat b div 16), hex_digit (unat b mod 16)]) bs)"

text \<open>\<open>Buffer.from(s, 'hex')\<close> stops at the first pair that is not hexadecimal.\<close>

fun bytes_of_hex :: "string \<Rightarrow> byte list" where
  "bytes_of_hex (c # d # s) =
     (case (hex_value c, hex_value d) of
        (Some h, Some l) \<Rightarrow> word_of_nat (16 * h + l) # bytes_of_hex s
      | _ \<Rightarrow> [])"
| "bytes_of_hex _ = []"

definition b64_alphabet :: string where
  "b64_alphabet = ''ABCDEFGHIJKLMNOPQRSTUVWXYZabcdefghijklmnopqrstuvwxyz0123456789+/''"

definition b64_char :: "nat \<Rightarrow> char" where
  "b64_char n = b64_alphabet ! n"

text \<open>The six-bit values of a byte string; the last group may be short.\<close>

fun b64_values :: "byte list \<Rightarrow> nat list" where
  "b64_values (a # b # c # bs) =
     [unat a div 4, unat a mod 4 * 16 + unat b div 16, unat b mod 16 * 4 + unat c div 64, unat c mod 64] @ b64_values bs"
| "b64_values [a, b] = [unat a div 4, unat a mod 4 * 16 + unat b div 16, unat b mod 16 * 4]"
| "b64_values [a] = [unat a div 4, unat a mod 4 * 16]"
| "b64_values [] = []"

definition pad_length :: "nat \<Rightarrow> nat" where
  "pad_length n = (4 - n mod 4) mod 4"

definition toString_base64 :: "byte list \<Rightarrow> string" where
  "toString_base64 bs = map b64_char (b64_values bs) @ replicate (pad_length (length (b64_values bs))) (CHR ''='')"

text \<open>
  \<open>Buffer.from(s, 'base64')\<close> also takes the characters of base64url, skips any other, stops at the
  padding and drops an incomplete byte.
\<close>

definition b64_value :: "char \<Rightarrow> nat option" where
  "b64_value c =
     (if c = CHR ''-'' then Some 62 else if c = CHR ''_'' then Some 63 else List.find (\<lambda>n. b64_char n = c) [0..<64])"

fun b64_bytes :: "nat list \<Rightarrow> byte list" where
  "b64_bytes (p # q # r # s # vs) =
     [word_of_nat (p * 4 + q div 16), word_of_nat (q mod 16 * 16 + r div 4), word_of_nat (r mod 4 * 64 + s)] @ b64_bytes vs"
| "b64_bytes [p, q, r] = [word_of_nat (p * 4 + q div 16), word_of_nat (q mod 16 * 16 + r div 4)]"
| "b64_bytes [p, q] = [word_of_nat (p * 4 + q div 16)]"
| "b64_bytes _ = []"

definition bytes_of_base64 :: "string \<Rightarrow> byte list" where
  "bytes_of_base64 s = b64_bytes (List.map_filter b64_value (takeWhile (\<lambda>c. c \<noteq> CHR ''='') s))"

definition base64UrlEncode :: "byte list \<Rightarrow> string" where
  "base64UrlEncode bs =
     rev (dropWhile (\<lambda>c. c = CHR ''='') (rev
       (map (\<lambda>c. if c = CHR ''+'' then CHR ''-'' else if c = CHR ''/'' then CHR ''_'' else c) (toString_base64 bs))))"

definition base64UrlDecode :: "string \<Rightarrow> byte list" where
  "base64UrlDecode s =
     (let padded = map (\<lambda>c. if c = CHR ''-'' then CHR ''+'' else if c = CHR ''_'' then CHR ''/'' else c) s
      in bytes_of_base64 (padded @ replicate (pad_length (length padded)) (CHR ''='')))"

definition writeUInt32BE :: "32 word \<Rightarrow> byte list" where
  "writeUInt32BE w =
     [word_of_nat (unat w div 2 ^ 24), word_of_nat (unat w div 2 ^ 16), word_of_nat (unat w div 2 ^ 8), word_of_nat (unat w)]"

definition readUInt32BE :: "byte list \<Rightarrow> nat" where
  "readUInt32BE bs = unat (bs ! 0) * 2 ^ 24 + unat (bs ! 1) * 2 ^ 16 + unat (bs ! 2) * 2 ^ 8 + unat (bs ! 3)"

section \<open>The payload of the link\<close>

definition OBJECT_ID_BYTES :: nat where "OBJECT_ID_BYTES = 12"
definition EXP_BYTES :: nat where "EXP_BYTES = 4"
definition SIG_BYTES :: nat where "SIG_BYTES = 10"
definition PAYLOAD_BYTES :: nat where "PAYLOAD_BYTES = OBJECT_ID_BYTES + EXP_BYTES + SIG_BYTES"
definition TELEGRAM_LINK_TOKEN_TTL_MS :: millis where "TELEGRAM_LINK_TOKEN_TTL_MS = 30 * 60 * 1000"

definition env_trimmed :: "env \<Rightarrow> string \<Rightarrow> string" where
  "env_trimmed env k = js_trim (nvl (env k) [])"

definition getTelegramLinkTokenSecret :: "env \<Rightarrow> string" where
  "getTelegramLinkTokenSecret env =
     (let explicit = env_trimmed env ''TELEGRAM_LINK_TOKEN_SECRET''; jwt = env_trimmed env ''JWT_SECRET''
      in if explicit \<noteq> [] then explicit else if jwt \<noteq> [] then ''telegram_link:'' @ jwt else [])"

definition hmacBody :: "(string \<Rightarrow> byte list \<Rightarrow> byte list) \<Rightarrow> byte list \<Rightarrow> string \<Rightarrow> byte list" where
  "hmacBody hmac body secret = take SIG_BYTES (hmac secret body)"

definition isHexObjectId :: "string \<Rightarrow> bool" where
  "isHexObjectId s \<longleftrightarrow> length s = 24 \<and> list_all (\<lambda>c. hex_value c \<noteq> None) s"

definition createTelegramLinkPayload :: "(string \<Rightarrow> byte list \<Rightarrow> byte list) \<Rightarrow> env \<Rightarrow> string \<Rightarrow> millis \<Rightarrow> string + string" where
  "createTelegramLinkPayload hmac env userId now =
     (let secret = getTelegramLinkTokenSecret env
      in if secret = [] then Inl ''TELEGRAM_LINK_TOKEN_SECRET (or JWT_SECRET) is not configured''
         else if \<not> isHexObjectId userId then Inl ''userId must be a 24-char hex ObjectId''
         else (let idBuf = bytes_of_hex (js_to_lower userId);
                   expSec = (now + TELEGRAM_LINK_TOKEN_TTL_MS) div 1000;
                   body = idBuf @ writeUInt32BE (word_of_int expSec);
                   payload = base64UrlEncode (body @ hmacBody hmac body secret)
               in if 64 < length payload then Inl ''Telegram start payload too long'' else Inr payload))"

definition verifyTelegramLinkPayload :: "(string \<Rightarrow> byte list \<Rightarrow> byte list) \<Rightarrow> env \<Rightarrow> string \<Rightarrow> millis \<Rightarrow> string option" where
  "verifyTelegramLinkPayload hmac env startPayload now =
     (let secret = getTelegramLinkTokenSecret env
      in if secret = [] \<or> startPayload = [] then None
         else (let buf = base64UrlDecode (js_trim startPayload);
                   body = take (OBJECT_ID_BYTES + EXP_BYTES) buf;
                   expSec = readUInt32BE (drop OBJECT_ID_BYTES body);
                   userId = hex_of (take OBJECT_ID_BYTES body)
               in if length buf \<noteq> PAYLOAD_BYTES then None
                  else if drop (OBJECT_ID_BYTES + EXP_BYTES) buf \<noteq> hmacBody hmac body secret then None
                  else if int expSec * 1000 < now then None
                  else if \<not> isHexObjectId userId then None
                  else Some userId))"

section \<open>The configuration\<close>

record telegram_config =
  tc_enabled :: bool
  tc_channelUrl :: string
  tc_channelChatId :: string
  tc_rewardCoins :: int

definition TELEGRAM_REWARD_COINS_MAX :: int where
  "TELEGRAM_REWARD_COINS_MAX = 10000"

definition getTelegramRewardDefaultCoins :: "env \<Rightarrow> int" where
  "getTelegramRewardDefaultCoins env =
     (case js_number (nvl (env ''TELEGRAM_REWARD_DEFAULT_COINS'') ''100'') of
        None \<Rightarrow> 100
      | Some n \<Rightarrow> if n < 1 then 100 else min \<lfloor>n\<rfloor> TELEGRAM_REWARD_COINS_MAX)"

definition getTelegramBotUsername :: "env \<Rightarrow> string" where
  "getTelegramBotUsername env =
     (case env_trimmed env ''TELEGRAM_BOT_USERNAME'' of [] \<Rightarrow> [] | c # cs \<Rightarrow> if c = CHR ''@'' then cs else c # cs)"

text \<open>The stored document, or the one that is created when there is none.\<close>

definition getOrCreateTelegramRewardConfig :: "env \<Rightarrow> telegram_config option \<Rightarrow> telegram_config" where
  "getOrCreateTelegramRewardConfig env doc =
     (case doc of
        Some c \<Rightarrow> c
      | None \<Rightarrow> \<lparr> tc_enabled = (env ''TELEGRAM_REWARD_DEFAULT_ENABLED'' = Some ''true''), tc_channelUrl = [], tc_channelChatId = [],
                   tc_rewardCoins = getTelegramRewardDefaultCoins env \<rparr>)"

definition config_error :: "telegram_config \<Rightarrow> reward_error option" where
  "config_error cfg =
     (if \<not> tc_enabled cfg then Some (403, ''DISABLED'')
      else if js_trim (tc_channelUrl cfg) = [] \<or> js_trim (tc_channelChatId cfg) = [] \<or> tc_rewardCoins cfg < 1
      then Some (503, ''MISCONFIGURED'') else None)"

section \<open>Linking\<close>

definition set_member :: "string \<Rightarrow> (member \<Rightarrow> member) \<Rightarrow> reward_state \<Rightarrow> reward_state" where
  "set_member uid f st =
     (if List.find (\<lambda>m. mb_id m = uid) (members st) = None then st\<lparr>members := members st @ [f (new_member uid)]\<rparr>
      else st\<lparr>members := map (\<lambda>m. if mb_id m = uid then f m else m) (members st)\<rparr>)"

definition owner_of_telegram :: "string \<Rightarrow> reward_state \<Rightarrow> string option" where
  "owner_of_telegram tg st = map_option mb_id (List.find (\<lambda>m. mb_telegramUserId m = Some tg) (members st))"

definition linked_id :: "member \<Rightarrow> string option" where
  "linked_id m = (case mb_telegramUserId m of Some (c # cs) \<Rightarrow> Some (c # cs) | _ \<Rightarrow> None)"

datatype telegram_reply =
    No_reply | Open_app | Missing_link | Link_invalid | Linked_elsewhere | Not_eligible | Other_telegram | Already_linked
  | Could_not_link | Linked

text \<open>
  The update that sets the link when there is none. \<open>idx\<close> says whether the store has the unique index
  on \<open>telegramUserId\<close>, which then refuses an account that another user has.
\<close>

definition bind_telegram :: "bool \<Rightarrow> string \<Rightarrow> string \<Rightarrow> reward_state \<Rightarrow> telegram_reply \<times> reward_state" where
  "bind_telegram idx uid tg st =
     (if consumer uid st = None \<or> mb_telegramUserId (member_of uid st) \<noteq> None
      then (if mb_telegramUserId (member_of uid st) = Some tg then Linked else Could_not_link, st)
      else if idx \<and> owner_of_telegram tg st \<noteq> None then (Linked_elsewhere, st)
      else (Linked, set_member uid (\<lambda>m. m\<lparr>mb_telegramUserId := Some tg\<rparr>) st))"

definition link_telegram ::
  "bool \<Rightarrow> (reward_state \<Rightarrow> reward_state) \<Rightarrow> string \<Rightarrow> string \<Rightarrow> reward_state \<Rightarrow> telegram_reply \<times> reward_state" where
  "link_telegram idx others uid tg st =
     (if (case owner_of_telegram tg st of None \<Rightarrow> False | Some u \<Rightarrow> u \<noteq> uid) then (Linked_elsewhere, st)
      else (let st1 = others st
            in if consumer uid st1 = None then (Not_eligible, st1)
               else (case linked_id (member_of uid st1) of
                       Some t \<Rightarrow> (if t \<noteq> tg then Other_telegram else Already_linked, st1)
                     | None \<Rightarrow> bind_telegram idx uid tg (others st1))))"

definition is_word_char :: "char \<Rightarrow> bool" where
  "is_word_char c \<longleftrightarrow> alnum c \<or> c = CHR ''_''"

text \<open>What follows \<open>/start\<close> and the name of the bot.\<close>

definition start_arg :: "string \<Rightarrow> string" where
  "start_arg text =
     (let rest = drop 6 text
      in case rest of
           [] \<Rightarrow> []
         | c # cs \<Rightarrow> js_trim (if c = CHR ''@'' \<and> takeWhile is_word_char cs \<noteq> [] then dropWhile is_word_char cs else rest))"

definition handleTelegramWebhook ::
  "(string \<Rightarrow> byte list \<Rightarrow> byte list) \<Rightarrow> env \<Rightarrow> bool \<Rightarrow> (reward_state \<Rightarrow> reward_state) \<Rightarrow> millis \<Rightarrow> string \<Rightarrow>
     string option \<Rightarrow> string option \<Rightarrow> string option \<Rightarrow> bool \<Rightarrow> reward_state \<Rightarrow> (reward_error + telegram_reply) \<times> reward_state" where
  "handleTelegramWebhook hmac env idx others now secret text fromId chatId isBot st =
     (let expected = env_trimmed env ''TELEGRAM_WEBHOOK_SECRET''
      in if expected = [] \<or> secret \<noteq> expected then (Inl (401, ''UNAUTHORIZED''), st)
         else (case (js_trim (nvl text []), fromId, chatId) of
                 (t, Some tg, Some chat) \<Rightarrow>
                   if t = [] \<or> isBot then (Inr No_reply, st)
                   else if \<not> starts_with t ''/start'' then (Inr Open_app, st)
                   else if start_arg t = [] then (Inr Missing_link, st)
                   else (case verifyTelegramLinkPayload hmac env (start_arg t) now of
                           None \<Rightarrow> (Inr Link_invalid, st)
                         | Some uid \<Rightarrow> (let (r, st') = link_telegram idx others uid tg st in (Inr r, st')))
               | _ \<Rightarrow> (Inr No_reply, st)))"

section \<open>The claim\<close>

definition isActiveChannelMember :: "string \<Rightarrow> bool" where
  "isActiveChannelMember status \<longleftrightarrow> status \<in> {''creator'', ''administrator'', ''member''}"

definition telegramJoinRewardTransactionId :: "string \<Rightarrow> string" where
  "telegramJoinRewardTransactionId uid = ''telegram_join_reward_'' @ uid"

definition telegram_claim_txn :: "string \<Rightarrow> int \<Rightarrow> reward_state \<Rightarrow> (reward_error + credit_result) \<times> reward_state" where
  "telegram_claim_txn uid coins st =
     (case consumer uid st of
        None \<Rightarrow> (Inl (403, ''ROLE''), st)
      | Some u \<Rightarrow>
          if mb_telegramRewardClaimed (member_of uid st) then (Inr (already_claimed (a_coins u)), st)
          else if linked_id (member_of uid st) = None then (Inl (400, ''NOT_LINKED''), st)
          else (case create_txn (reward_row (telegramJoinRewardTransactionId uid) uid (of_int coins) ''telegram_join_reward'') (wallet st) of
                  None \<Rightarrow> (Inr (already_claimed (a_coins u)), st)
                | Some s \<Rightarrow>
                    (let st1 = set_member uid (\<lambda>m. m\<lparr>mb_telegramRewardClaimed := True\<rparr>) (st\<lparr>wallet := inc_coins uid (of_int coins) s\<rparr>)
                     in (Inr \<lparr> cr_alreadyClaimed = False, cr_coinsCredited = of_int coins, cr_balance = coins_of uid (wallet st1) \<rparr>, st1))))"

definition verifyAndClaimTelegramReward ::
  "telegram_config \<Rightarrow> (string \<Rightarrow> string \<Rightarrow> reward_error + string) \<Rightarrow> (reward_state \<Rightarrow> reward_state) \<Rightarrow> (string \<Rightarrow> bool) \<Rightarrow> string \<Rightarrow>
     reward_state \<Rightarrow> (reward_error + credit_result) \<times> reward_state" where
  "verifyAndClaimTelegramReward cfg chat others up fuid st =
     (case config_error cfg of
        Some e \<Rightarrow> (Inl e, st)
      | None \<Rightarrow>
     (case List.find (\<lambda>a. a_firebaseUid a = fuid) (accounts (wallet st)) of
        None \<Rightarrow> (Inl (404, ''User not found''), st)
      | Some u \<Rightarrow>
          if a_role u \<noteq> ''user'' then (Inl (403, ''ROLE''), st)
          else if mb_telegramRewardClaimed (member_of (a_id u) st) then (Inr (already_claimed (a_coins u)), st)
          else (case linked_id (member_of (a_id u) st) of
                  None \<Rightarrow> (Inl (400, ''NOT_LINKED''), st)
                | Some tg \<Rightarrow>
                    (case chat (tc_channelChatId cfg) tg of
                       Inl e \<Rightarrow> (Inl e, st)
                     | Inr status \<Rightarrow>
                         if \<not> isActiveChannelMember status then (Inl (400, ''NOT_JOINED''), st)
                         else if \<not> up (telegramJoinRewardTransactionId (a_id u)) then (Inl (500, ''ERROR''), others st)
                         else telegram_claim_txn (a_id u) (tc_rewardCoins cfg) (others st)))))"

end
