(* ===== verification/TelegramFlow.thy ===== *)
theory TelegramFlow
  imports Telegram
begin

text \<open>
  The link of a Telegram account: encoding and decoding are inverse, a payload is accepted until it
  expires and not after, and one account is linked to one user as long as the store enforces it.
\<close>

section \<open>Hexadecimal\<close>

lemma lower_idem [simp]: "js_to_lower_char (js_to_lower_char c) = js_to_lower_char c"
  by (auto simp: js_to_lower_char_def of_char_of)

lemma hex_value_lower [simp]: "hex_value (js_to_lower_char c) = hex_value c"
  by (simp add: hex_value_def)

lemma hex_value_SomeD: "hex_value c = Some n \<Longrightarrow> n < 16 \<and> hex_digit n = js_to_lower_char c"
  by (auto simp: hex_value_def find_Some_iff)

lemma unat_byte: "n < 256 \<Longrightarrow> unat (word_of_nat n :: byte) = n"
  by (simp add: unat_of_nat take_bit_eq_mod)

lemma hex_roundtrip:
  assumes "list_all (\<lambda>c. hex_value c \<noteq> None) s" and "even (length s)"
  shows "hex_of (bytes_of_hex s) = js_to_lower s \<and> length (bytes_of_hex s) = length s div 2"
  using assms
proof (induction s rule: bytes_of_hex.induct)
  case (1 c d s)
  then obtain h l where hl: "hex_value c = Some h" "hex_value d = Some l" by auto
  have b: "h < 16" "l < 16" "hex_digit h = js_to_lower_char c" "hex_digit l = js_to_lower_char d"
    using hex_value_SomeD hl by blast+
  then have "unat (word_of_nat (16 * h + l) :: byte) = 16 * h + l" by (intro unat_byte) linarith
  then have "hex_of (word_of_nat (16 * h + l) # bs) = js_to_lower_char c # js_to_lower_char d # hex_of bs" for bs
    using b by (simp add: hex_of_def)
  then show ?case using 1 hl by (simp add: js_to_lower_def)
qed (simp_all add: hex_of_def js_to_lower_def)

section \<open>Base64\<close>

lemma b64_value_char: "n < 64 \<Longrightarrow> b64_value (b64_char n) = Some n"
proof -
  have "list_all (\<lambda>n. b64_value (b64_char n) = Some n \<and> b64_char n \<noteq> CHR ''='' \<and> b64_char n \<notin> set ''-_'') [0..<64]" by code_simp
  then show "n < 64 \<Longrightarrow> b64_value (b64_char n) = Some n" by (auto simp: list_all_iff)
qed

lemma b64_char_plain: "n < 64 \<Longrightarrow> b64_char n \<noteq> CHR ''='' \<and> b64_char n \<noteq> CHR ''-'' \<and> b64_char n \<noteq> CHR ''_'' \<and> \<not> js_is_space (b64_char n)"
proof -
  have "list_all (\<lambda>n. b64_char n \<noteq> CHR ''='' \<and> b64_char n \<noteq> CHR ''-'' \<and> b64_char n \<noteq> CHR ''_'' \<and> \<not> js_is_space (b64_char n)) [0..<64]" by code_simp
  then show "n < 64 \<Longrightarrow> b64_char n \<noteq> CHR ''='' \<and> b64_char n \<noteq> CHR ''-'' \<and> b64_char n \<noteq> CHR ''_'' \<and> \<not> js_is_space (b64_char n)"
    by (auto simp: list_all_iff)
qed

lemma byte_bound: "unat (b :: byte) < 256"
proof -
  have "unat b < 2 ^ LENGTH(8)" by (rule unsigned_less)
  then show ?thesis by simp
qed

lemma b64_values_bound: "\<forall>v \<in> set (b64_values bs). v < 64"
proof (induction bs rule: b64_values.induct)
  case (1 a b c bs)
  then show ?case using byte_bound [of a] byte_bound [of b] byte_bound [of c] by auto
next
  case (2 a b)
  then show ?case using byte_bound [of a] byte_bound [of b] by auto
next
  case (3 a)
  then show ?case using byte_bound [of a] by auto
qed simp

lemma byte_back: "word_of_nat (unat b) = (b :: byte)"
  by simp

text \<open>Taking two groups apart again.\<close>

lemma regroup:
  "n < 256 \<Longrightarrow> (m * 16 + n div 16) div 16 = (m :: nat)" "n < 256 \<Longrightarrow> (m * 16 + n div 16) mod 16 = n div 16"
  "n < 256 \<Longrightarrow> (m * 4 + n div 64) div 4 = (m :: nat)" "n < 256 \<Longrightarrow> (m * 4 + n div 64) mod 4 = n div 64"
proof -
  assume "n < 256"
  then have "n div 16 < 16" "n div 64 < 4" by simp_all
  then show "(m * 16 + n div 16) div 16 = m" "(m * 16 + n div 16) mod 16 = n div 16"
    "(m * 4 + n div 64) div 4 = m" "(m * 4 + n div 64) mod 4 = n div 64" by simp_all
qed

lemma b64_values_roundtrip: "b64_bytes (b64_values bs) = bs"
proof (induction bs rule: b64_values.induct)
  case (1 a b c bs)
  then show ?case
    by (simp only: b64_values.simps b64_bytes.simps append.simps regroup [OF byte_bound] div_mult_mod_eq byte_back)
next
  case (2 a b)
  have "(unat b mod 16 * 4) div 4 = unat b mod 16" by simp
  then show ?case by (simp only: b64_values.simps b64_bytes.simps regroup [OF byte_bound] div_mult_mod_eq byte_back)
next
  case (3 a)
  have "(unat a mod 4 * 16) div 16 = unat a mod 4" by simp
  then show ?case by (simp only: b64_values.simps b64_bytes.simps div_mult_mod_eq byte_back)
qed simp

lemma b64_values_length: "length (b64_values bs) = (4 * length bs + 2) div 3"
  by (induction bs rule: b64_values.induct) simp_all

abbreviation url_char :: "char \<Rightarrow> char" where
  "url_char c \<equiv> if c = CHR ''+'' then CHR ''-'' else if c = CHR ''/'' then CHR ''_'' else c"

abbreviation plain_char :: "char \<Rightarrow> char" where
  "plain_char c \<equiv> if c = CHR ''-'' then CHR ''+'' else if c = CHR ''_'' then CHR ''/'' else c"

lemma strip_padding:
  assumes "\<forall>c \<in> set cs. c \<noteq> p"
  shows "rev (dropWhile (\<lambda>c. c = p) (rev (cs @ replicate n p))) = cs"
proof -
  have a: "dropWhile (\<lambda>c. c = p) ds = ds" if "\<forall>c \<in> set ds. c \<noteq> p" for ds
    using that by (cases ds) simp_all
  have "dropWhile (\<lambda>c. c = p) (replicate n p @ ds) = dropWhile (\<lambda>c. c = p) ds" for ds by (induction n) simp_all
  moreover have "dropWhile (\<lambda>c. c = p) (rev cs) = rev cs" using assms by (intro a) simp
  ultimately show ?thesis by simp
qed

lemma base64UrlEncode_values: "base64UrlEncode bs = map (\<lambda>n. url_char (b64_char n)) (b64_values bs)"
proof -
  have "\<forall>c \<in> set (map (\<lambda>n. url_char (b64_char n)) (b64_values bs)). c \<noteq> CHR ''=''"
    using b64_values_bound b64_char_plain by fastforce
  from strip_padding [OF this, of "pad_length (length (b64_values bs))"] show ?thesis
    by (simp add: base64UrlEncode_def toString_base64_def comp_def)
qed

lemma base64_roundtrip: "base64UrlDecode (base64UrlEncode bs) = bs"
proof -
  have p: "plain_char (url_char (b64_char n)) = b64_char n" if "n \<in> set (b64_values bs)" for n
    using b64_char_plain b64_values_bound that by auto
  have m: "map (\<lambda>n. plain_char (url_char (b64_char n))) (b64_values bs) = map b64_char (b64_values bs)"
    using p by (intro map_cong) auto
  have "takeWhile (\<lambda>c. c \<noteq> CHR ''='') (map b64_char (b64_values bs) @ replicate k (CHR ''='')) = map b64_char (b64_values bs)" for k
    using b64_char_plain b64_values_bound [of bs] by (subst takeWhile_append2) (auto simp: takeWhile_eq_Nil_iff)
  moreover have "List.map_filter b64_value (map b64_char vs) = vs" if "\<forall>v \<in> set vs. v < 64" for vs
    using that by (induction vs) (simp_all add: map_filter_simps b64_value_char)
  moreover have "base64UrlDecode (base64UrlEncode bs) =
      bytes_of_base64 (map b64_char (b64_values bs) @ replicate (pad_length (length (b64_values bs))) (CHR ''=''))"
    by (simp only: base64UrlDecode_def Let_def base64UrlEncode_values map_map comp_def m length_map)
  ultimately show ?thesis using b64_values_bound [of bs] by (simp add: bytes_of_base64_def b64_values_roundtrip)
qed


section \<open>The payload\<close>

lemma bytes_of_word:
  "unat (word_of_nat (unat w div 2 ^ 24) :: byte) = unat w div 2 ^ 24" for w :: "32 word"
proof -
  have "unat w < 2 ^ LENGTH(32)" by (rule unsigned_less)
  then show ?thesis by (intro unat_byte) simp
qed

lemma digits_256: "(n :: nat) div 256 ^ 3 * 256 ^ 3 + n div 256 ^ 2 mod 256 * 256 ^ 2 + n div 256 mod 256 * 256 + n mod 256 = n"
proof -
  have d: "n div 256 ^ 2 = n div 256 div 256" "n div 256 ^ 3 = n div 256 div 256 div 256" by (simp_all add: div_mult2_eq [symmetric])
  have g: "c * 16777216 + t * 65536 + s * 256 + r = m" if "m = a * 256 + r" "a = b * 256 + s" "b = c * 256 + t" for m a b c r s t :: nat
    using that by simp
  have e: "k = k div 256 * 256 + k mod 256" for k :: nat by simp
  show ?thesis unfolding d using g [OF e [of n] e [of "n div 256"] e [of "n div 256 div 256"]] by simp
qed

lemma uint32_roundtrip: "readUInt32BE (writeUInt32BE w) = unat w"
proof -
  have m: "unat (word_of_nat n :: byte) = n mod 256" for n by (simp add: unat_of_nat take_bit_eq_mod)
  then have "readUInt32BE (writeUInt32BE w) =
      unat w div 2 ^ 24 * 2 ^ 24 + unat w div 2 ^ 16 mod 256 * 2 ^ 16 + unat w div 2 ^ 8 mod 256 * 2 ^ 8 + unat w mod 256"
    using bytes_of_word [of w] m [of "unat w"] by (simp add: readUInt32BE_def writeUInt32BE_def)
  then show ?thesis using digits_256 [of "unat w"] by simp
qed

lemma lower_lower: "js_to_lower (js_to_lower s) = js_to_lower s"
  by (simp add: js_to_lower_def)

lemma hex_id:
  assumes "isHexObjectId uid"
  shows "length (bytes_of_hex (js_to_lower uid)) = 12" and "hex_of (bytes_of_hex (js_to_lower uid)) = js_to_lower uid"
    and "isHexObjectId (js_to_lower uid)"
  using assms hex_roundtrip [of "js_to_lower uid"] lower_lower
  by (simp_all add: isHexObjectId_def js_to_lower_def list_all_iff)

lemma encode_no_space: "js_trim (base64UrlEncode bs) = base64UrlEncode bs"
proof -
  have p: "\<not> js_is_space (url_char (b64_char n))" if "n < 64" for n
    using b64_char_plain [OF that] by (auto simp: js_is_space_def)
  have d: "dropWhile js_is_space cs = cs" if "\<forall>c \<in> set cs. \<not> js_is_space c" for cs
    using that by (cases cs) simp_all
  have "\<forall>c \<in> set (base64UrlEncode bs). \<not> js_is_space c"
    using p b64_values_bound [of bs] unfolding base64UrlEncode_values set_map by blast
  then show ?thesis by (simp add: js_trim_def d)
qed

lemma encode_length: "length (base64UrlEncode bs) = (4 * length bs + 2) div 3"
  by (simp add: base64UrlEncode_values b64_values_length)

definition expiry :: "millis \<Rightarrow> nat" where
  "expiry now = unat (word_of_int ((now + TELEGRAM_LINK_TOKEN_TTL_MS) div 1000) :: 32 word)"

lemma payload_verified:
  assumes "\<And>k b. 10 \<le> length (hmac k b)" and "getTelegramLinkTokenSecret env \<noteq> []" and "isHexObjectId uid"
  obtains p where "createTelegramLinkPayload hmac env uid now = Inr p" "length p = 35"
    "\<And>t. verifyTelegramLinkPayload hmac env p t = (if int (expiry now) * 1000 < t then None else Some (js_to_lower uid))"
proof -
  let ?k = "getTelegramLinkTokenSecret env"
  define w :: "32 word" where "w = word_of_int ((now + TELEGRAM_LINK_TOKEN_TTL_MS) div 1000)"
  define body where "body = bytes_of_hex (js_to_lower uid) @ writeUInt32BE w"
  define sig where "sig = hmacBody hmac body ?k"
  define p where "p = base64UrlEncode (body @ sig)"
  have l: "length body = 16" "length sig = 10"
    using hex_id(1) [OF assms(3)] assms(1) [of ?k body] by (simp_all add: body_def sig_def hmacBody_def SIG_BYTES_def writeUInt32BE_def)
  then have len: "length p = 35" by (simp add: p_def encode_length)
  have c: "createTelegramLinkPayload hmac env uid now = Inr p"
    using assms(2,3) len by (simp add: createTelegramLinkPayload_def Let_def p_def sig_def body_def w_def)
  have d: "base64UrlDecode (js_trim p) = body @ sig" by (simp add: p_def encode_no_space base64_roundtrip)
  have "p \<noteq> []" using len by auto
  then have "verifyTelegramLinkPayload hmac env p t = (if int (expiry now) * 1000 < t then None else Some (js_to_lower uid))" for t
    using assms(2) l hex_id [OF assms(3)]
    by (simp add: verifyTelegramLinkPayload_def Let_def d OBJECT_ID_BYTES_def EXP_BYTES_def SIG_BYTES_def PAYLOAD_BYTES_def
        sig_def [symmetric] uint32_roundtrip expiry_def)
       (simp add: body_def w_def uint32_roundtrip)
  then show thesis using that c len by blast
qed

text \<open>
  C18. A link payload fits into the 64 characters Telegram allows, and verifying it gives back the user
  it was created for, in lower case, as long as it has not expired: for at least 29 minutes and 59
  seconds, and not after 30 minutes. The expiry is an unsigned 32-bit number of seconds, so this holds
  until the year 2106.
\<close>

theorem link_payload_roundtrip:
  assumes "\<And>k b. length (hmac k b) = 32" and "getTelegramLinkTokenSecret env \<noteq> []" and "isHexObjectId uid"
    and "0 \<le> now" and "now + TELEGRAM_LINK_TOKEN_TTL_MS < 2 ^ 32 * 1000"
  shows "\<exists>p. createTelegramLinkPayload hmac env uid now = Inr p \<and> length p \<le> 64 \<and>
    (\<forall>t. t \<le> now + TELEGRAM_LINK_TOKEN_TTL_MS - 1000 \<longrightarrow> verifyTelegramLinkPayload hmac env p t = Some (js_to_lower uid)) \<and>
    (\<forall>t. now + TELEGRAM_LINK_TOKEN_TTL_MS < t \<longrightarrow> verifyTelegramLinkPayload hmac env p t = None)"
proof -
  let ?e = "(now + TELEGRAM_LINK_TOKEN_TTL_MS) div 1000"
  have "0 \<le> ?e" "?e < 2 ^ 32" using assms(4,5) by (simp_all add: TELEGRAM_LINK_TOKEN_TTL_MS_def)
  then have e: "int (expiry now) = ?e" by (simp add: expiry_def unsigned_of_int take_bit_int_eq_self)
  have b: "?e * 1000 \<le> now + TELEGRAM_LINK_TOKEN_TTL_MS" "now + TELEGRAM_LINK_TOKEN_TTL_MS < ?e * 1000 + 1000" by simp_all
  have "10 \<le> length (hmac k b)" for k b by (simp add: assms(1))
  then obtain p where "createTelegramLinkPayload hmac env uid now = Inr p" "length p = 35"
    "\<And>t. verifyTelegramLinkPayload hmac env p t = (if ?e * 1000 < t then None else Some (js_to_lower uid))"
    using payload_verified [OF _ assms(2,3), of hmac now] e by auto
  then show ?thesis using b by (intro exI [of _ p]) auto
qed


section \<open>Linking\<close>

lemma find_id_map:
  "(\<And>m. mb_id (f m) = mb_id m) \<Longrightarrow>
    List.find (\<lambda>m. mb_id m = u) (map (\<lambda>m. if mb_id m = uid then f m else m) ms) =
      map_option (\<lambda>m. if mb_id m = uid then f m else m) (List.find (\<lambda>m. mb_id m = u) ms)"
  by (induction ms) auto

lemma find_append_if: "List.find P (xs @ [x]) = (case List.find P xs of None \<Rightarrow> if P x then Some x else None | Some y \<Rightarrow> Some y)"
  by (induction xs) auto

lemma member_of_set:
  assumes "\<And>m. mb_id (f m) = mb_id m"
  shows "member_of u (set_member uid f st) = (if u = uid then f (member_of u st) else member_of u st)"
proof (cases "List.find (\<lambda>m. mb_id m = uid) (members st)")
  case None
  have "mb_id (f (new_member uid)) = uid" by (simp add: assms new_member_def)
  then have "List.find (\<lambda>m. mb_id m = u) (members (set_member uid f st)) =
      (case List.find (\<lambda>m. mb_id m = u) (members st) of None \<Rightarrow> if u = uid then Some (f (new_member uid)) else None | Some y \<Rightarrow> Some y)"
    using None by (simp add: set_member_def find_append_if)
  then show ?thesis using None by (cases "u = uid") (simp_all add: member_of_def split: option.split)
next
  case (Some m)
  have "List.find (\<lambda>m. mb_id m = u) (members (set_member uid f st)) =
      map_option (\<lambda>m. if mb_id m = uid then f m else m) (List.find (\<lambda>m. mb_id m = u) (members st))"
    using Some by (simp add: set_member_def find_id_map [OF assms])
  then have e: "member_of u (set_member uid f st) = (case List.find (\<lambda>m. mb_id m = u) (members st) of None \<Rightarrow> new_member u
      | Some m \<Rightarrow> if mb_id m = uid then f m else m)"
    unfolding member_of_def by (cases "List.find (\<lambda>m. mb_id m = u) (members st)") simp_all
  show ?thesis
  proof (cases "List.find (\<lambda>m. mb_id m = u) (members st)")
    case None
    then have "u \<noteq> uid" using Some by auto
    then show ?thesis using None e by (simp add: member_of_def)
  next
    case s: (Some m')
    then have "mb_id m' = u" by (auto simp: find_Some_iff)
    moreover have "member_of u st = m'" using s by (simp add: member_of_def)
    ultimately show ?thesis using s e by (cases "u = uid") auto
  qed
qed

lemma wallet_set_member [simp]: "wallet (set_member uid f st) = wallet st"
  by (simp add: set_member_def)

lemma consumer_set_member [simp]: "consumer u (set_member uid f st) = consumer u st"
  by (simp add: consumer_def)

lemma owner_None: "owner_of_telegram tg st = None \<longleftrightarrow> (\<forall>m \<in> set (members st). mb_telegramUserId m \<noteq> Some tg)"
  by (auto simp: owner_of_telegram_def find_None_iff)

lemma owner_set_member:
  assumes "owner_of_telegram tg st = None"
  shows "owner_of_telegram tg (set_member uid (\<lambda>m. m\<lparr>mb_telegramUserId := Some tg\<rparr>) st) = Some uid"
proof -
  let ?f = "\<lambda>m. m\<lparr>mb_telegramUserId := Some tg\<rparr>"
  let ?Q = "\<lambda>m. mb_telegramUserId m = Some tg"
  have f: "map_option mb_id (List.find ?Q (map (\<lambda>m. if mb_id m = uid then ?f m else m) ms)) =
      (if List.find (\<lambda>m. mb_id m = uid) ms = None then None else Some uid)"
    if "\<forall>m \<in> set ms. mb_telegramUserId m \<noteq> Some tg" for ms
    using that by (induction ms) auto
  have n: "List.find ?Q (members st) = None" using assms by (simp add: owner_of_telegram_def)
  show ?thesis
  proof (cases "List.find (\<lambda>m. mb_id m = uid) (members st)")
    case None
    then show ?thesis using n by (simp add: owner_of_telegram_def set_member_def find_append_if new_member_def)
  next
    case (Some m)
    then show ?thesis using f [of "members st"] assms by (simp add: owner_None) (simp add: owner_of_telegram_def set_member_def)
  qed
qed

text \<open>A link that nobody disturbs.\<close>

lemma link_through:
  assumes "owner_of_telegram tg st = None" and "others st = s1" and "consumer uid s1 \<noteq> None"
    and "mb_telegramUserId (member_of uid s1) = None" and "others s1 = s2"
  shows "link_telegram idx others uid tg st = bind_telegram idx uid tg s2"
  using assms by (auto simp: link_telegram_def Let_def linked_id_def)

lemma link_undisturbed:
  assumes "owner_of_telegram tg st = None" and "consumer uid st \<noteq> None" and "mb_telegramUserId (member_of uid st) = None"
  shows "link_telegram idx (\<lambda>x. x) uid tg st = (Linked, set_member uid (\<lambda>m. m\<lparr>mb_telegramUserId := Some tg\<rparr>) st)"
  using assms by (simp add: link_telegram_def Let_def linked_id_def bind_telegram_def)

text \<open>
  Two users send the link of the same Telegram account at the same time, and the second request runs
  between the first one's look-up of the account and its update. With the unique index the first is
  refused; without it both users are linked to the one account, and each can claim the reward. The index
  the code declares is unique and sparse over a field whose default is null, which a sparse index
  does not leave out, so a collection with two unlinked users does not admit it.
\<close>

theorem double_link_needs_the_index:
  assumes "owner_of_telegram tg st = None" and "u1 \<noteq> u2" and "tg \<noteq> []"
    and "consumer u1 st \<noteq> None" and "mb_telegramUserId (member_of u1 st) = None"
    and "consumer u2 st \<noteq> None" and "mb_telegramUserId (member_of u2 st) = None"
    and "link_telegram idx (\<lambda>s. snd (link_telegram idx (\<lambda>x. x) u2 tg s)) u1 tg st = (r, st')"
  shows "mb_telegramUserId (member_of u2 st') = Some tg \<and>
    (if idx then r = Linked_elsewhere \<and> mb_telegramUserId (member_of u1 st') = None
     else r = Linked \<and> mb_telegramUserId (member_of u1 st') = Some tg)"
proof -
  let ?set = "\<lambda>u. set_member u (\<lambda>m. m\<lparr>mb_telegramUserId := Some tg\<rparr>)"
  let ?o = "\<lambda>s. snd (link_telegram idx (\<lambda>x. x) u2 tg s)"
  have m: "member_of u (?set v s) = (if u = v then (member_of u s)\<lparr>mb_telegramUserId := Some tg\<rparr> else member_of u s)" for u v s
    by (rule member_of_set) simp
  have o1: "?o st = ?set u2 st" using link_undisturbed [OF assms(1,6,7)] by simp
  have w: "owner_of_telegram tg (?set u2 st) = Some u2" by (rule owner_set_member [OF assms(1)])
  have l: "linked_id (member_of u2 (?set u2 st)) = Some tg" using assms(3) by (simp add: linked_id_def m split: list.split)
  have o2: "?o (?set u2 st) = ?set u2 st" using assms(6) w l by (simp add: link_telegram_def Let_def)
  have "link_telegram idx ?o u1 tg st = bind_telegram idx u1 tg (?set u2 st)"
    by (rule link_through [OF assms(1) o1 _ _ o2]) (use assms(2,4,5) in \<open>simp_all add: m\<close>)
  then show ?thesis using assms(2,4,5,8) w by (auto simp: bind_telegram_def m)
qed

section \<open>Concrete links\<close>

definition demo_member :: "string \<Rightarrow> account" where
  "demo_member uid =
     \<lparr> a_id = uid, a_firebaseUid = uid, a_role = ''user'', a_coins = 0, a_phone = None, a_email = None,
       a_staffCoinsBalance = None, a_bdDisabled = False, a_vipExpiresAt = None \<rparr>"

definition demo_members :: reward_state where
  "demo_members =
     \<lparr> wallet = \<lparr> accounts = [demo_member ''u1'', demo_member ''u2''], txns = [] \<rparr>,
       members = [new_member ''u1'', new_member ''u2''], progresses = [], checkins = [] \<rparr>"

theorem double_link_needs_the_index_witness:
  "\<exists>r st. link_telegram False (\<lambda>s. snd (link_telegram False (\<lambda>x. x) ''u2'' ''77'' s)) ''u1'' ''77'' demo_members = (r, st) \<and>
    r = Linked \<and> mb_telegramUserId (member_of ''u1'' st) = Some ''77'' \<and> mb_telegramUserId (member_of ''u2'' st) = Some ''77''"
proof -
  obtain r st where r: "link_telegram False (\<lambda>s. snd (link_telegram False (\<lambda>x. x) ''u2'' ''77'' s)) ''u1'' ''77'' demo_members = (r, st)"
    by fastforce
  have "owner_of_telegram ''77'' demo_members = None" "consumer ''u1'' demo_members \<noteq> None" "consumer ''u2'' demo_members \<noteq> None"
    "mb_telegramUserId (member_of ''u1'' demo_members) = None" "mb_telegramUserId (member_of ''u2'' demo_members) = None"
    by code_simp+
  then show ?thesis using r double_link_needs_the_index [of "''77''" demo_members "''u1''" "''u2''", OF _ _ _ _ _ _ _ r] by auto
qed

theorem link_payload_roundtrip_witness:
  "\<exists>p. createTelegramLinkPayload (\<lambda>k b. replicate 32 7) [''JWT_SECRET'' \<mapsto> ''s''] ''507F1f77bcf86cd799439011'' 1700000000000 = Inr p \<and>
    verifyTelegramLinkPayload (\<lambda>k b. replicate 32 7) [''JWT_SECRET'' \<mapsto> ''s''] p 1700001000000 = Some ''507f1f77bcf86cd799439011''"
proof -
  have s: "getTelegramLinkTokenSecret [''JWT_SECRET'' \<mapsto> ''s''] \<noteq> []" by code_simp
  have h: "isHexObjectId ''507F1f77bcf86cd799439011''" by code_simp
  have l: "js_to_lower ''507F1f77bcf86cd799439011'' = ''507f1f77bcf86cd799439011''" by code_simp
  show ?thesis
    using link_payload_roundtrip [of "\<lambda>k b. replicate 32 7", OF _ s h, of 1700000000000]
    by (auto simp: TELEGRAM_LINK_TOKEN_TTL_MS_def l)
qed

end
