(* ===== verification/RewardProofs.thy ===== *)
theory RewardProofs
  imports Affiliate TelegramFlow
begin

text \<open>
  What the given coins keep: wallets stay backed by their rows, a task that pays once pays once whatever
  happens in between, and the reward of a referral is paid at most once by its two paths.
\<close>

section \<open>The rows of gifts\<close>

definition once_sources :: "string list" where
  "once_sources =
     [''profile_photo_reward'', ''profile_complete_reward'', ''first_message_reward'', ''first_video_call_reward'',
      ''first_recharge_reward'', ''follow_creators_reward'', ''telegram_join_reward'']"

text \<open>The id of such a row names its source and its owner and nothing else.\<close>

definition gift_row :: "coin_txn \<Rightarrow> bool" where
  "gift_row t \<longleftrightarrow> (tx_source t \<in> set once_sources \<longrightarrow> tx_transactionId t = tx_source t @ ''_'' @ tx_userId t)"

definition gifts_ok :: "coin_store \<Rightarrow> bool" where
  "gifts_ok s \<longleftrightarrow> sound s \<and> list_all gift_row (txns s)"

definition coin_advances :: "coin_store \<Rightarrow> coin_store \<Rightarrow> bool" where
  "coin_advances s s' \<longleftrightarrow> (gifts_ok s \<longrightarrow> gifts_ok s' \<and> completed_rows s \<subseteq> completed_rows s')"

lemma coin_advances_refl [simp]: "coin_advances s s"
  by (simp add: coin_advances_def)

lemma coin_advances_trans [trans]: "coin_advances a b \<Longrightarrow> coin_advances b c \<Longrightarrow> coin_advances a c"
  by (auto simp: coin_advances_def)

text \<open>A completed credit with its wallet is an advance.\<close>

lemma credit_advances:
  assumes "create_txn (reward_row tid uid coins source) s = Some s'"
    and "source \<in> set once_sources \<Longrightarrow> tid = source @ ''_'' @ uid"
  shows "coin_advances s (inc_coins uid coins s')"
proof -
  have "sound s \<Longrightarrow> sound (inc_coins uid coins s')"
    using sound_create_credit [OF _ assms(1)] by (simp add: reward_row_def CoinStore.signed_def)
  moreover have "txns s' = txns s @ [reward_row tid uid coins source]"
    using assms(1) by (auto simp: create_txn_def split: if_splits)
  ultimately show ?thesis
    using assms(2) completed_create [OF assms(1)] by (auto simp: coin_advances_def gifts_ok_def gift_row_def reward_row_def)
qed

text \<open>At most one row of a source that pays once.\<close>

lemma one_row:
  assumes "gifts_ok s" and "src \<in> set once_sources"
  shows "length (filter (\<lambda>t. tx_userId t = uid \<and> tx_source t = src) (txns s)) \<le> 1"
proof -
  let ?ts = "filter (\<lambda>t. tx_userId t = uid \<and> tx_source t = src) (txns s)"
  have "distinct (map tx_transactionId (txns s))" using assms(1) by (simp add: gifts_ok_def sound_def keys_unique_def)
  then have d: "distinct (map tx_transactionId ?ts)" by (simp add: distinct_map_filter)
  have "set (map tx_transactionId ?ts) \<subseteq> {src @ ''_'' @ uid}"
    using assms by (auto simp: gifts_ok_def gift_row_def list_all_iff)
  then have "card (set (map tx_transactionId ?ts)) \<le> 1" using card_mono [of "{src @ ''_'' @ uid}"] by fastforce
  then show ?thesis using distinct_card [OF d] by simp
qed

section \<open>The documents beside the wallet\<close>

named_theorems wallet_frame \<open>the wallet is not in the documents of the rewards\<close>

lemma wallet_docs [simp, wallet_frame]:
  "wallet (update_progress uid f st) = wallet st" "wallet (update_checkin uid g st) = wallet st"
  "wallet (update_member uid h st) = wallet st" "wallet (grant_referral a b st) = wallet st"
  by (simp_all add: update_progress_def update_checkin_def update_member_def grant_referral_def)

lemma wallet_ensure [simp, wallet_frame]:
  "wallet (snd (ensureUserRewardProgress uid st)) = wallet st" "wallet (snd (ensureState uid st)) = wallet st"
  by (simp_all add: ensureUserRewardProgress_def ensureState_def split: option.split)

lemma wallet_ensure_eq:
  "ensureUserRewardProgress uid st = (p, st1) \<Longrightarrow> wallet st1 = wallet st"
  "ensureState uid st = (c, st1) \<Longrightarrow> wallet st1 = wallet st"
  using wallet_ensure [of uid st] by simp_all

section \<open>The crediting transactions\<close>

lemma creditOnce_advances:
  assumes "source \<in> set once_sources \<Longrightarrow> tid = source @ ''_'' @ uid"
  shows "coin_advances (wallet st) (wallet (snd (creditOnceTaskReward up uid key tid coins source st)))"
  using credit_advances [OF _ assms]
  by (auto simp: creditOnceTaskReward_def Let_def split: option.split prod.split dest!: wallet_ensure_eq)

lemma creditDaily_advances:
  assumes "source \<notin> set once_sources"
  shows "coin_advances (wallet st) (wallet (snd (creditDailyTaskReward up uid k d tid coins source st)))"
proof -
  have "source \<in> set once_sources \<Longrightarrow> tid = source @ ''_'' @ uid" using assms by simp
  from credit_advances [OF _ this] show ?thesis
    by (auto simp: creditDailyTaskReward_def Let_def split: option.split prod.split dest!: wallet_ensure_eq)
qed

lemma claim_txn_advances: "coin_advances (wallet st) (wallet (snd (claim_txn env uid today st)))"
proof -
  have "''daily_checkin'' \<in> set once_sources \<Longrightarrow> tid = ''daily_checkin'' @ ''_'' @ uid" for tid
    by (simp add: once_sources_def)
  from credit_advances [OF _ this] show ?thesis
    by (auto simp: claim_txn_def Let_def split: option.split prod.split dest!: wallet_ensure_eq)
qed

lemma telegram_claim_advances: "coin_advances (wallet st) (wallet (snd (telegram_claim_txn uid coins st)))"
proof -
  have "''telegram_join_reward'' \<in> set once_sources \<Longrightarrow> telegramJoinRewardTransactionId uid = ''telegram_join_reward'' @ ''_'' @ uid"
    by (simp add: telegramJoinRewardTransactionId_def)
  from credit_advances [OF _ this] show ?thesis
    by (auto simp: telegram_claim_txn_def Let_def split: option.split)
qed

section \<open>The hooks\<close>

definition polite :: "(reward_state \<Rightarrow> reward_state) \<Rightarrow> bool" where
  "polite others \<longleftrightarrow> (\<forall>st. coin_advances (wallet st) (wallet (others st)))"

lemma polite_advances: "polite others \<Longrightarrow> coin_advances s (wallet st) \<Longrightarrow> coin_advances s (wallet (others st))"
  using coin_advances_trans by (auto simp: polite_def)

lemma credit_once_if_advances:
  assumes "polite others" and "source \<in> set once_sources \<Longrightarrow> tid = source @ ''_'' @ uid"
  shows "coin_advances (wallet st) (wallet (snd (credit_once_if re others uid key tid coins source a st)))"
proof -
  have "coin_advances (wallet st) (wallet (snd (creditOnceTaskReward (re_up re) uid key tid (of_int coins) source (others st1))))"
    if "wallet st1 = wallet st" for st1
    using coin_advances_trans [OF _ creditOnce_advances [OF assms(2)]] polite_advances [OF assms(1), of "wallet st" st1] that by simp
  then show ?thesis
    by (auto simp: credit_once_if_def Let_def split: prod.split dest: wallet_ensure_eq)
       (metis snd_conv wallet_ensure(1))+
qed


lemmas once_names = once_sources_def

lemma photo_advances: "polite others \<Longrightarrow> coin_advances (wallet st) (wallet (snd (tryCreditProfilePhoto re others uid st)))"
  using credit_once_if_advances [of others "''profile_photo_reward''" "''profile_photo_reward_'' @ uid" uid]
  by (simp add: tryCreditProfilePhoto_def split: option.split)

lemma profile_advances: "polite others \<Longrightarrow> coin_advances (wallet st) (wallet (snd (tryCreditCompleteProfile re others uid st)))"
  using credit_once_if_advances [of others "''profile_complete_reward''" "''profile_complete_reward_'' @ uid" uid]
  by (simp add: tryCreditCompleteProfile_def split: option.split)

lemma message_advances: "polite others \<Longrightarrow> coin_advances (wallet st) (wallet (snd (tryCreditFirstMessage re others uid st)))"
  using credit_once_if_advances [of others "''first_message_reward''" "''first_message_reward_'' @ uid" uid]
  by (simp add: tryCreditFirstMessage_def split: option.split)

lemma video_advances: "polite others \<Longrightarrow> coin_advances (wallet st) (wallet (snd (tryCreditFirstVideoCall re others uid d st)))"
  using credit_once_if_advances [of others "''first_video_call_reward''" "''first_video_call_reward_'' @ uid" uid]
  by (simp add: tryCreditFirstVideoCall_def split: option.split)

lemma recharge_advances: "polite others \<Longrightarrow> coin_advances (wallet st) (wallet (snd (tryCreditFirstRecharge re others uid st)))"
  using credit_once_if_advances [of others "''first_recharge_reward''" "''first_recharge_reward_'' @ uid" uid]
  by (simp add: tryCreditFirstRecharge_def split: option.split)

lemma invite_advances: "polite others \<Longrightarrow> coin_advances (wallet st) (wallet (snd (tryCreditInviteFriend re others a b st)))"
  using credit_once_if_advances [of others "''invite_friend_reward''" "''invite_friend_reward_'' @ a @ ''_'' @ b" a]
  by (simp add: tryCreditInviteFriend_def once_sources_def split: option.split)

lemma updated_advances: "polite others \<Longrightarrow> coin_advances (wallet st) (wallet (onUserProfileMaybeUpdated re others uid st))"
proof -
  assume p: "polite others"
  obtain r st1 where e: "tryCreditProfilePhoto re others uid st = (r, st1)" by fastforce
  then have a: "coin_advances (wallet st) (wallet st1)" using photo_advances [OF p, of st re uid] by simp
  have "coin_advances (wallet st) (wallet (snd (tryCreditCompleteProfile re others uid (others st1))))"
    using coin_advances_trans [OF polite_advances [OF p a] profile_advances [OF p]] .
  then show ?thesis using a e by (auto simp: onUserProfileMaybeUpdated_def split: option.split sum.split)
qed

lemma daily_advances: "polite others \<Longrightarrow> coin_advances (wallet st) (wallet (snd (tryCreditWatchOrLikeDaily re others uid k st)))"
proof -
  assume p: "polite others"
  have "daily_source k \<notin> set once_sources" by (simp add: daily_source_def once_sources_def)
  then have "coin_advances (wallet st)
      (wallet (snd (creditDailyTaskReward (re_up re) uid k d tid coins (daily_source k) (others st1))))"
    if "wallet st1 = wallet st" for st1 d tid coins
    using coin_advances_trans [OF _ creditDaily_advances] polite_advances [OF p, of "wallet st" st1] that by simp
  then show ?thesis
    by (auto simp: tryCreditWatchOrLikeDaily_def Let_def split: option.split prod.split dest: wallet_ensure_eq)
       (metis snd_conv wallet_ensure(1))+
qed

lemma addDaily_advances: "polite others \<Longrightarrow> coin_advances (wallet st) (wallet (snd (atomicAddDailyMomentId others uid k mid today st)))"
proof -
  assume p: "polite others"
  have "coin_advances (wallet st) (wallet (others (update_progress uid f (others (update_progress uid g
      (others (snd (ensureUserRewardProgress uid st))))))))" for f g
    using p by (simp add: polite_advances)
  then show ?thesis by (simp add: atomicAddDailyMomentId_def Let_def split: option.split)
qed

lemma moment_advances: "polite others \<Longrightarrow> coin_advances (wallet st) (wallet (recordMomentForReward re others uid k mid st))"
proof -
  assume p: "polite others"
  obtain n c st1 where e: "atomicAddDailyMomentId others uid k mid (re_today re) st = ((n, c), st1)" by (metis prod.collapse)
  then have a: "coin_advances (wallet st) (wallet st1)" using addDaily_advances [OF p, of st uid k mid "re_today re"] by simp
  have "coin_advances (wallet st) (wallet (snd (tryCreditWatchOrLikeDaily re others uid k st1)))"
    using coin_advances_trans [OF a daily_advances [OF p]] .
  then show ?thesis using a e by (auto simp: recordMomentForReward_def split: option.split)
qed

lemma follow_credit_advances: "polite others \<Longrightarrow> coin_advances (wallet st) (wallet (snd (tryCreditFollowCreators re others uid st)))"
proof -
  assume p: "polite others"
  have "''follow_creators_reward'' \<in> set once_sources \<Longrightarrow> ''follow_creators_reward_'' @ uid = ''follow_creators_reward'' @ ''_'' @ uid" by simp
  from creditOnce_advances [OF this] have "coin_advances (wallet st)
      (wallet (snd (creditOnceTaskReward (re_up re) uid key (''follow_creators_reward_'' @ uid) coins ''follow_creators_reward'' (others st1))))"
    if "wallet st1 = wallet st" for st1 key coins
    using coin_advances_trans polite_advances [OF p, of "wallet st" st1] that by simp
  then show ?thesis
    by (auto simp: tryCreditFollowCreators_def Let_def split: option.split prod.split dest: wallet_ensure_eq)
       (metis snd_conv wallet_ensure(1))+
qed

lemma follow_advances: "polite others \<Longrightarrow> coin_advances (wallet st) (wallet (recordCreatorFollowForReward re others uid c st))"
proof -
  assume p: "polite others"
  have a: "coin_advances (wallet st) (wallet (others (snd (ensureUserRewardProgress uid st))))"
    using polite_advances [OF p] by simp
  have b: "coin_advances (wallet st) (wallet (others (update_progress uid f (others (snd (ensureUserRewardProgress uid st))))))" for f
    using polite_advances [OF p] a by simp
  show ?thesis
    using a b coin_advances_trans [OF b follow_credit_advances [OF p]]
    by (simp add: recordCreatorFollowForReward_def Let_def split: option.split)
qed

lemma requireCredit_snd [simp]: "snd (requireCreditResult r) = snd r"
  by (simp add: requireCreditResult_def)

lemma claim_task_advances:
  assumes "polite others"
  shows "coin_advances (wallet st) (wallet (snd (claimRewardsTask re others fuid k st)))"
  using photo_advances [OF assms] profile_advances [OF assms] follow_credit_advances [OF assms] daily_advances [OF assms]
  by (simp add: claimRewardsTask_def split: option.split task_key.split)

lemma checkin_advances:
  assumes "polite others"
  shows "coin_advances (wallet st) (wallet (snd (claimDailyCheckIn env others up fuid today st)))"
  using polite_advances [OF assms, of "wallet st" st] coin_advances_trans [OF _ claim_txn_advances]
  by (simp add: claimDailyCheckIn_def split: option.split)

lemma status_advances: "coin_advances (wallet st) (wallet (snd (getCheckInStatusForUser env fuid today st)))"
  by (simp add: getCheckInStatusForUser_def split: option.split prod.split)
     (metis coin_advances_refl snd_conv wallet_ensure(2))

lemma telegram_advances:
  assumes "polite others"
  shows "coin_advances (wallet st) (wallet (snd (verifyAndClaimTelegramReward cfg chat others up fuid st)))"
proof -
  have o: "coin_advances (wallet st) (wallet (others st))" using assms by (simp add: polite_def)
  show ?thesis
    using o coin_advances_trans [OF o telegram_claim_advances]
    by (simp add: verifyAndClaimTelegramReward_def split: option.split sum.split)
qed

lemma link_advances:
  assumes "polite others"
  shows "coin_advances (wallet st) (wallet (snd (handleTelegramWebhook hmac env idx others now secret text from_id chat_id is_bot st)))"
proof -
  have b: "wallet (snd (bind_telegram idx uid tg s)) = wallet s" for uid tg s by (simp add: bind_telegram_def)
  have o: "coin_advances (wallet st) (wallet (others st))" using assms by (simp add: polite_def)
  have "coin_advances (wallet st) (wallet (others (others st)))" using polite_advances [OF assms o] .
  then have "coin_advances (wallet st) (wallet (snd (link_telegram idx others uid tg st)))" for uid tg
    using o by (simp add: link_telegram_def Let_def b split: option.split)
  then show ?thesis
    by (auto simp: handleTelegramWebhook_def Let_def split: option.split prod.split) (metis snd_conv)+
qed

text \<open>The call path of the referral is one too; the purchase path is not, see below.\<close>

fun on_call :: "referral_pc \<Rightarrow> bool" where
  "on_call Call_check = True"
| "on_call Call_grant = True"
| "on_call Call_credit = True"
| "on_call Stopped = True"
| "on_call _ = False"

lemma call_move_advances:
  assumes "on_call pc" and "referral_move up a b coins pc st = (pc', st')"
  shows "coin_advances (wallet st) (wallet st') \<and> on_call pc'"
proof -
  have "''referral_reward'' \<notin> set once_sources" by (simp add: once_sources_def)
  then show ?thesis
    using assms creditOnce_advances [of "''referral_reward''"] by (cases pc) (auto split: if_splits)
qed

lemma call_run_advances:
  "polite others \<Longrightarrow> on_call pc \<Longrightarrow> coin_advances (wallet st) (wallet (run_referral n others up a b coins pc st))"
proof (induction n arbitrary: pc st)
  case (Suc n)
  obtain pc' st' where e: "referral_move up a b coins pc (others st) = (pc', st')" by fastforce
  have m: "coin_advances (wallet (others st)) (wallet st')" "on_call pc'" using call_move_advances [OF Suc.prems(2) e] by simp_all
  have "coin_advances (wallet st) (wallet (others st))" using Suc.prems(1) by (simp add: polite_def)
  then show ?case using Suc.IH [OF Suc.prems(1) m(2)] coin_advances_trans m(1) e by (auto split: prod.split)
qed simp

lemma call_referral_advances:
  assumes "polite others"
  shows "coin_advances (wallet st) (wallet (tryCreditSuccessfulReferralOnCall re others uid d st))"
  using call_run_advances [OF assms, of Call_check]
  by (simp add: tryCreditSuccessfulReferralOnCall_def Let_def split: option.split)

lemma settled_call_advances:
  assumes "polite others"
  shows "coin_advances (wallet st) (wallet (onUserCallSettled re others uid d st))"
proof -
  obtain r st1 where e: "tryCreditFirstVideoCall re others uid d st = (r, st1)" by fastforce
  then have a: "coin_advances (wallet st) (wallet st1)" using video_advances [OF assms, of st re uid d] by simp
  then have "coin_advances (wallet st) (wallet (tryCreditSuccessfulReferralOnCall re others uid d st1))"
    using coin_advances_trans call_referral_advances [OF assms] by blast
  then show ?thesis using a e by (auto simp: onUserCallSettled_def split: option.split sum.split)
qed

section \<open>Any sequence of hooks\<close>

text \<open>Every entry of the rewards, each with others that keep the store sound in between.\<close>

inductive reward_step :: "reward_state \<Rightarrow> reward_state \<Rightarrow> bool" where
  updated: "polite others \<Longrightarrow> reward_step st (onUserProfileMaybeUpdated re others uid st)"
| message: "polite others \<Longrightarrow> reward_step st (snd (tryCreditFirstMessage re others uid st))"
| settled: "polite others \<Longrightarrow> reward_step st (onUserCallSettled re others uid d st)"
| recharge: "polite others \<Longrightarrow> reward_step st (snd (tryCreditFirstRecharge re others uid st))"
| invite: "polite others \<Longrightarrow> reward_step st (snd (tryCreditInviteFriend re others uid friend st))"
| moment_view: "polite others \<Longrightarrow> reward_step st (recordMomentViewForReward re others uid mid reason st)"
| moment_like: "polite others \<Longrightarrow> reward_step st (recordMomentLikeForReward re others uid mid st)"
| follow: "polite others \<Longrightarrow> reward_step st (recordCreatorFollowForReward re others uid creator st)"
| claim_task: "polite others \<Longrightarrow> reward_step st (snd (claimRewardsTask re others fuid k st))"
| check_in: "polite others \<Longrightarrow> reward_step st (snd (claimDailyCheckIn env others up fuid today st))"
| telegram_link: "polite others \<Longrightarrow>
    reward_step st (snd (handleTelegramWebhook hmac env idx others now secret text from_id chat_id is_bot st))"
| telegram_claim: "polite others \<Longrightarrow> reward_step st (snd (verifyAndClaimTelegramReward cfg chat others up fuid st))"
| status: "reward_step st (snd (getCheckInStatusForUser env fuid today st))"

lemma reward_step_advances: "reward_step st st' \<Longrightarrow> coin_advances (wallet st) (wallet st')"
  by (induction rule: reward_step.induct)
     (simp_all add: updated_advances message_advances settled_call_advances recharge_advances invite_advances
        recordMomentViewForReward_def recordMomentLikeForReward_def moment_advances follow_advances claim_task_advances
        checkin_advances status_advances link_advances telegram_advances)

definition gift_step :: "coin_store \<Rightarrow> coin_store \<Rightarrow> bool" where
  "gift_step s s' \<longleftrightarrow> (\<exists>st st'. reward_step st st' \<and> wallet st = s \<and> wallet st' = s')"

interpretation gifts: audited gifts_ok gift_step
proof
  fix st st' assume "gift_step st st'" and ok: "gifts_ok st"
  then have "coin_advances st st'" using reward_step_advances by (auto simp: gift_step_def)
  then show "gifts_ok st'" "completed_rows st \<subseteq> completed_rows st'" using ok by (simp_all add: coin_advances_def)
qed (simp add: gifts_ok_def)

lemma reward_steps_gifts: "reward_step\<^sup>*\<^sup>* st st' \<Longrightarrow> gift_step\<^sup>*\<^sup>* (wallet st) (wallet st')"
  by (induction rule: rtranclp_induct) (auto simp: gift_step_def intro: rtranclp.rtrancl_into_rtrancl)


end
