(* ===== verification/RewardFlow.thy ===== *)
theory RewardFlow
  imports RewardProofs
begin

text \<open>
  Single rewards: the reward of a referral under any interleaving of its two paths, what a failure
  leaves of it on either path, the cycle of the daily check-in, and the sweep of the affiliate program.
\<close>

section \<open>A referral is paid at most once\<close>

lemma find_inc [simp]:
  "findById u (inc_coins uid n s) = map_option (\<lambda>a. if a_id a = uid then a\<lparr>a_coins := a_coins a + n\<rparr> else a) (findById u s)"
proof -
  have "List.find (\<lambda>a. a_id a = u) (map (\<lambda>a. if a_id a = uid then a\<lparr>a_coins := a_coins a + n\<rparr> else a) xs) =
    map_option (\<lambda>a. if a_id a = uid then a\<lparr>a_coins := a_coins a + n\<rparr> else a) (List.find (\<lambda>a. a_id a = u) xs)" for xs
    by (induction xs) auto
  then show ?thesis by (simp add: findById_def inc_coins_def update_account_def)
qed

lemma referrer_coins_inc: "coins_of u (inc_coins uid n s) = (if u = uid \<and> findById uid s \<noteq> None then coins_of u s + n else coins_of u s)"
  using findById_SomeD(1) [of u s] by (cases "findById u s") (auto simp: coins_of_def)

lemma create_accounts: "create_txn t s = Some s' \<Longrightarrow> accounts s' = accounts s"
  by (auto simp: create_txn_def split: if_splits)

lemma create_find: "create_txn t s = Some s' \<Longrightarrow> \<forall>u. findById u s' = findById u s \<and> coins_of u s' = coins_of u s"
  using create_accounts by (simp add: findById_def coins_of_def)

lemma member_of_frame: "members st' = members st \<Longrightarrow> member_of u st' = member_of u st"
  by (simp add: member_of_def)

lemma members_docs [simp]:
  "members (update_progress uid f st) = members st" "members (snd (ensureUserRewardProgress uid st)) = members st"
  by (simp_all add: update_progress_def ensureUserRewardProgress_def split: option.split)

lemma creditOnce_effect:
  assumes "creditOnceTaskReward up uid key tid n source st = (r, st')" and "0 \<le> n"
  shows "coins_of u (wallet st') \<le> coins_of u (wallet st) + (if u = uid then n else 0)"
    and "coins_of u (wallet st) \<le> coins_of u (wallet st')"
    and "members st' = members st" and "findById u (wallet st') = None \<longleftrightarrow> findById u (wallet st) = None"
proof -
  obtain p st1 where e: "ensureUserRewardProgress uid st = (p, st1)" by fastforce
  then have s: "wallet st1 = wallet st" "members st1 = members st"
    using wallet_ensure_eq(1) [OF e] members_docs(2) [of uid st] by simp_all
  have "coins_of u (wallet st') \<le> coins_of u (wallet st) + (if u = uid then n else 0) \<and>
    coins_of u (wallet st) \<le> coins_of u (wallet st') \<and> members st' = members st \<and>
    (findById u (wallet st') = None \<longleftrightarrow> findById u (wallet st) = None)"
    using assms e s
    by (auto simp: creditOnceTaskReward_def Let_def referrer_coins_inc split: option.splits if_splits dest!: create_find)
  then show "coins_of u (wallet st') \<le> coins_of u (wallet st) + (if u = uid then n else 0)"
    "coins_of u (wallet st) \<le> coins_of u (wallet st')"
    "members st' = members st" "findById u (wallet st') = None \<longleftrightarrow> findById u (wallet st) = None" by simp_all
qed

lemma granted [simp]: "\<not> can_grant a b (grant_referral a b st)"
proof -
  have "(b, False) \<notin> set (mb_referrals (case List.find (\<lambda>m. mb_id m = a)
      (map (\<lambda>m. if mb_id m = a then m\<lparr>mb_referrals := map (\<lambda>r. if r = (b, False) then (b, True) else r) (mb_referrals m)\<rparr> else m) ms)
      of None \<Rightarrow> new_member a | Some m \<Rightarrow> m))" for ms
    by (induction ms) (auto simp: new_member_def)
  then show ?thesis by (simp add: can_grant_def grant_referral_def update_member_def member_of_def)
qed

text \<open>
  Any number of processes of either path for one pair, moving in any order and stopping anywhere, and
  other requests that do anything except taking back the mark of a granted referral. The third part of
  the state is what the processes added to the wallet of the referrer.
\<close>

inductive referral_system ::
  "string \<Rightarrow> string \<Rightarrow> int \<Rightarrow> reward_state \<times> referral_pc list \<times> rat \<Rightarrow> reward_state \<times> referral_pc list \<times> rat \<Rightarrow> bool"
  for a b n where
  move: "i < length ps \<Longrightarrow> referral_move up a b n (ps ! i) st = (pc, st') \<Longrightarrow>
    referral_system a b n (st, ps, g) (st', ps[i := pc], g + (coins_of a (wallet st') - coins_of a (wallet st)))"
| crash: "referral_system a b n (st, ps, g) (st, ps[i := Stopped], g)"
| start: "pc \<in> {Call_check, Buy_check} \<Longrightarrow> referral_system a b n (st, ps, g) (st, ps @ [pc], g)"
| others: "can_grant a b st' \<longrightarrow> can_grant a b st \<Longrightarrow> referral_system a b n (st, ps, g) (st', ps, g)"

text \<open>What was given, what a process still may give, and what may still be granted.\<close>

fun referral_due :: "string \<Rightarrow> string \<Rightarrow> int \<Rightarrow> reward_state \<times> referral_pc list \<times> rat \<Rightarrow> rat" where
  "referral_due a b n (st, ps, g) =
     g + of_int n * of_nat (count_list ps Call_credit) + (if can_grant a b st then of_int n else 0)"

lemma count_update:
  assumes "i < length ps"
  shows "count_list (ps[i := x]) y + (if ps ! i = y then 1 else 0) = count_list ps y + (if x = y then 1 else 0)"
  using assms
proof (induction ps arbitrary: i)
  case (Cons p ps)
  then show ?case
  proof (cases i)
    case (Suc j)
    then show ?thesis using Cons.IH [of j] Cons.prems by auto
  qed auto
qed simp

lemma count_rat:
  assumes "i < length ps"
  shows "rat_of_nat (count_list (ps[i := x]) y) = of_nat (count_list ps y) + (if x = y then 1 else 0) - (if ps ! i = y then 1 else 0)"
  using arg_cong [OF count_update [OF assms, of x y], of rat_of_nat] by (auto split: if_splits)

lemma move_due:
  assumes "referral_move up a b n pc st = (pc', st')" and "0 \<le> n"
  shows "coins_of a (wallet st') - coins_of a (wallet st) + of_int n * (if pc' = Call_credit then 1 else 0) +
      (if can_grant a b st' then of_int n else 0)
    \<le> of_int n * (if pc = Call_credit then 1 else 0) + (if can_grant a b st then of_int n else (0 :: rat))"
proof (cases pc)
  case Call_credit
  then have e: "pc' = Stopped" "st' = snd (creditOnceTaskReward up a (''successful_referral_'' @ b)
      (referralRewardTransactionId a b) (of_int n) ''referral_reward'' st)" using assms(1) by simp_all
  obtain r s where c: "creditOnceTaskReward up a (''successful_referral_'' @ b) (referralRewardTransactionId a b)
      (of_int n) ''referral_reward'' st = (r, s)" by fastforce
  have "can_grant a b s = can_grant a b st"
    using creditOnce_effect(3,4) [OF c] assms(2) member_of_frame [of s st a] by (simp add: can_grant_def)
  then show ?thesis using creditOnce_effect(1) [OF c, of a] assms(2) Call_credit e c by simp
next
  case Buy_grant
  have g: "can_grant a b (s\<lparr>wallet := w\<rparr>) \<longrightarrow> can_grant a b s" if "findById a w = None \<longleftrightarrow> findById a (wallet s) = None" for s w
    using that by (simp add: can_grant_def member_of_def)
  have "\<not> can_grant a b ((grant_referral a b st)\<lparr>wallet := inc_coins a (of_int n) (wallet st)\<rparr>)"
    using g [of "inc_coins a (of_int n) (wallet st)" "grant_referral a b st"] by simp
  then show ?thesis using assms Buy_grant by (auto simp: referrer_coins_inc split: if_splits)
next
  case Buy_row
  have g: "can_grant a b (st\<lparr>wallet := w\<rparr>) \<longleftrightarrow> can_grant a b st" if "findById a w = findById a (wallet st)" for w
    using that by (simp add: can_grant_def member_of_def)
  show ?thesis using assms Buy_row by (auto simp: g create_find split: if_splits option.splits)
next
  case Buy_progress
  have "can_grant a b st' \<longleftrightarrow> can_grant a b st" using assms(1) Buy_progress member_of_frame [of st' st a] by (auto simp: can_grant_def)
  then show ?thesis using assms Buy_progress by auto
qed (use assms in \<open>auto split: if_splits\<close>)


lemma referral_step_due:
  assumes "referral_system a b n x y" and "0 \<le> n"
  shows "referral_due a b n y \<le> referral_due a b n x"
  using assms(1)
proof cases
  case (move i ps up st pc st' g)
  have "of_int n * rat_of_nat (count_list (ps[i := pc]) Call_credit) + of_int n * (if ps ! i = Call_credit then 1 else 0) =
      of_int n * of_nat (count_list ps Call_credit) + of_int n * (if pc = Call_credit then 1 else 0)"
    by (simp add: count_rat [OF move(3)] algebra_simps)
  moreover have "referral_due a b n y = g + (coins_of a (wallet st') - coins_of a (wallet st)) +
      of_int n * rat_of_nat (count_list (ps[i := pc]) Call_credit) + (if can_grant a b st' then of_int n else 0)"
    using move(2) by simp
  moreover have "referral_due a b n x = g + of_int n * of_nat (count_list ps Call_credit) + (if can_grant a b st then of_int n else 0)"
    using move(1) by simp
  ultimately show ?thesis using move_due [OF move(4) assms(2)] by linarith
next
  case (crash st ps g i)
  show ?thesis
  proof (cases "i < length ps")
    case True
    have "count_list (ps[i := Stopped]) Call_credit \<le> count_list ps Call_credit"
      using count_update [OF True, of Stopped Call_credit] by (simp split: if_splits)
    then show ?thesis using crash assms(2) by (simp add: mult_left_mono)
  qed (use crash in \<open>simp add: list_update_beyond\<close>)
next
  case (start pc st ps g)
  then show ?thesis by auto
next
  case (others st' st ps g)
  then show ?thesis using assms(2) by simp
qed

lemma referral_steps_due:
  assumes "(referral_system a b n)\<^sup>*\<^sup>* x y" and "0 \<le> n"
  shows "referral_due a b n y \<le> referral_due a b n x"
  using assms(1) by (induction rule: rtranclp_induct) (auto dest: referral_step_due [OF _ assms(2)])

lemma referral_given:
  assumes "(referral_system a b n)\<^sup>*\<^sup>* (st, [], 0) (st', ps, g)" and "0 \<le> n"
  shows "g \<le> (if can_grant a b st then of_int n else 0)"
proof -
  have "0 \<le> rat_of_int n * of_nat (count_list ps Call_credit)" using assms(2) by simp
  moreover have "0 \<le> (if can_grant a b st' then rat_of_int n else 0)" using assms(2) by simp
  moreover have "g + of_int n * of_nat (count_list ps Call_credit) + (if can_grant a b st' then of_int n else 0) \<le>
      (if can_grant a b st then of_int n else 0)"
    using referral_steps_due [OF assms] by simp
  ultimately show ?thesis by linarith
qed

text \<open>
  C10. However many calls and purchases of a referred user are processed at the same time, in whatever
  order their single writes interleave and wherever they stop, together they add at most one reward to
  the wallet of the referrer, and nothing when the referral was granted before.
\<close>

theorem referral_paid_at_most_once:
  assumes "(referral_system a b n)\<^sup>*\<^sup>* (st, [], 0) (st', ps, g)" and "0 \<le> n"
  shows "g \<le> (if can_grant a b st then of_int n else 0)"
  using referral_given [OF assms] .

section \<open>What a failure leaves\<close>

lemma credit_fails: "\<not> up tid \<Longrightarrow> creditOnceTaskReward up uid key tid coins source st = (Inl (500, ''ERROR''), st)"
  by (simp add: creditOnceTaskReward_def)

text \<open>
  The call path marks the referral as granted before its transaction: when that transaction fails, no
  coins are paid, and no later call or purchase, on either path, in any interleaving, pays them.
\<close>

theorem failed_credit_loses_referral:
  assumes "task_on (re_cfg re) successful_referral = Some s" and "1 \<le> ts_coins s"
    and "nvl (case rc_task (re_cfg re) first_video_call of None \<Rightarrow> None | Some c \<Rightarrow> ts_minSeconds c) 150 \<le> d"
    and "referrer_of b st = Some a" and "consumer a st \<noteq> None" and "can_grant a b st"
    and "\<not> row_exists (referralRewardTransactionId a b) st" and "\<not> re_up re (referralRewardTransactionId a b)"
  shows "wallet (tryCreditSuccessfulReferralOnCall re (\<lambda>x. x) b d st) = wallet st \<and>
    ((referral_system a b (ts_coins s))\<^sup>*\<^sup>* (tryCreditSuccessfulReferralOnCall re (\<lambda>x. x) b d st, [], 0) (st', ps, g) \<longrightarrow> g \<le> 0)"
proof -
  have "run_referral 4 (\<lambda>x. x) (re_up re) a b n Call_check st = grant_referral a b st" for n
    using assms(6-8) by (simp add: numeral_eq_Suc credit_fails)
  then have e: "tryCreditSuccessfulReferralOnCall re (\<lambda>x. x) b d st = grant_referral a b st"
    using assms by (auto simp: tryCreditSuccessfulReferralOnCall_def)
  show ?thesis using referral_given [of a b "ts_coins s" "grant_referral a b st" st' ps g] assms(2) by (simp add: e)
qed

text \<open>
  The purchase path adds the coins before it writes their row, in two writes: when the second one
  fails, the wallet holds coins without a row and its audit reports the difference.
\<close>

theorem unwritten_referral_row_unbacks_wallet:
  assumes "task_on (re_cfg re) successful_referral = Some s" and "2 \<le> ts_coins s"
    and "of_int (nvl (ts_minPurchaseInr s) 100) \<le> price"
    and "referrer_of b st = Some a" and "consumer a st \<noteq> None" and "can_grant a b st" and "sound (wallet st)"
    and "\<not> row_exists (referralRewardTransactionId a b) st" and "\<not> re_up re (referralRewardTransactionId a b)"
  shows "bc_discrepancy (fst (verifyUserBalance a (wallet (processReferralRewardOnPurchase re (\<lambda>x. x) b price st)))) = of_int (ts_coins s) \<and>
    snd (verifyUserBalance a (wallet (processReferralRewardOnPurchase re (\<lambda>x. x) b price st))) = Some (a, of_int (ts_coins s), wallet_over)"
proof -
  obtain u where u: "findById a (wallet st) = Some u" using assms(5) by (auto simp: consumer_def split: option.splits)
  have id: "a_id u = a" "a_coins u = expectedBalance a (wallet st)"
    using findById_SomeD [OF u] assms(7) by (auto simp: sound_def backed_def)
  have "run_referral 4 (\<lambda>x. x) (re_up re) a b (ts_coins s) Buy_check st =
      (grant_referral a b st)\<lparr>wallet := inc_coins a (of_int (ts_coins s)) (wallet st)\<rparr>"
    using assms(6,8,9) by (simp add: numeral_eq_Suc)
  then have "wallet (processReferralRewardOnPurchase re (\<lambda>x. x) b price st) = inc_coins a (of_int (ts_coins s)) (wallet st)"
    using assms(1,3-5) by (auto simp: processReferralRewardOnPurchase_def)
  then show ?thesis using u id assms(2) by (simp add: verifyUserBalance_def Let_def classifyMismatch_def)
qed


section \<open>The cycle of the check-in\<close>

lemma rewards_length: "length (getDailyCheckInRewards env) = 7"
  by (simp add: getDailyCheckInRewards_def parseRewards_def DEFAULT_REWARDS_def Let_def split: option.split)

lemma next_day_bounds: "1 \<le> k \<Longrightarrow> k \<le> 7 \<Longrightarrow> 1 \<le> next_day k \<and> next_day k \<le> 7 \<and> next_day k - 1 = k mod 7"
  by (auto simp: next_day_def CHECKIN_CYCLE_DAYS_def)

definition checkin_of :: "string \<Rightarrow> reward_state \<Rightarrow> checkin_state" where
  "checkin_of uid st = (case find_checkin uid st of None \<Rightarrow> new_checkin uid | Some c \<Rightarrow> c)"

definition may_check_in :: "string \<Rightarrow> string \<Rightarrow> reward_state \<Rightarrow> bool" where
  "may_check_in fuid uid st \<longleftrightarrow>
     keys_unique (wallet st) \<and>
     (\<exists>u. List.find (\<lambda>a. a_firebaseUid a = fuid) (accounts (wallet st)) = Some u \<and> a_id u = uid \<and> a_role u = ''user'')"

lemma find_by_inc:
  assumes "\<And>a n. P (a\<lparr>a_coins := n\<rparr>) = P a"
  shows "List.find P (accounts (inc_coins uid n s)) =
    map_option (\<lambda>a. if a_id a = uid then a\<lparr>a_coins := a_coins a + n\<rparr> else a) (List.find P (accounts s))"
proof -
  have "List.find P (map (\<lambda>a. if a_id a = uid then a\<lparr>a_coins := a_coins a + n\<rparr> else a) xs) =
    map_option (\<lambda>a. if a_id a = uid then a\<lparr>a_coins := a_coins a + n\<rparr> else a) (List.find P xs)" for xs
    by (induction xs) (auto simp: assms)
  then show ?thesis by (simp add: inc_coins_def accounts_update)
qed

lemma may_check_in_account:
  assumes "may_check_in fuid uid st"
  obtains u where "List.find (\<lambda>a. a_firebaseUid a = fuid) (accounts (wallet st)) = Some u" "a_id u = uid" "a_role u = ''user''"
    "findById uid (wallet st) = Some u"
proof -
  obtain u where u: "List.find (\<lambda>a. a_firebaseUid a = fuid) (accounts (wallet st)) = Some u" "a_id u = uid" "a_role u = ''user''"
    using assms by (auto simp: may_check_in_def)
  then have "u \<in> set (accounts (wallet st))" by (auto simp: find_Some_iff)
  then have "findById uid (wallet st) = Some u"
    using assms u(2) find_unique [of a_id] by (auto simp: may_check_in_def keys_unique_def findById_def)
  then show ?thesis using that u by blast
qed

lemma find_append_new: "List.find P xs = None \<Longrightarrow> P x \<Longrightarrow> List.find P (xs @ [x]) = Some x"
  by (induction xs) (auto split: if_splits)

lemma ensureState_of: "ensureState uid st = (c, st1) \<Longrightarrow> c = checkin_of uid st \<and> find_checkin uid st1 = Some c"
  by (auto simp: ensureState_def checkin_of_def find_checkin_def find_append_new new_checkin_def split: option.splits)

lemma checkin_updated:
  assumes "find_checkin uid st = Some c" and "\<And>c. ci_userId (f c) = ci_userId c"
  shows "checkin_of uid (update_checkin uid f st) = f c"
proof -
  have "List.find (\<lambda>c. ci_userId c = uid) (map (\<lambda>c. if ci_userId c = uid then f c else c) cs) =
    map_option f (List.find (\<lambda>c. ci_userId c = uid) cs)" for cs
    by (induction cs) (auto simp: assms(2))
  then show ?thesis using assms(1) by (simp add: checkin_of_def find_checkin_def update_checkin_def)
qed

text \<open>One claim on a day that was not claimed.\<close>

lemma fresh_claim:
  assumes "isDailyCheckInEnabled env" and "may_check_in fuid uid st"
    and "1 \<le> ci_nextDayIndex (checkin_of uid st)" and "ci_nextDayIndex (checkin_of uid st) \<le> 7"
    and "ci_lastClaimDateKey (checkin_of uid st) \<noteq> Some today"
    and "dailyCheckInTransactionId uid today \<notin> tx_transactionId ` set (txns (wallet st))"
  obtains p st' where "claimDailyCheckIn env (\<lambda>x. x) (\<lambda>_. True) fuid today st = (Inr p, st')"
    "cp_coinsCredited p = of_int (getDailyCheckInRewards env ! nat (ci_nextDayIndex (checkin_of uid st) - 1))"
    "coins_of uid (wallet st') = coins_of uid (wallet st) + cp_coinsCredited p"
    "may_check_in fuid uid st'"
    "ci_nextDayIndex (checkin_of uid st') = next_day (ci_nextDayIndex (checkin_of uid st))"
    "ci_lastClaimDateKey (checkin_of uid st') = Some today"
    "tx_transactionId ` set (txns (wallet st')) = insert (dailyCheckInTransactionId uid today) (tx_transactionId ` set (txns (wallet st)))"
proof -
  obtain u where u: "List.find (\<lambda>a. a_firebaseUid a = fuid) (accounts (wallet st)) = Some u" "a_id u = uid" "a_role u = ''user''"
    "findById uid (wallet st) = Some u"
    by (rule may_check_in_account [OF assms(2)])
  obtain c st1 where e: "ensureState uid st = (c, st1)" by fastforce
  have c: "c = checkin_of uid st" "find_checkin uid st1 = Some c" using ensureState_of [OF e] by simp_all
  have w: "wallet st1 = wallet st" using wallet_ensure_eq(2) [OF e] .
  define n where "n = getDailyCheckInRewards env ! nat (ci_nextDayIndex c - 1)"
  define row where "row = reward_row (dailyCheckInTransactionId uid today) uid (of_int n) ''daily_checkin''"
  define s where "s = (wallet st)\<lparr>txns := txns (wallet st) @ [row]\<rparr>"
  have cr: "create_txn row (wallet st1) = Some s" using assms(6) by (simp add: create_txn_def row_def reward_row_def s_def w)
  define f where "f = (\<lambda>c' :: checkin_state. c'\<lparr>ci_lastClaimDateKey := Some today, ci_lastClaimedDayIndex := Some (ci_nextDayIndex c),
      ci_nextDayIndex := next_day (ci_nextDayIndex c)\<rparr>)"
  define st' where "st' = update_checkin uid f (st1\<lparr>wallet := inc_coins uid (of_int n) s\<rparr>)"
  have d: "getDailyCheckInRewardForDay env (ci_nextDayIndex c) = Some n"
    using assms(3,4) c(1) by (simp add: getDailyCheckInRewardForDay_def n_def)
  have r: "claimDailyCheckIn env (\<lambda>x. x) (\<lambda>_. True) fuid today st =
      (Inr (toStatusPayload env (f c) (coins_of uid (wallet st')) today False (of_int n)), st')"
    using assms(1,5) u e c cr d by (simp add: claimDailyCheckIn_def claim_txn_def Let_def row_def f_def st'_def)
  have sw: "wallet st' = inc_coins uid (of_int n) s" by (simp add: st'_def)
  have fs: "findById uid s = Some u" "accounts s = accounts (wallet st)" using u(4) by (simp_all add: s_def findById_def)
  have "checkin_of uid st' = f c"
    unfolding st'_def by (rule checkin_updated) (use c in \<open>simp_all add: find_checkin_def f_def\<close>)
  moreover have "coins_of uid (wallet st') = coins_of uid (wallet st) + of_int n"
    using fs u(4) by (simp add: sw referrer_coins_inc) (simp add: coins_of_def)
  moreover have "may_check_in fuid uid st'"
  proof -
    have "keys_unique s"
      using assms(2,6) by (auto simp: may_check_in_def keys_unique_def s_def row_def reward_row_def)
    then show ?thesis using u by (auto simp: may_check_in_def sw keys_inc_coins find_by_inc fs(2))
  qed
  moreover have "tx_transactionId ` set (txns (wallet st')) =
      insert (dailyCheckInTransactionId uid today) (tx_transactionId ` set (txns (wallet st)))"
    by (simp add: sw s_def row_def reward_row_def)
  ultimately show ?thesis using that [OF r] by (simp add: toStatusPayload_def f_def n_def c(1))
qed


text \<open>Claims on the given days, one after the other.\<close>

fun claim_days :: "env \<Rightarrow> string \<Rightarrow> string list \<Rightarrow> reward_state \<Rightarrow> (reward_error + checkin_payload) list \<times> reward_state" where
  "claim_days env fuid [] st = ([], st)"
| "claim_days env fuid (d # ds) st =
     (let (r, st1) = claimDailyCheckIn env (\<lambda>x. x) (\<lambda>_. True) fuid d st;
          (rs, st2) = claim_days env fuid ds st1
      in (r # rs, st2))"

definition credited_by :: "reward_error + checkin_payload \<Rightarrow> rat" where
  "credited_by r = (case r of Inl _ \<Rightarrow> 0 | Inr p \<Rightarrow> cp_coinsCredited p)"

definition cycle_rewards :: "env \<Rightarrow> int \<Rightarrow> nat \<Rightarrow> rat list" where
  "cycle_rewards env k n = map (\<lambda>i. of_int (getDailyCheckInRewards env ! nat ((k - 1 + int i) mod 7))) [0..<n]"

lemma cycle_Suc:
  assumes "1 \<le> k" and "k \<le> 7"
  shows "cycle_rewards env k (Suc n) = of_int (getDailyCheckInRewards env ! nat (k - 1)) # cycle_rewards env (next_day k) n"
proof -
  have "(next_day k - 1 + int i) mod 7 = (k - 1 + int (Suc i)) mod 7" for i
    using next_day_bounds [OF assms] by (simp add: mod_add_right_eq add.commute)
  moreover have "(k - 1) mod 7 = k - 1" using assms by simp
  ultimately show ?thesis
    by (simp only: cycle_rewards_def upt_conv_Cons [OF zero_less_Suc] map_Suc_upt [symmetric] list.map map_map comp_def) simp
qed

text \<open>A day that has its row is not paid again.\<close>

lemma claimed_day_pays_nothing:
  assumes "dailyCheckInTransactionId uid d \<in> tx_transactionId ` set (txns (wallet st))" and "may_check_in fuid uid st"
    and "claimDailyCheckIn env (\<lambda>x. x) up fuid d st = (r, st')"
  shows "credited_by r = 0 \<and> wallet st' = wallet st"
proof -
  obtain u where u: "List.find (\<lambda>a. a_firebaseUid a = fuid) (accounts (wallet st)) = Some u" "a_id u = uid" "a_role u = ''user''"
    "findById uid (wallet st) = Some u"
    by (rule may_check_in_account [OF assms(2)])
  obtain c st1 where e: "ensureState uid st = (c, st1)" by fastforce
  have "create_txn (reward_row (dailyCheckInTransactionId uid d) uid n ''daily_checkin'') (wallet st1) = None" for n
    using assms(1) wallet_ensure_eq(2) [OF e] by (simp add: create_txn_def reward_row_def)
  then show ?thesis
    using assms(3) u e wallet_ensure_eq(2) [OF e]
    by (auto simp: claimDailyCheckIn_def claim_txn_def credited_by_def toStatusPayload_def split: if_splits option.splits)
qed

text \<open>
  A user who claims the check-in on any sequence of different days is paid the seven configured
  rewards in their order, over and over, from the day of the cycle that is next; the wallet grows by
  exactly these coins.
\<close>

theorem check_ins_pay_the_cycle:
  assumes "isDailyCheckInEnabled env" and "may_check_in fuid uid st"
    and "1 \<le> ci_nextDayIndex (checkin_of uid st)" and "ci_nextDayIndex (checkin_of uid st) \<le> 7"
    and "distinct days" and "ci_lastClaimDateKey (checkin_of uid st) \<notin> Some ` set days"
    and "\<forall>d \<in> set days. dailyCheckInTransactionId uid d \<notin> tx_transactionId ` set (txns (wallet st))"
    and "claim_days env fuid days st = (rs, st')"
  shows "map credited_by rs = cycle_rewards env (ci_nextDayIndex (checkin_of uid st)) (length days) \<and>
    coins_of uid (wallet st') = coins_of uid (wallet st) + sum_list (map credited_by rs)"
  using assms(2-8)
proof (induction days arbitrary: st rs)
  case (Cons d ds)
  have l: "ci_lastClaimDateKey (checkin_of uid st) \<noteq> Some d" and i: "dailyCheckInTransactionId uid d \<notin> tx_transactionId ` set (txns (wallet st))"
    using Cons.prems(5,6) by auto
  obtain p st1 where p: "claimDailyCheckIn env (\<lambda>x. x) (\<lambda>_. True) fuid d st = (Inr p, st1)"
    "cp_coinsCredited p = of_int (getDailyCheckInRewards env ! nat (ci_nextDayIndex (checkin_of uid st) - 1))"
    "coins_of uid (wallet st1) = coins_of uid (wallet st) + cp_coinsCredited p"
    "may_check_in fuid uid st1"
    "ci_nextDayIndex (checkin_of uid st1) = next_day (ci_nextDayIndex (checkin_of uid st))"
    "ci_lastClaimDateKey (checkin_of uid st1) = Some d"
    "tx_transactionId ` set (txns (wallet st1)) = insert (dailyCheckInTransactionId uid d) (tx_transactionId ` set (txns (wallet st)))"
    by (rule fresh_claim [OF assms(1) Cons.prems(1-3) l i])
  obtain qs where q: "claim_days env fuid ds st1 = (qs, st')" "rs = Inr p # qs"
    using Cons.prems(7) p(1) by (auto split: prod.splits)
  have n: "1 \<le> ci_nextDayIndex (checkin_of uid st1)" "ci_nextDayIndex (checkin_of uid st1) \<le> 7"
    using next_day_bounds [OF Cons.prems(2,3)] p(5) by simp_all
  have "ci_lastClaimDateKey (checkin_of uid st1) \<notin> Some ` set ds" using Cons.prems(4) p(6) by auto
  moreover have "\<forall>e \<in> set ds. dailyCheckInTransactionId uid e \<notin> tx_transactionId ` set (txns (wallet st1))"
    using Cons.prems(4,6) by (auto simp: p(7) dailyCheckInTransactionId_def)
  ultimately have "map credited_by qs = cycle_rewards env (ci_nextDayIndex (checkin_of uid st1)) (length ds) \<and>
      coins_of uid (wallet st') = coins_of uid (wallet st1) + sum_list (map credited_by qs)"
    using Cons.IH [OF p(4) n] Cons.prems(4) q(1) by simp
  moreover have "credited_by (Inr p) = cp_coinsCredited p" by (simp add: credited_by_def)
  ultimately show ?case using p(2,3,5) q(2) cycle_Suc [OF Cons.prems(2,3)] by simp
qed (simp add: cycle_rewards_def)

end
