(* ===== verification/AffiliateFlow.thy ===== *)
theory AffiliateFlow
  imports Affiliate RewardFlow
begin

text \<open>
  The affiliate program: every credit comes with its row, the sweep pays whatever is due when it reaches
  the edge, and the limit of the sweep keeps it from ever reaching some.
\<close>

section \<open>Wallets\<close>

lemma stage_txn_cases:
  assumes "stage_txn s n c u st = (r, st')"
  obtains (idle) "st' = st"
  | (claimed) e where "edge_of u st = Some e" "st' = update_edge u (pay_stage s n) st" "r = Inr False"
  | (paid) e cs where "edge_of u st = Some e"
      "create_txn (reward_row (creatorReferralStageTransactionId s c u) c (of_int n) (stage_source s)) (af_store st) = Some cs"
      "findById c cs \<noteq> None" "r = Inr True"
      "st' = (update_edge u (pay_stage s n) st)\<lparr>af_store := inc_coins c (of_int n) cs\<rparr>"
proof (cases "edge_of u st")
  case None
  then have "st' = st" using assms by (simp add: stage_txn_def)
  then show thesis by (rule idle)
next
  case (Some e)
  show thesis
  proof (cases "ed_creatorRewarded e \<or> stage_paid s e \<noteq> None")
    case True
    then have "st' = st" using assms Some by (auto simp: stage_txn_def)
    then show thesis by (rule idle)
  next
    case False
    let ?row = "reward_row (creatorReferralStageTransactionId s c u) c (of_int n) (stage_source s)"
    show thesis
    proof (cases "create_txn ?row (af_store st)")
      case None
      then have "r = Inr False" "st' = update_edge u (pay_stage s n) st"
        using assms Some False by (simp_all add: stage_txn_def Let_def update_edge_def)
      then show thesis using claimed Some by blast
    next
      case s: (Some cs)
      show thesis
      proof (cases "findById c cs")
        case None
        then have "st' = st" using assms Some False s by (simp add: stage_txn_def Let_def update_edge_def)
        then show thesis by (rule idle)
      next
        case (Some a)
        then have "r = Inr True" "st' = (update_edge u (pay_stage s n) st)\<lparr>af_store := inc_coins c (of_int n) cs\<rparr>"
          using assms \<open>edge_of u st = Some e\<close> False s by (simp_all add: stage_txn_def Let_def update_edge_def)
        then show thesis using paid \<open>edge_of u st = Some e\<close> s Some by blast
      qed
    qed
  qed
qed

lemma stage_txn_advances: "stage_txn s n c u st = (r, st') \<Longrightarrow> coin_advances (af_store st) (af_store st')"
proof -
  assume a: "stage_txn s n c u st = (r, st')"
  have o: "stage_source s \<notin> set once_sources" by (cases s) (simp_all add: stage_source_def once_sources_def)
  show ?thesis using a
  proof (cases rule: stage_txn_cases)
    case (paid e cs)
    then show ?thesis using credit_advances [OF paid(2)] o by simp
  qed (simp_all add: update_edge_def)
qed

definition fair :: "(affiliate_state \<Rightarrow> affiliate_state) \<Rightarrow> bool" where
  "fair others \<longleftrightarrow> (\<forall>st. coin_advances (af_store st) (af_store (others st)))"

lemma store_update_edge [simp]: "af_store (update_edge u f st) = af_store st"
  by (simp add: update_edge_def)

lemma creditStage_advances:
  assumes "fair others"
  shows "coin_advances (af_store st) (af_store (snd (creditStage cfg others up s c u st)))"
proof -
  have o: "coin_advances (af_store st) (af_store (others st))" using assms by (simp add: fair_def)
  have "coin_advances (af_store (others st)) (af_store (snd (stage_txn s (ac_coins cfg s) c u (others st))))"
    using stage_txn_advances by (metis prod.collapse)
  from coin_advances_trans [OF o this] show ?thesis using o by (simp add: creditStage_def split: option.split)
qed

lemma stage_calls_advance:
  assumes "fair others"
  shows "coin_advances (af_store st) (af_store (snd (tryCreditAttach cfg others up c u st)))"
    and "coin_advances (af_store st) (af_store (snd (tryCreditTelegram cfg others up c u st)))"
    and "coin_advances (af_store st) (af_store (snd (tryCreditPurchase cfg others up u st)))"
  using creditStage_advances [OF assms]
  by (simp_all add: tryCreditAttach_def tryCreditTelegram_def tryCreditPurchase_def split: option.split)

lemma and_then_advances:
  "coin_advances s (af_store (snd r)) \<Longrightarrow> (\<And>st. coin_advances (af_store st) (af_store (snd (f st)))) \<Longrightarrow>
    coin_advances s (af_store (snd (and_then r f)))"
  using coin_advances_trans by (auto simp: and_then_def split: sum.split)

lemma reconcile_edge_advances:
  assumes "fair others"
  shows "coin_advances (af_store st) (af_store (snd (reconcile_edge cfg others up e st)))"
  unfolding reconcile_edge_def Let_def snd_conv
  by (intro and_then_advances) (simp_all add: stage_calls_advance [OF assms])

lemma reconcile_edges_advances:
  assumes "fair others"
  shows "coin_advances (af_store st) (af_store (snd (reconcile_edges cfg others up es st)))"
proof (induction es arbitrary: st)
  case (Cons e es)
  obtain r st1 where e: "reconcile_edge cfg others up e st = (r, st1)" by fastforce
  then have a: "coin_advances (af_store st) (af_store st1)" using reconcile_edge_advances [OF assms, of st cfg up e] by simp
  then have "coin_advances (af_store st) (af_store (snd (reconcile_edges cfg others up es st1)))"
    using coin_advances_trans Cons.IH by blast
  then show ?case using a e by (auto split: prod.splits sum.splits)
qed simp

text \<open>Every entry of the program.\<close>

inductive affiliate_step :: "affiliate_state \<Rightarrow> affiliate_state \<Rightarrow> bool" where
  attach: "fair others \<Longrightarrow> affiliate_step st (snd (createCreatorReferralEdgeAfterAttach cfg others up c u b st))"
| joined: "fair others \<Longrightarrow> affiliate_step st (snd (markCreatorReferralTelegramJoined cfg others up u st))"
| bought: "fair others \<Longrightarrow> affiliate_step st (snd (tryCreditPurchase cfg others up u st))"
| sweep: "fair others \<Longrightarrow> affiliate_step st (snd (reconcileUnpaidCreatorReferrals cfg others up limit st))"

lemma affiliate_step_advances: "affiliate_step st st' \<Longrightarrow> coin_advances (af_store st) (af_store st')"
proof (induction rule: affiliate_step.induct)
  case (attach others st cfg up c u b)
  have "coin_advances (af_store st) (af_store (snd (tryCreditAttach cfg others up c u (st\<lparr>af_edges := es\<rparr>))))"
    "coin_advances (af_store st) (af_store (snd (tryCreditAttach cfg others up c u st)))" for es
    using stage_calls_advance(1) [OF attach, of "st\<lparr>af_edges := es\<rparr>"] stage_calls_advance(1) [OF attach, of st] by simp_all
  then show ?case
    unfolding createCreatorReferralEdgeAfterAttach_def Let_def
    by (intro and_then_advances) (simp_all add: stage_calls_advance [OF attach])
next
  case (joined others st cfg up u)
  then show ?case
    using stage_calls_advance(2) [OF joined, of "update_edge u f st" for f]
    by (auto simp: markCreatorReferralTelegramJoined_def split: option.split)
next
  case (sweep others st cfg up limit)
  then show ?case by (simp add: reconcileUnpaidCreatorReferrals_def reconcile_edges_advances)
qed (simp add: stage_calls_advance)

definition affiliate_store_step :: "coin_store \<Rightarrow> coin_store \<Rightarrow> bool" where
  "affiliate_store_step s s' \<longleftrightarrow> (\<exists>st st'. affiliate_step st st' \<and> af_store st = s \<and> af_store st' = s')"

interpretation affiliate: audited gifts_ok affiliate_store_step
proof
  fix st st' assume "affiliate_store_step st st'" and ok: "gifts_ok st"
  then have "coin_advances st st'" using affiliate_step_advances by (auto simp: affiliate_store_step_def)
  then show "gifts_ok st'" "completed_rows st \<subseteq> completed_rows st'" using ok by (simp_all add: coin_advances_def)
qed (simp add: gifts_ok_def)

section \<open>The sweep pays what is due\<close>

text \<open>Stages are only paid, edges and accounts stay, and no purchase appears.\<close>

definition edge_le :: "referral_edge \<Rightarrow> referral_edge \<Rightarrow> bool" where
  "edge_le e e' \<longleftrightarrow>
     ed_creatorUserId e' = ed_creatorUserId e \<and> ed_referredUserId e' = ed_referredUserId e \<and>
     ed_telegramJoined e' = ed_telegramJoined e \<and> ed_creatorRewarded e' = ed_creatorRewarded e \<and>
     (\<forall>s. stage_paid s e \<noteq> None \<longrightarrow> stage_paid s e' \<noteq> None)"

definition paying :: "affiliate_state \<Rightarrow> affiliate_state \<Rightarrow> bool" where
  "paying st st' \<longleftrightarrow>
     list_all2 edge_le (af_edges st) (af_edges st') \<and>
     (\<forall>c. findById c (af_store st') = None \<longleftrightarrow> findById c (af_store st) = None) \<and>
     (\<forall>u. referredUserHasQualifyingPurchase u st' = referredUserHasQualifyingPurchase u st)"

lemma edge_le_refl [simp]: "edge_le e e"
  by (simp add: edge_le_def)

lemma edge_le_trans: "edge_le a b \<Longrightarrow> edge_le b c \<Longrightarrow> edge_le a c"
  by (auto simp: edge_le_def)

lemma paying_refl [simp]: "paying st st"
  by (simp add: paying_def list.rel_refl)

lemma paying_trans [trans]: "paying a b \<Longrightarrow> paying b c \<Longrightarrow> paying a c"
  unfolding paying_def by (auto intro: list_all2_trans [of edge_le edge_le edge_le] edge_le_trans)

lemma pay_stage_le: "edge_le e (pay_stage s n e)"
proof -
  have "stage_paid s' e \<noteq> None \<Longrightarrow> stage_paid s' (pay_stage s n e) \<noteq> None" for s'
    by (cases s; cases s') simp_all
  then show ?thesis by (cases s) (simp_all add: edge_le_def)
qed

lemma paid_stage: "stage_paid s (pay_stage s n e) = Some n"
  by (cases s) simp_all

lemma update_edge_paying:
  assumes "\<And>e. edge_le e (f e)"
  shows "paying st (update_edge u f st)"
proof -
  have "list_all2 edge_le es (map (\<lambda>e. if ed_referredUserId e = u then f e else e) es)" for es
    by (induction es) (simp_all add: assms)
  then show ?thesis by (simp add: paying_def update_edge_def referredUserHasQualifyingPurchase_def)
qed

lemma edge_of_update:
  assumes "edge_of u st = Some e" and "\<And>e. ed_referredUserId (f e) = ed_referredUserId e"
  shows "edge_of u (update_edge u f st) = Some (f e)"
proof -
  have "List.find (\<lambda>e. ed_referredUserId e = u) (map (\<lambda>e. if ed_referredUserId e = u then f e else e) es) =
    map_option f (List.find (\<lambda>e. ed_referredUserId e = u) es)" for es
    by (induction es) (auto simp: assms(2))
  then show ?thesis using assms(1) by (simp add: edge_of_def find_edge_def update_edge_def)
qed

lemma paying_edge:
  assumes "paying st st'" and "edge_of u st = Some e"
  obtains e' where "edge_of u st' = Some e'" "edge_le e e'"
proof -
  have "list_all2 edge_le es es' \<Longrightarrow> List.find (\<lambda>e. ed_referredUserId e = u) es = Some e \<Longrightarrow>
      \<exists>e'. List.find (\<lambda>e. ed_referredUserId e = u) es' = Some e' \<and> edge_le e e'" for es es'
    by (induction rule: list_all2_induct) (auto simp: edge_le_def split: if_splits)
  then show ?thesis using that assms by (auto simp: paying_def edge_of_def find_edge_def)
qed


lemma find_append_not: "\<not> P x \<Longrightarrow> List.find P (xs @ [x]) = List.find P xs"
  by (induction xs) auto

lemma credit_row_paying:
  assumes "create_txn (reward_row tid c n (stage_source s)) (af_store st) = Some cs"
  shows "paying st (st\<lparr>af_store := inc_coins c n cs\<rparr>)"
proof -
  have "txns cs = txns (af_store st) @ [reward_row tid c n (stage_source s)]"
    using assms by (auto simp: create_txn_def split: if_splits)
  moreover have "stage_source s \<notin> {''payment_gateway'', ''vip_membership'', ''moments_premium_membership''}"
    by (cases s) (simp_all add: stage_source_def)
  ultimately have "referredUserHasQualifyingPurchase u (st\<lparr>af_store := inc_coins c n cs\<rparr>) = referredUserHasQualifyingPurchase u st" for u
    by (simp add: referredUserHasQualifyingPurchase_def find_txn_def find_append_not reward_row_def)
  then show ?thesis using create_find [OF assms] by (simp add: paying_def list.rel_refl)
qed

definition works :: "affiliate_config \<Rightarrow> bool" where
  "works cfg \<longleftrightarrow> ac_enabled cfg \<and> (\<forall>s. 1 \<le> ac_coins cfg s)"

definition stage_settled :: "referral_stage \<Rightarrow> string \<Rightarrow> affiliate_state \<Rightarrow> bool" where
  "stage_settled s u st \<longleftrightarrow> (\<exists>e. edge_of u st = Some e \<and> (ed_creatorRewarded e \<or> stage_paid s e \<noteq> None))"

lemma stage_settled_paying: "stage_settled s u st \<Longrightarrow> paying st st' \<Longrightarrow> stage_settled s u st'"
  by (metis (no_types, opaque_lifting) edge_le_def paying_edge stage_settled_def)

text \<open>A stage that is tried is settled, without an error when the creator exists.\<close>

lemma creditStage_settles:
  assumes "works cfg" and "edge_of u st = Some e" and "findById c (af_store st) \<noteq> None"
  obtains b st' where "creditStage cfg (\<lambda>x. x) (\<lambda>_. True) s c u st = (Inr b, st')" "paying st st'" "stage_settled s u st'"
proof -
  have w: "ac_enabled cfg" "\<not> ac_coins cfg s < 1" using assms(1) by (auto simp: works_def not_less)
  have k: "ed_referredUserId (pay_stage s n e') = ed_referredUserId e'" for n e' by (cases s) simp_all
  consider (closed) "ed_creatorRewarded e \<or> stage_paid s e \<noteq> None"
    | (row) "\<not> (ed_creatorRewarded e \<or> stage_paid s e \<noteq> None)"
        "txn_by_id (creatorReferralStageTransactionId s c u) (af_store st) \<noteq> None"
    | (credit) "\<not> (ed_creatorRewarded e \<or> stage_paid s e \<noteq> None)"
        "txn_by_id (creatorReferralStageTransactionId s c u) (af_store st) = None"
    by blast
  then show thesis
  proof cases
    case closed
    then show thesis using that [of False st] w assms(2) by (auto simp: creditStage_def stage_settled_def)
  next
    case row
    let ?f = "\<lambda>e. if stage_paid s e = None then pay_stage s (ac_coins cfg s) e else e"
    have "edge_of u (update_edge u ?f st) = Some (?f e)" by (rule edge_of_update [OF assms(2)]) (simp add: k)
    then have "stage_settled s u (update_edge u ?f st)" by (auto simp: stage_settled_def paid_stage)
    moreover have "paying st (update_edge u ?f st)" by (rule update_edge_paying) (simp add: pay_stage_le)
    ultimately show thesis using that [of True "update_edge u ?f st"] w assms(2) row by (simp add: creditStage_def)
  next
    case credit
    let ?row = "reward_row (creatorReferralStageTransactionId s c u) c (of_int (ac_coins cfg s)) (stage_source s)"
    let ?st = "update_edge u (pay_stage s (ac_coins cfg s)) st"
    have "creatorReferralStageTransactionId s c u \<notin> tx_transactionId ` set (txns (af_store st))"
      using credit(2) by (auto simp: txn_by_id_def find_txn_def find_None_iff)
    then obtain cs where cs: "create_txn ?row (af_store ?st) = Some cs" by (simp add: create_txn_def reward_row_def)
    have "findById c cs \<noteq> None" using create_find [OF cs] assms(3) by simp
    then have r: "creditStage cfg (\<lambda>x. x) (\<lambda>_. True) s c u st = (Inr True, ?st\<lparr>af_store := inc_coins c (of_int (ac_coins cfg s)) cs\<rparr>)"
      using w assms(2) credit cs by (auto simp: creditStage_def stage_txn_def Let_def)
    have p: "paying ?st (?st\<lparr>af_store := inc_coins c (of_int (ac_coins cfg s)) cs\<rparr>)" by (rule credit_row_paying [OF cs])
    have "edge_of u ?st = Some (pay_stage s (ac_coins cfg s) e)" by (rule edge_of_update [OF assms(2)]) (simp add: k)
    then have "stage_settled s u ?st" by (auto simp: stage_settled_def paid_stage)
    then have "stage_settled s u (?st\<lparr>af_store := inc_coins c (of_int (ac_coins cfg s)) cs\<rparr>)"
      using p by (rule stage_settled_paying)
    moreover have "paying st ?st" by (rule update_edge_paying) (rule pay_stage_le)
    ultimately show thesis using that [OF r] paying_trans [OF _ p] by blast
  qed
qed

lemma find_edge_some: "e \<in> set (af_edges st) \<Longrightarrow> P e \<Longrightarrow> find_edge P st \<noteq> None"
  by (auto simp: find_edge_def find_None_iff)

text \<open>The three calls of a row.\<close>

lemma calls_settle:
  assumes "works cfg" and "edge_of u st = Some e" and "findById (ed_creatorUserId e) (af_store st) \<noteq> None"
  shows "\<exists>b st'. tryCreditAttach cfg (\<lambda>x. x) (\<lambda>_. True) (ed_creatorUserId e) u st = (Inr b, st') \<and> paying st st' \<and> stage_settled attach_stage u st'"
    and "ed_telegramJoined e \<and> (\<forall>e' \<in> set (af_edges st). ed_referredUserId e' = u \<longrightarrow> e' = e) \<Longrightarrow>
      \<exists>b st'. tryCreditTelegram cfg (\<lambda>x. x) (\<lambda>_. True) (ed_creatorUserId e) u st = (Inr b, st') \<and> paying st st' \<and> stage_settled telegram_stage u st'"
    and "\<exists>b st'. tryCreditPurchase cfg (\<lambda>x. x) (\<lambda>_. True) u st = (Inr b, st') \<and> paying st st' \<and> stage_settled purchase_stage u st'"
proof -
  have e: "e \<in> set (af_edges st)" "ed_referredUserId e = u" using assms(2) by (auto simp: edge_of_def find_edge_def find_Some_iff)
  have c: "\<exists>b st'. creditStage cfg (\<lambda>x. x) (\<lambda>_. True) s (ed_creatorUserId e) u st = (Inr b, st') \<and> paying st st' \<and> stage_settled s u st'" for s
    by (rule creditStage_settles [OF assms, of s]) blast
  obtain f where f: "find_edge (\<lambda>x. ed_creatorUserId x = ed_creatorUserId e \<and> ed_referredUserId x = u) st = Some f"
    using find_edge_some [OF e(1), of "\<lambda>x. ed_creatorUserId x = ed_creatorUserId e \<and> ed_referredUserId x = u"] e(2) by auto
  show "\<exists>b st'. tryCreditAttach cfg (\<lambda>x. x) (\<lambda>_. True) (ed_creatorUserId e) u st = (Inr b, st') \<and> paying st st' \<and> stage_settled attach_stage u st'"
    using c f by (simp add: tryCreditAttach_def)
  show "\<exists>b st'. tryCreditPurchase cfg (\<lambda>x. x) (\<lambda>_. True) u st = (Inr b, st') \<and> paying st st' \<and> stage_settled purchase_stage u st'"
    using c assms(2) by (simp add: tryCreditPurchase_def)
  assume "ed_telegramJoined e \<and> (\<forall>e' \<in> set (af_edges st). ed_referredUserId e' = u \<longrightarrow> e' = e)"
  moreover have "f \<in> set (af_edges st)" "ed_referredUserId f = u" using f by (auto simp: find_edge_def find_Some_iff)
  ultimately have "ed_telegramJoined f" by auto
  then show "\<exists>b st'. tryCreditTelegram cfg (\<lambda>x. x) (\<lambda>_. True) (ed_creatorUserId e) u st = (Inr b, st') \<and> paying st st' \<and> stage_settled telegram_stage u st'"
    using c f by (simp add: tryCreditTelegram_def)
qed


text \<open>What is due of an edge, and that it is settled.\<close>

definition due_settled :: "referral_edge \<Rightarrow> affiliate_state \<Rightarrow> bool" where
  "due_settled e st \<longleftrightarrow>
     stage_settled attach_stage (ed_referredUserId e) st \<and>
     (ed_telegramJoined e \<longrightarrow> stage_settled telegram_stage (ed_referredUserId e) st) \<and>
     (referredUserHasQualifyingPurchase (ed_referredUserId e) st \<longrightarrow> stage_settled purchase_stage (ed_referredUserId e) st)"

lemma due_settled_paying: "due_settled e st \<Longrightarrow> paying st st' \<Longrightarrow> due_settled e st'"
  using stage_settled_paying by (auto simp: due_settled_def paying_def)

definition well_formed_edges :: "affiliate_state \<Rightarrow> bool" where
  "well_formed_edges st \<longleftrightarrow>
     distinct (map ed_referredUserId (af_edges st)) \<and> (\<forall>e \<in> set (af_edges st). findById (ed_creatorUserId e) (af_store st) \<noteq> None)"

lemma edges_le_maps:
  "list_all2 edge_le es es' \<Longrightarrow> map ed_referredUserId es' = map ed_referredUserId es \<and> map ed_creatorUserId es' = map ed_creatorUserId es"
  by (induction rule: list_all2_induct) (auto simp: edge_le_def)

lemma well_formed_paying: "well_formed_edges st \<Longrightarrow> paying st st' \<Longrightarrow> well_formed_edges st'"
proof -
  assume w: "well_formed_edges st" and p: "paying st st'"
  have m: "map ed_referredUserId (af_edges st') = map ed_referredUserId (af_edges st)"
    "map ed_creatorUserId (af_edges st') = map ed_creatorUserId (af_edges st)"
    using edges_le_maps p by (auto simp: paying_def)
  have "ed_creatorUserId ` set (af_edges st') = ed_creatorUserId ` set (af_edges st)" using arg_cong [OF m(2), of set] by simp
  then have "\<exists>f \<in> set (af_edges st). ed_creatorUserId f = ed_creatorUserId e" if "e \<in> set (af_edges st')" for e
    using that by (metis (no_types, lifting) imageE image_eqI)
  then show "well_formed_edges st'" using w p m(1) by (fastforce simp: well_formed_edges_def paying_def)
qed

lemma edge_of_member: "well_formed_edges st \<Longrightarrow> e \<in> set (af_edges st) \<Longrightarrow> edge_of (ed_referredUserId e) st = Some e"
  by (simp add: edge_of_def find_edge_def well_formed_edges_def find_unique)

lemma the_edge:
  assumes "well_formed_edges st" and "edge_of u st = Some e"
  shows "\<forall>e' \<in> set (af_edges st). ed_referredUserId e' = u \<longrightarrow> e' = e"
  using edge_of_member [OF assms(1)] assms(2) by auto

lemma settled_before: "edge_of u st = Some e' \<Longrightarrow> edge_le e e' \<Longrightarrow> stage_paid s e \<noteq> None \<Longrightarrow> stage_settled s u st"
  by (auto simp: stage_settled_def edge_le_def)

lemma reconcile_edge_settles:
  assumes "works cfg" and "well_formed_edges st" and "edge_of (ed_referredUserId e) st = Some e'" and "edge_le e e'"
  obtains n st' where "reconcile_edge cfg (\<lambda>x. x) (\<lambda>_. True) e st = (Inr n, st')" "paying st st'" "due_settled e st'"
proof -
  let ?u = "ed_referredUserId e" and ?c = "ed_creatorUserId e"
  note calls = calls_settle [OF assms(1)]
  have member: "e'' \<in> set (af_edges s)" if "edge_of ?u s = Some e''" for s e''
    using that by (auto simp: edge_of_def find_edge_def find_Some_iff)
  have reach: "\<exists>e''. edge_of ?u s = Some e'' \<and> edge_le e e'' \<and> findById ?c (af_store s) \<noteq> None \<and> ed_creatorUserId e'' = ?c" if p: "paying st s" for s
  proof -
    obtain e'' where e: "edge_of ?u s = Some e''" "edge_le e' e''" by (rule paying_edge [OF p assms(3)])
    have "edge_le e e''" by (rule edge_le_trans [OF assms(4) e(2)])
    then have c: "edge_le e e''" "ed_creatorUserId e'' = ?c" by (simp_all add: edge_le_def)
    have "findById ?c (af_store s) \<noteq> None"
      using well_formed_paying [OF assms(2) p] member [OF e(1)] c(2) by (auto simp: well_formed_edges_def)
    then show ?thesis using e c by blast
  qed
  define r1 where "r1 = (if ed_attachRewarded e = None then tryCreditAttach cfg (\<lambda>x. x) (\<lambda>_. True) ?c ?u st else (Inr False, st))"
  have "\<exists>b s. r1 = (Inr b, s) \<and> paying st s \<and> stage_settled attach_stage ?u s"
  proof (cases "ed_attachRewarded e")
    case None
    obtain e'' where "edge_of ?u st = Some e''" "findById ?c (af_store st) \<noteq> None" "ed_creatorUserId e'' = ?c"
      using reach [OF paying_refl] by blast
    then show ?thesis using calls(1) [of ?u st e''] None by (auto simp: r1_def)
  qed (use assms(3,4) settled_before [of ?u st e' e attach_stage] in \<open>auto simp: r1_def\<close>)
  then obtain b1 s1 where r1: "r1 = (Inr b1, s1)" "paying st s1" "stage_settled attach_stage ?u s1" by blast
  define r2 where "r2 = (if ed_telegramJoined e \<and> ed_telegramRewarded e = None then tryCreditTelegram cfg (\<lambda>x. x) (\<lambda>_. True) ?c ?u s1 else (Inr False, s1))"
  have "\<exists>b s. r2 = (Inr b, s) \<and> paying s1 s \<and> (ed_telegramJoined e \<longrightarrow> stage_settled telegram_stage ?u s)"
  proof -
    obtain e'' where e: "edge_of ?u s1 = Some e''" "edge_le e e''" "findById ?c (af_store s1) \<noteq> None" "ed_creatorUserId e'' = ?c"
      using reach [OF r1(2)] by blast
    have "ed_telegramJoined e'' = ed_telegramJoined e" using e(2) by (simp add: edge_le_def)
    then have "ed_telegramJoined e \<Longrightarrow> \<exists>b st'. tryCreditTelegram cfg (\<lambda>x. x) (\<lambda>_. True) ?c ?u s1 = (Inr b, st') \<and> paying s1 st' \<and>
        stage_settled telegram_stage ?u st'"
      using calls(2) [OF e(1)] e(3,4) the_edge [OF well_formed_paying [OF assms(2) r1(2)] e(1)] by simp
    moreover have "ed_telegramRewarded e \<noteq> None \<Longrightarrow> stage_settled telegram_stage ?u s1"
      using settled_before [OF e(1,2), of telegram_stage] by simp
    ultimately show ?thesis unfolding r2_def by (cases "ed_telegramJoined e \<and> ed_telegramRewarded e = None") auto
  qed
  then obtain b2 s2 where r2: "r2 = (Inr b2, s2)" "paying s1 s2" "ed_telegramJoined e \<longrightarrow> stage_settled telegram_stage ?u s2" by blast
  define r3 where "r3 = (if ed_purchaseRewarded e = None \<and> referredUserHasQualifyingPurchase ?u s2
      then tryCreditPurchase cfg (\<lambda>x. x) (\<lambda>_. True) ?u s2 else (Inr False, s2))"
  have "\<exists>b s. r3 = (Inr b, s) \<and> paying s2 s \<and> (referredUserHasQualifyingPurchase ?u s \<longrightarrow> stage_settled purchase_stage ?u s)"
  proof -
    obtain e'' where e: "edge_of ?u s2 = Some e''" "edge_le e e''" "findById ?c (af_store s2) \<noteq> None" "ed_creatorUserId e'' = ?c"
      using reach [OF paying_trans [OF r1(2) r2(2)]] by blast
    have "\<exists>b st'. tryCreditPurchase cfg (\<lambda>x. x) (\<lambda>_. True) ?u s2 = (Inr b, st') \<and> paying s2 st' \<and> stage_settled purchase_stage ?u st'"
      using calls(3) [OF e(1)] e(3,4) by simp
    moreover have "ed_purchaseRewarded e \<noteq> None \<Longrightarrow> stage_settled purchase_stage ?u s2"
      using settled_before [OF e(1,2), of purchase_stage] by simp
    ultimately show ?thesis
      unfolding r3_def by (cases "ed_purchaseRewarded e = None \<and> referredUserHasQualifyingPurchase ?u s2") auto
  qed
  then obtain b3 s3 where r3: "r3 = (Inr b3, s3)" "paying s2 s3"
      "referredUserHasQualifyingPurchase ?u s3 \<longrightarrow> stage_settled purchase_stage ?u s3" by blast
  have r: "reconcile_edge cfg (\<lambda>x. x) (\<lambda>_. True) e st = (Inr (count_paid (Inr b1, s1) (count_paid (Inr b2, s2) (count_paid (Inr b3, s3) 0))), s3)"
    by (simp only: reconcile_edge_def Let_def r1_def [symmetric] r1(1) and_then_def prod.sel sum.case r2_def [symmetric] r2(1)
        r3_def [symmetric] r3(1))
  have p: "paying s1 s3" using paying_trans [OF r2(2) r3(2)] .
  have "due_settled e s3"
    using stage_settled_paying [OF r1(3) p] stage_settled_paying [OF _ r3(2)] r2(3) r3(3) by (auto simp: due_settled_def)
  then show thesis using that [OF r] paying_trans [OF r1(2) p] by blast
qed


lemma reconcile_edges_settle:
  assumes "works cfg" and "well_formed_edges st"
    and "\<forall>e \<in> set es. \<exists>e'. edge_of (ed_referredUserId e) st = Some e' \<and> edge_le e e'"
  shows "\<exists>n st'. reconcile_edges cfg (\<lambda>x. x) (\<lambda>_. True) es st = (Inr n, st') \<and> paying st st' \<and> (\<forall>e \<in> set es. due_settled e st')"
  using assms(2,3)
proof (induction es arbitrary: st)
  case (Cons e es)
  obtain e' where e': "edge_of (ed_referredUserId e) st = Some e'" "edge_le e e'" using Cons.prems(2) by auto
  obtain n st1 where r: "reconcile_edge cfg (\<lambda>x. x) (\<lambda>_. True) e st = (Inr n, st1)" and p: "paying st st1" and d: "due_settled e st1"
    by (rule reconcile_edge_settles [OF assms(1) Cons.prems(1) e'])
  have "\<exists>g. edge_of (ed_referredUserId f) st1 = Some g \<and> edge_le f g" if "f \<in> set es" for f
  proof -
    obtain f' where f: "edge_of (ed_referredUserId f) st = Some f'" "edge_le f f'"
      using Cons.prems(2) \<open>f \<in> set es\<close> by (meson list.set_intros(2))
    obtain g where "edge_of (ed_referredUserId f) st1 = Some g" "edge_le f' g" by (rule paying_edge [OF p f(1)])
    then show ?thesis using edge_le_trans [OF f(2)] by blast
  qed
  then obtain m st' where q: "reconcile_edges cfg (\<lambda>x. x) (\<lambda>_. True) es st1 = (Inr m, st')" "paying st1 st'" "\<forall>e \<in> set es. due_settled e st'"
    using Cons.IH [OF well_formed_paying [OF Cons.prems(1) p]] by blast
  then show ?case using r due_settled_paying [OF d q(2)] paying_trans [OF p q(2)] by simp
qed simp

lemma all_within_limit: "length xs \<le> n \<Longrightarrow> take n (filter P xs) = filter P xs"
  using length_filter_le [of P xs] by (intro take_all) linarith

lemma settledI: "edge_of u st = Some e \<Longrightarrow> stage_paid s e \<noteq> None \<Longrightarrow> stage_settled s u st"
  by (auto simp: stage_settled_def)


section \<open>The limit starves purchases\<close>

text \<open>
  The purchase candidates are the oldest edges without a purchase reward, whether their user has
  bought anything or not. Once the oldest \<open>limit\<close> of them belong to users who never purchased and
  everything else is settled, the sweep does nothing: however many later users have made a qualifying
  purchase that is still unpaid, it never reaches them.
\<close>

theorem never_purchased_starve_the_sweep:
  assumes "af_edges st = old @ new" and "limit \<le> length old"
    and "\<forall>e \<in> set old. \<not> ed_creatorRewarded e \<and> ed_purchaseRewarded e = None \<and> \<not> referredUserHasQualifyingPurchase (ed_referredUserId e) st"
    and "\<forall>e \<in> set (old @ new). ed_attachRewarded e \<noteq> None \<and> (ed_telegramJoined e \<longrightarrow> ed_telegramRewarded e \<noteq> None)"
  shows "reconcileUnpaidCreatorReferrals cfg others up limit st = (Inr 0, st)"
proof -
  have s: "stage_edges limit st = []" using assms(1,4) by (auto simp: stage_edges_def filter_empty_conv)
  have "filter (\<lambda>e. \<not> ed_creatorRewarded e \<and> ed_purchaseRewarded e = None) old = old"
    using assms(3) by (simp add: filter_id_conv)
  then have "purchase_edges limit st = take limit old" using assms(1,2) by (simp add: purchase_edges_def)
  then have u: "unpaid_edges limit st = take limit old" by (simp add: unpaid_edges_def s)
  have "reconcile_edge cfg others up e st = (Inr 0, st)" if e: "e \<in> set old" for e
  proof -
    obtain y where "ed_attachRewarded e = Some y" using e assms(4) by auto
    moreover have "(ed_telegramJoined e \<and> ed_telegramRewarded e = None) = False"
      "\<not> referredUserHasQualifyingPurchase (ed_referredUserId e) st" using e assms(3,4) by auto
    ultimately show ?thesis by (simp only: reconcile_edge_def Let_def) (simp add: and_then_def count_paid_def)
  qed
  then have "reconcile_edges cfg others up es st = (Inr 0, st)" if "set es \<subseteq> set old" for es
    using that by (induction es) auto
  moreover have "set (take limit old) \<subseteq> set old" by (rule set_take_subset)
  ultimately show ?thesis by (simp add: reconcileUnpaidCreatorReferrals_def u)
qed

end
