(* ===== verification/RewardCases.thy ===== *)
theory RewardCases
  imports AffiliateFlow
begin

text \<open>The properties of the rewards at concrete states.\<close>

definition sample_user :: "string \<Rightarrow> account" where
  "sample_user uid =
     \<lparr> a_id = uid, a_firebaseUid = ''fb_'' @ uid, a_role = ''user'', a_coins = 0, a_phone = None, a_email = None,
       a_staffCoinsBalance = None, a_bdDisabled = False, a_vipExpiresAt = None \<rparr>"

definition sample_store :: coin_store where
  "sample_store = \<lparr> accounts = [sample_user ''u1'', sample_user ''u2''], txns = [] \<rparr>"

text \<open>The second user was referred by the first.\<close>

definition sample_rewards :: reward_state where
  "sample_rewards =
     \<lparr> wallet = sample_store,
       members = [(new_member ''u1'')\<lparr>mb_referrals := [(''u2'', False)]\<rparr>, (new_member ''u2'')\<lparr>mb_referredBy := Some ''u1''\<rparr>],
       progresses = [], checkins = [] \<rparr>"

definition sample_env :: "bool \<Rightarrow> reward_env" where
  "sample_env commits =
     \<lparr> re_cfg = consumerRewardConfig (\<lambda>_. None) True (\<lambda>_. None), re_today = ''2025-01-01'', re_presets = [],
       re_up = (\<lambda>_. commits) \<rparr>"

lemmas sample_defs = sample_user_def sample_store_def sample_rewards_def sample_env_def

lemma sample_sound: "sound sample_store" "gifts_ok (wallet sample_rewards)"
  by (simp_all add: gifts_ok_def sound_def keys_unique_def backed_def expectedBalance_def sample_defs)

lemma sample_referral: "task_on (re_cfg (sample_env c)) successful_referral = Some ((plain_slice 500)\<lparr>ts_minPurchaseInr := Some 100\<rparr>)"
  by (simp add: sample_env_def task_on_def consumerRewardConfig_def isConsumerRewardsMasterEnabled_def parseBool_def
      parsePositiveInt_def merge_slice_def plain_slice_def)

lemma sample_call: "(case rc_task (re_cfg (sample_env c)) first_video_call of None \<Rightarrow> None | Some c \<Rightarrow> ts_minSeconds c) = Some 150"
  by (simp add: sample_env_def consumerRewardConfig_def merge_slice_def parsePositiveInt_def)

lemma sample_pair:
  "referrer_of ''u2'' sample_rewards = Some ''u1''" "consumer ''u1'' sample_rewards \<noteq> None"
  "can_grant ''u1'' ''u2'' sample_rewards" "\<not> row_exists t sample_rewards"
  by (simp_all add: referrer_of_def consumer_def can_grant_def row_exists_def txn_by_id_def find_txn_def findById_def
      member_of_def new_member_def sample_defs)


text \<open>A call and a purchase are processed at once; the purchase wins.\<close>

theorem referral_paid_at_most_once_witness:
  "\<exists>st g. (referral_system ''u1'' ''u2'' 500)\<^sup>*\<^sup>* (sample_rewards, [], 0) (st, [Call_check, Buy_grant], g) \<and> g \<le> 500"
proof -
  let ?R = "referral_system ''u1'' ''u2'' 500"
  have "?R (sample_rewards, [], 0) (sample_rewards, [Call_check], 0)"
    using referral_system.start [of Call_check "''u1''" "''u2''" 500 sample_rewards "[]" 0] by simp
  moreover have "?R (sample_rewards, [Call_check], 0) (sample_rewards, [Call_check, Buy_check], 0)"
    using referral_system.start [of Buy_check "''u1''" "''u2''" 500 sample_rewards "[Call_check]" 0] by simp
  moreover have "?R (sample_rewards, [Call_check, Buy_check], 0) (sample_rewards, [Call_check, Buy_grant], 0)"
    using referral_system.move [of 1 "[Call_check, Buy_check]" "\<lambda>_. True" "''u1''" "''u2''" 500 sample_rewards Buy_grant sample_rewards 0]
      sample_pair(4) by simp
  ultimately have s: "?R\<^sup>*\<^sup>* (sample_rewards, [], 0) (sample_rewards, [Call_check, Buy_grant], 0)"
    by (meson rtranclp.rtrancl_into_rtrancl rtranclp.rtrancl_refl)
  show ?thesis using s referral_paid_at_most_once [OF s] sample_pair(3) by (intro exI [of _ sample_rewards] exI [of _ 0]) simp
qed

theorem failed_credit_loses_referral_witness:
  "wallet (tryCreditSuccessfulReferralOnCall (sample_env False) (\<lambda>x. x) ''u2'' 200 sample_rewards) = wallet sample_rewards"
  using failed_credit_loses_referral [OF sample_referral [of False], of 200 "''u2''" sample_rewards "''u1''"] sample_call sample_pair
  by (simp add: plain_slice_def sample_env_def)

theorem unwritten_referral_row_unbacks_wallet_witness:
  "snd (verifyUserBalance ''u1'' (wallet (processReferralRewardOnPurchase (sample_env False) (\<lambda>x. x) ''u2'' 100 sample_rewards))) =
    Some (''u1'', 500, wallet_over)"
  using unwritten_referral_row_unbacks_wallet [OF sample_referral [of False], of 100 "''u2''" sample_rewards "''u1''"] sample_pair
    sample_sound(1)
  by (simp add: plain_slice_def sample_env_def sample_rewards_def)

definition sample_checkin_env :: env where
  "sample_checkin_env = (\<lambda>k. if k = ''DAILY_CHECKIN_ENABLED'' then Some ''true'' else None)"

lemma sample_may_check_in: "may_check_in ''fb_u1'' ''u1'' sample_rewards"
  by (simp add: may_check_in_def keys_unique_def sample_defs)

lemma sample_checkin: "checkin_of ''u1'' sample_rewards = new_checkin ''u1''"
  by (simp add: checkin_of_def find_checkin_def sample_rewards_def)

lemma sample_no_rows: "txns (wallet sample_rewards) = []"
  by (simp add: sample_rewards_def sample_store_def)

theorem check_ins_pay_the_cycle_witness:
  "map credited_by (fst (claim_days sample_checkin_env ''fb_u1'' [''d1'', ''d2'', ''d3''] sample_rewards)) = [50, 80, 50]"
proof -
  obtain rs st where r: "claim_days sample_checkin_env ''fb_u1'' [''d1'', ''d2'', ''d3''] sample_rewards = (rs, st)" by fastforce
  have "map credited_by rs = cycle_rewards sample_checkin_env 1 3"
    using check_ins_pay_the_cycle [OF _ sample_may_check_in _ _ _ _ _ r]
    by (simp add: sample_checkin sample_no_rows) (simp add: new_checkin_def isDailyCheckInEnabled_def sample_checkin_env_def numeral_3_eq_3)
  also have "\<dots> = [50, 80, 50]" by code_simp
  finally show ?thesis using r by simp
qed

section \<open>Affiliates\<close>

definition sample_edge :: "string \<Rightarrow> referral_edge" where
  "sample_edge uid =
     \<lparr> ed_creatorUserId = ''u1'', ed_referredUserId = uid, ed_telegramJoined = False, ed_creatorRewarded = False,
       ed_attachRewarded = Some 200, ed_telegramRewarded = None, ed_purchaseRewarded = None \<rparr>"

definition sample_affiliate :: "coin_txn list \<Rightarrow> affiliate_state" where
  "sample_affiliate ts =
     \<lparr> af_store = sample_store\<lparr>txns := ts\<rparr>, af_edges = [sample_edge ''a'', sample_edge ''b''], af_telegramClaimed = [] \<rparr>"

definition sample_purchase :: coin_txn where
  "sample_purchase = reward_row ''t1'' ''b'' 100 ''payment_gateway''"

lemma sample_works: "works (viewFromDoc (\<lambda>_. None) None (\<lambda>_. None))"
proof -
  have "1 \<le> stage_default (\<lambda>_. None) s" for s by (cases s) (simp_all add: parseCoinsEnv_def)
  then show ?thesis by (auto simp: works_def viewFromDoc_def clampCoins_def CREATOR_REFERRAL_COINS_MAX_def)
qed


theorem never_purchased_starve_the_sweep_witness:
  "reconcileUnpaidCreatorReferrals (viewFromDoc (\<lambda>_. None) None (\<lambda>_. None)) (\<lambda>x. x) (\<lambda>_. True) 1 (sample_affiliate [sample_purchase]) = (Inr 0, sample_affiliate [sample_purchase]) \<and>
    referredUserHasQualifyingPurchase ''b'' (sample_affiliate [sample_purchase])"
  using never_purchased_starve_the_sweep [of "sample_affiliate [sample_purchase]" "[sample_edge ''a'']" "[sample_edge ''b'']" 1 "viewFromDoc (\<lambda>_. None) None (\<lambda>_. None)" "\<lambda>x. x" "\<lambda>_. True"]
  by (simp add: sample_affiliate_def sample_edge_def referredUserHasQualifyingPurchase_def find_txn_def sample_purchase_def reward_row_def)

end
