(* ===== verification/VipPlans.thy ===== *)
theory VipPlans
  imports Checkout
begin

text \<open>
  The plans of the VIP membership: \<open>vip.config.ts\<close>, \<open>models/vip-plan-config.model.ts\<close> and the page that
  shows them (\<open>vip-plan-response.util.ts\<close>). The collection of plans is the list of its documents; the
  numbers of a plan are integers.
\<close>

section \<open>Plans\<close>

datatype vip_badge = mostPopular | bestValue

record vip_plan =
  pl_planId :: string
  pl_label :: string
  pl_durationDays :: int
  pl_priceInr :: int
  pl_isActive :: bool
  pl_freeMomentsPerDay :: int
  pl_rechargeDiscountBps :: int
  pl_momentDiscountBps :: int
  pl_badge :: "vip_badge option"
  pl_sortOrder :: int

definition readIntEnv :: "env \<Rightarrow> string \<Rightarrow> int \<Rightarrow> int" where
  "readIntEnv env key fallback =
     (case env key of
        None \<Rightarrow> fallback
      | Some raw \<Rightarrow> if raw = [] then fallback
                   else (case js_parse_int raw of
                           None \<Rightarrow> fallback
                         | Some n \<Rightarrow> if js_finite n \<and> 0 \<le> n then n else fallback))"

definition VIP_PLAN_ID :: string where
  "VIP_PLAN_ID = ''vip_monthly''"

definition plan_seed :: "env \<Rightarrow> string \<Rightarrow> string \<Rightarrow> int \<Rightarrow> int \<Rightarrow> vip_badge option \<Rightarrow> int \<Rightarrow> vip_plan" where
  "plan_seed env planId label days price badge order =
     \<lparr> pl_planId = planId, pl_label = label, pl_durationDays = days, pl_priceInr = price, pl_isActive = True,
       pl_freeMomentsPerDay = readIntEnv env ''VIP_FREE_MOMENTS_PER_DAY'' 10,
       pl_rechargeDiscountBps = readIntEnv env ''VIP_RECHARGE_DISCOUNT_BPS'' 1000,
       pl_momentDiscountBps = readIntEnv env ''VIP_MOMENT_DISCOUNT_BPS'' 1000,
       pl_badge = badge, pl_sortOrder = order \<rparr>"

definition DEFAULT_VIP_6MONTHS_PLAN :: "env \<Rightarrow> vip_plan" where
  "DEFAULT_VIP_6MONTHS_PLAN env =
     plan_seed env ''vip_6months'' ''6 Months'' (readIntEnv env ''VIP_6MONTHS_DURATION_DAYS'' 180)
       (readIntEnv env ''VIP_6MONTHS_PRICE_INR'' 2199) None 0"

definition DEFAULT_VIP_YEARLY_PLAN :: "env \<Rightarrow> vip_plan" where
  "DEFAULT_VIP_YEARLY_PLAN env =
     plan_seed env ''vip_yearly'' ''12 Months'' (readIntEnv env ''VIP_YEARLY_DURATION_DAYS'' 365)
       (readIntEnv env ''VIP_YEARLY_PRICE_INR'' 3999) (Some bestValue) 1"

definition DEFAULT_VIP_PLAN :: "env \<Rightarrow> vip_plan" where
  "DEFAULT_VIP_PLAN env =
     plan_seed env VIP_PLAN_ID ''1 Month'' (readIntEnv env ''VIP_DURATION_DAYS'' 30)
       (readIntEnv env ''VIP_PRICE_INR'' 499) (Some mostPopular) 2"

definition DEFAULT_VIP_PLANS :: "env \<Rightarrow> vip_plan list" where
  "DEFAULT_VIP_PLANS env = [DEFAULT_VIP_6MONTHS_PLAN env, DEFAULT_VIP_YEARLY_PLAN env, DEFAULT_VIP_PLAN env]"

text \<open>The validators of the schema, which \<open>create\<close> and \<open>save\<close> run.\<close>

definition plan_valid :: "vip_plan \<Rightarrow> bool" where
  "plan_valid p \<longleftrightarrow>
     pl_label p \<noteq> [] \<and> 1 \<le> pl_durationDays p \<and> 1 \<le> pl_priceInr p \<and> 0 \<le> pl_freeMomentsPerDay p \<and>
     0 \<le> pl_rechargeDiscountBps p \<and> pl_rechargeDiscountBps p \<le> 10000 \<and>
     0 \<le> pl_momentDiscountBps p \<and> pl_momentDiscountBps p \<le> 10000"

definition find_plan :: "string \<Rightarrow> vip_plan list \<Rightarrow> vip_plan option" where
  "find_plan pid ps = List.find (\<lambda>p. pl_planId p = pid) ps"

definition save_plan :: "vip_plan \<Rightarrow> vip_plan list \<Rightarrow> vip_plan list" where
  "save_plan c ps = map (\<lambda>p. if pl_planId p = pl_planId c then c else p) ps"

definition ensurePlanSeed :: "vip_plan \<Rightarrow> vip_plan list \<Rightarrow> (string + vip_plan) \<times> vip_plan list" where
  "ensurePlanSeed seed ps =
     (case find_plan (pl_planId seed) ps of
        None \<Rightarrow> if plan_valid seed then (Inr seed, ps @ [seed]) else (Inl ''ValidationError'', ps)
      | Some c \<Rightarrow>
          (let c' = c\<lparr>pl_label := pl_label seed, pl_durationDays := pl_durationDays seed, pl_priceInr := pl_priceInr seed,
                      pl_badge := pl_badge seed, pl_sortOrder := pl_sortOrder seed\<rparr>
           in if plan_valid c' then (Inr c', save_plan c' ps) else (Inl ''ValidationError'', ps)))"

text \<open>\<open>Promise.all\<close>: every seed is written, and the first error is the answer.\<close>

fun ensure_plans :: "vip_plan list \<Rightarrow> vip_plan list \<Rightarrow> (string + vip_plan list) \<times> vip_plan list" where
  "ensure_plans [] ps = (Inr [], ps)"
| "ensure_plans (seed # seeds) ps =
     (let (r, ps1) = ensurePlanSeed seed ps;
          (rs, ps2) = ensure_plans seeds ps1
      in (case r of Inl e \<Rightarrow> Inl e | Inr c \<Rightarrow> map_sum id ((#) c) rs, ps2))"

definition getOrCreateVipPlans :: "env \<Rightarrow> vip_plan list \<Rightarrow> (string + vip_plan list) \<times> vip_plan list" where
  "getOrCreateVipPlans env ps =
     (let (r, ps1) = ensure_plans (DEFAULT_VIP_PLANS env) ps in (map_sum id (sort_key pl_sortOrder) r, ps1))"

definition getVipPlanById :: "env \<Rightarrow> string \<Rightarrow> vip_plan list \<Rightarrow> (string + vip_plan option) \<times> vip_plan list" where
  "getVipPlanById env pid ps =
     (let (r, ps1) = getOrCreateVipPlans env ps in (map_sum id (\<lambda>_. find_plan pid ps1) r, ps1))"

definition getOrCreateVipPlanConfig :: "env \<Rightarrow> vip_plan list \<Rightarrow> (string + vip_plan) \<times> vip_plan list" where
  "getOrCreateVipPlanConfig env ps = (let (r, ps1) = getOrCreateVipPlans env ps in (map_sum id hd r, ps1))"

section \<open>What the plan page shows\<close>

definition monthlyEquivalent :: "int \<Rightarrow> int \<Rightarrow> int" where
  "monthlyEquivalent priceInr durationDays =
     (if durationDays \<le> 0 then priceInr else js_round (of_int (priceInr * 30) / of_int durationDays))"

text \<open>\<open>toLocaleString('en-IN')\<close> of a positive integer: three digits, then groups of two.\<close>

fun pairs_of :: "string \<Rightarrow> string" where
  "pairs_of (a # b # c # ds) = a # b # CHR '','' # pairs_of (c # ds)"
| "pairs_of ds = ds"

definition toLocale_en_IN :: "int \<Rightarrow> string" where
  "toLocale_en_IN n =
     (let ds = rev (show_int n)
      in if length ds \<le> 3 then rev ds else rev (take 3 ds @ CHR '','' # pairs_of (drop 3 ds)))"

text \<open>The rupee sign is written \<open>INR\<close> and a space.\<close>

definition computeSavingsLabel :: "vip_plan \<Rightarrow> vip_plan option \<Rightarrow> string option" where
  "computeSavingsLabel plan monthlyPlan =
     (case monthlyPlan of
        None \<Rightarrow> None
      | Some m \<Rightarrow>
          if pl_planId plan = pl_planId m then None
          else (let periodMonths = max 1 (js_round (of_int (pl_durationDays plan) / 30));
                    savings = pl_priceInr m * periodMonths - pl_priceInr plan
                in if savings \<le> 0 then None
                   else if pl_durationDays plan \<ge> 360 then Some (''Save INR '' @ toLocale_en_IN savings @ '' / year'')
                   else if pl_durationDays plan \<ge> 180 then Some (''Save INR '' @ toLocale_en_IN savings @ '' / 6 months'')
                   else Some (''Save INR '' @ toLocale_en_IN savings)))"

record vip_plan_shape =
  sh_planId :: string
  sh_label :: string
  sh_durationDays :: int
  sh_priceInr :: int
  sh_monthlyEquivalentInr :: int
  sh_savingsLabel :: "string option"
  sh_badge :: "vip_badge option"
  sh_isActive :: bool

definition buildVipPlanApiShape :: "vip_plan \<Rightarrow> vip_plan option \<Rightarrow> bool \<Rightarrow> vip_plan_shape" where
  "buildVipPlanApiShape plan monthlyPlan vipEnabled =
     \<lparr> sh_planId = pl_planId plan, sh_label = pl_label plan, sh_durationDays = pl_durationDays plan, sh_priceInr = pl_priceInr plan,
       sh_monthlyEquivalentInr = monthlyEquivalent (pl_priceInr plan) (pl_durationDays plan),
       sh_savingsLabel = computeSavingsLabel plan monthlyPlan, sh_badge = pl_badge plan, sh_isActive = (pl_isActive plan \<and> vipEnabled) \<rparr>"

record vip_perks =
  pk_freeMomentsPerDay :: int
  pk_rechargeDiscountPercent :: rat
  pk_momentDiscountPercent :: rat

definition buildSharedPerks :: "vip_plan list \<Rightarrow> vip_perks" where
  "buildSharedPerks plans =
     (case plans of
        [] \<Rightarrow> \<lparr> pk_freeMomentsPerDay = 10, pk_rechargeDiscountPercent = 10, pk_momentDiscountPercent = 10 \<rparr>
      | p # _ \<Rightarrow>
          \<lparr> pk_freeMomentsPerDay = pl_freeMomentsPerDay p, pk_rechargeDiscountPercent = of_int (pl_rechargeDiscountBps p) / 100,
            pk_momentDiscountPercent = of_int (pl_momentDiscountBps p) / 100 \<rparr>)"

text \<open>The shapes of all plans, the monthly plan of the old clients with its activity, and the shared perks.\<close>

definition getVipPlan ::
  "env \<Rightarrow> bool \<Rightarrow> vip_plan list \<Rightarrow> (answer + vip_plan_shape list \<times> (vip_plan \<times> bool) \<times> vip_perks) \<times> vip_plan list" where
  "getVipPlan env vipEnabled ps =
     (case getOrCreateVipPlans env ps of
        (Inl e, ps1) \<Rightarrow> (Inl (500, ''Failed to load VIP plan''), ps1)
      | (Inr plans, ps1) \<Rightarrow>
          (let monthly = (case find_plan VIP_PLAN_ID plans of Some p \<Rightarrow> p | None \<Rightarrow> hd plans)
           in (Inr (map (\<lambda>p. buildVipPlanApiShape p (Some monthly) vipEnabled) plans,
                    (monthly, pl_isActive monthly \<and> vipEnabled), buildSharedPerks plans), ps1)))"

end
