(* ===== verification/Vip.thy ===== *)
theory Vip
  imports VipPlans
begin

text \<open>
  The VIP membership: what an active member gets (\<open>vip-entitlement.service.ts\<close>), the purchase
  (\<open>vip-purchase-finalization.service.ts\<close>, \<open>vip.controller.ts\<close>) and the pages of the administrator
  (\<open>admin-vip.controller.ts\<close>).

  The provider, the signature and the state of a payment are those of \<open>Purchases\<close>: the wallets, the rows
  and the checkout contexts are the field \<open>vs_pay\<close>. A Mongo transaction is one step; what other requests
  do between two commands of an operation is its argument \<open>others\<close>, indexed by the point. Redis answers.
  Dates are milliseconds, and the integers of a request are exact.
\<close>

section \<open>State\<close>

datatype vip_membership_status = vip_active | vip_expired | vip_cancelled

record vip_membership =
  vm_userId :: string
  vm_status :: vip_membership_status
  vm_planId :: string
  vm_startedAt :: millis
  vm_expiresAt :: millis
  vm_lastPurchaseTxnId :: "string option"
  vm_razorpayOrderId :: "string option"
  vm_razorpayPaymentId :: "string option"

record vip_purchase_event =
  ve_eventId :: string
  ve_eventType :: string
  ve_orderId :: "string option"
  ve_paymentId :: "string option"
  ve_status :: webhook_status
  ve_attemptCount :: int

text \<open>
  \<open>vs_usage\<close> is the count of free moments by user and day, \<open>vs_cache\<close> the instant at which the key
  \<open>vip:active:\<close> of a user expires.
\<close>

record vip_state =
  vs_pay :: pay_state
  vs_plans :: "vip_plan list"
  vs_members :: "vip_membership list"
  vs_usage :: "string \<times> millis \<Rightarrow> int option"
  vs_cache :: "string \<Rightarrow> millis option"
  vs_events :: "vip_purchase_event list"

record vip_session =
  vx_firebaseUid :: string
  vx_userId :: string
  vx_planId :: string
  vx_priceInr :: int
  vx_durationDays :: int
  vx_checkoutId :: "string option"

text \<open>
  \<open>vc_session\<close> decodes a checkout token; \<open>vc_periodStart\<close> is the start of the day that
  \<open>getDailyPeriodBounds\<close> computes from the local time.
\<close>

record vip_ctx =
  vc_pay :: pay_env
  vc_vipEnabled :: bool
  vc_session :: "string \<Rightarrow> vip_session option"
  vc_now :: millis
  vc_periodStart :: millis

definition vc_env :: "vip_ctx \<Rightarrow> env" where
  "vc_env c = pe_env (vc_pay c)"

definition wallets :: "vip_state \<Rightarrow> coin_store" where
  "wallets st = store (vs_pay st)"

definition upd_wallets :: "(coin_store \<Rightarrow> coin_store) \<Rightarrow> vip_state \<Rightarrow> vip_state" where
  "upd_wallets f st = st\<lparr>vs_pay := upd_store f (vs_pay st)\<rparr>"

definition find_member :: "string \<Rightarrow> vip_state \<Rightarrow> vip_membership option" where
  "find_member uid st = List.find (\<lambda>m. vm_userId m = uid) (vs_members st)"

definition update_membership :: "string \<Rightarrow> (vip_membership \<Rightarrow> vip_membership) \<Rightarrow> vip_state \<Rightarrow> vip_state" where
  "update_membership uid f st = st\<lparr>vs_members := map (\<lambda>m. if vm_userId m = uid then f m else m) (vs_members st)\<rparr>"

text \<open>An operation that may throw, and what it does to the state before.\<close>

type_synonym 'a vip_op = "vip_state \<Rightarrow> (string + 'a) \<times> vip_state"

definition vip_bind :: "(string + 'a) \<times> vip_state \<Rightarrow> ('a \<Rightarrow> 'b vip_op) \<Rightarrow> (string + 'b) \<times> vip_state" where
  "vip_bind r f = (case r of (Inl e, st) \<Rightarrow> (Inl e, st) | (Inr a, st) \<Rightarrow> f a st)"

definition on_plans :: "(vip_plan list \<Rightarrow> 'a \<times> vip_plan list) \<Rightarrow> vip_state \<Rightarrow> 'a \<times> vip_state" where
  "on_plans f st = (let (r, ps) = f (vs_plans st) in (r, st\<lparr>vs_plans := ps\<rparr>))"

section \<open>Entitlement\<close>

definition membership_active :: "millis \<Rightarrow> vip_membership \<Rightarrow> bool" where
  "membership_active now m \<longleftrightarrow> vm_status m = vip_active \<and> now < vm_expiresAt m"

text \<open>\<open>Math.ceil(ms / 1000)\<close> seconds, and at least a minute.\<close>

definition cacheVipActive :: "millis \<Rightarrow> string \<Rightarrow> bool \<Rightarrow> millis option \<Rightarrow> vip_state \<Rightarrow> vip_state" where
  "cacheVipActive now uid active expiresAt st =
     (case expiresAt of
        None \<Rightarrow> st\<lparr>vs_cache := (vs_cache st)(uid := None)\<rparr>
      | Some e \<Rightarrow>
          if \<not> active then st\<lparr>vs_cache := (vs_cache st)(uid := None)\<rparr>
          else st\<lparr>vs_cache := (vs_cache st)(uid \<mapsto> now + max 60 (- (- (e - now) div 1000)) * 1000)\<rparr>)"

definition invalidateVipCache :: "string \<Rightarrow> vip_state \<Rightarrow> vip_state" where
  "invalidateVipCache uid st = st\<lparr>vs_cache := (vs_cache st)(uid := None)\<rparr>"

definition cached_active :: "millis \<Rightarrow> string \<Rightarrow> vip_state \<Rightarrow> bool" where
  "cached_active now uid st = (case vs_cache st uid of None \<Rightarrow> False | Some t \<Rightarrow> now < t)"

definition set_vipExpiresAt :: "string \<Rightarrow> millis option \<Rightarrow> vip_state \<Rightarrow> vip_state" where
  "set_vipExpiresAt uid e = upd_wallets (update_account uid (\<lambda>a. a\<lparr>a_vipExpiresAt := e\<rparr>))"

text \<open>The writes that follow when the read found a lapsed membership marked active.\<close>

definition expire_membership :: "(nat \<Rightarrow> vip_state \<Rightarrow> vip_state) \<Rightarrow> string \<Rightarrow> vip_state \<Rightarrow> vip_state" where
  "expire_membership others uid st =
     set_vipExpiresAt uid None (others 1 (update_membership uid (\<lambda>m. m\<lparr>vm_status := vip_expired\<rparr>) (others 0 st)))"

definition isVipActive :: "vip_ctx \<Rightarrow> (nat \<Rightarrow> vip_state \<Rightarrow> vip_state) \<Rightarrow> string \<Rightarrow> vip_state \<Rightarrow> bool \<times> vip_state" where
  "isVipActive c others uid st =
     (if \<not> vc_vipEnabled c then (False, st)
      else if cached_active (vc_now c) uid st then (True, st)
      else (case find_member uid st of
              None \<Rightarrow> (False, cacheVipActive (vc_now c) uid False None (others 2 st))
            | Some m \<Rightarrow>
                (let active = membership_active (vc_now c) m;
                     st1 = (if \<not> active \<and> vm_status m = vip_active then expire_membership others uid st else st)
                 in (active, cacheVipActive (vc_now c) uid active (if active then Some (vm_expiresAt m) else None) (others 2 st1)))))"

text \<open>The plan whose perks everybody gets: the first in display order.\<close>

definition getPlanPerks :: "vip_ctx \<Rightarrow> vip_plan vip_op" where
  "getPlanPerks c = on_plans (getOrCreateVipPlanConfig (vc_env c))"

definition getRemainingFreeMoments :: "vip_ctx \<Rightarrow> (nat \<Rightarrow> vip_state \<Rightarrow> vip_state) \<Rightarrow> string \<Rightarrow> int vip_op" where
  "getRemainingFreeMoments c others uid st =
     (let (active, st1) = isVipActive c others uid st
      in if \<not> active then (Inr 0, st1)
         else vip_bind (getPlanPerks c (others 3 st1))
                (\<lambda>p st2. (Inr (max 0 (pl_freeMomentsPerDay p - num0 (vs_usage st2 (uid, vc_periodStart c)))), st2)))"

text \<open>The upsert, the check on what it returned, and the write of the count that was read plus one.\<close>

definition incrementDailyMomentUsage :: "vip_ctx \<Rightarrow> (nat \<Rightarrow> vip_state \<Rightarrow> vip_state) \<Rightarrow> string \<Rightarrow> int vip_op" where
  "incrementDailyMomentUsage c others uid st =
     vip_bind (getPlanPerks c st)
       (\<lambda>p st1.
          let key = (uid, vc_periodStart c);
              redeemed = num0 (vs_usage st1 key);
              st2 = st1\<lparr>vs_usage := (vs_usage st1)(key \<mapsto> redeemed)\<rparr>
          in if pl_freeMomentsPerDay p \<le> redeemed then (Inl ''VIP_DAILY_MOMENT_QUOTA_EXHAUSTED'', st2)
             else (let st3 = others 0 st2
                   in (Inr (max 0 (pl_freeMomentsPerDay p - (redeemed + 1))),
                       st3\<lparr>vs_usage := (vs_usage st3)(key \<mapsto> redeemed + 1)\<rparr>)))"

definition applyRechargeDiscount :: "vip_ctx \<Rightarrow> int \<Rightarrow> int vip_op" where
  "applyRechargeDiscount c priceInr st =
     vip_bind (getPlanPerks c st) (\<lambda>p st1. (Inr (applyBpsDiscount priceInr (pl_rechargeDiscountBps p)), st1))"

definition applyMomentDiscount :: "vip_ctx \<Rightarrow> int \<Rightarrow> int vip_op" where
  "applyMomentDiscount c priceCoins st =
     vip_bind (getPlanPerks c st) (\<lambda>p st1. (Inr (applyBpsDiscount priceCoins (pl_momentDiscountBps p)), st1))"

text \<open>The price, whether the discount was applied, the original price.\<close>

definition applyRechargeDiscountForUser ::
  "vip_ctx \<Rightarrow> (nat \<Rightarrow> vip_state \<Rightarrow> vip_state) \<Rightarrow> string \<Rightarrow> int \<Rightarrow> (int \<times> bool \<times> int) vip_op" where
  "applyRechargeDiscountForUser c others uid priceInr st =
     (let (active, st1) = isVipActive c others uid st
      in if \<not> active then (Inr (priceInr, False, priceInr), st1)
         else vip_bind (applyRechargeDiscount c priceInr (others 3 st1)) (\<lambda>d st2. (Inr (d, True, priceInr), st2)))"

record moment_price =
  mp_priceCoins :: int
  mp_originalPriceCoins :: int
  mp_vipFreeUnlockAvailable :: bool
  mp_discountApplied :: bool

definition resolveMomentPriceForUser ::
  "vip_ctx \<Rightarrow> (nat \<Rightarrow> vip_state \<Rightarrow> vip_state) \<Rightarrow> string \<Rightarrow> int \<Rightarrow> moment_price vip_op" where
  "resolveMomentPriceForUser c others uid base st =
     (let (active, st1) = isVipActive c others uid st
      in if \<not> active
         then (Inr \<lparr> mp_priceCoins = base, mp_originalPriceCoins = base, mp_vipFreeUnlockAvailable = False, mp_discountApplied = False \<rparr>, st1)
         else vip_bind (getRemainingFreeMoments c (\<lambda>n. others (4 + n)) uid (others 3 st1))
                (\<lambda>remaining st2.
                   if 0 < remaining
                   then (Inr \<lparr> mp_priceCoins = 0, mp_originalPriceCoins = base, mp_vipFreeUnlockAvailable = True, mp_discountApplied = False \<rparr>, st2)
                   else vip_bind (applyMomentDiscount c base (others 8 st2))
                          (\<lambda>d st3. (Inr \<lparr> mp_priceCoins = d, mp_originalPriceCoins = base, mp_vipFreeUnlockAvailable = False,
                                          mp_discountApplied = (d < base) \<rparr>, st3))))"

record vip_status_dto =
  vd_active :: bool
  vd_expiresAt :: "millis option"
  vd_daysRemaining :: int
  vd_planId :: "string option"
  vd_freeMomentsRemainingToday :: int
  vd_freeMomentsDailyLimit :: int
  vd_rechargeDiscountPercent :: rat
  vd_momentDiscountPercent :: rat

definition getVipStatus :: "vip_ctx \<Rightarrow> (nat \<Rightarrow> vip_state \<Rightarrow> vip_state) \<Rightarrow> string \<Rightarrow> vip_status_dto vip_op" where
  "getVipStatus c others uid st =
     vip_bind (getPlanPerks c st)
       (\<lambda>p st1.
          let m = find_member uid st1;
              lapsed = (case m of None \<Rightarrow> False | Some v \<Rightarrow> vm_status v = vip_active \<and> \<not> membership_active (vc_now c) v);
              st2 = (if lapsed then expire_membership others uid st1 else st1);
              active = (vc_vipEnabled c \<and> (case m of None \<Rightarrow> False | Some v \<Rightarrow> membership_active (vc_now c) v));
              expires = map_option vm_expiresAt m
          in vip_bind (if active then getRemainingFreeMoments c (\<lambda>n. others (2 + n)) uid st2 else (Inr 0, st2))
               (\<lambda>free st3.
                  (Inr \<lparr> vd_active = active, vd_expiresAt = expires,
                         vd_daysRemaining = (case expires of
                                               None \<Rightarrow> 0
                                             | Some e \<Rightarrow> if active then max 0 (- (- (e - vc_now c) div 86400000)) else 0),
                         vd_planId = map_option vm_planId m, vd_freeMomentsRemainingToday = free,
                         vd_freeMomentsDailyLimit = pl_freeMomentsPerDay p,
                         vd_rechargeDiscountPercent = of_int (pl_rechargeDiscountBps p) / 100,
                         vd_momentDiscountPercent = of_int (pl_momentDiscountBps p) / 100 \<rparr>, st3)))"

end
