(* ===== verification/VipQueue.thy ===== *)
theory VipQueue
  imports Vip
begin

text \<open>
  What a member may do beside the perks: wait for a busy creator (\<open>vip-call-queue.service.ts\<close>) and schedule
  a call (\<open>vip-scheduling.service.ts\<close>, \<open>vip-scheduling.controller.ts\<close>), and the job that keeps both
  (\<open>vip-scheduling.reconciliation.ts\<close>).

  The collections are the lists of their documents, and the id of a document is its position: the module
  deletes none. A queue of Redis is the sorted set \<open>call:queue:\<close> of a creator with the instant at which the
  key expires. What other requests do between two commands is \<open>others\<close>; \<open>vo\<close> is the same inside \<open>isVipActive\<close>.
\<close>

section \<open>Sorted sets\<close>

type_synonym zset = "(string \<times> int) list"

fun str_less :: "string \<Rightarrow> string \<Rightarrow> bool" where
  "str_less s [] = False"
| "str_less [] (b # t) = True"
| "str_less (a # s) (b # t) = ((of_char a :: nat) < of_char b \<or> a = b \<and> str_less s t)"

text \<open>By score, and members of the same score by their bytes.\<close>

definition zbefore :: "string \<times> int \<Rightarrow> string \<times> int \<Rightarrow> bool" where
  "zbefore x y \<longleftrightarrow> snd x < snd y \<or> snd x = snd y \<and> str_less (fst x) (fst y)"

fun zset_insert :: "string \<times> int \<Rightarrow> zset \<Rightarrow> zset" where
  "zset_insert x [] = [x]"
| "zset_insert x (y # ys) = (if zbefore y x then y # zset_insert x ys else x # y # ys)"

definition zrem_set :: "string \<Rightarrow> zset \<Rightarrow> zset" where
  "zrem_set m z = filter (\<lambda>x. fst x \<noteq> m) z"

fun zrank :: "string \<Rightarrow> zset \<Rightarrow> nat option" where
  "zrank m [] = None"
| "zrank m (x # xs) = (if fst x = m then Some 0 else map_option Suc (zrank m xs))"

section \<open>State\<close>

datatype queue_status = q_waiting | q_ringing | q_expired | q_cancelled

record queue_entry =
  qe_creator :: string
  qe_caller :: string
  qe_callerUserId :: string
  qe_enqueuedAt :: millis
  qe_expiresAt :: millis
  qe_status :: queue_status
  qe_callId :: string

datatype schedule_status = pending_creator | confirmed | sched_cancelled | sched_completed | sched_missed

datatype schedule_actor = by_caller | by_creator | by_system

record scheduled_call =
  sc_callerUserId :: string
  sc_creatorId :: string
  sc_creatorFirebaseUid :: string
  sc_scheduledAt :: millis
  sc_durationMinutes :: int
  sc_status :: schedule_status
  sc_notes :: "string option"
  sc_reminderSentAt :: "millis option"
  sc_confirmedAt :: "millis option"
  sc_cancelledAt :: "millis option"
  sc_cancelledBy :: "schedule_actor option"

record creator_profile =
  co_id :: string
  co_userId :: string

datatype queue_event =
    CallQueued string string int nat
  | CallDequeued string string nat
  | ScheduledCallDue string nat

record queue_state =
  q_vip :: vip_state
  q_creators :: "creator_profile list"
  q_entries :: "queue_entry list"
  q_sets :: "string \<Rightarrow> zset"
  q_ttl :: "string \<Rightarrow> millis"
  q_calls :: "scheduled_call list"
  q_events :: "queue_event list"

definition VIP_QUEUE_TTL_SEC :: "env \<Rightarrow> int" where
  "VIP_QUEUE_TTL_SEC env = readIntEnv env ''VIP_CALL_QUEUE_TTL_SEC'' (15 * 60)"

definition VIP_SCHEDULE_MIN_LEAD_MINUTES :: "env \<Rightarrow> int" where
  "VIP_SCHEDULE_MIN_LEAD_MINUTES env = readIntEnv env ''VIP_SCHEDULE_MIN_LEAD_MINUTES'' 30"

definition VIP_SCHEDULE_MAX_DAYS_AHEAD :: "env \<Rightarrow> int" where
  "VIP_SCHEDULE_MAX_DAYS_AHEAD env = readIntEnv env ''VIP_SCHEDULE_MAX_DAYS_AHEAD'' 7"

definition emit_queue :: "queue_event \<Rightarrow> queue_state \<Rightarrow> queue_state" where
  "emit_queue e st = st\<lparr>q_events := q_events st @ [e]\<rparr>"

definition live_set :: "millis \<Rightarrow> string \<Rightarrow> queue_state \<Rightarrow> zset" where
  "live_set now k st = (if now < q_ttl st k then q_sets st k else [])"

text \<open>\<open>zadd\<close> on a key that may have expired, and \<open>zrem\<close>.\<close>

definition queue_zadd :: "millis \<Rightarrow> string \<Rightarrow> int \<Rightarrow> string \<Rightarrow> queue_state \<Rightarrow> queue_state" where
  "queue_zadd now k score m st = st\<lparr>q_sets := (q_sets st)(k := zset_insert (m, score) (zrem_set m (live_set now k st)))\<rparr>"

definition zexpire :: "millis \<Rightarrow> string \<Rightarrow> queue_state \<Rightarrow> queue_state" where
  "zexpire due k st = st\<lparr>q_ttl := (q_ttl st)(k := due)\<rparr>"

definition queue_zrem :: "string \<Rightarrow> string \<Rightarrow> queue_state \<Rightarrow> queue_state" where
  "queue_zrem k m st = st\<lparr>q_sets := (q_sets st)(k := zrem_set m (q_sets st k))\<rparr>"

text \<open>\<open>updateMany\<close>: the entries that match, with a new status.\<close>

definition set_entries :: "(queue_entry \<Rightarrow> bool) \<Rightarrow> queue_status \<Rightarrow> queue_state \<Rightarrow> queue_state" where
  "set_entries P s st = st\<lparr>q_entries := map (\<lambda>e. if P e then e\<lparr>qe_status := s\<rparr> else e) (q_entries st)\<rparr>"

definition waits :: "string \<Rightarrow> string \<Rightarrow> queue_entry \<Rightarrow> bool" where
  "waits creator caller e \<longleftrightarrow> qe_creator e = creator \<and> qe_caller e = caller \<and> qe_status e = q_waiting"

text \<open>The position of the first document that matches.\<close>

fun find_index :: "('a \<Rightarrow> bool) \<Rightarrow> 'a list \<Rightarrow> nat option" where
  "find_index P [] = None"
| "find_index P (x # xs) = (if P x then Some 0 else map_option Suc (find_index P xs))"

section \<open>The queue\<close>

definition getQueuePosition :: "millis \<Rightarrow> string \<Rightarrow> string \<Rightarrow> queue_state \<Rightarrow> int" where
  "getQueuePosition now creator caller st =
     (case zrank caller (live_set now creator st) of None \<Rightarrow> 0 | Some r \<Rightarrow> int r + 1)"

text \<open>
  The insert after the lookup meets the unique index on waiting entries. The answer: position and entry.
\<close>

definition insert_entry ::
  "vip_ctx \<Rightarrow> (nat \<Rightarrow> queue_state \<Rightarrow> queue_state) \<Rightarrow> string \<Rightarrow> string \<Rightarrow> string \<Rightarrow> string \<Rightarrow> queue_state
   \<Rightarrow> (string + (int \<times> nat) option) \<times> queue_state" where
  "insert_entry c others creator caller callerUserId cid st =
     (if list_ex (waits creator caller) (q_entries st) then (Inl ''E11000'', st)
      else (let now = vc_now c; ttl = VIP_QUEUE_TTL_SEC (vc_env c); i = length (q_entries st);
                st1 = st\<lparr>q_entries := q_entries st @
                        [\<lparr> qe_creator = creator, qe_caller = caller, qe_callerUserId = callerUserId, qe_enqueuedAt = now,
                           qe_expiresAt = now + ttl * 1000, qe_status = q_waiting, qe_callId = cid \<rparr>]\<rparr>;
                st2 = zexpire (now + ttl * 1000) creator (queue_zadd now creator now caller (others 2 st1));
                st3 = others 3 st2;
                position = getQueuePosition now creator caller st3
            in (Inr (Some (position, i)), emit_queue (CallQueued caller creator position i) st3)))"

definition enqueueVipCaller ::
  "vip_ctx \<Rightarrow> bool \<Rightarrow> (nat \<Rightarrow> vip_state \<Rightarrow> vip_state) \<Rightarrow> (nat \<Rightarrow> queue_state \<Rightarrow> queue_state) \<Rightarrow> string \<Rightarrow> string \<Rightarrow> string \<Rightarrow> string
   \<Rightarrow> queue_state \<Rightarrow> (string + (int \<times> nat) option) \<times> queue_state" where
  "enqueueVipCaller c queueEnabled vo others creator caller callerUserId cid st =
     (if \<not> queueEnabled then (Inr None, st)
      else (let (active, v) = isVipActive c vo callerUserId (q_vip st); st1 = st\<lparr>q_vip := v\<rparr>
            in if \<not> active then (Inr None, st1)
               else (let st2 = others 0 st1
                     in case find_index (waits creator caller) (q_entries st2) of
                          Some i \<Rightarrow> (Inr (Some (getQueuePosition (vc_now c) creator caller (others 1 st2), i)), others 1 st2)
                        | None \<Rightarrow> insert_entry c others creator caller callerUserId cid (others 1 st2))))"

definition leaveCallQueue :: "(nat \<Rightarrow> queue_state \<Rightarrow> queue_state) \<Rightarrow> string \<Rightarrow> string \<Rightarrow> queue_state \<Rightarrow> queue_state" where
  "leaveCallQueue others creator caller st = set_entries (waits creator caller) q_cancelled (others 0 (queue_zrem creator caller st))"

text \<open>The head of the queue is removed, then its entry is claimed if it still waits.\<close>

definition popNextQueuedCaller ::
  "millis \<Rightarrow> bool \<Rightarrow> (nat \<Rightarrow> queue_state \<Rightarrow> queue_state) \<Rightarrow> string \<Rightarrow> queue_state \<Rightarrow> (string \<times> string \<times> nat) option \<times> queue_state" where
  "popNextQueuedCaller now queueEnabled others creator st =
     (if \<not> queueEnabled then (None, st)
      else (case live_set now creator st of
              [] \<Rightarrow> (None, st)
            | (caller, score) # rest \<Rightarrow>
                (let st2 = others 1 (queue_zrem creator caller (others 0 st))
                 in case find_index (\<lambda>e. waits creator caller e \<and> now < qe_expiresAt e) (q_entries st2) of
                      None \<Rightarrow> (None, st2)
                    | Some i \<Rightarrow>
                        (Some (caller, qe_callerUserId (q_entries st2 ! i), i),
                         emit_queue (CallDequeued caller creator i)
                           (st2\<lparr>q_entries := (q_entries st2)[i := (q_entries st2 ! i)\<lparr>qe_status := q_ringing\<rparr>]\<rparr>)))))"

text \<open>Creator, position, entry and time of each live entry of the caller, the oldest first.\<close>

definition getCallerQueueStatus :: "millis \<Rightarrow> string \<Rightarrow> queue_state \<Rightarrow> (string \<times> int \<times> nat \<times> millis) list" where
  "getCallerQueueStatus now caller st =
     map (\<lambda>(i, e). (qe_creator e, getQueuePosition now (qe_creator e) caller st, i, qe_enqueuedAt e))
       (sort_key (\<lambda>(i, e). qe_enqueuedAt e)
         (filter (\<lambda>(i, e). qe_caller e = caller \<and> qe_status e = q_waiting \<and> now < qe_expiresAt e)
           (zip [0..<length (q_entries st)] (q_entries st))))"

definition stale :: "millis \<Rightarrow> queue_entry \<Rightarrow> bool" where
  "stale now e \<longleftrightarrow> qe_status e = q_waiting \<and> qe_expiresAt e \<le> now"

definition expireStaleQueueEntries :: "millis \<Rightarrow> (nat \<Rightarrow> queue_state \<Rightarrow> queue_state) \<Rightarrow> queue_state \<Rightarrow> nat \<times> queue_state" where
  "expireStaleQueueEntries now others st =
     (let st1 = fold (\<lambda>e. queue_zrem (qe_creator e) (qe_caller e)) (filter (stale now) (q_entries st)) (others 0 st);
          st2 = others 1 st1
      in (length (filter (stale now) (q_entries st2)), set_entries (stale now) q_expired st2))"

section \<open>Scheduled calls\<close>

definition find_user_id :: "string \<Rightarrow> queue_state \<Rightarrow> account option" where
  "find_user_id uid st = findById uid (wallets (q_vip st))"

text \<open>
  \<open>scheduledAt\<close> is \<open>None\<close> for an invalid date, which passes both comparisons and fails the validation of
  the insert.
\<close>

definition scheduleVipCall ::
  "vip_ctx \<Rightarrow> bool \<Rightarrow> (nat \<Rightarrow> vip_state \<Rightarrow> vip_state) \<Rightarrow> string \<Rightarrow> string \<Rightarrow> millis option \<Rightarrow> int option \<Rightarrow> string option
   \<Rightarrow> queue_state \<Rightarrow> (string + nat) \<times> queue_state" where
  "scheduleVipCall c schedulingEnabled vo callerUserId creatorId scheduledAt durationMinutes notes st =
     (if \<not> schedulingEnabled then (Inl ''SCHEDULING_DISABLED'', st)
      else (let (active, v) = isVipActive c vo callerUserId (q_vip st); st1 = st\<lparr>q_vip := v\<rparr>
            in if \<not> active then (Inl ''VIP_REQUIRED'', st1)
               else (case List.find (\<lambda>k. co_id k = creatorId) (q_creators st1) of
                  None \<Rightarrow> (Inl ''CREATOR_NOT_FOUND'', st1)
                | Some creator \<Rightarrow>
                    (case find_user_id (co_userId creator) st1 of
                       None \<Rightarrow> (Inl ''CREATOR_USER_NOT_FOUND'', st1)
                     | Some cu \<Rightarrow>
                         if a_firebaseUid cu = [] then (Inl ''CREATOR_USER_NOT_FOUND'', st1)
                         else (let minAt = vc_now c + VIP_SCHEDULE_MIN_LEAD_MINUTES (vc_env c) * 60 * 1000;
                                   maxAt = vc_now c + VIP_SCHEDULE_MAX_DAYS_AHEAD (vc_env c) * 24 * 60 * 60 * 1000;
                                   minutes = nvl durationMinutes 15
                               in case scheduledAt of
                                    None \<Rightarrow> (Inl ''ValidationError'', st1)
                                  | Some t \<Rightarrow>
                                      if t < minAt then (Inl ''SCHEDULE_TOO_SOON'', st1)
                                      else if maxAt < t then (Inl ''SCHEDULE_TOO_FAR'', st1)
                                      else if minutes < 5 \<or> 120 < minutes then (Inl ''ValidationError'', st1)
                                      else (Inr (length (q_calls st1)),
                                            st1\<lparr>q_calls := q_calls st1 @
                                              [\<lparr> sc_callerUserId = callerUserId, sc_creatorId = creatorId, sc_creatorFirebaseUid = a_firebaseUid cu,
                                                 sc_scheduledAt = t, sc_durationMinutes = minutes, sc_status = pending_creator,
                                                 sc_notes = map_option (\<lambda>s. take 500 (js_trim s)) notes, sc_reminderSentAt = None,
                                                 sc_confirmedAt = None, sc_cancelledAt = None, sc_cancelledBy = None \<rparr>]\<rparr>))))))"

text \<open>\<open>save\<close> writes the fields that were set, whatever the document has become.\<close>

definition save_call :: "nat \<Rightarrow> (scheduled_call \<Rightarrow> scheduled_call) \<Rightarrow> queue_state \<Rightarrow> queue_state" where
  "save_call i f st = st\<lparr>q_calls := (q_calls st)[i := f (q_calls st ! i)]\<rparr>"

definition call_at :: "nat \<Rightarrow> queue_state \<Rightarrow> scheduled_call option" where
  "call_at i st = (if i < length (q_calls st) then Some (q_calls st ! i) else None)"

definition confirmScheduledCall ::
  "millis \<Rightarrow> (nat \<Rightarrow> queue_state \<Rightarrow> queue_state) \<Rightarrow> nat \<Rightarrow> string \<Rightarrow> queue_state \<Rightarrow> (string + nat) \<times> queue_state" where
  "confirmScheduledCall now others i creatorId st =
     (case call_at i st of
        None \<Rightarrow> (Inl ''NOT_FOUND'', st)
      | Some k \<Rightarrow>
          if sc_creatorId k \<noteq> creatorId then (Inl ''NOT_FOUND'', st)
          else if sc_status k \<noteq> pending_creator then (Inl ''INVALID_STATUS'', st)
          else (Inr i, save_call i (\<lambda>k. k\<lparr>sc_status := confirmed, sc_confirmedAt := Some now\<rparr>) (others 0 st)))"

definition cancelScheduledCall ::
  "millis \<Rightarrow> (nat \<Rightarrow> queue_state \<Rightarrow> queue_state) \<Rightarrow> nat \<Rightarrow> string \<Rightarrow> bool \<Rightarrow> queue_state \<Rightarrow> (string + nat) \<times> queue_state" where
  "cancelScheduledCall now others i actorUserId actorIsCreator st =
     (case call_at i st of
        None \<Rightarrow> (Inl ''NOT_FOUND'', st)
      | Some k \<Rightarrow>
          (let isCaller = (sc_callerUserId k = actorUserId); isCreator = (actorIsCreator \<and> sc_creatorId k = actorUserId)
           in if \<not> isCaller \<and> \<not> isCreator then (Inl ''FORBIDDEN'', st)
              else if sc_status k \<in> {sched_cancelled, sched_completed, sched_missed} then (Inl ''INVALID_STATUS'', st)
              else (Inr i, save_call i (\<lambda>k. k\<lparr>sc_status := sched_cancelled, sc_cancelledAt := Some now,
                                              sc_cancelledBy := Some (if isCreator then by_creator else by_caller)\<rparr>) (others 0 st))))"

definition listCallerScheduledCalls :: "string \<Rightarrow> queue_state \<Rightarrow> scheduled_call list" where
  "listCallerScheduledCalls uid st =
     take 50 (sort_key (\<lambda>k. - sc_scheduledAt k) (filter (\<lambda>k. sc_callerUserId k = uid) (q_calls st)))"

definition listCreatorIncomingScheduledCalls :: "millis \<Rightarrow> string \<Rightarrow> queue_state \<Rightarrow> scheduled_call list" where
  "listCreatorIncomingScheduledCalls now creatorId st =
     take 50 (sort_key sc_scheduledAt
       (filter (\<lambda>k. sc_creatorId k = creatorId \<and> sc_status k \<in> {pending_creator, confirmed} \<and> now \<le> sc_scheduledAt k) (q_calls st)))"

definition getDueScheduledCalls :: "millis \<Rightarrow> int \<Rightarrow> queue_state \<Rightarrow> scheduled_call list" where
  "getDueScheduledCalls now withinMinutes st =
     filter (\<lambda>k. sc_status k = confirmed \<and> sc_scheduledAt k \<le> now + withinMinutes * 60 * 1000 \<and>
       now - 5 * 60 * 1000 \<le> sc_scheduledAt k \<and> sc_reminderSentAt k = None) (q_calls st)"

section \<open>Handlers\<close>

text \<open>The user and the creator profile of the request, after the guards every handler has.\<close>

definition vip_request_user :: "vip_ctx \<Rightarrow> string option \<Rightarrow> queue_state \<Rightarrow> answer + account" where
  "vip_request_user c auth st =
     (if \<not> vc_vipEnabled c then Inl (503, ''VIP is not available yet'')
      else (case auth of
              None \<Rightarrow> Inl (401, ''Unauthorized'')
            | Some fuid \<Rightarrow>
                (case List.find (\<lambda>a. a_firebaseUid a = fuid) (accounts (wallets (q_vip st))) of
                   None \<Rightarrow> Inl (404, ''User not found'')
                 | Some u \<Rightarrow> Inr u)))"

definition creator_of_user :: "string \<Rightarrow> queue_state \<Rightarrow> creator_profile option" where
  "creator_of_user uid st = List.find (\<lambda>k. co_userId k = uid) (q_creators st)"

text \<open>An error of the scheduling service keeps its code; any other is a 500.\<close>

definition scheduling_answer :: "string \<Rightarrow> answer" where
  "scheduling_answer e = (if e = ''ValidationError'' then (500, ''Failed to schedule call'') else (400, e))"

definition scheduleCall ::
  "vip_ctx \<Rightarrow> bool \<Rightarrow> (nat \<Rightarrow> vip_state \<Rightarrow> vip_state) \<Rightarrow> string option \<Rightarrow> string \<Rightarrow> string \<Rightarrow> millis option \<Rightarrow> int option \<Rightarrow> string option
   \<Rightarrow> queue_state \<Rightarrow> answer \<times> queue_state" where
  "scheduleCall c schedulingEnabled vo auth creatorId rawDate date durationMinutes notes st =
     (if vc_vipEnabled c \<and> auth \<noteq> None \<and> (creatorId = [] \<or> rawDate = []) then ((400, ''creatorId and scheduledAt are required''), st)
      else (case vip_request_user c auth st of
              Inl a \<Rightarrow> (a, st)
            | Inr u \<Rightarrow>
                (case scheduleVipCall c schedulingEnabled vo (a_id u) creatorId date durationMinutes notes st of
                   (Inl e, st1) \<Rightarrow> (scheduling_answer e, st1)
                 | (Inr i, st1) \<Rightarrow> ((201, ''scheduled''), st1))))"

definition confirmScheduledCallHandler ::
  "vip_ctx \<Rightarrow> (nat \<Rightarrow> queue_state \<Rightarrow> queue_state) \<Rightarrow> string option \<Rightarrow> nat \<Rightarrow> queue_state \<Rightarrow> answer \<times> queue_state" where
  "confirmScheduledCallHandler c others auth i st =
     (case vip_request_user c auth st of
        Inl a \<Rightarrow> (a, st)
      | Inr u \<Rightarrow>
          (case creator_of_user (a_id u) st of
             None \<Rightarrow> ((403, ''Creator profile required''), st)
           | Some k \<Rightarrow>
               (case confirmScheduledCall (vc_now c) others i (co_id k) st of
                  (Inl e, st1) \<Rightarrow> ((if e = ''NOT_FOUND'' then 404 else 400, e), st1)
                | (Inr _, st1) \<Rightarrow> ((200, ''confirmed''), st1))))"

definition cancelScheduledCallHandler ::
  "vip_ctx \<Rightarrow> (nat \<Rightarrow> queue_state \<Rightarrow> queue_state) \<Rightarrow> string option \<Rightarrow> nat \<Rightarrow> queue_state \<Rightarrow> answer \<times> queue_state" where
  "cancelScheduledCallHandler c others auth i st =
     (case vip_request_user c auth st of
        Inl a \<Rightarrow> (a, st)
      | Inr u \<Rightarrow>
          (case cancelScheduledCall (vc_now c) others i (a_id u) (creator_of_user (a_id u) st \<noteq> None) st of
             (Inl e, st1) \<Rightarrow> ((if e = ''NOT_FOUND'' then 404 else if e = ''FORBIDDEN'' then 403 else 400, e), st1)
           | (Inr _, st1) \<Rightarrow> ((200, ''cancelled''), st1)))"

definition listIncomingScheduledCalls :: "vip_ctx \<Rightarrow> string option \<Rightarrow> queue_state \<Rightarrow> answer + scheduled_call list" where
  "listIncomingScheduledCalls c auth st =
     (case vip_request_user c auth st of
        Inl a \<Rightarrow> Inl a
      | Inr u \<Rightarrow>
          (case creator_of_user (a_id u) st of
             None \<Rightarrow> Inl (403, ''Creator profile required'')
           | Some k \<Rightarrow> Inr (listCreatorIncomingScheduledCalls (vc_now c) (co_id k) st)))"

definition leaveCallQueueHandler ::
  "vip_ctx \<Rightarrow> (nat \<Rightarrow> queue_state \<Rightarrow> queue_state) \<Rightarrow> string option \<Rightarrow> string \<Rightarrow> queue_state \<Rightarrow> answer \<times> queue_state" where
  "leaveCallQueueHandler c others auth creator st =
     (if \<not> vc_vipEnabled c then ((503, ''VIP is not available yet''), st)
      else (case auth of
              None \<Rightarrow> ((401, ''Unauthorized''), st)
            | Some fuid \<Rightarrow>
                if creator = [] then ((400, ''creatorFirebaseUid is required''), st)
                else ((200, ''success''), leaveCallQueue others creator fuid st)))"

section \<open>The job\<close>

definition due :: "millis \<Rightarrow> scheduled_call \<Rightarrow> bool" where
  "due now k \<longleftrightarrow> sc_status k = confirmed \<and> sc_scheduledAt k \<le> now \<and> sc_reminderSentAt k = None"

text \<open>The claim of a reminder asks for the id and for no reminder yet, not for the status.\<close>

fun remind_calls :: "millis \<Rightarrow> (nat \<Rightarrow> queue_state \<Rightarrow> queue_state) \<Rightarrow> nat list \<Rightarrow> queue_state \<Rightarrow> queue_state" where
  "remind_calls now others [] st = st"
| "remind_calls now others (i # is) st =
     (let st1 = others i st
      in remind_calls now others is
           (case call_at i st1 of
              None \<Rightarrow> st1
            | Some k \<Rightarrow>
                if sc_reminderSentAt k \<noteq> None then st1
                else emit_queue (ScheduledCallDue (sc_creatorFirebaseUid k) i)
                       (save_call i (\<lambda>k. k\<lparr>sc_reminderSentAt := Some now\<rparr>) st1)))"

definition due_ids :: "millis \<Rightarrow> queue_state \<Rightarrow> nat list" where
  "due_ids now st = take 20 (filter (\<lambda>i. due now (q_calls st ! i)) [0..<length (q_calls st)])"

definition processDueScheduledCalls :: "millis \<Rightarrow> bool \<Rightarrow> (nat \<Rightarrow> queue_state \<Rightarrow> queue_state) \<Rightarrow> queue_state \<Rightarrow> queue_state" where
  "processDueScheduledCalls now schedulingEnabled others st =
     (if \<not> schedulingEnabled then st else remind_calls now others (due_ids now st) st)"

definition vip_tick ::
  "millis \<Rightarrow> bool \<Rightarrow> (nat \<Rightarrow> queue_state \<Rightarrow> queue_state) \<Rightarrow> (nat \<Rightarrow> queue_state \<Rightarrow> queue_state) \<Rightarrow> queue_state \<Rightarrow> queue_state" where
  "vip_tick now schedulingEnabled others1 others2 st =
     processDueScheduledCalls now schedulingEnabled others2 (snd (expireStaleQueueEntries now others1 st))"

definition getVipReconciliationLockTtlMs :: "int \<Rightarrow> int" where
  "getVipReconciliationLockTtlMs intervalMs = max (intervalMs * 2) 30000"

definition vip_reconciliation_interval :: "env \<Rightarrow> int" where
  "vip_reconciliation_interval env =
     max 15000 (or_else (js_parse_int (nvl (env ''VIP_RECONCILIATION_INTERVAL_MS'') [])) 60000)"

end
