(* ===== verification/VipQueueFlow.thy ===== *)
theory VipQueueFlow
  imports VipQueue
begin

text \<open>
  What the queue of VIP callers and the scheduled calls guarantee, whatever runs between the commands of
  an operation, and where they fail. The locale \<open>queue_kept\<close> is the contract: the commands that the
  operations are made of. A predicate that they keep is kept by every operation.
\<close>

section \<open>The order of a sorted set\<close>

lemma str_less_irrefl [simp]: "\<not> str_less s s"
  by (induction s) auto

lemma str_less_trans: "str_less s t \<Longrightarrow> str_less t u \<Longrightarrow> str_less s u"
proof (induction s t arbitrary: u rule: str_less.induct)
  case (2 b t)
  then show ?case by (cases u) auto
next
  case (3 a s b t)
  then show ?case by (cases u) auto
qed simp

lemma str_less_total: "s \<noteq> t \<Longrightarrow> str_less s t \<or> str_less t s"
proof (induction s t rule: str_less.induct)
  case (1 s)
  then show ?case by (cases s) auto
next
  case (3 a s b t)
  have n: "a \<noteq> b \<Longrightarrow> (of_char a :: nat) < of_char b \<or> (of_char b :: nat) < of_char a"
    by (metis char_of_char linorder_neqE_nat)
  show ?case using 3 n by (cases "a = b") auto
qed simp

lemma zbefore_trans: "zbefore x y \<Longrightarrow> zbefore y z \<Longrightarrow> zbefore x z"
  by (auto simp: zbefore_def intro: str_less_trans)

lemma zbefore_total: "fst x \<noteq> fst y \<Longrightarrow> zbefore x y \<or> zbefore y x"
  using str_less_total [of "fst x" "fst y"] by (auto simp: zbefore_def)

definition zset_ok :: "zset \<Rightarrow> bool" where
  "zset_ok z \<longleftrightarrow> sorted_wrt zbefore z \<and> distinct (map fst z)"

lemma set_zset_insert [simp]: "set (zset_insert x z) = insert x (set z)"
  by (induction z) auto

lemma zinsert_ok:
  assumes "zset_ok z" and "fst x \<notin> fst ` set z"
  shows "zset_ok (zset_insert x z)"
  using assms
proof (induction z)
  case (Cons y z)
  have k: "zset_ok (zset_insert x z)" using Cons by (auto simp: zset_ok_def)
  show ?case
  proof (cases "zbefore y x")
    case True
    then show ?thesis using k Cons.prems by (auto simp: zset_ok_def)
  next
    case False
    then have "zbefore x y" using zbefore_total [of y x] Cons.prems(2) by auto
    then show ?thesis using False Cons.prems by (auto simp: zset_ok_def intro: zbefore_trans)
  qed
qed (simp add: zset_ok_def)

lemma zrem_ok: "zset_ok z \<Longrightarrow> zset_ok (zrem_set m z)"
  by (auto simp: zset_ok_def zrem_set_def sorted_wrt_filter distinct_map_filter)

lemma zset_empty [simp]: "zset_ok []"
  by (simp add: zset_ok_def)

section \<open>The contract\<close>

locale queue_kept =
  fixes P :: "queue_state \<Rightarrow> bool"
  assumes vip: "P st \<Longrightarrow> P (st\<lparr>q_vip := v\<rparr>)"
    and entry: "P st \<Longrightarrow> \<not> list_ex (waits (qe_creator e) (qe_caller e)) (q_entries st) \<Longrightarrow> qe_status e = q_waiting \<Longrightarrow>
      P (st\<lparr>q_entries := q_entries st @ [e]\<rparr>)"
    and added: "P st \<Longrightarrow> P (queue_zadd now key score m st)"
    and removed: "P st \<Longrightarrow> P (queue_zrem key m st)"
    and timed: "P st \<Longrightarrow> P (zexpire t key st)"
    and told: "P st \<Longrightarrow> P (emit_queue (CallQueued caller creator n i) st)"
    and closed: "P st \<Longrightarrow> s \<noteq> q_ringing \<Longrightarrow> (\<And>e. Q e \<Longrightarrow> qe_status e = q_waiting) \<Longrightarrow> P (set_entries Q s st)"
    and rung: "P st \<Longrightarrow> i < length (q_entries st) \<Longrightarrow> qe_status (q_entries st ! i) = q_waiting \<Longrightarrow>
      P (emit_queue (CallDequeued caller creator i) (st\<lparr>q_entries := (q_entries st)[i := (q_entries st ! i)\<lparr>qe_status := q_ringing\<rparr>]\<rparr>))"
    and scheduled: "P st \<Longrightarrow> sc_reminderSentAt k = None \<Longrightarrow> P (st\<lparr>q_calls := q_calls st @ [k]\<rparr>)"
    and saved: "P st \<Longrightarrow> (\<And>k. sc_reminderSentAt (f k) = sc_reminderSentAt k) \<Longrightarrow> P (save_call i f st)"
    and reminded: "P st \<Longrightarrow> call_at i st = Some k \<Longrightarrow> sc_reminderSentAt k = None \<Longrightarrow>
      P (emit_queue (ScheduledCallDue fuid i) (save_call i (\<lambda>k. k\<lparr>sc_reminderSentAt := Some now\<rparr>) st))"
begin

definition keeps :: "(nat \<Rightarrow> queue_state \<Rightarrow> queue_state) \<Rightarrow> bool" where
  "keeps others \<longleftrightarrow> (\<forall>n s. P s \<longrightarrow> P (others n s))"

lemma keepsD: "keeps others \<Longrightarrow> P s \<Longrightarrow> P (others n s)"
  by (simp add: keeps_def)

lemma insert_kept:
  assumes "keeps others" and "P st"
  shows "P (snd (insert_entry c others creator caller cu cid st))"
  using assms(2) by (auto simp: insert_entry_def Let_def intro!: told timed added entry keepsD [OF assms(1)])

lemma enqueue_kept:
  assumes "keeps others" and "P st"
  shows "P (snd (enqueueVipCaller c enabled vo others creator caller cu cid st))"
proof -
  obtain a v where a: "isVipActive c vo cu (q_vip st) = (a, v)" by (meson surj_pair)
  show ?thesis
    using assms(2) a by (auto simp: enqueueVipCaller_def Let_def split: option.split
        intro!: insert_kept [OF assms(1)] vip keepsD [OF assms(1)])
qed

lemma leave_kept:
  assumes "keeps others" and "P st"
  shows "P (leaveCallQueue others creator caller st)"
  unfolding leaveCallQueue_def by (intro closed keepsD [OF assms(1)] removed assms(2)) (auto simp: waits_def)

lemma find_index_Some: "find_index Q xs = Some i \<Longrightarrow> i < length xs \<and> Q (xs ! i)"
  by (induction xs arbitrary: i) (auto split: if_splits)

lemma pop_kept:
  assumes "keeps others" and "P st"
  shows "P (snd (popNextQueuedCaller now enabled others creator st))"
proof -
  have s: "P (others 1 (queue_zrem creator caller (others 0 st)))" for caller
    by (intro keepsD [OF assms(1)] removed assms(2))
  show ?thesis
    using assms(2) s by (auto simp: popNextQueuedCaller_def Let_def waits_def dest!: find_index_Some split: list.split option.split intro!: rung)
qed

lemma zrems_kept: "P st \<Longrightarrow> P (fold (\<lambda>e. queue_zrem (qe_creator e) (qe_caller e)) es st)"
  by (induction es arbitrary: st) (auto intro: removed)

lemma sweep_kept:
  assumes "keeps others" and "P st"
  shows "P (snd (expireStaleQueueEntries now others st))"
proof -
  have "P (set_entries (stale now) q_expired (others 1 (fold (\<lambda>e. queue_zrem (qe_creator e) (qe_caller e)) es (others 0 st))))" for es
    by (intro closed keepsD [OF assms(1)] zrems_kept assms(2)) (auto simp: stale_def)
  then show ?thesis by (simp add: expireStaleQueueEntries_def Let_def)
qed

lemma schedule_kept:
  assumes "P st"
  shows "P (snd (scheduleVipCall c enabled vo caller creator date minutes notes st))"
proof -
  obtain a v where a: "isVipActive c vo caller (q_vip st) = (a, v)" by (meson surj_pair)
  have "P (st\<lparr>q_vip := v, q_calls := q_calls st @ [k]\<rparr>)" if "sc_reminderSentAt k = None" for k
    using scheduled [OF vip [OF assms] that, of v] by simp
  then show ?thesis using assms vip a by (auto simp: scheduleVipCall_def Let_def split: option.split)
qed

lemma confirm_kept:
  assumes "keeps others" and "P st"
  shows "P (snd (confirmScheduledCall now others i creator st))"
  using assms(2)
  by (auto simp: confirmScheduledCall_def call_at_def intro!: saved keepsD [OF assms(1)])

lemma cancel_kept:
  assumes "keeps others" and "P st"
  shows "P (snd (cancelScheduledCall now others i actor isc st))"
  using assms(2)
  by (auto simp: cancelScheduledCall_def Let_def call_at_def intro!: saved keepsD [OF assms(1)])

lemma remind_kept:
  assumes "keeps others" and "P st"
  shows "P (remind_calls now others is st)"
  using assms(2)
proof (induction "is" arbitrary: st)
  case (Cons i "is")
  note s = keepsD [OF assms(1) Cons.prems, of i]
  show ?case
    using Cons.IH [OF s] Cons.IH [OF reminded [OF s]] by (auto simp: Let_def split: option.split)
qed simp

lemma due_kept:
  assumes "keeps others" and "P st"
  shows "P (processDueScheduledCalls now enabled others st)"
  using remind_kept [OF assms] assms(2) by (simp add: processDueScheduledCalls_def)

lemma tick_kept:
  assumes "keeps others1" and "keeps others2" and "P st"
  shows "P (vip_tick now enabled others1 others2 st)"
  unfolding vip_tick_def by (intro due_kept sweep_kept assms)

end

section \<open>Runs\<close>

text \<open>
  Everything that can happen to the queue and the scheduled calls: operations one after the other, and
  inside each of them, between any two of its commands, a run of others.
\<close>

inductive queue_run :: "queue_state \<Rightarrow> queue_state \<Rightarrow> bool" where
  nothing: "queue_run st st"
| seq: "queue_run a b \<Longrightarrow> queue_run b d \<Longrightarrow> queue_run a d"
| enqueue: "(\<And>n s. queue_run s (others n s)) \<Longrightarrow>
    enqueueVipCaller c enabled vo others creator caller cu cid st = (r, st') \<Longrightarrow> queue_run st st'"
| leave: "(\<And>n s. queue_run s (others n s)) \<Longrightarrow> leaveCallQueue others creator caller st = st' \<Longrightarrow> queue_run st st'"
| pop: "(\<And>n s. queue_run s (others n s)) \<Longrightarrow> popNextQueuedCaller now enabled others creator st = (p, st') \<Longrightarrow> queue_run st st'"
| schedule: "scheduleVipCall c enabled vo caller creator date minutes notes st = (x, st') \<Longrightarrow> queue_run st st'"
| confirm: "(\<And>n s. queue_run s (others n s)) \<Longrightarrow> confirmScheduledCall now others i creator st = (x, st') \<Longrightarrow> queue_run st st'"
| cancel: "(\<And>n s. queue_run s (others n s)) \<Longrightarrow> cancelScheduledCall now others i actor isc st = (x, st') \<Longrightarrow> queue_run st st'"
| tick: "(\<And>n s. queue_run s (others1 n s)) \<Longrightarrow> (\<And>n s. queue_run s (others2 n s)) \<Longrightarrow>
    vip_tick now enabled others1 others2 st = st' \<Longrightarrow> queue_run st st'"

context queue_kept
begin

lemma run_kept:
  assumes "queue_run st st'" and "P st"
  shows "P st'"
  using assms
proof (induction rule: queue_run.induct)
  case (enqueue others c enabled vo creator caller cu cid st r st')
  then show ?case using enqueue_kept [of others st c enabled vo creator caller cu cid] by (simp add: keeps_def)
next
  case (leave others creator caller st st')
  then show ?case using leave_kept [of others st creator caller] by (simp add: keeps_def)
next
  case (pop others now enabled creator st p st')
  then show ?case using pop_kept [of others st now enabled creator] by (simp add: keeps_def)
next
  case (schedule c enabled vo caller creator date minutes ns st x st')
  then show ?case using schedule_kept [of st c enabled vo caller creator date minutes ns] by simp
next
  case (confirm others now i creator st x st')
  then show ?case using confirm_kept [of others st now i creator] by (simp add: keeps_def)
next
  case (cancel others now i actor isc st x st')
  then show ?case using cancel_kept [of others st now i actor isc] by (simp add: keeps_def)
next
  case (tick others1 others2 now enabled st st')
  then show ?case using tick_kept [of others1 others2 st now enabled] by (simp add: keeps_def)
qed auto

end

section \<open>Nobody is rung or reminded twice\<close>

definition rung_count :: "nat \<Rightarrow> queue_state \<Rightarrow> nat" where
  "rung_count i st = length (filter (\<lambda>e. case e of CallDequeued _ _ j \<Rightarrow> j = i | _ \<Rightarrow> False) (q_events st))"

definition reminded_count :: "nat \<Rightarrow> queue_state \<Rightarrow> nat" where
  "reminded_count i st = length (filter (\<lambda>e. case e of ScheduledCallDue _ j \<Rightarrow> j = i | _ \<Rightarrow> False) (q_events st))"

definition is_rung :: "nat \<Rightarrow> queue_state \<Rightarrow> bool" where
  "is_rung i st \<longleftrightarrow> i < length (q_entries st) \<and> qe_status (q_entries st ! i) = q_ringing"

definition is_reminded :: "nat \<Rightarrow> queue_state \<Rightarrow> bool" where
  "is_reminded i st \<longleftrightarrow> i < length (q_calls st) \<and> sc_reminderSentAt (q_calls st ! i) \<noteq> None"

definition once_ok :: "queue_state \<Rightarrow> bool" where
  "once_ok st \<longleftrightarrow>
     (\<forall>i. rung_count i st \<le> (if is_rung i st then 1 else 0) \<and> reminded_count i st \<le> (if is_reminded i st then 1 else 0))"

lemma queue_fields [simp]:
  "q_entries (queue_zadd now key score m st) = q_entries st" "q_entries (queue_zrem key m st) = q_entries st" "q_entries (zexpire t key st) = q_entries st"
  "q_calls (queue_zadd now key score m st) = q_calls st" "q_calls (queue_zrem key m st) = q_calls st" "q_calls (zexpire t key st) = q_calls st"
  "q_events (queue_zadd now key score m st) = q_events st" "q_events (queue_zrem key m st) = q_events st" "q_events (zexpire t key st) = q_events st"
  "q_entries (emit_queue e st) = q_entries st" "q_calls (emit_queue e st) = q_calls st" "q_events (emit_queue e st) = q_events st @ [e]"
  "q_calls (set_entries Q s st) = q_calls st" "q_events (set_entries Q s st) = q_events st"
  "q_entries (save_call i f st) = q_entries st" "q_events (save_call i f st) = q_events st"
  "q_sets (emit_queue e st) = q_sets st" "q_sets (set_entries Q s st) = q_sets st" "q_sets (save_call i f st) = q_sets st"
  "q_sets (zexpire t key st) = q_sets st"
  by (simp_all add: queue_zadd_def queue_zrem_def zexpire_def emit_queue_def set_entries_def save_call_def)

lemma counts_same:
  "q_events st' = q_events st \<Longrightarrow> rung_count i st' = rung_count i st \<and> reminded_count i st' = reminded_count i st"
  by (simp add: rung_count_def reminded_count_def)

lemma once_mono:
  assumes "once_ok st" and "q_events st' = q_events st" and "\<And>i. is_rung i st \<Longrightarrow> is_rung i st'" and "\<And>i. is_reminded i st \<Longrightarrow> is_reminded i st'"
  shows "once_ok st'"
  unfolding once_ok_def
proof
  fix i
  have o: "rung_count i st \<le> (if is_rung i st then 1 else 0)" "reminded_count i st \<le> (if is_reminded i st then 1 else 0)"
    using assms(1) unfolding once_ok_def by blast+
  show "rung_count i st' \<le> (if is_rung i st' then 1 else 0) \<and> reminded_count i st' \<le> (if is_reminded i st' then 1 else 0)"
    using o counts_same [OF assms(2), of i] assms(3,4) [of i] by (auto split: if_splits)
qed


lemma rung_emit [simp]:
  "rung_count i (emit_queue (CallQueued a b n j) st) = rung_count i st"
  "rung_count i (emit_queue (ScheduledCallDue f j) st) = rung_count i st"
  "rung_count i (emit_queue (CallDequeued a b j) st) = rung_count i st + (if j = i then 1 else 0)"
  "reminded_count i (emit_queue (CallQueued a b n j) st) = reminded_count i st"
  "reminded_count i (emit_queue (CallDequeued a b j) st) = reminded_count i st"
  "reminded_count i (emit_queue (ScheduledCallDue f j) st) = reminded_count i st + (if j = i then 1 else 0)"
  by (simp_all add: rung_count_def reminded_count_def)

lemma emitted_state [simp]:
  "is_rung i (emit_queue e st) = is_rung i st" "is_reminded i (emit_queue e st) = is_reminded i st"
  by (simp_all add: is_rung_def is_reminded_def)

lemma rung_after_closing:
  assumes "is_rung i st" and "\<And>e. Q e \<Longrightarrow> qe_status e = q_waiting"
  shows "is_rung i (set_entries Q s st)"
proof -
  have "\<not> Q (q_entries st ! i)" using assms by (auto simp: is_rung_def)
  then show ?thesis using assms(1) by (simp add: is_rung_def set_entries_def)
qed

lemma once_rung:
  assumes "once_ok st" and "i < length (q_entries st)" and "qe_status (q_entries st ! i) = q_waiting"
  shows "once_ok (emit_queue (CallDequeued a b i) (st\<lparr>q_entries := (q_entries st)[i := (q_entries st ! i)\<lparr>qe_status := q_ringing\<rparr>]\<rparr>))"
  unfolding once_ok_def
proof
  fix j
  let ?s = "st\<lparr>q_entries := (q_entries st)[i := (q_entries st ! i)\<lparr>qe_status := q_ringing\<rparr>]\<rparr>"
  have c: "rung_count j ?s = rung_count j st" "reminded_count j ?s = reminded_count j st" by (simp_all add: rung_count_def reminded_count_def)
  have r: "is_rung j ?s = (j = i \<or> is_rung j st)" "is_reminded j ?s = is_reminded j st" "\<not> is_rung i st"
    using assms(2,3) by (auto simp: is_rung_def is_reminded_def nth_list_update)
  have o: "rung_count j st \<le> (if is_rung j st then 1 else 0)" "reminded_count j st \<le> (if is_reminded j st then 1 else 0)"
    using assms(1) unfolding once_ok_def by blast+
  show "rung_count j (emit_queue (CallDequeued a b i) ?s) \<le> (if is_rung j (emit_queue (CallDequeued a b i) ?s) then 1 else 0) \<and>
    reminded_count j (emit_queue (CallDequeued a b i) ?s) \<le> (if is_reminded j (emit_queue (CallDequeued a b i) ?s) then 1 else 0)"
    using o r c by (auto split: if_splits)
qed

lemma once_reminded:
  assumes "once_ok st" and "call_at i st = Some k" and "sc_reminderSentAt k = None"
  shows "once_ok (emit_queue (ScheduledCallDue f i) (save_call i (\<lambda>k. k\<lparr>sc_reminderSentAt := Some now\<rparr>) st))"
  unfolding once_ok_def
proof
  fix j
  let ?s = "save_call i (\<lambda>k. k\<lparr>sc_reminderSentAt := Some now\<rparr>) st"
  have c: "rung_count j ?s = rung_count j st" "reminded_count j ?s = reminded_count j st"
    using counts_same [of ?s st j] by simp_all
  have r: "is_reminded j ?s = (j = i \<or> is_reminded j st)" "is_rung j ?s = is_rung j st" "\<not> is_reminded i st"
    using assms(2,3) by (auto simp: is_rung_def is_reminded_def save_call_def call_at_def nth_list_update split: if_splits)
  have o: "rung_count j st \<le> (if is_rung j st then 1 else 0)" "reminded_count j st \<le> (if is_reminded j st then 1 else 0)"
    using assms(1) unfolding once_ok_def by blast+
  show "rung_count j (emit_queue (ScheduledCallDue f i) ?s) \<le> (if is_rung j (emit_queue (ScheduledCallDue f i) ?s) then 1 else 0) \<and>
    reminded_count j (emit_queue (ScheduledCallDue f i) ?s) \<le> (if is_reminded j (emit_queue (ScheduledCallDue f i) ?s) then 1 else 0)"
    using o r c by (auto split: if_splits)
qed

lemma nth_upd: "j < length xs \<Longrightarrow> xs[i := v] ! j = (if i = j then v else xs ! j)"
  by (cases "i = j") auto

lemma once_told: "once_ok st \<Longrightarrow> once_ok (emit_queue (CallQueued a b n i) st)"
  unfolding once_ok_def by simp

lemma once_entry: "once_ok st \<Longrightarrow> once_ok (st\<lparr>q_entries := q_entries st @ [e]\<rparr>)"
  by (rule once_mono) (auto simp: is_rung_def is_reminded_def nth_append)

lemma once_call: "once_ok st \<Longrightarrow> once_ok (st\<lparr>q_calls := q_calls st @ [k]\<rparr>)"
  by (rule once_mono) (auto simp: is_rung_def is_reminded_def nth_append)

lemma once_closed: "once_ok st \<Longrightarrow> (\<And>e. Q e \<Longrightarrow> qe_status e = q_waiting) \<Longrightarrow> once_ok (set_entries Q s st)"
  by (rule once_mono) (auto intro: rung_after_closing simp: is_reminded_def)

lemma once_saved: "once_ok st \<Longrightarrow> (\<And>k. sc_reminderSentAt (f k) = sc_reminderSentAt k) \<Longrightarrow> once_ok (save_call i f st)"
  by (rule once_mono) (auto simp: is_rung_def is_reminded_def save_call_def nth_upd)

lemma once_frame:
  "once_ok st \<Longrightarrow> once_ok (st\<lparr>q_vip := v\<rparr>)" "once_ok st \<Longrightarrow> once_ok (queue_zadd now key score m st)"
  "once_ok st \<Longrightarrow> once_ok (queue_zrem key m st)" "once_ok st \<Longrightarrow> once_ok (zexpire t key st)"
  by (erule once_mono; simp add: is_rung_def is_reminded_def)+

interpretation queue_once: queue_kept once_ok
  by unfold_locales (simp_all add: once_frame once_entry once_told once_closed once_rung once_call once_saved once_reminded)

text \<open>
  C25. Nobody is rung twice and no call is announced twice: over every run of the queue and the scheduled
  calls, with any operation between two commands of another, each entry of the queue is dequeued at most
  once, and then it is ringing; each scheduled call is announced at most once, and then its reminder is
  set.
\<close>

theorem nobody_rung_or_reminded_twice:
  assumes "queue_run st st'" and "q_events st = []"
  shows "(rung_count i st' \<le> 1 \<and> (0 < rung_count i st' \<longrightarrow> is_rung i st')) \<and>
    (reminded_count i st' \<le> 1 \<and> (0 < reminded_count i st' \<longrightarrow> is_reminded i st'))"
proof -
  have "once_ok st" using assms(2) by (simp add: once_ok_def rung_count_def reminded_count_def)
  from queue_once.run_kept [OF assms(1) this]
  have "rung_count i st' \<le> (if is_rung i st' then 1 else 0)" "reminded_count i st' \<le> (if is_reminded i st' then 1 else 0)"
    unfolding once_ok_def by blast+
  then have "rung_count i st' \<le> 1 \<and> (0 < rung_count i st' \<longrightarrow> is_rung i st')"
    "reminded_count i st' \<le> 1 \<and> (0 < reminded_count i st' \<longrightarrow> is_reminded i st')"
    by (auto split: if_splits)
  then show ?thesis by blast
qed

section \<open>The history of an entry\<close>

definition entry_history :: "queue_entry list \<Rightarrow> queue_state \<Rightarrow> bool" where
  "entry_history es st \<longleftrightarrow>
     length es \<le> length (q_entries st) \<and>
     (\<forall>i < length es. (q_entries st ! i)\<lparr>qe_status := q_waiting\<rparr> = (es ! i)\<lparr>qe_status := q_waiting\<rparr> \<and>
        (qe_status (es ! i) \<noteq> q_waiting \<longrightarrow> q_entries st ! i = es ! i))"

lemma history_map:
  assumes "entry_history es st" and "length (q_entries st') = length (q_entries st)"
    and "\<And>i. i < length (q_entries st) \<Longrightarrow> (q_entries st' ! i)\<lparr>qe_status := q_waiting\<rparr> = (q_entries st ! i)\<lparr>qe_status := q_waiting\<rparr> \<and>
      (qe_status (q_entries st ! i) \<noteq> q_waiting \<longrightarrow> q_entries st' ! i = q_entries st ! i)"
  shows "entry_history es st'"
  unfolding entry_history_def
proof (intro conjI allI impI)
  show "length es \<le> length (q_entries st')" using assms(1,2) by (simp add: entry_history_def)
  fix i
  assume "i < length es"
  then have h: "i < length (q_entries st)" "(q_entries st ! i)\<lparr>qe_status := q_waiting\<rparr> = (es ! i)\<lparr>qe_status := q_waiting\<rparr>"
    "qe_status (es ! i) \<noteq> q_waiting \<Longrightarrow> q_entries st ! i = es ! i" using assms(1) by (auto simp: entry_history_def)
  show "(q_entries st' ! i)\<lparr>qe_status := q_waiting\<rparr> = (es ! i)\<lparr>qe_status := q_waiting\<rparr>" using assms(3) [OF h(1)] h(2) by simp
  show "qe_status (es ! i) \<noteq> q_waiting \<Longrightarrow> q_entries st' ! i = es ! i" using assms(3) [OF h(1)] h(3) by simp
qed

lemma history_same: "entry_history es st \<Longrightarrow> q_entries st' = q_entries st \<Longrightarrow> entry_history es st'"
  by (simp add: entry_history_def)

lemma history_entry: "entry_history es st \<Longrightarrow> entry_history es (st\<lparr>q_entries := q_entries st @ [e]\<rparr>)"
  by (auto simp: entry_history_def nth_append)

lemma history_closed: "entry_history es st \<Longrightarrow> (\<And>e. Q e \<Longrightarrow> qe_status e = q_waiting) \<Longrightarrow> entry_history es (set_entries Q s st)"
  by (erule history_map) (auto simp: set_entries_def)

lemma history_rung:
  "entry_history es st \<Longrightarrow> qe_status (q_entries st ! i) = q_waiting \<Longrightarrow>
    entry_history es (emit_queue ev (st\<lparr>q_entries := (q_entries st)[i := (q_entries st ! i)\<lparr>qe_status := q_ringing\<rparr>]\<rparr>))"
  by (erule history_map) (auto simp: nth_upd)

lemma history_frame:
  "entry_history es st \<Longrightarrow> entry_history es (st\<lparr>q_vip := v\<rparr>)" "entry_history es st \<Longrightarrow> entry_history es (queue_zadd now key score m st)"
  "entry_history es st \<Longrightarrow> entry_history es (queue_zrem key m st)" "entry_history es st \<Longrightarrow> entry_history es (zexpire t key st)"
  "entry_history es st \<Longrightarrow> entry_history es (emit_queue e st)" "entry_history es st \<Longrightarrow> entry_history es (save_call j f st)"
  "entry_history es st \<Longrightarrow> entry_history es (st\<lparr>q_calls := ks\<rparr>)"
  by (erule history_same; simp)+

interpretation queue_history: queue_kept "entry_history es" for es
  by unfold_locales (simp_all add: history_frame history_entry history_closed history_rung)

text \<open>
  The entries of the queue are never lost and close once: over every run, an entry keeps its caller,
  its creator and its times, its status changes only while it waits, and an entry that rings, has expired
  or was cancelled never changes again.
\<close>

theorem queue_entries_close_once:
  assumes "queue_run st st'" and "i < length (q_entries st)"
  shows "i < length (q_entries st')"
    and "qe_caller (q_entries st' ! i) = qe_caller (q_entries st ! i) \<and> qe_creator (q_entries st' ! i) = qe_creator (q_entries st ! i) \<and>
      qe_expiresAt (q_entries st' ! i) = qe_expiresAt (q_entries st ! i)"
    and "qe_status (q_entries st ! i) \<noteq> q_waiting \<Longrightarrow> q_entries st' ! i = q_entries st ! i"
proof -
  have "entry_history (q_entries st) st" by (simp add: entry_history_def)
  from queue_history.run_kept [OF assms(1) this]
  have h: "length (q_entries st) \<le> length (q_entries st')"
    "(q_entries st' ! i)\<lparr>qe_status := q_waiting\<rparr> = (q_entries st ! i)\<lparr>qe_status := q_waiting\<rparr>"
    "qe_status (q_entries st ! i) \<noteq> q_waiting \<longrightarrow> q_entries st' ! i = q_entries st ! i"
    using assms(2) by (auto simp: entry_history_def)
  show "i < length (q_entries st')" using h(1) assms(2) by simp
  show "qe_caller (q_entries st' ! i) = qe_caller (q_entries st ! i) \<and> qe_creator (q_entries st' ! i) = qe_creator (q_entries st ! i) \<and>
      qe_expiresAt (q_entries st' ! i) = qe_expiresAt (q_entries st ! i)"
    using arg_cong [OF h(2), of qe_caller] arg_cong [OF h(2), of qe_creator] arg_cong [OF h(2), of qe_expiresAt] by simp
  show "qe_status (q_entries st ! i) \<noteq> q_waiting \<Longrightarrow> q_entries st' ! i = q_entries st ! i" using h(3) by simp
qed

end
