(* ===== verification/VipPurchase.thy ===== *)
theory VipPurchase
  imports Vip
begin

text \<open>
  The purchase of a VIP membership: \<open>vip-purchase-finalization.service.ts\<close>, the checkout, the order, the
  verification by the client and the webhook of \<open>vip.controller.ts\<close>, and what an administrator does to
  plans and memberships (\<open>admin-vip.controller.ts\<close>).
\<close>

section \<open>Finalization\<close>

record vip_purchase_input =
  vi_userId :: string
  vi_orderId :: string
  vi_paymentId :: string
  vi_planId :: string
  vi_durationDays :: "int option"

definition buildVipTxnId :: "string \<Rightarrow> string" where
  "buildVipTxnId orderId = ''vip_'' @ orderId"

definition vip_row :: "string \<Rightarrow> string \<Rightarrow> string option \<Rightarrow> txn_status \<Rightarrow> coin_txn" where
  "vip_row uid orderId paymentId status =
     \<lparr> tx_transactionId = buildVipTxnId orderId, tx_userId = uid, tx_type = Credit, tx_coins = 0,
       tx_source = ''vip_membership'', tx_bonusReason = None, tx_paymentGatewayTransactionId = paymentId,
       tx_paymentGatewayOrderId = Some orderId, tx_priceInr = None, tx_status = status \<rparr>"

definition day_ms :: int where
  "day_ms = 24 * 60 * 60 * 1000"

text \<open>A purchase extends an active membership; otherwise it starts now.\<close>

definition extended_expiry :: "millis \<Rightarrow> vip_membership option \<Rightarrow> int \<Rightarrow> millis" where
  "extended_expiry now existing days =
     (case existing of
        None \<Rightarrow> now
      | Some m \<Rightarrow> if membership_active now m then vm_expiresAt m else now) + days * day_ms"

definition write_membership :: "millis \<Rightarrow> vip_purchase_input \<Rightarrow> millis \<Rightarrow> vip_state \<Rightarrow> vip_state" where
  "write_membership now inp expiresAt st =
     (case find_member (vi_userId inp) st of
        Some _ \<Rightarrow>
          update_membership (vi_userId inp)
            (\<lambda>m. m\<lparr>vm_status := vip_active, vm_planId := vi_planId inp, vm_expiresAt := expiresAt,
                   vm_lastPurchaseTxnId := Some (buildVipTxnId (vi_orderId inp)),
                   vm_razorpayOrderId := Some (vi_orderId inp), vm_razorpayPaymentId := Some (vi_paymentId inp)\<rparr>) st
      | None \<Rightarrow>
          st\<lparr>vs_members := vs_members st @
             [\<lparr> vm_userId = vi_userId inp, vm_status = vip_active, vm_planId = vi_planId inp, vm_startedAt = now,
                vm_expiresAt = expiresAt, vm_lastPurchaseTxnId = Some (buildVipTxnId (vi_orderId inp)),
                vm_razorpayOrderId = Some (vi_orderId inp), vm_razorpayPaymentId = Some (vi_paymentId inp) \<rparr>]\<rparr>)"

text \<open>
  The body of the transaction. \<open>existingTxn\<close> is what was read before it with \<open>lean()\<close>: a plain object,
  on which \<open>save\<close> is not a function, so that a pending row ends the transaction with a \<open>TypeError\<close>. An
  error aborts the transaction.
\<close>

definition vip_transaction :: "millis \<Rightarrow> vip_purchase_input \<Rightarrow> int \<Rightarrow> coin_txn option \<Rightarrow> millis vip_op" where
  "vip_transaction now inp days existingTxn st =
     (case findById (vi_userId inp) (wallets st) of
        None \<Rightarrow> (Inl ''User not found'', st)
      | Some user \<Rightarrow>
          (let expiresAt = extended_expiry now (find_member (vi_userId inp) st) days;
               st1 = set_vipExpiresAt (vi_userId inp) (Some expiresAt) (write_membership now inp expiresAt st)
           in case existingTxn of
                None \<Rightarrow>
                  (case create_txn (vip_row (vi_userId inp) (vi_orderId inp) (Some (vi_paymentId inp)) TCompleted) (wallets st1) of
                     None \<Rightarrow> (Inl ''E11000'', st)
                   | Some w \<Rightarrow> (Inr expiresAt, upd_wallets (\<lambda>_. w) st1))
              | Some t \<Rightarrow>
                  if tx_status t = TPending then (Inl ''existingTxn.save is not a function'', st)
                  else (Inr expiresAt, st1)))"

definition referral_hook :: "vip_ctx \<Rightarrow> string \<Rightarrow> vip_state \<Rightarrow> vip_state" where
  "referral_hook c uid st =
     (if pe_isValidObjectId (vc_pay c) uid
      then st\<lparr>vs_pay := emit_pay [CreatorReferralPurchaseHook uid] (vs_pay st)\<rparr> else st)"

text \<open>The answer: whether it was already processed, and the expiry.\<close>

definition finalizeVipPurchaseAtomically ::
  "vip_ctx \<Rightarrow> (nat \<Rightarrow> vip_state \<Rightarrow> vip_state) \<Rightarrow> vip_purchase_input \<Rightarrow> (bool \<times> millis) vip_op" where
  "finalizeVipPurchaseAtomically c others inp st =
     (let existingTxn = txn_by_id (buildVipTxnId (vi_orderId inp)) (wallets st)
      in if map_option tx_status existingTxn = Some TCompleted
         then (case find_member (vi_userId inp) (others 0 st) of
                 None \<Rightarrow> (Inl ''VIP_MEMBERSHIP_MISSING_AFTER_COMPLETED_TXN'', others 0 st)
               | Some m \<Rightarrow> (Inr (True, vm_expiresAt m), referral_hook c (vi_userId inp) (others 0 st)))
         else vip_bind (on_plans (getVipPlanById (vc_env c) (vi_planId inp)) (others 0 st))
                (\<lambda>plan st1.
                   let days = nvl (vi_durationDays inp) (case plan of None \<Rightarrow> 30 | Some p \<Rightarrow> pl_durationDays p)
                   in vip_bind (vip_transaction (vc_now c) inp days existingTxn (others 1 st1))
                        (\<lambda>expiresAt st2.
                           (Inr (False, expiresAt), referral_hook c (vi_userId inp) (invalidateVipCache (vi_userId inp) (others 2 st2))))))"

definition createPendingVipTransaction :: "string \<Rightarrow> string \<Rightarrow> coin_store \<Rightarrow> coin_store option" where
  "createPendingVipTransaction uid orderId w =
     (if txn_by_id (buildVipTxnId orderId) w \<noteq> None then Some w
      else create_txn (vip_row uid orderId None TPending) w)"

section \<open>Checkout and order\<close>

definition user_by_firebase :: "string \<Rightarrow> vip_state \<Rightarrow> account option" where
  "user_by_firebase fuid st = List.find (\<lambda>a. a_firebaseUid a = fuid) (accounts (wallets st))"

text \<open>
  \<open>auth\<close> is the user of the request, \<open>navigation\<close> the id of the checkout context, or \<open>None\<close> when
  \<open>createCheckoutContext\<close> refuses the origin or the return path; \<open>baseUrl\<close> whether the address of the
  checkout page is configured. The answer is the session that is signed.
\<close>

definition initiateVipCheckout ::
  "vip_ctx \<Rightarrow> string option \<Rightarrow> string option \<Rightarrow> string option \<Rightarrow> bool \<Rightarrow> vip_state \<Rightarrow> (answer + vip_session) \<times> vip_state" where
  "initiateVipCheckout c auth planId navigation baseUrl st =
     (case auth of
        None \<Rightarrow> (Inl (401, ''Unauthorized''), st)
      | Some fuid \<Rightarrow>
          if \<not> vc_vipEnabled c then (Inl (503, ''VIP is not available yet''), st)
          else (case user_by_firebase fuid st of
             None \<Rightarrow> (Inl (404, ''User not found''), st)
           | Some user \<Rightarrow>
               if a_role user \<noteq> ''user'' then (Inl (403, ''Only regular users can purchase VIP''), st)
               else (let pid = (case planId of None \<Rightarrow> VIP_PLAN_ID | Some p \<Rightarrow> if js_trim p = [] then VIP_PLAN_ID else js_trim p)
                     in case on_plans (getVipPlanById (vc_env c) pid) st of
                          (Inl e, st1) \<Rightarrow> (Inl (500, ''Failed to initiate VIP checkout''), st1)
                        | (Inr None, st1) \<Rightarrow> (Inl (400, ''Invalid or inactive VIP plan''), st1)
                        | (Inr (Some plan), st1) \<Rightarrow>
                            if \<not> pl_isActive plan then (Inl (400, ''Invalid or inactive VIP plan''), st1)
                            else (case navigation of
                                    None \<Rightarrow> (Inl (400, ''Invalid returnTo''), st1)
                                  | Some cid \<Rightarrow>
                                      (let st2 = st1\<lparr>vs_pay := (vs_pay st1)\<lparr>contexts := contexts (vs_pay st1) @
                                                   [\<lparr> cc_checkoutId = cid, cc_userId = a_id user, cc_status = cc_created,
                                                      cc_orderId = None, cc_walletDelta = None \<rparr>]\<rparr>\<rparr>
                                       in if \<not> baseUrl then (Inl (500, ''Failed to initiate VIP checkout''), st2)
                                          else (Inr \<lparr> vx_firebaseUid = a_firebaseUid user, vx_userId = a_id user, vx_planId = pl_planId plan,
                                                      vx_priceInr = pl_priceInr plan, vx_durationDays = pl_durationDays plan,
                                                      vx_checkoutId = Some cid \<rparr>, st2))))))"

definition vip_order_notes :: "account \<Rightarrow> vip_plan \<Rightarrow> note_map" where
  "vip_order_notes user plan =
     [''userId'' \<mapsto> NStr (a_id user), ''firebaseUid'' \<mapsto> NStr (a_firebaseUid user), ''planId'' \<mapsto> NStr (pl_planId plan),
      ''productType'' \<mapsto> NStr ''vip_membership'', ''priceInr'' \<mapsto> NStr (show_int (pl_priceInr plan)),
      ''durationDays'' \<mapsto> NStr (show_int (pl_durationDays plan))]"

text \<open>The user of a session, if it is still the one the token names.\<close>

definition session_user :: "vip_session \<Rightarrow> vip_state \<Rightarrow> account option" where
  "session_user s st =
     (case user_by_firebase (vx_firebaseUid s) st of
        None \<Rightarrow> None
      | Some u \<Rightarrow> if a_id u \<noteq> vx_userId s \<or> a_role u \<noteq> ''user'' then None else Some u)"

text \<open>
  \<open>newOrder\<close> is the id the provider answers (\<open>None\<close>: the request fails), \<open>keyId\<close> whether the key of the
  checkout page is configured. The answer: the order and the amount in paise.
\<close>

definition createVipWebOrder ::
  "vip_ctx \<Rightarrow> string option \<Rightarrow> bool \<Rightarrow> string \<Rightarrow> vip_state \<Rightarrow> (answer + string \<times> int) \<times> vip_state" where
  "createVipWebOrder c newOrder keyId checkoutToken st =
     (if \<not> vc_vipEnabled c then (Inl (503, ''VIP is not available yet''), st)
      else if checkoutToken = [] then (Inl (400, ''Missing checkoutToken''), st)
      else (case vc_session c checkoutToken of
        None \<Rightarrow> (Inl (401, ''Invalid or expired checkout token''), st)
      | Some s \<Rightarrow>
          (case session_user s st of
             None \<Rightarrow> (Inl (403, ''Checkout session is not valid for this user''), st)
           | Some user \<Rightarrow>
               (case on_plans (getVipPlanById (vc_env c) (vx_planId s)) st of
                  (Inl e, st1) \<Rightarrow> (Inl (500, ''Failed to create VIP order''), st1)
                | (Inr None, st1) \<Rightarrow> (Inl (400, ''Invalid VIP plan in session''), st1)
                | (Inr (Some plan), st1) \<Rightarrow>
                    if \<not> pl_isActive plan then (Inl (400, ''Invalid VIP plan in session''), st1)
                    else if vx_priceInr s \<noteq> pl_priceInr plan \<or> vx_durationDays s \<noteq> pl_durationDays plan
                    then (Inl (400, ''VIP plan pricing mismatch''), st1)
                    else (case newOrder of
                            None \<Rightarrow> (Inl (500, ''Failed to create VIP order''), st1)
                          | Some orderId \<Rightarrow>
                              (case createPendingVipTransaction (a_id user) orderId (wallets st1) of
                                 None \<Rightarrow> (Inl (500, ''Failed to create VIP order''), st1)
                               | Some w \<Rightarrow>
                                   (let st2 = upd_wallets (\<lambda>_. w) st1;
                                        st3 = st2\<lparr>vs_pay := attachCheckoutOrder (vx_checkoutId s) orderId (vs_pay st2)\<rparr>
                                    in if \<not> keyId then (Inl (500, ''Payment checkout is currently unavailable''), st3)
                                       else (Inr (orderId, pl_priceInr plan * 100), st3)))))))) "

section \<open>Verification by the client\<close>

text \<open>A refused signature marks the row of the order failed, whatever its status.\<close>

definition fail_vip_order :: "string \<Rightarrow> vip_state \<Rightarrow> vip_state" where
  "fail_vip_order orderId = upd_wallets (update_txn (buildVipTxnId orderId) (\<lambda>t. t\<lparr>tx_status := TFailed\<rparr>))"

definition record_vip_result :: "string option \<Rightarrow> checkout_status \<Rightarrow> vip_state \<Rightarrow> vip_state" where
  "record_vip_result cid status st = st\<lparr>vs_pay := recordCheckoutResult cid status None (vs_pay st)\<rparr>"

definition vip_provider_refusal :: "string \<Rightarrow> answer" where
  "vip_provider_refusal m =
     (if starts_with m ''PAYMENT_NOT_CAPTURED'' \<or> m = ''provider_error''
      then (202, ''Payment confirmation pending'') else (400, ''Payment provider verification failed''))"

definition vip_verify_captured ::
  "vip_ctx \<Rightarrow> (nat \<Rightarrow> vip_state \<Rightarrow> vip_state) \<Rightarrow> vip_session \<Rightarrow> account \<Rightarrow> string \<Rightarrow> string \<Rightarrow> vip_state \<Rightarrow> answer \<times> vip_state" where
  "vip_verify_captured c others s user orderId paymentId st =
     (case txn_by_id (buildVipTxnId orderId) (wallets st) of
        None \<Rightarrow> ((404, ''VIP transaction not found''), st)
      | Some t \<Rightarrow>
          if tx_userId t \<noteq> a_id user then ((404, ''VIP transaction not found''), st)
          else (case on_plans (getVipPlanById (vc_env c) (vx_planId s)) st of
                  (Inl e, st1) \<Rightarrow> ((500, ''Failed to verify VIP payment''), st1)
                | (Inr None, st1) \<Rightarrow> ((400, ''Invalid VIP plan in session''), st1)
                | (Inr (Some plan), st1) \<Rightarrow>
                    (case finalizeVipPurchaseAtomically c others
                            \<lparr> vi_userId = a_id user, vi_orderId = orderId, vi_paymentId = paymentId, vi_planId = vx_planId s,
                              vi_durationDays = Some (pl_durationDays plan) \<rparr> st1 of
                       (Inl e, st2) \<Rightarrow> ((500, ''Failed to verify VIP payment''), st2)
                     | (Inr (already, expiresAt), st2) \<Rightarrow>
                         ((200, if already then ''already_processed'' else ''VIP activated successfully''),
                          record_vip_result (vx_checkoutId s) cc_success st2))))"

definition verifyVipWebPayment ::
  "vip_ctx \<Rightarrow> (nat \<Rightarrow> vip_state \<Rightarrow> vip_state) \<Rightarrow> string \<Rightarrow> string \<Rightarrow> string \<Rightarrow> string \<Rightarrow> vip_state \<Rightarrow> answer \<times> vip_state" where
  "verifyVipWebPayment c others checkoutToken orderId paymentId signature st =
     (if \<not> vc_vipEnabled c then ((503, ''VIP is not available yet''), st)
      else if checkoutToken = [] \<or> orderId = [] \<or> paymentId = [] \<or> signature = []
      then ((400, ''Missing required payment fields''), st)
      else (case vc_session c checkoutToken of
              None \<Rightarrow> ((401, ''Invalid or expired checkout token''), st)
            | Some s \<Rightarrow>
                (case session_user s st of
                   None \<Rightarrow> ((403, ''Checkout session is not valid for this user''), st)
                 | Some user \<Rightarrow>
                     (case pe_signature (vc_pay c) orderId paymentId signature of
                        None \<Rightarrow> ((500, ''Payment verification unavailable''), st)
                      | Some False \<Rightarrow>
                          ((400, ''Invalid payment signature''), fail_vip_order orderId (record_vip_result (vx_checkoutId s) cc_failed st))
                      | Some True \<Rightarrow>
                          (case verifyProviderPaymentCaptured (vc_pay c) orderId paymentId of
                             Inl m \<Rightarrow> (vip_provider_refusal m, st)
                           | Inr _ \<Rightarrow> vip_verify_captured c others s user orderId paymentId st)))))"

section \<open>Webhook\<close>

record vip_webhook =
  vw_event :: "string option"
  vw_paymentId :: "string option"
  vw_paymentOrderId :: "string option"
  vw_paymentStatus :: string
  vw_paymentNotes :: "note_map option"
  vw_orderId :: "string option"
  vw_orderNotes :: "note_map option"

text \<open>An absent or empty string is falsy.\<close>

definition truthy :: "string option \<Rightarrow> string option" where
  "truthy s = (if s = Some [] then None else s)"

definition vw_order :: "vip_webhook \<Rightarrow> string option" where
  "vw_order w = (case truthy (vw_paymentOrderId w) of Some x \<Rightarrow> Some x | None \<Rightarrow> truthy (vw_orderId w))"

definition vw_type :: "vip_webhook \<Rightarrow> string" where
  "vw_type w = nvl (truthy (vw_event w)) ''unknown''"

definition vip_event_id :: "vip_webhook \<Rightarrow> string" where
  "vip_event_id w =
     vw_type w @ '':'' @ nvl (vw_order w) ''no-order'' @ '':'' @ nvl (truthy (vw_paymentId w)) ''no-payment''"

definition find_vip_event :: "string \<Rightarrow> vip_state \<Rightarrow> vip_purchase_event option" where
  "find_vip_event eid st = List.find (\<lambda>e. ve_eventId e = eid) (vs_events st)"

definition note_vip_event :: "vip_webhook \<Rightarrow> vip_state \<Rightarrow> vip_state" where
  "note_vip_event w st =
     (let eid = vip_event_id w
      in case find_vip_event eid st of
           None \<Rightarrow>
             st\<lparr>vs_events := vs_events st @
                [\<lparr> ve_eventId = eid, ve_eventType = vw_type w, ve_orderId = vw_order w, ve_paymentId = truthy (vw_paymentId w),
                   ve_status = we_received, ve_attemptCount = 1 \<rparr>]\<rparr>
         | Some _ \<Rightarrow>
             st\<lparr>vs_events := map (\<lambda>e. if ve_eventId e = eid then e\<lparr>ve_attemptCount := ve_attemptCount e + 1\<rparr> else e) (vs_events st)\<rparr>)"

definition mark_vip_event :: "string \<Rightarrow> vip_state \<Rightarrow> vip_state" where
  "mark_vip_event eid st =
     st\<lparr>vs_events := map (\<lambda>e. if ve_eventId e = eid then e\<lparr>ve_status := we_processed\<rparr> else e) (vs_events st)\<rparr>"

definition vip_webhook_purchase ::
  "vip_ctx \<Rightarrow> (nat \<Rightarrow> vip_state \<Rightarrow> vip_state) \<Rightarrow> vip_webhook \<Rightarrow> string \<Rightarrow> string \<Rightarrow> vip_state \<Rightarrow> answer \<times> vip_state" where
  "vip_webhook_purchase c others w orderId paymentId st =
     (let notes = (case vw_paymentNotes w of Some n \<Rightarrow> n | None \<Rightarrow> (case vw_orderNotes w of Some n \<Rightarrow> n | None \<Rightarrow> no_notes))
      in if notes ''productType'' \<noteq> Some (NStr ''vip_membership'') then ((200, ''Not a VIP order - ignored''), st)
         else (case note_truthy notes ''userId'' of
                 None \<Rightarrow> ((400, ''Missing userId in order notes''), st)
               | Some u \<Rightarrow>
                   (let planId = (case note_truthy notes ''planId'' of None \<Rightarrow> VIP_PLAN_ID | Some p \<Rightarrow> note_string p)
                    in case on_plans (getVipPlanById (vc_env c) planId) st of
                         (Inl e, st1) \<Rightarrow> ((500, ''Webhook processing failed''), st1)
                       | (Inr plan, st1) \<Rightarrow>
                           (case finalizeVipPurchaseAtomically c others
                                   \<lparr> vi_userId = note_string u, vi_orderId = orderId, vi_paymentId = paymentId, vi_planId = planId,
                                     vi_durationDays = map_option pl_durationDays plan \<rparr> st1 of
                              (Inl e, st2) \<Rightarrow> ((500, ''Webhook processing failed''), st2)
                            | (Inr r, st2) \<Rightarrow> ((200, ''success''), mark_vip_event (vip_event_id w) st2)))))"

definition handleVipRazorpayWebhook ::
  "vip_ctx \<Rightarrow> (nat \<Rightarrow> vip_state \<Rightarrow> vip_state) \<Rightarrow> vip_webhook \<Rightarrow> vip_state \<Rightarrow> answer \<times> vip_state" where
  "handleVipRazorpayWebhook c others w st =
     (if \<not> vc_vipEnabled c then ((503, ''VIP is not available yet''), st)
      else if map_option ve_status (find_vip_event (vip_event_id w) st) = Some we_processed then ((200, ''Already processed''), st)
      else (let st1 = note_vip_event w st
            in case (vw_order w, truthy (vw_paymentId w)) of
                 (Some orderId, Some paymentId) \<Rightarrow>
                   if vw_type w = ''payment.captured'' \<and> vw_paymentStatus w = ''captured''
                   then vip_webhook_purchase c others w orderId paymentId st1
                   else ((200, ''success''), st1)
               | _ \<Rightarrow> ((200, ''success''), st1)))"

section \<open>Administration\<close>

text \<open>The fields of a request, absent when their type is wrong.\<close>

record plan_patch =
  pp_durationDays :: "int option"
  pp_priceInr :: "int option"
  pp_isActive :: "bool option"
  pp_freeMomentsPerDay :: "int option"
  pp_rechargeDiscountBps :: "int option"
  pp_momentDiscountBps :: "int option"
  pp_label :: "string option"
  pp_badge :: "vip_badge option option"
  pp_sortOrder :: "int option"

definition patched :: "'a option \<Rightarrow> ('a \<Rightarrow> bool) \<Rightarrow> 'a \<Rightarrow> 'a" where
  "patched new good old = (case new of None \<Rightarrow> old | Some v \<Rightarrow> if good v then v else old)"

definition patch_plan :: "plan_patch \<Rightarrow> vip_plan \<Rightarrow> vip_plan" where
  "patch_plan b p =
     p\<lparr>pl_durationDays := patched (pp_durationDays b) (\<lambda>d. 0 < d) (pl_durationDays p),
       pl_priceInr := patched (pp_priceInr b) (\<lambda>d. 0 < d) (pl_priceInr p),
       pl_isActive := nvl (pp_isActive b) (pl_isActive p),
       pl_freeMomentsPerDay := patched (pp_freeMomentsPerDay b) (\<lambda>d. 0 \<le> d) (pl_freeMomentsPerDay p),
       pl_rechargeDiscountBps := nvl (pp_rechargeDiscountBps b) (pl_rechargeDiscountBps p),
       pl_momentDiscountBps := nvl (pp_momentDiscountBps b) (pl_momentDiscountBps p),
       pl_label := patched (map_option js_trim (pp_label b)) (\<lambda>l. l \<noteq> []) (pl_label p),
       pl_badge := nvl (pp_badge b) (pl_badge p), pl_sortOrder := nvl (pp_sortOrder b) (pl_sortOrder p)\<rparr>"

text \<open>\<open>save\<close> validates: a value outside the bounds of the schema is an error and writes nothing.\<close>

definition updateAdminVipPlan :: "env \<Rightarrow> plan_patch \<Rightarrow> vip_plan list \<Rightarrow> (string + vip_plan) \<times> vip_plan list" where
  "updateAdminVipPlan env b ps =
     (case getOrCreateVipPlanConfig env ps of
        (Inl e, ps1) \<Rightarrow> (Inl e, ps1)
      | (Inr p, ps1) \<Rightarrow>
          if plan_valid (patch_plan b p) then (Inr (patch_plan b p), save_plan (patch_plan b p) ps1)
          else (Inl ''ValidationError'', ps1))"

definition updateAdminVipPlanById :: "env \<Rightarrow> string \<Rightarrow> plan_patch \<Rightarrow> vip_plan list \<Rightarrow> (string + vip_plan option) \<times> vip_plan list" where
  "updateAdminVipPlanById env pid b ps =
     (case getVipPlanById env pid ps of
        (Inl e, ps1) \<Rightarrow> (Inl e, ps1)
      | (Inr None, ps1) \<Rightarrow> (Inr None, ps1)
      | (Inr (Some p), ps1) \<Rightarrow>
          if plan_valid (patch_plan b p) then (Inr (Some (patch_plan b p)), save_plan (patch_plan b p) ps1)
          else (Inl ''ValidationError'', ps1))"

text \<open>The reads and writes of a grant, one after the other.\<close>

definition grantAdminVipMembership :: "vip_ctx \<Rightarrow> string \<Rightarrow> int option \<Rightarrow> millis option vip_op" where
  "grantAdminVipMembership c uid durationDays st =
     (case findById uid (wallets st) of
        None \<Rightarrow> (Inr None, st)
      | Some user \<Rightarrow>
          vip_bind (getPlanPerks c st)
            (\<lambda>plan st1.
               let days = (case durationDays of None \<Rightarrow> pl_durationDays plan | Some d \<Rightarrow> if 0 < d then d else pl_durationDays plan);
                   expiresAt = extended_expiry (vc_now c) (find_member uid st1) days;
                   st2 = (case find_member uid st1 of
                            Some _ \<Rightarrow> update_membership uid (\<lambda>m. m\<lparr>vm_status := vip_active, vm_expiresAt := expiresAt, vm_planId := pl_planId plan\<rparr>) st1
                          | None \<Rightarrow>
                              st1\<lparr>vs_members := vs_members st1 @
                                 [\<lparr> vm_userId = uid, vm_status = vip_active, vm_planId = pl_planId plan, vm_startedAt = vc_now c,
                                    vm_expiresAt = expiresAt, vm_lastPurchaseTxnId = Some (''admin_grant_'' @ show_int (vc_now c)),
                                    vm_razorpayOrderId = None, vm_razorpayPaymentId = None \<rparr>]\<rparr>)
               in (Inr (Some expiresAt), invalidateVipCache uid (set_vipExpiresAt uid (Some expiresAt) st2))))"

definition revokeAdminVipMembership :: "millis \<Rightarrow> string \<Rightarrow> vip_state \<Rightarrow> bool \<times> vip_state" where
  "revokeAdminVipMembership now uid st =
     (case findById uid (wallets st) of
        None \<Rightarrow> (False, st)
      | Some user \<Rightarrow>
          (True, invalidateVipCache uid (set_vipExpiresAt uid None
                   (update_membership uid (\<lambda>m. m\<lparr>vm_status := vip_cancelled, vm_expiresAt := now\<rparr>) st))))"

end
