(* ===== verification/VipFlow.thy ===== *)
theory VipFlow
  imports VipPurchase
begin

text \<open>
  What the VIP membership guarantees and where it fails: the plans, the entitlement and its cache, the
  purchase of an order, and that no VIP operation moves a coin.
\<close>

section \<open>Projections\<close>

lemma wallets_simps [simp]:
  "wallets (st\<lparr>vs_plans := ps\<rparr>) = wallets st" "wallets (st\<lparr>vs_members := ms\<rparr>) = wallets st" "wallets (st\<lparr>vs_cache := cc\<rparr>) = wallets st"
  "wallets (st\<lparr>vs_events := es\<rparr>) = wallets st" "wallets (update_membership uid f st) = wallets st"
  "wallets (upd_wallets g st) = g (wallets st)" "wallets (invalidateVipCache uid st) = wallets st"
  "wallets (set_vipExpiresAt uid x st) = update_account uid (\<lambda>a. a\<lparr>a_vipExpiresAt := x\<rparr>) (wallets st)"
  "wallets (record_vip_result cid s st) = wallets st" "wallets (referral_hook c uid st) = wallets st"
  "wallets (write_membership now inp e st) = wallets st" "wallets (note_vip_event w st) = wallets st"
  "wallets (mark_vip_event eid st) = wallets st" "wallets (cacheVipActive now uid active ex st) = wallets st"
  "wallets (fail_vip_order order st) = update_txn (buildVipTxnId order) (\<lambda>t. t\<lparr>tx_status := TFailed\<rparr>) (wallets st)"
  by (auto simp: wallets_def update_membership_def upd_wallets_def upd_store_def invalidateVipCache_def set_vipExpiresAt_def
      record_vip_result_def recordCheckoutResult_def referral_hook_def emit_pay_def write_membership_def note_vip_event_def Let_def
      mark_vip_event_def cacheVipActive_def fail_vip_order_def split: option.splits)

lemma members_simps [simp]:
  "vs_members (upd_wallets g st) = vs_members st" "vs_members (invalidateVipCache uid st) = vs_members st"
  "vs_members (set_vipExpiresAt uid x st) = vs_members st" "vs_members (record_vip_result cid s st) = vs_members st"
  "vs_members (referral_hook c uid st) = vs_members st" "vs_members (note_vip_event w st) = vs_members st"
  "vs_members (mark_vip_event eid st) = vs_members st" "vs_members (cacheVipActive now uid active ex st) = vs_members st"
  "vs_members (fail_vip_order order st) = vs_members st"
  by (auto simp: upd_wallets_def invalidateVipCache_def set_vipExpiresAt_def record_vip_result_def referral_hook_def note_vip_event_def
      Let_def mark_vip_event_def cacheVipActive_def fail_vip_order_def split: option.splits)

lemma find_member_simps [simp]:
  "find_member u (upd_wallets g st) = find_member u st" "find_member u (invalidateVipCache uid st) = find_member u st"
  "find_member u (set_vipExpiresAt uid x st) = find_member u st" "find_member u (record_vip_result cid s st) = find_member u st"
  "find_member u (referral_hook c uid st) = find_member u st" "find_member u (cacheVipActive now uid active ex st) = find_member u st"
  "find_member u (st\<lparr>vs_plans := ps\<rparr>) = find_member u st" "find_member u (st\<lparr>vs_cache := cc\<rparr>) = find_member u st"
  "find_member u (fail_vip_order order st) = find_member u st" "find_member u (note_vip_event w st) = find_member u st"
  by (simp_all add: find_member_def)

lemma find_map:
  assumes "\<And>x. key (f x) = key x"
  shows "List.find (\<lambda>x. key x = u) (map (\<lambda>x. if key x = v then f x else x) xs) =
    (if u = v then map_option f (List.find (\<lambda>x. key x = u) xs) else List.find (\<lambda>x. key x = u) xs)"
  by (induction xs) (auto simp: assms)

lemma find_update_membership [simp]:
  assumes "\<And>m. vm_userId (f m) = vm_userId m"
  shows "find_member u (update_membership v f st) = (if u = v then map_option f (find_member u st) else find_member u st)"
  using assms by (simp add: find_member_def update_membership_def find_map)

lemma find_append: "List.find P (xs @ ys) = (case List.find P xs of None \<Rightarrow> List.find P ys | Some x \<Rightarrow> Some x)"
  by (induction xs) auto

lemma find_write_membership:
  "find_member u (write_membership now inp e st) =
    (if u = vi_userId inp
     then Some (case find_member u st of
                  None \<Rightarrow> \<lparr> vm_userId = u, vm_status = vip_active, vm_planId = vi_planId inp, vm_startedAt = now, vm_expiresAt = e,
                           vm_lastPurchaseTxnId = Some (buildVipTxnId (vi_orderId inp)), vm_razorpayOrderId = Some (vi_orderId inp),
                           vm_razorpayPaymentId = Some (vi_paymentId inp) \<rparr>
                | Some m \<Rightarrow> m\<lparr>vm_status := vip_active, vm_planId := vi_planId inp, vm_expiresAt := e,
                           vm_lastPurchaseTxnId := Some (buildVipTxnId (vi_orderId inp)),
                           vm_razorpayOrderId := Some (vi_orderId inp), vm_razorpayPaymentId := Some (vi_paymentId inp)\<rparr>)
     else find_member u st)"
  by (auto simp: write_membership_def split: option.splits) (auto simp: find_member_def find_append split: option.splits)

lemma txn_by_id_account [simp]: "txn_by_id tid (update_account uid f w) = txn_by_id tid w"
  by (simp add: txn_by_id_def find_txn_def)

lemma findById_account:
  assumes "\<And>a. a_id (f a) = a_id a"
  shows "findById u (update_account v f w) = (if u = v then map_option f (findById u w) else findById u w)"
  using assms by (simp add: findById_def update_account_def find_map)

lemma on_plans_simps [simp]:
  "wallets (snd (on_plans f st)) = wallets st" "vs_members (snd (on_plans f st)) = vs_members st"
  "vs_cache (snd (on_plans f st)) = vs_cache st" "find_member u (snd (on_plans f st)) = find_member u st"
  by (auto simp: on_plans_def wallets_def find_member_def split: prod.splits)

lemma on_plansE:
  assumes "on_plans f st = (r, st')"
  obtains ps where "f (vs_plans st) = (r, ps)" and "st' = st\<lparr>vs_plans := ps\<rparr>"
  using assms by (auto simp: on_plans_def split: prod.splits)

section \<open>Plans\<close>

lemma find_plan_id: "find_plan pid ps = Some c \<Longrightarrow> pl_planId c = pid"
  by (auto simp: find_plan_def find_Some_iff)

lemma find_save_plan:
  "find_plan pid (save_plan c ps) = (if pid = pl_planId c then map_option (\<lambda>_. c) (find_plan pid ps) else find_plan pid ps)"
  by (induction ps) (auto simp: find_plan_def save_plan_def)

text \<open>The fields of a plan that a read rewrites.\<close>

definition seeded :: "vip_plan \<Rightarrow> vip_plan \<Rightarrow> bool" where
  "seeded seed p \<longleftrightarrow>
     pl_planId p = pl_planId seed \<and> pl_label p = pl_label seed \<and> pl_durationDays p = pl_durationDays seed \<and>
     pl_priceInr p = pl_priceInr seed \<and> pl_badge p = pl_badge seed \<and> pl_sortOrder p = pl_sortOrder seed"

lemma ensure_seed:
  assumes "ensurePlanSeed seed ps = (Inr c, ps')"
  shows "seeded seed c" and "find_plan (pl_planId seed) ps' = Some c"
    and "pid \<noteq> pl_planId seed \<Longrightarrow> find_plan pid ps' = find_plan pid ps"
  using assms
  by (auto simp: ensurePlanSeed_def seeded_def Let_def find_save_plan find_plan_id split: option.splits if_splits)
    (auto simp: find_plan_def find_append split: option.splits)

lemma ensure_seed_id:
  "ensurePlanSeed seed ps = (r, ps') \<Longrightarrow> pid \<noteq> pl_planId seed \<Longrightarrow> find_plan pid ps' = find_plan pid ps"
  by (auto simp: ensurePlanSeed_def Let_def find_save_plan find_plan_id split: option.splits if_splits)
    (auto simp: find_plan_def find_append split: option.splits)

lemma ensure_other:
  "ensure_plans seeds ps = (r, ps') \<Longrightarrow> pid \<notin> pl_planId ` set seeds \<Longrightarrow> find_plan pid ps' = find_plan pid ps"
  by (induction seeds arbitrary: ps r) (auto split: prod.splits sum.splits dest!: ensure_seed_id)

lemma ensure_plans_seeded:
  assumes "ensure_plans seeds ps = (Inr cs, ps')" and "distinct (map pl_planId seeds)"
  shows "list_all2 seeded seeds cs \<and> (\<forall>c \<in> set cs. find_plan (pl_planId c) ps' = Some c)"
  using assms
proof (induction seeds arbitrary: ps cs)
  case (Cons s ss)
  obtain c p1 rs where h: "ensurePlanSeed s ps = (Inr c, p1)" "ensure_plans ss p1 = (Inr rs, ps')" "cs = c # rs"
    using Cons.prems(1) by (auto split: prod.splits sum.splits) (case_tac x1a; auto)
  have c: "pl_planId c = pl_planId s" using ensure_seed(1) [OF h(1)] by (simp add: seeded_def)
  have "pl_planId c \<notin> pl_planId ` set ss" using Cons.prems(2) c by auto
  from ensure_other [OF h(2) this] have "find_plan (pl_planId c) ps' = Some c" using ensure_seed(2) [OF h(1)] c by simp
  then show ?case using Cons.IH [OF h(2)] Cons.prems(2) ensure_seed(1) [OF h(1)] h(3) by simp
qed simp

lemma default_ids: "distinct (map pl_planId (DEFAULT_VIP_PLANS env))"
  by (simp add: DEFAULT_VIP_PLANS_def DEFAULT_VIP_6MONTHS_PLAN_def DEFAULT_VIP_YEARLY_PLAN_def DEFAULT_VIP_PLAN_def plan_seed_def VIP_PLAN_ID_def)

lemma plans_three:
  assumes "getOrCreateVipPlans env ps = (Inr plans, ps')"
  obtains a b c where "plans = [a, b, c]" and "seeded (DEFAULT_VIP_6MONTHS_PLAN env) a" and "seeded (DEFAULT_VIP_YEARLY_PLAN env) b"
    and "seeded (DEFAULT_VIP_PLAN env) c" and "\<forall>p \<in> set plans. find_plan (pl_planId p) ps' = Some p"
proof -
  obtain cs where e: "ensure_plans (DEFAULT_VIP_PLANS env) ps = (Inr cs, ps')" "plans = sort_key pl_sortOrder cs"
    using assms by (auto simp: getOrCreateVipPlans_def split: prod.splits) (case_tac x1; auto)
  note s = ensure_plans_seeded [OF e(1) default_ids]
  then obtain a b c where cs: "cs = [a, b, c]" and sd: "seeded (DEFAULT_VIP_6MONTHS_PLAN env) a" "seeded (DEFAULT_VIP_YEARLY_PLAN env) b"
    "seeded (DEFAULT_VIP_PLAN env) c"
    by (auto simp: DEFAULT_VIP_PLANS_def list_all2_Cons1)
  then have o: "pl_sortOrder a = 0" "pl_sortOrder b = 1" "pl_sortOrder c = 2"
    by (auto simp: seeded_def DEFAULT_VIP_6MONTHS_PLAN_def DEFAULT_VIP_YEARLY_PLAN_def DEFAULT_VIP_PLAN_def plan_seed_def)
  have "plans = [a, b, c]" using e(2) cs o by simp
  then show ?thesis using that sd s cs by auto
qed


text \<open>A read keeps the other fields of a plan.\<close>

definition same_perks :: "vip_plan \<Rightarrow> vip_plan \<Rightarrow> bool" where
  "same_perks p q \<longleftrightarrow>
     pl_isActive q = pl_isActive p \<and> pl_freeMomentsPerDay q = pl_freeMomentsPerDay p \<and>
     pl_rechargeDiscountBps q = pl_rechargeDiscountBps p \<and> pl_momentDiscountBps q = pl_momentDiscountBps p"

lemma ensure_seed_perks:
  assumes "ensurePlanSeed seed ps = (Inr c, ps')" and "find_plan (pl_planId seed) ps = Some p"
  shows "same_perks p c"
  using assms by (auto simp: ensurePlanSeed_def same_perks_def Let_def split: if_splits)

lemma ensure_plans_perks:
  assumes "ensure_plans seeds ps = (Inr cs, ps')" and "distinct (map pl_planId seeds)" and "c \<in> set cs"
    and "find_plan (pl_planId c) ps = Some p"
  shows "same_perks p c"
  using assms
proof (induction seeds arbitrary: ps cs)
  case (Cons s ss)
  obtain c1 p1 rs where h: "ensurePlanSeed s ps = (Inr c1, p1)" "ensure_plans ss p1 = (Inr rs, ps')" "cs = c1 # rs"
    using Cons.prems(1) by (auto split: prod.splits sum.splits) (case_tac x1a; auto)
  have i: "pl_planId c1 = pl_planId s" using ensure_seed(1) [OF h(1)] by (simp add: seeded_def)
  show ?case
  proof (cases "c \<in> set rs")
    case True
    have l: "list_all2 seeded ss rs" using ensure_plans_seeded [OF h(2)] Cons.prems(2) by simp
    then have "pl_planId c \<in> pl_planId ` set ss"
      using True by (auto simp: list_all2_conv_all_nth in_set_conv_nth seeded_def image_iff) (metis nth_mem)
    then have "pl_planId c \<noteq> pl_planId s" using Cons.prems(2) by auto
    then have "find_plan (pl_planId c) p1 = Some p" using ensure_seed_id [OF h(1)] Cons.prems(4) by simp
    then show ?thesis using Cons.IH [OF h(2) _ True] Cons.prems(2) by simp
  next
    case False
    then have "c = c1" using Cons.prems(3) h(3) by simp
    then show ?thesis using ensure_seed_perks [OF h(1)] Cons.prems(4) i by simp
  qed
qed simp

lemma plans_read:
  assumes "getOrCreateVipPlans env ps = (Inr plans, ps')" and "q \<in> set plans"
  shows "\<exists>s \<in> set (DEFAULT_VIP_PLANS env). seeded s q" and "find_plan (pl_planId q) ps = Some p \<Longrightarrow> same_perks p q"
    and "find_plan (pl_planId q) ps' = Some q"
proof -
  obtain cs where e: "ensure_plans (DEFAULT_VIP_PLANS env) ps = (Inr cs, ps')" "plans = sort_key pl_sortOrder cs"
    using assms by (auto simp: getOrCreateVipPlans_def split: prod.splits) (case_tac x1; auto)
  show "\<exists>s \<in> set (DEFAULT_VIP_PLANS env). seeded s q" "find_plan (pl_planId q) ps' = Some q"
    using assms(2) by (rule_tac [!] plans_three [OF assms(1)]) (auto simp: DEFAULT_VIP_PLANS_def)
  show "find_plan (pl_planId q) ps = Some p \<Longrightarrow> same_perks p q"
    using ensure_plans_perks [OF e(1) default_ids, of q p] assms(2) e(2) by simp
qed

lemma patched_plan_id [simp]: "pl_planId (patch_plan b p) = pl_planId p"
  by (simp add: patch_plan_def)

lemma update_saves:
  assumes "updateAdminVipPlanById env pid b ps = (Inr (Some p), ps1)"
  shows "find_plan pid ps1 = Some p \<and> (\<exists>old. p = patch_plan b old)"
proof -
  obtain old ps0 where g: "getVipPlanById env pid ps = (Inr (Some old), ps0)" "p = patch_plan b old"
    "ps1 = save_plan (patch_plan b old) ps0"
    using assms by (auto simp: updateAdminVipPlanById_def split: prod.splits sum.splits option.splits if_splits)
  have "find_plan pid ps0 = Some old"
    using g(1) by (auto simp: getVipPlanById_def split: prod.splits) (case_tac x1; auto)
  then show ?thesis using g find_plan_id by (auto simp: find_save_plan)
qed

text \<open>
  The edits of an administrator to the label, the duration, the price, the badge or the order of a plan
  are lost: every read of the plans writes the values of the configuration back. Only the activity and
  the perks of an edit survive.
\<close>

theorem plan_edits_are_reverted:
  assumes "updateAdminVipPlanById env pid b ps = (Inr (Some p), ps1)" and "getOrCreateVipPlans env ps1 = (Inr plans, ps2)"
    and "q \<in> set plans" and "pl_planId q = pid"
  shows "\<exists>s \<in> set (DEFAULT_VIP_PLANS env). pl_planId s = pid \<and> pl_priceInr q = pl_priceInr s \<and> pl_durationDays q = pl_durationDays s \<and>
      pl_label q = pl_label s \<and> pl_badge q = pl_badge s \<and> pl_sortOrder q = pl_sortOrder s"
    and "pl_isActive q = pl_isActive p \<and> pl_freeMomentsPerDay q = pl_freeMomentsPerDay p \<and>
      pl_rechargeDiscountBps q = pl_rechargeDiscountBps p \<and> pl_momentDiscountBps q = pl_momentDiscountBps p"
  using plans_read [OF assms(2,3)] update_saves [OF assms(1)] assms(4) by (auto simp: seeded_def same_perks_def)

definition no_env :: env where
  "no_env = (\<lambda>_. None)"

definition price_edit :: "int \<Rightarrow> plan_patch" where
  "price_edit n =
     \<lparr> pp_durationDays = None, pp_priceInr = Some n, pp_isActive = None, pp_freeMomentsPerDay = Some 3, pp_rechargeDiscountBps = None,
       pp_momentDiscountBps = None, pp_label = None, pp_badge = None, pp_sortOrder = None \<rparr>"

definition edited :: "vip_plan list" where
  "edited = [DEFAULT_VIP_6MONTHS_PLAN no_env, DEFAULT_VIP_YEARLY_PLAN no_env,
     (DEFAULT_VIP_PLAN no_env)\<lparr>pl_priceInr := 299, pl_freeMomentsPerDay := 3\<rparr>]"

lemma edit_answer:
  "fst (updateAdminVipPlanById no_env ''vip_monthly'' (price_edit 299) []) =
     Inr (Some ((DEFAULT_VIP_PLAN no_env)\<lparr>pl_priceInr := 299, pl_freeMomentsPerDay := 3\<rparr>))"
  by code_simp

lemma edit_state: "snd (updateAdminVipPlanById no_env ''vip_monthly'' (price_edit 299) []) = edited"
  by code_simp

lemma edit_read:
  "fst (getOrCreateVipPlans no_env edited) =
     Inr [DEFAULT_VIP_6MONTHS_PLAN no_env, DEFAULT_VIP_YEARLY_PLAN no_env, (DEFAULT_VIP_PLAN no_env)\<lparr>pl_freeMomentsPerDay := 3\<rparr>]"
  by code_simp

lemma edited_runs:
  "updateAdminVipPlanById no_env ''vip_monthly'' (price_edit 299) [] =
     (Inr (Some ((DEFAULT_VIP_PLAN no_env)\<lparr>pl_priceInr := 299, pl_freeMomentsPerDay := 3\<rparr>)), edited)"
  "getOrCreateVipPlans no_env edited =
     (Inr [DEFAULT_VIP_6MONTHS_PLAN no_env, DEFAULT_VIP_YEARLY_PLAN no_env, (DEFAULT_VIP_PLAN no_env)\<lparr>pl_freeMomentsPerDay := 3\<rparr>],
      snd (getOrCreateVipPlans no_env edited))"
  using edit_answer edit_state edit_read by (simp_all add: prod_eq_iff)

theorem plan_edits_are_reverted_witness:
  "pl_priceInr (the (projr (fst (updateAdminVipPlanById no_env ''vip_monthly'' (price_edit 299) [])))) = 299 \<and>
   (\<exists>s \<in> set (DEFAULT_VIP_PLANS no_env). pl_planId s = ''vip_monthly'' \<and>
      pl_priceInr ((DEFAULT_VIP_PLAN no_env)\<lparr>pl_freeMomentsPerDay := 3\<rparr>) = pl_priceInr s) \<and>
   pl_freeMomentsPerDay ((DEFAULT_VIP_PLAN no_env)\<lparr>pl_freeMomentsPerDay := 3\<rparr>) = 3"
  using plan_edits_are_reverted [OF edited_runs, of "(DEFAULT_VIP_PLAN no_env)\<lparr>pl_freeMomentsPerDay := 3\<rparr>"] edited_runs(1)
  by (auto simp: DEFAULT_VIP_PLAN_def plan_seed_def VIP_PLAN_ID_def)

text \<open>
  The plan that the helper for the default plan answers, whose perks every member gets and which an
  administrator grants and edits, is the plan of six months, not the monthly one.
\<close>

theorem default_plan_is_six_months:
  assumes "getOrCreateVipPlanConfig env ps = (Inr p, ps')"
  shows "pl_planId p = ''vip_6months'' \<and> pl_durationDays p = readIntEnv env ''VIP_6MONTHS_DURATION_DAYS'' 180 \<and>
    find_plan ''vip_6months'' ps' = Some p"
proof -
  obtain plans where g: "getOrCreateVipPlans env ps = (Inr plans, ps')" "p = hd plans"
    using assms by (auto simp: getOrCreateVipPlanConfig_def split: prod.splits) (case_tac x1; auto)
  show ?thesis using g(2)
    by (rule_tac plans_three [OF g(1)]) (auto simp: seeded_def DEFAULT_VIP_6MONTHS_PLAN_def plan_seed_def)
qed

lemma six_months_first: "fst (getOrCreateVipPlanConfig no_env []) = Inr (DEFAULT_VIP_6MONTHS_PLAN no_env)"
  by code_simp

theorem default_plan_is_six_months_witness:
  "pl_durationDays (DEFAULT_VIP_6MONTHS_PLAN no_env) = 180 \<and>
   find_plan ''vip_6months'' (snd (getOrCreateVipPlanConfig no_env [])) = Some (DEFAULT_VIP_6MONTHS_PLAN no_env)"
proof -
  have "getOrCreateVipPlanConfig no_env [] = (Inr (DEFAULT_VIP_6MONTHS_PLAN no_env), snd (getOrCreateVipPlanConfig no_env []))"
    using six_months_first by (simp add: prod_eq_iff)
  from default_plan_is_six_months [OF this] show ?thesis by (simp add: readIntEnv_def no_env_def)
qed

end
