(* ===== verification/VipOrders.thy ===== *)
theory VipOrders
  imports VipFlow
begin

text \<open>
  What a paid order becomes: the pending row that stops its finalization, the failed row that lets it be
  finalized again and again, the row that the webhook of the coins completes, and the order without a row.
\<close>

section \<open>The row of an order\<close>

lemma bind_simps [simp]:
  "vip_bind (Inl e, st) f = (Inl e, st)" "vip_bind (Inr a, st) f = f a st"
  by (simp_all add: vip_bind_def)

lemma bind_Inl: "\<exists>e. fst r = Inl e \<Longrightarrow> \<exists>e. fst (vip_bind r f) = Inl e"
  by (cases r) (auto simp: vip_bind_def)

lemma bind_all_Inl: "(\<And>a st. \<exists>e. fst (f a st) = Inl e) \<Longrightarrow> \<exists>e. fst (vip_bind r f) = Inl e"
  by (cases r; cases "fst r") (auto simp: vip_bind_def)

text \<open>What the purchase reads and writes, beside the plans and the log of the webhook.\<close>

definition vip_core :: "vip_state \<Rightarrow> coin_store \<times> vip_membership list \<times> (string \<Rightarrow> millis option)" where
  "vip_core st = (wallets st, vs_members st, vs_cache st)"

lemma core_simps [simp]:
  "vip_core (snd (on_plans f st)) = vip_core st" "vip_core (note_vip_event w st) = vip_core st" "vip_core (mark_vip_event eid st) = vip_core st"
  "vip_core (record_vip_result cid s st) = vip_core st" "vip_core (referral_hook c uid st) = vip_core st"
  by (simp_all add: vip_core_def)
    (auto simp: note_vip_event_def mark_vip_event_def record_vip_result_def referral_hook_def Let_def split: option.splits)

lemma core_plans: "on_plans f st = (r, s1) \<Longrightarrow> vip_core s1 = vip_core st"
  using core_simps(1) [of f st] by simp

lemma coreD:
  assumes "vip_core s = vip_core st"
  shows "wallets s = wallets st" and "vs_members s = vs_members st" and "vs_cache s = vs_cache st" and "find_member u s = find_member u st"
  using assms by (simp_all add: vip_core_def find_member_def)

definition idle :: "nat \<Rightarrow> 'a \<Rightarrow> 'a" where
  "idle = (\<lambda>_ s. s)"

lemma idle_simp [simp]: "idle n s = s"
  by (simp add: idle_def)

definition order_row :: "string \<Rightarrow> vip_state \<Rightarrow> coin_txn option" where
  "order_row orderId st = txn_by_id (buildVipTxnId orderId) (wallets st)"

lemma order_row_plans [simp]: "order_row orderId (snd (on_plans f st)) = order_row orderId st"
  by (simp add: order_row_def)

lemma order_row_core:
  assumes "vip_core s = vip_core st"
  shows "order_row orderId s = order_row orderId st"
  using coreD(1) [OF assms] by (simp add: order_row_def)

text \<open>The two requests that finalize an order: what they answer and what they leave.\<close>

lemma verify_captured_result:
  assumes "vip_verify_captured c others s user orderId paymentId st = (a, st2)"
  shows "(fst a \<noteq> 200 \<and> vip_core st2 = vip_core st) \<or>
    (\<exists>inp s1 r st3. finalizeVipPurchaseAtomically c others inp s1 = (r, st3) \<and> vi_orderId inp = orderId \<and> vip_core s1 = vip_core st \<and>
       vip_core st2 = vip_core st3 \<and> (fst a = 200 \<longrightarrow> (\<exists>x. r = Inr x)))"
proof (cases "txn_by_id (buildVipTxnId orderId) (wallets st)")
  case (Some t)
  show ?thesis
  proof (cases "tx_userId t = a_id user")
    case True
    obtain pl s1 where o: "on_plans (getVipPlanById (vc_env c) (vx_planId s)) st = (pl, s1)" by (meson surj_pair)
    note k = core_plans [OF o]
    show ?thesis
    proof (cases "\<exists>plan. pl = Inr (Some plan)")
      case plan: True
      then obtain plan where plan: "pl = Inr (Some plan)" by blast
      let ?inp = "\<lparr> vi_userId = a_id user, vi_orderId = orderId, vi_paymentId = paymentId, vi_planId = vx_planId s,
        vi_durationDays = Some (pl_durationDays plan) \<rparr>"
      obtain r st3 where f: "finalizeVipPurchaseAtomically c others ?inp s1 = (r, st3)" by (meson surj_pair)
      have "vip_core st2 = vip_core st3 \<and> (fst a = 200 \<longrightarrow> (\<exists>x. r = Inr x))"
        using assms Some True o plan f by (auto simp: vip_verify_captured_def split: sum.splits)
      then show ?thesis using f k by (intro disjI2 exI [of _ ?inp] exI [of _ s1] exI [of _ r] exI [of _ st3]) simp
    next
      case False
      then show ?thesis using assms Some True o k by (auto simp: vip_verify_captured_def split: sum.splits option.splits)
    qed
  next
    case False
    then show ?thesis using assms Some by (auto simp: vip_verify_captured_def)
  qed
next
  case None
  then show ?thesis using assms by (auto simp: vip_verify_captured_def)
qed

lemma verify_result:
  assumes "verifyVipWebPayment c others token orderId paymentId sig st = (a, st2)"
  shows "(fst a \<noteq> 200 \<and> (vip_core st2 = vip_core st \<or> vip_core st2 = vip_core (fail_vip_order orderId st))) \<or>
    (\<exists>inp s1 r st3. finalizeVipPurchaseAtomically c others inp s1 = (r, st3) \<and> vi_orderId inp = orderId \<and> vip_core s1 = vip_core st \<and>
       vip_core st2 = vip_core st3 \<and> (fst a = 200 \<longrightarrow> (\<exists>x. r = Inr x)))"
proof -
  have f: "vip_core (fail_vip_order orderId (record_vip_result cid x st)) = vip_core (fail_vip_order orderId st)" for cid x
    by (simp add: vip_core_def) (simp add: fail_vip_order_def upd_wallets_def record_vip_result_def)
  have v: ?thesis if "vip_verify_captured c others s user orderId paymentId st = (a, st2)" for s user
    using verify_captured_result [OF that] by blast
  show ?thesis
    using assms v f unfolding verifyVipWebPayment_def
    by (auto simp: vip_provider_refusal_def split: option.splits sum.splits bool.splits if_splits)
qed

lemma webhook_result:
  assumes "vip_webhook_purchase c others w orderId paymentId st = (a, st2)"
  shows "(a \<noteq> (200, ''success'') \<and> vip_core st2 = vip_core st) \<or>
    (\<exists>inp s1 r st3. finalizeVipPurchaseAtomically c others inp s1 = (r, st3) \<and> vi_orderId inp = orderId \<and> vip_core s1 = vip_core st \<and>
       vip_core st2 = vip_core st3 \<and> (a = (200, ''success'') \<longrightarrow> (\<exists>x. r = Inr x)))"
proof -
  let ?n = "case vw_paymentNotes w of Some n \<Rightarrow> n | None \<Rightarrow> (case vw_orderNotes w of Some n \<Rightarrow> n | None \<Rightarrow> no_notes)"
  let ?p = "case note_truthy ?n ''planId'' of None \<Rightarrow> VIP_PLAN_ID | Some p \<Rightarrow> note_string p"
  show ?thesis
  proof (cases "?n ''productType'' \<noteq> Some (NStr ''vip_membership'') \<or> note_truthy ?n ''userId'' = None")
    case True
    then show ?thesis using assms by (auto simp: vip_webhook_purchase_def Let_def split: option.splits if_splits)
  next
    case False
    then obtain u where u: "?n ''productType'' = Some (NStr ''vip_membership'')" "note_truthy ?n ''userId'' = Some u" by auto
    obtain pl s1 where o: "on_plans (getVipPlanById (vc_env c) ?p) st = (pl, s1)" by (meson surj_pair)
    show ?thesis
    proof (cases pl)
      case (Inl e)
      then show ?thesis using assms u o core_plans [OF o] by (auto simp: vip_webhook_purchase_def Let_def)
    next
      case (Inr plan)
      let ?inp = "\<lparr> vi_userId = note_string u, vi_orderId = orderId, vi_paymentId = paymentId, vi_planId = ?p,
        vi_durationDays = map_option pl_durationDays plan \<rparr>"
      obtain r st3 where f: "finalizeVipPurchaseAtomically c others ?inp s1 = (r, st3)" by (meson surj_pair)
      have "vip_core st2 = vip_core st3 \<and> (a = (200, ''success'') \<longrightarrow> (\<exists>x. r = Inr x))"
        using assms u o Inr f by (auto simp: vip_webhook_purchase_def Let_def split: sum.splits)
      then show ?thesis using f core_plans [OF o] by (intro disjI2 exI [of _ ?inp] exI [of _ s1] exI [of _ r] exI [of _ st3]) simp
    qed
  qed
qed

lemma transaction_pending:
  "map_option tx_status existing = Some TPending \<Longrightarrow>
    \<exists>e. vip_transaction now inp days existing st = (Inl e, st)"
  by (auto simp: vip_transaction_def Let_def split: option.splits)

lemma pending_finalize:
  assumes "map_option tx_status (order_row (vi_orderId inp) st) = Some TPending"
  shows "\<exists>e. fst (finalizeVipPurchaseAtomically c others inp st) = Inl e"
proof -
  have "\<exists>e. fst (vip_transaction now inp days (order_row (vi_orderId inp) st) s) = Inl e" for now days s
    using transaction_pending [OF assms, of now inp days s] by auto
  then show ?thesis
    using assms by (auto simp: finalizeVipPurchaseAtomically_def order_row_def Let_def intro!: bind_all_Inl bind_Inl [of "vip_transaction _ _ _ _ _"])
qed

lemma pending_finalize_idle:
  assumes "map_option tx_status (order_row (vi_orderId inp) st) = Some TPending"
    and "finalizeVipPurchaseAtomically c idle inp st = (r, st')"
  shows "vs_members st' = vs_members st \<and> wallets st' = wallets st"
proof -
  let ?t = "order_row (vi_orderId inp) st"
  have "\<exists>e. vip_transaction now inp days ?t s = (Inl e, s)" for now days s using transaction_pending [OF assms(1)] .
  moreover have "finalizeVipPurchaseAtomically c idle inp st =
    vip_bind (on_plans (getVipPlanById (vc_env c) (vi_planId inp)) st)
      (\<lambda>plan st1. vip_bind (vip_transaction (vc_now c) inp (nvl (vi_durationDays inp) (case plan of None \<Rightarrow> 30 | Some p \<Rightarrow> pl_durationDays p)) ?t st1)
        (\<lambda>expiresAt st2. (Inr (False, expiresAt), referral_hook c (vi_userId inp) (invalidateVipCache (vi_userId inp) st2))))"
    using assms(1) by (auto simp: finalizeVipPurchaseAtomically_def order_row_def Let_def)
  ultimately have "st' = snd (on_plans (getVipPlanById (vc_env c) (vi_planId inp)) st)"
    using assms(2) by (auto simp: vip_bind_def split: prod.splits sum.splits) (metis Inl_Inr_False prod.inject snd_conv)+
  then show ?thesis by simp
qed

text \<open>The order leaves a pending row.\<close>

lemma create_txn_row: "create_txn t w = Some w' \<Longrightarrow> txn_by_id (tx_transactionId t) w' = Some t"
  by (auto simp: create_txn_def txn_by_id_def find_txn_def find_append split: if_splits option.splits)
    (metis (mono_tags, lifting) find_Some_iff image_eqI nth_mem)

lemma wallets_pay [simp]: "wallets (st\<lparr>vs_pay := attachCheckoutOrder cid order (vs_pay st)\<rparr>) = wallets st"
  by (auto simp: wallets_def attachCheckoutOrder_def split: option.splits)

lemma order_leaves_row:
  assumes "createVipWebOrder c (Some order) keyId token st = (Inr r, st')" and "order_row order st = None"
  shows "map_option tx_status (order_row order st') = Some TPending \<and> vs_members st' = vs_members st"
proof -
  obtain s where s: "vc_session c token = Some s"
    using assms(1) by (cases "vc_session c token") (auto simp: createVipWebOrder_def split: if_splits)
  obtain user where u: "session_user s st = Some user"
    using assms(1) s by (cases "session_user s st") (auto simp: createVipWebOrder_def split: if_splits)
  obtain pl st1 where p: "on_plans (getVipPlanById (vc_env c) (vx_planId s)) st = (pl, st1)" by (meson surj_pair)
  obtain plan where pl: "pl = Inr (Some plan)"
    using assms(1) s u p by (cases pl; cases "projr pl") (auto simp: createVipWebOrder_def split: if_splits)
  obtain w where w: "createPendingVipTransaction (a_id user) order (wallets st1) = Some w"
    using assms(1) s u p pl by (cases "createPendingVipTransaction (a_id user) order (wallets st1)")
      (auto simp: createVipWebOrder_def split: if_splits)
  have e: "wallets st' = w" "vs_members st' = vs_members st1"
    using assms(1) s u p pl w by (auto simp: createVipWebOrder_def Let_def split: if_splits)
  have "txn_by_id (buildVipTxnId order) (wallets st1) = None"
    using assms(2) coreD(1) [OF core_plans [OF p]] by (simp add: order_row_def)
  then have "create_txn (vip_row (a_id user) order None TPending) (wallets st1) = Some w"
    using w by (simp add: createPendingVipTransaction_def)
  from create_txn_row [OF this] show ?thesis using e coreD(2) [OF core_plans [OF p]] by (simp add: order_row_def vip_row_def)
qed

text \<open>
  C20. An order that \<open>createVipWebOrder\<close> opened is never activated: as long as its row is the pending one that
  the order left, the verification of the client and the webhook of the provider both fail on it, whatever
  runs beside them, and give no membership. The transaction calls \<open>save\<close> on a plain object.
\<close>

theorem paid_order_is_never_activated:
  assumes "createVipWebOrder c (Some order) keyId token st0 = (Inr r, st)" and "order_row order st0 = None"
    and "order_row order st' = order_row order st"
  shows "(fst (fst (verifyVipWebPayment c' others token' order payment sig st')) \<noteq> 200) \<and>
    (fst (vip_webhook_purchase c' others w order payment st') \<noteq> (200, ''success'')) \<and>
    (vs_members (snd (vip_webhook_purchase c' idle w order payment st')) = vs_members st') \<and>
    (vs_members (snd (verifyVipWebPayment c' idle token' order payment sig st')) = vs_members st')"
proof -
  have p: "map_option tx_status (order_row order st') = Some TPending" using order_leaves_row [OF assms(1,2)] assms(3) by simp
  have nf: "r \<noteq> Inr x"
    if "finalizeVipPurchaseAtomically c' os inp s1 = (r, s2)" "vi_orderId inp = order" "vip_core s1 = vip_core st'" for os inp s1 r s2 x
    using pending_finalize [of inp s1 c' os] that p order_row_core [OF that(3)] by auto
  have m: "vs_members s2 = vs_members st'"
    if "finalizeVipPurchaseAtomically c' idle inp s1 = (r, s2)" "vi_orderId inp = order" "vip_core s1 = vip_core st'" for inp s1 r s2
    using pending_finalize_idle [OF _ that(1)] that(2) p order_row_core [OF that(3)] coreD(2) [OF that(3)] by simp
  have p1: "fst (fst (verifyVipWebPayment c' others token' order payment sig st')) \<noteq> 200"
    using verify_result [of c' others token' order payment sig st'] nf by (metis prod.collapse)
  have p2: "fst (vip_webhook_purchase c' others w order payment st') \<noteq> (200, ''success'')"
    using webhook_result [of c' others w order payment st'] nf by (metis prod.collapse)
  have p3: "vs_members (snd (vip_webhook_purchase c' idle w order payment st')) = vs_members st'"
    using webhook_result [of c' idle w order payment st'] m by (metis coreD(2) prod.collapse)
  have p4: "vs_members (snd (verifyVipWebPayment c' idle token' order payment sig st')) = vs_members st'"
    using verify_result [of c' idle token' order payment sig st'] m members_simps(9) by (metis coreD(2) prod.collapse)
  show ?thesis using p1 p2 p3 p4 by blast
qed


section \<open>A failed row\<close>

definition verify_again :: "vip_ctx \<Rightarrow> string \<Rightarrow> string \<Rightarrow> string \<Rightarrow> string \<Rightarrow> vip_state \<Rightarrow> vip_state" where
  "verify_again c token orderId paymentId sig st = snd (verifyVipWebPayment c idle token orderId paymentId sig st)"

text \<open>The state in which the user of a session can verify a failed order.\<close>

definition verifiable :: "vip_ctx \<Rightarrow> vip_session \<Rightarrow> string \<Rightarrow> string \<Rightarrow> vip_plan \<Rightarrow> vip_state \<Rightarrow> bool" where
  "verifiable c s uid orderId plan st \<longleftrightarrow>
     map_option a_id (session_user s st) = Some uid \<and>
     (\<exists>t. order_row orderId st = Some t \<and> tx_userId t = uid \<and> tx_status t = TFailed) \<and>
     getVipPlanById (vc_env c) (vx_planId s) (vs_plans st) = (Inr (Some plan), vs_plans st)"

lemma find_map_if:
  assumes "\<And>x. key (f x) = key x"
  shows "List.find (\<lambda>x. key x = k) (map (\<lambda>x. if P x then f x else x) xs) =
    map_option (\<lambda>x. if P x then f x else x) (List.find (\<lambda>x. key x = k) xs)"
  by (induction xs) (auto simp: assms)

lemma session_user_vip:
  "map_option a_id (session_user s (set_vipExpiresAt uid e st)) = map_option a_id (session_user s st)"
  by (auto simp: session_user_def user_by_firebase_def accounts_update find_map_if split: option.splits)

lemma session_user_found:
  assumes "map_option a_id (session_user s st) = Some uid"
  shows "\<exists>a. findById uid (wallets st) = Some a"
proof -
  have "\<exists>a \<in> set (accounts (wallets st)). a_id a = uid"
    using assms by (auto simp: session_user_def user_by_firebase_def find_Some_iff split: option.splits if_splits)
  then have "findById uid (wallets st) \<noteq> None" by (auto simp: findById_def find_None_iff)
  then show ?thesis by simp
qed

lemma on_plans_settled: "f (vs_plans st) = (r, vs_plans st) \<Longrightarrow> on_plans f st = (r, st)"
  by (simp add: on_plans_def)

lemma find_member_written:
  "map_option vm_expiresAt (find_member (vi_userId inp) (write_membership now inp e st)) = Some e"
  "\<exists>m. find_member (vi_userId inp) (write_membership now inp e st) = Some m \<and> vm_status m = vip_active \<and> vm_expiresAt m = e"
  by (auto simp: find_write_membership split: option.splits)

lemma verify_failed_once:
  assumes "vc_vipEnabled c" and "token \<noteq> []" and "orderId \<noteq> []" and "paymentId \<noteq> []" and "sig \<noteq> []"
    and "vc_session c token = Some s" and "pe_signature (vc_pay c) orderId paymentId sig = Some True"
    and "verifyProviderPaymentCaptured (vc_pay c) orderId paymentId = Inr pr" and "verifiable c s uid orderId plan st"
  shows "fst (verifyVipWebPayment c idle token orderId paymentId sig st) = (200, ''VIP activated successfully'')"
    and "verifiable c s uid orderId plan (verify_again c token orderId paymentId sig st)"
    and "\<exists>m. find_member uid (verify_again c token orderId paymentId sig st) = Some m \<and> vm_status m = vip_active \<and>
      vm_expiresAt m = extended_expiry (vc_now c) (find_member uid st) (pl_durationDays plan)"
proof -
  obtain user t where u: "session_user s st = Some user" "a_id user = uid" and t: "order_row orderId st = Some t" "tx_userId t = uid"
    "tx_status t = TFailed" and g: "getVipPlanById (vc_env c) (vx_planId s) (vs_plans st) = (Inr (Some plan), vs_plans st)"
    using assms(9) by (auto simp: verifiable_def)
  obtain a where a: "findById uid (wallets st) = Some a" using session_user_found [of s st uid] u by auto
  let ?e = "extended_expiry (vc_now c) (find_member uid st) (pl_durationDays plan)"
  let ?inp = "\<lparr> vi_userId = uid, vi_orderId = orderId, vi_paymentId = paymentId, vi_planId = vx_planId s,
    vi_durationDays = Some (pl_durationDays plan) \<rparr>"
  let ?s1 = "set_vipExpiresAt uid (Some ?e) (write_membership (vc_now c) ?inp ?e st)"
  let ?s2 = "referral_hook c uid (invalidateVipCache uid ?s1)"
  have f: "finalizeVipPurchaseAtomically c idle ?inp st = (Inr (False, ?e), ?s2)"
    using t a g by (simp add: finalizeVipPurchaseAtomically_def order_row_def on_plans_settled vip_transaction_def Let_def)
  have v: "verifyVipWebPayment c idle token orderId paymentId sig st =
    ((200, ''VIP activated successfully''), record_vip_result (vx_checkoutId s) cc_success ?s2)"
    using assms(1-8) u t g f by (simp add: verifyVipWebPayment_def vip_verify_captured_def on_plans_settled order_row_def)
  show "fst (verifyVipWebPayment c idle token orderId paymentId sig st) = (200, ''VIP activated successfully'')" using v by simp
  have w: "wallets (verify_again c token orderId paymentId sig st) = wallets ?s1" using v by (simp add: verify_again_def)
  have "session_user s (verify_again c token orderId paymentId sig st) = session_user s ?s1"
    using w by (simp add: session_user_def user_by_firebase_def)
  moreover have "session_user s (write_membership (vc_now c) ?inp ?e st) = session_user s st"
    by (simp add: session_user_def user_by_firebase_def)
  ultimately have su: "map_option a_id (session_user s (verify_again c token orderId paymentId sig st)) = Some uid"
    using u session_user_vip [of s uid "Some ?e" "write_membership (vc_now c) ?inp ?e st"] by simp
  have "vs_plans (verify_again c token orderId paymentId sig st) = vs_plans st"
    using v by (simp add: verify_again_def record_vip_result_def referral_hook_def invalidateVipCache_def set_vipExpiresAt_def
        upd_wallets_def write_membership_def update_membership_def split: option.split)
  then show "verifiable c s uid orderId plan (verify_again c token orderId paymentId sig st)"
    using su w t g by (simp add: verifiable_def order_row_def)
  show "\<exists>m. find_member uid (verify_again c token orderId paymentId sig st) = Some m \<and> vm_status m = vip_active \<and> vm_expiresAt m = ?e"
    using v find_member_written(2) [of ?inp "vc_now c" ?e st] by (simp add: verify_again_def)
qed

lemma extended_base: "extended_expiry now m d = extended_expiry now m 0 + d * day_ms"
  by (simp add: extended_expiry_def)

lemma extended_active:
  "membership_active now m \<Longrightarrow> extended_expiry now (Some m) d = vm_expiresAt m + d * day_ms"
  by (simp add: extended_expiry_def)

lemma base_not_past: "now \<le> extended_expiry now m 0"
  by (auto simp: extended_expiry_def membership_active_def split: option.splits)

text \<open>
  C19. One payment buys any number of periods once the row of its order is failed, as a verification with a
  wrong signature leaves it: every further verification of the same payment answers success and extends
  the membership again, because the row is never completed.
\<close>

theorem failed_order_extends_every_time:
  assumes "vc_vipEnabled c" and "token \<noteq> []" and "orderId \<noteq> []" and "paymentId \<noteq> []" and "sig \<noteq> []"
    and "vc_session c token = Some s" and "pe_signature (vc_pay c) orderId paymentId sig = Some True"
    and "verifyProviderPaymentCaptured (vc_pay c) orderId paymentId = Inr pr" and "verifiable c s uid orderId plan st"
    and "0 < pl_durationDays plan" and "0 < n"
  shows "(map_option vm_expiresAt (find_member uid ((verify_again c token orderId paymentId sig ^^ n) st)) =
      Some (extended_expiry (vc_now c) (find_member uid st) (int n * pl_durationDays plan))) \<and>
    (fst (verifyVipWebPayment c idle token orderId paymentId sig ((verify_again c token orderId paymentId sig ^^ n) st)) =
      (200, ''VIP activated successfully''))"
proof -
  let ?v = "verify_again c token orderId paymentId sig" and ?now = "vc_now c" and ?d = "pl_durationDays plan"
  note once = verify_failed_once [OF assms(1-8)]
  have l: "verifiable c s uid orderId plan ((?v ^^ k) st) \<and>
    (0 < k \<longrightarrow> (\<exists>m. find_member uid ((?v ^^ k) st) = Some m \<and> vm_status m = vip_active \<and>
      vm_expiresAt m = extended_expiry ?now (find_member uid st) (int k * ?d)))" for k
  proof (induction k)
    case 0
    then show ?case using assms(9) by simp
  next
    case (Suc k)
    have v: "verifiable c s uid orderId plan ((?v ^^ k) st)" using Suc by simp
    obtain m where m: "find_member uid ((?v ^^ Suc k) st) = Some m" "vm_status m = vip_active"
      "vm_expiresAt m = extended_expiry ?now (find_member uid ((?v ^^ k) st)) ?d"
      using once(3) [OF v] by auto
    have "extended_expiry ?now (find_member uid ((?v ^^ k) st)) ?d = extended_expiry ?now (find_member uid st) (int (Suc k) * ?d)"
    proof (cases "k = 0")
      case False
      then obtain m' where m': "find_member uid ((?v ^^ k) st) = Some m'" "vm_status m' = vip_active"
        "vm_expiresAt m' = extended_expiry ?now (find_member uid st) (int k * ?d)" using Suc by auto
      have "0 < int k * ?d * day_ms" using False assms(10) by (simp add: day_ms_def)
      then have "?now < vm_expiresAt m'"
        using m'(3) base_not_past [of ?now "find_member uid st"] extended_base [of ?now "find_member uid st" "int k * ?d"] by simp
      then have "membership_active ?now m'" using m'(2) by (simp add: membership_active_def)
      from extended_active [OF this, of ?d] show ?thesis
        using m' extended_base [of ?now "find_member uid st" "int k * ?d"] extended_base [of ?now "find_member uid st" "int (Suc k) * ?d"]
        by (simp add: algebra_simps)
    qed simp
    then show ?case using m once(2) [OF v] by auto
  qed
  have p1: "map_option vm_expiresAt (find_member uid ((?v ^^ n) st)) = Some (extended_expiry ?now (find_member uid st) (int n * ?d))"
    using l [of n] assms(11) by auto
  have p2: "fst (verifyVipWebPayment c idle token orderId paymentId sig ((?v ^^ n) st)) = (200, ''VIP activated successfully'')"
    using once(1) l [of n] by blast
  show ?thesis using p1 p2 by blast
qed


section \<open>A run\<close>

definition vip_pe :: pay_env where
  "vip_pe =
     \<lparr> pe_env = no_env, pe_mock = True, pe_payment = (\<lambda>_. Inr None), pe_order = (\<lambda>_. Inr None), pe_session = (\<lambda>_. None),
       pe_signature = (\<lambda>_ _ sig. Some (sig = ''good'')), pe_isValidObjectId = (\<lambda>_. True) \<rparr>"

definition vip_demo_session :: vip_session where
  "vip_demo_session =
     \<lparr> vx_firebaseUid = ''f1'', vx_userId = ''u1'', vx_planId = ''vip_monthly'', vx_priceInr = 499, vx_durationDays = 30,
       vx_checkoutId = Some ''c1'' \<rparr>"

definition vip_at :: "millis \<Rightarrow> vip_ctx" where
  "vip_at now =
     \<lparr> vc_pay = vip_pe, vc_vipEnabled = True, vc_session = (\<lambda>tok. if tok = ''token'' then Some vip_demo_session else None),
       vc_now = now, vc_periodStart = 0 \<rparr>"

definition vip_user :: account where
  "vip_user =
     \<lparr> a_id = ''u1'', a_firebaseUid = ''f1'', a_role = ''user'', a_coins = 0, a_phone = None, a_email = None,
       a_staffCoinsBalance = None, a_bdDisabled = False, a_vipExpiresAt = None \<rparr>"

definition vip_demo :: vip_state where
  "vip_demo =
     \<lparr> vs_pay = \<lparr> store = \<lparr> accounts = [vip_user], txns = [] \<rparr>, contexts = [], webhooks = [], payEvents = [] \<rparr>,
       vs_plans = DEFAULT_VIP_PLANS no_env, vs_members = [], vs_usage = Map.empty, vs_cache = Map.empty, vs_events = [] \<rparr>"

definition vip_ordered :: vip_state where
  "vip_ordered = snd (createVipWebOrder (vip_at 0) (Some ''o1'') True ''token'' vip_demo)"

definition vip_refused :: vip_state where
  "vip_refused = snd (verifyVipWebPayment (vip_at 0) idle ''token'' ''o1'' ''p1'' ''bad'' vip_ordered)"

lemma ordered_answer: "fst (createVipWebOrder (vip_at 0) (Some ''o1'') True ''token'' vip_demo) = Inr (''o1'', 49900)"
  by code_simp

lemma ordered_run: "createVipWebOrder (vip_at 0) (Some ''o1'') True ''token'' vip_demo = (Inr (''o1'', 49900), vip_ordered)"
  using ordered_answer by (simp add: prod_eq_iff vip_ordered_def)

lemma no_order_yet: "order_row ''o1'' vip_demo = None"
  by code_simp

theorem paid_order_is_never_activated_witness:
  "fst (createVipWebOrder (vip_at 0) (Some ''o1'') True ''token'' vip_demo) = Inr (''o1'', 49900) \<and>
   fst (fst (verifyVipWebPayment (vip_at 1000) idle ''token'' ''o1'' ''p1'' ''good'' vip_ordered)) \<noteq> 200 \<and>
   vs_members (snd (verifyVipWebPayment (vip_at 1000) idle ''token'' ''o1'' ''p1'' ''good'' vip_ordered)) = vs_members vip_ordered"
  using paid_order_is_never_activated [OF ordered_run no_order_yet refl] ordered_answer by blast

lemma refused_row: "order_row ''o1'' vip_refused = Some ((vip_row ''u1'' ''o1'' None TPending)\<lparr>tx_status := TFailed\<rparr>)"
  by code_simp

lemma refused_user: "map_option a_id (session_user vip_demo_session vip_refused) = Some ''u1''"
  by code_simp

lemma refused_plans: "vs_plans vip_refused = DEFAULT_VIP_PLANS no_env"
  by code_simp

lemma monthly_read: "fst (getVipPlanById no_env ''vip_monthly'' (DEFAULT_VIP_PLANS no_env)) = Inr (Some (DEFAULT_VIP_PLAN no_env))"
  by code_simp

lemma monthly_settled: "snd (getVipPlanById no_env ''vip_monthly'' (DEFAULT_VIP_PLANS no_env)) = DEFAULT_VIP_PLANS no_env"
  by code_simp

lemma refused_verifiable: "verifiable (vip_at 0) vip_demo_session ''u1'' ''o1'' (DEFAULT_VIP_PLAN no_env) vip_refused"
  using refused_user refused_row refused_plans monthly_read monthly_settled
  by (auto simp: verifiable_def vip_row_def vc_env_def vip_at_def vip_pe_def vip_demo_session_def prod_eq_iff)

lemma refused_member: "find_member ''u1'' vip_refused = None"
  by code_simp

theorem failed_order_extends_every_time_witness:
  "map_option vm_expiresAt (find_member ''u1'' ((verify_again (vip_at 0) ''token'' ''o1'' ''p1'' ''good'' ^^ 3) vip_refused)) =
     Some (3 * 30 * day_ms)"
proof -
  have "verifyProviderPaymentCaptured (vc_pay (vip_at 0)) ''o1'' ''p1'' = Inr (mock_payment ''o1'', None)"
    by (simp add: verifyProviderPaymentCaptured_def vip_at_def vip_pe_def)
  from failed_order_extends_every_time [THEN conjunct1, OF _ _ _ _ _ _ _ this refused_verifiable, of "''token''" "''good''" 3] refused_member
  show ?thesis
    by (simp add: vip_at_def vip_pe_def extended_expiry_def DEFAULT_VIP_PLAN_def plan_seed_def readIntEnv_def no_env_def)
qed


section \<open>The order and the webhook of the coins\<close>

text \<open>A row of the order that is found first among the rows the coin purchase looks for.\<close>

lemma finalize_matched:
  assumes "find_txn (matches_order orderId) w = Some t" and "tx_status t = TPending" and "keys_unique w"
    and "findById (tx_userId t) w = Some a" and "txn_by_id (buildPendingBonusTransactionId orderId) w = None"
  shows "\<exists>r w'. finalizePaymentAtomically orderId paymentId None w = (Inr r, w', [CreatorReferralPurchaseHook (tx_userId t)]) \<and>
    map_option tx_status (txn_by_id (tx_transactionId t) w') = Some TCompleted"
proof -
  have t: "t \<in> set (txns w)" using find_txn_SomeD [OF assms(1)] by simp
  have u: "txn_by_id (tx_transactionId t) w = Some t" using txn_by_id_unique [OF assms(3) t] .
  have "find_txn (\<lambda>x. tx_transactionId x = tx_transactionId t \<and> tx_status x \<noteq> TCompleted) w = Some t"
    using t assms(2,3) u by (auto simp: find_txn_def txn_by_id_def find_Some_iff)
  then have c: "completePendingTransaction t orderId paymentId w =
    Some (complete_row orderId paymentId t, update_txn (tx_transactionId t) (complete_row orderId paymentId) w)"
    by (simp add: completePendingTransaction_def)
  let ?w1 = "update_txn (tx_transactionId t) (complete_row orderId paymentId) w"
  have cid: "tx_transactionId (complete_row orderId paymentId x) = tx_transactionId x" for x by (simp add: complete_row_def)
  have b: "txn_by_id (buildPendingBonusTransactionId orderId) ?w1 = None"
    using assms(5) by (simp add: txn_by_id_def find_txn_def txns_update_txn find_map_if [where key = tx_transactionId, OF cid])
  have r: "txn_by_id (tx_transactionId t) ?w1 = Some (complete_row orderId paymentId t)"
    using u by (simp add: txn_by_id_def find_txn_def txns_update_txn find_map_if [where key = tx_transactionId, OF cid])
  have f: "txn_by_id k (inc_coins v n x) = txn_by_id k x" for k v n x by (simp add: txn_by_id_def find_txn_def)
  show ?thesis
    using assms(1,4) c b r by (auto simp: finalizePaymentAtomically_def finalize_txn_def complete_bonus_def Let_def f complete_row_def)
qed


text \<open>
  C21. The webhook of the coin purchases takes the payment of a VIP order for its own: it completes the
  pending row of the order, which is worth no coins, and answers that it is processed. The purchase of the
  membership then finds a completed row: a new buyer gets an error and no membership, and a member is
  told that the order was already processed and is not extended.
\<close>

theorem coin_webhook_swallows_vip_order:
  assumes "find_txn (matches_order order) (wallets st) = Some t" and "tx_transactionId t = buildVipTxnId order"
    and "tx_status t = TPending" and "keys_unique (wallets st)" and "findById (tx_userId t) (wallets st) = Some a"
    and "txn_by_id (buildPendingBonusTransactionId order) (wallets st) = None"
    and "verifyProviderPaymentCaptured pe order payment = Inr pr" and "vi_orderId inp = order"
    and "st' = upd_wallets (\<lambda>w. fst (snd (settle_event pe others ctxs order payment w))) st"
  shows "(fst (settle_event pe others ctxs order payment (wallets st)) = None) \<and>
    (fst (finalizeVipPurchaseAtomically c idle inp st') =
      (case find_member (vi_userId inp) st of
         None \<Rightarrow> Inl ''VIP_MEMBERSHIP_MISSING_AFTER_COMPLETED_TXN'' | Some m \<Rightarrow> Inr (True, vm_expiresAt m))) \<and>
    (vs_members (snd (finalizeVipPurchaseAtomically c idle inp st')) = vs_members st)"
proof -
  obtain r w' where f: "finalizePaymentAtomically order payment None (wallets st) = (Inr r, w', [CreatorReferralPurchaseHook (tx_userId t)])"
    and d: "map_option tx_status (txn_by_id (buildVipTxnId order) w') = Some TCompleted"
    using finalize_matched [OF assms(1,3,4,5,6), of payment] assms(2) by auto
  have s: "settle_event pe others ctxs order payment (wallets st) = (None, w', [CreatorReferralPurchaseHook (tx_userId t)])"
    using assms(7) f by (cases pr) (simp add: settle_event_def)
  have p1: "fst (settle_event pe others ctxs order payment (wallets st)) = None" using s by simp
  have w: "wallets st' = w'" using assms(9) s by simp
  have z: "find_member (vi_userId inp) st' = find_member (vi_userId inp) st" "vs_members st' = vs_members st" using assms(9) by simp_all
  have p2: "fst (finalizeVipPurchaseAtomically c idle inp st') =
      (case find_member (vi_userId inp) st of
         None \<Rightarrow> Inl ''VIP_MEMBERSHIP_MISSING_AFTER_COMPLETED_TXN'' | Some m \<Rightarrow> Inr (True, vm_expiresAt m))"
    using d w z assms(8) by (auto simp: finalizeVipPurchaseAtomically_def Let_def split: option.splits)
  have p3: "vs_members (snd (finalizeVipPurchaseAtomically c idle inp st')) = vs_members st"
    using d w z assms(8) by (auto simp: finalizeVipPurchaseAtomically_def Let_def split: option.splits)
  show ?thesis using p1 p2 p3 by blast
qed

definition demo_vip_input :: vip_purchase_input where
  "demo_vip_input = \<lparr> vi_userId = ''u1'', vi_orderId = ''o1'', vi_paymentId = ''p1'', vi_planId = ''vip_monthly'', vi_durationDays = Some 30 \<rparr>"

lemma ordered_wallets:
  "wallets vip_ordered = \<lparr> accounts = [vip_user], txns = [vip_row ''u1'' ''o1'' None TPending] \<rparr>"
  by code_simp

theorem coin_webhook_swallows_vip_order_witness:
  "\<exists>st'. fst (settle_event vip_pe (\<lambda>_ w. w) [] ''o1'' ''p1'' (wallets vip_ordered)) = None \<and>
     wallets st' = fst (snd (settle_event vip_pe (\<lambda>_ w. w) [] ''o1'' ''p1'' (wallets vip_ordered))) \<and>
     fst (finalizeVipPurchaseAtomically (vip_at 1000) idle demo_vip_input st') = Inl ''VIP_MEMBERSHIP_MISSING_AFTER_COMPLETED_TXN''"
proof -
  let ?st' = "upd_wallets (\<lambda>w. fst (snd (settle_event vip_pe (\<lambda>_ w. w) [] ''o1'' ''p1'' w))) vip_ordered"
  have m: "find_member ''u1'' vip_ordered = None" by code_simp
  have h: "find_txn (matches_order ''o1'') (wallets vip_ordered) = Some (vip_row ''u1'' ''o1'' None TPending)"
    "keys_unique (wallets vip_ordered)" "findById ''u1'' (wallets vip_ordered) = Some vip_user"
    "txn_by_id (buildPendingBonusTransactionId ''o1'') (wallets vip_ordered) = None"
    unfolding ordered_wallets by (simp_all add: find_txn_def matches_order_def vip_row_def keys_unique_def findById_def vip_user_def
        txn_by_id_def buildPendingBonusTransactionId_def buildVipTxnId_def)
  have p: "verifyProviderPaymentCaptured vip_pe ''o1'' ''p1'' = Inr (mock_payment ''o1'', None)"
    by (simp add: verifyProviderPaymentCaptured_def vip_pe_def)
  from coin_webhook_swallows_vip_order [OF h(1) _ _ h(2) _ h(4) p _ refl, of vip_user demo_vip_input "\<lambda>_ w. w" "[]" "vip_at 1000"] h(3) m
  show ?thesis by (intro exI [of _ ?st']) (simp add: vip_row_def demo_vip_input_def)
qed

text \<open>
  An order without a row is activated exactly once: the first finalization extends the membership of
  the buyer by the days of the order and records a completed row without coins; every later one answers
  that it was already processed, with the same expiry, and changes neither memberships nor rows.
\<close>

theorem unrecorded_order_is_activated_once:
  assumes "order_row (vi_orderId inp) st = None" and "findById (vi_userId inp) (wallets st) = Some a"
    and "getVipPlanById (vc_env c) (vi_planId inp) (vs_plans st) = (Inr plan, ps)" and "vi_durationDays inp = Some days"
    and "finalizeVipPurchaseAtomically c idle inp st = (r, st')"
    and "vi_orderId inp' = vi_orderId inp" and "vi_userId inp' = vi_userId inp"
  shows "r = Inr (False, extended_expiry (vc_now c) (find_member (vi_userId inp) st) days)"
    and "map_option vm_expiresAt (find_member (vi_userId inp) st') = Some (extended_expiry (vc_now c) (find_member (vi_userId inp) st) days)"
    and "order_row (vi_orderId inp) st' = Some (vip_row (vi_userId inp) (vi_orderId inp) (Some (vi_paymentId inp)) TCompleted)"
    and "fst (finalizeVipPurchaseAtomically c' idle inp' st') = Inr (True, extended_expiry (vc_now c) (find_member (vi_userId inp) st) days)"
    and "vip_core (snd (finalizeVipPurchaseAtomically c' idle inp' st')) = vip_core st'"
proof -
  let ?e = "extended_expiry (vc_now c) (find_member (vi_userId inp) st) days" and ?u = "vi_userId inp"
  let ?row = "vip_row ?u (vi_orderId inp) (Some (vi_paymentId inp)) TCompleted"
  let ?s1 = "st\<lparr>vs_plans := ps\<rparr>"
  let ?w = "update_account ?u (\<lambda>a. a\<lparr>a_vipExpiresAt := Some ?e\<rparr>) (wallets st)"
  have n: "txn_by_id (buildVipTxnId (vi_orderId inp)) (wallets st) = None" using assms(1) by (simp add: order_row_def)
  have "buildVipTxnId (vi_orderId inp) \<notin> tx_transactionId ` set (txns ?w)"
    using n by (auto simp: txn_by_id_def find_txn_def find_None_iff)
  then have c: "create_txn ?row ?w = Some (?w\<lparr>txns := txns ?w @ [?row]\<rparr>)" by (simp add: create_txn_def vip_row_def)
  have o: "on_plans (getVipPlanById (vc_env c) (vi_planId inp)) st = (Inr plan, ?s1)" using assms(3) by (simp add: on_plans_def)
  let ?s2 = "upd_wallets (\<lambda>_. ?w\<lparr>txns := txns ?w @ [?row]\<rparr>) (set_vipExpiresAt ?u (Some ?e) (write_membership (vc_now c) inp ?e ?s1))"
  have t: "vip_transaction (vc_now c) inp days None ?s1 = (Inr ?e, ?s2)"
    using assms(2) c by (simp add: vip_transaction_def Let_def)
  have f: "finalizeVipPurchaseAtomically c idle inp st = (Inr (False, ?e), referral_hook c ?u (invalidateVipCache ?u ?s2))"
    using n o t assms(4) by (simp add: finalizeVipPurchaseAtomically_def)
  then have st': "st' = referral_hook c ?u (invalidateVipCache ?u ?s2)" and r: "r = Inr (False, ?e)" using assms(5) by simp_all
  show "r = Inr (False, ?e)" using r .
  show m: "map_option vm_expiresAt (find_member ?u st') = Some ?e"
    using st' find_member_written(1) [of inp "vc_now c" ?e ?s1] by simp
  show w: "order_row (vi_orderId inp) st' = Some ?row"
    using st' create_txn_row [OF c] by (simp add: order_row_def vip_row_def)
  have "map_option tx_status (txn_by_id (buildVipTxnId (vi_orderId inp')) (wallets st')) = Some TCompleted"
    using w assms(6) by (simp add: order_row_def vip_row_def)
  then show "fst (finalizeVipPurchaseAtomically c' idle inp' st') = Inr (True, ?e)"
    "vip_core (snd (finalizeVipPurchaseAtomically c' idle inp' st')) = vip_core st'"
    using m assms(7) by (auto simp: finalizeVipPurchaseAtomically_def Let_def split: option.splits)
qed

theorem unrecorded_order_is_activated_once_witness:
  "\<exists>st'. finalizeVipPurchaseAtomically (vip_at 0) idle demo_vip_input vip_demo = (Inr (False, 30 * day_ms), st') \<and>
     fst (finalizeVipPurchaseAtomically (vip_at 5000) idle demo_vip_input st') = Inr (True, 30 * day_ms)"
proof -
  have u: "findById (vi_userId demo_vip_input) (wallets vip_demo) = Some vip_user"
    by (simp add: demo_vip_input_def findById_def wallets_def vip_demo_def vip_user_def)
  have g: "getVipPlanById (vc_env (vip_at 0)) (vi_planId demo_vip_input) (vs_plans vip_demo) =
    (Inr (Some (DEFAULT_VIP_PLAN no_env)), DEFAULT_VIP_PLANS no_env)"
    using monthly_read monthly_settled by (simp add: vc_env_def vip_at_def vip_pe_def vip_demo_def demo_vip_input_def prod_eq_iff)
  have n: "order_row (vi_orderId demo_vip_input) vip_demo = None" using no_order_yet by (simp add: demo_vip_input_def)
  have e: "extended_expiry (vc_now (vip_at 0)) (find_member (vi_userId demo_vip_input) vip_demo) 30 = 30 * day_ms"
    by (simp add: extended_expiry_def vip_at_def find_member_def vip_demo_def)
  obtain r st' where f: "finalizeVipPurchaseAtomically (vip_at 0) idle demo_vip_input vip_demo = (r, st')" by (meson surj_pair)
  have d: "vi_durationDays demo_vip_input = Some 30" by (simp add: demo_vip_input_def)
  from unrecorded_order_is_activated_once(1,4) [OF n u g d f refl refl] f e show ?thesis by auto
qed

end
