(* ===== verification/VipCache.thy ===== *)
theory VipCache
  imports VipEntitlement
begin

text \<open>
  The cached answer of \<open>isVipActive\<close>: late by at most a minute while requests come one after the other, and
  wrong for a whole period when a revocation or a renewal comes between the commands of a check. What a
  member pays for a moment.
\<close>

section \<open>Requests one after the other\<close>

inductive vip_request :: "vip_state \<Rightarrow> vip_state \<Rightarrow> bool" where
  check: "isVipActive c idle uid st = (b, st') \<Longrightarrow> vip_request st st'"
| status: "getVipStatus c idle uid st = (r, st') \<Longrightarrow> vip_request st st'"
| order: "createVipWebOrder c newOrder keyId token st = (x, st') \<Longrightarrow> vip_request st st'"
| verify: "verifyVipWebPayment c idle token orderId paymentId sig st = (a, st') \<Longrightarrow> vip_request st st'"
| webhook: "handleVipRazorpayWebhook c idle w st = (a, st') \<Longrightarrow> vip_request st st'"
| grant: "grantAdminVipMembership c uid days st = (g, st') \<Longrightarrow> vip_request st st'"
| revoke: "revokeAdminVipMembership now uid st = (b, st') \<Longrightarrow> vip_request st st'"

definition cache_ok :: "vip_state \<Rightarrow> bool" where
  "cache_ok st \<longleftrightarrow>
     (\<forall>u e. vs_cache st u = Some e \<longrightarrow> (\<exists>m. find_member u st = Some m \<and> e \<le> vm_expiresAt m + 60000))"

lemma cache_simps [simp]:
  "vs_cache (upd_wallets g st) = vs_cache st" "vs_cache (update_membership uid f st) = vs_cache st"
  "vs_cache (set_vipExpiresAt uid x st) = vs_cache st" "vs_cache (write_membership now inp e st) = vs_cache st"
  "vs_cache (invalidateVipCache uid st) = (vs_cache st)(uid := None)"
  by (auto simp: upd_wallets_def update_membership_def set_vipExpiresAt_def write_membership_def invalidateVipCache_def split: option.splits)

lemma cache_ok_core:
  assumes "vip_core s = vip_core st"
  shows "cache_ok s = cache_ok st"
  using coreD(3,4) [OF assms] by (simp add: cache_ok_def)

text \<open>An operation that writes the membership of one user and forgets his answer keeps the invariant.\<close>

lemma cache_ok_forget:
  assumes "cache_ok st" and "vs_cache st' = (vs_cache st)(uid := None)" and "\<And>u. u \<noteq> uid \<Longrightarrow> find_member u st' = find_member u st"
  shows "cache_ok st'"
  using assms by (auto simp: cache_ok_def)

lemma cache_ok_same:
  assumes "cache_ok st" and "vs_cache st' = vs_cache st"
    and "\<And>u. map_option vm_expiresAt (find_member u st') = map_option vm_expiresAt (find_member u st)"
  shows "cache_ok st'"
  unfolding cache_ok_def
proof (intro allI impI)
  fix u e
  assume "vs_cache st' u = Some e"
  then obtain m where "find_member u st = Some m" "e \<le> vm_expiresAt m + 60000" using assms(1,2) by (auto simp: cache_ok_def)
  then show "\<exists>m. find_member u st' = Some m \<and> e \<le> vm_expiresAt m + 60000" using assms(3) [of u] by auto
qed

lemma cache_ok_expire: "cache_ok st \<Longrightarrow> cache_ok (expire_membership idle uid st)"
  by (erule cache_ok_same) (auto simp: expire_membership_def option.map_comp comp_def)

text \<open>The instant at which the key expires.\<close>

lemma ttl_bound:
  assumes "now < (e :: int)"
  shows "now + max 60 (- (- (e - now) div 1000)) * 1000 \<le> e + 60000" and "e \<le> now + max 60 (- (- (e - now) div 1000)) * 1000"
proof -
  have d: "1000 * (- (e - now) div 1000) + - (e - now) mod 1000 = - (e - now)" by (rule mult_div_mod_eq)
  have "0 \<le> - (e - now) mod 1000" "- (e - now) mod 1000 < 1000" by simp_all
  then show "now + max 60 (- (- (e - now) div 1000)) * 1000 \<le> e + 60000" "e \<le> now + max 60 (- (- (e - now) div 1000)) * 1000"
    using d assms by (auto simp: max_def)
qed

lemma cache_ok_write:
  assumes "cache_ok st" and "find_member uid st = Some m" and "membership_active now m"
  shows "cache_ok (cacheVipActive now uid True (Some (vm_expiresAt m)) st)"
  using assms ttl_bound(1) [of now "vm_expiresAt m"] by (auto simp: cache_ok_def cacheVipActive_def membership_active_def)

lemma cache_ok_drop: "cache_ok st \<Longrightarrow> cache_ok (cacheVipActive now uid False e st)"
  by (auto simp: cacheVipActive_def cache_ok_def find_member_def split: option.splits)

lemma cache_ok_drop_none: "cache_ok st \<Longrightarrow> cache_ok (cacheVipActive now uid active None st)"
  by (auto simp: cacheVipActive_def cache_ok_def find_member_def split: option.splits)

lemma check_ok:
  assumes "cache_ok st" and "isVipActive c idle uid st = (b, st')"
  shows "cache_ok st'"
  using assms cache_ok_expire [OF assms(1)]
  by (auto simp: isVipActive_def Let_def intro: cache_ok_write cache_ok_drop cache_ok_drop_none split: if_splits option.splits)

lemma perks_ok: "cache_ok st \<Longrightarrow> getPlanPerks c st = (r, st') \<Longrightarrow> cache_ok st' \<and> vip_core st' = vip_core st"
  using cache_ok_core [of st' st] by (auto simp: getPlanPerks_def dest: core_plans)

lemma bind_ok:
  assumes "vip_bind r f = (x, st')" and "cache_ok (snd r)" and "\<And>a s y s'. r = (Inr a, s) \<Longrightarrow> f a s = (y, s') \<Longrightarrow> cache_ok s'"
  shows "cache_ok st'"
  using assms by (cases r; cases "fst r") (auto simp: vip_bind_def)

lemma remaining_ok:
  assumes "cache_ok st" and "getRemainingFreeMoments c idle uid st = (r, st')"
  shows "cache_ok st'"
proof -
  obtain b s1 where b: "isVipActive c idle uid st = (b, s1)" by (meson surj_pair)
  note k = check_ok [OF assms(1) b]
  have p: "cache_ok (snd (getPlanPerks c s1))" using perks_ok [OF k] by (metis prod.collapse)
  show ?thesis
    using assms(2) b k p by (auto simp: getRemainingFreeMoments_def split: if_splits elim!: bind_ok)
qed

lemma idle_eta: "(\<lambda>n. idle (k + n)) = idle" "(\<lambda>n. idle (Suc (Suc n))) = idle"
  by (simp_all add: idle_def)

lemma status_ok:
  assumes "cache_ok st" and "getVipStatus c idle uid st = (r, st')"
  shows "cache_ok st'"
proof -
  obtain q s1 where q: "getPlanPerks c st = (q, s1)" by (meson surj_pair)
  note k = perks_ok [OF assms(1) q, THEN conjunct1]
  have e: "cache_ok (if b then expire_membership idle uid s1 else s1)" for b using cache_ok_expire k by simp
  have f: "cache_ok s'" if "(if b then getRemainingFreeMoments c idle uid s else (Inr 0, s)) = (y, s')" "cache_ok s" for b s y s'
    using that remaining_ok [OF that(2)] by (auto split: if_splits)
  have g: "cache_ok (snd (if b then getRemainingFreeMoments c idle uid s else (Inr 0, s)))" if "cache_ok s" for b s
    using f [OF _ that] by (metis prod.collapse)
  show ?thesis
    using assms(2) q k unfolding getVipStatus_def Let_def idle_eta
    by (auto elim!: bind_ok intro!: g e dest: f [OF _ e])
qed

lemma finalize_cache_ok:
  assumes "cache_ok st" and "finalizeVipPurchaseAtomically c idle inp st = (r, st')"
  shows "cache_ok st'"
proof (cases "map_option tx_status (txn_by_id (buildVipTxnId (vi_orderId inp)) (wallets st)) = Some TCompleted")
  case True
  then have "vip_core st' = vip_core st" using assms(2) by (auto simp: finalizeVipPurchaseAtomically_def Let_def split: option.splits)
  then show ?thesis using cache_ok_core assms(1) by blast
next
  case False
  let ?e = "txn_by_id (buildVipTxnId (vi_orderId inp)) (wallets st)"
  obtain q s1 where q: "on_plans (getVipPlanById (vc_env c) (vi_planId inp)) st = (q, s1)" by (meson surj_pair)
  have k: "cache_ok s1" using cache_ok_core [OF core_plans [OF q]] assms(1) by simp
  have t: "s2 = s1 \<and> (\<exists>e. x = Inl e) \<or> cache_ok (invalidateVipCache (vi_userId inp) s2) \<and> (\<exists>e. x = Inr e)"
    if "vip_transaction now inp d ?e s1 = (x, s2)" for now d x s2
    using that by (auto simp: vip_transaction_def Let_def find_write_membership split: option.splits if_splits
        intro!: cache_ok_forget [OF k, where uid = "vi_userId inp"])
  have h: "cache_ok (referral_hook c u s) = cache_ok s" for u s by (rule cache_ok_core) simp
  have u: "finalizeVipPurchaseAtomically c idle inp st =
    vip_bind (q, s1)
      (\<lambda>plan st1. vip_bind (vip_transaction (vc_now c) inp (nvl (vi_durationDays inp) (case plan of None \<Rightarrow> 30 | Some p \<Rightarrow> pl_durationDays p)) ?e st1)
        (\<lambda>expiresAt st2. (Inr (False, expiresAt), referral_hook c (vi_userId inp) (invalidateVipCache (vi_userId inp) st2))))"
    unfolding finalizeVipPurchaseAtomically_def Let_def using False q by (simp only: if_False idle_simp)
  show ?thesis
  proof (cases q)
    case (Inl e)
    then show ?thesis using assms(2) u k by simp
  next
    case (Inr plan)
    let ?d = "nvl (vi_durationDays inp) (case plan of None \<Rightarrow> 30 | Some p \<Rightarrow> pl_durationDays p)"
    obtain x s2 where x: "vip_transaction (vc_now c) inp ?d ?e s1 = (x, s2)" by (meson surj_pair)
    show ?thesis
      using assms(2) u Inr x k t [OF x] by (cases x) (auto simp: h)
  qed
qed

lemma verify_ok:
  assumes "cache_ok st" and "verifyVipWebPayment c idle token orderId paymentId sig st = (a, st')"
  shows "cache_ok st'"
proof -
  have f: "cache_ok (fail_vip_order orderId st) = cache_ok st" by (simp add: cache_ok_def) (simp add: fail_vip_order_def)
  show ?thesis using verify_result [OF assms(2)] finalize_cache_ok cache_ok_core f assms(1) by metis
qed

lemma webhook_ok:
  assumes "cache_ok st" and "handleVipRazorpayWebhook c idle w st = (a, st')"
  shows "cache_ok st'"
proof -
  have n: "cache_ok (note_vip_event w st)" using cache_ok_core [of "note_vip_event w st" st] assms(1) by simp
  have "cache_ok s" if "vip_webhook_purchase c idle w orderId paymentId (note_vip_event w st) = (x, s)" for orderId paymentId x s
    using webhook_result [OF that] finalize_cache_ok cache_ok_core n by metis
  then show ?thesis using assms n by (auto simp: handleVipRazorpayWebhook_def Let_def split: if_splits option.splits)
qed

lemma order_ok:
  assumes "cache_ok st" and "createVipWebOrder c newOrder keyId token st = (x, st')"
  shows "cache_ok st'"
proof -
  have p: "cache_ok s1" if "on_plans f st = (r, s1)" for f :: "vip_plan list \<Rightarrow> 'x \<times> vip_plan list" and r s1
    using cache_ok_core [OF core_plans [OF that]] assms(1) by simp
  have w: "cache_ok (upd_wallets g s) = cache_ok s" "cache_ok (s\<lparr>vs_pay := y\<rparr>) = cache_ok s" for g s y
    by (simp_all add: cache_ok_def find_member_def upd_wallets_def)
  show ?thesis
    using assms p unfolding createVipWebOrder_def
    by (auto simp: Let_def w split: option.splits sum.splits prod.splits if_splits)
qed

lemma grant_ok:
  assumes "cache_ok st" and "grantAdminVipMembership c uid days st = (g, st')"
  shows "cache_ok st'"
proof -
  obtain q s1 where q: "getPlanPerks c st = (q, s1)" by (meson surj_pair)
  note k = perks_ok [OF assms(1) q, THEN conjunct1]
  show ?thesis
    using assms q k
    by (auto simp: grantAdminVipMembership_def Let_def vip_bind_def split: option.splits sum.splits
        intro!: cache_ok_forget [OF k, where uid = uid])
      (auto simp: find_member_def find_append split: option.splits)
qed

lemma revoke_ok:
  assumes "cache_ok st" and "revokeAdminVipMembership now uid st = (b, st')"
  shows "cache_ok st'"
  using assms by (auto simp: revokeAdminVipMembership_def split: option.splits intro!: cache_ok_forget [OF assms(1), where uid = uid])

lemma request_cache_ok: "vip_request st st' \<Longrightarrow> cache_ok st \<Longrightarrow> cache_ok st'"
  by (induction rule: vip_request.induct)
    (blast intro: check_ok status_ok order_ok verify_ok webhook_ok grant_ok revoke_ok)+

lemma requests_ok: "vip_request\<^sup>*\<^sup>* st st' \<Longrightarrow> cache_ok st \<Longrightarrow> cache_ok st'"
  by (induction rule: rtranclp_induct) (auto intro: request_cache_ok)



section \<open>Two requests at once\<close>

text \<open>
  A revocation that comes between the read and the write of a check is undone by the cache: the
  membership is cancelled, and until the date it had before, every check answers that the user is active.
\<close>

theorem revocation_lost_beside_a_check:
  assumes "vc_vipEnabled c" and "\<not> cached_active (vc_now c) uid st" and "find_member uid st = Some m"
    and "membership_active (vc_now c) m" and "findById uid (wallets st) = Some a"
    and "isVipActive c (\<lambda>n s. if n = 2 then snd (revokeAdminVipMembership now uid s) else s) uid st = (b, st')"
  shows "find_member uid st' = Some (m\<lparr>vm_status := vip_cancelled, vm_expiresAt := now\<rparr>)"
    and "vc_vipEnabled c' \<Longrightarrow> vc_now c' < vm_expiresAt m \<Longrightarrow> fst (isVipActive c' others uid st')"
proof -
  let ?r = "invalidateVipCache uid (set_vipExpiresAt uid None (update_membership uid (\<lambda>m. m\<lparr>vm_status := vip_cancelled, vm_expiresAt := now\<rparr>) st))"
  have s: "st' = cacheVipActive (vc_now c) uid True (Some (vm_expiresAt m)) ?r"
    using assms by (auto simp: isVipActive_def revokeAdminVipMembership_def Let_def)
  show "find_member uid st' = Some (m\<lparr>vm_status := vip_cancelled, vm_expiresAt := now\<rparr>)" using s assms(3) by simp
  have "vs_cache st' uid = Some (vc_now c + max 60 (- (- (vm_expiresAt m - vc_now c) div 1000)) * 1000)"
    using s by (simp add: cacheVipActive_def)
  moreover have "vm_expiresAt m \<le> vc_now c + max 60 (- (- (vm_expiresAt m - vc_now c) div 1000)) * 1000"
    using ttl_bound(2) assms(4) by (simp add: membership_active_def)
  ultimately show "vc_vipEnabled c' \<Longrightarrow> vc_now c' < vm_expiresAt m \<Longrightarrow> fst (isVipActive c' others uid st')"
    by (simp add: isVipActive_def cached_active_def)
qed

text \<open>
  C24. A renewal that comes between the read of a lapsed membership and the write that marks it expired is
  lost: the renewed membership is marked expired, every later check answers that the user is not active,
  and the next purchase does not add to the days that were paid.
\<close>

theorem renewal_lost_beside_a_check:
  assumes "vc_vipEnabled c" and "\<not> cached_active (vc_now c) uid st" and "find_member uid st = Some m"
    and "vm_status m = vip_active" and "vm_expiresAt m \<le> vc_now c"
    and "find_member uid (renew st) = Some m'"
    and "isVipActive c (\<lambda>n s. if n = 0 then renew s else s) uid st = (b, st')"
  shows "(find_member uid st' = Some (m'\<lparr>vm_status := vip_expired\<rparr>)) \<and>
    (\<not> fst (isVipActive c' others uid st')) \<and>
    (extended_expiry now (find_member uid st') days = now + days * day_ms)"
proof -
  have s: "st' = cacheVipActive (vc_now c) uid False None (set_vipExpiresAt uid None (update_membership uid (\<lambda>m. m\<lparr>vm_status := vip_expired\<rparr>) (renew st)))"
    using assms by (auto simp: isVipActive_def expire_membership_def membership_active_def Let_def)
  have f: "find_member uid st' = Some (m'\<lparr>vm_status := vip_expired\<rparr>)" using s assms(6) by simp
  have "vs_cache st' uid = None" using s by (simp add: cacheVipActive_def)
  then have p2: "\<not> fst (isVipActive c' others uid st')"
    using f by (simp add: isVipActive_def cached_active_def membership_active_def Let_def)
  have p3: "extended_expiry now (find_member uid st') days = now + days * day_ms"
    using f by (simp add: extended_expiry_def membership_active_def)
  show ?thesis using f p2 p3 by blast
qed

section \<open>Prices\<close>

lemma discount_bounds: "1 \<le> amount \<Longrightarrow> 0 \<le> bps \<Longrightarrow> 1 \<le> applyBpsDiscount amount bps \<and> applyBpsDiscount amount bps \<le> amount"
proof -
  assume a: "1 \<le> amount" "0 \<le> bps"
  have "amount * (10000 - bps) div 10000 \<le> amount * 10000 div 10000"
    using a by (intro zdiv_mono1) (auto intro: mult_left_mono)
  then show ?thesis using a by (auto simp: applyBpsDiscount_def)
qed

lemma ensure_valid: "ensure_plans seeds ps = (Inr cs, ps') \<Longrightarrow> \<forall>c \<in> set cs. plan_valid c"
proof (induction seeds arbitrary: ps cs)
  case (Cons s ss)
  obtain c p1 rs where h: "ensurePlanSeed s ps = (Inr c, p1)" "ensure_plans ss p1 = (Inr rs, ps')" "cs = c # rs"
    using Cons.prems by (auto split: prod.splits sum.splits) (case_tac x1a; auto)
  have "plan_valid c" using h(1) by (auto simp: ensurePlanSeed_def Let_def split: option.splits if_splits)
  then show ?case using Cons.IH [OF h(2)] h(3) by simp
qed simp

lemma perks_valid:
  assumes "getPlanPerks c s = (Inr q, s')"
  shows "0 \<le> pl_momentDiscountBps q"
proof -
  obtain ps where "getOrCreateVipPlanConfig (vc_env c) (vs_plans s) = (Inr q, ps)"
    using assms on_plansE unfolding getPlanPerks_def by metis
  then obtain plans where g: "getOrCreateVipPlans (vc_env c) (vs_plans s) = (Inr plans, ps)" "q = hd plans"
    by (auto simp: getOrCreateVipPlanConfig_def split: prod.splits) (case_tac x1; auto)
  obtain cs where e: "ensure_plans (DEFAULT_VIP_PLANS (vc_env c)) (vs_plans s) = (Inr cs, ps)" "plans = sort_key pl_sortOrder cs"
    using g(1) by (auto simp: getOrCreateVipPlans_def split: prod.splits) (case_tac x1; auto)
  have "plans \<noteq> []" by (rule plans_three [OF g(1)]) simp
  then have "q \<in> set cs" using g(2) e(2) by (metis hd_in_set set_sort)
  then show ?thesis using ensure_valid [OF e(1)] by (auto simp: plan_valid_def)
qed

text \<open>
  What a user pays for a moment: never more than its price; the full price without a membership;
  nothing while free moments are left today; otherwise the price with the discount of the plan, which is
  at least one coin.
\<close>

theorem moment_price_bounds:
  assumes "resolveMomentPriceForUser c idle uid base st = (Inr p, st')" and "1 \<le> base"
  shows "0 \<le> mp_priceCoins p \<and> mp_priceCoins p \<le> base \<and> mp_originalPriceCoins p = base"
    and "\<not> fst (isVipActive c idle uid st) \<longrightarrow> mp_priceCoins p = base"
    and "mp_vipFreeUnlockAvailable p \<longleftrightarrow> mp_priceCoins p = 0"
    and "mp_discountApplied p \<longleftrightarrow> 0 < mp_priceCoins p \<and> mp_priceCoins p < base"
proof -
  obtain a s1 where a: "isVipActive c idle uid st = (a, s1)" by (meson surj_pair)
  have "p = \<lparr> mp_priceCoins = base, mp_originalPriceCoins = base, mp_vipFreeUnlockAvailable = False, mp_discountApplied = False \<rparr> \<or>
    a \<and> (p = \<lparr> mp_priceCoins = 0, mp_originalPriceCoins = base, mp_vipFreeUnlockAvailable = True, mp_discountApplied = False \<rparr> \<or>
      (\<exists>bps \<ge> 0. p = \<lparr> mp_priceCoins = applyBpsDiscount base bps, mp_originalPriceCoins = base, mp_vipFreeUnlockAvailable = False,
         mp_discountApplied = (applyBpsDiscount base bps < base) \<rparr>))"
    using assms(1) a
    by (auto simp: resolveMomentPriceForUser_def applyMomentDiscount_def vip_bind_def dest!: perks_valid split: if_splits sum.splits prod.splits)
  then show "0 \<le> mp_priceCoins p \<and> mp_priceCoins p \<le> base \<and> mp_originalPriceCoins p = base"
    "\<not> fst (isVipActive c idle uid st) \<longrightarrow> mp_priceCoins p = base"
    "mp_vipFreeUnlockAvailable p \<longleftrightarrow> mp_priceCoins p = 0"
    "mp_discountApplied p \<longleftrightarrow> 0 < mp_priceCoins p \<and> mp_priceCoins p < base"
    using discount_bounds [OF assms(2)] assms(2) a by (auto, fastforce+)
qed


section \<open>Runs\<close>

definition vip_member_until :: "millis \<Rightarrow> vip_membership" where
  "vip_member_until e =
     \<lparr> vm_userId = ''u1'', vm_status = vip_active, vm_planId = ''vip_monthly'', vm_startedAt = 0, vm_expiresAt = e,
       vm_lastPurchaseTxnId = None, vm_razorpayOrderId = None, vm_razorpayPaymentId = None \<rparr>"

definition member_demo :: "millis \<Rightarrow> vip_state" where
  "member_demo e = vip_demo\<lparr>vs_members := [vip_member_until e]\<rparr>"

lemma demo_vip_member: "find_member ''u1'' (member_demo e) = Some (vip_member_until e)" "vs_cache (member_demo e) = Map.empty"
  "wallets (member_demo e) = wallets vip_demo"
  by (simp_all add: find_member_def member_demo_def vip_member_until_def vip_demo_def wallets_def)

lemma demo_vip_account: "findById ''u1'' (wallets (member_demo e)) = Some vip_user"
  unfolding demo_vip_member by (simp add: findById_def wallets_def vip_demo_def vip_user_def)

lemma demo_enabled [simp]: "vc_vipEnabled (vip_at n)" "vc_now (vip_at n) = n"
  by (simp_all add: vip_at_def)


theorem revocation_lost_beside_a_check_witness:
  "\<exists>st'. map_option vm_status (find_member ''u1'' st') = Some vip_cancelled \<and> fst (isVipActive (vip_at 900000) idle ''u1'' st')"
proof -
  let ?o = "\<lambda>n s. if n = (2 :: nat) then snd (revokeAdminVipMembership 5 ''u1'' s) else s"
  obtain b st' where s: "isVipActive (vip_at 0) ?o ''u1'' (member_demo 1000000) = (b, st')" by (meson surj_pair)
  have n: "\<not> cached_active (vc_now (vip_at 0)) ''u1'' (member_demo 1000000)" by (simp add: cached_active_def demo_vip_member)
  have a: "membership_active (vc_now (vip_at 0)) (vip_member_until 1000000)" by (simp add: membership_active_def vip_member_until_def)
  note t = revocation_lost_beside_a_check [OF demo_enabled(1) n demo_vip_member(1) a demo_vip_account s]
  show ?thesis using t(1) t(2) [OF demo_enabled(1), of 900000 idle] by (intro exI [of _ st']) (simp add: vip_member_until_def)
qed

theorem renewal_lost_beside_a_check_witness:
  "\<exists>st'. find_member ''u1'' st' \<noteq> None \<and>
     map_option vm_expiresAt (find_member ''u1'' (snd (finalizeVipPurchaseAtomically (vip_at 2000) idle demo_vip_input (member_demo 1000)))) =
       Some (2000 + 30 * day_ms) \<and>
     \<not> fst (isVipActive (vip_at 3000) idle ''u1'' st') \<and> map_option vm_status (find_member ''u1'' st') = Some vip_expired \<and>
     map_option vm_expiresAt (find_member ''u1'' st') = Some (2000 + 30 * day_ms)"
proof -
  let ?f = "\<lambda>s. snd (finalizeVipPurchaseAtomically (vip_at 2000) idle demo_vip_input s)"
  obtain b st' where s: "isVipActive (vip_at 2000) (\<lambda>n s. if n = 0 then ?f s else s) ''u1'' (member_demo 1000) = (b, st')" by (meson surj_pair)
  have n: "\<not> cached_active (vc_now (vip_at 2000)) ''u1'' (member_demo 1000)" by (simp add: cached_active_def demo_vip_member)
  have e: "map_option vm_expiresAt (find_member ''u1'' (?f (member_demo 1000))) = Some (2000 + 30 * day_ms)" by code_simp
  then obtain m' where m': "find_member ''u1'' (?f (member_demo 1000)) = Some m'" "vm_expiresAt m' = 2000 + 30 * day_ms" by auto
  have a: "vm_status (vip_member_until 1000) = vip_active" "vm_expiresAt (vip_member_until 1000) \<le> vc_now (vip_at 2000)"
    by (simp_all add: vip_member_until_def)
  note t = renewal_lost_beside_a_check [OF demo_enabled(1) n demo_vip_member(1) a m'(1) s]
  show ?thesis using t [of "vip_at 3000" idle] m'(2) e by (intro exI [of _ st']) simp
qed

theorem moment_price_bounds_witness:
  "\<exists>p. fst (resolveMomentPriceForUser (vip_at 0) idle ''u1'' 50 ((member_demo 1000)\<lparr>vs_usage := (\<lambda>_. Some 10)\<rparr>)) = Inr p \<and>
     mp_priceCoins p = 45 \<and> mp_discountApplied p"
proof -
  let ?st = "(member_demo 1000)\<lparr>vs_usage := (\<lambda>_. Some 10)\<rparr>"
  have r: "map_sum id mp_priceCoins (fst (resolveMomentPriceForUser (vip_at 0) idle ''u1'' 50 ?st)) = Inr 45" by code_simp
  then obtain p st' where p: "resolveMomentPriceForUser (vip_at 0) idle ''u1'' 50 ?st = (Inr p, st')" "mp_priceCoins p = 45"
    by (cases "resolveMomentPriceForUser (vip_at 0) idle ''u1'' 50 ?st"; cases "fst (resolveMomentPriceForUser (vip_at 0) idle ''u1'' 50 ?st)") auto
  then show ?thesis using moment_price_bounds(4) [OF p(1)] by auto
qed

end
