(* ===== verification/VipQueueCases.thy ===== *)
theory VipQueueCases
  imports VipQueueFlow VipCache
begin

text \<open>
  Who is rung next, and the cases in which the queue and the scheduled calls fail a member; with the runs
  that show that the hypotheses of the queue theorems can hold.
\<close>

section \<open>The order of the queue\<close>

definition sets_ok :: "queue_state \<Rightarrow> bool" where
  "sets_ok st \<longleftrightarrow> (\<forall>k. zset_ok (q_sets st k))"

lemma sets_frame:
  "sets_ok st \<Longrightarrow> sets_ok (st\<lparr>q_vip := v\<rparr>)" "sets_ok st \<Longrightarrow> sets_ok (st\<lparr>q_entries := es\<rparr>)" "sets_ok st \<Longrightarrow> sets_ok (zexpire t key st)"
  "sets_ok st \<Longrightarrow> sets_ok (emit_queue e st)" "sets_ok st \<Longrightarrow> sets_ok (save_call j f st)" "sets_ok st \<Longrightarrow> sets_ok (st\<lparr>q_calls := ks\<rparr>)"
  "sets_ok st \<Longrightarrow> sets_ok (set_entries Q s st)"
  by (simp_all add: sets_ok_def)

lemma sets_added: "sets_ok st \<Longrightarrow> sets_ok (queue_zadd now key score m st)"
  by (auto simp: sets_ok_def queue_zadd_def live_set_def intro!: zinsert_ok zrem_ok) (auto simp: zrem_set_def)

lemma sets_removed: "sets_ok st \<Longrightarrow> sets_ok (queue_zrem key m st)"
  by (auto simp: sets_ok_def queue_zrem_def intro: zrem_ok)

interpretation queue_order: queue_kept sets_ok
  by unfold_locales (simp_all add: sets_frame sets_added sets_removed)

text \<open>
  C26. The queue of a creator is served in order: after any run, the caller that a finished call rings is
  one that joined no later than any other caller in the queue, his entry still waits and has not expired,
  and he leaves the queue.
\<close>

theorem longest_waiting_is_rung_first:
  assumes "queue_run st0 st" and "sets_ok st0" and "popNextQueuedCaller now enabled idle creator st = (Some (caller, uid, i), st')"
  shows "(\<exists>t. (caller, t) \<in> set (live_set now creator st) \<and> (\<forall>x \<in> set (live_set now creator st). t \<le> snd x)) \<and>
    (is_rung i st' \<and> qe_status (q_entries st ! i) = q_waiting \<and> now < qe_expiresAt (q_entries st ! i)) \<and>
    (caller \<notin> fst ` set (live_set now creator st'))"
proof -
  obtain t rest where l: "live_set now creator st = (caller, t) # rest"
    and f: "find_index (\<lambda>e. waits creator caller e \<and> now < qe_expiresAt e) (q_entries st) = Some i"
    and s: "st' = emit_queue (CallDequeued caller creator i)
      ((queue_zrem creator caller st)\<lparr>q_entries := (q_entries st)[i := (q_entries st ! i)\<lparr>qe_status := q_ringing\<rparr>]\<rparr>)"
    using assms(3) by (auto simp: popNextQueuedCaller_def Let_def split: if_splits list.splits option.splits)
  have "zset_ok ((caller, t) # rest)"
    using queue_order.run_kept [OF assms(1,2)] l by (auto simp: sets_ok_def live_set_def split: if_splits) (metis)
  then have "\<forall>x \<in> set rest. t \<le> snd x" by (auto simp: zset_ok_def zbefore_def)
  then have p1: "\<exists>t. (caller, t) \<in> set (live_set now creator st) \<and> (\<forall>x \<in> set (live_set now creator st). t \<le> snd x)" using l by auto
  have i: "i < length (q_entries st)" "waits creator caller (q_entries st ! i)" "now < qe_expiresAt (q_entries st ! i)"
    using queue_order.find_index_Some [OF f] by simp_all
  then have p2: "is_rung i st' \<and> qe_status (q_entries st ! i) = q_waiting \<and> now < qe_expiresAt (q_entries st ! i)"
    using s by (simp add: is_rung_def waits_def)
  have p3: "caller \<notin> fst ` set (live_set now creator st')"
    using s by (auto simp: live_set_def emit_queue_def queue_zrem_def zrem_set_def)
  show ?thesis using p1 p2 p3 by blast
qed

section \<open>Where the queue fails\<close>

lemma find_index_None: "(\<forall>x \<in> set xs. \<not> Q x) \<Longrightarrow> find_index Q xs = None"
  by (induction xs) auto

text \<open>
  C27. An expired head wastes the turn and strands its caller: the creator who becomes free rings nobody,
  although others wait behind him; and until the sweep runs, the caller who asks again is told position
  zero with his old entry and is not put back into the queue.
\<close>

theorem expired_head_wastes_the_turn:
  assumes "live_set now creator st = (caller, t) # rest"
    and "\<forall>e \<in> set (q_entries st). waits creator caller e \<longrightarrow> qe_expiresAt e \<le> now"
    and "find_index (waits creator caller) (q_entries st) = Some i" and "distinct (map fst ((caller, t) # rest))"
    and "popNextQueuedCaller now enabled idle creator st = (p, st')"
    and "enabled" and "isVipActive c vo cu (q_vip st) = (True, v)" and "vc_now c = now"
  shows "(p = None \<and> live_set now creator st' = rest) \<and>
    (enqueueVipCaller c enabled vo idle creator caller cu cid st' = (Inr (Some (0, i)), st'\<lparr>q_vip := v\<rparr>))"
proof -
  have "find_index (\<lambda>e. waits creator caller e \<and> now < qe_expiresAt e) (q_entries st) = None"
    using assms(2) by (intro find_index_None) auto
  then have p: "p = None" and s: "st' = queue_zrem creator caller st"
    using assms(1,5,6) by (auto simp: popNextQueuedCaller_def Let_def)
  have "filter (\<lambda>x. fst x \<noteq> caller) rest = rest" using assms(4) by (auto simp: filter_id_conv)
  then have l: "live_set now creator st' = rest"
    using s assms(1) by (auto simp: live_set_def queue_zrem_def zrem_set_def split: if_splits)
  then have p1: "p = None \<and> live_set now creator st' = rest" using p by simp
  have "zrank caller rest = None" using assms(4) by (induction rest) auto
  moreover have "live_set now creator (st'\<lparr>q_vip := v\<rparr>) = rest" using l by (auto simp: live_set_def split: if_splits)
  ultimately have "getQueuePosition now creator caller (st'\<lparr>q_vip := v\<rparr>) = 0" by (simp add: getQueuePosition_def)
  moreover have "find_index (waits creator caller) (q_entries (st'\<lparr>q_vip := v\<rparr>)) = Some i" using s assms(3) by simp
  ultimately have p2: "enqueueVipCaller c enabled vo idle creator caller cu cid st' = (Inr (Some (0, i)), st'\<lparr>q_vip := v\<rparr>)"
    using assms(6-8) s by (simp add: enqueueVipCaller_def Let_def queue_zrem_def)
  show ?thesis using p1 p2 by blast
qed

text \<open>
  A creator can never cancel a scheduled call: the handler passes the id of the user, and the service
  compares it with the id of the creator profile that the call names. Unless the two happen to be equal,
  the answer is 403 and the call stands.
\<close>

theorem creators_cannot_cancel:
  assumes "vip_request_user c auth st = Inr u" and "creator_of_user (a_id u) st = Some k" and "call_at i st = Some s"
    and "sc_creatorId s = co_id k" and "sc_callerUserId s \<noteq> a_id u" and "co_id k \<noteq> a_id u"
  shows "cancelScheduledCallHandler c others auth i st = ((403, ''FORBIDDEN''), st)"
  using assms by (simp add: cancelScheduledCallHandler_def cancelScheduledCall_def)

text \<open>
  A call that its caller cancels while the creator confirms it is confirmed: both are told that they
  succeeded, the document says confirmed and carries the time of the cancellation, and the creator is
  called for it when it is due.
\<close>

theorem cancelled_call_is_confirmed:
  assumes "call_at i st = Some s" and "sc_status s = pending_creator"
    and "confirmScheduledCall now (\<lambda>_ z. snd (cancelScheduledCall now idle i (sc_callerUserId s) False z)) i (sc_creatorId s) st = (r, st')"
  shows "fst (cancelScheduledCall now idle i (sc_callerUserId s) False st) = Inr i \<and> r = Inr i"
    and "\<exists>s'. call_at i st' = Some s' \<and> sc_status s' = confirmed \<and> sc_cancelledAt s' = Some now \<and> sc_cancelledBy s' = Some by_caller"
    and "sc_reminderSentAt s = None \<Longrightarrow> sc_scheduledAt s \<le> later \<Longrightarrow> due later (q_calls st' ! i)"
proof -
  have i: "i < length (q_calls st)" "q_calls st ! i = s" using assms(1) by (auto simp: call_at_def split: if_splits)
  let ?s1 = "save_call i (\<lambda>k. k\<lparr>sc_status := sched_cancelled, sc_cancelledAt := Some now, sc_cancelledBy := Some by_caller\<rparr>) st"
  have c: "cancelScheduledCall now idle i (sc_callerUserId s) False st = (Inr i, ?s1)"
    using assms(1,2) by (simp add: cancelScheduledCall_def)
  have k: "r = Inr i \<and> st' = save_call i (\<lambda>k. k\<lparr>sc_status := confirmed, sc_confirmedAt := Some now\<rparr>) ?s1"
    using assms c by (auto simp: confirmScheduledCall_def)
  show "fst (cancelScheduledCall now idle i (sc_callerUserId s) False st) = Inr i \<and> r = Inr i" using c k by simp
  show "\<exists>s'. call_at i st' = Some s' \<and> sc_status s' = confirmed \<and> sc_cancelledAt s' = Some now \<and> sc_cancelledBy s' = Some by_caller"
    using k i by (simp add: call_at_def save_call_def)
  show "sc_reminderSentAt s = None \<Longrightarrow> sc_scheduledAt s \<le> later \<Longrightarrow> due later (q_calls st' ! i)"
    using k i by (simp add: save_call_def due_def)
qed


section \<open>Runs\<close>

definition creator_account :: account where
  "creator_account = vip_user\<lparr>a_id := ''u9'', a_firebaseUid := ''f9'', a_role := ''creator''\<rparr>"

definition queue_demo :: queue_state where
  "queue_demo =
     \<lparr> q_vip = upd_wallets (\<lambda>w. w\<lparr>accounts := accounts w @ [creator_account]\<rparr>) (member_demo 1000000000),
       q_creators = [\<lparr> co_id = ''k1'', co_userId = ''u9'' \<rparr>], q_entries = [], q_sets = (\<lambda>_. []), q_ttl = (\<lambda>_. 0), q_calls = [],
       q_events = [] \<rparr>"

definition one_waits :: queue_state where
  "one_waits = snd (enqueueVipCaller (vip_at 0) True idle idle ''f9'' ''f1'' ''u1'' ''call1'' queue_demo)"

definition two_wait :: queue_state where
  "two_wait = snd (enqueueVipCaller (vip_at 600000) True idle idle ''f9'' ''f2'' ''u1'' ''call2'' one_waits)"

definition one_rings :: queue_state where
  "one_rings = snd (popNextQueuedCaller 700000 True idle ''f9'' two_wait)"

definition call_scheduled :: queue_state where
  "call_scheduled = snd (scheduleVipCall (vip_at 0) True idle ''u1'' ''k1'' (Some 3600000) None None queue_demo)"

lemma idle_run: "queue_run s (idle n s)"
  by (simp add: queue_run.nothing)

lemma run_enqueue: "queue_run st (snd (enqueueVipCaller c enabled vo idle creator caller cu cid st))"
  by (rule queue_run.enqueue [where others = idle, OF idle_run surjective_pairing])

lemma run_pop: "queue_run st (snd (popNextQueuedCaller now enabled idle creator st))"
  by (rule queue_run.pop [where others = idle, OF idle_run surjective_pairing])

lemma demo_run: "queue_run queue_demo two_wait" "queue_run two_wait one_rings"
  unfolding two_wait_def one_waits_def one_rings_def by (blast intro: queue_run.seq run_enqueue run_pop)+

lemma pop_answer: "fst (popNextQueuedCaller 700000 True idle ''f9'' two_wait) = Some (''f1'', ''u1'', 0)"
  by code_simp

lemma pop_effect: "rung_count 0 one_rings = 1" "map qe_status (q_entries two_wait) = [q_waiting, q_waiting]"
  "map qe_status (q_entries one_rings) = [q_ringing, q_waiting]" "live_set 700000 ''f9'' two_wait = [(''f1'', 0), (''f2'', 600000)]"
  by code_simp+

theorem nobody_rung_or_reminded_twice_witness:
  "queue_run queue_demo one_rings \<and> rung_count 0 one_rings = 1 \<and> is_rung 0 one_rings"
proof -
  have r: "queue_run queue_demo one_rings" using demo_run by (blast intro: queue_run.seq)
  have "q_events queue_demo = []" by (simp add: queue_demo_def)
  from nobody_rung_or_reminded_twice [OF r this, of 0] show ?thesis using r pop_effect(1) by simp
qed

theorem queue_entries_close_once_witness:
  "queue_run one_rings (snd (popNextQueuedCaller 800000 True idle ''f9'' one_rings)) \<and>
   q_entries (snd (popNextQueuedCaller 800000 True idle ''f9'' one_rings)) ! 0 = q_entries one_rings ! 0"
proof -
  have m: "qe_status (q_entries one_rings ! 0) = q_ringing" "0 < length (q_entries one_rings)"
    using pop_effect(3) by (cases "q_entries one_rings"; simp)+
  show ?thesis using queue_entries_close_once(3) [OF run_pop m(2)] m(1) run_pop by simp
qed

theorem longest_waiting_is_rung_first_witness:
  "fst (popNextQueuedCaller 700000 True idle ''f9'' two_wait) = Some (''f1'', ''u1'', 0) \<and>
   (\<exists>t. (''f1'', t) \<in> set (live_set 700000 ''f9'' two_wait) \<and> (\<forall>x \<in> set (live_set 700000 ''f9'' two_wait). t \<le> snd x)) \<and>
   length (live_set 700000 ''f9'' two_wait) = 2"
proof -
  have o: "sets_ok queue_demo" by (simp add: sets_ok_def queue_demo_def)
  have p: "popNextQueuedCaller 700000 True idle ''f9'' two_wait = (Some (''f1'', ''u1'', 0), one_rings)"
    using pop_answer by (simp add: prod_eq_iff one_rings_def)
  show ?thesis using longest_waiting_is_rung_first [THEN conjunct1, OF demo_run(1) o p] pop_answer pop_effect(4) by simp
qed

lemma stale_head:
  "live_set 1000000 ''f9'' two_wait = [(''f1'', 0), (''f2'', 600000)]"
  "list_all (\<lambda>e. waits ''f9'' ''f1'' e \<longrightarrow> qe_expiresAt e \<le> 1000000) (q_entries two_wait)"
  "find_index (waits ''f9'' ''f1'') (q_entries two_wait) = Some 0"
  "fst (isVipActive (vip_at 1000000) idle ''u1'' (q_vip two_wait))"
  "map (\<lambda>e. (qe_caller e, qe_status e, qe_expiresAt e)) (q_entries two_wait) =
     [(''f1'', q_waiting, 900000), (''f2'', q_waiting, 1500000)]"
  by code_simp+

theorem expired_head_wastes_the_turn_witness:
  "fst (popNextQueuedCaller 1000000 True idle ''f9'' two_wait) = None \<and>
   (\<exists>v. enqueueVipCaller (vip_at 1000000) True idle idle ''f9'' ''f1'' ''u1'' ''call3'' (snd (popNextQueuedCaller 1000000 True idle ''f9'' two_wait)) =
     (Inr (Some (0, 0)), v))"
proof -
  have a: "isVipActive (vip_at 1000000) idle ''u1'' (q_vip two_wait) = (True, snd (isVipActive (vip_at 1000000) idle ''u1'' (q_vip two_wait)))"
    using stale_head(4) by (simp add: prod_eq_iff)
  have e: "\<forall>e \<in> set (q_entries two_wait). waits ''f9'' ''f1'' e \<longrightarrow> qe_expiresAt e \<le> 1000000"
    using stale_head(2) by (simp add: list_all_iff)
  have d: "distinct (map fst [(''f1'', 0 :: int), (''f2'', 600000)])" by simp
  have p: "popNextQueuedCaller 1000000 True idle ''f9'' two_wait =
    (fst (popNextQueuedCaller 1000000 True idle ''f9'' two_wait), snd (popNextQueuedCaller 1000000 True idle ''f9'' two_wait))" by simp
  note t = expired_head_wastes_the_turn [OF stale_head(1) e stale_head(3) d p TrueI a]
  show ?thesis using t [of "''call3''"] by auto
qed

lemma scheduled_facts:
  "map_sum id a_id (vip_request_user (vip_at 5000) (Some ''f9'') call_scheduled) = Inr ''u9''"
  "map_option co_id (creator_of_user ''u9'' call_scheduled) = Some ''k1''"
  "map_option (\<lambda>s. (sc_creatorId s, sc_callerUserId s)) (call_at 0 call_scheduled) = Some (''k1'', ''u1'')"
  "map_option sc_status (call_at 0 call_scheduled) = Some pending_creator"
  by code_simp+

theorem creators_cannot_cancel_witness:
  "fst (cancelScheduledCallHandler (vip_at 5000) idle (Some ''f9'') 0 call_scheduled) = (403, ''FORBIDDEN'')"
proof -
  obtain u where u: "vip_request_user (vip_at 5000) (Some ''f9'') call_scheduled = Inr u" "a_id u = ''u9''"
    using scheduled_facts(1) by (cases "vip_request_user (vip_at 5000) (Some ''f9'') call_scheduled") auto
  obtain k where k: "creator_of_user (a_id u) call_scheduled = Some k" "co_id k = ''k1''" using scheduled_facts(2) u(2) by auto
  obtain s where s: "call_at 0 call_scheduled = Some s" "sc_creatorId s = ''k1''" "sc_callerUserId s = ''u1''" using scheduled_facts(3) by auto
  from creators_cannot_cancel [OF u(1) k(1) s(1), of idle] u(2) k(2) s(2,3) show ?thesis by simp
qed

theorem cancelled_call_is_confirmed_witness:
  "\<exists>st'. map_option (\<lambda>s. (sc_status s, sc_cancelledAt s)) (call_at 0 st') = Some (confirmed, Some 5000)"
proof -
  obtain s where s: "call_at 0 call_scheduled = Some s" "sc_status s = pending_creator" using scheduled_facts(4) by auto
  obtain r st' where c: "confirmScheduledCall 5000 (\<lambda>_ z. snd (cancelScheduledCall 5000 idle 0 (sc_callerUserId s) False z)) 0 (sc_creatorId s) call_scheduled = (r, st')"
    by (meson surj_pair)
  from cancelled_call_is_confirmed(2) [OF s c] show ?thesis by auto
qed

end
