(* ===== verification/Spec2Isabelle.thy ===== *)
theory Spec2Isabelle
  imports FinalizerFlow PurchaseFlow PayoutPages RewardCases VipQueueCases
begin

text \<open>
  Verification of the call billing, the coin purchases, the payouts, the rewards and the VIP
  membership of the VibeMeet backend
  (TypeScript, \<open>src/src\<close>).

  A user calls a creator and pays per second in micro-coins. A call is reserved, promoted to a
  billed session in Redis, charged by a worker every second under a lock, and settled once in Mongo
  when it ends. The development models this path, one theory per part of the code, on explicit
  state; the stores' failures, the clocks, other workers' writes and third-party answers are
  arguments.

  \<^bold>\<open>Theories.\<close>
  \<^item> \<open>Prelude\<close>: JavaScript numbers and strings (\<open>Number(x) || 0\<close>, \<open>Math.round\<close>, \<open>parseInt\<close>, \<open>trim\<close>),
    named collections, generic lemmas. Integers are \<open>int\<close>: the code only forms integers, and
    \<open>TickRefinement.tick_arith_safe\<close> bounds the products of a tick below \<open>2 ^ 53\<close>.
  \<^item> \<open>EnvConfig\<close>: \<open>billing.constants.ts\<close>, \<open>billing-phase-flags.ts\<close>, \<open>free-call.config.ts\<close>,
    \<open>pricing.config.ts\<close>. The locale \<open>bounded_reader\<close> is the contract of a clamped setting.
  \<^item> \<open>Money\<close>: micro-coins, price tiers and pricing snapshots, splits and staff cuts.
  \<^item> \<open>Lifecycle\<close>: the billing and the call state machines (locale \<open>transition_table\<close>).
  \<^item> \<open>Session\<close>: the Redis session, its migrations, and the Mongo checkpoint.
  \<^item> \<open>Locks\<close>, \<open>CallSlots\<close>, \<open>Ownership\<close>: the Redis keys that exclude concurrent work (locale
    \<open>token_lock\<close>); reservation of participants; the worker that owns a call.
  \<^item> \<open>Resilience\<close>: \<open>retry.ts\<close>, \<open>circuit-breaker.ts\<close>, \<open>billing-backpressure.ts\<close>.
  \<^item> \<open>Bootstrap\<close>: \<open>promoteBootstrappingSession\<close> and the pricing repair.
  \<^item> \<open>BillingTick\<close>: \<open>_processBillingCycleInternal\<close>, \<open>processBillingTick\<close>, \<open>flushBillingToQuiescence\<close>.
  \<^item> \<open>TickRefinement\<close>: the abstract metering machine \<open>acct_step\<close>, and that the cycle refines it; the
    locale \<open>metered_driver\<close> carries the facts about sequences of cycles.
  \<^item> \<open>WalletFrame\<close>: billing writes no user or creator document.
  \<^item> \<open>DurableSession\<close>: \<open>call-session.service.ts\<close>, \<open>billing-persist.service.ts\<close>, the ledger.
  \<^item> \<open>Settlement\<close>, \<open>SettlementProofs\<close>, \<open>SettleFlow\<close>: \<open>billing-settlement.service.ts\<close> with the totals and
    commission services, the faults of a transaction as a schedule, and what a settlement
    guarantees.
  \<^item> \<open>Finalizer\<close>, \<open>FinalizerProofs\<close>, \<open>FinalizerFlow\<close>: \<open>billing-session-finalization.service.ts\<close>, the whole
    run of \<open>finalizeCallSession\<close> with its in-flight key, claims, flush, settlement, cleanup, retry queue
    and dead letter, on \<open>fin_state\<close>; what other workers and failing stores do to a run is \<open>fin_env\<close>.
  \<^item> \<open>CoinStore\<close>: wallets, the \<open>CoinTransaction\<close> ledger and the audit of \<open>balance-integrity.ts\<close>; the locale
    \<open>audited\<close> is the contract of whatever moves coins.
  \<^item> \<open>Purchases\<close>, \<open>Checkout\<close>: the web checkout of \<open>payment.controller.ts\<close> with the finalization, the
    reconciliation and its sweep, the webhook and its retries. Razorpay is \<open>pay_env\<close>: what it answers for
    a payment, an order or a signature.
  \<^item> \<open>PurchaseProofs\<close>, \<open>PurchaseFlow\<close>: the handlers in any order as \<open>purchase_step\<close>, which is \<open>audited\<close>,
    and what a payment guarantees.
  \<^item> \<open>Withdrawals\<close>, \<open>Payouts\<close>: requests for a payout by creators and staff, payout accounts
    (\<open>staff-wallet-portal.service.ts\<close>, \<open>creator.controller.ts\<close>), approval, rejection and payout
    (\<open>withdrawal-processing.service.ts\<close>) as lists of separate writes that \<open>run_writes\<close> executes with what
    others do in between and with a store that may fail, and \<open>staff-wallet-reconciliation.service.ts\<close>.
  \<^item> \<open>PayoutProofs\<close>, \<open>PayoutFlow\<close>, \<open>PayoutPages\<close>: the handlers in any order as \<open>payout_step\<close>, what holds
    when each runs undisturbed, and what interference and failures do.
  \<^item> \<open>Rewards\<close>: \<open>consumer-rewards/\<close>, the tasks with their configuration and eligibility, the two crediting
    transactions, the hooks and the claim of the hub. \<open>CheckIn\<close>: \<open>checkin/\<close>, and the reward of a referral on
    its two paths (\<open>hooks.ts\<close>, \<open>referral.service.ts\<close>) as processes of single writes. \<open>Affiliate\<close>:
    \<open>creator-referral/\<close>, three stages per edge and the sweep. \<open>Telegram\<close>: \<open>telegram-reward/\<close>, the signed link
    as bytes, linking and the claim; the HMAC is a parameter.
  \<^item> \<open>TelegramFlow\<close>, \<open>RewardProofs\<close>, \<open>RewardFlow\<close>, \<open>AffiliateFlow\<close>, \<open>RewardCases\<close>: encoding and decoding of the link,
    the hooks in any order as \<open>reward_step\<close> and the affiliates as \<open>affiliate_step\<close>, both \<open>audited\<close>, referrals
    under interleaving as \<open>referral_system\<close>, and concrete cases.
  \<^item> \<open>VipPlans\<close>, \<open>Vip\<close>, \<open>VipPurchase\<close>, \<open>VipQueue\<close>: \<open>modules/vip/\<close>, the plans, the entitlement with its cache in
    Redis, the order, verification, webhook and finalization of a membership, the queue of callers
    (a sorted set per creator and its entries) and the scheduled calls.
  \<^item> \<open>VipFlow\<close>, \<open>VipOrders\<close>, \<open>VipEntitlement\<close>, \<open>VipCache\<close>, \<open>VipQueueFlow\<close>, \<open>VipQueueCases\<close>: what plans, orders, the
    cache and the queue guarantee. The locale \<open>wallet_kept\<close> is what VIP operations may do to wallets, the
    locale \<open>queue_kept\<close> the commands the queue is made of, \<open>queue_run\<close> every interleaving of them.

  \<^bold>\<open>State.\<close> A \<open>record\<close> per store: \<open>slot_state\<close> (Redis strings and sessions) is extended by
  \<open>billing_state\<close> (balance keys, checkpoints, price cache, user and creator documents, audit rows,
  backpressure), which \<open>settle_state\<close> holds as \<open>core\<close> beside the durable sessions, coin transactions,
  staff ledger and call history. \<open>pay_state\<close> holds the \<open>coin_store\<close> beside checkout contexts and stored
  webhook events, \<open>wd_state\<close> beside requests, hosts, the staff ledger and payout accounts,
  \<open>reward_state\<close> beside the other fields of users, task progress and check-in states, \<open>affiliate_state\<close> beside edges,
  \<open>vip_state\<close> holds a \<open>pay_state\<close> beside plans, memberships and the cache, and \<open>queue_state\<close> holds a \<open>vip_state\<close>. A \<open>worker\<close> carries what one invocation sees: environment, clock
  readings, and whether the stores answer. Operations return the new state, a result (errors are
  values) and the events they emit.

  \<^bold>\<open>Loops.\<close> Every loop of the code is bounded, and the bound is the fuel of the model: three retries
  of a tick, 50 iterations of the flush, three attempts of the settlement transaction, five attempts
  of the lifecycle checkpoint, one poll of a running settlement per 500 ms of the poll limit. A run of
  the retry queue takes the payloads it found once each, as do a batch of webhook retries and of the
  payment sweep. A path of a referral has four operations.

  \<^bold>\<open>Results.\<close> Charging conserves money and never exceeds the elapsed time or the balance; the cycle is
  exclusive per call; participants are not booked twice; a settlement claim is exclusive while
  fresh; the payer is debited exactly once under every schedule of faults, for the amount metered;
  replaying a transaction moves nothing; a settled call stays settled. Over any sequence of finalizer
  runs money moves at most once per call; a run leaves no key that carries its tokens; a run that
  answers settled leaves nothing to settle; an undisturbed run of a ready call settles it; retries are
  bounded and the dead letter stops them. Over any sequence of payment handlers a wallet is what its
  completed rows add up to, a payment is credited by its first finalization only, and an order whose
  rows were lost is credited from its notes. Undisturbed payouts are accounted for in wallets and
  ledgers, a paid or rejected request is final, and the reconciliation brings staff wallets in line with
  their ledger. A task that pays once pays once whatever events trigger it, a referral is paid at most
  once by its two paths under every interleaving, check-ins on different days pay the cycle in order, a
  sweep of the affiliate program that reaches every edge leaves nothing due, and a Telegram link is
  accepted for its user until it expires. No VIP operation moves a coin; an order without a row is
  activated once; the cached entitlement is late by at most a minute while requests do not overlap;
  callers are rung in the order in which they joined, nobody is rung twice and no call announced twice. Several theorems state
  behaviour that looks unintended (a lost creator credit after a conflict, a charge dropped at the
  duration limit, time charged twice after a repair, a settlement lock kept by a failed settlement,
  a reconnect that reopens a claim, a ledger starved by the mirror, a dead letter that drops the slot
  of another call, a rebuilt session that forgets its charge, a refused signature that reopens a
  credited payment, a webhook that is retried for ever, a payout that is debited again
  after a failed write, requests filed at the same time that are both accepted, a referral reward that a failed transaction
  loses for good, coins of a referral without a row, purchases the affiliate sweep never reaches, a
  Telegram account linked twice, a paid VIP order that is never activated, a failed one that is activated
  any number of times, one that the webhook of the coins swallows, a renewal and a revocation lost beside
  a check, a queue whose expired head wastes the turn, creators who cannot cancel).

  \<^bold>\<open>Not modelled.\<close> Expiry of Redis keys by time (a key vanishing is an event of the lock theories),
  BullMQ scheduling, sockets and HTTP, Stream, metrics and logs. \<open>advanceBillingCheckpointCursor\<close> is
  a parameter. Of the payments: the administration of packs and the pages. Of the payouts: masked
  account numbers and the action log. Of the VIP membership: lists, statistics
  and the text of links. Of the rewards: the pages, metrics, reminders and the cache of
  the configuration; a duplicate key inside a transaction is answered as the code expects, with the
  transaction going on.
  Forced termination and the sweeps that look at a call from outside its own billing
  (\<open>billing-runtime-resolver\<close>, \<open>billing-recovery-gate\<close>, the retry queue of the termination
  service, the watchdog, \<open>billing-reconciliation\<close>) are not modelled either. They begin
  settlements and finalizations, at times the models of those leave open; but they also rebuild a
  session, give up on a call and overwrite a balance on their own, and no theorem here covers those
  writes. Of the rebuilding only the one the finalizer performs from its checkpoint is here.
\<close>

end
